(* ===== verification/Api_Error.thy ===== *)
theory Api_Error
  imports Prelude
begin

text \<open>
  The error vocabulary of the REST API (\<open>rest-api/src/lib.rs\<close>): \<open>ApiErrorStatus\<close>, its HTTP status
  code and its wire string, the JSON error body \<open>ApiError\<close>, and the responses of the handlers.

  Axum builds \<open>(StatusCode, T).into_response()\<close> by building the response of \<open>T\<close> and overwriting its
  status; \<open>with_status\<close> is that overwrite, so a handler that answers \<open>(422, UnknownFailure(e))\<close> sends
  422 although \<open>UnknownFailure\<close> alone would send 500.
\<close>

datatype api_error_status =
    InvalidInput
  | InvalidInputDetail string
  | InvalidChannelId
  | PeerNotFound
  | ChannelNotFound
  | TicketsNotFound
  | Timeout
  | PingError string
  | Unauthorized
  | InvalidQuality
  | NotReady
  | ListenHostAlreadyUsed
  | SessionNotFound
  | InvalidSessionId
  | UnknownFailure string

text \<open>The wire string: \<open>strum\<close>'s \<open>SCREAMING_SNAKE_CASE\<close> rendering of the variant names, with the two
  explicit \<open>serialize\<close> attributes.\<close>

fun status_string :: "api_error_status \<Rightarrow> string" where
  "status_string InvalidInput = ''INVALID_INPUT''"
| "status_string (InvalidInputDetail e) = ''INVALID_INPUT''"
| "status_string InvalidChannelId = ''INVALID_CHANNEL_ID''"
| "status_string PeerNotFound = ''PEER_NOT_FOUND''"
| "status_string ChannelNotFound = ''CHANNEL_NOT_FOUND''"
| "status_string TicketsNotFound = ''TICKETS_NOT_FOUND''"
| "status_string Timeout = ''TIMEOUT''"
| "status_string (PingError e) = ''PING_ERROR''"
| "status_string Unauthorized = ''UNAUTHORIZED''"
| "status_string InvalidQuality = ''INVALID_QUALITY''"
| "status_string NotReady = ''NOT_READY''"
| "status_string ListenHostAlreadyUsed = ''LISTEN_HOST_ALREADY_USED''"
| "status_string SessionNotFound = ''SESSION_NOT_FOUND''"
| "status_string InvalidSessionId = ''INVALID_SESSION_ID''"
| "status_string (UnknownFailure e) = ''UNKNOWN_FAILURE''"

fun error_detail :: "api_error_status \<Rightarrow> string option" where
  "error_detail (UnknownFailure e) = Some e"
| "error_detail (PingError e) = Some e"
| "error_detail (InvalidInputDetail e) = Some e"
| "error_detail _ = None"

record api_error =
  ae_status :: string
  ae_error :: "string option"

definition to_api_error :: "api_error_status \<Rightarrow> api_error" where
  "to_api_error e = \<lparr> ae_status = status_string e, ae_error = error_detail e \<rparr>"

fun status_code :: "api_error_status \<Rightarrow> nat" where
  "status_code Unauthorized = 401"
| "status_code InvalidInput = 400"
| "status_code (InvalidInputDetail e) = 400"
| "status_code InvalidChannelId = 400"
| "status_code InvalidSessionId = 400"
| "status_code PeerNotFound = 404"
| "status_code ChannelNotFound = 404"
| "status_code TicketsNotFound = 404"
| "status_code SessionNotFound = 404"
| "status_code Timeout = 408"
| "status_code ListenHostAlreadyUsed = 409"
| "status_code NotReady = 412"
| "status_code InvalidQuality = 422"
| "status_code (PingError e) = 422"
| "status_code (UnknownFailure e) = 500"

section \<open>Responses\<close>

datatype 'b body = Body_Empty | Body_Json 'b | Body_Err api_error | Body_Text string

datatype 'b response = Response (resp_status: nat) (resp_body: "'b body")

definition err_response :: "api_error_status \<Rightarrow> 'b response" where
  "err_response e = Response (status_code e) (Body_Err (to_api_error e))"

text \<open>The level at which \<open>into_response\<close> logs the error.\<close>

datatype log_level = Log_None | Log_Warn | Log_Error

definition err_log_level :: "api_error_status \<Rightarrow> log_level" where
  "err_log_level e =
     (let s = status_code e
      in if 400 \<le> s \<and> s < 500 then Log_Warn
         else if 500 \<le> s \<and> s < 600 then Log_Error else Log_None)"

definition with_status :: "nat \<Rightarrow> 'b response \<Rightarrow> 'b response" where
  "with_status s r = Response s (resp_body r)"

definition status_err :: "nat \<Rightarrow> api_error_status \<Rightarrow> 'b response" where
  "status_err s e = with_status s (err_response e)"

definition json_ok :: "nat \<Rightarrow> 'b \<Rightarrow> 'b response" where
  "json_ok s b = Response s (Body_Json b)"

definition status_only :: "nat \<Rightarrow> 'b response" where
  "status_only s = Response s Body_Empty"

text \<open>\<open>impl IntoResponse for ApiError\<close> and the blanket \<open>From\<close> conversions of library errors, which
  keep the error's \<open>Display\<close> string.\<close>

definition api_error_response :: "api_error \<Rightarrow> 'b response" where
  "api_error_response e = Response 500 (Body_Err e)"

definition unknown_failure_of :: "('e \<Rightarrow> string) \<Rightarrow> 'e \<Rightarrow> api_error_status" where
  "unknown_failure_of disp e = UnknownFailure (disp e)"

definition api_error_of :: "('e \<Rightarrow> string) \<Rightarrow> 'e \<Rightarrow> api_error" where
  "api_error_of disp e =
     \<lparr> ae_status = status_string (UnknownFailure ''unknown error''), ae_error = Some (disp e) \<rparr>"

lemmas response_defs [handler_defs] =
  err_response_def with_status_def status_err_def json_ok_def status_only_def

lemma status_err_status [simp]: "resp_status (status_err s e) = s"
  by (simp add: response_defs)

lemma status_err_body [simp]: "resp_body (status_err s e) = Body_Err (to_api_error e)"
  by (simp add: response_defs)

lemma json_ok_sel [simp]: "resp_status (json_ok s b) = s" "resp_body (json_ok s b) = Body_Json b"
  by (simp_all add: response_defs)

lemma json_ok_inject [simp]: "json_ok s b = json_ok t c \<longleftrightarrow> s = t \<and> b = c"
  by (auto simp: response_defs)

lemma status_only_sel [simp]:
  "resp_status (status_only s) = s" "resp_body (status_only s) = Body_Empty"
  by (simp_all add: response_defs)

lemma err_response_sel [simp]:
  "resp_status (err_response e) = status_code e"
  "resp_body (err_response e) = Body_Err (to_api_error e)"
  by (simp_all add: response_defs)

lemma status_code_range: "400 \<le> status_code e \<and> status_code e \<le> 500"
  by (cases e) auto

text \<open>The wire format determines the error up to the variants that share the wire string
  \<open>INVALID_INPUT\<close>, and those are told apart by the presence of a detail.\<close>

lemma to_api_error_inject: "to_api_error a = to_api_error b \<longleftrightarrow> a = b"
  by (cases a; cases b) (simp_all add: to_api_error_def)

lemma err_log_level_not_none: "err_log_level e \<noteq> Log_None"
  by (cases e) (simp_all add: err_log_level_def Let_def)

text \<open>The error envelope is lossless: a client recovers the variant and its detail.\<close>

lemma error_wire_format_lossless:
  "(err_response a :: 'b response) = err_response b \<longleftrightarrow> a = b"
  by (simp add: err_response_def to_api_error_inject) blast

end
