(* ===== verification/Api_Config.thy ===== *)
theory Api_Config
  imports Prelude
begin

text \<open>
  The REST API configuration (\<open>rest-api/src/config.rs\<close>): the authentication setting and its
  validation, the flow-control profile of client sessions, and the defaults of \<open>Api\<close>.

  \<open>HostConfig\<close> and its parser come from \<open>hopr_lib\<close>: a host is an IPv4 address or a domain name, both
  kept as text, with a port. The parser and the two flow-control profiles are parameters.
\<close>

datatype host_type = Host_IPv4 string | Host_Domain string

record host_config =
  hc_address :: host_type
  hc_port :: nat

datatype auth = Auth_None | Auth_Token string

datatype session_flow_control = FC_Off | FC_Clean | FC_Robust

record api =
  api_enable :: bool
  api_auth :: auth
  api_host :: host_config
  api_enable_explicit_path_sessions :: bool
  api_session_flow_control :: session_flow_control

definition default_api_host_str :: string where
  "default_api_host_str = ''127.0.0.1''"

definition default_api_port :: nat where
  "default_api_port = 3001"

definition minimal_api_token_length :: nat where
  "minimal_api_token_length = 8"

definition validate_api_auth :: "auth \<Rightarrow> (string, unit) res" where
  "validate_api_auth a =
     (case a of
        Auth_None \<Rightarrow> Ok ()
      | Auth_Token t \<Rightarrow>
          if minimal_api_token_length \<le> length t then Ok ()
          else Err ''The API token is too short'')"

text \<open>\<open>FlowControlConfig::default()\<close> and \<open>FlowControlConfig::robust()\<close> are library values; the code
  maps the profile to one of them.\<close>

fun to_config :: "'fc \<Rightarrow> 'fc \<Rightarrow> session_flow_control \<Rightarrow> 'fc option" where
  "to_config fc_default fc_robust FC_Off = None"
| "to_config fc_default fc_robust FC_Clean = Some fc_default"
| "to_config fc_default fc_robust FC_Robust = Some fc_robust"

text \<open>\<open>serde(rename_all = "lowercase")\<close>.\<close>

fun flow_control_name :: "session_flow_control \<Rightarrow> string" where
  "flow_control_name FC_Off = ''off''"
| "flow_control_name FC_Clean = ''clean''"
| "flow_control_name FC_Robust = ''robust''"

definition parse_flow_control :: "string \<Rightarrow> session_flow_control option" where
  "parse_flow_control s =
     (if s = ''off'' then Some FC_Off
      else if s = ''clean'' then Some FC_Clean
      else if s = ''robust'' then Some FC_Robust
      else None)"

definition default_api_host ::
  "(string \<Rightarrow> (string, host_config) res) \<Rightarrow> host_config option" where
  "default_api_host host_from_str =
     res_ok (host_from_str (default_api_host_str @ '':'' @ show_nat default_api_port))"

definition default_api :: "host_config \<Rightarrow> api" where
  "default_api h =
     \<lparr> api_enable = False, api_auth = Auth_None, api_host = h,
       api_enable_explicit_path_sessions = False,
       api_session_flow_control = FC_Robust \<rparr>"

lemma parse_flow_control_name [simp]: "parse_flow_control (flow_control_name f) = Some f"
  by (cases f) (simp_all add: parse_flow_control_def)

lemma validate_api_auth_ok_iff:
  "validate_api_auth a = Ok () \<longleftrightarrow> (\<forall>t. a = Auth_Token t \<longrightarrow> 8 \<le> length t)"
  by (cases a) (simp_all add: validate_api_auth_def minimal_api_token_length_def)

lemma to_config_None_iff: "to_config d r f = None \<longleftrightarrow> f = FC_Off"
  by (cases f) simp_all

end
