(* ===== verification/Auth_Gate.thy ===== *)
theory Auth_Gate
  imports Api_Config Api_Error
begin

text \<open>
  The authentication middleware (\<open>rest-api/src/middleware/auth.rs\<close>).

  A request's headers are a list of pairs: the name as the \<open>http\<close> crate normalises it (lower case),
  and the raw bytes of the value. \<open>HeaderValue::to_str\<close> accepts the visible ASCII characters and the
  tab. The next layer is a function from the request; an unauthorised request never reaches it.
\<close>

type_synonym headers = "(string \<times> string) list"

definition visible_ascii :: "char \<Rightarrow> bool" where
  "visible_ascii c \<longleftrightarrow> (let n = (of_char c :: nat) in 32 \<le> n \<and> n < 127 \<or> n = 9)"

definition header_to_str :: "string \<Rightarrow> string option" where
  "header_to_str v = (if list_all visible_ascii v then Some v else None)"

definition header_grants :: "string \<Rightarrow> string \<times> string \<Rightarrow> bool" where
  "header_grants expected nv =
     (case header_to_str (snd nv) of
        None \<Rightarrow> False
      | Some v \<Rightarrow>
          if fst nv = ''authorization'' then
            (case split_once (CHR '' '') v of
               None \<Rightarrow> False
             | Some (scheme, token) \<Rightarrow> eq_ignore_ascii_case scheme ''bearer'' \<and> token = expected)
          else if fst nv = ''x-auth-token'' then v = expected
          else False)"

fun is_authorized :: "auth \<Rightarrow> headers \<Rightarrow> bool" where
  "is_authorized (Auth_Token expected) hs = list_ex (header_grants expected) hs"
| "is_authorized Auth_None hs = True"

text \<open>A handler returns the calls it makes on the node and its response.\<close>

type_synonym ('c, 'b) handled = "'c list \<times> 'b response"

definition authenticate ::
  "auth \<Rightarrow> headers \<Rightarrow> 'req \<Rightarrow> ('req \<Rightarrow> ('c, 'b) handled) \<Rightarrow> ('c, 'b) handled" where
  "authenticate auth hs req run =
     (if \<not> is_authorized auth hs then ([], status_err 401 Unauthorized) else run req)"

section \<open>Lemmas\<close>

lemma header_to_str_Some_iff: "header_to_str v = Some w \<longleftrightarrow> w = v \<and> list_all visible_ascii v"
  by (auto simp: header_to_str_def)

lemma ascii_lower_space_iff: "ascii_lower c = CHR '' '' \<longleftrightarrow> c = CHR '' ''"
proof -
  have "ascii_lower c \<noteq> CHR '' ''" if "65 \<le> (of_char c :: nat)" "(of_char c :: nat) \<le> 90"
  proof
    assume "ascii_lower c = CHR '' ''"
    with that have "(of_char (char_of (of_char c + 32 :: nat)) :: nat) = of_char (CHR '' '')"
      by (simp add: ascii_lower_def Let_def)
    with that show False by simp
  qed
  then show ?thesis by (auto simp: ascii_lower_def Let_def split: if_splits)
qed

lemma lowercase_no_space:
  "ascii_lowercase s = ascii_lowercase t \<Longrightarrow> CHR '' '' \<notin> set t \<Longrightarrow> CHR '' '' \<notin> set s"
proof -
  assume eq: "ascii_lowercase s = ascii_lowercase t" and t: "CHR '' '' \<notin> set t"
  show "CHR '' '' \<notin> set s"
  proof
    assume "CHR '' '' \<in> set s"
    then have "ascii_lower (CHR '' '') \<in> set (ascii_lowercase s)"
      by (simp add: ascii_lowercase_def)
    with eq have "ascii_lower (CHR '' '') \<in> set (ascii_lowercase t)" by simp
    then obtain c where "c \<in> set t" "ascii_lower c = ascii_lower (CHR '' '')"
      by (auto simp: ascii_lowercase_def)
    then show False
      using t by (metis ascii_lower_space_iff)
  qed
qed

lemma bearer_split_iff:
  "(case split_once (CHR '' '') v of None \<Rightarrow> False
     | Some (scheme, token) \<Rightarrow> eq_ignore_ascii_case scheme ''bearer'' \<and> token = t)
   \<longleftrightarrow> (\<exists>scheme. v = scheme @ '' '' @ t \<and> eq_ignore_ascii_case scheme ''bearer'')"
proof -
  have nosp: "CHR '' '' \<notin> set s" if "eq_ignore_ascii_case s ''bearer''" for s
    using that by (intro lowercase_no_space [of s "''bearer''"])
      (simp_all add: eq_ignore_ascii_case_def)
  show ?thesis (is "?L \<longleftrightarrow> ?R")
  proof
    assume ?L
    then show ?R by (auto simp: split_once_Some_iff split: option.splits)
  next
    assume ?R
    then obtain scheme where "v = scheme @ '' '' @ t" "eq_ignore_ascii_case scheme ''bearer''"
      by blast
    then show ?L using nosp [of scheme] by simp
  qed
qed

lemma header_grants_iff:
  "header_grants t nv \<longleftrightarrow>
     list_all visible_ascii (snd nv) \<and>
     (fst nv = ''authorization'' \<and>
        (\<exists>scheme. snd nv = scheme @ '' '' @ t \<and> eq_ignore_ascii_case scheme ''bearer'')
      \<or> fst nv = ''x-auth-token'' \<and> snd nv = t)"
  by (cases "header_to_str (snd nv)")
     (auto simp: header_grants_def bearer_split_iff header_to_str_def split: if_splits)

lemma header_grants_visible: "header_grants t nv \<Longrightarrow> list_all visible_ascii t"
  by (auto simp: header_grants_iff)

lemma authenticate_denied:
  "\<not> is_authorized a hs \<Longrightarrow> authenticate a hs req run = ([], status_err 401 Unauthorized)"
  by (simp add: authenticate_def)

lemma authenticate_granted:
  "is_authorized a hs \<Longrightarrow> authenticate a hs req run = run req"
  by (simp add: authenticate_def)

text \<open>C2: The authentication gate is exact. With a configured token a request is let through if and
  only if one of its headers has only visible ASCII bytes and either is \<open>Authorization\<close> with the
  scheme \<open>bearer\<close> in any case, one space and exactly the token, or is \<open>X-Auth-Token\<close> with exactly the
  token.\<close>

theorem is_authorized_exact:
  "is_authorized (Auth_Token t) hs \<longleftrightarrow>
     (\<exists>n v. (n, v) \<in> set hs \<and> list_all visible_ascii v \<and>
        (n = ''authorization'' \<and>
           (\<exists>scheme. v = scheme @ '' '' @ t \<and> eq_ignore_ascii_case scheme ''bearer'')
         \<or> n = ''x-auth-token'' \<and> v = t))"
  by (simp add: list_ex_iff header_grants_iff Bex_def)

text \<open>A token that contains a byte outside visible ASCII passes the configuration's validation when
  it is long enough, but no request can ever authenticate with it: every request to a protected
  route is answered 401 without reaching its handler.\<close>

theorem non_ascii_token_locks_out:
  assumes "8 \<le> length t" and "\<not> list_all visible_ascii t"
  shows "validate_api_auth (Auth_Token t) = Ok ()
    \<and> authenticate (Auth_Token t) hs req run = ([], status_err 401 Unauthorized)"
proof
  show "validate_api_auth (Auth_Token t) = Ok ()"
    using assms(1) by (simp add: validate_api_auth_ok_iff)
  have "\<not> is_authorized (Auth_Token t) hs"
    using assms(2) header_grants_visible by (auto simp: list_ex_iff)
  then show "authenticate (Auth_Token t) hs req run = ([], status_err 401 Unauthorized)"
    by (rule authenticate_denied)
qed

theorem non_ascii_token_locks_out_witness:
  "validate_api_auth (Auth_Token [CHR ''p'', CHR 0xC3, CHR 0xA9, CHR ''s'', CHR ''s'', CHR ''e'',
      CHR ''d'', CHR ''e'']) = Ok ()
   \<and> authenticate (Auth_Token [CHR ''p'', CHR 0xC3, CHR 0xA9, CHR ''s'', CHR ''s'', CHR ''e'',
      CHR ''d'', CHR ''e''])
      [(''x-auth-token'', [CHR ''p'', CHR 0xC3, CHR 0xA9, CHR ''s'', CHR ''s'', CHR ''e'',
        CHR ''d'', CHR ''e''])] (0::nat) (\<lambda>n. ([n], status_only 200))
      = ([], status_err 401 Unauthorized :: nat response)"
  using non_ascii_token_locks_out [of "[CHR ''p'', CHR 0xC3, CHR 0xA9, CHR ''s'', CHR ''s'', CHR ''e'',
      CHR ''d'', CHR ''e'']"]
  by (simp add: visible_ascii_def Let_def)

end
