(* ===== verification/Node_Types.thy ===== *)
theory Node_Types
  imports Api_Error
begin

text \<open>
  The node as the REST handlers see it. The node itself (\<open>hopr_lib\<close>) is not part of this repository: its
  operations are the fields of the record \<open>node\<close>, functions of their arguments that return what the
  handlers match on. Errors keep the text of their \<open>Display\<close> and the one distinction the handlers
  make (\<open>NotReady\<close>, the variants of a failed ping). A handler that asks the node to change something
  records the call in a trace, a \<open>node_call list\<close>.

  Addresses, hashes and public keys are words of their width, only compared and carried. Floating
  point observations are the 64 bits of the \<open>f64\<close>, only carried. Balances are amounts in base units.
\<close>

type_synonym address = "160 word"
type_synonym hash = "256 word"
type_synonym offchain_key = "256 word"
type_synonym peer_id = string
type_synonym multiaddr = string
type_synonym balance = nat
type_synonym f64 = "64 word"

section \<open>Errors of the node\<close>

datatype lib_error = LE_NotReady string | LE_Other string

fun lib_error_display :: "lib_error \<Rightarrow> string" where
  "lib_error_display (LE_NotReady s) = s"
| "lib_error_display (LE_Other s) = s"

text \<open>\<open>EitherErr\<close>: the chain connector's error on the left, the node's own on the right.\<close>

datatype either_err = EE_Left string | EE_Right lib_error

fun either_err_display :: "either_err \<Rightarrow> string" where
  "either_err_display (EE_Left s) = s"
| "either_err_display (EE_Right e) = lib_error_display e"

datatype transport_error =
    TE_ProtocolTimeout
  | TE_ProbeTraffic string
  | TE_ProbePinger string
  | TE_ProbeNonExistingPeer
  | TE_Other string

section \<open>Channels, peers, observations\<close>

datatype channel_status = CS_Closed | CS_Open | CS_PendingToClose nat

record channel_entry =
  ce_id :: hash
  ce_source :: address
  ce_destination :: address
  ce_balance :: balance
  ce_status :: channel_status
  ce_ticket_index :: "64 word"
  ce_channel_epoch :: "32 word"
  ce_closure_time_at :: "64 word option"

record immediate_qos =
  iq_is_connected :: "bool option"
  iq_probe_rate :: "f64 option"
  iq_latency_ms :: "nat option"

record observation =
  ob_immediate :: "immediate_qos option"
  ob_last_update_ms :: nat
  ob_score :: "f64 option"
  ob_intermediate_balance :: "balance option option"

type_synonym edge = "offchain_key \<times> offchain_key \<times> observation"

record announced_account =
  aa_chain_addr :: address
  aa_multiaddrs :: "multiaddr list"

record channel_stats =
  cst_winning_tickets :: nat
  cst_unredeemed :: balance
  cst_neglected :: balance
  cst_rejected :: balance

datatype hopr_state = HS_Running | HS_NotRunning string

datatype health = Health_Unknown | Health_Red | Health_Orange | Health_Yellow | Health_Green

datatype component_status =
    Comp_Ready
  | Comp_Initializing string
  | Comp_Degraded string
  | Comp_Unavailable string

fun is_unavailable :: "component_status \<Rightarrow> bool" where
  "is_unavailable (Comp_Unavailable d) = True"
| "is_unavailable _ = False"

fun is_degraded :: "component_status \<Rightarrow> bool" where
  "is_degraded (Comp_Degraded d) = True"
| "is_degraded _ = False"

fun is_initializing :: "component_status \<Rightarrow> bool" where
  "is_initializing (Comp_Initializing d) = True"
| "is_initializing _ = False"

section \<open>The node\<close>

text \<open>The read operations the handlers call, by the trait that offers them.\<close>

record node_status_view =
  nd_me :: address
  nd_safe :: address
  nd_state :: hopr_state
  nd_health :: health
  nd_chain_status :: component_status
  nd_network_status :: component_status
  nd_transport_status :: component_status

record node_channel_view = node_status_view +
  nd_stream_channels :: "(lib_error, channel_entry list) res"
  nd_channels_to :: "address \<Rightarrow> (lib_error, channel_entry list) res"
  nd_channels_from :: "address \<Rightarrow> (lib_error, channel_entry list) res"
  nd_channel :: "address \<Rightarrow> address \<Rightarrow> (lib_error, channel_entry option) res"

record node_funds_view = node_channel_view +
  nd_native_balance :: "(lib_error, balance) res"
  nd_hopr_balance :: "(lib_error, balance) res"
  nd_safe_native :: "(lib_error, balance) res"
  nd_safe_hopr :: "(lib_error, balance) res"
  nd_safe_allowance :: "(lib_error, balance) res"
  nd_ticket_price :: "(lib_error, balance) res"
  nd_win_prob :: "(lib_error, f64) res"
  nd_ticket_stats :: "hash \<Rightarrow> (string, channel_stats) res"
  nd_ticket_statistics :: "(string, channel_stats) res"

record node_peer_view = node_funds_view +
  nd_chain_key_to_packet_key :: "address \<Rightarrow> (lib_error, offchain_key option) res"
  nd_packet_key_to_chain_key :: "offchain_key \<Rightarrow> (lib_error, address option) res"
  nd_announced_peers :: "(lib_error, announced_account list) res"
  nd_accounts_with_key :: "offchain_key \<Rightarrow> (lib_error, announced_account list) res"
  nd_multiaddress_of :: "peer_id \<Rightarrow> multiaddr list option"
  nd_peer_id :: "offchain_key \<Rightarrow> peer_id"

record node = node_peer_view +
  nd_listening_as :: "multiaddr list"
  nd_graph_identity :: offchain_key
  nd_connected_edges :: "edge list"
  nd_reachable_edges :: "edge list"
  nd_chain_info_network :: "(lib_error, string) res"
  nd_closure_period_secs :: "(lib_error, nat) res"

text \<open>The operations that send a transaction or a message, and what the node answers. The receipt of
  an opened channel may lack the channel id.\<close>

record node_ops =
  no_open_channel :: "address \<Rightarrow> balance \<Rightarrow> (either_err, hash option \<times> hash) res"
  no_close_channel :: "hash \<Rightarrow> (either_err, hash) res"
  no_fund_channel :: "hash \<Rightarrow> balance \<Rightarrow> (either_err, hash) res"
  no_withdraw_native :: "address \<Rightarrow> balance \<Rightarrow> (lib_error, hash) res"
  no_withdraw_hopr :: "address \<Rightarrow> balance \<Rightarrow> (lib_error, hash) res"
  no_ping :: "offchain_key \<Rightarrow> (transport_error, nat) res"

text \<open>\<open>Display\<close> of the library's types.\<close>

record displays =
  dp_checksum :: "address \<Rightarrow> string"
  dp_address :: "address \<Rightarrow> string"
  dp_hash :: "hash \<Rightarrow> string"
  dp_key :: "offchain_key \<Rightarrow> string"
  dp_balance :: "balance \<Rightarrow> string"
  dp_score2 :: "f64 \<Rightarrow> string"
  dp_state :: "hopr_state \<Rightarrow> string"
  dp_health :: "health \<Rightarrow> string"
  dp_component :: "component_status \<Rightarrow> string"
  dp_transport_error :: "transport_error \<Rightarrow> string"

datatype node_call =
    NC_OpenChannel address balance
  | NC_CloseChannel hash
  | NC_FundChannel hash balance
  | NC_WithdrawNative address balance
  | NC_WithdrawHopr address balance
  | NC_RedeemWithCounterparty address nat
  | NC_RedeemAll nat
  | NC_Ping offchain_key

text \<open>The calls that move funds on chain; a ping does not.\<close>

fun is_chain_write :: "node_call \<Rightarrow> bool" where
  "is_chain_write (NC_Ping k) = False"
| "is_chain_write _ = True"

section \<open>A sample node\<close>

text \<open>A small node for evaluating the handlers: one open and one closed incoming channel, one closed
  outgoing channel, and one connected neighbour whose key is its address.\<close>

definition sample_channel :: "hash \<Rightarrow> address \<Rightarrow> address \<Rightarrow> channel_status \<Rightarrow> channel_entry" where
  "sample_channel i s d st =
     \<lparr> ce_id = i, ce_source = s, ce_destination = d, ce_balance = 10, ce_status = st,
       ce_ticket_index = 0, ce_channel_epoch = 1, ce_closure_time_at = None \<rparr>"

definition sample_observation :: observation where
  "sample_observation =
     \<lparr> ob_immediate = Some \<lparr> iq_is_connected = Some True, iq_probe_rate = Some 1,
         iq_latency_ms = Some 20 \<rparr>,
       ob_last_update_ms = 1000, ob_score = Some 2, ob_intermediate_balance = None \<rparr>"

definition sample_node :: node where
  "sample_node =
     \<lparr> nd_me = 1, nd_safe = 2, nd_state = HS_Running, nd_health = Health_Green,
       nd_chain_status = Comp_Ready, nd_network_status = Comp_Ready,
       nd_transport_status = Comp_Ready,
       nd_stream_channels = Inr [],
       nd_channels_to = (\<lambda>a. Inr [sample_channel 11 5 1 CS_Open, sample_channel 12 6 1 CS_Closed]),
       nd_channels_from = (\<lambda>a. Inr [sample_channel 13 1 5 CS_Closed]),
       nd_channel = (\<lambda>s d. if s = 5 \<and> d = 1 then Inr (Some (sample_channel 11 5 1 CS_Open))
                           else Inr None),
       nd_native_balance = Inr 1, nd_hopr_balance = Inr 2, nd_safe_native = Inr 3,
       nd_safe_hopr = Inr 4, nd_safe_allowance = Inr 5, nd_ticket_price = Inr 6, nd_win_prob = Inr 7,
       nd_ticket_stats = (\<lambda>c. Inl ''none''), nd_ticket_statistics = Inl ''none'',
       nd_chain_key_to_packet_key = (\<lambda>a. if a = 5 then Inr (Some 50) else Inr None),
       nd_packet_key_to_chain_key = (\<lambda>k. if k = 50 then Inr (Some 5) else Inr None),
       nd_announced_peers = Inr [],
       nd_accounts_with_key = (\<lambda>k. Inr []),
       nd_multiaddress_of = (\<lambda>p. None), nd_peer_id = (\<lambda>k. ''peer''),
       nd_listening_as = [], nd_graph_identity = 100,
       nd_connected_edges = [(100, 50, sample_observation), (50, 100, sample_observation)],
       nd_reachable_edges = [(100, 50, sample_observation)],
       nd_chain_info_network = Inr ''net'', nd_closure_period_secs = Inr 300 \<rparr>"

end
