(* ===== verification/Endpoint.thy ===== *)
theory Endpoint
  imports Auth_Gate Node_Types
begin

text \<open>
  What an endpoint of the REST API promises. Every handler carries a \<open>#[utoipa::path]\<close> annotation: its
  method, path, documented response statuses and whether it is secured; \<open>endpoint_doc\<close> is that
  annotation. The locales state the contract between a handler and its annotation, and what follows
  for the handler behind the authentication layer; every component interprets them for its handlers.
\<close>

datatype http_method = GET | POST | DELETE

record endpoint_doc =
  ed_method :: http_method
  ed_path :: string
  ed_statuses :: "nat list"
  ed_secured :: bool
  ed_tag :: string

definition pkg_version_major :: string where
  "pkg_version_major = ''4''"

definition base_path :: string where
  "base_path = ''/api/v'' @ pkg_version_major"

locale api_endpoint =
  fixes doc :: endpoint_doc
    and handler :: "'s \<Rightarrow> 'req \<Rightarrow> ('c, 'b) handled"
  assumes conforms: "resp_status (snd (handler s r)) \<in> set (ed_statuses doc)"

text \<open>A secured endpoint documents the 401 of the authentication layer, and a GET asks for no change.\<close>

locale secured_endpoint = api_endpoint doc handler
  for doc :: endpoint_doc and handler :: "'s \<Rightarrow> 'req \<Rightarrow> ('c, 'b) handled" +
  assumes secured: "ed_secured doc"
    and documents_401: "401 \<in> set (ed_statuses doc)"
    and get_reads_only: "ed_method doc = GET \<Longrightarrow> fst (handler s r) = []"
begin

lemma guarded_conforms:
  "resp_status (snd (authenticate a hs r (handler s))) \<in> set (ed_statuses doc)"
  using conforms documents_401 by (cases "is_authorized a hs") (simp_all add: authenticate_def)

lemma guarded_call_authorized:
  "fst (authenticate a hs r (handler s)) \<noteq> [] \<Longrightarrow> is_authorized a hs"
  by (auto simp: authenticate_def split: if_splits)

lemma guarded_get_reads_only:
  "ed_method doc = GET \<Longrightarrow> fst (authenticate a hs r (handler s)) = []"
  using get_reads_only by (simp add: authenticate_def)

end

text \<open>An endpoint that talks to the node makes at most one call per request.\<close>

locale node_endpoint = secured_endpoint doc handler
  for doc :: endpoint_doc and handler :: "'s \<Rightarrow> 'req \<Rightarrow> ('c, 'b) handled" +
  assumes at_most_one_call: "length (fst (handler s r)) \<le> 1"
begin

lemma single_call: "c \<in> set (fst (handler s r)) \<Longrightarrow> fst (handler s r) = [c]"
  using at_most_one_call [of s r] by (cases "fst (handler s r)") auto

lemma guarded_at_most_one: "length (fst (authenticate a hs r (handler s))) \<le> 1"
  using at_most_one_call by (simp add: authenticate_def)

end

end
