(* ===== verification/Checks.thy ===== *)
theory Checks
  imports Endpoint
begin

text \<open>
  The probe endpoints (\<open>rest-api/src/checks.rs\<close>): \<open>startedz\<close>, \<open>readyz\<close>, \<open>healthyz\<close> and \<open>eligiblez\<close>. They sit
  outside the authentication layer and answer with an empty body.
\<close>

definition eval_precondition :: "bool \<Rightarrow> unit response" where
  "eval_precondition p = (if p then status_only 200 else status_only 412)"

definition is_minimally_connected :: "node \<Rightarrow> bool" where
  "is_minimally_connected n \<longleftrightarrow>
     (case nd_health n of
        Health_Orange \<Rightarrow> True | Health_Yellow \<Rightarrow> True | Health_Green \<Rightarrow> True | _ \<Rightarrow> False)"

definition is_chain_available :: "node \<Rightarrow> bool" where
  "is_chain_available n \<longleftrightarrow> \<not> is_unavailable (nd_chain_status n)"

definition is_running :: "node \<Rightarrow> bool" where
  "is_running n \<longleftrightarrow> (case nd_state n of HS_Running \<Rightarrow> True | HS_NotRunning _ \<Rightarrow> False)"

definition startedz :: "node \<Rightarrow> unit \<Rightarrow> (node_call, unit) handled" where
  "startedz n r = ([], eval_precondition (is_running n))"

definition readyz :: "node \<Rightarrow> unit \<Rightarrow> (node_call, unit) handled" where
  "readyz n r =
     ([], eval_precondition (is_running n \<and> is_minimally_connected n \<and> is_chain_available n))"

definition healthyz :: "node \<Rightarrow> unit \<Rightarrow> (node_call, unit) handled" where
  "healthyz n r = ([], eval_precondition (is_running n \<and> is_minimally_connected n))"

definition eligiblez :: "node \<Rightarrow> unit \<Rightarrow> (node_call, unit) handled" where
  "eligiblez n r = ([], status_only 200)"

definition startedz_doc :: endpoint_doc where
  "startedz_doc = \<lparr> ed_method = GET, ed_path = ''/startedz'', ed_statuses = [200, 412],
     ed_secured = False, ed_tag = ''Checks'' \<rparr>"

definition readyz_doc :: endpoint_doc where
  "readyz_doc = \<lparr> ed_method = GET, ed_path = ''/readyz'', ed_statuses = [200, 412],
     ed_secured = False, ed_tag = ''Checks'' \<rparr>"

definition healthyz_doc :: endpoint_doc where
  "healthyz_doc = \<lparr> ed_method = GET, ed_path = ''/healthyz'', ed_statuses = [200, 412],
     ed_secured = False, ed_tag = ''Checks'' \<rparr>"

definition eligiblez_doc :: endpoint_doc where
  "eligiblez_doc = \<lparr> ed_method = GET, ed_path = ''/eligiblez'', ed_statuses = [200, 412, 500],
     ed_secured = False, ed_tag = ''Checks'' \<rparr>"

section \<open>Lemmas\<close>

lemma eval_precondition_status [simp]:
  "resp_status (eval_precondition p) = (if p then 200 else 412)"
  by (simp add: eval_precondition_def)

interpretation startedz: api_endpoint startedz_doc startedz
  by unfold_locales (simp_all add: startedz_doc_def startedz_def)

interpretation readyz: api_endpoint readyz_doc readyz
  by unfold_locales (simp_all add: readyz_doc_def readyz_def)

interpretation healthyz: api_endpoint healthyz_doc healthyz
  by unfold_locales (simp_all add: healthyz_doc_def healthyz_def)

interpretation eligiblez: api_endpoint eligiblez_doc eligiblez
  by unfold_locales (simp_all add: eligiblez_doc_def eligiblez_def)

lemma probe_200_iff:
  "resp_status (snd (startedz n r)) = 200 \<longleftrightarrow> nd_state n = HS_Running"
  "resp_status (snd (healthyz n r)) = 200 \<longleftrightarrow>
     nd_state n = HS_Running \<and> nd_health n \<in> {Health_Orange, Health_Yellow, Health_Green}"
  "resp_status (snd (readyz n r)) = 200 \<longleftrightarrow>
     nd_state n = HS_Running \<and> nd_health n \<in> {Health_Orange, Health_Yellow, Health_Green}
     \<and> \<not> is_unavailable (nd_chain_status n)"
  by (auto simp: startedz_def healthyz_def readyz_def is_running_def is_minimally_connected_def
      is_chain_available_def split: hopr_state.splits health.splits)

text \<open>The probes form a chain. A chain outage turns \<open>readyz\<close> red and nothing else: it answers 200
  exactly when \<open>healthyz\<close> does and the chain connector is not unavailable, while \<open>healthyz\<close> and
  \<open>startedz\<close> do not depend on the chain status at all; and \<open>healthyz\<close> answers 200 exactly when
  \<open>startedz\<close> does and the network health is at least orange.\<close>

theorem probes_ordered:
  "(resp_status (snd (readyz n r)) = 200 \<longleftrightarrow>
      resp_status (snd (healthyz n r)) = 200 \<and> \<not> is_unavailable (nd_chain_status n))
   \<and> (resp_status (snd (healthyz n r)) = 200 \<longleftrightarrow>
      resp_status (snd (startedz n r)) = 200
      \<and> nd_health n \<in> {Health_Orange, Health_Yellow, Health_Green})
   \<and> healthyz (n\<lparr>nd_chain_status := c\<rparr>) r = healthyz n r
   \<and> startedz (n\<lparr>nd_chain_status := c, nd_health := h\<rparr>) r = startedz n r"
proof -
  have "healthyz (n\<lparr>nd_chain_status := c\<rparr>) r = healthyz n r"
    by (simp add: healthyz_def is_running_def is_minimally_connected_def)
  moreover have "startedz (n\<lparr>nd_chain_status := c, nd_health := h\<rparr>) r = startedz n r"
    by (simp add: startedz_def is_running_def)
  ultimately show ?thesis by (simp add: probe_200_iff)
qed

end
