(* ===== verification/Account.thy ===== *)
theory Account
  imports Endpoint
begin

text \<open>
  The account endpoints (\<open>rest-api/src/account.rs\<close>): the node's addresses, the five balances, and the
  withdrawal of native or wxHOPR tokens. The parsers of the two currencies are parameters
  (\<open>XDaiBalance::from_str\<close>, \<open>HoprBalance::from_str\<close>).
\<close>

record account_addresses_response =
  aar_native :: string

record account_balances_response =
  abr_safe_native :: balance
  abr_native :: balance
  abr_safe_hopr :: balance
  abr_hopr :: balance
  abr_safe_hopr_allowance :: balance

record withdraw_body_request =
  wbr_amount :: string
  wbr_address :: address

record withdraw_response =
  wr_receipt :: string

definition addresses ::
  "displays \<Rightarrow> node \<Rightarrow> unit \<Rightarrow> (node_call, account_addresses_response) handled" where
  "addresses dp n r = ([], json_ok 200 \<lparr> aar_native = dp_checksum dp (nd_me n) \<rparr>)"

text \<open>The five reads in the code's order; the first error ends the request with its text.\<close>

definition balances :: "node \<Rightarrow> unit \<Rightarrow> (node_call, account_balances_response) handled" where
  "balances n r =
     (let fail = (\<lambda>e. status_err 422 (UnknownFailure (lib_error_display e)))
      in ([], case nd_native_balance n of Inl e \<Rightarrow> fail e | Inr native \<Rightarrow>
         (case nd_hopr_balance n of Inl e \<Rightarrow> fail e | Inr hopr \<Rightarrow>
         (case nd_safe_native n of Inl e \<Rightarrow> fail e | Inr safe_native \<Rightarrow>
         (case nd_safe_hopr n of Inl e \<Rightarrow> fail e | Inr safe_hopr \<Rightarrow>
         (case nd_safe_allowance n of Inl e \<Rightarrow> fail e | Inr allowance \<Rightarrow>
            json_ok 200 \<lparr> abr_safe_native = safe_native, abr_native = native,
                          abr_safe_hopr = safe_hopr, abr_hopr = hopr,
                          abr_safe_hopr_allowance = allowance \<rparr>))))))"

definition withdraw ::
  "(string \<Rightarrow> balance option) \<Rightarrow> (string \<Rightarrow> balance option) \<Rightarrow> displays \<Rightarrow> node_ops
   \<Rightarrow> withdraw_body_request \<Rightarrow> (node_call, withdraw_response) handled" where
  "withdraw parse_xdai parse_hopr dp ops r =
     (case parse_xdai (wbr_amount r) of
        Some native \<Rightarrow>
          ([NC_WithdrawNative (wbr_address r) native],
           case no_withdraw_native ops (wbr_address r) native of
             Inr tx \<Rightarrow> json_ok 200 \<lparr> wr_receipt = dp_hash dp tx \<rparr>
           | Inl e \<Rightarrow> status_err 422 (UnknownFailure (lib_error_display e)))
      | None \<Rightarrow>
          (case parse_hopr (wbr_amount r) of
             Some hopr \<Rightarrow>
               ([NC_WithdrawHopr (wbr_address r) hopr],
                case no_withdraw_hopr ops (wbr_address r) hopr of
                  Inr tx \<Rightarrow> json_ok 200 \<lparr> wr_receipt = dp_hash dp tx \<rparr>
                | Inl e \<Rightarrow> status_err 422 (UnknownFailure (lib_error_display e)))
           | None \<Rightarrow> ([], status_err 422 (UnknownFailure ''invalid currency''))))"

definition addresses_doc :: endpoint_doc where
  "addresses_doc = \<lparr> ed_method = GET, ed_path = base_path @ ''/account/addresses'',
     ed_statuses = [200, 401, 422], ed_secured = True, ed_tag = ''Account'' \<rparr>"

definition balances_doc :: endpoint_doc where
  "balances_doc = \<lparr> ed_method = GET, ed_path = base_path @ ''/account/balances'',
     ed_statuses = [200, 401, 422], ed_secured = True, ed_tag = ''Account'' \<rparr>"

definition withdraw_doc :: endpoint_doc where
  "withdraw_doc = \<lparr> ed_method = POST, ed_path = base_path @ ''/account/withdraw'',
     ed_statuses = [200, 401, 412, 422], ed_secured = True, ed_tag = ''Account'' \<rparr>"

section \<open>Lemmas\<close>

interpretation addresses: node_endpoint addresses_doc "addresses dp" for dp
  by unfold_locales (simp_all add: addresses_doc_def addresses_def)

interpretation balances: node_endpoint balances_doc balances
  by unfold_locales (simp_all add: balances_doc_def balances_def Let_def split: sum.split)

interpretation withdraw: node_endpoint withdraw_doc "withdraw px ph dp" for px ph dp
  by unfold_locales (simp_all add: withdraw_doc_def withdraw_def split: option.split sum.split)

lemma withdraw_never_412: "resp_status (snd (withdraw px ph dp ops r)) \<noteq> 412"
  by (simp add: withdraw_def split: option.split sum.split)

lemma balances_200_iff:
  "resp_status (snd (balances n r)) = 200 \<longleftrightarrow>
     is_ok (nd_native_balance n) \<and> is_ok (nd_hopr_balance n) \<and> is_ok (nd_safe_native n)
     \<and> is_ok (nd_safe_hopr n) \<and> is_ok (nd_safe_allowance n)"
  by (simp add: balances_def Let_def split: sum.split)

text \<open>A withdrawal asks the node for exactly the transfer its answer reports. It answers 200 if
  and only if it made one transfer to the requested address of the amount read as xDai, or, only when
  that fails, as wxHOPR, and the node accepted it, and then the body is the receipt of that transfer;
  an amount neither parser accepts makes no transfer.\<close>

theorem withdraw_exact:
  "snd (withdraw px ph dp ops r) = json_ok 200 \<lparr> wr_receipt = rc \<rparr> \<longleftrightarrow>
     (\<exists>tx. rc = dp_hash dp tx \<and>
        ((\<exists>x. px (wbr_amount r) = Some x
            \<and> fst (withdraw px ph dp ops r) = [NC_WithdrawNative (wbr_address r) x]
            \<and> no_withdraw_native ops (wbr_address r) x = Inr tx)
         \<or> (\<exists>h. px (wbr_amount r) = None \<and> ph (wbr_amount r) = Some h
            \<and> fst (withdraw px ph dp ops r) = [NC_WithdrawHopr (wbr_address r) h]
            \<and> no_withdraw_hopr ops (wbr_address r) h = Inr tx)))
   \<and> (fst (withdraw px ph dp ops r) = [] \<longleftrightarrow>
        px (wbr_amount r) = None \<and> ph (wbr_amount r) = None)"
  by (cases "px (wbr_amount r)"; cases "ph (wbr_amount r)")
     (auto simp: withdraw_def response_defs split: sum.splits)

end
