(* ===== verification/Channels.thy ===== *)
theory Channels
  imports Endpoint
begin

text \<open>
  The payment-channel endpoints (\<open>rest-api/src/channels.rs\<close>): listing, opening, showing, closing and
  funding channels. A channel is addressed by its counterparty and its direction relative to this
  node; \<open>resolve_channel\<close> turns that into a channel entry and refuses closed channels.
\<close>

record node_channel =
  nc_id :: hash
  nc_peer_address :: address
  nc_status :: channel_status
  nc_balance :: balance

record channel_info_response =
  cir_channel_id :: hash
  cir_source :: address
  cir_destination :: address
  cir_balance :: balance
  cir_status :: channel_status
  cir_ticket_index :: "64 word"
  cir_channel_epoch :: "32 word"
  cir_closure_time :: "64 word"

record node_channels_response =
  ncr_incoming :: "node_channel list"
  ncr_outgoing :: "node_channel list"
  ncr_all :: "channel_info_response list"

definition channel_to_topology_info :: "channel_entry \<Rightarrow> channel_info_response" where
  "channel_to_topology_info c =
     \<lparr> cir_channel_id = ce_id c, cir_source = ce_source c, cir_destination = ce_destination c,
       cir_balance = ce_balance c, cir_status = ce_status c,
       cir_ticket_index = ce_ticket_index c, cir_channel_epoch = ce_channel_epoch c,
       cir_closure_time = (case ce_closure_time_at c of None \<Rightarrow> 0 | Some t \<Rightarrow> t) \<rparr>"

record channels_query_request =
  cq_including_closed :: bool
  cq_full_topology :: bool

definition incoming_info :: "channel_entry \<Rightarrow> node_channel" where
  "incoming_info c = \<lparr> nc_id = ce_id c, nc_peer_address = ce_source c,
     nc_status = ce_status c, nc_balance = ce_balance c \<rparr>"

definition outgoing_info :: "channel_entry \<Rightarrow> node_channel" where
  "outgoing_info c = \<lparr> nc_id = ce_id c, nc_peer_address = ce_destination c,
     nc_status = ce_status c, nc_balance = ce_balance c \<rparr>"

definition list_channels ::
  "node \<Rightarrow> channels_query_request \<Rightarrow> (node_call, node_channels_response) handled" where
  "list_channels n q =
     ([], if cq_full_topology q then
            (case nd_stream_channels n of
               Inr cs \<Rightarrow> json_ok 200 \<lparr> ncr_incoming = [], ncr_outgoing = [],
                                       ncr_all = List.map channel_to_topology_info cs \<rparr>
             | Inl e \<Rightarrow> status_err 422 (UnknownFailure (lib_error_display e)))
          else
            (let keep = (\<lambda>c. cq_including_closed q \<or> ce_status c \<noteq> CS_Closed);
                 channels = res_bind (nd_channels_to n (nd_me n)) (\<lambda>incoming.
                            res_bind (nd_channels_from n (nd_me n)) (\<lambda>outgoing.
                            Inr (incoming, outgoing)))
             in case channels of
                  Inr (incoming, outgoing) \<Rightarrow>
                    json_ok 200
                      \<lparr> ncr_incoming = List.map incoming_info (filter keep incoming),
                        ncr_outgoing = List.map outgoing_info (filter keep outgoing),
                        ncr_all = [] \<rparr>
                | Inl e \<Rightarrow> status_err 422 (UnknownFailure (lib_error_display e))))"

record open_channel_body_request =
  ocr_destination :: address
  ocr_amount :: balance

record open_channel_response =
  ocp_channel_id :: hash
  ocp_transaction_receipt :: hash

text \<open>How the chain-writing handlers turn the node's answer into a response: \<open>NotReady\<close> of the node
  (the right error) is 412, every other error is 422 with its text.\<close>

fun chain_error_response :: "either_err \<Rightarrow> 'b response" where
  "chain_error_response (EE_Right (LE_NotReady s)) = status_err 412 NotReady"
| "chain_error_response e = status_err 422 (UnknownFailure (either_err_display e))"

definition open_channel ::
  "node_ops \<Rightarrow> open_channel_body_request \<Rightarrow> (node_call, open_channel_response) handled" where
  "open_channel ops r =
     ([NC_OpenChannel (ocr_destination r) (ocr_amount r)],
      case no_open_channel ops (ocr_destination r) (ocr_amount r) of
        Inr (cid, tx) \<Rightarrow>
          json_ok 201 \<lparr> ocp_channel_id = (case cid of None \<Rightarrow> 0 | Some i \<Rightarrow> i),
                        ocp_transaction_receipt = tx \<rparr>
      | Inl e \<Rightarrow> chain_error_response e)"

datatype channel_direction = Outgoing | Incoming

definition default_direction :: channel_direction where
  "default_direction = Outgoing"

record channel_params =
  cp_address :: address
  cp_direction :: channel_direction

definition filter_open_channel ::
  "(lib_error, channel_entry option) res \<Rightarrow> (api_error_status, channel_entry) res" where
  "filter_open_channel result =
     (case result of
        Inr (Some ch) \<Rightarrow> if ce_status ch \<noteq> CS_Closed then Inr ch else Inl ChannelNotFound
      | Inr None \<Rightarrow> Inl ChannelNotFound
      | Inl e \<Rightarrow> Inl (UnknownFailure (lib_error_display e)))"

definition resolve_channel ::
  "node \<Rightarrow> address \<Rightarrow> channel_direction \<Rightarrow> (api_error_status, channel_entry) res" where
  "resolve_channel n address direction =
     filter_open_channel
       (case direction of
          Outgoing \<Rightarrow> nd_channel n (nd_me n) address
        | Incoming \<Rightarrow> nd_channel n address (nd_me n))"

definition resolve_error_code :: "api_error_status \<Rightarrow> nat" where
  "resolve_error_code e = (if e = ChannelNotFound then 404 else 422)"

text \<open>The lookup of \<open>show_channel\<close> runs on a blocking thread; \<open>join_failure\<close> is the error of a task that
  did not complete.\<close>

definition show_channel ::
  "string option \<Rightarrow> node \<Rightarrow> channel_params \<Rightarrow> (node_call, channel_info_response) handled" where
  "show_channel join_failure n p =
     ([], case join_failure of
            Some e \<Rightarrow> status_err 422 (UnknownFailure e)
          | None \<Rightarrow>
              (case resolve_channel n (cp_address p) (cp_direction p) of
                 Inr ch \<Rightarrow> json_ok 200 (channel_to_topology_info ch)
               | Inl s \<Rightarrow> status_err (resolve_error_code s) s))"

record close_channel_response =
  ccr_receipt :: hash

definition close_channel ::
  "node \<times> node_ops \<Rightarrow> channel_params \<Rightarrow> (node_call, close_channel_response) handled" where
  "close_channel env p =
     (case resolve_channel (fst env) (cp_address p) (cp_direction p) of
        Inl s \<Rightarrow> ([], status_err (resolve_error_code s) s)
      | Inr ch \<Rightarrow>
          ([NC_CloseChannel (ce_id ch)],
           case no_close_channel (snd env) (ce_id ch) of
             Inr tx \<Rightarrow> json_ok 200 \<lparr> ccr_receipt = tx \<rparr>
           | Inl e \<Rightarrow> chain_error_response e))"

record fund_channel_response =
  fcr_hash :: hash

record fund_channel_request =
  fcq_address :: address
  fcq_amount :: balance

definition fund_channel ::
  "node \<times> node_ops \<Rightarrow> fund_channel_request \<Rightarrow> (node_call, fund_channel_response) handled" where
  "fund_channel env r =
     (case resolve_channel (fst env) (fcq_address r) Outgoing of
        Inl s \<Rightarrow> ([], status_err (resolve_error_code s) s)
      | Inr ch \<Rightarrow>
          ([NC_FundChannel (ce_id ch) (fcq_amount r)],
           case no_fund_channel (snd env) (ce_id ch) (fcq_amount r) of
             Inr tx \<Rightarrow> json_ok 200 \<lparr> fcr_hash = tx \<rparr>
           | Inl e \<Rightarrow> chain_error_response e))"

section \<open>Annotations\<close>

definition list_channels_doc :: endpoint_doc where
  "list_channels_doc = \<lparr> ed_method = GET, ed_path = base_path @ ''/channels'',
     ed_statuses = [200, 401, 422], ed_secured = True, ed_tag = ''Channels'' \<rparr>"

definition open_channel_doc :: endpoint_doc where
  "open_channel_doc = \<lparr> ed_method = POST, ed_path = base_path @ ''/channels'',
     ed_statuses = [201, 400, 401, 403, 409, 412, 422], ed_secured = True,
     ed_tag = ''Channels'' \<rparr>"

definition show_channel_doc :: endpoint_doc where
  "show_channel_doc = \<lparr> ed_method = GET, ed_path = base_path @ ''/channels/{address}'',
     ed_statuses = [200, 400, 401, 404, 422], ed_secured = True, ed_tag = ''Channels'' \<rparr>"

definition close_channel_doc :: endpoint_doc where
  "close_channel_doc = \<lparr> ed_method = DELETE, ed_path = base_path @ ''/channels/{address}'',
     ed_statuses = [200, 400, 401, 404, 412, 422], ed_secured = True, ed_tag = ''Channels'' \<rparr>"

definition fund_channel_doc :: endpoint_doc where
  "fund_channel_doc = \<lparr> ed_method = POST, ed_path = base_path @ ''/channels/{address}/fund'',
     ed_statuses = [200, 400, 401, 403, 404, 412, 422], ed_secured = True,
     ed_tag = ''Channels'' \<rparr>"

section \<open>Lemmas\<close>

lemma chain_error_response_status:
  "resp_status (chain_error_response e) = (if \<exists>s. e = EE_Right (LE_NotReady s) then 412 else 422)"
  by (cases e rule: chain_error_response.cases) simp_all

lemma resolve_error_code_range: "resolve_error_code e = 404 \<or> resolve_error_code e = 422"
  by (simp add: resolve_error_code_def)

lemma filter_open_channel_Ok_iff:
  "filter_open_channel r = Inr ch \<longleftrightarrow> r = Inr (Some ch) \<and> ce_status ch \<noteq> CS_Closed"
  by (auto simp: filter_open_channel_def split: sum.splits option.splits if_splits)

lemma filter_open_channel_NotFound_iff:
  "filter_open_channel r = Inl ChannelNotFound \<longleftrightarrow>
     r = Inr None \<or> (\<exists>ch. r = Inr (Some ch) \<and> ce_status ch = CS_Closed)"
  by (auto simp: filter_open_channel_def split: sum.splits option.splits if_splits)

lemma filter_open_channel_Err_cases:
  "filter_open_channel r = Inl e \<Longrightarrow>
     e = ChannelNotFound \<or> (\<exists>le. r = Inl le \<and> e = UnknownFailure (lib_error_display le))"
  by (auto simp: filter_open_channel_def split: sum.splits option.splits if_splits)

definition directed_lookup ::
  "node \<Rightarrow> address \<Rightarrow> channel_direction \<Rightarrow> (lib_error, channel_entry option) res" where
  "directed_lookup n address direction =
     (if direction = Outgoing then nd_channel n (nd_me n) address
      else nd_channel n address (nd_me n))"

lemma resolve_channel_lookup:
  "resolve_channel n a d = filter_open_channel (directed_lookup n a d)"
  by (cases d) (simp_all add: resolve_channel_def directed_lookup_def)

lemma resolve_channel_cases:
  obtains (Found) ch where "resolve_channel n a d = Inr ch"
      "directed_lookup n a d = Inr (Some ch)" "ce_status ch \<noteq> CS_Closed"
  | (Missing) e where "resolve_channel n a d = Inl e"
      "\<And>ch. directed_lookup n a d = Inr (Some ch) \<Longrightarrow> ce_status ch = CS_Closed"
proof (cases "resolve_channel n a d")
  case (Inl e)
  have "ce_status ch = CS_Closed" if "directed_lookup n a d = Inr (Some ch)" for ch
    using that Inl by (auto simp: resolve_channel_lookup filter_open_channel_def split: if_splits)
  then show ?thesis using Inl Missing by blast
next
  case (Inr ch)
  then show ?thesis using Found by (auto simp: resolve_channel_lookup filter_open_channel_Ok_iff)
qed

interpretation list_channels: node_endpoint list_channels_doc list_channels
  by unfold_locales
     (simp_all add: list_channels_doc_def list_channels_def Let_def split: sum.split prod.split)

interpretation open_channel: node_endpoint open_channel_doc open_channel
  by unfold_locales
     (simp_all add: open_channel_doc_def open_channel_def chain_error_response_status
       split: sum.split prod.split)

interpretation show_channel: node_endpoint show_channel_doc "show_channel jf" for jf
  by unfold_locales
     (use resolve_error_code_range in
       \<open>auto simp: show_channel_doc_def show_channel_def split: sum.split option.split\<close>)

interpretation close_channel: node_endpoint close_channel_doc close_channel
  by unfold_locales
     (use resolve_error_code_range in
       \<open>auto simp: close_channel_doc_def close_channel_def chain_error_response_status
          split: sum.split\<close>)

interpretation fund_channel: node_endpoint fund_channel_doc fund_channel
  by unfold_locales
     (use resolve_error_code_range in
       \<open>auto simp: fund_channel_doc_def fund_channel_def chain_error_response_status
          split: sum.split\<close>)

lemma close_channel_call_iff:
  "fst (close_channel (n, ops) p) = [c] \<longleftrightarrow>
     (\<exists>ch. directed_lookup n (cp_address p) (cp_direction p) = Inr (Some ch)
           \<and> ce_status ch \<noteq> CS_Closed \<and> c = NC_CloseChannel (ce_id ch))"
proof (cases rule: resolve_channel_cases [of n "cp_address p" "cp_direction p"])
  case (Found ch)
  then show ?thesis by (auto simp: close_channel_def)
next
  case (Missing e)
  then show ?thesis by (auto simp: close_channel_def)
qed

lemma fund_channel_call_iff:
  "fst (fund_channel (n, ops) r) = [c] \<longleftrightarrow>
     (\<exists>ch. directed_lookup n (fcq_address r) Outgoing = Inr (Some ch)
           \<and> ce_status ch \<noteq> CS_Closed \<and> c = NC_FundChannel (ce_id ch) (fcq_amount r))"
proof (cases rule: resolve_channel_cases [of n "fcq_address r" Outgoing])
  case (Found ch)
  then show ?thesis by (auto simp: fund_channel_def)
next
  case (Missing e)
  then show ?thesis by (auto simp: fund_channel_def)
qed

lemma close_channel_200_iff:
  "resp_status (snd (close_channel (n, ops) p)) = 200 \<longleftrightarrow>
     (\<exists>ch tx. directed_lookup n (cp_address p) (cp_direction p) = Inr (Some ch)
        \<and> ce_status ch \<noteq> CS_Closed \<and> no_close_channel ops (ce_id ch) = Inr tx)"
proof (cases rule: resolve_channel_cases [of n "cp_address p" "cp_direction p"])
  case (Found ch)
  then show ?thesis by (auto simp: close_channel_def chain_error_response_status resolve_error_code_def split: sum.split)
next
  case (Missing e)
  then show ?thesis by (auto simp: close_channel_def chain_error_response_status resolve_error_code_def)
qed

text \<open>Closing and funding act on the live channel the request names and on nothing else. Closing
  makes one call, for the id of the channel found from this node to the counterparty when the
  direction is outgoing and the other way round when it is incoming; funding always takes the
  outgoing one. Both make the call exactly when the lookup finds a channel that is not closed, and a
  missing or closed channel is answered 404.\<close>

theorem channel_writes_target_live_channel:
  "(fst (close_channel (n, ops) p) = [c] \<longleftrightarrow>
      (\<exists>ch. directed_lookup n (cp_address p) (cp_direction p) = Inr (Some ch)
            \<and> ce_status ch \<noteq> CS_Closed \<and> c = NC_CloseChannel (ce_id ch)))
   \<and> (fst (fund_channel (n, ops) r) = [c] \<longleftrightarrow>
      (\<exists>ch. nd_channel n (nd_me n) (fcq_address r) = Inr (Some ch)
            \<and> ce_status ch \<noteq> CS_Closed \<and> c = NC_FundChannel (ce_id ch) (fcq_amount r)))
   \<and> (resp_status (snd (close_channel (n, ops) p)) = 404 \<longleftrightarrow>
        (\<exists>o'. directed_lookup n (cp_address p) (cp_direction p) = Inr o'
             \<and> (case o' of None \<Rightarrow> True | Some ch \<Rightarrow> ce_status ch = CS_Closed)))"
proof -
  have "resp_status (snd (close_channel (n, ops) p)) = 404 \<longleftrightarrow>
        resolve_channel n (cp_address p) (cp_direction p) = Inl ChannelNotFound"
    by (auto simp: close_channel_def resolve_error_code_def chain_error_response_status
        split: sum.split)
  also have "\<dots> \<longleftrightarrow> (\<exists>o'. directed_lookup n (cp_address p) (cp_direction p) = Inr o'
             \<and> (case o' of None \<Rightarrow> True | Some ch \<Rightarrow> ce_status ch = CS_Closed))"
    by (auto simp: resolve_channel_lookup filter_open_channel_NotFound_iff split: option.splits)
  finally show ?thesis
    using close_channel_call_iff fund_channel_call_iff by (auto simp: directed_lookup_def)
qed

text \<open>Opening a channel always asks the node for exactly the requested channel, and its status is
  201 when the node accepts it, 412 exactly when the node itself (not the chain connector) is not
  ready, and 422 otherwise: the documented answers 403 for missing funds and 409 for an existing
  channel are never given.\<close>

theorem open_channel_status_exact:
  "fst (open_channel ops r) = [NC_OpenChannel (ocr_destination r) (ocr_amount r)]
   \<and> resp_status (snd (open_channel ops r)) =
      (case no_open_channel ops (ocr_destination r) (ocr_amount r) of
         Inr rc \<Rightarrow> 201
       | Inl (EE_Right (LE_NotReady s)) \<Rightarrow> 412
       | Inl e \<Rightarrow> 422)
   \<and> {403, 409} \<subseteq> set (ed_statuses open_channel_doc)
   \<and> resp_status (snd (open_channel ops r)) \<notin> {403, 409}"
  by (auto simp: open_channel_def open_channel_doc_def chain_error_response_status
      split: sum.split either_err.split lib_error.split prod.split)

text \<open>Listing the channels of this node shows exactly the incoming and outgoing channels the chain
  reports, each once and in order, named by their other end, with the closed ones left out unless
  they were asked for; a failed read answers 422 with its text.\<close>

theorem list_channels_exact:
  assumes "nd_channels_to n (nd_me n) = Inr ins" and "nd_channels_from n (nd_me n) = Inr outs"
    and "\<not> cq_full_topology q"
  shows "\<exists>b. snd (list_channels n q) = json_ok 200 b
     \<and> List.map nc_id (ncr_incoming b) =
         List.map ce_id (filter (\<lambda>c. cq_including_closed q \<or> ce_status c \<noteq> CS_Closed) ins)
     \<and> List.map nc_peer_address (ncr_incoming b) =
         List.map ce_source (filter (\<lambda>c. cq_including_closed q \<or> ce_status c \<noteq> CS_Closed) ins)
     \<and> List.map nc_id (ncr_outgoing b) =
         List.map ce_id (filter (\<lambda>c. cq_including_closed q \<or> ce_status c \<noteq> CS_Closed) outs)
     \<and> List.map nc_peer_address (ncr_outgoing b) =
         List.map ce_destination (filter (\<lambda>c. cq_including_closed q \<or> ce_status c \<noteq> CS_Closed) outs)
     \<and> ncr_all b = []"
  using assms by (simp add: list_channels_def incoming_info_def outgoing_info_def comp_def Let_def)

theorem list_channels_exact_witness:
  "\<exists>b. snd (list_channels sample_node \<lparr> cq_including_closed = False, cq_full_topology = False \<rparr>)
      = json_ok 200 b
     \<and> List.map nc_id (ncr_incoming b) = [11] \<and> ncr_outgoing b = []"
proof -
  let ?q = "\<lparr> cq_including_closed = False, cq_full_topology = False \<rparr>"
  have "nd_channels_to sample_node (nd_me sample_node) =
      Inr [sample_channel 11 5 1 CS_Open, sample_channel 12 6 1 CS_Closed]"
    "nd_channels_from sample_node (nd_me sample_node) = Inr [sample_channel 13 1 5 CS_Closed]"
    by (simp_all add: sample_node_def)
  from list_channels_exact [OF this, of ?q] show ?thesis
    by (auto simp: sample_channel_def)
qed

end
