(* ===== verification/Tickets.thy ===== *)
theory Tickets
  imports Channels
begin

text \<open>
  The ticket endpoints (\<open>rest-api/src/tickets.rs\<close>): the statistics of received tickets and the start of
  their redemption. Redemption is spawned on a task of its own: the request is answered before it
  runs, so its outcome does not appear in the response.
\<close>

record node_ticket_statistics_response =
  tsr_winning_count :: "64 word"
  tsr_unredeemed_value :: balance
  tsr_neglected_value :: balance
  tsr_rejected_value :: balance

definition statistics_of :: "channel_stats \<Rightarrow> node_ticket_statistics_response" where
  "statistics_of v =
     \<lparr> tsr_winning_count = of_nat (cst_winning_tickets v),
       tsr_unredeemed_value = cst_unredeemed v, tsr_neglected_value = cst_neglected v,
       tsr_rejected_value = cst_rejected v \<rparr>"

text \<open>The lookup both handlers write out: the incoming channel of the counterparty, unless closed.\<close>

definition incoming_channel_id :: "node \<Rightarrow> address \<Rightarrow> (nat \<times> api_error_status, hash) res" where
  "incoming_channel_id n address =
     (case nd_channel n address (nd_me n) of
        Inr (Some ch) \<Rightarrow>
          if ce_status ch \<noteq> CS_Closed then Inr (ce_id ch) else Inl (404, ChannelNotFound)
      | Inr None \<Rightarrow> Inl (404, ChannelNotFound)
      | Inl e \<Rightarrow> Inl (422, UnknownFailure (lib_error_display e)))"

definition show_ticket_statistics ::
  "node \<Rightarrow> address option \<Rightarrow> (node_call, node_ticket_statistics_response) handled" where
  "show_ticket_statistics n query_address =
     ([], case (case query_address of
                  Some address \<Rightarrow>
                    (case incoming_channel_id n address of
                       Inl e \<Rightarrow> Inl e
                     | Inr cid \<Rightarrow> map_err (\<lambda>e. (422, UnknownFailure e)) (nd_ticket_stats n cid))
                | None \<Rightarrow> map_err (\<lambda>e. (422, UnknownFailure e)) (nd_ticket_statistics n)) of
            Inr stats \<Rightarrow> json_ok 200 (statistics_of stats)
          | Inl (code, e) \<Rightarrow> status_err code e)"

definition redeem_tickets ::
  "node \<Rightarrow> address option \<Rightarrow> (node_call, unit) handled" where
  "redeem_tickets n req_address =
     (case req_address of
        Some address \<Rightarrow>
          (case incoming_channel_id n address of
             Inl (code, e) \<Rightarrow> ([], status_err code e)
           | Inr cid \<Rightarrow> ([NC_RedeemWithCounterparty address 0], status_only 202))
      | None \<Rightarrow> ([NC_RedeemAll 0], status_only 202))"

definition show_ticket_statistics_doc :: endpoint_doc where
  "show_ticket_statistics_doc = \<lparr> ed_method = GET, ed_path = base_path @ ''/tickets/statistics'',
     ed_statuses = [200, 401, 404, 422], ed_secured = True, ed_tag = ''Tickets'' \<rparr>"

definition redeem_tickets_doc :: endpoint_doc where
  "redeem_tickets_doc = \<lparr> ed_method = POST, ed_path = base_path @ ''/tickets/redeem'',
     ed_statuses = [202, 400, 401, 404, 422], ed_secured = True, ed_tag = ''Tickets'' \<rparr>"

section \<open>Lemmas\<close>

text \<open>The ticket handlers and the channel handlers resolve a counterparty the same way.\<close>

lemma incoming_channel_id_resolve:
  "incoming_channel_id n a =
     (case resolve_channel n a Incoming of
        Inr ch \<Rightarrow> Inr (ce_id ch)
      | Inl e \<Rightarrow> Inl (resolve_error_code e, e))"
  by (simp add: incoming_channel_id_def resolve_channel_def filter_open_channel_def
      resolve_error_code_def split: sum.split option.split)

lemma incoming_channel_id_code:
  "incoming_channel_id n a = Inl (code, e) \<Longrightarrow> code = 404 \<or> code = 422"
  by (auto simp: incoming_channel_id_def split: sum.splits option.splits if_splits)

interpretation show_ticket_statistics:
    node_endpoint show_ticket_statistics_doc show_ticket_statistics
  by unfold_locales
     (auto simp: show_ticket_statistics_doc_def show_ticket_statistics_def
       dest: incoming_channel_id_code split: sum.split option.split prod.split)

interpretation redeem_tickets: node_endpoint redeem_tickets_doc redeem_tickets
  by unfold_locales
     (auto simp: redeem_tickets_doc_def redeem_tickets_def
       dest: incoming_channel_id_code split: sum.split option.split prod.split)

text \<open>Redemption and the channel endpoints agree on which counterparty has an incoming channel. A
  redemption scoped to a counterparty starts, and answers 202, exactly when showing that
  counterparty's incoming channel answers 200; when it does not, no redemption starts and the
  status is the one that showing the channel gives.\<close>

theorem redeem_agrees_with_show_channel:
  "(fst (redeem_tickets n (Some a)) = [NC_RedeemWithCounterparty a 0] \<longleftrightarrow>
      resp_status (snd (show_channel None n \<lparr> cp_address = a, cp_direction = Incoming \<rparr>)) = 200)
   \<and> resp_status (snd (redeem_tickets n (Some a))) =
      (if resp_status (snd (show_channel None n \<lparr> cp_address = a, cp_direction = Incoming \<rparr>)) = 200
       then 202
       else resp_status (snd (show_channel None n \<lparr> cp_address = a, cp_direction = Incoming \<rparr>)))"
proof (cases rule: resolve_channel_cases [of n a Incoming])
  case (Found ch)
  then show ?thesis
    by (simp add: redeem_tickets_def show_channel_def incoming_channel_id_resolve)
next
  case (Missing e)
  then show ?thesis
    using resolve_error_code_range [of e]
    by (auto simp: redeem_tickets_def show_channel_def incoming_channel_id_resolve)
qed

end
