(* ===== verification/Json.thy ===== *)
theory Json
  imports Prelude "HOL-Library.Multiset"
begin

text \<open>
  JSON values as the sources use \<open>serde_json::Value\<close>: an object is its list of members in order, looked
  up by name. Numbers are kept as their text; the sources only pass them on.
\<close>

datatype json =
    JNull
  | JBool bool
  | JNum string
  | JStr string
  | JArr "json list"
  | JObj "(string \<times> json) list"

fun as_object :: "json \<Rightarrow> (string \<times> json) list option" where
  "as_object (JObj ms) = Some ms"
| "as_object _ = None"

fun as_array :: "json \<Rightarrow> json list option" where
  "as_array (JArr xs) = Some xs"
| "as_array _ = None"

fun as_str :: "json \<Rightarrow> string option" where
  "as_str (JStr s) = Some s"
| "as_str _ = None"

definition json_get :: "string \<Rightarrow> json \<Rightarrow> json option" where
  "json_get k j = (case as_object j of None \<Rightarrow> None | Some ms \<Rightarrow> map_of ms k)"

text \<open>Insertion keeps the position of an existing member and appends a new one.\<close>

fun obj_insert :: "string \<Rightarrow> json \<Rightarrow> (string \<times> json) list \<Rightarrow> (string \<times> json) list" where
  "obj_insert k v [] = [(k, v)]"
| "obj_insert k v ((k', v') # ms) =
     (if k' = k then (k, v) # ms else (k', v') # obj_insert k v ms)"

text \<open>Removal moves the last member to the freed place (\<open>swap_remove\<close>).\<close>

definition move_last :: "'a list \<Rightarrow> 'a list" where
  "move_last xs = (if xs = [] then [] else last xs # butlast xs)"

fun obj_remove :: "string \<Rightarrow> (string \<times> json) list \<Rightarrow> (string \<times> json) list" where
  "obj_remove k [] = []"
| "obj_remove k ((k', v') # ms) = (if k' = k then move_last ms else (k', v') # obj_remove k ms)"

lemma map_of_obj_insert [simp]: "map_of (obj_insert k v ms) = (map_of ms)(k \<mapsto> v)"
  by (induction k v ms rule: obj_insert.induct) auto

lemma set_obj_insert: "set (obj_insert k v ms) \<subseteq> insert (k, v) (set ms)"
  by (induction k v ms rule: obj_insert.induct) auto

lemma keys_obj_insert: "fst ` set (obj_insert k v ms) = insert k (fst ` set ms)"
  by (induction k v ms rule: obj_insert.induct) auto

lemma distinct_obj_insert [simp]:
  "distinct (List.map fst ms) \<Longrightarrow> distinct (List.map fst (obj_insert k v ms))"
  by (induction k v ms rule: obj_insert.induct) (auto simp: keys_obj_insert)

lemma mset_move_last [simp]: "mset (move_last xs) = mset xs"
  by (cases xs rule: rev_cases) (simp_all add: move_last_def)

lemma obj_remove_absent: "map_of ms k = None \<Longrightarrow> obj_remove k ms = ms"
  by (induction k ms rule: obj_remove.induct) (auto split: if_splits)

lemma obj_remove_present:
  "map_of ms k = Some v \<Longrightarrow> mset ms = add_mset (k, v) (mset (obj_remove k ms))"
  by (induction k ms rule: obj_remove.induct) (auto split: if_splits)

lemma set_obj_remove: "set (obj_remove k ms) \<subseteq> set ms"
proof (cases "map_of ms k")
  case None
  then show ?thesis by (simp add: obj_remove_absent)
next
  case (Some v)
  have "set ms = insert (k, v) (set (obj_remove k ms))"
    using arg_cong [OF obj_remove_present [OF Some], of set_mset] by simp
  then show ?thesis by blast
qed

lemma obj_remove_distinct:
  assumes "distinct (List.map fst ms)"
  shows "distinct (List.map fst (obj_remove k ms))"
    and "set (obj_remove k ms) = {m \<in> set ms. fst m \<noteq> k}"
proof -
  have "distinct (List.map fst (obj_remove k ms)) \<and> set (obj_remove k ms) = {m \<in> set ms. fst m \<noteq> k}"
  proof (cases "map_of ms k")
    case None
    then show ?thesis
      using assms by (auto simp: obj_remove_absent map_of_eq_None_iff)
  next
    case (Some v)
    have m: "mset ms = mset ((k, v) # obj_remove k ms)"
      using obj_remove_present [OF Some] by simp
    have "mset (List.map fst ms) = mset (List.map fst ((k, v) # obj_remove k ms))"
      using m by (simp only: mset_map)
    then have d: "distinct (List.map fst ((k, v) # obj_remove k ms))"
      using assms mset_eq_imp_distinct_iff by blast
    moreover have "set ms = insert (k, v) (set (obj_remove k ms))"
      using arg_cong [OF m, of set_mset] by simp
    ultimately show ?thesis by auto
  qed
  then show "distinct (List.map fst (obj_remove k ms))"
    and "set (obj_remove k ms) = {m \<in> set ms. fst m \<noteq> k}" by auto
qed

lemma map_of_obj_remove:
  assumes "distinct (List.map fst ms)"
  shows "map_of (obj_remove k ms) = (map_of ms)(k := None)"
proof
  fix x
  have "map_of (obj_remove k ms) x = Some v \<longleftrightarrow> ((map_of ms)(k := None)) x = Some v" for v
    using assms obj_remove_distinct [OF assms, of k] by auto
  then show "map_of (obj_remove k ms) x = ((map_of ms)(k := None)) x"
    by (metis not_None_eq)
qed

lemma json_get_JObj [simp]: "json_get k (JObj ms) = map_of ms k"
  by (simp add: json_get_def)

end
