(* ===== verification/Network_Views.thy ===== *)
theory Network_Views
  imports Endpoint
begin

text \<open>
  The network endpoints (\<open>rest-api/src/network.rs\<close>): ticket price and winning probability, the connected
  peers, the announced peers, and the network graph in DOT format.
\<close>

record ticket_price_response =
  tpr_price :: balance

record ticket_probability_response =
  tpp_probability :: f64

definition price :: "node \<Rightarrow> unit \<Rightarrow> (node_call, ticket_price_response) handled" where
  "price n r =
     ([], case nd_ticket_price n of
            Inr p \<Rightarrow> json_ok 200 \<lparr> tpr_price = p \<rparr>
          | Inl e \<Rightarrow> status_err 422 (UnknownFailure (lib_error_display e)))"

definition probability :: "node \<Rightarrow> unit \<Rightarrow> (node_call, ticket_probability_response) handled" where
  "probability n r =
     ([], case nd_win_prob n of
            Inr p \<Rightarrow> json_ok 200 \<lparr> tpp_probability = p \<rparr>
          | Inl e \<Rightarrow> status_err 422 (UnknownFailure (lib_error_display e)))"

record connected_peer_response =
  cpr_address :: address
  cpr_probe_rate :: "f64 option"
  cpr_last_update :: nat
  cpr_average_latency :: "nat option"
  cpr_score :: "f64 option"

text \<open>The body of the loop over the edges: a peer is pushed for an edge that starts at this node, has an
  immediate observation known to be connected, and whose far key resolves to an address.\<close>

definition connected_peer :: "node \<Rightarrow> edge \<Rightarrow> connected_peer_response option" where
  "connected_peer n e =
     (case e of (src, dst, obs) \<Rightarrow>
        if src \<noteq> nd_graph_identity n then None
        else (case ob_immediate obs of
            None \<Rightarrow> None
          | Some imm \<Rightarrow>
              if iq_is_connected imm \<noteq> Some True then None
              else (case nd_packet_key_to_chain_key n dst of
                  Inr (Some addr) \<Rightarrow>
                    Some \<lparr> cpr_address = addr, cpr_probe_rate = iq_probe_rate imm,
                           cpr_last_update = ob_last_update_ms obs,
                           cpr_average_latency = iq_latency_ms imm, cpr_score = ob_score obs \<rparr>
                | _ \<Rightarrow> None)))"

definition connected :: "node \<Rightarrow> unit \<Rightarrow> (node_call, connected_peer_response list) handled" where
  "connected n r = ([], json_ok 200 (List.map_filter (connected_peer n) (nd_connected_edges n)))"

datatype announcement_origin = AO_Chain | AO_DHT
datatype announcement_origin_response = Origin_Chain | Origin_Dht

fun origin_response :: "announcement_origin \<Rightarrow> announcement_origin_response" where
  "origin_response AO_Chain = Origin_Chain"
| "origin_response AO_DHT = Origin_Dht"

fun origin_display :: "announcement_origin_response \<Rightarrow> string" where
  "origin_display Origin_Chain = ''chain''"
| "origin_display Origin_Dht = ''dht''"

definition parse_origin :: "string \<Rightarrow> announcement_origin_response option" where
  "parse_origin s =
     (if eq_ignore_ascii_case s ''chain'' then Some Origin_Chain
      else if eq_ignore_ascii_case s ''dht'' then Some Origin_Dht
      else None)"

record announced_peer_response =
  apr_address :: address
  apr_multiaddrs :: "multiaddr list"
  apr_origin :: announcement_origin_response

definition announced :: "node \<Rightarrow> unit \<Rightarrow> (node_call, announced_peer_response list) handled" where
  "announced n r =
     ([], case nd_announced_peers n of
            Inr peers \<Rightarrow>
              json_ok 200
                (List.map (\<lambda>a. \<lparr> apr_address = aa_chain_addr a, apr_multiaddrs = aa_multiaddrs a,
                                 apr_origin = Origin_Chain \<rparr>) peers)
          | Inl e \<Rightarrow> status_err 422 (UnknownFailure (lib_error_display e)))"

section \<open>The DOT graph\<close>

definition edge_keys :: "edge list \<Rightarrow> offchain_key list" where
  "edge_keys edges = remdups (concat (List.map (\<lambda>(src, dst, obs). [src, dst]) edges))"

definition node_label :: "displays \<Rightarrow> node \<Rightarrow> offchain_key \<Rightarrow> string" where
  "node_label dp n key =
     (case nd_packet_key_to_chain_key n key of
        Inr (Some addr) \<Rightarrow> dp_address dp addr
      | _ \<Rightarrow> dp_key dp key)"

definition key_to_addr :: "displays \<Rightarrow> node \<Rightarrow> edge list \<Rightarrow> (offchain_key \<times> string) list" where
  "key_to_addr dp n edges = List.map (\<lambda>k. (k, node_label dp n k)) (edge_keys edges)"

definition label_of :: "displays \<Rightarrow> (offchain_key \<times> string) list \<Rightarrow> offchain_key \<Rightarrow> string" where
  "label_of dp m key = (case map_of m key of Some l \<Rightarrow> l | None \<Rightarrow> dp_key dp key)"

definition edge_attrs :: "displays \<Rightarrow> observation \<Rightarrow> string list" where
  "edge_attrs dp obs =
     (case ob_score obs of None \<Rightarrow> [] | Some sc \<Rightarrow> [''score='' @ dp_score2 dp sc])
     @ (case ob_immediate obs of
          None \<Rightarrow> []
        | Some imm \<Rightarrow>
            (case iq_latency_ms imm of None \<Rightarrow> [] | Some l \<Rightarrow> [''lat='' @ show_nat l @ ''ms'']))
     @ (case ob_intermediate_balance obs of
          None \<Rightarrow> []
        | Some None \<Rightarrow> []
        | Some (Some b) \<Rightarrow> [''balance='' @ dp_balance dp b])"

definition quote :: "string \<Rightarrow> string" where
  "quote s = [CHR 0x22] @ s @ [CHR 0x22]"

definition edge_line :: "displays \<Rightarrow> (offchain_key \<Rightarrow> string) \<Rightarrow> edge \<Rightarrow> string" where
  "edge_line dp label e =
     (case e of (src, dst, obs) \<Rightarrow>
        ''  '' @ quote (label src) @ '' -> '' @ quote (label dst) @ '' [label=''
        @ quote (join_with '' '' (edge_attrs dp obs)) @ ''];'' @ [newline])"

definition render_dot :: "displays \<Rightarrow> node \<Rightarrow> edge list \<Rightarrow> string" where
  "render_dot dp n edges =
     ''digraph hopr {'' @ [newline]
     @ concat (List.map (edge_line dp (label_of dp (key_to_addr dp n edges))) edges)
     @ ''}'' @ [newline]"

definition graph :: "displays \<Rightarrow> node \<Rightarrow> bool \<Rightarrow> (node_call, unit) handled" where
  "graph dp n reachable_only =
     ([], Response 200 (Body_Text (render_dot dp n
        (if reachable_only then nd_reachable_edges n else nd_connected_edges n))))"

section \<open>Annotations\<close>

definition price_doc :: endpoint_doc where
  "price_doc = \<lparr> ed_method = GET, ed_path = base_path @ ''/network/price'',
     ed_statuses = [200, 401, 422], ed_secured = True, ed_tag = ''Network'' \<rparr>"

definition probability_doc :: endpoint_doc where
  "probability_doc = \<lparr> ed_method = GET, ed_path = base_path @ ''/network/probability'',
     ed_statuses = [200, 401, 422], ed_secured = True, ed_tag = ''Network'' \<rparr>"

definition connected_doc :: endpoint_doc where
  "connected_doc = \<lparr> ed_method = GET, ed_path = base_path @ ''/network/connected'',
     ed_statuses = [200, 401, 422], ed_secured = True, ed_tag = ''Network'' \<rparr>"

definition announced_doc :: endpoint_doc where
  "announced_doc = \<lparr> ed_method = GET, ed_path = base_path @ ''/network/announced'',
     ed_statuses = [200, 401, 422], ed_secured = True, ed_tag = ''Network'' \<rparr>"

definition graph_doc :: endpoint_doc where
  "graph_doc = \<lparr> ed_method = GET, ed_path = base_path @ ''/network/graph'',
     ed_statuses = [200, 401], ed_secured = True, ed_tag = ''Network'' \<rparr>"

section \<open>Lemmas\<close>

interpretation price: node_endpoint price_doc price
  by unfold_locales (simp_all add: price_doc_def price_def split: sum.split)

interpretation probability: node_endpoint probability_doc probability
  by unfold_locales (simp_all add: probability_doc_def probability_def split: sum.split)

interpretation connected: node_endpoint connected_doc connected
  by unfold_locales (simp_all add: connected_doc_def connected_def)

interpretation announced: node_endpoint announced_doc announced
  by unfold_locales (simp_all add: announced_doc_def announced_def split: sum.split)

interpretation graph: node_endpoint graph_doc "graph dp" for dp
  by unfold_locales (simp_all add: graph_doc_def graph_def)

lemma parse_origin_display [simp]: "parse_origin (origin_display x) = Some x"
  by (cases x) (simp_all add: parse_origin_def eq_ignore_ascii_case_def ascii_lowercase_def
      ascii_lower_def Let_def)

lemma edge_keys_ends:
  "(src, dst, obs) \<in> set edges \<Longrightarrow> src \<in> set (edge_keys edges) \<and> dst \<in> set (edge_keys edges)"
  by (force simp: edge_keys_def)

lemma map_of_graph_keys: "map_of (List.map (\<lambda>k. (k, f k)) ks) k = (if k \<in> set ks then Some (f k) else None)"
  by (induction ks) auto

lemma label_of_key:
  "k \<in> set (edge_keys edges) \<Longrightarrow> label_of dp (key_to_addr dp n edges) k = node_label dp n k"
  by (simp add: label_of_def key_to_addr_def map_of_graph_keys)

lemma connected_peer_Some_iff:
  "connected_peer n (src, dst, obs) = Some p \<longleftrightarrow>
     src = nd_graph_identity n \<and>
     (\<exists>imm addr. ob_immediate obs = Some imm \<and> iq_is_connected imm = Some True
        \<and> nd_packet_key_to_chain_key n dst = Inr (Some addr)
        \<and> p = \<lparr> cpr_address = addr, cpr_probe_rate = iq_probe_rate imm,
                cpr_last_update = ob_last_update_ms obs,
                cpr_average_latency = iq_latency_ms imm, cpr_score = ob_score obs \<rparr>)"
  by (auto simp: connected_peer_def split: option.splits sum.splits if_splits)

text \<open>The connected list is exact: a peer is listed if and only if some edge of the graph starts at
  this node, carries an immediate observation that is known to be connected (an unmeasured edge is
  not), and ends at a key the chain resolves to the listed address; unresolved and unmeasured edges
  are skipped without failing the request.\<close>

theorem connected_exact:
  "\<exists>ps. snd (connected n r) = json_ok 200 ps \<and>
     (\<forall>a. a \<in> cpr_address ` set ps \<longleftrightarrow>
        (\<exists>dst obs imm. (nd_graph_identity n, dst, obs) \<in> set (nd_connected_edges n)
           \<and> ob_immediate obs = Some imm \<and> iq_is_connected imm = Some True
           \<and> nd_packet_key_to_chain_key n dst = Inr (Some a)))"
proof -
  let ?ps = "List.map_filter (connected_peer n) (nd_connected_edges n)"
  have "a \<in> cpr_address ` set ?ps \<longleftrightarrow>
        (\<exists>dst obs imm. (nd_graph_identity n, dst, obs) \<in> set (nd_connected_edges n)
           \<and> ob_immediate obs = Some imm \<and> iq_is_connected imm = Some True
           \<and> nd_packet_key_to_chain_key n dst = Inr (Some a))" (is "?L \<longleftrightarrow> ?R") for a
  proof
    assume ?L
    then obtain p src dst obs where "(src, dst, obs) \<in> set (nd_connected_edges n)"
        "connected_peer n (src, dst, obs) = Some p" "a = cpr_address p"
      by (auto simp: filter_map_Some)
    then show ?R by (auto simp: connected_peer_Some_iff) blast
  next
    assume ?R
    then obtain dst obs imm where e: "(nd_graph_identity n, dst, obs) \<in> set (nd_connected_edges n)"
        "ob_immediate obs = Some imm" "iq_is_connected imm = Some True"
        "nd_packet_key_to_chain_key n dst = Inr (Some a)"
      by blast
    then obtain p where "connected_peer n (nd_graph_identity n, dst, obs) = Some p"
        "cpr_address p = a"
      using connected_peer_Some_iff [of n "nd_graph_identity n" dst obs] by auto
    then show ?L using e(1) by (force simp: filter_map_Some)
  qed
  then show ?thesis by (auto simp: connected_def)
qed

text \<open>The DOT graph has one line per edge, in the order of the graph, and every line names both
  ends by the chain address where the key resolves and by the key itself otherwise: the label map
  built beforehand covers every end, so the fallback inside the renderer is never what is printed
  for a resolvable key. Asking for reachable edges only changes nothing but the edges listed.\<close>

theorem graph_renders_every_edge:
  "snd (graph dp n b) =
     Response 200 (Body_Text (''digraph hopr {'' @ [newline]
       @ concat (List.map (edge_line dp (node_label dp n))
           (if b then nd_reachable_edges n else nd_connected_edges n))
       @ ''}'' @ [newline]))"
proof -
  let ?es = "if b then nd_reachable_edges n else nd_connected_edges n"
  have "List.map (edge_line dp (label_of dp (key_to_addr dp n ?es))) ?es =
        List.map (edge_line dp (node_label dp n)) ?es"
    by (rule map_cong [OF refl])
       (auto simp: edge_line_def label_of_key dest: edge_keys_ends split: prod.split)
  then show ?thesis by (simp only: graph_def render_dot_def snd_conv)
qed

end
