(* ===== verification/Node_Info.thy ===== *)
theory Node_Info
  imports Endpoint Json
begin

text \<open>
  The node endpoints (\<open>rest-api/src/node.rs\<close>): version, configuration, information and the aggregated
  status. The configuration served is the JSON value the daemon passed in (already redacted there).
\<close>

record node_version_response =
  nv_version :: string

definition version :: "string \<Rightarrow> unit \<Rightarrow> (node_call, node_version_response) handled" where
  "version v r = ([], json_ok 200 \<lparr> nv_version = v \<rparr>)"

definition configuration :: "json \<Rightarrow> unit \<Rightarrow> (node_call, json) handled" where
  "configuration hoprd_cfg r = ([], json_ok 200 hoprd_cfg)"

record node_info_response =
  nir_announced_address :: "multiaddr list"
  nir_listening_address :: "multiaddr list"
  nir_provider_url :: string
  nir_hopr_network_name :: string
  nir_hopr_node_safe :: address
  nir_connectivity_status :: health
  nir_chain_status :: string
  nir_channel_closure_period :: nat

definition provider_url :: "json \<Rightarrow> string option" where
  "provider_url cfg =
     (case json_get ''blokli_url'' cfg of None \<Rightarrow> None | Some v \<Rightarrow> as_str v)"

text \<open>\<open>try_join!\<close> runs both reads and returns the error that arrives first; \<open>closure_first\<close> says that
  the closure-period read fails before the chain-info read does.\<close>

definition try_join ::
  "bool \<Rightarrow> (lib_error, 'a) res \<Rightarrow> (lib_error, 'b) res \<Rightarrow> (lib_error, 'a \<times> 'b) res" where
  "try_join second_first a b =
     (case (a, b) of
        (Inr x, Inr y) \<Rightarrow> Inr (x, y)
      | (Inl e, Inr y) \<Rightarrow> Inl e
      | (Inr x, Inl e) \<Rightarrow> Inl e
      | (Inl e, Inl e') \<Rightarrow> Inl (if second_first then e' else e))"

definition info ::
  "displays \<Rightarrow> json \<Rightarrow> bool \<Rightarrow> node \<Rightarrow> unit \<Rightarrow> (node_call, node_info_response) handled" where
  "info dp hoprd_cfg closure_first n r =
     ([], case try_join closure_first (nd_chain_info_network n) (nd_closure_period_secs n) of
            Inr (network_name, closure) \<Rightarrow>
              json_ok 200
                \<lparr> nir_announced_address = nd_listening_as n,
                  nir_listening_address = nd_listening_as n,
                  nir_provider_url =
                    (case provider_url hoprd_cfg of None \<Rightarrow> ''n/a'' | Some u \<Rightarrow> u),
                  nir_hopr_network_name = network_name,
                  nir_hopr_node_safe = nd_safe n,
                  nir_connectivity_status = nd_health n,
                  nir_chain_status = dp_component dp (nd_chain_status n),
                  nir_channel_closure_period = closure \<rparr>
          | Inl e \<Rightarrow> status_err 422 (UnknownFailure (lib_error_display e)))"

record component_status_info =
  csi_status :: string
  csi_detail :: "string option"

fun component_status_to_info :: "component_status \<Rightarrow> component_status_info" where
  "component_status_to_info Comp_Ready = \<lparr> csi_status = ''Ready'', csi_detail = None \<rparr>"
| "component_status_to_info (Comp_Initializing d) =
     \<lparr> csi_status = ''Initializing'', csi_detail = Some d \<rparr>"
| "component_status_to_info (Comp_Degraded d) =
     \<lparr> csi_status = ''Degraded'', csi_detail = Some d \<rparr>"
| "component_status_to_info (Comp_Unavailable d) =
     \<lparr> csi_status = ''Unavailable'', csi_detail = Some d \<rparr>"

record component_statuses_response =
  csr_chain :: component_status_info
  csr_network :: component_status_info
  csr_transport :: component_status_info

record node_status_response =
  nsr_overall :: string
  nsr_node_state :: string
  nsr_components :: component_statuses_response

text \<open>The aggregation inside \<open>status\<close>.\<close>

definition overall_status :: "component_status list \<Rightarrow> component_status" where
  "overall_status statuses =
     (if list_ex is_unavailable statuses then Comp_Unavailable ''one or more components unavailable''
      else if list_ex is_degraded statuses then Comp_Degraded ''one or more components degraded''
      else if list_ex is_initializing statuses
           then Comp_Initializing ''one or more components initializing''
      else Comp_Ready)"

definition node_status :: "displays \<Rightarrow> node \<Rightarrow> unit \<Rightarrow> (node_call, node_status_response) handled" where
  "node_status dp n r =
     ([], json_ok 200
        \<lparr> nsr_overall = dp_component dp
            (overall_status [nd_chain_status n, nd_network_status n, nd_transport_status n]),
          nsr_node_state = dp_state dp (nd_state n),
          nsr_components =
            \<lparr> csr_chain = component_status_to_info (nd_chain_status n),
              csr_network = component_status_to_info (nd_network_status n),
              csr_transport = component_status_to_info (nd_transport_status n) \<rparr> \<rparr>)"

section \<open>Annotations\<close>

definition version_doc :: endpoint_doc where
  "version_doc = \<lparr> ed_method = GET, ed_path = base_path @ ''/node/version'',
     ed_statuses = [200, 401], ed_secured = True, ed_tag = ''Node'' \<rparr>"

definition configuration_doc :: endpoint_doc where
  "configuration_doc = \<lparr> ed_method = GET, ed_path = base_path @ ''/node/configuration'',
     ed_statuses = [200, 401], ed_secured = True, ed_tag = ''Configuration'' \<rparr>"

definition info_doc :: endpoint_doc where
  "info_doc = \<lparr> ed_method = GET, ed_path = base_path @ ''/node/info'',
     ed_statuses = [200, 401, 422], ed_secured = True, ed_tag = ''Node'' \<rparr>"

definition node_status_doc :: endpoint_doc where
  "node_status_doc = \<lparr> ed_method = GET, ed_path = base_path @ ''/node/status'',
     ed_statuses = [200, 401], ed_secured = True, ed_tag = ''Node'' \<rparr>"

section \<open>Severity\<close>

text \<open>The abstract order behind the aggregation.\<close>

datatype severity = Sev_Ready | Sev_Initializing | Sev_Degraded | Sev_Unavailable

fun severity_rank :: "severity \<Rightarrow> nat" where
  "severity_rank Sev_Ready = 0"
| "severity_rank Sev_Initializing = 1"
| "severity_rank Sev_Degraded = 2"
| "severity_rank Sev_Unavailable = 3"

lemma severity_rank_inject: "severity_rank a = severity_rank b \<longleftrightarrow> a = b"
  by (cases a; cases b) simp_all

instantiation severity :: linorder
begin

definition less_eq_severity :: "severity \<Rightarrow> severity \<Rightarrow> bool" where
  "less_eq_severity a b \<longleftrightarrow> severity_rank a \<le> severity_rank b"

definition less_severity :: "severity \<Rightarrow> severity \<Rightarrow> bool" where
  "less_severity a b \<longleftrightarrow> severity_rank a < severity_rank b"

instance
  by standard (auto simp: less_eq_severity_def less_severity_def severity_rank_inject)

end

fun severity_of :: "component_status \<Rightarrow> severity" where
  "severity_of Comp_Ready = Sev_Ready"
| "severity_of (Comp_Initializing d) = Sev_Initializing"
| "severity_of (Comp_Degraded d) = Sev_Degraded"
| "severity_of (Comp_Unavailable d) = Sev_Unavailable"

lemma severity_tests:
  "is_unavailable c \<longleftrightarrow> severity_of c = Sev_Unavailable"
  "is_degraded c \<longleftrightarrow> severity_of c = Sev_Degraded"
  "is_initializing c \<longleftrightarrow> severity_of c = Sev_Initializing"
  by (cases c; simp)+

lemma severity_top [simp]: "s \<le> Sev_Unavailable"
  by (cases s) (simp_all add: less_eq_severity_def)

lemma severity_bot [simp]: "Sev_Ready \<le> s"
  by (cases s) (simp_all add: less_eq_severity_def)

lemma severity_cases_le:
  "s \<noteq> Sev_Unavailable \<Longrightarrow> s \<le> Sev_Degraded"
  "s \<noteq> Sev_Unavailable \<Longrightarrow> s \<noteq> Sev_Degraded \<Longrightarrow> s \<le> Sev_Initializing"
  by (cases s; simp add: less_eq_severity_def)+

interpretation version: node_endpoint version_doc version
  by unfold_locales (simp_all add: version_doc_def version_def)

interpretation configuration: node_endpoint configuration_doc configuration
  by unfold_locales (simp_all add: configuration_doc_def configuration_def)

interpretation info: node_endpoint info_doc "info dp cfg cf" for dp cfg cf
  by unfold_locales (simp_all add: info_doc_def info_def split: sum.split prod.split)

interpretation node_status: node_endpoint node_status_doc "node_status dp" for dp
  by unfold_locales (simp_all add: node_status_doc_def node_status_def)

lemma overall_status_severity:
  "severity_of (overall_status cs) =
     (if Sev_Unavailable \<in> severity_of ` set cs then Sev_Unavailable
      else if Sev_Degraded \<in> severity_of ` set cs then Sev_Degraded
      else if Sev_Initializing \<in> severity_of ` set cs then Sev_Initializing
      else Sev_Ready)"
proof -
  have mem: "v \<in> severity_of ` set cs \<longleftrightarrow> (\<exists>c\<in>set cs. severity_of c = v)" for v by force
  show ?thesis by (simp add: overall_status_def list_ex_iff severity_tests mem)
qed

lemma overall_status_attained:
  "severity_of (overall_status cs) \<in> insert Sev_Ready (severity_of ` set cs)"
  by (simp add: overall_status_severity)

lemma overall_status_upper:
  assumes "c \<in> set cs" shows "severity_of c \<le> severity_of (overall_status cs)"
proof -
  have "severity_of c \<in> severity_of ` set cs" using assms by simp
  then show ?thesis
    by (cases "severity_of c") (simp_all add: overall_status_severity less_eq_severity_def)
qed

text \<open>The aggregated status is the worst component status: its severity is the maximum of the
  severities of the components, in the order ready, initializing, degraded, unavailable.\<close>

theorem overall_status_is_max:
  "severity_of (overall_status cs) = Max (insert Sev_Ready (severity_of ` set cs))"
proof (rule Max_eqI [symmetric])
  show "finite (insert Sev_Ready (severity_of ` set cs))" by simp
  show "severity_of (overall_status cs) \<in> insert Sev_Ready (severity_of ` set cs)"
    by (rule overall_status_attained)
  show "s \<le> severity_of (overall_status cs)" if "s \<in> insert Sev_Ready (severity_of ` set cs)" for s
    using that overall_status_upper by auto
qed

end
