(* ===== verification/Peers.thy ===== *)
theory Peers
  imports Network_Views
begin

text \<open>
  The peer endpoints (\<open>rest-api/src/peers.rs\<close>): everything known about a peer, and a direct ping.
\<close>

record multiaddress_source =
  ms_multiaddress :: multiaddr
  ms_origin :: announcement_origin_response

record peer_channel_info =
  pci_id :: hash
  pci_status :: channel_status
  pci_balance :: balance

record peer_qos_info =
  pqi_probe_rate :: "f64 option"
  pqi_last_update :: nat
  pqi_average_latency :: "nat option"
  pqi_score :: "f64 option"

record node_peer_info_response =
  npi_announced_sources :: "multiaddress_source list"
  npi_observed :: "multiaddr list"
  npi_qos :: "peer_qos_info option"
  npi_outgoing_channel :: "peer_channel_info option"
  npi_incoming_channel :: "peer_channel_info option"

definition to_announced_sources :: "multiaddr list \<Rightarrow> multiaddress_source list" where
  "to_announced_sources mas =
     List.map (\<lambda>ma. \<lparr> ms_multiaddress = ma, ms_origin = Origin_Chain \<rparr>) mas"

definition channel_entry_to_peer_info ::
  "(lib_error, channel_entry option) res \<Rightarrow> peer_channel_info option" where
  "channel_entry_to_peer_info result =
     (case result of
        Inr (Some ch) \<Rightarrow>
          if ce_status ch \<noteq> CS_Closed
          then Some \<lparr> pci_id = ce_id ch, pci_status = ce_status ch, pci_balance = ce_balance ch \<rparr>
          else None
      | _ \<Rightarrow> None)"

text \<open>The search through the edges: it stops at the first edge from this node whose far key resolves to
  the address, whether or not that edge has an immediate observation.\<close>

fun find_qos :: "node \<Rightarrow> address \<Rightarrow> edge list \<Rightarrow> peer_qos_info option" where
  "find_qos n address [] = None"
| "find_qos n address ((src, dst, obs) # es) =
     (if src \<noteq> nd_graph_identity n then find_qos n address es
      else (case nd_packet_key_to_chain_key n dst of
          Inr (Some a) \<Rightarrow>
            if a \<noteq> address then find_qos n address es
            else (case ob_immediate obs of
                Some imm \<Rightarrow>
                  Some \<lparr> pqi_probe_rate = iq_probe_rate imm,
                         pqi_last_update = ob_last_update_ms obs,
                         pqi_average_latency = iq_latency_ms imm, pqi_score = ob_score obs \<rparr>
              | None \<Rightarrow> None)
        | _ \<Rightarrow> find_qos n address es))"

definition show_peer_info ::
  "node \<Rightarrow> address \<Rightarrow> (node_call, node_peer_info_response) handled" where
  "show_peer_info n address =
     ([], case nd_chain_key_to_packet_key n address of
            Inr (Some offchain_key) \<Rightarrow>
              (case nd_accounts_with_key n offchain_key of
                 Inl e \<Rightarrow> status_err 422 (UnknownFailure (lib_error_display e))
               | Inr accounts \<Rightarrow>
                   json_ok 200
                     \<lparr> npi_announced_sources =
                         to_announced_sources (concat (List.map aa_multiaddrs accounts)),
                       npi_observed =
                         (case nd_multiaddress_of n (nd_peer_id n offchain_key) of
                            None \<Rightarrow> [] | Some s \<Rightarrow> s),
                       npi_qos = find_qos n address (nd_connected_edges n),
                       npi_outgoing_channel =
                         channel_entry_to_peer_info (nd_channel n (nd_me n) address),
                       npi_incoming_channel =
                         channel_entry_to_peer_info (nd_channel n address (nd_me n)) \<rparr>)
          | _ \<Rightarrow> status_err 404 PeerNotFound)"

text \<open>The round trip a ping measures, in nanoseconds; the response reports half of it.\<close>

record ping_response =
  pr_latency :: nat

fun ping_error_response :: "displays \<Rightarrow> transport_error \<Rightarrow> 'b response" where
  "ping_error_response dp TE_ProtocolTimeout = status_err 408 Timeout"
| "ping_error_response dp (TE_ProbeTraffic e) = status_err 408 Timeout"
| "ping_error_response dp (TE_ProbePinger e) = status_err 422 (PingError e)"
| "ping_error_response dp TE_ProbeNonExistingPeer = status_err 404 PeerNotFound"
| "ping_error_response dp (TE_Other e) =
     status_err 422 (UnknownFailure (dp_transport_error dp (TE_Other e)))"

definition ping_peer ::
  "displays \<Rightarrow> node \<times> node_ops \<Rightarrow> address \<Rightarrow> (node_call, ping_response) handled" where
  "ping_peer dp env address =
     (case nd_chain_key_to_packet_key (fst env) address of
        Inr None \<Rightarrow> ([], status_err 404 PeerNotFound)
      | Inl e \<Rightarrow> ([], status_err 422 (UnknownFailure (lib_error_display e)))
      | Inr (Some offchain_key) \<Rightarrow>
          ([NC_Ping offchain_key],
           case no_ping (snd env) offchain_key of
             Inr latency \<Rightarrow> json_ok 200 \<lparr> pr_latency = latency div 2 \<rparr>
           | Inl e \<Rightarrow> ping_error_response dp e))"

definition show_peer_info_doc :: endpoint_doc where
  "show_peer_info_doc = \<lparr> ed_method = GET, ed_path = base_path @ ''/peers/{address}'',
     ed_statuses = [200, 400, 404, 401, 422], ed_secured = True, ed_tag = ''Peers'' \<rparr>"

definition ping_peer_doc :: endpoint_doc where
  "ping_peer_doc = \<lparr> ed_method = POST, ed_path = base_path @ ''/peers/{address}/ping'',
     ed_statuses = [200, 400, 401, 404, 408, 412, 422], ed_secured = True, ed_tag = ''Peers'' \<rparr>"

section \<open>Lemmas\<close>

lemma ping_error_408_iff:
  "resp_status (ping_error_response dp e) = 408 \<longleftrightarrow>
     e = TE_ProtocolTimeout \<or> (\<exists>t. e = TE_ProbeTraffic t)"
  by (cases e) simp_all

lemma ping_error_not_json [simp]:
  "ping_error_response dp e \<noteq> json_ok s b" "resp_status (ping_error_response dp e) \<noteq> 412"
  by (cases e; simp add: response_defs)+

lemma ping_error_status:
  "resp_status (ping_error_response dp e) \<in> {404, 408, 422}"
  by (cases e) simp_all

interpretation show_peer_info: node_endpoint show_peer_info_doc show_peer_info
  by unfold_locales
     (simp_all add: show_peer_info_doc_def show_peer_info_def split: sum.split option.split)

interpretation ping_peer: node_endpoint ping_peer_doc "ping_peer dp" for dp
  by unfold_locales
     (use ping_error_status in
       \<open>auto simp: ping_peer_doc_def ping_peer_def split: sum.split option.split\<close>)

lemma channel_entry_to_peer_info_Some_iff:
  "channel_entry_to_peer_info r = Some i \<longleftrightarrow>
     (\<exists>ch. r = Inr (Some ch) \<and> ce_status ch \<noteq> CS_Closed
       \<and> i = \<lparr> pci_id = ce_id ch, pci_status = ce_status ch, pci_balance = ce_balance ch \<rparr>)"
  by (auto simp: channel_entry_to_peer_info_def split: sum.splits option.splits if_splits)

text \<open>An edge that leads from this node to the given address.\<close>

definition edge_to :: "node \<Rightarrow> address \<Rightarrow> edge \<Rightarrow> bool" where
  "edge_to n a e \<longleftrightarrow>
     fst e = nd_graph_identity n \<and> nd_packet_key_to_chain_key n (fst (snd e)) = Inr (Some a)"

definition qos_of :: "observation \<Rightarrow> peer_qos_info option" where
  "qos_of obs = map_option (\<lambda>imm. \<lparr> pqi_probe_rate = iq_probe_rate imm,
       pqi_last_update = ob_last_update_ms obs,
       pqi_average_latency = iq_latency_ms imm, pqi_score = ob_score obs \<rparr>) (ob_immediate obs)"

lemma find_qos_find:
  "find_qos n a es =
     (case find (edge_to n a) es of None \<Rightarrow> None | Some e \<Rightarrow> qos_of (snd (snd e)))"
  by (induction n a es rule: find_qos.induct)
     (auto simp: edge_to_def qos_of_def split: sum.splits option.splits)

text \<open>The peer view and the connected list agree. If the graph has one edge from this node to an
  address and the connected list shows that address, then asking for the peer shows the same
  probe rate, last update, latency and score (the peer being known and its announcements readable).\<close>

theorem peer_info_agrees_with_connected:
  assumes "snd (connected n u) = json_ok 200 ps" and "p \<in> set ps"
    and "filter (edge_to n (cpr_address p)) (nd_connected_edges n) = [e]"
    and "nd_chain_key_to_packet_key n (cpr_address p) = Inr (Some k)"
    and "nd_accounts_with_key n k = Inr accs"
  shows "\<exists>b. snd (show_peer_info n (cpr_address p)) = json_ok 200 b
     \<and> npi_qos b = Some \<lparr> pqi_probe_rate = cpr_probe_rate p, pqi_last_update = cpr_last_update p,
          pqi_average_latency = cpr_average_latency p, pqi_score = cpr_score p \<rparr>"
proof -
  obtain src dst obs where m: "(src, dst, obs) \<in> set (nd_connected_edges n)"
      "connected_peer n (src, dst, obs) = Some p"
    using assms(1,2) by (auto simp: connected_def filter_map_Some)
  then have "edge_to n (cpr_address p) (src, dst, obs)"
    by (auto simp: connected_peer_Some_iff edge_to_def)
  with m(1) have "(src, dst, obs) \<in> set (filter (edge_to n (cpr_address p)) (nd_connected_edges n))"
    by simp
  with assms(3) have e: "e = (src, dst, obs)" by simp
  have "find (edge_to n (cpr_address p)) (nd_connected_edges n) = Some e"
    using assms(3) by (rule find_filter_single)
  then have "find_qos n (cpr_address p) (nd_connected_edges n) = qos_of obs"
    by (simp add: find_qos_find e)
  moreover have "qos_of obs = Some \<lparr> pqi_probe_rate = cpr_probe_rate p,
      pqi_last_update = cpr_last_update p, pqi_average_latency = cpr_average_latency p,
      pqi_score = cpr_score p \<rparr>"
    using m(2) by (auto simp: connected_peer_Some_iff qos_of_def)
  ultimately show ?thesis using assms(4,5) by (simp add: show_peer_info_def)
qed

theorem peer_info_agrees_with_connected_witness:
  "\<exists>b. snd (show_peer_info sample_node 5) = json_ok 200 b
     \<and> npi_qos b = Some \<lparr> pqi_probe_rate = Some 1, pqi_last_update = 1000,
          pqi_average_latency = Some 20, pqi_score = Some 2 \<rparr>"
proof -
  let ?p = "\<lparr> cpr_address = 5, cpr_probe_rate = Some 1, cpr_last_update = 1000,
      cpr_average_latency = Some 20, cpr_score = Some 2 \<rparr>"
  have "snd (connected sample_node ()) = json_ok 200 [?p]"
    by (simp add: connected_def sample_node_def sample_observation_def connected_peer_def
        map_filter_simps)
  moreover have "filter (edge_to sample_node (cpr_address ?p)) (nd_connected_edges sample_node)
      = [(100, 50, sample_observation)]"
    by (simp add: sample_node_def edge_to_def)
  ultimately show ?thesis
    using peer_info_agrees_with_connected [of sample_node "()" "[?p]" ?p _ 50 "[]"]
    by (simp add: sample_node_def)
qed

text \<open>A ping goes out exactly when the address resolves to a key, to that key, and a successful one
  answers with half of the measured round trip; the status separates a peer that timed out (408), a
  peer that does not exist (404) and every other failure (422), and the documented 412 is never
  given.\<close>

theorem ping_status_exact:
  "(fst (ping_peer dp (n, ops) a) = [NC_Ping k] \<longleftrightarrow>
      nd_chain_key_to_packet_key n a = Inr (Some k))
   \<and> (resp_status (snd (ping_peer dp (n, ops) a)) = 408 \<longleftrightarrow>
      (\<exists>k. nd_chain_key_to_packet_key n a = Inr (Some k) \<and>
         (no_ping ops k = Inl TE_ProtocolTimeout \<or> (\<exists>t. no_ping ops k = Inl (TE_ProbeTraffic t)))))
   \<and> (snd (ping_peer dp (n, ops) a) = json_ok 200 \<lparr> pr_latency = l \<rparr> \<longleftrightarrow>
      (\<exists>k rtt. nd_chain_key_to_packet_key n a = Inr (Some k) \<and> no_ping ops k = Inr rtt
         \<and> l = rtt div 2))
   \<and> resp_status (snd (ping_peer dp (n, ops) a)) \<noteq> 412"
proof (cases "nd_chain_key_to_packet_key n a")
  case (Inl e)
  then show ?thesis by (simp add: ping_peer_def response_defs)
next
  case (Inr ko)
  show ?thesis
  proof (cases ko)
    case None
    with Inr show ?thesis by (simp add: ping_peer_def response_defs)
  next
    case (Some k')
    with Inr show ?thesis
      by (cases "no_ping ops k'") (auto simp: ping_peer_def ping_error_408_iff)
  qed
qed

end
