(* ===== verification/Metrics_Path.thy ===== *)
theory Metrics_Path
  imports Endpoint
begin

text \<open>
  Metrics of the API (\<open>rest-api/src/middleware/prometheus.rs\<close> and \<open>rest-api/src/root.rs\<close>): the recording
  middleware with the identifier pattern it replaces in request paths, and the metrics endpoint with
  its filter of session metrics.

  The pattern is a list of alternatives, each a sequence of character classes with a minimal and a
  maximal count. Matching is what the \<open>regex\<close> crate does: at the leftmost position where some
  alternative matches, the first alternative that does, each repetition as long as it can be.
  Paths are ASCII.
\<close>

section \<open>The identifier pattern\<close>

record rx_item =
  rx_class :: "char list"
  rx_min :: nat
  rx_max :: nat

definition rx :: "char list \<Rightarrow> nat \<Rightarrow> nat \<Rightarrow> rx_item" where
  "rx cls mn mx = \<lparr> rx_class = cls, rx_min = mn, rx_max = mx \<rparr>"

definition rx_lit :: "string \<Rightarrow> rx_item list" where
  "rx_lit s = List.map (\<lambda>c. rx [c] 1 1) s"

definition digit_class :: "char list" where
  "digit_class = ''0123456789''"

definition hex_class :: "char list" where
  "hex_class = ''0123456789ABCDEFabcdef''"

definition alnum_class :: "char list" where
  "alnum_class = ''ABCDEFGHIJKLMNOPQRSTUVWXYZabcdefghijklmnopqrstuvwxyz0123456789''"

definition id_regex :: "rx_item list list" where
  "id_regex =
     [rx_lit ''0x'' @ [rx hex_class 40 40],
      rx_lit ''0x'' @ [rx hex_class 64 64],
      rx_lit ''12D3KooW'' @ [rx alnum_class 44 44],
      [rx digit_class 1 3] @ rx_lit ''.'' @ [rx digit_class 1 3] @ rx_lit ''.''
        @ [rx digit_class 1 3] @ rx_lit ''.'' @ [rx digit_class 1 3] @ rx_lit ''/''
        @ [rx digit_class 1 5]]"

text \<open>The length of the match of a sequence at the start of a string: a repetition tries its longest run
  first and gives characters back until the rest matches.\<close>

fun first_some :: "(nat \<Rightarrow> 'a option) \<Rightarrow> nat list \<Rightarrow> 'a option" where
  "first_some f [] = None"
| "first_some f (k # ks) = (case f k of Some x \<Rightarrow> Some x | None \<Rightarrow> first_some f ks)"

fun match_items :: "rx_item list \<Rightarrow> string \<Rightarrow> nat option" where
  "match_items [] s = Some 0"
| "match_items (i # is) s =
     (let run = length (takeWhile (\<lambda>c. c \<in> set (rx_class i)) (take (rx_max i) s))
      in first_some
           (\<lambda>k. map_option (\<lambda>m. k + m) (match_items is (drop k s)))
           (rev [rx_min i ..< Suc run]))"

fun match_alts :: "rx_item list list \<Rightarrow> string \<Rightarrow> nat option" where
  "match_alts [] s = None"
| "match_alts (a # as) s = (case match_items a s of Some m \<Rightarrow> Some m | None \<Rightarrow> match_alts as s)"

text \<open>\<open>Regex::replace\<close>: only the first match is replaced.\<close>

fun replace_first :: "rx_item list list \<Rightarrow> string \<Rightarrow> string \<Rightarrow> string" where
  "replace_first alts by_str [] =
     (case match_alts alts [] of Some m \<Rightarrow> by_str | None \<Rightarrow> [])"
| "replace_first alts by_str (c # s) =
     (case match_alts alts (c # s) of
        Some m \<Rightarrow> by_str @ drop m (c # s)
      | None \<Rightarrow> c # replace_first alts by_str s)"

definition normalise_path :: "string \<Rightarrow> string" where
  "normalise_path path = replace_first id_regex ''<id>'' path"

section \<open>The recording middleware\<close>

record api_metrics =
  am_calls :: "(string \<times> string \<times> nat) list"
  am_timings :: "((string \<times> string) \<times> nat) list"
  am_last_time :: nat

definition record_call ::
  "string \<Rightarrow> string \<Rightarrow> nat \<Rightarrow> nat \<Rightarrow> nat \<Rightarrow> api_metrics \<Rightarrow> api_metrics" where
  "record_call path meth status duration now m =
     (let m' =
        (if starts_with ''/api/v4/'' path \<and> \<not> contains_str ''node/metrics'' path then
           (let p = normalise_path path
            in m\<lparr> am_calls := am_calls m @ [(p, meth, status)],
                  am_timings := am_timings m @ [((p, meth), duration)] \<rparr>)
         else m)
      in m'\<lparr> am_last_time := now \<rparr>)"

section \<open>The metrics endpoint\<close>

definition is_session_metric_line :: "string \<Rightarrow> bool" where
  "is_session_metric_line line \<longleftrightarrow>
     starts_with ''hopr_session_'' line
     \<or> starts_with ''# HELP hopr_session_'' line
     \<or> starts_with ''# TYPE hopr_session_'' line"

text \<open>\<open>gathered\<close> is the telemetry library's text, or the failure to gather it; \<open>None\<close> is a build without
  telemetry.\<close>

definition collect_hopr_metrics ::
  "(unit, string) res option \<Rightarrow> (api_error_status, string) res" where
  "collect_hopr_metrics gathered =
     (case gathered of
        Some r \<Rightarrow>
          (case r of
             Inr metrics \<Rightarrow>
               Inr (join_with [newline]
                 (filter (\<lambda>l. \<not> is_session_metric_line l) (str_lines metrics)))
           | Inl u \<Rightarrow> Inl (UnknownFailure ''Failed to gather metrics''))
      | None \<Rightarrow> Inl (UnknownFailure ''BUILT WITHOUT METRICS SUPPORT''))"

definition metrics ::
  "(unit, string) res option \<Rightarrow> unit \<Rightarrow> (node_call, unit) handled" where
  "metrics gathered r =
     ([], case collect_hopr_metrics gathered of
            Inr m \<Rightarrow> Response 200 (Body_Text m)
          | Inl e \<Rightarrow> status_err 422 e)"

definition metrics_doc :: endpoint_doc where
  "metrics_doc = \<lparr> ed_method = GET, ed_path = ''/metrics'', ed_statuses = [200, 401, 422],
     ed_secured = True, ed_tag = ''Metrics'' \<rparr>"

section \<open>Lemmas\<close>

interpretation metrics: node_endpoint metrics_doc metrics
  by unfold_locales (simp_all add: metrics_doc_def metrics_def split: sum.split)

lemma first_some_Some: "first_some f ks = Some x \<Longrightarrow> \<exists>k\<in>set ks. f k = Some x"
  by (induction ks) (auto split: option.splits)

lemma match_items_lit: "match_items (rx_lit p @ is) (p @ s) = map_option (\<lambda>m. length p + m) (match_items is s)"
proof (induction p)
  case Nil
  then show ?case by (simp add: rx_lit_def option.map_ident)
next
  case (Cons c p)
  then show ?case
    by (simp add: rx_lit_def rx_def option.map_comp comp_def split: option.split)
qed

lemma take_all_in: "length h \<ge> n \<Longrightarrow> set h \<subseteq> set cls \<Longrightarrow>
    takeWhile (\<lambda>c. c \<in> set cls) (take n (h @ t)) = take n h"
proof -
  assume len: "length h \<ge> n" and sub: "set h \<subseteq> set cls"
  have "\<forall>c\<in>set (take n h). c \<in> set cls" using sub by (auto dest: in_set_takeD)
  then show ?thesis using len by (simp add: takeWhile_eq_all_conv)
qed

lemma match_exact_run:
  assumes "set h \<subseteq> set cls" and "n \<le> length h"
  shows "match_items [rx cls n n] (h @ t) = Some n"
proof -
  have len: "length (takeWhile (\<lambda>c. c \<in> set cls) (take n (h @ t))) = n"
    using assms(2) by (simp only: take_all_in [OF assms(2,1)]) simp
  show ?thesis
    by (simp only: rx_def match_items.simps rx_item.simps Let_def len) (simp add: upt_rec)
qed

text \<open>Any identifier that starts with \<open>0x\<close> and 40 hexadecimal digits is matched by the first
  alternative, for those 42 characters.\<close>

lemma match_hex_id:
  assumes "set h \<subseteq> set hex_class" and "40 \<le> length h"
  shows "match_alts id_regex (''0x'' @ h @ t) = Some 42"
proof -
  have "match_items (rx_lit ''0x'' @ [rx hex_class 40 40]) (''0x'' @ h @ t) = Some (length ''0x'' + 40)"
    using match_items_lit [of "''0x''" "[rx hex_class 40 40]" "h @ t"]
      match_exact_run [OF assms, of t] by simp
  then show ?thesis by (simp add: id_regex_def)
qed

text \<open>A character that no alternative starts with is copied.\<close>

lemma match_items_fail:
  assumes "c \<notin> set (rx_class i)" and "0 < rx_min i"
  shows "match_items (i # is) (c # s) = None"
proof -
  have "takeWhile (\<lambda>c. c \<in> set (rx_class i)) (take (rx_max i) (c # s)) = []"
    using assms(1) by (cases "rx_max i") simp_all
  then show ?thesis using assms(2) by (simp add: Let_def)
qed

lemma replace_first_skip:
  assumes "c \<notin> set digit_class"
  shows "replace_first id_regex b (c # s) = c # replace_first id_regex b s"
proof -
  have "match_alts id_regex (c # s) = None"
    using assms
    by (auto simp: id_regex_def rx_lit_def rx_def digit_class_def intro!: match_items_fail)
  then show ?thesis by simp
qed

lemma replace_first_skip_all:
  "set p \<inter> set digit_class = {} \<Longrightarrow>
     replace_first id_regex b (p @ s) = p @ replace_first id_regex b s"
  by (induction p) (simp_all add: replace_first_skip del: replace_first.simps)

lemma match_items_needs:
  "match_items is s = Some m \<Longrightarrow> i \<in> set is \<Longrightarrow> 0 < rx_min i \<Longrightarrow> \<exists>c\<in>set s. c \<in> set (rx_class i)"
proof (induction "is" arbitrary: s m)
  case Nil
  then show ?case by simp
next
  case (Cons j js)
  define run where "run = length (takeWhile (\<lambda>c. c \<in> set (rx_class j)) (take (rx_max j) s))"
  have "first_some (\<lambda>k. map_option (\<lambda>m. k + m) (match_items js (drop k s))) (rev [rx_min j ..< Suc run])
      = Some m"
    using Cons.prems(1) by (simp add: run_def Let_def)
  then obtain k where k0: "k \<in> set (rev [rx_min j ..< Suc run])"
      "map_option (\<lambda>m. k + m) (match_items js (drop k s)) = Some m"
    using first_some_Some by fast
  then obtain m' where k: "k \<in> set (rev [rx_min j ..< Suc run])"
      "match_items js (drop k s) = Some m'"
    by blast
  show ?case
  proof (cases "i = j")
    case False
    then show ?thesis
      using Cons.IH [OF k(2)] Cons.prems(2,3) by (auto dest: in_set_dropD)
  next
    case True
    then have "0 < run" using k(1) Cons.prems(3) by simp
    then obtain c where "c \<in> set (takeWhile (\<lambda>c. c \<in> set (rx_class j)) (take (rx_max j) s))"
      unfolding run_def by (metis last_in_set length_greater_0_conv)
    then show ?thesis
      using True by (auto dest: set_takeWhileD in_set_takeD)
  qed
qed

lemma no_id_without_marks:
  assumes "CHR ''x'' \<notin> set s" "CHR ''K'' \<notin> set s" "CHR ''.'' \<notin> set s"
  shows "match_alts id_regex s = None"
proof -
  have none: "match_items is s = None" if "rx [c] 1 1 \<in> set is" "c \<notin> set s" for c "is"
    using match_items_needs [of "is" s _ "rx [c] 1 1"] that by (cases "match_items is s") (auto simp: rx_def)
  have "match_items (rx_lit ''0x'' @ [rx hex_class n n]) s = None" for n
    using assms(1) by (intro none [of "CHR ''x''"]) (simp_all add: rx_lit_def)
  moreover have "match_items (rx_lit ''12D3KooW'' @ [rx alnum_class 44 44]) s = None"
    using assms(2) by (intro none [of "CHR ''K''"]) (simp_all add: rx_lit_def)
  moreover have "match_items ([rx digit_class 1 3] @ rx_lit ''.'' @ r) s = None" for r
    using assms(3) by (intro none [of "CHR ''.''"]) (simp_all add: rx_lit_def)
  ultimately show ?thesis by (simp add: id_regex_def del: append.simps)
qed

lemma replace_first_no_marks:
  "CHR ''x'' \<notin> set s \<Longrightarrow> CHR ''K'' \<notin> set s \<Longrightarrow> CHR ''.'' \<notin> set s \<Longrightarrow>
     replace_first id_regex b s = s"
  by (induction s) (simp_all add: no_id_without_marks del: match_alts.simps)

lemma path_prefix_digit:
  "replace_first id_regex b (''/api/v4/'' @ s) = ''/api/v4/'' @ replace_first id_regex b s"
proof -
  have four: "match_alts id_regex (''4/'' @ s) = None"
    by (simp add: id_regex_def rx_lit_def rx_def digit_class_def hex_class_def alnum_class_def
        Let_def upt_rec)
  have "replace_first id_regex b (''/api/v'' @ ''4/'' @ s) =
      ''/api/v'' @ replace_first id_regex b (''4/'' @ s)"
    by (rule replace_first_skip_all) (simp add: digit_class_def)
  also have "replace_first id_regex b (''4/'' @ s) = ''4'' @ replace_first id_regex b (''/'' @ s)"
    using four by simp
  also have "replace_first id_regex b (''/'' @ s) = ''/'' @ replace_first id_regex b s"
    by (rule replace_first_skip_all) (simp add: digit_class_def)
  finally show ?thesis by simp
qed

text \<open>A path under the API base, up to its first identifier.\<close>

lemma normalise_at:
  assumes "set p \<inter> set digit_class = {}" and "match_alts id_regex s = Some m" and "s \<noteq> []"
  shows "normalise_path (''/api/v4/'' @ p @ s) = ''/api/v4/'' @ p @ ''<id>'' @ drop m s"
proof -
  have "replace_first id_regex ''<id>'' s = ''<id>'' @ drop m s"
    using assms(2,3) by (cases s) simp_all
  then show ?thesis
    unfolding normalise_path_def path_prefix_digit replace_first_skip_all [OF assms(1)] by simp
qed

lemma match_short_hex:
  assumes "set h \<subseteq> set hex_class" and "length h < 40" and "c \<notin> set hex_class"
  shows "match_items (rx_lit ''0x'' @ [rx hex_class (40 + n) (40 + n)]) (''0x'' @ h @ c # t) = None"
proof -
  have "takeWhile (\<lambda>c. c \<in> set hex_class) (take (40 + n) (h @ c # t)) = h"
  proof -
    have "take (40 + n) (h @ c # t) = h @ take (40 + n - length h) (c # t)"
      using assms(2) by simp
    moreover have "takeWhile (\<lambda>c. c \<in> set hex_class) (h @ take (40 + n - length h) (c # t)) = h"
      using assms by (subst takeWhile_append2) (auto simp: take_Cons split: nat.split)
    ultimately show ?thesis by simp
  qed
  then have "match_items [rx hex_class (40 + n) (40 + n)] (h @ c # t) = None"
    using assms(2) by (simp only: rx_def match_items.simps rx_item.simps Let_def) (simp add: upt_rec)
  then show ?thesis
    using match_items_lit [of "''0x''" "[rx hex_class (40 + n) (40 + n)]" "h @ c # t"] by simp
qed

text \<open>The metrics label of an address is anonymised and the label of a channel id is not. In a path
  under the API base whose part before the identifier has no digit, an Ethereum address (40
  hexadecimal digits) is replaced as a whole; of a channel id (64 hexadecimal digits, which the
  pattern is documented to match) only the first 40 digits are, because the shorter alternative comes
  first, and the last 24 digits stay in the label.\<close>

theorem normalise_address_and_channel_id:
  assumes "set p \<inter> set digit_class = {}" and "set h \<subseteq> set hex_class" and "40 \<le> length h"
  shows "normalise_path (''/api/v4/'' @ p @ ''0x'' @ h @ t)
    = ''/api/v4/'' @ p @ ''<id>'' @ drop 40 h @ t"
proof -
  have "match_alts id_regex (''0x'' @ h @ t) = Some 42"
    by (rule match_hex_id [OF assms(2,3)])
  then have "normalise_path (''/api/v4/'' @ p @ ''0x'' @ h @ t)
      = ''/api/v4/'' @ p @ ''<id>'' @ drop 42 (''0x'' @ h @ t)"
    by (rule normalise_at [OF assms(1)]) simp
  then show ?thesis using assms(3) by simp
qed

definition sample_channel_id :: string where
  "sample_channel_id = ''04efc1481d3f106b88527b3844ba40042b823218a9cd29d1aa11c2c2ef8f538f''"

theorem normalise_address_and_channel_id_witness:
  "normalise_path (''/api/v4/'' @ ''channels/'' @ ''0x'' @ sample_channel_id @ [])
     = ''/api/v4/channels/<id>a9cd29d1aa11c2c2ef8f538f''"
  using normalise_address_and_channel_id [of "''channels/''" sample_channel_id "[]"]
  by (simp add: digit_class_def hex_class_def sample_channel_id_def)

text \<open>The session endpoints leak their session ids into the metrics labels. A session id (\<open>0x\<close>, fewer
  than 40 hexadecimal digits, a colon and a number) is matched by no alternative, so the path of a
  configuration request is recorded unchanged, a label of its own for every session.\<close>

theorem session_id_not_normalised:
  assumes "set h \<subseteq> set hex_class" and "length h < 40" and "set d \<subseteq> set digit_class"
  shows "normalise_path (''/api/v4/'' @ ''session/config/'' @ ''0x'' @ h @ '':'' @ d)
    = ''/api/v4/'' @ ''session/config/'' @ ''0x'' @ h @ '':'' @ d"
proof -
  let ?s = "h @ '':'' @ d"
  have rest: "CHR ''x'' \<notin> set ?s" "CHR ''K'' \<notin> set ?s" "CHR ''.'' \<notin> set ?s"
    using assms(1,3) by (auto simp: hex_class_def digit_class_def)
  have marks: "CHR ''K'' \<notin> set (''0x'' @ ?s)" "CHR ''.'' \<notin> set (''0x'' @ ?s)"
    using rest by auto
  have hex: "match_items (rx_lit ''0x'' @ [rx hex_class (40 + n) (40 + n)]) (''0x'' @ ?s) = None" for n
    using match_short_hex [OF assms(1,2), of "CHR '':''" n d] by (simp add: hex_class_def)
  have none: "match_items is s = None" if "rx [c] 1 1 \<in> set is" "c \<notin> set s" for c "is" s
    using match_items_needs [of "is" s _ "rx [c] 1 1"] that by (cases "match_items is s") (auto simp: rx_def)
  have "match_items (rx_lit ''12D3KooW'' @ [rx alnum_class 44 44]) (''0x'' @ ?s) = None"
    by (rule none [of "CHR ''K''", OF _ marks(1)]) (simp add: rx_lit_def)
  moreover have "match_items ([rx digit_class 1 3] @ rx_lit ''.'' @ r) (''0x'' @ ?s) = None" for r
    by (rule none [of "CHR ''.''", OF _ marks(2)]) (simp add: rx_lit_def)
  ultimately have "match_alts id_regex (''0x'' @ ?s) = None"
    using hex [of 0] hex [of 24] by (simp add: id_regex_def del: append.simps)
  then have "replace_first id_regex ''<id>'' (''0x'' @ ?s)
      = ''0'' @ replace_first id_regex ''<id>'' (''x'' @ ?s)"
    by simp
  also have "replace_first id_regex ''<id>'' (''x'' @ ?s) = ''x'' @ replace_first id_regex ''<id>'' ?s"
    by (rule replace_first_skip_all) (simp add: digit_class_def)
  also have "replace_first id_regex ''<id>'' ?s = ?s"
    using rest by (rule replace_first_no_marks)
  finally have tail: "replace_first id_regex ''<id>'' (''0x'' @ ?s) = ''0x'' @ ?s" by simp
  have "replace_first id_regex ''<id>'' (''session/config/'' @ ''0x'' @ ?s)
      = ''session/config/'' @ replace_first id_regex ''<id>'' (''0x'' @ ?s)"
    by (rule replace_first_skip_all) (simp add: digit_class_def)
  then show ?thesis unfolding normalise_path_def path_prefix_digit tail by simp
qed

theorem session_id_not_normalised_witness:
  "normalise_path (''/api/v4/'' @ ''session/config/'' @ ''0x'' @ ''5112D584a1C72Fc25017'' @ '':'' @ ''487'')
     = ''/api/v4/session/config/0x5112D584a1C72Fc25017:487''"
  using session_id_not_normalised [of "''5112D584a1C72Fc25017''" "''487''"]
  by (simp add: digit_class_def hex_class_def)

lemma str_lines_no_newline: "l \<in> set (str_lines s) \<Longrightarrow> newline \<notin> set l"
proof -
  assume l: "l \<in> set (str_lines s)"
  have pieces: "newline \<notin> set p" if "p \<in> set (split_on newline s)" for p
    using that by (rule split_on_pieces)
  have chomp: "set (chomp_cr p) \<subseteq> set p" for p
    by (auto simp: chomp_cr_def dest: in_set_butlastD)
  have "last (split_on newline s) \<in> set (split_on newline s)" by simp
  then show ?thesis
    using l pieces chomp by (auto simp: str_lines_def Let_def dest: in_set_butlastD split: if_splits)
qed

text \<open>The metrics endpoint serves no session metric. When the metrics can be gathered, the lines of
  the text it answers are exactly the gathered lines that are not a sample, a help or a type line of
  a session metric, in order (or the answer is empty when none is left); otherwise it answers 422.\<close>

theorem metrics_without_sessions:
  "snd (metrics (Some (Inr text)) r) =
     Response 200 (Body_Text (join_with [newline]
       (filter (\<lambda>l. \<not> is_session_metric_line l) (str_lines text))))
   \<and> split_on newline (join_with [newline]
       (filter (\<lambda>l. \<not> is_session_metric_line l) (str_lines text)))
     = (if filter (\<lambda>l. \<not> is_session_metric_line l) (str_lines text) = [] then [[]]
        else filter (\<lambda>l. \<not> is_session_metric_line l) (str_lines text))
   \<and> resp_status (snd (metrics (Some (Inl ())) r)) = 422
   \<and> resp_status (snd (metrics None r)) = 422"
proof -
  let ?ls = "filter (\<lambda>l. \<not> is_session_metric_line l) (str_lines text)"
  have "split_on newline (join_with [newline] ?ls) = (if ?ls = [] then [[]] else ?ls)"
  proof (cases "?ls = []")
    case True
    then show ?thesis by (simp add: filter_empty_conv)
  next
    case False
    then have "split_on newline (join_with [newline] ?ls) = ?ls"
      by (rule split_on_join_with) (auto dest: str_lines_no_newline)
    then show ?thesis using False by simp
  qed
  then show ?thesis by (simp add: metrics_def collect_hopr_metrics_def)
qed

end
