(* ===== verification/Codec.thy ===== *)
theory Codec
  imports Network_Views Api_Config
begin

text \<open>
  Text codecs. Several types of the API travel as text through \<open>Display\<close> and \<open>FromStr\<close> (or serde's
  renaming); the locale states the round trip once, for the values a codec can carry, and derives what
  the API needs of it: different values have different texts, and lists of values survive element by
  element (\<open>serde_as(as = "Vec<DisplayFromStr>")\<close>).
\<close>

fun parse_all :: "(string \<Rightarrow> 'a option) \<Rightarrow> string list \<Rightarrow> 'a list option" where
  "parse_all p [] = Some []"
| "parse_all p (s # ss) =
     (case p s of None \<Rightarrow> None
      | Some x \<Rightarrow> (case parse_all p ss of None \<Rightarrow> None | Some xs \<Rightarrow> Some (x # xs)))"

locale text_codec =
  fixes show_of :: "'a \<Rightarrow> string"
    and parse_of :: "string \<Rightarrow> 'a option"
    and carries :: "'a \<Rightarrow> bool"
  assumes parse_show: "carries x \<Longrightarrow> parse_of (show_of x) = Some x"
begin

lemma show_inject: "carries x \<Longrightarrow> carries y \<Longrightarrow> show_of x = show_of y \<longleftrightarrow> x = y"
  by (metis option.inject parse_show)

lemma parse_show_list: "list_all carries xs \<Longrightarrow> parse_all parse_of (List.map show_of xs) = Some xs"
  by (induction xs) (simp_all add: parse_show)

end

interpretation flow_control: text_codec flow_control_name parse_flow_control "\<lambda>_. True"
  by unfold_locales simp

interpretation origin: text_codec origin_display parse_origin "\<lambda>_. True"
  by unfold_locales simp

section \<open>The IP protocol\<close>

datatype ip_protocol = TCP | UDP

fun protocol_display :: "ip_protocol \<Rightarrow> string" where
  "protocol_display TCP = ''tcp''"
| "protocol_display UDP = ''udp''"

text \<open>\<open>strum\<close>'s \<open>EnumString\<close> ignores the case; serde's \<open>rename_all = "lowercase"\<close>, which parses the path
  of the create and list endpoints, does not.\<close>

definition protocol_from_str :: "string \<Rightarrow> ip_protocol option" where
  "protocol_from_str s =
     (if eq_ignore_ascii_case s ''tcp'' then Some TCP
      else if eq_ignore_ascii_case s ''udp'' then Some UDP
      else None)"

definition protocol_deserialize :: "string \<Rightarrow> ip_protocol option" where
  "protocol_deserialize s =
     (if s = ''tcp'' then Some TCP else if s = ''udp'' then Some UDP else None)"

interpretation protocol: text_codec protocol_display protocol_from_str "\<lambda>_. True"
proof unfold_locales
  fix x show "protocol_from_str (protocol_display x) = Some x"
    by (cases x) (simp_all add: protocol_from_str_def eq_ignore_ascii_case_def
        ascii_lowercase_def ascii_lower_def Let_def)
qed

interpretation protocol_path: text_codec protocol_display protocol_deserialize "\<lambda>_. True"
proof unfold_locales
  fix x show "protocol_deserialize (protocol_display x) = Some x"
    by (cases x) (simp_all add: protocol_deserialize_def)
qed

section \<open>Session capabilities\<close>

datatype session_capability =
    Segmentation | Retransmission | RetransmissionAckOnly | NoDelay | NoRateControl | UsePIX

fun capability_display :: "session_capability \<Rightarrow> string" where
  "capability_display Segmentation = ''Segmentation''"
| "capability_display Retransmission = ''Retransmission''"
| "capability_display RetransmissionAckOnly = ''RetransmissionAckOnly''"
| "capability_display NoDelay = ''NoDelay''"
| "capability_display NoRateControl = ''NoRateControl''"
| "capability_display UsePIX = ''UsePIX''"

definition capability_from_str :: "string \<Rightarrow> session_capability option" where
  "capability_from_str s =
     find (\<lambda>c. capability_display c = s)
       [Segmentation, Retransmission, RetransmissionAckOnly, NoDelay, NoRateControl, UsePIX]"

interpretation capability: text_codec capability_display capability_from_str "\<lambda>_. True"
proof unfold_locales
  fix x show "capability_from_str (capability_display x) = Some x"
    by (cases x) (simp_all add: capability_from_str_def)
qed

end
