(* ===== verification/Session_Target.thy ===== *)
theory Session_Target
  imports Codec
begin

text \<open>
  The session target (\<open>SessionTargetSpec\<close> of \<open>rest-api/src/session.rs\<close>): a plain host, a sealed one
  (printed as \<open>$$\<close> and URL-safe base64), or a numbered service of the exit node (printed as \<open>#\<close> and the
  number). The base64 crate is a parameter: \<open>enc\<close> and \<open>dec\<close>, the latter with the text of its error.
\<close>

datatype session_target_spec = Plain string | Sealed string | Service "32 word"

fun target_display :: "(string \<Rightarrow> string) \<Rightarrow> session_target_spec \<Rightarrow> string" where
  "target_display enc (Plain t) = t"
| "target_display enc (Sealed t) = ''$$'' @ enc t"
| "target_display enc (Service i) = ''#'' @ show_nat (unat i)"

definition target_from_str ::
  "(string \<Rightarrow> (string, string) res) \<Rightarrow> string \<Rightarrow> (string, session_target_spec) res" where
  "target_from_str dec s =
     (case strip_prefix ''$$'' s of
        Some stripped \<Rightarrow> res_bind (dec stripped) (\<lambda>t. Inr (Sealed t))
      | None \<Rightarrow>
          (case strip_prefix ''#'' s of
             Some stripped \<Rightarrow>
               (case parse_unsigned 32 stripped of
                  Some n \<Rightarrow> Inr (Service (of_nat n))
                | None \<Rightarrow> Inl ''cannot parse service id'')
           | None \<Rightarrow> Inr (Plain s)))"

text \<open>The targets whose text is not read as another kind.\<close>

fun unambiguous :: "session_target_spec \<Rightarrow> bool" where
  "unambiguous (Plain t) \<longleftrightarrow> \<not> starts_with ''$$'' t \<and> \<not> starts_with ''#'' t"
| "unambiguous _ \<longleftrightarrow> True"

lemma parse_show_word32: "parse_unsigned 32 (show_nat (unat (i :: 32 word))) = Some (unat i)"
proof -
  have "unat i < 2 ^ LENGTH(32)" by (rule unsigned_less)
  then show ?thesis by (simp add: parse_show_nat)
qed

lemma target_from_str_service: "target_from_str dec (''#'' @ show_nat (unat i)) = Inr (Service i)"
  by (simp add: target_from_str_def strip_prefix_def starts_with_def parse_show_word32)

lemma target_from_str_sealed:
  "target_from_str dec (''$$'' @ s) = res_bind (dec s) (\<lambda>t. Inr (Sealed t))"
  by (simp add: target_from_str_def strip_prefix_def starts_with_def)

lemma target_from_str_plain_iff:
  "target_from_str dec s = Inr (Plain t) \<longleftrightarrow>
     s = t \<and> \<not> starts_with ''$$'' t \<and> \<not> starts_with ''#'' t"
  by (auto simp: target_from_str_def strip_prefix_def res_bind_Ok_iff split: option.splits)

lemma target_round_trip:
  assumes "unambiguous x" and "\<And>t. dec (enc t) = Inr t"
  shows "target_from_str dec (target_display enc x) = Inr x"
proof (cases x)
  case (Plain t)
  with assms(1) show ?thesis using target_from_str_plain_iff [of dec t t] by simp
next
  case (Sealed t)
  then show ?thesis using assms(2) target_from_str_sealed [of dec "enc t"] by simp
next
  case (Service i)
  then show ?thesis using target_from_str_service [of dec i] by simp
qed

text \<open>A session target survives printing and parsing exactly when it is unambiguous. Sealed and
  service targets always do (given that base64 decodes what it encodes); a plain target does if and
  only if its text starts neither with two dollar signs nor with a number sign, and otherwise it
  comes back as another kind of target or as an error.\<close>

theorem target_round_trip_iff:
  assumes "\<And>t. dec (enc t) = Inr t"
  shows "target_from_str dec (target_display enc spec) = Inr spec \<longleftrightarrow> unambiguous spec"
proof
  assume "target_from_str dec (target_display enc spec) = Inr spec"
  then show "unambiguous spec"
    using target_from_str_plain_iff by (cases spec) fastforce+
next
  assume "unambiguous spec"
  then show "target_from_str dec (target_display enc spec) = Inr spec"
    using assms by (rule target_round_trip)
qed

theorem target_round_trip_iff_witness:
  "target_from_str (\<lambda>s. Inr (rev s)) (target_display rev (Sealed ''abc'')) = Inr (Sealed ''abc'')
   \<and> target_from_str (\<lambda>s. Inr (rev s)) (target_display rev (Plain ''#80'')) \<noteq> Inr (Plain ''#80'')"
  using target_round_trip_iff [of "\<lambda>s. Inr (rev s)" rev "Sealed ''abc''"]
    target_round_trip_iff [of "\<lambda>s. Inr (rev s)" rev "Plain ''#80''"]
  by (simp add: starts_with_def)

lemma target_codec:
  assumes "\<And>t. dec (enc t) = Inr t"
  shows "text_codec (target_display enc) (\<lambda>s. res_ok (target_from_str dec s)) unambiguous"
  by unfold_locales (simp add: target_round_trip assms)

section \<open>Capabilities of the transport\<close>

datatype transport_capability =
    T_Segmentation | T_RetransmissionAck | T_RetransmissionNack | T_NoDelay | T_NoRateControl
  | T_UsePIX

fun capability_flags :: "session_capability \<Rightarrow> transport_capability set" where
  "capability_flags Segmentation = {T_Segmentation}"
| "capability_flags Retransmission = {T_RetransmissionNack, T_RetransmissionAck}"
| "capability_flags RetransmissionAckOnly = {T_RetransmissionAck}"
| "capability_flags NoDelay = {T_NoDelay}"
| "capability_flags NoRateControl = {T_NoRateControl}"
| "capability_flags UsePIX = {T_UsePIX}"

definition requested_capabilities ::
  "ip_protocol \<Rightarrow> session_capability list option \<Rightarrow> transport_capability set" where
  "requested_capabilities proto caps =
     (case caps of
        Some vs \<Rightarrow> fold (\<lambda>c acc. acc \<union> capability_flags c) vs {}
      | None \<Rightarrow>
          (case proto of
             TCP \<Rightarrow> {T_RetransmissionAck, T_RetransmissionNack, T_Segmentation}
           | UDP \<Rightarrow> capability_flags Segmentation))"

lemma fold_capabilities:
  "fold (\<lambda>c acc. acc \<union> capability_flags c) vs A = A \<union> (\<Union>c\<in>set vs. capability_flags c)"
  by (induction vs arbitrary: A) auto

section \<open>Routing options\<close>

datatype routing_options = Hops nat | IntermediatePath "string list"

text \<open>\<open>HopRouting::try_from\<close> of a number of hops is the library's; an explicit path is refused.\<close>

definition to_hop_routing ::
  "(nat \<Rightarrow> (string, nat) res) \<Rightarrow> routing_options \<Rightarrow> (string, nat) res" where
  "to_hop_routing hop_try r =
     (case r of
        Hops n \<Rightarrow> hop_try n
      | IntermediatePath p \<Rightarrow>
          Inl (''explicit path routing is only supported on /session/{protocol}/explicit-path''))"

definition from_hop_routing :: "nat \<Rightarrow> routing_options" where
  "from_hop_routing hop_count = Hops hop_count"

datatype internal_routing = IR_Hops nat | IR_IntermediatePath "offchain_key list"

fun from_internal_routing :: "(offchain_key \<Rightarrow> string) \<Rightarrow> internal_routing \<Rightarrow> routing_options" where
  "from_internal_routing show_id (IR_Hops n) = Hops n"
| "from_internal_routing show_id (IR_IntermediatePath p) = IntermediatePath (List.map show_id p)"

end
