(* ===== verification/Session_Config.thy ===== *)
theory Session_Config
  imports Session_Target
begin

text \<open>
  The session configuration of the API and the SURB balancer configuration of the protocol
  (\<open>SessionConfig\<close> and its conversions in \<open>rest-api/src/session.rs\<close>). Sizes are \<open>u64\<close> words, so the
  multiplications wrap as they do in a release build; bandwidths are bits per second, and their
  conversion to \<open>usize\<close> truncates to 64 bits. The packet payload size (\<open>SESSION_MTU\<close>), the size of a SURB
  and the default balancer configuration are parameters.
\<close>

record surb_config =
  sc_target_buffer :: "64 word"
  sc_max_per_sec :: "64 word"
  sc_other :: nat

record surb_params =
  sp_mtu :: "64 word"
  sp_surb_size :: "64 word"
  sp_default :: surb_config

record session_config_body =
  scb_response_buffer :: "64 word option"
  scb_max_surb_upstream :: "nat option"

definition to_surb_config :: "surb_params \<Rightarrow> session_config_body \<Rightarrow> surb_config option" where
  "to_surb_config sp v =
     (case scb_response_buffer v of
        Some buffer_size \<Rightarrow>
          if 2 * sp_mtu sp \<le> buffer_size then
            Some ((sp_default sp)
              \<lparr> sc_target_buffer := buffer_size div sp_mtu sp,
                sc_max_per_sec :=
                  (case scb_max_surb_upstream v of
                     Some b \<Rightarrow> of_nat b div (8 * sp_surb_size sp)
                   | None \<Rightarrow> sc_max_per_sec (sp_default sp)) \<rparr>)
          else None
      | None \<Rightarrow> Some (sp_default sp))"

definition of_surb_config :: "surb_params \<Rightarrow> surb_config \<Rightarrow> session_config_body" where
  "of_surb_config sp c =
     \<lparr> scb_response_buffer = Some (sc_target_buffer c * sp_mtu sp),
       scb_max_surb_upstream = Some (unat (sc_max_per_sec c * (8 * sp_surb_size sp))) \<rparr>"

section \<open>Lemmas\<close>

lemma word_mult_div_exact:
  fixes a b :: "64 word"
  assumes "unat a * unat b < 2 ^ 64" and "b \<noteq> 0"
  shows "a * b div b = a"
proof -
  have "unat (a * b) = unat a * unat b"
    using assms(1) by (simp add: unat_word_ariths)
  moreover have "0 < unat b" using assms(2) by (simp add: unat_gt_0)
  ultimately have "unat (a * b div b) = unat a" by (simp add: unat_div_distrib)
  then show ?thesis by (simp only: word_unat_eq_iff)
qed

lemma word_mult_le_iff:
  fixes a b c :: "64 word"
  assumes "unat a * unat b < 2 ^ 64" and "unat c * unat b < 2 ^ 64" and "b \<noteq> 0"
  shows "c * b \<le> a * b \<longleftrightarrow> c \<le> a"
proof -
  have "unat (a * b) = unat a * unat b" "unat (c * b) = unat c * unat b"
    using assms(1,2) by (simp_all add: unat_word_ariths)
  moreover have "0 < unat b" using assms(3) by (simp add: unat_gt_0)
  ultimately show ?thesis by (simp add: word_le_nat_alt)
qed

text \<open>The parameters are sane: the sizes are not zero and two packets fit in a word.\<close>

definition sane_params :: "surb_params \<Rightarrow> bool" where
  "sane_params sp \<longleftrightarrow>
     sp_mtu sp \<noteq> 0 \<and> 8 * sp_surb_size sp \<noteq> 0 \<and> 2 * unat (sp_mtu sp) < 2 ^ 64"

text \<open>A configuration whose products do not overflow and whose other fields are the defaults.\<close>

definition fits :: "surb_params \<Rightarrow> surb_config \<Rightarrow> bool" where
  "fits sp c \<longleftrightarrow>
     unat (sc_target_buffer c) * unat (sp_mtu sp) < 2 ^ 64
     \<and> unat (sc_max_per_sec c) * unat (8 * sp_surb_size sp) < 2 ^ 64
     \<and> sc_other c = sc_other (sp_default sp)"

lemma surb_buffer_threshold:
  assumes "sane_params sp" and "fits sp c"
  shows "2 * sp_mtu sp \<le> sc_target_buffer c * sp_mtu sp \<longleftrightarrow> 2 \<le> sc_target_buffer c"
  using assms word_mult_le_iff [of "sc_target_buffer c" "sp_mtu sp" 2]
  by (simp add: sane_params_def fits_def)

lemma surb_config_round_trip:
  assumes "sane_params sp" and "fits sp c"
  shows "to_surb_config sp (of_surb_config sp c) = (if 2 \<le> sc_target_buffer c then Some c else None)"
proof -
  have div1: "sc_target_buffer c * sp_mtu sp div sp_mtu sp = sc_target_buffer c"
    using assms by (intro word_mult_div_exact) (simp_all add: sane_params_def fits_def)
  have div2: "sc_max_per_sec c * (8 * sp_surb_size sp) div (8 * sp_surb_size sp) = sc_max_per_sec c"
    using assms by (intro word_mult_div_exact) (simp_all add: sane_params_def fits_def)
  show ?thesis
  proof (cases "2 \<le> sc_target_buffer c")
    case True
    then have "2 * sp_mtu sp \<le> sc_target_buffer c * sp_mtu sp"
      using surb_buffer_threshold [OF assms] by simp
    then show ?thesis
      using True assms(2) div1 div2
      by (simp add: to_surb_config_def of_surb_config_def fits_def)
  next
    case False
    then have "\<not> 2 * sp_mtu sp \<le> sc_target_buffer c * sp_mtu sp"
      using surb_buffer_threshold [OF assms] by simp
    then show ?thesis
      using False by (simp add: to_surb_config_def of_surb_config_def)
  qed
qed

lemma to_surb_config_no_buffer:
  "scb_response_buffer v = None \<Longrightarrow> to_surb_config sp v = Some (sp_default sp)"
  by (simp add: to_surb_config_def)

end
