(* ===== verification/Session_Api.thy ===== *)
theory Session_Api
  imports Session_Config
begin

text \<open>
  The session endpoints (\<open>rest-api/src/session.rs\<close>): creating client sessions (by hops, or by the
  deprecated explicit path), listing and closing listeners, reading and adjusting the SURB
  configuration of a session.

  The table of open listeners (\<open>ListenerJoinHandles\<close>, a concurrent map) is an association list from
  listener ids to entries; \<open>map_of\<close> is its meaning. Binding a socket is the library's
  (\<open>hopr_utils_session\<close>): it gets the table and returns it changed. What is asked of other parts of the
  process (aborting a listener, closing a client session, updating a balancer) is the trace of
  \<open>session_call\<close>s.
\<close>

datatype ip_addr = V4 "32 word" | V6 "128 word"

type_synonym socket_addr = "ip_addr \<times> 16 word"
type_synonym session_id = string
type_synonym listener_id = "ip_protocol \<times> socket_addr"

record session_entry =
  se_target :: session_target_spec
  se_destination :: address
  se_forward :: internal_routing
  se_return :: internal_routing
  se_clients :: "session_id list"
  se_max_clients :: nat
  se_max_surb_upstream :: "nat option"
  se_response_buffer :: "64 word option"
  se_session_pool :: "nat option"

type_synonym listeners = "(listener_id \<times> session_entry) list"

datatype bind_error = BE_ListenHostAlreadyUsed | BE_UnknownFailure string

datatype client_route = Hop_Route nat nat | Explicit_Route "offchain_key list" "offchain_key list"

record client_config =
  cc_route :: client_route
  cc_capabilities :: "transport_capability set"
  cc_surb :: "surb_config option"
  cc_flow_control :: "string option"

record bind_request =
  br_host :: socket_addr
  br_port_range :: "string option"
  br_destination :: address
  br_target :: session_target_spec
  br_config :: client_config
  br_pool :: "nat option"
  br_max_clients :: "nat option"

datatype session_call =
    SC_Bind ip_protocol bind_request
  | SC_CloseSession session_id
  | SC_Abort listener_id
  | SC_UpdateSurb session_id surb_config

text \<open>What the handlers use of the libraries.\<close>

record session_lib =
  sl_binding_host :: "string option \<Rightarrow> socket_addr \<Rightarrow> socket_addr"
  sl_bind :: "ip_protocol \<Rightarrow> bind_request \<Rightarrow> listeners
     \<Rightarrow> (bind_error, socket_addr \<times> session_id option \<times> nat) res \<times> listeners"
  sl_bind_error_display :: "bind_error \<Rightarrow> string"
  sl_into_target :: "session_target_spec \<Rightarrow> ip_protocol \<Rightarrow> (string, string) res"
  sl_hop_routing :: "nat \<Rightarrow> (string, nat) res"
  sl_parse_address :: "string \<Rightarrow> (string, address) res"
  sl_key_of_address :: "address \<Rightarrow> (string, offchain_key option) res"

record session_text_lib = session_lib +
  sl_base64 :: "string \<Rightarrow> string"
  sl_show_target :: "session_target_spec \<Rightarrow> string"
  sl_show_node_id :: "offchain_key \<Rightarrow> string"
  sl_show_ip :: "ip_addr \<Rightarrow> string"
  sl_parse_ip :: "string \<Rightarrow> ip_addr option"
  sl_show_socket :: "socket_addr \<Rightarrow> string"
  sl_parse_session_id :: "string \<Rightarrow> session_id option"

record session_env = session_text_lib +
  sl_find_configurator :: "listeners \<Rightarrow> session_id \<Rightarrow> bool"
  sl_update_surb :: "session_id \<Rightarrow> surb_config \<Rightarrow> (string, unit) res"
  sl_get_surb :: "session_id \<Rightarrow> (string, surb_config option) res"
  sl_surb_params :: surb_params
  sl_fc_default :: string
  sl_fc_robust :: string
  sl_default_host :: socket_addr
  sl_port_range :: "string option"
  sl_node_flow_control :: session_flow_control

section \<open>Requests and their configuration\<close>

record session_client_request =
  scr_destination :: address
  scr_forward_path :: routing_options
  scr_return_path :: routing_options
  scr_target :: session_target_spec
  scr_listen_host :: "string option"
  scr_capabilities :: "session_capability list option"
  scr_response_buffer :: "64 word option"
  scr_max_surb_upstream :: "nat option"
  scr_session_pool :: "nat option"
  scr_max_client_sessions :: "nat option"
  scr_flow_control :: "session_flow_control option"

definition into_protocol_session_config ::
  "session_env \<Rightarrow> session_client_request \<Rightarrow> ip_protocol \<Rightarrow> string option
   \<Rightarrow> (api_error_status, address \<times> string \<times> client_config) res" where
  "into_protocol_session_config env r proto flow_control =
     (let capabilities = requested_capabilities proto (scr_capabilities r)
      in res_bind (map_err UnknownFailure (sl_into_target env (scr_target r) proto)) (\<lambda>target.
         res_bind (map_err UnknownFailure (to_hop_routing (sl_hop_routing env) (scr_forward_path r))) (\<lambda>fwd.
         res_bind (map_err UnknownFailure (to_hop_routing (sl_hop_routing env) (scr_return_path r))) (\<lambda>ret.
           Inr (scr_destination r, target,
             \<lparr> cc_route = Hop_Route fwd ret,
               cc_capabilities = capabilities,
               cc_surb = to_surb_config (sl_surb_params env)
                 \<lparr> scb_response_buffer = scr_response_buffer r,
                   scb_max_surb_upstream = scr_max_surb_upstream r \<rparr>,
               cc_flow_control =
                 (case scr_flow_control r of
                    Some p \<Rightarrow> to_config (sl_fc_default env) (sl_fc_robust env) p
                  | None \<Rightarrow> flow_control) \<rparr>)))))"

record explicit_path_request =
  epr_destination :: address
  epr_forward_path :: "string list"
  epr_return_path :: "string list"
  epr_target :: session_target_spec
  epr_listen_host :: "string option"
  epr_capabilities :: "session_capability list option"
  epr_response_buffer :: "64 word option"
  epr_max_surb_upstream :: "nat option"
  epr_session_pool :: "nat option"
  epr_max_client_sessions :: "nat option"

definition parse_node :: "session_env \<Rightarrow> string \<Rightarrow> (api_error_status, offchain_key) res" where
  "parse_node env node =
     res_bind (map_err (\<lambda>err. UnknownFailure
         (''invalid intermediate path node address '' @ [CHR 0x27] @ node @ [CHR 0x27] @ '': '' @ err))
         (sl_parse_address env node)) (\<lambda>address.
     res_bind (map_err (\<lambda>err. UnknownFailure
         (''failed to resolve intermediate path node address '' @ [CHR 0x27] @ node @ [CHR 0x27]
          @ '': '' @ err))
         (sl_key_of_address env address)) (\<lambda>key.
     ok_or (UnknownFailure (''unknown intermediate path node address '' @ [CHR 0x27] @ node @ [CHR 0x27]))
       key))"

definition into_protocol_session_explicit_config ::
  "session_env \<Rightarrow> explicit_path_request \<Rightarrow> ip_protocol \<Rightarrow> string option
   \<Rightarrow> (api_error_status, address \<times> string \<times> client_config \<times> routing_options \<times> routing_options) res"
where
  "into_protocol_session_explicit_config env r proto flow_control =
     res_bind (traverse_res (parse_node env) (epr_forward_path r)) (\<lambda>fwd.
     res_bind (traverse_res (parse_node env) (epr_return_path r)) (\<lambda>ret.
     res_bind (map_err UnknownFailure (sl_into_target env (epr_target r) proto)) (\<lambda>target.
       Inr (epr_destination r, target,
         \<lparr> cc_route = Explicit_Route fwd ret,
           cc_capabilities = requested_capabilities proto (epr_capabilities r),
           cc_surb = to_surb_config (sl_surb_params env)
             \<lparr> scb_response_buffer = epr_response_buffer r,
               scb_max_surb_upstream = epr_max_surb_upstream r \<rparr>,
           cc_flow_control = flow_control \<rparr>,
         IntermediatePath (epr_forward_path r), IntermediatePath (epr_return_path r)))))"

record session_client_response =
  scp_target :: string
  scp_destination :: address
  scp_forward_path :: routing_options
  scp_return_path :: routing_options
  scp_protocol :: ip_protocol
  scp_ip :: string
  scp_port :: "16 word"
  scp_hopr_mtu :: "64 word"
  scp_surb_len :: "64 word"
  scp_active_clients :: "session_id list"
  scp_max_client_sessions :: nat
  scp_max_surb_upstream :: "nat option"
  scp_response_buffer :: "64 word option"
  scp_session_pool :: "nat option"

end
