(* ===== verification/Session_Handlers.thy ===== *)
theory Session_Handlers
  imports Session_Api
begin

text \<open>
  The handlers of the session endpoints over the listener table, and the contract of the table they
  rely on. A handler takes the table and a request and returns the new table with the calls it made
  and its response.
\<close>

type_synonym 'b session_handled = "listeners \<times> session_call list \<times> 'b response"

section \<open>Creating sessions\<close>

definition protocol_upper :: "ip_protocol \<Rightarrow> string" where
  "protocol_upper p = (case p of TCP \<Rightarrow> ''TCP'' | UDP \<Rightarrow> ''UDP'')"

definition bind_error_response ::
  "session_env \<Rightarrow> ip_protocol \<Rightarrow> socket_addr \<Rightarrow> bind_error \<Rightarrow> 'b response" where
  "bind_error_response env proto bind_host e =
     (case e of
        BE_ListenHostAlreadyUsed \<Rightarrow> status_err 409 ListenHostAlreadyUsed
      | BE_UnknownFailure m \<Rightarrow>
          status_err 422 (UnknownFailure
            (''failed to start '' @ protocol_upper proto @ '' listener on ''
             @ sl_show_socket env bind_host @ '': '' @ sl_bind_error_display env e)))"

definition already_bound :: "socket_addr \<Rightarrow> ip_protocol \<Rightarrow> listeners \<Rightarrow> bool" where
  "already_bound bind_host proto ls \<longleftrightarrow>
     0 < snd bind_host \<and> map_of ls (proto, bind_host) \<noteq> None"

text \<open>The call of \<open>create_tcp_client_binding\<close> or \<open>create_udp_client_binding\<close> with what follows it: the
  mapped error, or the body built from the bound socket.\<close>

definition bind_and_answer ::
  "session_env \<Rightarrow> ip_protocol \<Rightarrow> socket_addr \<Rightarrow> bind_request \<Rightarrow> listeners
   \<Rightarrow> (socket_addr \<Rightarrow> session_id option \<Rightarrow> nat \<Rightarrow> session_client_response)
   \<Rightarrow> session_client_response session_handled" where
  "bind_and_answer env proto bind_host br ls answer =
     (case sl_bind env proto br ls of
        (Inl e, ls') \<Rightarrow> (ls', [SC_Bind proto br], bind_error_response env proto bind_host e)
      | (Inr (bound_host, udp_session_id, max_clients), ls') \<Rightarrow>
          (ls', [SC_Bind proto br], json_ok 200 (answer bound_host udp_session_id max_clients)))"

definition create_client ::
  "session_env \<Rightarrow> ip_protocol \<times> session_client_request \<Rightarrow> listeners
   \<Rightarrow> session_client_response session_handled" where
  "create_client env req ls =
     (case req of (proto, r) \<Rightarrow>
        let bind_host = sl_binding_host env (scr_listen_host r) (sl_default_host env)
        in if already_bound bind_host proto ls
           then (ls, [], status_err 409 ListenHostAlreadyUsed)
           else (case into_protocol_session_config env r proto
                    (to_config (sl_fc_default env) (sl_fc_robust env) (sl_node_flow_control env)) of
               Inl e \<Rightarrow> (ls, [], status_err 422 e)
             | Inr (destination, target, config) \<Rightarrow>
                 (let br = \<lparr> br_host = bind_host, br_port_range = sl_port_range env,
                            br_destination = destination, br_target = scr_target r,
                            br_config = config,
                            br_pool = (if proto = TCP then scr_session_pool r else None),
                            br_max_clients =
                              (if proto = TCP then scr_max_client_sessions r else None) \<rparr>
                  in bind_and_answer env proto bind_host br ls
                       (\<lambda>bound_host udp_session_id max_clients.
                          \<lparr> scp_target = target_display (sl_base64 env) (scr_target r),
                            scp_destination = scr_destination r,
                            scp_forward_path = scr_forward_path r,
                            scp_return_path = scr_return_path r,
                            scp_protocol = proto,
                            scp_ip = sl_show_ip env (fst bound_host),
                            scp_port = snd bound_host,
                            scp_hopr_mtu = sp_mtu (sl_surb_params env),
                            scp_surb_len = sp_surb_size (sl_surb_params env),
                            scp_active_clients =
                              (case udp_session_id of None \<Rightarrow> [] | Some s \<Rightarrow> [s]),
                            scp_max_client_sessions = max_clients,
                            scp_max_surb_upstream = scr_max_surb_upstream r,
                            scp_response_buffer = scr_response_buffer r,
                            scp_session_pool = scr_session_pool r \<rparr>))))"

definition create_client_explicit_path ::
  "session_env \<Rightarrow> ip_protocol \<times> explicit_path_request \<Rightarrow> listeners
   \<Rightarrow> session_client_response session_handled" where
  "create_client_explicit_path env req ls =
     (case req of (proto, r) \<Rightarrow>
        let bind_host = sl_binding_host env (epr_listen_host r) (sl_default_host env)
        in if already_bound bind_host proto ls
           then (ls, [], status_err 409 ListenHostAlreadyUsed)
           else (case into_protocol_session_explicit_config env r proto
                    (to_config (sl_fc_default env) (sl_fc_robust env) (sl_node_flow_control env)) of
               Inl e \<Rightarrow> (ls, [], status_err 422 e)
             | Inr (destination, target, config, forward_path, return_path) \<Rightarrow>
                 (let br = \<lparr> br_host = bind_host, br_port_range = sl_port_range env,
                            br_destination = destination, br_target = epr_target r,
                            br_config = config,
                            br_pool = (if proto = TCP then epr_session_pool r else None),
                            br_max_clients =
                              (if proto = TCP then epr_max_client_sessions r else None) \<rparr>
                  in bind_and_answer env proto bind_host br ls
                       (\<lambda>bound_host udp_session_id max_clients.
                          \<lparr> scp_target = target_display (sl_base64 env) (epr_target r),
                            scp_destination = epr_destination r,
                            scp_forward_path = forward_path,
                            scp_return_path = return_path,
                            scp_protocol = proto,
                            scp_ip = sl_show_ip env (fst bound_host),
                            scp_port = snd bound_host,
                            scp_hopr_mtu = sp_mtu (sl_surb_params env),
                            scp_surb_len = sp_surb_size (sl_surb_params env),
                            scp_active_clients =
                              (case udp_session_id of None \<Rightarrow> [] | Some s \<Rightarrow> [s]),
                            scp_max_client_sessions = max_clients,
                            scp_max_surb_upstream = epr_max_surb_upstream r,
                            scp_response_buffer = epr_response_buffer r,
                            scp_session_pool = epr_session_pool r \<rparr>))))"

section \<open>Listing sessions\<close>

definition listed :: "session_env \<Rightarrow> ip_protocol \<Rightarrow> listener_id \<times> session_entry
    \<Rightarrow> session_client_response" where
  "listed env proto v =
     (case v of ((p, addr), entry) \<Rightarrow>
        \<lparr> scp_target = sl_show_target env (se_target entry),
          scp_destination = se_destination entry,
          scp_forward_path = from_internal_routing (sl_show_node_id env) (se_forward entry),
          scp_return_path = from_internal_routing (sl_show_node_id env) (se_return entry),
          scp_protocol = proto,
          scp_ip = sl_show_ip env (fst addr),
          scp_port = snd addr,
          scp_hopr_mtu = sp_mtu (sl_surb_params env),
          scp_surb_len = sp_surb_size (sl_surb_params env),
          scp_active_clients = se_clients entry,
          scp_max_client_sessions = se_max_clients entry,
          scp_max_surb_upstream = se_max_surb_upstream entry,
          scp_response_buffer = se_response_buffer entry,
          scp_session_pool = se_session_pool entry \<rparr>)"

definition list_clients ::
  "session_env \<Rightarrow> ip_protocol \<Rightarrow> listeners \<Rightarrow> session_client_response list session_handled" where
  "list_clients env proto ls =
     (ls, [], json_ok 200
        (List.map (listed env proto) (filter (\<lambda>v. fst (fst v) = proto) ls)))"

section \<open>Configuration of a running session\<close>

definition adjust_session ::
  "session_env \<Rightarrow> string \<times> session_config_body \<Rightarrow> listeners \<Rightarrow> unit session_handled" where
  "adjust_session env req ls =
     (case sl_parse_session_id env (fst req) of
        None \<Rightarrow> (ls, [], status_err 400 InvalidSessionId)
      | Some sid \<Rightarrow>
          (case to_surb_config (sl_surb_params env) (snd req) of
             Some cfg \<Rightarrow>
               if sl_find_configurator env ls sid then
                 (ls, [SC_UpdateSurb sid cfg],
                  case sl_update_surb env sid cfg of
                    Inr _ \<Rightarrow> status_only 204
                  | Inl e \<Rightarrow> status_err 406 (UnknownFailure e))
               else (ls, [], status_err 404 SessionNotFound)
           | None \<Rightarrow> (ls, [], status_err 400 InvalidInput)))"

definition has_client :: "session_id \<Rightarrow> listeners \<Rightarrow> bool" where
  "has_client sid ls \<longleftrightarrow> list_ex (\<lambda>v. sid \<in> set (se_clients (snd v))) ls"

definition session_config ::
  "session_env \<Rightarrow> string \<Rightarrow> listeners \<Rightarrow> session_config_body session_handled" where
  "session_config env req ls =
     (ls, [],
      case sl_parse_session_id env req of
        None \<Rightarrow> status_err 400 InvalidSessionId
      | Some sid \<Rightarrow>
          if has_client sid ls then
            (case sl_get_surb env sid of
               Inr (Some cfg) \<Rightarrow> json_ok 200 (of_surb_config (sl_surb_params env) cfg)
             | Inr None \<Rightarrow> status_err 404 SessionNotFound
             | Inl e \<Rightarrow> status_err 422 (UnknownFailure e))
          else status_err 404 SessionNotFound)"

section \<open>Closing listeners\<close>

record close_client_query =
  ccq_protocol :: ip_protocol
  ccq_ip :: string
  ccq_port :: "16 word"

definition listener_remove :: "listener_id \<Rightarrow> listeners \<Rightarrow> listeners" where
  "listener_remove k ls = filter (\<lambda>v. fst v \<noteq> k) ls"

definition close_matches :: "ip_protocol \<Rightarrow> ip_addr \<Rightarrow> 16 word \<Rightarrow> listener_id \<Rightarrow> bool" where
  "close_matches proto ip port k \<longleftrightarrow>
     proto = fst k \<and> fst (snd k) = ip \<and> (snd (snd k) = port \<or> port = 0)"

text \<open>The loop over the keys to remove: each removed entry's sessions are closed one by one, then its
  listener is aborted; a key that is gone ends the request.\<close>

fun close_listeners ::
  "listener_id list \<Rightarrow> listeners \<Rightarrow> (nat \<times> api_error_status, unit) res \<times> listeners \<times> session_call list"
where
  "close_listeners [] ls = (Inr (), ls, [])"
| "close_listeners (k # ks) ls =
     (case map_of ls k of
        None \<Rightarrow> (Inl (404, InvalidInput), ls, [])
      | Some entry \<Rightarrow>
          (case close_listeners ks (listener_remove k ls) of
             (r, ls', calls) \<Rightarrow>
               (r, ls', List.map SC_CloseSession (se_clients entry) @ [SC_Abort k] @ calls)))"

definition close_client ::
  "session_env \<Rightarrow> close_client_query \<Rightarrow> listeners \<Rightarrow> unit session_handled" where
  "close_client env q ls =
     (case sl_parse_ip env (ccq_ip q) of
        None \<Rightarrow> (ls, [], status_err 400 InvalidInput)
      | Some listening_ip \<Rightarrow>
          (let to_remove =
                 filter (close_matches (ccq_protocol q) listening_ip (ccq_port q)) (List.map fst ls)
           in if to_remove = [] then (ls, [], status_err 404 InvalidInput)
              else (case close_listeners to_remove ls of
                      (Inl (code, e), ls', calls) \<Rightarrow> (ls', calls, status_err code e)
                    | (Inr u, ls', calls) \<Rightarrow> (ls', calls, status_only 204))))"

section \<open>Annotations\<close>

definition create_client_doc :: endpoint_doc where
  "create_client_doc = \<lparr> ed_method = POST, ed_path = base_path @ ''/session/{protocol}'',
     ed_statuses = [200, 400, 401, 409, 422], ed_secured = True, ed_tag = ''Session'' \<rparr>"

definition create_client_explicit_path_doc :: endpoint_doc where
  "create_client_explicit_path_doc = \<lparr> ed_method = POST,
     ed_path = base_path @ ''/session/{protocol}/explicit-path'',
     ed_statuses = [200, 400, 401, 409, 422], ed_secured = True, ed_tag = ''Session'' \<rparr>"

definition list_clients_doc :: endpoint_doc where
  "list_clients_doc = \<lparr> ed_method = GET, ed_path = base_path @ ''/session/{protocol}'',
     ed_statuses = [200, 400, 401, 422], ed_secured = True, ed_tag = ''Session'' \<rparr>"

definition adjust_session_doc :: endpoint_doc where
  "adjust_session_doc = \<lparr> ed_method = POST, ed_path = base_path @ ''/session/config/{id}'',
     ed_statuses = [204, 400, 401, 404, 406, 422], ed_secured = True, ed_tag = ''Session'' \<rparr>"

definition session_config_doc :: endpoint_doc where
  "session_config_doc = \<lparr> ed_method = GET, ed_path = base_path @ ''/session/config/{id}'',
     ed_statuses = [200, 400, 401, 404, 422], ed_secured = True, ed_tag = ''Session'' \<rparr>"

definition close_client_doc :: endpoint_doc where
  "close_client_doc = \<lparr> ed_method = DELETE,
     ed_path = base_path @ ''/session/{protocol}/{ip}/{port}'',
     ed_statuses = [204, 400, 401, 404, 422], ed_secured = True, ed_tag = ''Session'' \<rparr>"

end
