(* ===== verification/Keyed_Table.thy ===== *)
theory Keyed_Table
  imports Prelude
begin

text \<open>
  The interface of a keyed table, as the clients of a concurrent map (\<open>DashMap\<close>, \<open>HashMap\<close>) use it:
  lookup, insertion and removal by key, and the laws that relate them. The lemmas about removing and
  inserting many keys are proved once here; each component that owns a table interprets it.
\<close>

locale keyed_table =
  fixes lookup :: "'t \<Rightarrow> 'k \<Rightarrow> 'v option"
    and insert_at :: "'t \<Rightarrow> 'k \<Rightarrow> 'v \<Rightarrow> 't"
    and remove_at :: "'t \<Rightarrow> 'k \<Rightarrow> 't"
    and valid :: "'t \<Rightarrow> bool"
  assumes lookup_insert: "valid t \<Longrightarrow> lookup (insert_at t k v) j = (if j = k then Some v else lookup t j)"
    and lookup_remove: "valid t \<Longrightarrow> lookup (remove_at t k) j = (if j = k then None else lookup t j)"
    and valid_insert: "valid t \<Longrightarrow> valid (insert_at t k v)"
    and valid_remove: "valid t \<Longrightarrow> valid (remove_at t k)"
begin

lemma valid_remove_all: "valid t \<Longrightarrow> valid (foldl remove_at t ks)"
  by (induction ks arbitrary: t) (simp_all add: valid_remove)

lemma lookup_remove_all:
  "valid t \<Longrightarrow> lookup (foldl remove_at t ks) j = (if j \<in> set ks then None else lookup t j)"
  by (induction ks arbitrary: t) (simp_all add: valid_remove lookup_remove)

lemma remove_absent: "valid t \<Longrightarrow> lookup t k = None \<Longrightarrow> lookup (remove_at t k) j = lookup t j"
  by (simp add: lookup_remove)

lemma insert_remove: "valid t \<Longrightarrow> lookup t k = None \<Longrightarrow>
    lookup (remove_at (insert_at t k v) k) = lookup t"
  by (rule ext) (simp add: lookup_remove lookup_insert valid_insert)

lemma remove_twice: "valid t \<Longrightarrow> lookup (remove_at (remove_at t k) k) = lookup (remove_at t k)"
  by (rule ext) (simp add: lookup_remove valid_remove)

lemma lookup_insert_all:
  "valid t \<Longrightarrow> distinct (List.map fst kvs) \<Longrightarrow>
     lookup (foldl (\<lambda>t kv. insert_at t (fst kv) (snd kv)) t kvs) j =
       (case map_of kvs j of Some v \<Rightarrow> Some v | None \<Rightarrow> lookup t j)"
proof (induction kvs arbitrary: t)
  case Nil
  then show ?case by simp
next
  case (Cons kv kvs)
  obtain k v where kv: "kv = (k, v)" by (cases kv)
  have "map_of kvs k = None"
    using Cons.prems(2) kv by (simp add: map_of_eq_None_iff)
  then show ?case
    using Cons.IH [OF valid_insert [OF Cons.prems(1)], of k v] Cons.prems kv
    by (auto simp: lookup_insert split: option.split)
qed

text \<open>Inserting in order: the last value of a key wins.\<close>

lemma valid_insert_all: "valid t \<Longrightarrow> valid (foldl (\<lambda>t kv. insert_at t (fst kv) (snd kv)) t kvs)"
  by (induction kvs arbitrary: t) (simp_all add: valid_insert)

lemma lookup_insert_last:
  "valid t \<Longrightarrow> lookup (foldl (\<lambda>t kv. insert_at t (fst kv) (snd kv)) t kvs) j =
     (case map_of (rev kvs) j of Some v \<Rightarrow> Some v | None \<Rightarrow> lookup t j)"
proof (induction kvs rule: rev_induct)
  case Nil
  then show ?case by simp
next
  case (snoc kv kvs)
  then show ?case
    by (cases kv) (simp add: lookup_insert valid_insert_all)
qed

end

section \<open>Association lists\<close>

text \<open>The table of the model: an association list. Inserting replaces the value in place or appends.\<close>

fun assoc_put :: "('k \<times> 'v) list \<Rightarrow> 'k \<Rightarrow> 'v \<Rightarrow> ('k \<times> 'v) list" where
  "assoc_put [] k v = [(k, v)]"
| "assoc_put ((j, u) # xs) k v = (if j = k then (j, v) # xs else (j, u) # assoc_put xs k v)"

definition assoc_remove :: "('k \<times> 'v) list \<Rightarrow> 'k \<Rightarrow> ('k \<times> 'v) list" where
  "assoc_remove xs k = filter (\<lambda>(j, v). j \<noteq> k) xs"

abbreviation distinct_keys :: "('k \<times> 'v) list \<Rightarrow> bool" where
  "distinct_keys xs \<equiv> distinct (List.map fst xs)"

lemma map_of_assoc_put: "map_of (assoc_put xs k v) j = (if j = k then Some v else map_of xs j)"
  by (induction xs k v rule: assoc_put.induct) auto

lemma fst_assoc_put: "fst ` set (assoc_put xs k v) = insert k (fst ` set xs)"
  by (induction xs k v rule: assoc_put.induct) auto

lemma distinct_assoc_put: "distinct_keys xs \<Longrightarrow> distinct_keys (assoc_put xs k v)"
proof (induction xs k v rule: assoc_put.induct)
  case (2 j u xs k v)
  then show ?case using fst_assoc_put [of xs k v] by auto
qed simp

lemma length_assoc_put:
  "length (assoc_put xs k v) = (if k \<in> fst ` set xs then length xs else Suc (length xs))"
  by (induction xs k v rule: assoc_put.induct) auto

lemma map_of_assoc_remove: "map_of (assoc_remove xs k) j = (if j = k then None else map_of xs j)"
  by (induction xs) (auto simp: assoc_remove_def)

lemma distinct_assoc_remove: "distinct_keys xs \<Longrightarrow> distinct_keys (assoc_remove xs k)"
  by (auto simp: assoc_remove_def distinct_map inj_on_def)

lemma length_assoc_remove:
  "distinct_keys xs \<Longrightarrow> k \<in> fst ` set xs \<Longrightarrow> Suc (length (assoc_remove xs k)) = length xs"
proof (induction xs)
  case (Cons x xs)
  have "k \<notin> fst ` set xs \<Longrightarrow> filter (\<lambda>(j, v). j \<noteq> k) xs = xs"
    by (rule filter_True) force
  then show ?case
    using Cons by (cases "fst x = k") (auto simp: assoc_remove_def)
qed simp

end
