(* ===== verification/Session_Laws.thy ===== *)
theory Session_Laws
  imports Session_Handlers Keyed_Table
begin

text \<open>
  The properties of the session endpoints: which listeners a request touches, that creating and then
  closing a session leaves the table as it was, and that a configuration read from a session can be
  written back.
\<close>

section \<open>The listener table\<close>

definition listener_insert :: "listeners \<Rightarrow> listener_id \<Rightarrow> session_entry \<Rightarrow> listeners" where
  "listener_insert ls k e = listener_remove k ls @ [(k, e)]"

definition wf_listeners :: "listeners \<Rightarrow> bool" where
  "wf_listeners ls \<longleftrightarrow> distinct (List.map fst ls)"

lemma map_of_listener_remove:
  "map_of (listener_remove k ls) j = (if j = k then None else map_of ls j)"
  by (induction ls) (auto simp: listener_remove_def)

lemma keys_listener_remove:
  "List.map fst (listener_remove k ls) = filter (\<lambda>j. j \<noteq> k) (List.map fst ls)"
  by (simp add: listener_remove_def filter_map comp_def)

interpretation listener_table: keyed_table map_of listener_insert "\<lambda>ls k. listener_remove k ls"
    wf_listeners
proof unfold_locales
  fix t :: listeners and k j :: listener_id and v :: session_entry
  assume wf: "wf_listeners t"
  show "map_of (listener_insert t k v) j = (if j = k then Some v else map_of t j)"
    by (simp add: listener_insert_def map_add_def map_of_listener_remove split: option.split)
  show "map_of (listener_remove k t) j = (if j = k then None else map_of t j)"
    by (rule map_of_listener_remove)
  show "wf_listeners (listener_insert t k v)"
    using wf by (simp add: wf_listeners_def listener_insert_def keys_listener_remove)
  show "wf_listeners (listener_remove k t)"
    using wf by (simp add: wf_listeners_def keys_listener_remove)
qed

section \<open>The closing loop\<close>

definition closing_calls :: "listeners \<Rightarrow> listener_id \<Rightarrow> session_call list" where
  "closing_calls ls k =
     (case map_of ls k of
        None \<Rightarrow> []
      | Some e \<Rightarrow> List.map SC_CloseSession (se_clients e) @ [SC_Abort k])"

lemma closing_calls_remove:
  "k \<noteq> j \<Longrightarrow> closing_calls (listener_remove k ls) j = closing_calls ls j"
  by (simp add: closing_calls_def map_of_listener_remove)

lemma close_listeners_all:
  assumes "distinct ks" and "set ks \<subseteq> fst ` set ls"
  shows "close_listeners ks ls =
     (Inr (), foldl (\<lambda>t k. listener_remove k t) ls ks, concat (List.map (closing_calls ls) ks))"
  using assms
proof (induction ks arbitrary: ls)
  case Nil
  then show ?case by simp
next
  case (Cons k ks)
  obtain e where e: "map_of ls k = Some e"
    using Cons.prems(2) by (metis list.set_intros(1) map_of_eq_None_iff not_Some_eq subsetD)
  have "set ks \<subseteq> fst ` set (listener_remove k ls)"
    using Cons.prems by (force simp: listener_remove_def)
  then have "close_listeners ks (listener_remove k ls) =
      (Inr (), foldl (\<lambda>t k. listener_remove k t) (listener_remove k ls) ks,
       concat (List.map (closing_calls (listener_remove k ls)) ks))"
    using Cons.IH Cons.prems(1) by simp
  moreover have "List.map (closing_calls (listener_remove k ls)) ks = List.map (closing_calls ls) ks"
  proof (rule map_cong [OF refl])
    fix j assume "j \<in> set ks"
    then have "k \<noteq> j" using Cons.prems(1) by auto
    then show "closing_calls (listener_remove k ls) j = closing_calls ls j"
      by (rule closing_calls_remove)
  qed
  moreover have "closing_calls ls k = List.map SC_CloseSession (se_clients e) @ [SC_Abort k]"
    using e by (simp add: closing_calls_def)
  ultimately show ?case
    using e by simp
qed

lemma foldl_listener_remove:
  "foldl (\<lambda>t k. listener_remove k t) ls ks = filter (\<lambda>v. fst v \<notin> set ks) ls"
proof (induction ks arbitrary: ls)
  case Nil
  then show ?case by simp
next
  case (Cons k ks)
  then show ?case by (simp add: listener_remove_def conj_commute)
qed

text \<open>The listeners a close request names.\<close>

definition close_keys :: "close_client_query \<Rightarrow> ip_addr \<Rightarrow> listeners \<Rightarrow> listener_id list" where
  "close_keys q ip ls = filter (close_matches (ccq_protocol q) ip (ccq_port q)) (List.map fst ls)"

lemma close_client_eq:
  assumes "wf_listeners ls" and "sl_parse_ip env (ccq_ip q) = Some ip"
  shows "close_client env q ls =
    (if close_keys q ip ls = [] then (ls, [], status_err 404 InvalidInput)
     else (filter (\<lambda>v. fst v \<notin> set (close_keys q ip ls)) ls,
           concat (List.map (closing_calls ls) (close_keys q ip ls)), status_only 204))"
proof -
  have "distinct (close_keys q ip ls)" "set (close_keys q ip ls) \<subseteq> fst ` set ls"
    using assms(1) by (auto simp: close_keys_def wf_listeners_def)
  then show ?thesis
    using assms(2) close_listeners_all [of "close_keys q ip ls" ls]
    by (simp add: close_client_def close_keys_def [symmetric] Let_def foldl_listener_remove)
qed

lemma in_close_keys_iff:
  "k \<in> set (close_keys q ip ls) \<longleftrightarrow>
     k \<in> fst ` set ls \<and> close_matches (ccq_protocol q) ip (ccq_port q) k"
  by (auto simp: close_keys_def)

lemma close_client_status:
  assumes "wf_listeners ls"
  shows "resp_status (snd (snd (close_client env q ls))) \<in> {204, 400, 404}"
proof (cases "sl_parse_ip env (ccq_ip q)")
  case None
  then show ?thesis by (simp add: close_client_def)
next
  case (Some ip)
  then show ?thesis using close_client_eq [OF assms] by simp
qed

lemma close_client_outcome:
  assumes "wf_listeners ls" and "sl_parse_ip env (ccq_ip q) = Some ip"
    and "close_client env q ls = (ls', calls, resp)"
  shows "resp_status resp =
      (if \<exists>k\<in>fst ` set ls. close_matches (ccq_protocol q) ip (ccq_port q) k then 204 else 404)
    \<and> map_of ls' =
      (\<lambda>k. if close_matches (ccq_protocol q) ip (ccq_port q) k then None else map_of ls k)
    \<and> calls = concat (List.map (closing_calls ls)
        (filter (close_matches (ccq_protocol q) ip (ccq_port q)) (List.map fst ls)))"
proof -
  let ?ks = "close_keys q ip ls"
  let ?m = "close_matches (ccq_protocol q) ip (ccq_port q)"
  have ex: "?ks \<noteq> [] \<longleftrightarrow> (\<exists>k\<in>fst ` set ls. ?m k)"
    by (auto simp: close_keys_def filter_empty_conv)
  have removed: "map_of (filter (\<lambda>v. fst v \<notin> set ?ks) ls) = (\<lambda>k. if ?m k then None else map_of ls k)"
  proof
    fix k
    have "map_of (foldl (\<lambda>t k. listener_remove k t) ls ?ks) k =
        (if k \<in> set ?ks then None else map_of ls k)"
      using listener_table.lookup_remove_all [OF assms(1)] by simp
    moreover have "map_of ls k = None" if "k \<notin> fst ` set ls"
      using that by (simp add: map_of_eq_None_iff)
    ultimately show "map_of (filter (\<lambda>v. fst v \<notin> set ?ks) ls) k = (if ?m k then None else map_of ls k)"
      by (auto simp: foldl_listener_remove in_close_keys_iff)
  qed
  show ?thesis
  proof (cases "?ks = []")
    case True
    then show ?thesis
      using assms(3) close_client_eq [OF assms(1,2)] ex removed
      by (auto simp: close_keys_def)
  next
    case False
    then show ?thesis
      using assms(3) close_client_eq [OF assms(1,2)] ex removed
      by (auto simp: close_keys_def)
  qed
qed

text \<open>C4: Closing is exact. On a table with unique keys, a request for a valid IP answers 204 if some
  listener has the protocol, the IP and the port (any port when the port is 0), and then exactly
  those listeners leave the table, every client session of each of them is closed before the
  listener is aborted, and no other session or listener is touched; otherwise it answers 404 and
  changes nothing.\<close>

theorem close_client_exact:
  assumes "wf_listeners ls" and "sl_parse_ip env (ccq_ip q) = Some ip"
    and "close_client env q ls = (ls', calls, resp)"
  shows "resp_status resp =
      (if \<exists>k\<in>fst ` set ls. close_matches (ccq_protocol q) ip (ccq_port q) k then 204 else 404)
    \<and> map_of ls' =
      (\<lambda>k. if close_matches (ccq_protocol q) ip (ccq_port q) k then None else map_of ls k)
    \<and> calls = concat (List.map (closing_calls ls)
        (filter (close_matches (ccq_protocol q) ip (ccq_port q)) (List.map fst ls)))
    \<and> wf_listeners ls'"
proof -
  have "wf_listeners ls'"
    using assms(3) close_client_eq [OF assms(1,2)] assms(1)
    by (auto simp: wf_listeners_def distinct_map_filter split: if_splits)
  then show ?thesis using close_client_outcome [OF assms] by simp
qed

section \<open>Conformance to the annotations\<close>

lemma close_listeners_error: "close_listeners ks ls = (Inl (code, e), ls', calls) \<Longrightarrow> code = 404"
  by (induction ks ls arbitrary: calls rule: close_listeners.induct)
     (auto split: option.splits prod.splits)

lemma bind_error_response_status: "resp_status (bind_error_response env p h e) \<in> {409, 422}"
  by (simp add: bind_error_response_def split: bind_error.split)

lemma bind_and_answer_status:
  "resp_status (snd (snd (bind_and_answer env p h br ls f))) \<in> {200, 409, 422}"
proof (cases "sl_bind env p br ls")
  case (Pair x ls')
  show ?thesis
  proof (cases x)
    case (Inl e)
    then show ?thesis
      using Pair bind_error_response_status [of env p h e] by (simp add: bind_and_answer_def) blast
  next
    case (Inr y)
    then show ?thesis using Pair by (cases y) (simp add: bind_and_answer_def)
  qed
qed

lemma create_client_status: "resp_status (snd (snd (create_client env req ls))) \<in> {200, 409, 422}"
proof -
  obtain proto r where req: "req = (proto, r)" by fastforce
  show ?thesis
    using bind_and_answer_status unfolding create_client_def req Let_def
    by (simp split: sum.split prod.split)
qed

lemma create_client_explicit_path_status:
  "resp_status (snd (snd (create_client_explicit_path env req ls))) \<in> {200, 409, 422}"
proof -
  obtain proto r where req: "req = (proto, r)" by fastforce
  show ?thesis
    using bind_and_answer_status unfolding create_client_explicit_path_def req Let_def
    by (simp split: sum.split prod.split)
qed

interpretation create_client: secured_endpoint create_client_doc
    "\<lambda>ls req. snd (create_client env req ls)" for env
  by unfold_locales
     (use create_client_status in \<open>auto simp: create_client_doc_def\<close>)

interpretation create_client_explicit_path: secured_endpoint create_client_explicit_path_doc
    "\<lambda>ls req. snd (create_client_explicit_path env req ls)" for env
  by unfold_locales
     (use create_client_explicit_path_status in \<open>auto simp: create_client_explicit_path_doc_def\<close>)

interpretation list_clients: secured_endpoint list_clients_doc
    "\<lambda>ls proto. snd (list_clients env proto ls)" for env
  by unfold_locales (simp_all add: list_clients_doc_def list_clients_def)

interpretation adjust_session: node_endpoint adjust_session_doc
    "\<lambda>ls req. snd (adjust_session env req ls)" for env
  by unfold_locales
     (simp_all add: adjust_session_doc_def adjust_session_def split: option.split sum.split)

interpretation session_config: node_endpoint session_config_doc
    "\<lambda>ls req. snd (session_config env req ls)" for env
  by unfold_locales
     (simp_all add: session_config_doc_def session_config_def split: option.split sum.split)

interpretation close_client: secured_endpoint close_client_doc
    "\<lambda>ls req. snd (close_client env req ls)" for env
  by unfold_locales
     (auto simp: close_client_doc_def close_client_def Let_def dest: close_listeners_error
       split: option.split prod.split sum.split)

section \<open>Creating a listener\<close>

text \<open>What the library promises when it binds: an error leaves the table alone, and success inserts one
  entry under the protocol and the bound socket, which is a real port not in the table before.\<close>

definition binds_fresh :: "session_env \<Rightarrow> ip_protocol \<Rightarrow> listeners \<Rightarrow> bool" where
  "binds_fresh env proto ls \<longleftrightarrow>
     (\<forall>br. case sl_bind env proto br ls of
        (Inl e, ls') \<Rightarrow> ls' = ls
      | (Inr (b, sid, m), ls') \<Rightarrow>
          snd b \<noteq> 0 \<and> map_of ls (proto, b) = None
          \<and> (\<exists>e. ls' = listener_insert ls (proto, b) e))"

lemma binds_fresh_cases:
  assumes "binds_fresh env proto ls"
  obtains (Failed) e where "sl_bind env proto br ls = (Inl e, ls)"
  | (Bound) b sid m e where "sl_bind env proto br ls = (Inr (b, sid, m), listener_insert ls (proto, b) e)"
      "snd b \<noteq> 0" "map_of ls (proto, b) = None"
proof -
  obtain r ls' where r: "sl_bind env proto br ls = (r, ls')" by fastforce
  have law: "case sl_bind env proto br ls of
        (Inl e, ls') \<Rightarrow> ls' = ls
      | (Inr (b, sid, m), ls') \<Rightarrow>
          snd b \<noteq> 0 \<and> map_of ls (proto, b) = None \<and> (\<exists>e. ls' = listener_insert ls (proto, b) e)"
    using assms unfolding binds_fresh_def by (rule spec)
  show ?thesis
  proof (cases r)
    case (Inl e)
    then show ?thesis using law r Failed by simp
  next
    case (Inr x)
    then show ?thesis using law r Bound by (cases x) auto
  qed
qed

text \<open>The outcome of a creation: refused with the table unchanged, or one new entry whose address the
  response reports.\<close>

lemma create_client_cases:
  assumes "binds_fresh env proto ls" and "create_client env (proto, r) ls = (ls', calls, resp)"
  obtains (Refused) "ls' = ls" "resp_status resp \<in> {409, 422}"
  | (Created) b e body where "ls' = listener_insert ls (proto, b) e" "snd b \<noteq> 0"
      "map_of ls (proto, b) = None" "resp = json_ok 200 body"
      "scp_ip body = sl_show_ip env (fst b)" "scp_port body = snd b" "scp_protocol body = proto"
proof -
  let ?host = "sl_binding_host env (scr_listen_host r) (sl_default_host env)"
  let ?cfg = "into_protocol_session_config env r proto
      (to_config (sl_fc_default env) (sl_fc_robust env) (sl_node_flow_control env))"
  show ?thesis
  proof (cases "already_bound ?host proto ls")
    case True
    then show ?thesis using assms(2) Refused by (auto simp: create_client_def Let_def)
  next
    case nb: False
    show ?thesis
    proof (cases ?cfg)
      case (Inl e)
      then show ?thesis using assms(2) nb Refused by (auto simp: create_client_def Let_def)
    next
      case (Inr c)
      obtain destination target config where c: "c = (destination, target, config)"
        by (cases c) auto
      define br where "br = \<lparr> br_host = ?host, br_port_range = sl_port_range env,
          br_destination = destination, br_target = scr_target r, br_config = config,
          br_pool = (if proto = TCP then scr_session_pool r else None),
          br_max_clients = (if proto = TCP then scr_max_client_sessions r else None) \<rparr>"
      show ?thesis
      proof (cases rule: binds_fresh_cases [OF assms(1), of br])
        case (1 e)
        then have "ls' = ls" "resp = bind_error_response env proto ?host e"
          using assms(2) nb Inr c
          by (auto simp: create_client_def Let_def br_def bind_and_answer_def)
        then show ?thesis using Refused bind_error_response_status by metis
      next
        case (2 b sid m e)
        then show ?thesis
          using assms(2) nb Inr c Created [of b e]
          by (auto simp: create_client_def Let_def br_def bind_and_answer_def)
      qed
    qed
  qed
qed

text \<open>C10: A session that was created can be closed by what the response says. If the library binds
  sockets that are not in the table, and IP addresses parse back from their text, then a creation
  either answers 409 or 422 and leaves the table unchanged, or answers 200 with an address that,
  given back to the close endpoint, answers 204 and leaves the table with the entries it had before
  the creation.\<close>

theorem create_then_close:
  assumes "wf_listeners ls" and "binds_fresh env proto ls"
    and "\<And>ip. sl_parse_ip env (sl_show_ip env ip) = Some ip"
    and "create_client env (proto, r) ls = (ls', calls, resp)"
  shows "(resp_status resp \<in> {409, 422} \<and> ls' = ls)
    \<or> (\<exists>body. resp = json_ok 200 body \<and>
         (case close_client env \<lparr> ccq_protocol = proto, ccq_ip = scp_ip body, ccq_port = scp_port body \<rparr> ls'
          of (ls'', calls', resp') \<Rightarrow> resp_status resp' = 204 \<and> map_of ls'' = map_of ls))"
proof (cases rule: create_client_cases [OF assms(2,4)])
  case 1
  then show ?thesis by simp
next
  case (2 b e body)
  let ?q = "\<lparr> ccq_protocol = proto, ccq_ip = scp_ip body, ccq_port = scp_port body \<rparr>"
  have wf': "wf_listeners ls'"
    using 2(1) assms(1) listener_table.valid_insert by simp
  have match: "close_matches proto (fst b) (snd b) k \<longleftrightarrow> k = (proto, b)" for k
    using 2(2) by (cases k; cases b) (auto simp: close_matches_def)
  have keys: "(proto, b) \<in> fst ` set ls'"
    using 2(1) by (simp add: listener_insert_def)
  obtain ls'' calls' resp' where cl: "close_client env ?q ls' = (ls'', calls', resp')"
    by (metis prod_cases3)
  have "resp_status resp' = (if \<exists>k\<in>fst ` set ls'. close_matches proto (fst b) (snd b) k then 204 else 404)
      \<and> map_of ls'' = (\<lambda>k. if close_matches proto (fst b) (snd b) k then None else map_of ls' k)"
    using close_client_outcome [OF wf' _ cl, of "fst b"] 2(5,6) assms(3) by simp
  then have "resp_status resp' = 204 \<and> map_of ls'' = map_of ls"
    using keys match 2(1,3) assms(1) listener_table.lookup_insert [OF assms(1)]
    by (auto simp: fun_eq_iff)
  then show ?thesis using 2(4) cl by simp
qed

section \<open>Reading and writing a session's configuration\<close>


text \<open>Without a response buffer, the requested upstream rate is dropped. A configuration that
  states only the maximum SURB upstream updates the session to the library's default balancer
  configuration, whatever rate was asked for.\<close>

theorem adjust_without_buffer_resets:
  assumes "sl_parse_session_id env req = Some sid" and "sl_find_configurator env ls sid"
  shows "fst (snd (adjust_session env
      (req, \<lparr> scb_response_buffer = None, scb_max_surb_upstream = Some bps \<rparr>) ls))
    = [SC_UpdateSurb sid (sp_default (sl_surb_params env))]"
  using assms by (simp add: adjust_session_def to_surb_config_no_buffer)

section \<open>The life of the table\<close>

text \<open>The table with the trace of all calls made so far. Beside the endpoints, the tasks of the bound
  listeners change it: a client connects (its session id is new) or leaves.\<close>

type_synonym session_world = "listeners \<times> session_call list"

definition set_clients :: "(session_id list \<Rightarrow> session_id list) \<Rightarrow> listener_id \<Rightarrow> listeners \<Rightarrow> listeners" where
  "set_clients f k ls =
     List.map (\<lambda>v. if fst v = k then (fst v, (snd v)\<lparr> se_clients := f (se_clients (snd v)) \<rparr>) else v) ls"

inductive session_step :: "session_env \<Rightarrow> session_world \<Rightarrow> session_world \<Rightarrow> bool" for env where
  Create: "create_client env req ls = (ls', calls, resp)
     \<Longrightarrow> session_step env (ls, tr) (ls', tr @ calls)"
| Create_Explicit: "create_client_explicit_path env req ls = (ls', calls, resp)
     \<Longrightarrow> session_step env (ls, tr) (ls', tr @ calls)"
| Adjust: "adjust_session env req ls = (ls', calls, resp)
     \<Longrightarrow> session_step env (ls, tr) (ls', tr @ calls)"
| Close: "close_client env q ls = (ls', calls, resp)
     \<Longrightarrow> session_step env (ls, tr) (ls', tr @ calls)"
| Connect: "\<not> has_client sid ls \<Longrightarrow> SC_CloseSession sid \<notin> set tr
     \<Longrightarrow> session_step env (ls, tr) (set_clients (\<lambda>cs. cs @ [sid]) k ls, tr)"
| Leave: "session_step env (ls, tr) (set_clients (filter (\<lambda>c. c \<noteq> sid)) k ls, tr)"

inductive_cases session_stepE: "session_step env (ls, tr) w"

inductive session_reachable :: "session_env \<Rightarrow> session_world \<Rightarrow> bool" for env where
  Start: "session_reachable env ([], [])"
| Step: "session_reachable env w \<Longrightarrow> session_step env w w' \<Longrightarrow> session_reachable env w'"

text \<open>The invariant: listener ids are unique, a client session belongs to one listener, and a session
  that was closed is no listener's client any more.\<close>

definition clients_of :: "listeners \<Rightarrow> session_id list" where
  "clients_of ls = concat (List.map (\<lambda>v. se_clients (snd v)) ls)"

definition session_inv :: "session_world \<Rightarrow> bool" where
  "session_inv w \<longleftrightarrow>
     wf_listeners (fst w) \<and> distinct (clients_of (fst w))
     \<and> (\<forall>sid. SC_CloseSession sid \<in> set (snd w) \<longrightarrow> sid \<notin> set (clients_of (fst w)))"

text \<open>The library binds fresh sockets, and a new entry starts without clients: the session that a UDP
  binding opens at once is the connection that follows.\<close>

definition binds_ok :: "session_env \<Rightarrow> bool" where
  "binds_ok env \<longleftrightarrow>
     (\<forall>proto br ls. case sl_bind env proto br ls of
        (Inl e, ls') \<Rightarrow> ls' = ls
      | (Inr (b, sid, m), ls') \<Rightarrow>
          snd b \<noteq> 0 \<and> map_of ls (proto, b) = None
          \<and> (\<exists>e. ls' = listener_insert ls (proto, b) e \<and> se_clients e = []))"

lemma has_client_iff: "has_client sid ls \<longleftrightarrow> sid \<in> set (clients_of ls)"
  by (auto simp: has_client_def clients_of_def list_ex_iff)

lemma clients_of_insert:
  assumes "map_of ls k = None" and "se_clients e = []"
  shows "clients_of (listener_insert ls k e) = clients_of ls"
proof -
  have "listener_remove k ls = ls"
    using assms(1) unfolding listener_remove_def
    by (intro filter_True) (auto simp: map_of_eq_None_iff)
  then show ?thesis
    using assms(2) by (simp add: listener_insert_def clients_of_def)
qed

lemma clients_of_filter: "set (clients_of (filter P ls)) \<subseteq> set (clients_of ls)"
  by (auto simp: clients_of_def)

lemma distinct_clients_of_filter: "distinct (clients_of ls) \<Longrightarrow> distinct (clients_of (filter P ls))"
proof (induction ls)
  case Nil
  then show ?case by (simp add: clients_of_def)
next
  case (Cons v ls)
  have sub: "set (clients_of (filter P ls)) \<subseteq> set (clients_of ls)" by (rule clients_of_filter)
  have "clients_of (v # ls) = se_clients (snd v) @ clients_of ls" by (simp add: clients_of_def)
  moreover have "clients_of (filter P (v # ls)) =
      (if P v then se_clients (snd v) @ clients_of (filter P ls) else clients_of (filter P ls))"
    by (simp add: clients_of_def)
  ultimately show ?case using Cons sub by auto
qed

lemma bind_and_answer_inv:
  assumes "binds_ok env" and "session_inv (ls, tr)"
    and "bind_and_answer env proto h br ls f = (ls', calls, resp)"
  shows "session_inv (ls', tr @ calls)"
proof -
  have law: "case sl_bind env proto br ls of
        (Inl e, ls') \<Rightarrow> ls' = ls
      | (Inr (b, sid, m), ls') \<Rightarrow>
          snd b \<noteq> 0 \<and> map_of ls (proto, b) = None
          \<and> (\<exists>e. ls' = listener_insert ls (proto, b) e \<and> se_clients e = [])"
    by (rule assms(1) [unfolded binds_ok_def, THEN spec, THEN spec, THEN spec])
  have "calls = [SC_Bind proto br]"
    using assms(3) by (auto simp: bind_and_answer_def split: prod.splits sum.splits)
  moreover have "ls' = ls \<or> (\<exists>b e. map_of ls (proto, b) = None
      \<and> ls' = listener_insert ls (proto, b) e \<and> se_clients e = [])"
    using assms(3) law by (auto simp: bind_and_answer_def split: prod.splits sum.splits)
  moreover have "wf_listeners (listener_insert ls (proto, b) e)" for b e
    using assms(2) listener_table.valid_insert by (simp add: session_inv_def)
  ultimately show ?thesis
    using assms(2) by (auto simp: session_inv_def clients_of_insert)
qed

lemma create_client_inv:
  assumes "binds_ok env" and "session_inv (ls, tr)" and "create_client env req ls = (ls', calls, resp)"
  shows "session_inv (ls', tr @ calls)"
proof -
  obtain proto r where req: "req = (proto, r)" by fastforce
  show ?thesis
    using assms(2,3) unfolding create_client_def req Let_def
    by (auto dest: bind_and_answer_inv [OF assms(1,2)] split: if_splits sum.splits prod.splits)
qed

lemma create_client_explicit_path_inv:
  assumes "binds_ok env" and "session_inv (ls, tr)"
    and "create_client_explicit_path env req ls = (ls', calls, resp)"
  shows "session_inv (ls', tr @ calls)"
proof -
  obtain proto r where req: "req = (proto, r)" by fastforce
  show ?thesis
    using assms(2,3) unfolding create_client_explicit_path_def req Let_def
    by (auto dest: bind_and_answer_inv [OF assms(1,2)] split: if_splits sum.splits prod.splits)
qed

lemma clients_of_Cons: "clients_of (v # ls) = se_clients (snd v) @ clients_of ls"
  by (simp add: clients_of_def)

lemma set_clients_Cons:
  "set_clients f k (v # ls) =
     (if fst v = k then (fst v, (snd v)\<lparr> se_clients := f (se_clients (snd v)) \<rparr>) else v)
     # set_clients f k ls"
  by (simp add: set_clients_def)

lemma keys_set_clients: "List.map fst (set_clients f k ls) = List.map fst ls"
  by (induction ls) (simp_all add: set_clients_def)

lemma set_clients_absent: "k \<notin> fst ` set ls \<Longrightarrow> set_clients f k ls = ls"
  by (induction ls) (auto simp: set_clients_def)

lemma clients_of_Connect:
  assumes "wf_listeners ls" and "distinct (clients_of ls)" and "sid \<notin> set (clients_of ls)"
  shows "distinct (clients_of (set_clients (\<lambda>cs. cs @ [sid]) k ls))
    \<and> set (clients_of (set_clients (\<lambda>cs. cs @ [sid]) k ls)) \<subseteq> insert sid (set (clients_of ls))"
  using assms
proof (induction ls)
  case Nil
  then show ?case by (simp add: set_clients_def clients_of_def)
next
  case (Cons v ls)
  show ?case
  proof (cases "fst v = k")
    case True
    with Cons.prems(1) have "set_clients (\<lambda>cs. cs @ [sid]) k ls = ls"
      by (intro set_clients_absent) (auto simp: wf_listeners_def)
    then show ?thesis
      using True Cons.prems by (auto simp: set_clients_Cons clients_of_Cons)
  next
    case False
    then show ?thesis
      using Cons.IH Cons.prems by (auto simp: set_clients_Cons clients_of_Cons wf_listeners_def)
  qed
qed

lemma clients_of_Leave:
  "distinct (clients_of ls) \<Longrightarrow> distinct (clients_of (set_clients (filter P) k ls))
    \<and> set (clients_of (set_clients (filter P) k ls)) \<subseteq> set (clients_of ls)"
  by (induction ls) (auto simp: set_clients_def clients_of_def)

lemma closing_calls_clients:
  assumes "wf_listeners ls" and "SC_CloseSession sid \<in> set (closing_calls ls k)"
  shows "\<exists>e. (k, e) \<in> set ls \<and> sid \<in> set (se_clients e)"
  using assms(2) by (cases "map_of ls k") (auto simp: closing_calls_def dest: map_of_SomeD)

text \<open>A client of a removed listener is not the client of one that stays.\<close>

lemma removed_clients_gone:
  assumes "distinct (clients_of ls)" and "(k, e) \<in> set ls" and "sid \<in> set (se_clients e)"
    and "\<not> P (k, e)"
  shows "sid \<notin> set (clients_of (filter P ls))"
  using assms
proof (induction ls)
  case Nil
  then show ?case by simp
next
  case (Cons v ls)
  have sub: "set (clients_of (filter P ls)) \<subseteq> set (clients_of ls)" by (rule clients_of_filter)
  show ?case
  proof (cases "v = (k, e)")
    case True
    then have "sid \<notin> set (clients_of ls)"
      using Cons.prems by (auto simp: clients_of_Cons)
    then show ?thesis using True Cons.prems(4) sub by auto
  next
    case False
    then have m: "(k, e) \<in> set ls" using Cons.prems(2) by simp
    then have "sid \<in> set (clients_of ls)"
      using Cons.prems(3) by (force simp: clients_of_def)
    then show ?thesis
      using Cons.IH Cons.prems m by (auto simp: clients_of_Cons)
  qed
qed

lemma close_client_inv:
  assumes "session_inv (ls, tr)" and "close_client env q ls = (ls', calls, resp)"
  shows "session_inv (ls', tr @ calls)"
proof (cases "sl_parse_ip env (ccq_ip q)")
  case None
  then show ?thesis using assms by (auto simp: close_client_def)
next
  case (Some ip)
  have wf: "wf_listeners ls" and dc: "distinct (clients_of ls)"
    and closed: "\<And>sid. SC_CloseSession sid \<in> set tr \<Longrightarrow> sid \<notin> set (clients_of ls)"
    using assms(1) by (auto simp: session_inv_def)
  let ?ks = "close_keys q ip ls"
  let ?P = "\<lambda>v. fst v \<notin> set ?ks"
  consider "ls' = ls" "calls = []"
    | "ls' = filter ?P ls" "calls = concat (List.map (closing_calls ls) ?ks)"
    using assms(2) close_client_eq [OF wf Some] by (auto split: if_splits)
  then show ?thesis
  proof cases
    case 1
    then show ?thesis using assms(1) by simp
  next
    case 2
    have "wf_listeners ls'"
      using 2(1) wf by (auto simp: wf_listeners_def distinct_map_filter)
    moreover have "distinct (clients_of ls')"
      using 2(1) dc by (simp add: distinct_clients_of_filter)
    moreover have "sid \<notin> set (clients_of ls')" if "SC_CloseSession sid \<in> set tr" for sid
      using closed [OF that] clients_of_filter [of ?P ls] 2(1) by auto
    moreover have "sid \<notin> set (clients_of ls')" if c: "SC_CloseSession sid \<in> set calls" for sid
    proof -
      obtain k where k: "k \<in> set ?ks" "SC_CloseSession sid \<in> set (closing_calls ls k)"
        using c 2(2) by auto
      then obtain e where "(k, e) \<in> set ls" "sid \<in> set (se_clients e)"
        using closing_calls_clients [OF wf] by blast
      then show ?thesis
        using removed_clients_gone [OF dc, of k e sid ?P] k(1) 2(1) by simp
    qed
    ultimately show ?thesis by (auto simp: session_inv_def)
  qed
qed

lemma adjust_session_inv:
  "session_inv (ls, tr) \<Longrightarrow> adjust_session env req ls = (ls', calls, resp)
     \<Longrightarrow> session_inv (ls', tr @ calls)"
  by (auto simp: adjust_session_def session_inv_def split: option.splits if_splits)

lemma session_step_inv:
  assumes "binds_ok env" and "session_step env w w'" and "session_inv w"
  shows "session_inv w'"
  using assms(2,3)
proof cases
  case (Create req ls ls' calls resp tr)
  then show ?thesis using create_client_inv assms by simp
next
  case (Create_Explicit req ls ls' calls resp tr)
  then show ?thesis using create_client_explicit_path_inv assms by simp
next
  case (Adjust req ls ls' calls resp tr)
  then show ?thesis using adjust_session_inv assms by simp
next
  case (Close q ls ls' calls resp tr)
  then show ?thesis using close_client_inv assms by simp
next
  case (Connect sid ls tr k)
  then have "sid \<notin> set (clients_of ls)" by (simp add: has_client_iff)
  then show ?thesis
    using Connect assms(3) clients_of_Connect [of ls sid k]
    by (auto simp: session_inv_def wf_listeners_def keys_set_clients)
next
  case (Leave ls tr sid k)
  then show ?thesis
    using assms(3) clients_of_Leave [of ls "\<lambda>c. c \<noteq> sid" k]
    by (auto simp: session_inv_def wf_listeners_def keys_set_clients)
qed

lemma session_reachable_inv: "session_reachable env w \<Longrightarrow> binds_ok env \<Longrightarrow> session_inv w"
proof (induction rule: session_reachable.induct)
  case Start
  then show ?case by (simp add: session_inv_def wf_listeners_def clients_of_def)
next
  case (Step w w')
  then show ?case using session_step_inv by blast
qed


section \<open>A concrete environment\<close>

text \<open>An instance of the parameters: sockets are bound where asked unless the port is 0 or taken, IP
  addresses are written as their kind and number, and session ids are their own text.\<close>

fun sample_show_ip :: "ip_addr \<Rightarrow> string" where
  "sample_show_ip (V4 w) = ''v'' @ show_nat (unat w)"
| "sample_show_ip (V6 w) = ''x'' @ show_nat (unat w)"

definition sample_parse_ip :: "string \<Rightarrow> ip_addr option" where
  "sample_parse_ip s =
     (case s of
        [] \<Rightarrow> None
      | c # t \<Rightarrow>
          if c = CHR ''v'' then map_option (\<lambda>n. V4 (of_nat n)) (parse_unsigned 32 t)
          else if c = CHR ''x'' then map_option (\<lambda>n. V6 (of_nat n)) (parse_unsigned 128 t)
          else None)"

definition sample_entry :: "bind_request \<Rightarrow> session_entry" where
  "sample_entry br =
     \<lparr> se_target = br_target br, se_destination = br_destination br, se_forward = IR_Hops 1,
       se_return = IR_Hops 1, se_clients = [], se_max_clients = 5, se_max_surb_upstream = None,
       se_response_buffer = None, se_session_pool = br_pool br \<rparr>"

definition sample_bind :: "ip_protocol \<Rightarrow> bind_request \<Rightarrow> listeners
     \<Rightarrow> (bind_error, socket_addr \<times> session_id option \<times> nat) res \<times> listeners" where
  "sample_bind proto br ls =
     (if snd (br_host br) = 0 \<or> map_of ls (proto, br_host br) \<noteq> None
      then (Inl BE_ListenHostAlreadyUsed, ls)
      else (Inr (br_host br, None, 5), listener_insert ls (proto, br_host br) (sample_entry br)))"

definition sample_surb :: surb_config where
  "sample_surb = \<lparr> sc_target_buffer = 7000, sc_max_per_sec = 5000, sc_other = 0 \<rparr>"

definition sample_env :: session_env where
  "sample_env =
     \<lparr> sl_binding_host = (\<lambda>h d. d), sl_bind = sample_bind,
       sl_bind_error_display = (\<lambda>e. ''bind error''), sl_into_target = (\<lambda>t p. Inr ''target''),
       sl_hop_routing = (\<lambda>n. if n \<le> 3 then Inr n else Inl ''too many hops''),
       sl_parse_address = (\<lambda>s. Inl ''bad address''), sl_key_of_address = (\<lambda>a. Inr None),
       sl_base64 = id, sl_show_target = (\<lambda>t. ''target''), sl_show_node_id = (\<lambda>k. ''node''),
       sl_show_ip = sample_show_ip, sl_parse_ip = sample_parse_ip, sl_show_socket = (\<lambda>a. ''socket''),
       sl_parse_session_id = Some,
       sl_find_configurator = (\<lambda>ls sid. has_client sid ls), sl_update_surb = (\<lambda>s c. Inr ()),
       sl_get_surb = (\<lambda>s. Inr (Some sample_surb)),
       sl_surb_params = \<lparr> sp_mtu = 1002, sp_surb_size = 398, sp_default = sample_surb \<rparr>,
       sl_fc_default = ''clean'', sl_fc_robust = ''robust'',
       sl_default_host = (V4 2130706433, 10000), sl_port_range = None,
       sl_node_flow_control = FC_Robust \<rparr>"

definition sample_request :: session_client_request where
  "sample_request =
     \<lparr> scr_destination = 1, scr_forward_path = Hops 1, scr_return_path = Hops 1,
       scr_target = Plain ''localhost:8080'', scr_listen_host = None, scr_capabilities = None,
       scr_response_buffer = None, scr_max_surb_upstream = None, scr_session_pool = None,
       scr_max_client_sessions = None, scr_flow_control = None \<rparr>"

definition sample_listeners :: listeners where
  "sample_listeners =
     [((TCP, V4 1, 80), (sample_entry \<lparr> br_host = (V4 1, 80), br_port_range = None,
          br_destination = 1, br_target = Plain ''a:1'',
          br_config = \<lparr> cc_route = Hop_Route 1 1, cc_capabilities = {}, cc_surb = None,
            cc_flow_control = None \<rparr>,
          br_pool = None, br_max_clients = None \<rparr>)\<lparr> se_clients := [''s1'', ''s2''] \<rparr>)]"

lemma sample_parse_show_ip: "sample_parse_ip (sample_show_ip ip) = Some ip"
proof (cases ip)
  case (V4 w)
  have "unat w < 2 ^ LENGTH(32)" by (rule unsigned_less)
  then show ?thesis using V4 by (simp add: sample_parse_ip_def parse_show_nat)
next
  case (V6 w)
  have "unat w < 2 ^ LENGTH(128)" by (rule unsigned_less)
  then show ?thesis using V6 by (simp add: sample_parse_ip_def parse_show_nat)
qed

lemma sample_binds_fresh: "binds_fresh sample_env proto ls"
  by (auto simp: binds_fresh_def sample_env_def sample_bind_def)

lemma sample_binds_ok: "binds_ok sample_env"
  by (auto simp: binds_ok_def sample_env_def sample_bind_def sample_entry_def)

lemma sample_wf: "wf_listeners sample_listeners"
  by (simp add: wf_listeners_def sample_listeners_def)

theorem close_client_exact_witness:
  "case close_client sample_env \<lparr> ccq_protocol = TCP, ccq_ip = ''v1'', ccq_port = 0 \<rparr> sample_listeners
   of (ls', calls, resp) \<Rightarrow>
     resp_status resp = 204 \<and> map_of ls' (TCP, V4 1, 80) = None
     \<and> calls = [SC_CloseSession ''s1'', SC_CloseSession ''s2'', SC_Abort (TCP, V4 1, 80)]"
proof -
  let ?q = "\<lparr> ccq_protocol = TCP, ccq_ip = ''v1'', ccq_port = 0 \<rparr>"
  obtain ls' calls resp where cl: "close_client sample_env ?q sample_listeners = (ls', calls, resp)"
    by (metis prod_cases3)
  have "sl_parse_ip sample_env (ccq_ip ?q) = Some (V4 1)"
    by (simp add: sample_env_def sample_parse_ip_def parse_unsigned_def parse_digits_def strip_plus_def
        strip_prefix_def starts_with_def is_digit_def digit_val_def)
  from close_client_exact [OF sample_wf this cl] show ?thesis
    unfolding cl by (simp add: sample_listeners_def close_matches_def closing_calls_def)
qed

theorem create_then_close_witness:
  "case create_client sample_env (TCP, sample_request) [] of (ls', calls, resp) \<Rightarrow>
     (resp_status resp \<in> {409, 422} \<and> ls' = [])
     \<or> (\<exists>body. resp = json_ok 200 body \<and>
          (case close_client sample_env
               \<lparr> ccq_protocol = TCP, ccq_ip = scp_ip body, ccq_port = scp_port body \<rparr> ls'
           of (ls'', calls', resp') \<Rightarrow> resp_status resp' = 204 \<and> map_of ls'' = Map.empty))"
proof -
  obtain ls' calls resp where c: "create_client sample_env (TCP, sample_request) [] = (ls', calls, resp)"
    by (metis prod_cases3)
  have wf: "wf_listeners []" by (simp add: wf_listeners_def)
  have ip: "sl_parse_ip sample_env (sl_show_ip sample_env ip) = Some ip" for ip
    using sample_parse_show_ip by (simp add: sample_env_def)
  show ?thesis
    using create_then_close [OF wf sample_binds_fresh ip c] by (simp add: c)
qed


theorem adjust_without_buffer_resets_witness:
  "fst (snd (adjust_session sample_env
      (''s1'', \<lparr> scb_response_buffer = None, scb_max_surb_upstream = Some 2000000 \<rparr>) sample_listeners))
    = [SC_UpdateSurb ''s1'' sample_surb]"
proof -
  have "has_client ''s1'' sample_listeners"
    by (simp add: has_client_def sample_listeners_def)
  then show ?thesis
    using adjust_without_buffer_resets [of sample_env "''s1''" "''s1''" sample_listeners 2000000]
    by (simp add: sample_env_def)
qed


end
