(* ===== verification/Router.thy ===== *)
theory Router
  imports Checks Account Channels Tickets Network_Views Node_Info Peers Metrics_Path Session_Laws
begin

text \<open>
  The router (\<open>build_api\<close>, \<open>explicit_path_router\<close> and the OpenAPI document of \<open>rest-api/src/lib.rs\<close>): the
  route table, the layers around it, and the documented endpoints.

  A path is split at its slashes; a pattern segment in braces matches any non-empty segment and, where
  several patterns match, a literal segment is preferred to a captured one, from the left, as axum's
  matcher does. A path with a route but not for the method answers 405 inside the layers of its
  route; a path without a route answers 404 outside of all layers.
\<close>

section \<open>Routes\<close>

datatype endpoint =
    E_startedz | E_readyz | E_healthyz | E_eligiblez | E_metrics
  | E_addresses | E_balances | E_withdraw
  | E_show_peer_info | E_ping_peer
  | E_list_channels | E_open_channel | E_show_channel | E_close_channel | E_fund_channel
  | E_redeem_tickets | E_show_ticket_statistics
  | E_price | E_probability | E_connected | E_announced | E_graph
  | E_version | E_configuration | E_info | E_status
  | E_session_config | E_adjust_session | E_create_client | E_create_client_explicit_path
  | E_list_clients | E_close_client
  | E_docs

text \<open>The groups of routes, by the layers around them.\<close>

datatype zone = Zone_Docs | Zone_Checks | Zone_Metrics | Zone_Api

record route =
  rt_method :: http_method
  rt_pattern :: string
  rt_endpoint :: endpoint
  rt_zone :: zone

definition mk_route :: "zone \<Rightarrow> http_method \<Rightarrow> string \<Rightarrow> endpoint \<Rightarrow> route" where
  "mk_route z m p e = \<lparr> rt_method = m, rt_pattern = p, rt_endpoint = e, rt_zone = z \<rparr>"

definition docs_routes :: "route list" where
  "docs_routes =
     [mk_route Zone_Docs GET ''/swagger-ui'' E_docs,
      mk_route Zone_Docs GET ''/api-docs/openapi.json'' E_docs,
      mk_route Zone_Docs GET ''/scalar'' E_docs]"

definition checks_routes :: "route list" where
  "checks_routes =
     [mk_route Zone_Checks GET ''/startedz'' E_startedz,
      mk_route Zone_Checks GET ''/readyz'' E_readyz,
      mk_route Zone_Checks GET ''/healthyz'' E_healthyz,
      mk_route Zone_Checks GET ''/eligiblez'' E_eligiblez]"

definition metrics_routes :: "route list" where
  "metrics_routes = [mk_route Zone_Metrics GET ''/metrics'' E_metrics]"

definition explicit_path_router :: "bool \<Rightarrow> (http_method \<times> string \<times> endpoint) list" where
  "explicit_path_router enabled =
     (if enabled
      then [(POST, ''/session/{protocol}/explicit-path'', E_create_client_explicit_path)]
      else [])"

definition api_table :: "bool \<Rightarrow> (http_method \<times> string \<times> endpoint) list" where
  "api_table enabled =
     [(GET, ''/account/addresses'', E_addresses),
      (GET, ''/account/balances'', E_balances),
      (POST, ''/account/withdraw'', E_withdraw),
      (GET, ''/peers/{address}'', E_show_peer_info),
      (GET, ''/channels'', E_list_channels),
      (POST, ''/channels'', E_open_channel),
      (GET, ''/channels/{address}'', E_show_channel),
      (DELETE, ''/channels/{address}'', E_close_channel),
      (POST, ''/channels/{address}/fund'', E_fund_channel),
      (POST, ''/tickets/redeem'', E_redeem_tickets),
      (GET, ''/tickets/statistics'', E_show_ticket_statistics),
      (GET, ''/network/price'', E_price),
      (GET, ''/network/probability'', E_probability),
      (GET, ''/network/connected'', E_connected),
      (GET, ''/network/announced'', E_announced),
      (GET, ''/network/graph'', E_graph),
      (GET, ''/node/version'', E_version),
      (GET, ''/node/configuration'', E_configuration),
      (GET, ''/node/info'', E_info),
      (GET, ''/node/status'', E_status),
      (POST, ''/peers/{address}/ping'', E_ping_peer),
      (GET, ''/session/config/{id}'', E_session_config),
      (POST, ''/session/config/{id}'', E_adjust_session),
      (POST, ''/session/{protocol}'', E_create_client)]
     @ explicit_path_router enabled @
     [(GET, ''/session/{protocol}'', E_list_clients),
      (DELETE, ''/session/{protocol}/{ip}/{port}'', E_close_client)]"

definition api_routes :: "bool \<Rightarrow> route list" where
  "api_routes enabled =
     List.map (\<lambda>(m, p, e). mk_route Zone_Api m (base_path @ p) e) (api_table enabled)"

definition routes :: "bool \<Rightarrow> route list" where
  "routes enabled = docs_routes @ checks_routes @ metrics_routes @ api_routes enabled"

section \<open>Matching\<close>

definition is_capture :: "string \<Rightarrow> bool" where
  "is_capture seg \<longleftrightarrow> starts_with ''{'' seg"

fun match_segments :: "string list \<Rightarrow> string list \<Rightarrow> string list option" where
  "match_segments [] [] = Some []"
| "match_segments (p # ps) (s # ss) =
     (if is_capture p
      then (if s = [] then None
            else map_option (\<lambda>cs. s # cs) (match_segments ps ss))
      else if p = s then match_segments ps ss else None)"
| "match_segments _ _ = None"

definition match_route :: "string \<Rightarrow> route \<Rightarrow> string list option" where
  "match_route path r = match_segments (split_on (CHR ''/'') (rt_pattern r)) (split_on (CHR ''/'') path)"

fun more_specific :: "string list \<Rightarrow> string list \<Rightarrow> bool" where
  "more_specific (p # ps) (q # qs) =
     (if is_capture p = is_capture q then more_specific ps qs else is_capture q)"
| "more_specific _ _ = False"

definition beats :: "route \<Rightarrow> route \<Rightarrow> bool" where
  "beats r r' \<longleftrightarrow>
     more_specific (split_on (CHR ''/'') (rt_pattern r)) (split_on (CHR ''/'') (rt_pattern r'))"

text \<open>The routes of the pattern the path belongs to: those that match and that no matching route beats.\<close>

definition candidates :: "bool \<Rightarrow> string \<Rightarrow> route list" where
  "candidates enabled path =
     (let ms = filter (\<lambda>r. match_route path r \<noteq> None) (routes enabled)
      in filter (\<lambda>r. \<not> list_ex (\<lambda>r'. beats r' r) ms) ms)"

section \<open>Layers\<close>

datatype request_method = Method http_method | Options | Other_Method

record http_request =
  rq_method :: request_method
  rq_path :: string
  rq_headers :: headers

text \<open>The response of a matched path: its route for the method, or 405.\<close>

definition run_route ::
  "route list \<Rightarrow> http_request \<Rightarrow> (endpoint \<Rightarrow> string list \<Rightarrow> ('c, 'b) handled) \<Rightarrow> ('c, 'b) handled" where
  "run_route rs rq run =
     (case find (\<lambda>r. Method (rt_method r) = rq_method rq) rs of
        Some r \<Rightarrow>
          (case match_route (rq_path rq) r of
             Some cs \<Rightarrow> run (rt_endpoint r) cs
           | None \<Rightarrow> ([], status_only 404))
      | None \<Rightarrow> ([], status_only 405))"

text \<open>The layers from the outside in: the CORS layer answers every OPTIONS request itself, the accept layer
  answers 406 to a request that does not take the zone's media type, and the authentication layer
  guards the metrics and the API. Tracing, compression and the marking of sensitive headers change
  neither; the accept check is the library's.\<close>

definition zone_accept :: "zone \<Rightarrow> string option" where
  "zone_accept z =
     (case z of
        Zone_Docs \<Rightarrow> None
      | Zone_Checks \<Rightarrow> None
      | Zone_Metrics \<Rightarrow> Some ''text/plain''
      | Zone_Api \<Rightarrow> Some ''application/json'')"

definition zone_secured :: "zone \<Rightarrow> bool" where
  "zone_secured z \<longleftrightarrow> z = Zone_Metrics \<or> z = Zone_Api"

definition serve ::
  "(headers \<Rightarrow> string \<Rightarrow> bool) \<Rightarrow> api \<Rightarrow> http_request
   \<Rightarrow> (endpoint \<Rightarrow> string list \<Rightarrow> ('c, 'b) handled) \<Rightarrow> ('c, 'b) handled" where
  "serve accepts cfg rq run =
     (case candidates (api_enable_explicit_path_sessions cfg) (rq_path rq) of
        [] \<Rightarrow> ([], status_only 404)
      | r # rs \<Rightarrow>
          if rt_zone r \<noteq> Zone_Docs \<and> rq_method rq = Options then ([], status_only 200)
          else if (case zone_accept (rt_zone r) of
                     None \<Rightarrow> False | Some mt \<Rightarrow> \<not> accepts (rq_headers rq) mt)
          then ([], status_only 406)
          else if zone_secured (rt_zone r)
          then authenticate (api_auth cfg) (rq_headers rq) rq (\<lambda>rq. run_route (r # rs) rq run)
          else run_route (r # rs) rq run)"

section \<open>The OpenAPI document\<close>

definition base_api_doc :: "endpoint_doc list" where
  "base_api_doc =
     [addresses_doc, balances_doc, withdraw_doc,
      close_channel_doc, fund_channel_doc, list_channels_doc, open_channel_doc, show_channel_doc,
      eligiblez_doc, healthyz_doc, readyz_doc, startedz_doc,
      price_doc, probability_doc, connected_doc, announced_doc, graph_doc,
      configuration_doc, info_doc, node_status_doc, version_doc,
      ping_peer_doc, show_peer_info_doc,
      metrics_doc,
      create_client_doc, list_clients_doc, adjust_session_doc, session_config_doc, close_client_doc,
      redeem_tickets_doc, show_ticket_statistics_doc]"

definition explicit_path_api_doc :: "endpoint_doc list" where
  "explicit_path_api_doc = [create_client_explicit_path_doc]"

definition openapi_with_explicit_path_sessions :: "bool \<Rightarrow> endpoint_doc list" where
  "openapi_with_explicit_path_sessions enabled =
     base_api_doc @ (if enabled then explicit_path_api_doc else [])"

definition openapi_for_config :: "api \<Rightarrow> endpoint_doc list" where
  "openapi_for_config cfg =
     openapi_with_explicit_path_sessions (api_enable_explicit_path_sessions cfg)"

definition documented_operations :: "endpoint_doc list \<Rightarrow> (http_method \<times> string \<times> bool) set" where
  "documented_operations ds = (\<lambda>d. (ed_method d, ed_path d, ed_secured d)) ` set ds"

definition served_operations :: "route list \<Rightarrow> (http_method \<times> string \<times> bool) set" where
  "served_operations rs =
     (\<lambda>r. (rt_method r, rt_pattern r, zone_secured (rt_zone r)))
       ` {r \<in> set rs. rt_zone r \<noteq> Zone_Docs}"

end
