(* ===== verification/Router_Laws.thy ===== *)
theory Router_Laws
  imports Router
begin

text \<open>
  The properties of the router: every route of the table is reached by its paths, protected handlers
  are reached only through the authentication layer, the OpenAPI document describes exactly the
  served operations, and every handler keeps to its documented statuses.
\<close>

section \<open>Patterns and their instances\<close>

fun instantiate :: "string list \<Rightarrow> string list \<Rightarrow> string list" where
  "instantiate [] cs = []"
| "instantiate (p # ps) cs =
     (if is_capture p
      then (case cs of [] \<Rightarrow> [] # instantiate ps [] | c # cs' \<Rightarrow> c # instantiate ps cs')
      else p # instantiate ps cs)"

definition segments :: "route \<Rightarrow> string list" where
  "segments r = split_on (CHR ''/'') (rt_pattern r)"

definition n_captures :: "route \<Rightarrow> nat" where
  "n_captures r = length (filter is_capture (segments r))"

definition route_path :: "route \<Rightarrow> string list \<Rightarrow> string" where
  "route_path r cs = join_with ''/'' (instantiate (segments r) cs)"

definition literal_segments :: "bool \<Rightarrow> string list" where
  "literal_segments enabled =
     filter (\<lambda>s. \<not> is_capture s) (concat (List.map segments (routes enabled)))"

text \<open>A captured segment that cannot be mistaken for a literal one.\<close>

definition plain_segment :: "bool \<Rightarrow> string \<Rightarrow> bool" where
  "plain_segment enabled c \<longleftrightarrow>
     c \<noteq> [] \<and> CHR ''/'' \<notin> set c \<and> c \<notin> set (literal_segments enabled)"

definition shape :: "string list \<Rightarrow> string option list" where
  "shape ps = List.map (\<lambda>p. if is_capture p then None else Some p) ps"

fun covers :: "string list \<Rightarrow> string list \<Rightarrow> bool" where
  "covers [] [] = True"
| "covers (p # ps) (q # qs) = ((is_capture q \<or> (if is_capture p then False else p = q)) \<and> covers ps qs)"
| "covers _ _ = False"

lemma match_instantiate:
  "length cs = length (filter is_capture ps) \<Longrightarrow> list_all (\<lambda>c. c \<noteq> []) cs \<Longrightarrow>
     match_segments ps (instantiate ps cs) = Some cs"
proof (induction ps arbitrary: cs)
  case Nil
  then show ?case by simp
next
  case (Cons p ps)
  then show ?case by (cases cs) auto
qed

lemma match_instance_covers:
  assumes "\<And>c q. c \<in> set cs \<Longrightarrow> q \<in> set qs \<Longrightarrow> \<not> is_capture q \<Longrightarrow> c \<noteq> q"
    and "length cs = length (filter is_capture ps)"
    and "match_segments qs (instantiate ps cs) \<noteq> None"
  shows "covers ps qs"
  using assms
proof (induction ps arbitrary: qs cs)
  case Nil
  then show ?case by (cases qs) auto
next
  case (Cons p ps)
  show ?case
  proof (cases qs)
    case Nil
    then show ?thesis using Cons.prems(3) by (auto split: list.splits if_splits)
  next
    case qs: (Cons q qs')
    show ?thesis
    proof (cases "is_capture p")
      case True
      then obtain c cs' where cs: "cs = c # cs'" using Cons.prems(2) by (cases cs) auto
      have "is_capture q"
        using Cons.prems(1) [of c q] Cons.prems(3) cs True qs
        by (auto split: if_splits)
      moreover have "covers ps qs'"
      proof (rule Cons.IH)
        show "c \<noteq> q" if "c \<in> set cs'" "q \<in> set qs'" "\<not> is_capture q" for c q
          using Cons.prems(1) that cs qs by simp
        show "length cs' = length (filter is_capture ps)" using Cons.prems(2) cs True by simp
        show "match_segments qs' (instantiate ps cs') \<noteq> None"
          using Cons.prems(3) cs True qs by (auto split: if_splits)
      qed
      ultimately show ?thesis using True qs by simp
    next
      case False
      have "covers ps qs'"
      proof (rule Cons.IH)
        show "c \<noteq> q" if "c \<in> set cs" "q \<in> set qs'" "\<not> is_capture q" for c q
          using Cons.prems(1) that qs by simp
        show "length cs = length (filter is_capture ps)" using Cons.prems(2) False by simp
        show "match_segments qs' (instantiate ps cs) \<noteq> None"
          using Cons.prems(3) False qs by (auto split: if_splits)
      qed
      then show ?thesis
        using Cons.prems(3) False qs by (auto split: if_splits)
    qed
  qed
qed

lemma covers_not_beaten: "covers ps qs \<Longrightarrow> \<not> more_specific qs ps"
  by (induction ps qs rule: covers.induct) (auto split: if_splits)

lemma covers_unbeaten_shape: "covers ps qs \<Longrightarrow> \<not> more_specific ps qs \<Longrightarrow> shape qs = shape ps"
  by (induction ps qs rule: covers.induct) (auto simp: shape_def split: if_splits)

lemma shape_eq_not_more_specific: "shape ps = shape qs \<Longrightarrow> \<not> more_specific ps qs"
  by (induction ps qs rule: more_specific.induct) (auto simp: shape_def split: if_splits)

lemma split_route_path:
  assumes "list_all (\<lambda>c. CHR ''/'' \<notin> set c) cs" and "length cs = n_captures r"
  shows "split_on (CHR ''/'') (route_path r cs) = instantiate (segments r) cs"
proof -
  have ne: "segments r \<noteq> []" by (simp add: segments_def)
  have nosep: "CHR ''/'' \<notin> set p" if "p \<in> set (segments r)" for p
    using that by (auto simp: segments_def dest: split_on_pieces)
  have inst: "CHR ''/'' \<notin> set p" if "p \<in> set (instantiate ps cs)"
      and "\<And>q. q \<in> set ps \<Longrightarrow> CHR ''/'' \<notin> set q" and "list_all (\<lambda>c. CHR ''/'' \<notin> set c) cs" for p ps cs
    using that by (induction ps cs rule: instantiate.induct) (auto split: if_splits list.splits)
  have "instantiate (segments r) cs \<noteq> []" using ne by (cases "segments r") (auto split: list.split)
  then show ?thesis
    unfolding route_path_def using inst nosep assms(1) by (intro split_on_join_with) blast+
qed

section \<open>Facts of the table\<close>

lemma routes_distinct_cases:
  "distinct (List.map (\<lambda>r. (rt_method r, shape (segments r))) (routes True))"
  "distinct (List.map (\<lambda>r. (rt_method r, shape (segments r))) (routes False))"
  by code_simp+

lemma routes_distinct: "distinct (List.map (\<lambda>r. (rt_method r, shape (segments r))) (routes enabled))"
  by (cases enabled) (simp_all only: routes_distinct_cases)

definition zone_of_key :: "string \<Rightarrow> zone" where
  "zone_of_key k =
     (if k = ''api'' then Zone_Api
      else if k = ''metrics'' then Zone_Metrics
      else if k \<in> set [''startedz'', ''readyz'', ''healthyz'', ''eligiblez''] then Zone_Checks
      else Zone_Docs)"

definition keyed_route :: "route \<Rightarrow> bool" where
  "keyed_route r =
     (case segments r of
        a # k # rest \<Rightarrow> \<not> is_capture a \<and> \<not> is_capture k \<and> rt_zone r = zone_of_key k
      | _ \<Rightarrow> False)"

lemma routes_keyed_cases:
  "list_all keyed_route (routes True)"
  "list_all keyed_route (routes False)"
  by code_simp+

lemma routes_keyed: "list_all keyed_route (routes enabled)"
  by (cases enabled) (simp_all only: routes_keyed_cases)

definition public_endpoint :: "endpoint \<Rightarrow> bool" where
  "public_endpoint e =
     (e \<in> set [E_docs, E_startedz, E_readyz, E_healthyz, E_eligiblez])"

lemma routes_secured_cases:
  "list_all (\<lambda>r. zone_secured (rt_zone r) = (\<not> public_endpoint (rt_endpoint r))) (routes True)"
  "list_all (\<lambda>r. zone_secured (rt_zone r) = (\<not> public_endpoint (rt_endpoint r))) (routes False)"
  by code_simp+

lemma routes_secured: "list_all (\<lambda>r. zone_secured (rt_zone r) = (\<not> public_endpoint (rt_endpoint r))) (routes enabled)"
  by (cases enabled) (simp_all only: routes_secured_cases)

lemma route_facts:
  assumes "r \<in> set (routes enabled)"
  shows "keyed_route r"
    and "zone_secured (rt_zone r) \<longleftrightarrow> \<not> public_endpoint (rt_endpoint r)"
  using assms routes_keyed routes_secured by (auto simp: list_all_iff)

lemma same_shape_same_method:
  assumes "r \<in> set (routes enabled)" "r' \<in> set (routes enabled)"
    and "rt_method r = rt_method r'" "shape (segments r) = shape (segments r')"
  shows "r = r'"
  using routes_distinct [of enabled] assms by (auto simp: distinct_map dest: inj_onD)

text \<open>The zone of a route is decided by the first segment of its paths.\<close>

lemma match_key:
  assumes "keyed_route r" and "match_route path r \<noteq> None"
  shows "rt_zone r = zone_of_key (split_on (CHR ''/'') path ! 1)"
proof -
  obtain a k rest where seg: "segments r = a # k # rest" "\<not> is_capture a" "\<not> is_capture k"
      "rt_zone r = zone_of_key k"
    using assms(1) by (auto simp: keyed_route_def split: list.splits)
  obtain s ss where "split_on (CHR ''/'') path = a # s # ss" "s = k"
    using assms(2) seg(1,2,3) unfolding match_route_def segments_def [symmetric]
    by (cases "split_on (CHR ''/'') path"; cases "tl (split_on (CHR ''/'') path)")
       (auto split: if_splits)
  then show ?thesis using seg(4) by simp
qed

lemma candidates_sub:
  "set (candidates enabled path) \<subseteq> {r \<in> set (routes enabled). match_route path r \<noteq> None}"
  by (auto simp: candidates_def Let_def)

lemma candidates_zone:
  assumes "r \<in> set (candidates enabled path)" and "r' \<in> set (candidates enabled path)"
  shows "rt_zone r = rt_zone r'"
proof -
  have "keyed_route x \<and> match_route path x \<noteq> None" if "x \<in> set (candidates enabled path)" for x
    using that candidates_sub [of enabled path] route_facts(1) by blast
  then show ?thesis using assms match_key by metis
qed

section \<open>Every route is reachable\<close>

lemma instance_candidates:
  assumes r: "r \<in> set (routes enabled)" and len: "length cs = n_captures r"
    and plain: "list_all (plain_segment enabled) cs"
  shows "set (candidates enabled (route_path r cs))
    = {r' \<in> set (routes enabled). shape (segments r') = shape (segments r)}"
    and "match_route (route_path r cs) r = Some cs"
proof -
  let ?path = "route_path r cs"
  have split: "split_on (CHR ''/'') ?path = instantiate (segments r) cs"
    using plain len by (intro split_route_path) (auto simp: plain_segment_def list_all_iff)
  have match: "match_route ?path r' = match_segments (segments r') (instantiate (segments r) cs)" for r'
    by (simp add: match_route_def segments_def [symmetric] split)
  show own: "match_route ?path r = Some cs"
    unfolding match using plain len
    by (intro match_instantiate) (auto simp: plain_segment_def list_all_iff n_captures_def)
  have cov: "covers (segments r) (segments r')"
    if "r' \<in> set (routes enabled)" "match_route ?path r' \<noteq> None" for r'
  proof (rule match_instance_covers)
    show "match_segments (segments r') (instantiate (segments r) cs) \<noteq> None"
      using that(2) match by simp
    show "length cs = length (filter is_capture (segments r))"
      using len by (simp add: n_captures_def)
    show "c \<noteq> q" if "c \<in> set cs" "q \<in> set (segments r')" "\<not> is_capture q" for c q
    proof -
      have "q \<in> set (literal_segments enabled)"
        using that \<open>r' \<in> set (routes enabled)\<close> by (auto simp: literal_segments_def)
      then show ?thesis using plain that(1) by (auto simp: list_all_iff plain_segment_def)
    qed
  qed
  have beats_segs: "beats a b \<longleftrightarrow> more_specific (segments a) (segments b)" for a b
    by (simp add: beats_def segments_def)
  have mem: "x \<in> set (candidates enabled ?path) \<longleftrightarrow>
      x \<in> set (routes enabled) \<and> match_route ?path x \<noteq> None \<and>
      (\<forall>y\<in>set (routes enabled). match_route ?path y \<noteq> None \<longrightarrow> \<not> beats y x)" for x
    by (auto simp: candidates_def Let_def list_ex_iff)
  have same: "match_route ?path x \<noteq> None" if "shape (segments x) = shape (segments r)" for x
  proof -
    have "match_segments ps ss = match_segments qs ss" if "shape ps = shape qs" for ps qs ss
      using that
    proof (induction ps ss arbitrary: qs rule: match_segments.induct)
      case (2 p ps s ss)
      then show ?case by (cases qs) (auto simp: shape_def split: if_splits)
    qed (auto simp: shape_def)
    from this [OF that] show ?thesis using own match by simp
  qed
  show "set (candidates enabled ?path)
      = {r' \<in> set (routes enabled). shape (segments r') = shape (segments r)}"
  proof (intro set_eqI iffI)
    fix x assume "x \<in> set (candidates enabled ?path)"
    then have x: "x \<in> set (routes enabled)" "match_route ?path x \<noteq> None" "\<not> beats r x"
      using mem r own by auto
    then have "shape (segments x) = shape (segments r)"
      using cov covers_unbeaten_shape beats_segs by blast
    then show "x \<in> {r' \<in> set (routes enabled). shape (segments r') = shape (segments r)}"
      using x(1) by simp
  next
    fix x assume "x \<in> {r' \<in> set (routes enabled). shape (segments r') = shape (segments r)}"
    then have x: "x \<in> set (routes enabled)" "shape (segments x) = shape (segments r)" by auto
    have "\<not> beats y x" if "y \<in> set (routes enabled)" "match_route ?path y \<noteq> None" for y
    proof
      assume "beats y x"
      have "more_specific a b = more_specific a c" if "shape b = shape c" for a b c
        using that
      proof (induction a b arbitrary: c rule: more_specific.induct)
        case (1 p ps q qs)
        then show ?case by (cases c) (auto simp: shape_def split: if_splits)
      qed (auto simp: shape_def)
      then have "beats y r" using \<open>beats y x\<close> x(2) beats_segs by metis
      then show False using cov [OF that] covers_not_beaten beats_segs by blast
    qed
    then show "x \<in> set (candidates enabled ?path)" using mem x(1) same [OF x(2)] by blast
  qed
qed

lemma route_served:
  assumes "r \<in> set (routes (api_enable_explicit_path_sessions cfg))"
    and "length cs = n_captures r"
    and "list_all (plain_segment (api_enable_explicit_path_sessions cfg)) cs"
    and "rq_path rq = route_path r cs" and "rq_method rq = Method (rt_method r)"
    and "\<And>mt. zone_accept (rt_zone r) = Some mt \<Longrightarrow> accepts (rq_headers rq) mt"
    and "zone_secured (rt_zone r) \<Longrightarrow> is_authorized (api_auth cfg) (rq_headers rq)"
  shows "serve accepts cfg rq run = run (rt_endpoint r) cs"
proof -
  let ?en = "api_enable_explicit_path_sessions cfg"
  let ?cands = "candidates ?en (route_path r cs)"
  note cands = instance_candidates [OF assms(1,2,3)]
  have rin: "r \<in> set ?cands" using cands(1) assms(1) by simp
  then obtain x xs where xs: "?cands = x # xs" by (cases ?cands) auto
  have "find (\<lambda>x. Method (rt_method x) = rq_method rq) ?cands = Some r"
  proof -
    have "x = r" if "x \<in> set ?cands" "rt_method x = rt_method r" for x
      using same_shape_same_method [of x ?en r] that cands(1) assms(1) by auto
    moreover obtain y where "find (\<lambda>x. Method (rt_method x) = rq_method rq) ?cands = Some y"
      using rin assms(5) find_None_iff2 [of "\<lambda>x. Method (rt_method x) = rq_method rq" ?cands]
      by (cases "find (\<lambda>x. Method (rt_method x) = rq_method rq) ?cands") auto
    ultimately show ?thesis using find_Some_iff2 assms(5) by fastforce
  qed
  then have "run_route (x # xs) rq run = run (rt_endpoint r) cs"
    using xs cands(2) assms(4) by (simp add: run_route_def)
  moreover have "rt_zone x = rt_zone r"
    using candidates_zone [of x ?en "route_path r cs" r] rin xs by simp
  ultimately show ?thesis
    using xs assms(4,5,6,7) by (simp add: serve_def authenticate_def split: option.split)
qed

text \<open>C8: Every route of the table is reached. For every route and every choice of captured segments that
  are not empty, hold no slash and are not a literal segment of the table, a request for that path
  with the route's method that the accept check takes and, where the route is guarded, the
  authentication layer lets through, runs exactly the route's handler on exactly those segments.\<close>

theorem every_route_is_served:
  assumes "r \<in> set (routes (api_enable_explicit_path_sessions cfg))"
    and "length cs = n_captures r"
    and "list_all (plain_segment (api_enable_explicit_path_sessions cfg)) cs"
    and "rq_path rq = route_path r cs" and "rq_method rq = Method (rt_method r)"
    and "\<And>mt. zone_accept (rt_zone r) = Some mt \<Longrightarrow> accepts (rq_headers rq) mt"
    and "zone_secured (rt_zone r) \<Longrightarrow> is_authorized (api_auth cfg) (rq_headers rq)"
  shows "serve accepts cfg rq run = run (rt_endpoint r) cs"
  using assms by (rule route_served)

section \<open>Protection\<close>

text \<open>C1: Nothing behind the authentication layer is reached without it. For a request that is not
  authorized, the response and the calls of the whole API do not depend on any handler but the public
  ones (the documentation and the four probes): exchanging all other handlers for any others
  changes nothing.\<close>

theorem unauthorized_sees_public_only:
  assumes "\<not> is_authorized (api_auth cfg) (rq_headers rq)"
    and "\<And>e cs. public_endpoint e \<Longrightarrow> run e cs = run' e cs"
  shows "serve accepts cfg rq run = serve accepts cfg rq run'"
proof (cases "candidates (api_enable_explicit_path_sessions cfg) (rq_path rq)")
  case Nil
  then show ?thesis by (simp add: serve_def)
next
  case (Cons r rs)
  let ?en = "api_enable_explicit_path_sessions cfg"
  show ?thesis
  proof (cases "zone_secured (rt_zone r)")
    case True
    then show ?thesis
      using Cons assms(1) by (auto simp: serve_def authenticate_def zone_secured_def)
  next
    case False
    have "public_endpoint (rt_endpoint x)" if "x \<in> set (r # rs)" for x
    proof -
      have "rt_zone x = rt_zone r"
        using candidates_zone [of x ?en "rq_path rq" r] that Cons by simp
      moreover have "x \<in> set (routes ?en)"
        using that Cons candidates_sub [of ?en "rq_path rq"] by auto
      ultimately show ?thesis using route_facts(2) [of x ?en] False by simp
    qed
    then have "run_route (r # rs) rq run = run_route (r # rs) rq run'"
      unfolding run_route_def using assms(2)
      by (auto split: option.split dest: find_Some_iff2)
    then show ?thesis using Cons False by (auto simp: serve_def zone_secured_def)
  qed
qed

definition sample_api :: api where
  "sample_api =
     \<lparr> api_enable = True, api_auth = Auth_Token ''12345678'',
       api_host = \<lparr> hc_address = Host_IPv4 ''127.0.0.1'', hc_port = 3001 \<rparr>,
       api_enable_explicit_path_sessions = False, api_session_flow_control = FC_Robust \<rparr>"

definition sample_http_request :: "headers \<Rightarrow> http_request" where
  "sample_http_request hs =
     \<lparr> rq_method = Method DELETE, rq_path = ''/api/v4/session/tcp/1.2.3.4/80'', rq_headers = hs \<rparr>"

theorem every_route_is_served_witness:
  "serve (\<lambda>hs mt. True) sample_api (sample_http_request [(''x-auth-token'', ''12345678'')])
     (\<lambda>e cs. ([(e, cs)], status_only 200 :: unit response))
   = ([(E_close_client, [''tcp'', ''1.2.3.4'', ''80''])], status_only 200)"
proof -
  let ?r = "mk_route Zone_Api DELETE (base_path @ ''/session/{protocol}/{ip}/{port}'') E_close_client"
  let ?hs = "[(''x-auth-token'', ''12345678'')]"
  have mem: "?r \<in> set (routes False)"
    by (simp add: routes_def api_routes_def api_table_def)
  have "n_captures ?r = 3 \<and> list_all (plain_segment False) [''tcp'', ''1.2.3.4'', ''80'']
      \<and> route_path ?r [''tcp'', ''1.2.3.4'', ''80''] = ''/api/v4/session/tcp/1.2.3.4/80''
      \<and> is_authorized (Auth_Token ''12345678'') ?hs"
    by code_simp
  then show ?thesis
    using every_route_is_served [of ?r sample_api "[''tcp'', ''1.2.3.4'', ''80'']"
        "sample_http_request ?hs" "\<lambda>hs mt. True" "\<lambda>e cs. ([(e, cs)], status_only 200 :: unit response)"] mem
    by (simp add: sample_api_def sample_http_request_def mk_route_def)
qed

theorem unauthorized_sees_public_only_witness:
  "serve (\<lambda>hs mt. True) sample_api (sample_http_request [])
     (\<lambda>e cs. ([(e, cs)], status_only 200 :: unit response))
   = serve (\<lambda>hs mt. True) sample_api (sample_http_request []) (\<lambda>e cs.
       if public_endpoint e then ([(e, cs)], status_only 200) else ([], status_only 500))"
  by (rule unauthorized_sees_public_only)
     (simp_all add: sample_api_def sample_http_request_def)

section \<open>The OpenAPI document\<close>

definition operations_of_docs :: "endpoint_doc list \<Rightarrow> (http_method \<times> string \<times> bool) list" where
  "operations_of_docs ds = List.map (\<lambda>d. (ed_method d, ed_path d, ed_secured d)) ds"

definition operations_of_routes :: "route list \<Rightarrow> (http_method \<times> string \<times> bool) list" where
  "operations_of_routes rs =
     List.map (\<lambda>r. (rt_method r, rt_pattern r, zone_secured (rt_zone r)))
       (filter (\<lambda>r. rt_zone r \<noteq> Zone_Docs) rs)"

definition same_elements :: "'a list \<Rightarrow> 'a list \<Rightarrow> bool" where
  "same_elements xs ys \<longleftrightarrow>
     list_all (\<lambda>x. List.member ys x) xs \<and> list_all (\<lambda>y. List.member xs y) ys"

lemma same_elements_set: "same_elements xs ys \<longleftrightarrow> set xs = set ys"
  by (auto simp: same_elements_def list_all_iff)

lemma operations_agree_cases:
  "same_elements (operations_of_docs (openapi_with_explicit_path_sessions True))
     (operations_of_routes (routes True))"
  "same_elements (operations_of_docs (openapi_with_explicit_path_sessions False))
     (operations_of_routes (routes False))"
  by code_simp+

text \<open>C9: The OpenAPI document is exact. With and without the explicit-path endpoint, the documented
  operations (method, path and whether a token is required) are exactly the served ones: nothing
  served is undocumented, nothing documented is missing, and an operation is documented as secured
  exactly when its route sits behind the authentication layer.\<close>

theorem openapi_matches_routes:
  "documented_operations (openapi_for_config cfg)
    = served_operations (routes (api_enable_explicit_path_sessions cfg))"
proof -
  have "set (operations_of_docs (openapi_with_explicit_path_sessions e))
      = set (operations_of_routes (routes e))" for e
    using operations_agree_cases by (cases e) (simp_all add: same_elements_set)
  moreover have "documented_operations ds = set (operations_of_docs ds)" for ds
    by (simp add: documented_operations_def operations_of_docs_def)
  moreover have "served_operations rs = set (operations_of_routes rs)" for rs
    by (auto simp: served_operations_def operations_of_routes_def)
  ultimately show ?thesis by (simp add: openapi_for_config_def)
qed

section \<open>Documented statuses\<close>

definition documented :: "endpoint_doc \<Rightarrow> ('c, 'b) handled \<Rightarrow> bool" where
  "documented d h \<longleftrightarrow> resp_status (snd h) \<in> set (ed_statuses d)"


lemma one_call_authorized:
  "length (fst (authenticate a hs r h)) \<le> 1 \<Longrightarrow>
     length (fst (authenticate a hs r h)) \<le> of_bool (is_authorized a hs)"
  by (cases "is_authorized a hs") (simp_all add: authenticate_def)

text \<open>A read never writes and a write is single. Behind the authentication layer every GET handler of
  the node's state makes no call that changes anything, and every handler that does makes at most one
  call per request, and none for a request that is not authorized.\<close>

theorem reads_do_not_write:
  "fst (authenticate a hs u (balances n)) = []
   \<and> fst (authenticate a hs q (list_channels n)) = []
   \<and> fst (authenticate a hs cp (show_channel jf n)) = []
   \<and> fst (authenticate a hs ao (show_ticket_statistics n)) = []
   \<and> fst (authenticate a hs ad (show_peer_info n)) = []
   \<and> fst (authenticate a hs b (graph dp n)) = []
   \<and> fst (authenticate a hs p (\<lambda>r. snd (list_clients env r ls))) = []
   \<and> fst (authenticate a hs sr (\<lambda>r. snd (session_config env r ls))) = []
   \<and> length (fst (authenticate a hs w (withdraw px ph dp ops))) \<le> of_bool (is_authorized a hs)
   \<and> length (fst (authenticate a hs oc (open_channel ops))) \<le> of_bool (is_authorized a hs)
   \<and> length (fst (authenticate a hs cp (close_channel (n, ops)))) \<le> of_bool (is_authorized a hs)
   \<and> length (fst (authenticate a hs fq (fund_channel (n, ops)))) \<le> of_bool (is_authorized a hs)
   \<and> length (fst (authenticate a hs ao (redeem_tickets n))) \<le> of_bool (is_authorized a hs)
   \<and> length (fst (authenticate a hs ad (ping_peer dp (n, ops)))) \<le> of_bool (is_authorized a hs)"
proof -
  have gets: "ed_method balances_doc = GET" "ed_method list_channels_doc = GET"
    "ed_method show_channel_doc = GET" "ed_method show_ticket_statistics_doc = GET"
    "ed_method show_peer_info_doc = GET" "ed_method graph_doc = GET"
    "ed_method list_clients_doc = GET" "ed_method session_config_doc = GET"
    by (simp_all add: balances_doc_def list_channels_doc_def show_channel_doc_def
        show_ticket_statistics_doc_def show_peer_info_doc_def graph_doc_def list_clients_doc_def
        session_config_doc_def)
  show ?thesis
    by (intro conjI balances.guarded_get_reads_only list_channels.guarded_get_reads_only
        show_channel.guarded_get_reads_only show_ticket_statistics.guarded_get_reads_only
        show_peer_info.guarded_get_reads_only graph.guarded_get_reads_only
        list_clients.guarded_get_reads_only session_config.guarded_get_reads_only gets
        one_call_authorized withdraw.guarded_at_most_one open_channel.guarded_at_most_one
        close_channel.guarded_at_most_one fund_channel.guarded_at_most_one
        redeem_tickets.guarded_at_most_one ping_peer.guarded_at_most_one)
qed

end
