(* ===== verification/Strategy.thy ===== *)
theory Strategy
  imports Prelude
begin

text \<open>
  The node's strategies (\<open>hoprd/src/strategy.rs\<close>): the configuration tree of strategies, its
  validation, and the construction of the running strategies from it, with the gauge of enabled
  strategies.

  The single strategies and their configurations come from \<open>hopr_strategy\<close>: their configurations are
  values of a type parameter \<open>'c\<close>, and the validation of one, and its builder, are fields of the
  \<open>strategy_lib\<close> record. Whether the binary was built with a PIX deposit pool (the \<open>pix\<close> feature) is a
  field too; the other features are the ones of the shipped binary. A duration is a number of
  nanoseconds, a built strategy is a leaf or a \<open>MultiStrategy\<close> group of built strategies.
\<close>

section \<open>Configuration\<close>

type_synonym duration = nat

definition dur_secs :: "nat \<Rightarrow> duration" where
  "dur_secs n = n * 1000000000"

definition dur_millis :: "nat \<Rightarrow> duration" where
  "dur_millis n = n * 1000000"

datatype 'c strategy_kind =
    Auto_Redeeming 'c
  | Auto_Funding 'c
  | Closure_Finalizer 'c
  | Channel_Lifecycle 'c
  | Pix_Strategy 'c
  | Multi_Strategy "'c multi_strategy_config"
  | Passive_Strategy
and 'c multi_strategy_config =
  Multi_Config (allow_recursive: bool) (execution_interval: duration)
    (strategies: "'c strategy_kind list")

text \<open>\<open>strum(serialize_all = "snake_case")\<close> and \<open>VariantNames\<close>.\<close>

fun strategy_name :: "'c strategy_kind \<Rightarrow> string" where
  "strategy_name (Auto_Redeeming c) = ''auto_redeeming''"
| "strategy_name (Auto_Funding c) = ''auto_funding''"
| "strategy_name (Closure_Finalizer c) = ''closure_finalizer''"
| "strategy_name (Channel_Lifecycle c) = ''channel_lifecycle''"
| "strategy_name (Pix_Strategy c) = ''pix''"
| "strategy_name (Multi_Strategy m) = ''multi''"
| "strategy_name Passive_Strategy = ''passive''"

definition strategy_variants :: "string list" where
  "strategy_variants =
     [''auto_redeeming'', ''auto_funding'', ''closure_finalizer'', ''channel_lifecycle'',
      ''pix'', ''multi'', ''passive'']"

lemma strategy_name_variant: "strategy_name s \<in> set strategy_variants"
  by (cases s) (simp_all add: strategy_variants_def)

definition default_multi_config :: "'c multi_strategy_config" where
  "default_multi_config = Multi_Config True (dur_secs 60) []"

text \<open>The two library configurations are the upstream defaults with \<open>redeem_on_winning\<close> set, and with
  probabilistic sizing at 0.99.\<close>

definition hopr_default_strategies :: "'c \<Rightarrow> 'c \<Rightarrow> 'c multi_strategy_config" where
  "hopr_default_strategies redeem_on_winning probabilistic_sizing =
     Multi_Config False (dur_secs 60)
       [Auto_Redeeming redeem_on_winning, Channel_Lifecycle probabilistic_sizing]"

section \<open>Validation\<close>

record ('c, 'h) strategy_lib =
  sl_pix_built :: bool
  sl_validate :: "string \<Rightarrow> 'c \<Rightarrow> string list"
  sl_build :: "string \<Rightarrow> 'c \<Rightarrow> duration option \<Rightarrow> (string, 'h) res"

definition pix_not_built_message :: string where
  "pix_not_built_message =
     ''the configuration contains a `Pix` strategy but this binary was built without a PIX deposit pool. Rebuild with `--features strategy-pix-curvy` (production) or `--features strategy-pix-test` (tests and demo).''"

definition validate_execution_interval :: "duration \<Rightarrow> string list" where
  "validate_execution_interval d =
     (if d < dur_secs 10 then [''strategy execution interval must be at least 10 seconds''] else [])"

text \<open>The errors of a strategy and of a group; a group reports the errors of all its members.\<close>

fun validate_strategy :: "('c, 'h) strategy_lib \<Rightarrow> 'c strategy_kind \<Rightarrow> string list"
and validate_multi :: "('c, 'h) strategy_lib \<Rightarrow> 'c multi_strategy_config \<Rightarrow> string list" where
  "validate_strategy lib (Auto_Redeeming c) = sl_validate lib ''auto_redeeming'' c"
| "validate_strategy lib (Auto_Funding c) = sl_validate lib ''auto_funding'' c"
| "validate_strategy lib (Closure_Finalizer c) = sl_validate lib ''closure_finalizer'' c"
| "validate_strategy lib (Channel_Lifecycle c) = sl_validate lib ''channel_lifecycle'' c"
| "validate_strategy lib (Pix_Strategy c) =
     (if sl_pix_built lib then sl_validate lib ''pix'' c else [pix_not_built_message])"
| "validate_strategy lib (Multi_Strategy m) = validate_multi lib m"
| "validate_strategy lib Passive_Strategy = []"
| "validate_multi lib (Multi_Config r i ss) =
     validate_execution_interval i @ concat (List.map (validate_strategy lib) ss)"

section \<open>Building\<close>

datatype 'h built = Built_Leaf 'h | Built_Group "'h built list"

fun built_leaves :: "'h built \<Rightarrow> 'h list" where
  "built_leaves (Built_Leaf h) = [h]"
| "built_leaves (Built_Group bs) = concat (List.map built_leaves bs)"

type_synonym gauges = "string \<rightharpoonup> nat"

text \<open>What one arm of the loop does for a strategy that is no group: the builder it calls, with the
  group's execution interval for the three strategies that take it.\<close>

fun build_leaf ::
  "('c, 'h) strategy_lib \<Rightarrow> duration \<Rightarrow> 'c strategy_kind \<Rightarrow> (string, 'h built list) res" where
  "build_leaf lib iv (Auto_Redeeming c) =
     res_bind (sl_build lib ''auto_redeeming'' c (Some iv)) (\<lambda>h. Ok [Built_Leaf h])"
| "build_leaf lib iv (Auto_Funding c) =
     res_bind (sl_build lib ''auto_funding'' c (Some iv)) (\<lambda>h. Ok [Built_Leaf h])"
| "build_leaf lib iv (Closure_Finalizer c) =
     res_bind (sl_build lib ''closure_finalizer'' c (Some iv)) (\<lambda>h. Ok [Built_Leaf h])"
| "build_leaf lib iv (Channel_Lifecycle c) =
     res_bind (sl_build lib ''channel_lifecycle'' c None) (\<lambda>h. Ok [Built_Leaf h])"
| "build_leaf lib iv (Pix_Strategy c) =
     (if sl_pix_built lib then res_bind (sl_build lib ''pix'' c None) (\<lambda>h. Ok [Built_Leaf h])
      else Err pix_not_built_message)"
| "build_leaf lib iv _ = Ok []"

text \<open>The loop of \<open>build_strategies_inner\<close>: the gauges are state, an error of a builder stops the loop, a
  group is built with its own recursion switched off, or skipped (and not counted by the gauge) when
  the enclosing group does not allow recursion.\<close>

function (sequential) build_strategies_inner ::
  "('c, 'h) strategy_lib \<Rightarrow> 'c multi_strategy_config \<Rightarrow> gauges \<Rightarrow> gauges \<times> (string, 'h built) res"
and build_each ::
  "('c, 'h) strategy_lib \<Rightarrow> bool \<Rightarrow> duration \<Rightarrow> 'c strategy_kind list \<Rightarrow> gauges \<Rightarrow>
     gauges \<times> (string, 'h built list) res" where
  "build_strategies_inner lib (Multi_Config r iv ss) g =
     (case build_each lib r iv ss g of (g', res) \<Rightarrow> (g', res_bind res (\<lambda>bs. Ok (Built_Group bs))))"
| "build_each lib r iv [] g = (g, Ok [])"
| "build_each lib r iv (Multi_Strategy (Multi_Config r' iv' ss') # ss) g =
     (if r then
        (case build_strategies_inner lib (Multi_Config False iv' ss') g of
           (g1, Inl e) \<Rightarrow> (g1, Err e)
         | (g1, Inr b) \<Rightarrow>
             (case build_each lib r iv ss (g1 (''multi'' \<mapsto> 1)) of
                (g2, res) \<Rightarrow> (g2, res_bind res (\<lambda>bs. Ok (b # bs)))))
      else build_each lib r iv ss g)"
| "build_each lib r iv (Passive_Strategy # ss) g = build_each lib r iv ss g"
| "build_each lib r iv (s # ss) g =
     (case build_leaf lib iv s of
        Inl e \<Rightarrow> (g, Err e)
      | Inr b \<Rightarrow>
          (case build_each lib r iv ss (g (strategy_name s \<mapsto> 1)) of
             (g2, res) \<Rightarrow> (g2, res_bind res (\<lambda>bs. Ok (b @ bs)))))"
  by pat_completeness auto

termination
  by (relation "measure (\<lambda>x. case x of
        Inl (lib, m, g) \<Rightarrow> size m
      | Inr (lib, r, iv, ss, g) \<Rightarrow> size_list size ss)") auto

text \<open>The gauges start from zero, once, at the top level.\<close>

definition seed_gauges :: "gauges \<Rightarrow> gauges" where
  "seed_gauges g = foldl (\<lambda>g v. g(v \<mapsto> 0)) g strategy_variants"

definition build_strategies ::
  "('c, 'h) strategy_lib \<Rightarrow> 'c multi_strategy_config \<Rightarrow> gauges \<Rightarrow> gauges \<times> (string, 'h built) res" where
  "build_strategies lib cfg g = build_strategies_inner lib cfg (seed_gauges g)"

section \<open>What is built\<close>

text \<open>
  The contract of the builder, without its state: the entries a configuration makes effective, each
  with the execution interval of the group it stands in. A group inside a group that forbids recursion
  contributes nothing, and recursion is forbidden in every nested group.
\<close>

definition leaf_entry :: "duration \<Rightarrow> 'c strategy_kind \<Rightarrow> (duration \<times> 'c strategy_kind) list" where
  "leaf_entry iv s = (case s of Passive_Strategy \<Rightarrow> [] | Multi_Strategy m \<Rightarrow> [] | _ \<Rightarrow> [(iv, s)])"

definition flat_entries :: "'c multi_strategy_config \<Rightarrow> (duration \<times> 'c strategy_kind) list" where
  "flat_entries m = concat (List.map (leaf_entry (execution_interval m)) (strategies m))"

definition member_entries ::
  "bool \<Rightarrow> duration \<Rightarrow> 'c strategy_kind \<Rightarrow> (duration \<times> 'c strategy_kind) list" where
  "member_entries r iv s =
     (case s of
        Multi_Strategy m \<Rightarrow> if r then flat_entries m @ [(iv, s)] else []
      | Passive_Strategy \<Rightarrow> []
      | _ \<Rightarrow> [(iv, s)])"

definition effective_entries ::
  "'c multi_strategy_config \<Rightarrow> (duration \<times> 'c strategy_kind) list" where
  "effective_entries m =
     concat (List.map (member_entries (allow_recursive m) (execution_interval m)) (strategies m))"

definition entry_results ::
  "('c, 'h) strategy_lib \<Rightarrow> (duration \<times> 'c strategy_kind) list \<Rightarrow> (string, 'h list) res" where
  "entry_results lib es =
     res_bind (traverse_res (\<lambda>(iv, s). build_leaf lib iv s) es)
       (\<lambda>bss. Ok (concat (List.map built_leaves (concat bss))))"

definition count_entries :: "(duration \<times> 'c strategy_kind) list \<Rightarrow> gauges \<Rightarrow> gauges" where
  "count_entries es g = foldl (\<lambda>g e. g(strategy_name (snd e) \<mapsto> 1)) g es"


lemma traverse_res_append:
  "traverse_res f (xs @ ys) =
     res_bind (traverse_res f xs) (\<lambda>as. res_bind (traverse_res f ys) (\<lambda>bs. Ok (as @ bs)))"
proof (induction xs)
  case Nil
  then show ?case by (cases "traverse_res f ys") simp_all
next
  case (Cons x xs)
  then show ?case
    by (cases "f x"; cases "traverse_res f xs"; cases "traverse_res f ys") simp_all
qed

definition leaves_res :: "(string, 'h built list) res \<Rightarrow> (string, 'h list) res" where
  "leaves_res r = res_bind r (\<lambda>bs. Ok (concat (List.map built_leaves bs)))"

lemma leaves_res_simps [simp]:
  "leaves_res (Inl e) = Inl e"
  "leaves_res (Inr bs) = Inr (concat (List.map built_leaves bs))"
  by (simp_all add: leaves_res_def)

lemma entry_results_Nil [simp]: "entry_results lib [] = Inr []"
  by (simp add: entry_results_def)

lemma entry_results_append:
  "entry_results lib (es @ fs) =
     res_bind (entry_results lib es) (\<lambda>as. res_bind (entry_results lib fs) (\<lambda>bs. Ok (as @ bs)))"
  unfolding entry_results_def traverse_res_append
  by (cases "traverse_res (\<lambda>(iv, s). build_leaf lib iv s) es";
      cases "traverse_res (\<lambda>(iv, s). build_leaf lib iv s) fs") simp_all

lemma entry_results_single: "entry_results lib [(iv, s)] = leaves_res (build_leaf lib iv s)"
  by (cases "build_leaf lib iv s") (simp_all add: entry_results_def)

lemma entry_results_multi:
  "entry_results lib ((iv, Multi_Strategy m) # es) = entry_results lib es"
  using entry_results_append [of lib "[(iv, Multi_Strategy m)]" es]
  by (cases "entry_results lib es") (simp_all add: entry_results_single)

lemma count_entries_Nil [simp]: "count_entries [] g = g"
  by (simp add: count_entries_def)

lemma count_entries_Cons:
  "count_entries ((iv, s) # es) g = count_entries es (g(strategy_name s \<mapsto> 1))"
  by (simp add: count_entries_def)

lemma count_entries_append: "count_entries (es @ fs) g = count_entries fs (count_entries es g)"
  by (simp add: count_entries_def)

lemma count_entries_apply:
  "count_entries es g v = (if v \<in> strategy_name ` snd ` set es then Some 1 else g v)"
  by (induction es rule: rev_induct) (auto simp: count_entries_append count_entries_def)

lemma seed_gauges_apply: "seed_gauges g v = (if v \<in> set strategy_variants then Some 0 else g v)"
  by (simp add: seed_gauges_def strategy_variants_def)

text \<open>The loop agrees with the contract on a list of entries: the first error, or the leaves in order
  and the gauges of all entries.\<close>

definition agrees ::
  "('c, 'h) strategy_lib \<Rightarrow> (duration \<times> 'c strategy_kind) list \<Rightarrow> gauges \<Rightarrow>
     gauges \<times> (string, 'h built list) res \<Rightarrow> bool" where
  "agrees lib es g out \<longleftrightarrow> leaves_res (snd out) = entry_results lib es
     \<and> (is_ok (snd out) \<longrightarrow> fst out = count_entries es g)"

lemma agrees_Nil: "agrees lib [] g (g, Ok [])"
  by (simp add: agrees_def)

lemma agrees_leaf:
  assumes "agrees lib es (g(strategy_name s \<mapsto> 1)) out"
  shows "agrees lib ((iv, s) # es) g
     (case build_leaf lib iv s of
        Inl e \<Rightarrow> (g, Err e)
      | Inr b \<Rightarrow> (case out of (g2, res) \<Rightarrow> (g2, res_bind res (\<lambda>bs. Ok (b @ bs)))))"
proof -
  have e: "entry_results lib ((iv, s) # es) =
      res_bind (leaves_res (build_leaf lib iv s)) (\<lambda>as. res_bind (entry_results lib es) (\<lambda>bs. Ok (as @ bs)))"
    using entry_results_append [of lib "[(iv, s)]" es] by (simp add: entry_results_single)
  show ?thesis
  proof (cases "build_leaf lib iv s")
    case (Inl err)
    then show ?thesis by (simp add: agrees_def e)
  next
    case (Inr b)
    obtain g2 res where o: "out = (g2, res)" by (cases out)
    show ?thesis
      using assms by (cases res) (auto simp: agrees_def e count_entries_Cons Inr o dest!: sym [of "Inr _"] sym [of "Inl _"])
  qed
qed

lemma build_each_leaf_eq:
  assumes "leaf_entry iv s = [(iv, s)]"
  shows "build_each lib r iv (s # ss) g =
     (case build_leaf lib iv s of
        Inl e \<Rightarrow> (g, Err e)
      | Inr b \<Rightarrow>
          (case build_each lib r iv ss (g (strategy_name s \<mapsto> 1)) of
             (g2, res) \<Rightarrow> (g2, res_bind res (\<lambda>bs. Ok (b @ bs)))))"
  using assms by (cases s) (simp_all only: leaf_entry_def build_each.simps strategy_kind.simps list.simps)

lemma leaf_entry_cases:
  obtains "leaf_entry iv s = [(iv, s)]" "member_entries r iv s = [(iv, s)]"
  | m where "s = Multi_Strategy m"
  | "s = Passive_Strategy"
  by (cases s) (auto simp: leaf_entry_def member_entries_def)

lemma build_each_flat:
  "agrees lib (concat (List.map (leaf_entry iv) ss)) g (build_each lib False iv ss g)"
proof (induction ss arbitrary: g)
  case Nil
  then show ?case by (simp add: agrees_Nil)
next
  case (Cons s ss)
  show ?case
  proof (cases rule: leaf_entry_cases [of iv s False])
    case 1
    show ?thesis
      using agrees_leaf [OF Cons.IH, where g = g and s = s and iv = iv] by (simp add: 1(1) build_each_leaf_eq)
  next
    case (2 m)
    obtain r' iv' ss' where "m = Multi_Config r' iv' ss'" by (cases m)
    then show ?thesis using 2 Cons.IH by (simp add: leaf_entry_def)
  next
    case 3
    then show ?thesis using Cons.IH by (simp add: leaf_entry_def)
  qed
qed

lemma build_group_agrees:
  assumes "agrees lib es g out"
  shows "leaves_res (res_bind (snd out) (\<lambda>bs. Ok [Built_Group bs])) = entry_results lib es"
  using assms by (cases "snd out") (simp_all add: agrees_def)

lemma build_each_agrees:
  "agrees lib (concat (List.map (member_entries r iv) ss)) g (build_each lib r iv ss g)"
proof (induction ss arbitrary: g)
  case Nil
  then show ?case by (simp add: agrees_Nil)
next
  case (Cons s ss)
  show ?case
  proof (cases rule: leaf_entry_cases [of iv s r])
    case 1
    show ?thesis
      using agrees_leaf [OF Cons.IH, where g = g and s = s and iv = iv] by (simp add: 1 build_each_leaf_eq)
  next
    case (2 m)
    obtain r' iv' ss' where m: "m = Multi_Config r' iv' ss'" by (cases m)
    show ?thesis
    proof (cases r)
      case False
      then show ?thesis using 2 m Cons.IH by (simp add: member_entries_def)
    next
      case True
      define fs where "fs = concat (List.map (leaf_entry iv') ss')"
      obtain g1 res1 where sub: "build_each lib False iv' ss' g = (g1, res1)"
        by (cases "build_each lib False iv' ss' g")
      have flat: "agrees lib fs g (g1, res1)"
        using build_each_flat [of lib iv' ss' g] by (simp add: fs_def sub)
      have ent: "concat (List.map (member_entries r iv) (s # ss)) =
          fs @ (iv, s) # concat (List.map (member_entries r iv) ss)"
        using True by (simp add: 2 m member_entries_def flat_entries_def fs_def)
      let ?es = "concat (List.map (member_entries r iv) ss)"
      show ?thesis
      proof (cases res1)
        case (Inl e)
        then show ?thesis
          unfolding ent using flat True sub
          by (auto simp: agrees_def entry_results_append 2 m dest!: sym [of "Inl _"])
      next
        case (Inr bs)
        obtain g2 res2 where rest: "build_each lib r iv ss (g1(''multi'' \<mapsto> 1)) = (g2, res2)"
          by (cases "build_each lib r iv ss (g1(''multi'' \<mapsto> 1))")
        have "agrees lib ?es (g1(''multi'' \<mapsto> 1)) (g2, res2)"
          using Cons.IH [of "g1(''multi'' \<mapsto> 1)"] by (simp only: rest)
        then show ?thesis
          unfolding ent using flat True sub Inr rest
          by (cases res2)
             (auto simp: agrees_def entry_results_append entry_results_multi 2 m
                count_entries_append count_entries_Cons dest!: sym [of "Inr _"] sym [of "Inl _"])
      qed
    qed
  next
    case 3
    then show ?thesis using Cons.IH by (simp add: member_entries_def)
  qed
qed

text \<open>C28: Building the strategies fails with the first error of the effective entries, in order, or
  runs exactly the leaves of the effective entries, in order; then the gauge of a variant is 1 exactly
  when an effective entry has it, and 0 for every other variant.\<close>

theorem build_strategies_exact:
  "(case build_strategies lib cfg g of
      (g', r) \<Rightarrow>
        res_bind r (\<lambda>b. Ok (built_leaves b)) = entry_results lib (effective_entries cfg)
        \<and> (case r of
             Inl e \<Rightarrow> True
           | Inr b \<Rightarrow> g' = (\<lambda>v.
               if v \<in> strategy_name ` snd ` set (effective_entries cfg) then Some 1
               else if v \<in> set strategy_variants then Some 0
               else g v)))"
proof -
  obtain r iv ss where cfg: "cfg = Multi_Config r iv ss" by (cases cfg)
  obtain g' res where out: "build_each lib r iv ss (seed_gauges g) = (g', res)"
    by (cases "build_each lib r iv ss (seed_gauges g)")
  have "agrees lib (effective_entries cfg) (seed_gauges g) (g', res)"
    using build_each_agrees [of lib r iv ss "seed_gauges g"]
    by (simp add: effective_entries_def cfg out)
  then show ?thesis
    by (cases res)
       (auto simp: agrees_def build_strategies_def cfg out count_entries_apply seed_gauges_apply
          )
qed

text \<open>A node that passed validation never meets the missing-pool error while building.\<close>

lemma validated_pix_built:
  assumes "validate_multi lib cfg = []" and "(iv, Pix_Strategy c) \<in> set (effective_entries cfg)"
  shows "sl_pix_built lib"
proof (rule ccontr)
  assume no: "\<not> sl_pix_built lib"
  obtain r i ss where cfg: "cfg = Multi_Config r i ss" by (cases cfg)
  have ok: "validate_strategy lib s = []" if "s \<in> set ss" for s
    using assms(1) that by (simp add: cfg)
  obtain s where s: "s \<in> set ss" "(iv, Pix_Strategy c) \<in> set (member_entries r i s)"
    using assms(2) by (auto simp: effective_entries_def cfg)
  show False
  proof (cases s)
    case (Multi_Strategy m)
    obtain r' i' ss' where m: "m = Multi_Config r' i' ss'" by (cases m)
    obtain t where t: "t \<in> set ss'" "(iv, Pix_Strategy c) \<in> set (leaf_entry i' t)"
      using s(2) by (auto simp: Multi_Strategy m member_entries_def flat_entries_def split: if_splits)
    have "t = Pix_Strategy c"
      using t(2) by (cases t) (auto simp: leaf_entry_def)
    then show False
      using ok [OF s(1)] t(1) no by (auto simp: Multi_Strategy m)
  qed (use s ok [OF s(1)] no in \<open>auto simp: member_entries_def\<close>)
qed

text \<open>The configuration a group is validated with is not always the one that runs: a group three
  levels deep is dropped with its strategies.\<close>

lemma three_deep_dropped:
  "effective_entries (Multi_Config True i [Multi_Strategy (Multi_Config True j
      [Multi_Strategy (Multi_Config True k [Auto_Redeeming c])])]) =
   [(i, Multi_Strategy (Multi_Config True j [Multi_Strategy (Multi_Config True k [Auto_Redeeming c])]))]"
  by (simp add: effective_entries_def member_entries_def flat_entries_def leaf_entry_def)

lemma default_strategies_effective:
  "effective_entries (hopr_default_strategies a b) =
     [(dur_secs 60, Auto_Redeeming a), (dur_secs 60, Channel_Lifecycle b)]"
  by (simp add: effective_entries_def member_entries_def hopr_default_strategies_def)

end
