(* ===== verification/Hoprd_Config.thy ===== *)
theory Hoprd_Config
  imports Strategy Session_Api Node_Info
begin

text \<open>
  The configuration of the daemon (\<open>hoprd/src/config.rs\<close>): the user-facing records and their defaults,
  the conversion of the user-facing part into the library's configuration, the mixer section with its
  two accepted shapes and its environment fallback, validation, and redaction.

  The library's own configuration (\<open>HoprLibConfig\<close> and what it holds) comes from \<open>hopr_lib\<close>. The model
  has the fields the conversion writes; a value that is only copied from an upstream default has the
  type parameter \<open>'u\<close>, and the upstream defaults are the record \<open>upstream\<close>. Parsing a winning
  probability, validating the library's own records and URLs are parameters. Configurations of single
  strategies have type \<open>'c\<close>, as in \<open>Strategy\<close>. Integers of a width are naturals: they are copied and
  compared here, never computed with.
\<close>

section \<open>The library's records\<close>

record 'u pix_fill_config =
  pf_enabled :: bool
  pf_max_rate :: nat
  pf_drain_after_close :: bool
  pf_finish_fraction :: f64
  pf_heartbeat :: 'u
  pf_loss_margin :: 'u
  pf_min_surb_reserve :: 'u

record 'u supervisor_config =
  sv_max_ssa_delivery_time :: duration
  sv_max_deposit_wait :: duration
  sv_max_recovery_time :: duration
  sv_ssas_per_request :: nat
  sv_allow_dynamic_ssa_batches :: bool
  sv_max_served_without_progress :: nat
  sv_max_failed_cycles :: 'u
  sv_max_recovery_idle :: 'u
  sv_max_off_front_share_fraction :: 'u
  sv_min_share_order_sample :: 'u
  sv_max_predeposit_packets :: 'u
  sv_tombstone_retention_window :: 'u
  sv_commitment_recommit_interval :: 'u
  sv_ssa_request_resend_interval :: 'u
  sv_fill :: "'u pix_fill_config"

record 'u incoming_pix_config =
  ix_enforce_pix :: bool
  ix_quota_range :: "nat \<times> nat"
  ix_max_live_cycle_bytes :: nat
  ix_supervision :: "'u supervisor_config"

record 'u pix_global_config =
  pg_num_ssa_parts :: nat
  pg_ssa_part_size :: nat
  pg_additional_shares :: "nat option"
  pg_max_ssas_per_request :: nat
  pg_reconstructor :: 'u

record uniform_config =
  un_min_delay :: duration
  un_delay_range :: duration

datatype 'u mixer_type = Mixer_Uniform uniform_config | Mixer_Engine 'u

record 'u mixer_config =
  mx_capacity :: nat
  mx_type :: "'u mixer_type"

record safe_module =
  sm_safe_address :: address
  sm_module_address :: address

record 'u packet_config =
  pk_outgoing_win_prob :: "'u option"
  pk_outgoing_ticket_price :: "balance option"
  pk_min_incoming_ticket_price :: "balance option"
  pk_replay_filter :: 'u
  pk_surb_resolution_wait :: "duration option"
  pk_output_concurrency :: "nat option"
  pk_input_concurrency :: "nat option"
  pk_pipeline_rest :: 'u
  pk_rest :: 'u

record 'u session_global_config =
  sg_idle_timeout :: duration
  sg_establish_max_retries :: nat
  sg_tag_session :: nat
  sg_tag_rest :: 'u
  sg_rest :: 'u

record 'u lib_config =
  lc_host :: host_config
  lc_publish :: bool
  lc_safe_module :: safe_module
  lc_announce_local :: bool
  lc_prefer_local :: bool
  lc_packet :: "'u packet_config"
  lc_transit_latency :: "'u option"
  lc_probe_interval :: duration
  lc_probe_recheck :: duration
  lc_probe_rest :: 'u
  lc_session :: "'u session_global_config"
  lc_pix :: "'u pix_global_config"
  lc_incoming_pix :: "'u incoming_pix_config"
  lc_path_planner :: 'u
  lc_counter_flush :: 'u
  lc_surb_flush :: 'u
  lc_latency_race_memory :: 'u
  lc_relayer_health_weight :: 'u
  lc_mixer :: "'u mixer_config"
  lc_stream :: 'u
  lc_incoming_session_capacity :: nat
  lc_disable_checks :: bool
  lc_rest :: 'u

text \<open>The upstream defaults: \<open>T::default()\<close> of the types the code asks for. \<open>up_default\<close> gives the
  defaults that are copied whole, by the name of their type or field.\<close>

record 'u upstream =
  up_lib :: "'u lib_config"
  up_supervisor :: "'u supervisor_config"
  up_incoming_pix :: "'u incoming_pix_config"
  up_pix :: "'u pix_global_config"
  up_uniform :: uniform_config
  up_mixer :: "'u mixer_config"
  up_default :: "string \<Rightarrow> 'u"
  up_win_prob :: "f64 \<Rightarrow> 'u option"
  up_win_prob_f64 :: "'u \<Rightarrow> f64"
  up_host :: host_config
  up_safe_module :: safe_module

section \<open>The user-facing records\<close>

record user_pix_global =
  ug_num_ssa_parts :: nat
  ug_ssa_part_size :: nat
  ug_additional_shares :: "nat option"
  ug_max_ssas_per_request :: nat

record user_incoming_pix =
  ui_enforce_pix :: bool
  ui_quota_range_min :: nat
  ui_quota_range_max :: nat
  ui_max_ssa_delivery_time :: duration
  ui_max_deposit_wait :: duration
  ui_max_live_cycle_bytes :: nat
  ui_max_recovery_time :: duration
  ui_max_served_without_progress :: nat
  ui_ssas_per_request :: nat
  ui_allow_dynamic_ssa_batches :: bool
  ui_drain_after_close :: bool
  ui_fill_enabled :: bool
  ui_fill_max_rate :: nat
  ui_fill_finish_fraction :: f64

record 'u user_network =
  un_session_idle_timeout :: duration
  un_maximum_sessions :: nat
  un_session_establish_max_retries :: nat
  un_probe_recheck_threshold :: duration
  un_probe_interval :: duration
  un_announce_local_addresses :: bool
  un_prefer_local_addresses :: bool
  un_outgoing_ticket_winning_prob :: "f64 option"
  un_outgoing_ticket_price :: "balance option"
  un_min_incoming_ticket_price :: "balance option"
  un_mixer :: "'u mixer_config"
  un_pix :: user_pix_global
  un_incoming_session_pix :: user_incoming_pix

record 'u user_config =
  uc_announce :: bool
  uc_host :: host_config
  uc_safe_module :: safe_module
  uc_network :: "'u user_network"
  uc_ticket_storage_file :: "string option"

record identity =
  id_file :: string
  id_password :: string
  id_private_key :: "string option"

record db_config =
  db_data :: string
  db_initialize :: bool
  db_force_initialize :: bool

record 'u forwarding_config =
  fw_default_entry_listen_host :: socket_addr
  fw_rest :: 'u

record ('u, 'c) hoprd_config =
  hd_hopr :: "'u user_config"
  hd_identity :: identity
  hd_db :: db_config
  hd_api :: api
  hd_forwarding :: "'u forwarding_config"
  hd_blokli_url :: string
  hd_blokli_dns_override :: "(ip_addr \<times> 16 word option) option"
  hd_strategy :: "'c multi_strategy_config"

section \<open>Defaults\<close>

definition default_session_idle_timeout :: "'u upstream \<Rightarrow> duration" where
  "default_session_idle_timeout up = sg_idle_timeout (lc_session (up_lib up))"

definition default_max_sessions :: "'u upstream \<Rightarrow> nat" where
  "default_max_sessions up = sg_tag_session (lc_session (up_lib up))"

definition default_session_establish_max_retries :: "'u upstream \<Rightarrow> nat" where
  "default_session_establish_max_retries up = sg_establish_max_retries (lc_session (up_lib up))"

definition default_probe_recheck_threshold :: duration where
  "default_probe_recheck_threshold = dur_secs 120"

definition default_probe_interval :: duration where
  "default_probe_interval = dur_secs 60"

definition default_outgoing_ticket_winning_prob :: "'u upstream \<Rightarrow> f64 option" where
  "default_outgoing_ticket_winning_prob up =
     map_option (up_win_prob_f64 up) (pk_outgoing_win_prob (lc_packet (up_lib up)))"

type_synonym env_vars = "string \<Rightarrow> string option"

text \<open>\<open>env::var(k).ok().and_then(|v| v.trim().parse().ok())\<close> for an unsigned integer of 64 bits.\<close>

definition env_u64 :: "env_vars \<Rightarrow> string \<Rightarrow> nat option" where
  "env_u64 env k = Option.bind (env k) (\<lambda>v. parse_unsigned 64 (str_trim v))"

definition build_mixer_cfg_from_env :: "'u upstream \<Rightarrow> env_vars \<Rightarrow> 'u mixer_config" where
  "build_mixer_cfg_from_env up env =
     (let defaults = up_uniform up;
          min_delay = (case env_u64 env ''HOPR_INTERNAL_MIXER_MINIMUM_DELAY_IN_MS'' of
             Some ms \<Rightarrow> dur_millis ms | None \<Rightarrow> un_min_delay defaults);
          delay_range = (case env_u64 env ''HOPR_INTERNAL_MIXER_DELAY_RANGE_IN_MS'' of
             Some ms \<Rightarrow> dur_millis ms | None \<Rightarrow> un_delay_range defaults);
          capacity = (case env_u64 env ''HOPR_INTERNAL_MIXER_CAPACITY'' of
             Some c \<Rightarrow> if 0 < c then c else mx_capacity (up_mixer up)
           | None \<Rightarrow> mx_capacity (up_mixer up))
      in \<lparr> mx_capacity = capacity,
           mx_type = Mixer_Uniform \<lparr> un_min_delay = min_delay, un_delay_range = delay_range \<rparr> \<rparr>)"

text \<open>The two shapes a mixer section may have in a file. Both refuse unknown fields, and the untagged
  enum tries the current one first: it needs \<open>capacity\<close> and allows nothing but \<open>mixer_type\<close>.\<close>

record 'u mixer_section =
  ms_capacity :: "nat option"
  ms_mixer_type :: "'u mixer_type option"
  ms_min_delay :: "duration option"
  ms_delay_range :: "duration option"

definition legacy_mixer :: "'u upstream \<Rightarrow> 'u mixer_section \<Rightarrow> 'u mixer_config" where
  "legacy_mixer up ms =
     \<lparr> mx_capacity = (case ms_capacity ms of Some c \<Rightarrow> c | None \<Rightarrow> mx_capacity (up_mixer up)),
       mx_type = Mixer_Uniform
         \<lparr> un_min_delay = (case ms_min_delay ms of Some d \<Rightarrow> d | None \<Rightarrow> un_min_delay (up_uniform up)),
           un_delay_range = (case ms_delay_range ms of Some d \<Rightarrow> d | None \<Rightarrow> un_delay_range (up_uniform up)) \<rparr> \<rparr>"

definition deserialize_mixer_config ::
  "'u upstream \<Rightarrow> 'u mixer_section \<Rightarrow> (string, 'u mixer_config) res" where
  "deserialize_mixer_config up ms =
     (case (ms_capacity ms, ms_min_delay ms, ms_delay_range ms) of
        (Some c, None, None) \<Rightarrow>
          Ok \<lparr> mx_capacity = c,
               mx_type = (case ms_mixer_type ms of Some t \<Rightarrow> t | None \<Rightarrow> Mixer_Uniform (up_uniform up)) \<rparr>
      | _ \<Rightarrow>
          (case ms_mixer_type ms of
             Some t \<Rightarrow> Err ''data did not match any variant of untagged enum MixerConfigCompat''
           | None \<Rightarrow> Ok (legacy_mixer up ms)))"

definition default_user_pix_global :: "'u upstream \<Rightarrow> user_pix_global" where
  "default_user_pix_global up =
     \<lparr> ug_num_ssa_parts = 4096, ug_ssa_part_size = 128, ug_additional_shares = None,
       ug_max_ssas_per_request = pg_max_ssas_per_request (up_pix up) \<rparr>"

text \<open>What an empty \<open>pix\<close> stanza of a file gives.\<close>

definition empty_stanza_pix_global :: "'u upstream \<Rightarrow> user_pix_global" where
  "empty_stanza_pix_global up =
     \<lparr> ug_num_ssa_parts = pg_num_ssa_parts (up_pix up),
       ug_ssa_part_size = pg_ssa_part_size (up_pix up),
       ug_additional_shares = pg_additional_shares (up_pix up),
       ug_max_ssas_per_request = pg_max_ssas_per_request (up_pix up) \<rparr>"

definition default_user_incoming_pix :: "'u upstream \<Rightarrow> user_incoming_pix" where
  "default_user_incoming_pix up =
     (let ix = up_incoming_pix up; sv = up_supervisor up; fl = sv_fill sv in
      \<lparr> ui_enforce_pix = False,
        ui_quota_range_min = fst (ix_quota_range ix),
        ui_quota_range_max = snd (ix_quota_range ix),
        ui_max_ssa_delivery_time = sv_max_ssa_delivery_time sv,
        ui_max_deposit_wait = sv_max_deposit_wait sv,
        ui_max_live_cycle_bytes = ix_max_live_cycle_bytes ix,
        ui_max_recovery_time = sv_max_recovery_time sv,
        ui_max_served_without_progress = sv_max_served_without_progress sv,
        ui_ssas_per_request = sv_ssas_per_request sv,
        ui_allow_dynamic_ssa_batches = sv_allow_dynamic_ssa_batches sv,
        ui_drain_after_close = pf_drain_after_close fl,
        ui_fill_enabled = pf_enabled fl,
        ui_fill_max_rate = pf_max_rate fl,
        ui_fill_finish_fraction = pf_finish_fraction fl \<rparr>)"

definition default_user_network :: "'u upstream \<Rightarrow> env_vars \<Rightarrow> 'u user_network" where
  "default_user_network up env =
     \<lparr> un_session_idle_timeout = default_session_idle_timeout up,
       un_maximum_sessions = default_max_sessions up,
       un_session_establish_max_retries = default_session_establish_max_retries up,
       un_probe_recheck_threshold = default_probe_recheck_threshold,
       un_probe_interval = default_probe_interval,
       un_announce_local_addresses = False,
       un_prefer_local_addresses = False,
       un_outgoing_ticket_winning_prob = default_outgoing_ticket_winning_prob up,
       un_outgoing_ticket_price = None,
       un_min_incoming_ticket_price = None,
       un_mixer = build_mixer_cfg_from_env up env,
       un_pix = default_user_pix_global up,
       un_incoming_session_pix = default_user_incoming_pix up \<rparr>"

definition default_user_config :: "'u upstream \<Rightarrow> env_vars \<Rightarrow> 'u user_config" where
  "default_user_config up env =
     \<lparr> uc_announce = True, uc_host = up_host up,
       uc_safe_module = up_safe_module up,
       uc_network = default_user_network up env,
       uc_ticket_storage_file = None \<rparr>"

definition default_blokli_url :: string where
  "default_blokli_url = ''http://localhost:8080''"

definition default_identity :: identity where
  "default_identity = \<lparr> id_file = [], id_password = [], id_private_key = None \<rparr>"

definition default_db :: db_config where
  "default_db = \<lparr> db_data = [], db_initialize = True, db_force_initialize = False \<rparr>"

text \<open>\<open>HoprdConfig::default()\<close>. The API's host and the forwarding defaults are library values.\<close>

definition default_hoprd_config ::
  "'u upstream \<Rightarrow> env_vars \<Rightarrow> host_config \<Rightarrow> 'u forwarding_config \<Rightarrow> 'c \<Rightarrow> 'c
   \<Rightarrow> ('u, 'c) hoprd_config" where
  "default_hoprd_config up env api_default fw redeem lifecycle =
     \<lparr> hd_hopr = default_user_config up env,
       hd_identity = default_identity,
       hd_db = default_db,
       hd_api = default_api api_default,
       hd_forwarding = fw,
       hd_blokli_url = default_blokli_url,
       hd_blokli_dns_override = None,
       hd_strategy = hopr_default_strategies redeem lifecycle \<rparr>"

end
