(* ===== verification/Config_Rules.thy ===== *)
theory Config_Rules
  imports Hoprd_Config
begin

text \<open>
  What the daemon does with its configuration (\<open>hoprd/src/config.rs\<close>): the conversion of the
  user-facing part into the library's configuration, validation, and redaction; and the overrides the
  daemon reads from its environment (\<open>update_hopr_lib_config_from_env_vars\<close> of \<open>hoprd/src/lib.rs\<close>).
\<close>

section \<open>Conversion\<close>

definition supervisor_of_user :: "'u upstream \<Rightarrow> user_incoming_pix \<Rightarrow> 'u supervisor_config" where
  "supervisor_of_user up ui =
     (let d = up_supervisor up in
      \<lparr> sv_max_ssa_delivery_time = ui_max_ssa_delivery_time ui,
        sv_max_deposit_wait = ui_max_deposit_wait ui,
        sv_max_recovery_time = ui_max_recovery_time ui,
        sv_ssas_per_request = ui_ssas_per_request ui,
        sv_allow_dynamic_ssa_batches = ui_allow_dynamic_ssa_batches ui,
        sv_max_served_without_progress = ui_max_served_without_progress ui,
        sv_max_failed_cycles = sv_max_failed_cycles d,
        sv_max_recovery_idle = sv_max_recovery_idle d,
        sv_max_off_front_share_fraction = sv_max_off_front_share_fraction d,
        sv_min_share_order_sample = sv_min_share_order_sample d,
        sv_max_predeposit_packets = sv_max_predeposit_packets d,
        sv_tombstone_retention_window = sv_tombstone_retention_window d,
        sv_commitment_recommit_interval = sv_commitment_recommit_interval d,
        sv_ssa_request_resend_interval = sv_ssa_request_resend_interval d,
        sv_fill =
          \<lparr> pf_enabled = ui_fill_enabled ui,
            pf_max_rate = ui_fill_max_rate ui,
            pf_drain_after_close = ui_drain_after_close ui,
            pf_finish_fraction = ui_fill_finish_fraction ui,
            pf_heartbeat = pf_heartbeat (sv_fill d),
            pf_loss_margin = pf_loss_margin (sv_fill d),
            pf_min_surb_reserve = pf_min_surb_reserve (sv_fill d) \<rparr> \<rparr>)"

definition lib_config_of_user :: "'u upstream \<Rightarrow> 'u user_config \<Rightarrow> 'u lib_config" where
  "lib_config_of_user up v =
     (let n = uc_network v; px = un_pix n; ui = un_incoming_session_pix n in
      \<lparr> lc_host = uc_host v,
        lc_publish = uc_announce v,
        lc_safe_module = uc_safe_module v,
        lc_announce_local = un_announce_local_addresses n,
        lc_prefer_local = un_prefer_local_addresses n,
        lc_packet =
          \<lparr> pk_outgoing_win_prob = Option.bind (un_outgoing_ticket_winning_prob n) (up_win_prob up),
            pk_outgoing_ticket_price = un_outgoing_ticket_price n,
            pk_min_incoming_ticket_price = un_min_incoming_ticket_price n,
            pk_replay_filter = up_default up ''replay_filter'',
            pk_surb_resolution_wait = Some (dur_secs 1),
            pk_output_concurrency = pk_output_concurrency (lc_packet (up_lib up)),
            pk_input_concurrency = pk_input_concurrency (lc_packet (up_lib up)),
            pk_pipeline_rest = up_default up ''PacketPipelineConfig'',
            pk_rest = up_default up ''HoprPacketPipelineConfig'' \<rparr>,
        lc_transit_latency = None,
        lc_probe_interval = un_probe_interval n,
        lc_probe_recheck = un_probe_recheck_threshold n,
        lc_probe_rest = up_default up ''ProbeConfig'',
        lc_session =
          \<lparr> sg_idle_timeout = un_session_idle_timeout n,
            sg_establish_max_retries = un_session_establish_max_retries n,
            sg_tag_session = un_maximum_sessions n,
            sg_tag_rest = up_default up ''TagAllocatorConfig'',
            sg_rest = up_default up ''SessionGlobalConfig'' \<rparr>,
        lc_pix =
          \<lparr> pg_num_ssa_parts = ug_num_ssa_parts px,
            pg_ssa_part_size = ug_ssa_part_size px,
            pg_additional_shares = ug_additional_shares px,
            pg_max_ssas_per_request = ug_max_ssas_per_request px,
            pg_reconstructor = up_default up ''reconstructor'' \<rparr>,
        lc_incoming_pix =
          \<lparr> ix_enforce_pix = ui_enforce_pix ui,
            ix_quota_range = (ui_quota_range_min ui, ui_quota_range_max ui),
            ix_max_live_cycle_bytes = ui_max_live_cycle_bytes ui,
            ix_supervision = supervisor_of_user up ui \<rparr>,
        lc_path_planner = up_default up ''path_planner'',
        lc_counter_flush = up_default up ''counter_flush_interval'',
        lc_surb_flush = up_default up ''surb_flush_interval'',
        lc_latency_race_memory = up_default up ''latency_race_memory'',
        lc_relayer_health_weight = up_default up ''relayer_health_weight'',
        lc_mixer = un_mixer n,
        lc_stream = up_default up ''stream'',
        lc_incoming_session_capacity = lc_incoming_session_capacity (up_lib up),
        lc_disable_checks = lc_disable_checks (up_lib up),
        lc_rest = lc_rest (up_lib up) \<rparr>)"

text \<open>The environment of the daemon: both concurrencies are always overwritten, the capacity of incoming
  sessions only by a positive number; \<open>HOPR_TEST_DISABLE_CHECKS\<close> is read by debug builds only.\<close>

definition update_lib_config_from_env ::
  "bool \<Rightarrow> env_vars \<Rightarrow> 'u lib_config \<Rightarrow> 'u lib_config" where
  "update_lib_config_from_env debug_build env cfg =
     (let pk = lc_packet cfg;
          pk1 = pk\<lparr> pk_output_concurrency :=
                  Option.bind (env ''HOPR_INTERNAL_OUT_PACKET_PIPELINE_CONCURRENCY'') (parse_unsigned 64) \<rparr>;
          pk2 = pk1\<lparr> pk_input_concurrency :=
                  Option.bind (env ''HOPR_INTERNAL_IN_PACKET_PIPELINE_CONCURRENCY'') (parse_unsigned 64) \<rparr>;
          cfg1 = cfg\<lparr> lc_packet := pk2 \<rparr>;
          cfg2 = (case env_u64 env ''HOPR_INTERNAL_SESSION_INCOMING_CAPACITY'' of
                    Some c \<Rightarrow> if 0 < c then cfg1\<lparr> lc_incoming_session_capacity := c \<rparr> else cfg1
                  | None \<Rightarrow> cfg1)
      in if debug_build
         then (case env ''HOPR_TEST_DISABLE_CHECKS'' of
                 Some v \<Rightarrow> cfg2\<lparr> lc_disable_checks := ascii_lowercase v = ''true'' \<rparr>
               | None \<Rightarrow> cfg2)
         else cfg2)"

section \<open>Validation\<close>

record ('u, 'c, 'h) validators =
  va_lib :: "'u lib_config \<Rightarrow> string list"
  va_forwarding :: "'u forwarding_config \<Rightarrow> string list"
  va_host :: "host_config \<Rightarrow> string list"
  va_url :: "string \<Rightarrow> bool"
  va_strategy :: "('c, 'h) strategy_lib"

definition validate_file_path :: "string \<Rightarrow> string list" where
  "validate_file_path s = []"

definition validate_password :: "string \<Rightarrow> string list" where
  "validate_password s = (if s = [] then [''No password could be found''] else [])"

text \<open>The pattern \<open>^(0[xX])?[a-fA-F0-9]{128}$\<close>.\<close>

definition is_private_key :: "string \<Rightarrow> bool" where
  "is_private_key s =
     (let body = (if take 2 s = ''0x'' \<or> take 2 s = ''0X'' then drop 2 s else s)
      in length body = 128 \<and> list_all is_hex_digit body)"

definition validate_private_key :: "string \<Rightarrow> string list" where
  "validate_private_key s =
     (if is_private_key s then [] else [''No valid private key could be found''])"

definition validate_optional_private_key :: "string option \<Rightarrow> string list" where
  "validate_optional_private_key k = (case k of None \<Rightarrow> [] | Some s \<Rightarrow> validate_private_key s)"

definition validate_identity_source :: "identity \<Rightarrow> string list" where
  "validate_identity_source i =
     (let has_file = str_trim (id_file i) \<noteq> [];
          has_key = (case id_private_key i of None \<Rightarrow> False | Some k \<Rightarrow> str_trim k \<noteq> [])
      in if has_file \<or> has_key then []
         else [''no identity source configured: provide an identity file via --identity (HOPRD_IDENTITY) or a private key via --privateKey (HOPRD_PRIVATE_KEY)''])"

definition validate_identity :: "identity \<Rightarrow> string list" where
  "validate_identity i =
     validate_file_path (id_file i) @ validate_password (id_password i)
     @ validate_optional_private_key (id_private_key i) @ validate_identity_source i"

definition validate_api :: "(host_config \<Rightarrow> string list) \<Rightarrow> api \<Rightarrow> string list" where
  "validate_api vh a =
     (case validate_api_auth (api_auth a) of Inl e \<Rightarrow> [e] | Inr u \<Rightarrow> []) @ vh (api_host a)"

definition validate_user_config ::
  "'u upstream \<Rightarrow> ('u, 'c, 'h) validators \<Rightarrow> 'u user_config \<Rightarrow> string list" where
  "validate_user_config up va c = va_lib va (lib_config_of_user up c)"

definition validate_hoprd_config ::
  "'u upstream \<Rightarrow> ('u, 'c, 'h) validators \<Rightarrow> ('u, 'c) hoprd_config \<Rightarrow> string list" where
  "validate_hoprd_config up va c =
     validate_user_config up va (hd_hopr c)
     @ validate_identity (hd_identity c)
     @ validate_api (va_host va) (hd_api c)
     @ va_forwarding va (hd_forwarding c)
     @ (if va_url va (hd_blokli_url c) then [] else [''url''])
     @ validate_multi (va_strategy va) (hd_strategy c)"

section \<open>Redaction\<close>

definition redacted_text :: string where
  "redacted_text = ''<REDACTED>''"

definition as_redacted :: "('u, 'c) hoprd_config \<Rightarrow> ('u, 'c) hoprd_config" where
  "as_redacted c =
     (let c1 = (case api_auth (hd_api c) of
                  Auth_None \<Rightarrow> c
                | Auth_Token t \<Rightarrow> c\<lparr> hd_api := (hd_api c)\<lparr> api_auth := Auth_Token redacted_text \<rparr> \<rparr>);
          c2 = (case id_private_key (hd_identity c1) of
                  None \<Rightarrow> c1
                | Some k \<Rightarrow> c1\<lparr> hd_identity := (hd_identity c1)\<lparr> id_private_key := Some redacted_text \<rparr> \<rparr>)
      in c2\<lparr> hd_identity := (hd_identity c2)\<lparr> id_password := redacted_text \<rparr> \<rparr>)"

text \<open>The \<open>Debug\<close> rendering of an identity: the names and values of its three fields.\<close>

definition debug_identity :: "identity \<Rightarrow> (string \<times> string) list" where
  "debug_identity i =
     [(''file'', id_file i), (''password'', redacted_text), (''private_key'', redacted_text)]"

end
