(* ===== verification/Hoprd_Cli.thy ===== *)
theory Hoprd_Cli
  imports Config_Rules
begin

text \<open>
  The command line of the daemon (\<open>hoprd/src/cli.rs\<close>): the parsers of single arguments, and the
  construction of the effective configuration from the configuration file (or the defaults) and the
  arguments, which the library \<open>clap\<close> fills from the command line or the \<open>HOPRD_*\<close> variables.

  Parameters (\<open>cli_lib\<close>) are the file system, the YAML parser, the network interfaces, the user's home
  directory, and the library's parsers of hosts, addresses and IP addresses.
\<close>

record ('u, 'c) cli_lib =
  cl_read_file :: "string \<Rightarrow> (string, string) res"
  cl_parse_yaml :: "string \<Rightarrow> (string, ('u, 'c) hoprd_config) res"
  cl_default :: "('u, 'c) hoprd_config"
  cl_interfaces :: "(string, ip_addr list) res"
  cl_home :: "string option"
  cl_parse_ip :: "string \<Rightarrow> ip_addr option"
  cl_parse_socket :: "string \<Rightarrow> socket_addr option"
  cl_host_from_str :: "string \<Rightarrow> (string, host_config) res"
  cl_is_ipv4 :: "string \<Rightarrow> bool"
  cl_looks_like_domain :: "string \<Rightarrow> bool"
  cl_parse_address :: "string \<Rightarrow> (string, address) res"

section \<open>Parsers of arguments\<close>

definition cli_default_api_host :: string where
  "cli_default_api_host = ''localhost''"

definition session_listen_host_auto :: string where
  "session_listen_host_auto = ''auto''"

definition parse_host :: "('u, 'c) cli_lib \<Rightarrow> string \<Rightarrow> (string, host_config) res" where
  "parse_host cl s =
     (let host = (case split_once (CHR '':'') s of None \<Rightarrow> s | Some (h, _) \<Rightarrow> h)
      in if \<not> (cl_is_ipv4 cl host \<or> cl_looks_like_domain cl host)
         then Err (''Given string '' @ s @ '' is not a valid host, should have a format: <ip>:<port> or <domain>(:<port>)'')
         else cl_host_from_str cl s)"

definition parse_session_listen_host ::
  "('u, 'c) cli_lib \<Rightarrow> string \<Rightarrow> (string, host_config) res" where
  "parse_session_listen_host cl s =
     (let (host, port) =
            (case split_once (CHR '':'') s of Some (h, p) \<Rightarrow> (h, Some p) | None \<Rightarrow> (s, None))
      in if eq_ignore_ascii_case host session_listen_host_auto
         then res_bind
                (case port of
                   Some p \<Rightarrow> ok_or (''invalid port in session listen host: '' @ p) (parse_unsigned 16 p)
                 | None \<Rightarrow> Ok 0)
                (\<lambda>port. Ok \<lparr> hc_address = Host_Domain session_listen_host_auto, hc_port = port \<rparr>)
         else parse_host cl s)"

text \<open>\<open>IpAddr::is_loopback\<close> on IPv4 (127.0.0.0/8).\<close>

fun is_usable_ipv4 :: "ip_addr \<Rightarrow> bool" where
  "is_usable_ipv4 (V4 w) = (unat w div 2 ^ 24 \<noteq> 127)"
| "is_usable_ipv4 (V6 w) = False"

definition detect_local_ipv4 :: "('u, 'c) cli_lib \<Rightarrow> (string, ip_addr) res" where
  "detect_local_ipv4 cl =
     res_bind (map_err (\<lambda>e. ''failed to enumerate network interfaces'') (cl_interfaces cl))
       (\<lambda>ips. ok_or ''no non-loopback IPv4 address found for session listen host''
          (List.find is_usable_ipv4 ips))"

definition resolve_session_listen_host ::
  "('u, 'c) cli_lib \<Rightarrow> host_config \<Rightarrow> (string, socket_addr) res" where
  "resolve_session_listen_host cl h =
     (case hc_address h of
        Host_IPv4 a \<Rightarrow>
          res_bind (ok_or ''invalid default session listen IP address'' (cl_parse_ip cl a))
            (\<lambda>ip. Ok (ip, of_nat (hc_port h)))
      | Host_Domain d \<Rightarrow>
          if eq_ignore_ascii_case d session_listen_host_auto
          then res_bind (detect_local_ipv4 cl) (\<lambda>ip. Ok (ip, of_nat (hc_port h)))
          else Err ''default session listen must be an IP'')"

definition single_quote :: char where "single_quote = CHR 0x27"

definition parse_api_token :: "string \<Rightarrow> (string, string) res" where
  "parse_api_token s =
     (if length s < minimal_api_token_length
      then Err (''Length of API token is too short, minimally required '' @ show_nat minimal_api_token_length
                @ '' but given '' @ show_nat (length s))
      else case (starts_with [single_quote] s, ends_with [single_quote] s) of
        (True, True) \<Rightarrow>
          res_bind (ok_or ''failed to parse strip prefix part'' (strip_prefix [single_quote] s))
            (\<lambda>s. ok_or ''failed to parse strip suffix part'' (strip_suffix [single_quote] s))
      | (True, False) \<Rightarrow> Err ''Found leading quote but no trailing quote''
      | (False, True) \<Rightarrow> Err ''Found trailing quote but no leading quote''
      | (False, False) \<Rightarrow> Ok s)"

definition parse_blokli_dns_override ::
  "('u, 'c) cli_lib \<Rightarrow> string \<Rightarrow> (string, ip_addr \<times> 16 word option) res" where
  "parse_blokli_dns_override cl v =
     (case cl_parse_ip cl v of
        Some ip \<Rightarrow> Ok (ip, None)
      | None \<Rightarrow>
          (case cl_parse_socket cl v of
             Some (ip, port) \<Rightarrow> Ok (ip, Some port)
           | None \<Rightarrow> Err (''invalid DNS override '' @ v)))"

section \<open>The arguments\<close>

record cli_args =
  ca_identity :: "string option"
  ca_data :: "string option"
  ca_host :: "host_config option"
  ca_announce :: nat
  ca_api :: nat
  ca_api_host :: "string option"
  ca_api_port :: "nat option"
  ca_default_session_listen_host :: "host_config option"
  ca_enable_explicit_path_sessions :: bool
  ca_disable_api_authentication :: nat
  ca_api_token :: "string option"
  ca_password :: "string option"
  ca_blokli_url :: "string option"
  ca_blokli_dns_override :: "(ip_addr \<times> 16 word option) option"
  ca_init :: nat
  ca_force_init :: nat
  ca_private_key :: "string option"
  ca_test_announce_local_addresses :: nat
  ca_test_prefer_local_addresses :: nat
  ca_probe_recheck_threshold :: "nat option"
  ca_configuration_file_path :: "string option"
  ca_safe_address :: "string option"
  ca_module_address :: "string option"

text \<open>No argument and no variable given.\<close>

definition no_args :: cli_args where
  "no_args = \<lparr> ca_identity = None, ca_data = None, ca_host = None, ca_announce = 0, ca_api = 0,
     ca_api_host = None, ca_api_port = None, ca_default_session_listen_host = None,
     ca_enable_explicit_path_sessions = False, ca_disable_api_authentication = 0,
     ca_api_token = None, ca_password = None, ca_blokli_url = None, ca_blokli_dns_override = None,
     ca_init = 0, ca_force_init = 0, ca_private_key = None, ca_test_announce_local_addresses = 0,
     ca_test_prefer_local_addresses = 0, ca_probe_recheck_threshold = None,
     ca_configuration_file_path = None, ca_safe_address = None, ca_module_address = None \<rparr>"

section \<open>The effective configuration\<close>

datatype cli_error = Cli_Error string | Cli_Panic string

text \<open>\<open>if let Some(x) = arg { set }\<close>, plain and fallible.\<close>

definition set_from :: "'a option \<Rightarrow> ('a \<Rightarrow> 's \<Rightarrow> 's) \<Rightarrow> 's \<Rightarrow> 's" where
  "set_from arg f s = (case arg of None \<Rightarrow> s | Some x \<Rightarrow> f x s)"

definition try_set_from ::
  "'a option \<Rightarrow> ('a \<Rightarrow> 's \<Rightarrow> (string, 's) res) \<Rightarrow> 's \<Rightarrow> (cli_error, 's) res" where
  "try_set_from arg f s = (case arg of None \<Rightarrow> Ok s | Some x \<Rightarrow> map_err Cli_Error (f x s))"

definition base_config ::
  "('u, 'c) cli_lib \<Rightarrow> string option \<Rightarrow> (cli_error, ('u, 'c) hoprd_config) res" where
  "base_config cl path =
     (case path of
        Some p \<Rightarrow>
          res_bind (map_err (\<lambda>e. Cli_Error (''failed to read config file '' @ p)) (cl_read_file cl p))
            (\<lambda>y. map_err (\<lambda>e. Cli_Error ''failed to parse config YAML'') (cl_parse_yaml cl y))
      | None \<Rightarrow> Ok (cl_default cl))"

definition apply_transport :: "cli_args \<Rightarrow> ('u, 'c) hoprd_config \<Rightarrow> ('u, 'c) hoprd_config" where
  "apply_transport a cfg =
     (let h = set_from (ca_host a) (\<lambda>x h. h\<lparr> uc_host := x \<rparr>) (hd_hopr cfg);
          n = uc_network h;
          n1 = (if 0 < ca_test_announce_local_addresses a then n\<lparr> un_announce_local_addresses := True \<rparr> else n);
          n2 = (if 0 < ca_test_prefer_local_addresses a then n1\<lparr> un_prefer_local_addresses := True \<rparr> else n1)
      in cfg\<lparr> hd_hopr := h\<lparr> uc_network := n2 \<rparr> \<rparr>)"

definition apply_listen_host ::
  "('u, 'c) cli_lib \<Rightarrow> cli_args \<Rightarrow> ('u, 'c) hoprd_config \<Rightarrow> (cli_error, ('u, 'c) hoprd_config) res" where
  "apply_listen_host cl a =
     try_set_from (ca_default_session_listen_host a)
       (\<lambda>h cfg. res_bind (resolve_session_listen_host cl h)
          (\<lambda>sock. Ok (cfg\<lparr> hd_forwarding := (hd_forwarding cfg)\<lparr> fw_default_entry_listen_host := sock \<rparr> \<rparr>)))"

definition apply_db :: "cli_args \<Rightarrow> db_config \<Rightarrow> db_config" where
  "apply_db a d =
     (let d1 = set_from (ca_data a) (\<lambda>x d. d\<lparr> db_data := x \<rparr>) d;
          d2 = (if 0 < ca_init a then d1\<lparr> db_initialize := True \<rparr> else d1)
      in if 0 < ca_force_init a then d2\<lparr> db_force_initialize := True \<rparr> else d2)"

definition apply_auth :: "cli_args \<Rightarrow> api \<Rightarrow> api" where
  "apply_auth a p =
     (let p0 = (if ca_enable_explicit_path_sessions a
                then p\<lparr> api_enable_explicit_path_sessions := True \<rparr> else p);
          p1 = (if 0 < ca_api a then p0\<lparr> api_enable := True \<rparr> else p0);
          p2 = (if 0 < ca_disable_api_authentication a \<and> api_auth p1 \<noteq> Auth_None
                then p1\<lparr> api_auth := Auth_None \<rparr> else p1)
      in set_from (ca_api_token a) (\<lambda>x p. p\<lparr> api_auth := Auth_Token x \<rparr>) p2)"

definition apply_api_host :: "('u, 'c) cli_lib \<Rightarrow> cli_args \<Rightarrow> api \<Rightarrow> (cli_error, api) res" where
  "apply_api_host cl a p =
     res_bind
       (try_set_from (ca_api_host a)
          (\<lambda>x p. res_bind (map_err (\<lambda>e. ''invalid api host: '' @ e)
                            (cl_host_from_str cl (x @ '':'' @ show_nat default_api_port)))
                   (\<lambda>h. Ok (p\<lparr> api_host := h \<rparr>))) p)
       (\<lambda>p. Ok (set_from (ca_api_port a) (\<lambda>x p. p\<lparr> api_host := (api_host p)\<lparr> hc_port := x \<rparr> \<rparr>) p))"

definition apply_identity :: "cli_args \<Rightarrow> identity \<Rightarrow> identity" where
  "apply_identity a i =
     set_from (ca_private_key a) (\<lambda>x i. i\<lparr> id_private_key := Some x \<rparr>)
       (set_from (ca_password a) (\<lambda>x i. i\<lparr> id_password := x \<rparr>)
         (set_from (ca_identity a) (\<lambda>x i. i\<lparr> id_file := x \<rparr>) i))"

definition apply_chain :: "cli_args \<Rightarrow> ('u, 'c) hoprd_config \<Rightarrow> ('u, 'c) hoprd_config" where
  "apply_chain a cfg =
     (let h = hd_hopr cfg;
          h1 = set_from (ca_probe_recheck_threshold a)
                 (\<lambda>x h. h\<lparr> uc_network := (uc_network h)\<lparr> un_probe_recheck_threshold := dur_secs x \<rparr> \<rparr>) h;
          h2 = (if 0 < ca_announce a then h1\<lparr> uc_announce := True \<rparr> else h1);
          c1 = cfg\<lparr> hd_hopr := h2 \<rparr>;
          c2 = set_from (ca_blokli_url a) (\<lambda>x c. c\<lparr> hd_blokli_url := x \<rparr>) c1
      in set_from (ca_blokli_dns_override a) (\<lambda>x c. c\<lparr> hd_blokli_dns_override := Some x \<rparr>) c2)"

definition apply_safe_module ::
  "('u, 'c) cli_lib \<Rightarrow> cli_args \<Rightarrow> safe_module \<Rightarrow> (cli_error, safe_module) res" where
  "apply_safe_module cl a sm =
     res_bind
       (try_set_from (ca_safe_address a)
          (\<lambda>x sm. res_bind (map_err (\<lambda>e. ''invalid safe address '' @ x) (cl_parse_address cl x))
                   (\<lambda>v. Ok (sm\<lparr> sm_safe_address := v \<rparr>))) sm)
       (try_set_from (ca_module_address a)
          (\<lambda>x sm. res_bind (map_err (\<lambda>e. ''invalid module address '' @ x) (cl_parse_address cl x))
                   (\<lambda>v. Ok (sm\<lparr> sm_module_address := v \<rparr>))))"

text \<open>A leading tilde is replaced by the home directory; without one the daemon panics.\<close>

definition expand_home :: "('u, 'c) cli_lib \<Rightarrow> string \<Rightarrow> (cli_error, string) res" where
  "expand_home cl s =
     (if starts_with ''~'' s
      then (case cl_home cl of
              Some h \<Rightarrow> Ok (h @ drop 1 s)
            | None \<Rightarrow> Err (Cli_Panic ''home dir for a user must be specified''))
      else Ok s)"

definition expand_paths ::
  "('u, 'c) cli_lib \<Rightarrow> ('u, 'c) hoprd_config \<Rightarrow> (cli_error, ('u, 'c) hoprd_config) res" where
  "expand_paths cl cfg =
     res_bind (expand_home cl (db_data (hd_db cfg))) (\<lambda>d.
     res_bind (expand_home cl (id_file (hd_identity cfg))) (\<lambda>f.
     Ok (cfg\<lparr> hd_db := (hd_db cfg)\<lparr> db_data := d \<rparr>,
              hd_identity := (hd_identity cfg)\<lparr> id_file := f \<rparr> \<rparr>)))"

definition hoprd_config_of_cli ::
  "('u, 'c) cli_lib \<Rightarrow> cli_args \<Rightarrow> (cli_error, ('u, 'c) hoprd_config) res" where
  "hoprd_config_of_cli cl a =
     res_bind (base_config cl (ca_configuration_file_path a)) (\<lambda>c0.
     res_bind (apply_listen_host cl a (apply_transport a c0)) (\<lambda>c1.
     let c2 = c1\<lparr> hd_db := apply_db a (hd_db c1) \<rparr> in
     res_bind (apply_api_host cl a (apply_auth a (hd_api c2))) (\<lambda>p.
     let c3 = apply_chain a
                (c2\<lparr> hd_api := p, hd_identity := apply_identity a (hd_identity c2) \<rparr>) in
     res_bind (apply_safe_module cl a (uc_safe_module (hd_hopr c3))) (\<lambda>sm.
     expand_paths cl (c3\<lparr> hd_hopr := (hd_hopr c3)\<lparr> uc_safe_module := sm \<rparr> \<rparr>)))))"

end
