(* ===== verification/Hoprd_Laws.thy ===== *)
theory Hoprd_Laws
  imports Hoprd_Cli
begin

text \<open>
  The properties of the daemon's configuration: the user's settings reach the library unchanged and the
  pinned policy stays upstream's; the effective configuration of a command line; the parser of API
  tokens; and what redaction hides.
\<close>

section \<open>User settings reach the library\<close>

text \<open>Reading the user-facing settings back from the library's configuration.\<close>

definition user_incoming_of_lib :: "'u incoming_pix_config \<Rightarrow> user_incoming_pix" where
  "user_incoming_of_lib ix =
     (let sv = ix_supervision ix; fl = sv_fill sv in
      \<lparr> ui_enforce_pix = ix_enforce_pix ix,
        ui_quota_range_min = fst (ix_quota_range ix),
        ui_quota_range_max = snd (ix_quota_range ix),
        ui_max_ssa_delivery_time = sv_max_ssa_delivery_time sv,
        ui_max_deposit_wait = sv_max_deposit_wait sv,
        ui_max_live_cycle_bytes = ix_max_live_cycle_bytes ix,
        ui_max_recovery_time = sv_max_recovery_time sv,
        ui_max_served_without_progress = sv_max_served_without_progress sv,
        ui_ssas_per_request = sv_ssas_per_request sv,
        ui_allow_dynamic_ssa_batches = sv_allow_dynamic_ssa_batches sv,
        ui_drain_after_close = pf_drain_after_close fl,
        ui_fill_enabled = pf_enabled fl,
        ui_fill_max_rate = pf_max_rate fl,
        ui_fill_finish_fraction = pf_finish_fraction fl \<rparr>)"

definition user_config_of_lib :: "'u upstream \<Rightarrow> 'u lib_config \<Rightarrow> 'u user_config" where
  "user_config_of_lib up l =
     \<lparr> uc_announce = lc_publish l,
       uc_host = lc_host l,
       uc_safe_module = lc_safe_module l,
       uc_network =
         \<lparr> un_session_idle_timeout = sg_idle_timeout (lc_session l),
           un_maximum_sessions = sg_tag_session (lc_session l),
           un_session_establish_max_retries = sg_establish_max_retries (lc_session l),
           un_probe_recheck_threshold = lc_probe_recheck l,
           un_probe_interval = lc_probe_interval l,
           un_announce_local_addresses = lc_announce_local l,
           un_prefer_local_addresses = lc_prefer_local l,
           un_outgoing_ticket_winning_prob =
             map_option (up_win_prob_f64 up) (pk_outgoing_win_prob (lc_packet l)),
           un_outgoing_ticket_price = pk_outgoing_ticket_price (lc_packet l),
           un_min_incoming_ticket_price = pk_min_incoming_ticket_price (lc_packet l),
           un_mixer = lc_mixer l,
           un_pix =
             \<lparr> ug_num_ssa_parts = pg_num_ssa_parts (lc_pix l),
               ug_ssa_part_size = pg_ssa_part_size (lc_pix l),
               ug_additional_shares = pg_additional_shares (lc_pix l),
               ug_max_ssas_per_request = pg_max_ssas_per_request (lc_pix l) \<rparr>,
           un_incoming_session_pix = user_incoming_of_lib (lc_incoming_pix l) \<rparr>,
       uc_ticket_storage_file = None \<rparr>"

text \<open>The part of the supervision the daemon leaves to upstream.\<close>

definition pinned_policy :: "'u supervisor_config \<Rightarrow> 'u list" where
  "pinned_policy sv =
     [sv_max_failed_cycles sv, sv_max_recovery_idle sv, sv_max_off_front_share_fraction sv,
      sv_min_share_order_sample sv, sv_max_predeposit_packets sv, sv_tombstone_retention_window sv,
      sv_commitment_recommit_interval sv, sv_ssa_request_resend_interval sv,
      pf_heartbeat (sv_fill sv), pf_loss_margin (sv_fill sv), pf_min_surb_reserve (sv_fill sv)]"

lemma user_incoming_of_lib_of_user:
  "user_incoming_of_lib \<lparr> ix_enforce_pix = ui_enforce_pix ui,
      ix_quota_range = (ui_quota_range_min ui, ui_quota_range_max ui),
      ix_max_live_cycle_bytes = ui_max_live_cycle_bytes ui,
      ix_supervision = supervisor_of_user up ui \<rparr> = ui"
  by (simp add: user_incoming_of_lib_def supervisor_of_user_def Let_def)

text \<open>C27: Every setting of the user-facing configuration reaches the library's configuration and can be
  read back from it, except that a winning probability the library refuses is dropped and that the
  ticket storage file is ignored; the supervision policy that is no user setting is upstream's.\<close>

theorem user_settings_reach_library:
  "user_config_of_lib up (lib_config_of_user up v) =
     v\<lparr> uc_ticket_storage_file := None,
        uc_network := (uc_network v)\<lparr> un_outgoing_ticket_winning_prob :=
          Option.bind (un_outgoing_ticket_winning_prob (uc_network v))
            (\<lambda>p. map_option (up_win_prob_f64 up) (up_win_prob up p)) \<rparr> \<rparr>
   \<and> pinned_policy (ix_supervision (lc_incoming_pix (lib_config_of_user up v)))
       = pinned_policy (up_supervisor up)
   \<and> pk_surb_resolution_wait (lc_packet (lib_config_of_user up v)) = Some (dur_secs 1)
   \<and> lc_transit_latency (lib_config_of_user up v) = None"
proof -
  have "pinned_policy (supervisor_of_user up ui) = pinned_policy (up_supervisor up)" for ui
    by (simp add: pinned_policy_def supervisor_of_user_def Let_def)
  moreover have "map_option (up_win_prob_f64 up) (Option.bind q (up_win_prob up)) =
      Option.bind q (\<lambda>p. map_option (up_win_prob_f64 up) (up_win_prob up p))" for q
    by (cases q) simp_all
  ultimately show ?thesis
    by (simp add: lib_config_of_user_def user_config_of_lib_def Let_def user_incoming_of_lib_of_user)
qed

text \<open>A ticket storage file changes nothing: the library's configuration does not depend on it.\<close>

lemma ticket_storage_file_ignored:
  "lib_config_of_user up (v\<lparr> uc_ticket_storage_file := f \<rparr>) = lib_config_of_user up v"
  by (simp add: lib_config_of_user_def)

text \<open>The literal defaults of the PIX section are the ones of an empty stanza only while upstream keeps
  them.\<close>

lemma pix_defaults_agree_iff:
  "default_user_pix_global up = empty_stanza_pix_global up \<longleftrightarrow>
     pg_num_ssa_parts (up_pix up) = 4096 \<and> pg_ssa_part_size (up_pix up) = 128
     \<and> pg_additional_shares (up_pix up) = None"
  by (auto simp: default_user_pix_global_def empty_stanza_pix_global_def)

lemma mixer_without_type_is_uniform:
  "ms_mixer_type ms = None \<Longrightarrow> \<exists>u. res_ok (deserialize_mixer_config up ms) =
     Some \<lparr> mx_capacity = (case ms_capacity ms of Some c \<Rightarrow> c | None \<Rightarrow> mx_capacity (up_mixer up)),
            mx_type = Mixer_Uniform u \<rparr>"
  by (cases "ms_capacity ms"; cases "ms_min_delay ms"; cases "ms_delay_range ms")
     (auto simp: deserialize_mixer_config_def legacy_mixer_def)

lemma env_mixer_capacity_positive:
  "0 < mx_capacity (up_mixer up) \<Longrightarrow> 0 < mx_capacity (build_mixer_cfg_from_env up env)"
  by (auto simp: build_mixer_cfg_from_env_def Let_def split: option.split)

section \<open>Redaction\<close>

text \<open>Replacing the secrets a configuration has: the token, the password, the private key if present.\<close>

definition with_secrets ::
  "string \<Rightarrow> string \<Rightarrow> string \<Rightarrow> ('u, 'c) hoprd_config \<Rightarrow> ('u, 'c) hoprd_config" where
  "with_secrets t p k c =
     c\<lparr> hd_api := (hd_api c)\<lparr> api_auth :=
           (case api_auth (hd_api c) of Auth_None \<Rightarrow> Auth_None | Auth_Token u \<Rightarrow> Auth_Token t) \<rparr>,
        hd_identity := (hd_identity c)\<lparr> id_password := p,
           id_private_key := map_option (\<lambda>u. k) (id_private_key (hd_identity c)) \<rparr> \<rparr>"

lemma as_redacted_with_secrets:
  "as_redacted c = with_secrets redacted_text redacted_text redacted_text c"
  by (cases "api_auth (hd_api c)"; cases "id_private_key (hd_identity c)")
     (simp_all add: as_redacted_def with_secrets_def Let_def)

lemma with_secrets_twice: "with_secrets t p k (with_secrets t' p' k' c) = with_secrets t p k c"
  by (cases "api_auth (hd_api c)") (simp_all add: with_secrets_def option.map_comp comp_def)


section \<open>API tokens on the command line\<close>

lemma quoted_iff:
  "2 \<le> length s \<Longrightarrow> starts_with [q] s \<and> ends_with [q] s \<longleftrightarrow> (\<exists>t. s = q # t @ [q])"
proof
  assume l: "2 \<le> length s" and "starts_with [q] s \<and> ends_with [q] s"
  then obtain b u where b: "s = b @ [q]" and u: "s = [q] @ u"
    by (auto simp: starts_with_iff ends_with_iff)
  have h: "hd s = q" by (simp add: u)
  have "b \<noteq> []" using l b by auto
  then have "s = q # tl b @ [q]" using b h by (cases b) auto
  then show "\<exists>t. s = q # t @ [q]" by blast
next
  assume "\<exists>t. s = q # t @ [q]"
  then show "starts_with [q] s \<and> ends_with [q] s"
    by (auto simp: starts_with_def ends_with_iff)
qed

lemma strip_quotes:
  "strip_prefix [q] (q # t @ [q]) = Some (t @ [q])" "strip_suffix [q] (t @ [q]) = Some t"
  using strip_prefix_append [of "[q]" "t @ [q]"] by simp_all

text \<open>The token parser accepts exactly the texts of at least eight bytes that are quoted on both
  sides or on none, and gives the text without its quotes.\<close>

theorem parse_api_token_exact:
  "parse_api_token s = Ok t \<longleftrightarrow>
     8 \<le> length s
     \<and> (s = single_quote # t @ [single_quote] \<or> s = t \<and> hd s \<noteq> single_quote \<and> last s \<noteq> single_quote)"
proof (cases "8 \<le> length s")
  case False
  then show ?thesis by (simp add: parse_api_token_def minimal_api_token_length_def)
next
  case True
  then have ne: "s \<noteq> []" and l2: "2 \<le> length s" by auto
  have pre: "starts_with [single_quote] s \<longleftrightarrow> hd s = single_quote"
    using ne by (cases s) (auto simp: starts_with_def)
  have suf: "ends_with [single_quote] s \<longleftrightarrow> last s = single_quote"
    using ne by (cases s rule: rev_cases) (auto simp: ends_with_iff)
  show ?thesis
  proof (cases "hd s = single_quote \<and> last s = single_quote")
    case True
    then obtain u where u: "s = single_quote # u @ [single_quote]"
      using quoted_iff [OF l2, of single_quote] pre suf by auto
    have "parse_api_token s = Ok u"
      using \<open>8 \<le> length s\<close> True pre suf
      by (simp add: parse_api_token_def minimal_api_token_length_def u strip_quotes)
    then show ?thesis using \<open>8 \<le> length s\<close> u by auto
  next
    case False
    then show ?thesis
      using \<open>8 \<le> length s\<close> pre suf
      by (auto simp: parse_api_token_def minimal_api_token_length_def)
  qed
qed

text \<open>A quoted token may be shorter than eight bytes; the configuration is then refused.\<close>

lemma short_quoted_token:
  "parse_api_token (single_quote # t @ [single_quote]) = Ok t \<longleftrightarrow> 6 \<le> length t"
  "length t < 8 \<Longrightarrow> validate_api_auth (Auth_Token t) = Err ''The API token is too short''"
  by (auto simp: parse_api_token_exact validate_api_auth_def minimal_api_token_length_def)

section \<open>The effective configuration\<close>

lemma res_bind_OkE:
  assumes "res_bind r f = Ok y" obtains x where "r = Ok x" "f x = Ok y"
  using assms by (auto simp: res_bind_Ok_iff)

text \<open>What the arguments make of each part, from the part of the file or of the defaults.\<close>

definition effective_auth :: "cli_args \<Rightarrow> auth \<Rightarrow> auth" where
  "effective_auth a d =
     (case ca_api_token a of
        Some t \<Rightarrow> Auth_Token t
      | None \<Rightarrow> if 0 < ca_disable_api_authentication a then Auth_None else d)"

definition expanded :: "('u, 'c) cli_lib \<Rightarrow> string \<Rightarrow> string \<Rightarrow> bool" where
  "expanded cl s t \<longleftrightarrow> (if starts_with ''~'' s then \<exists>h. cl_home cl = Some h \<and> t = h @ drop 1 s else t = s)"

lemma expand_home_iff: "expand_home cl s = Ok t \<longleftrightarrow> expanded cl s t"
  by (auto simp: expand_home_def expanded_def split: option.splits)

lemma apply_auth_fields:
  "api_auth (apply_auth a p) = effective_auth a (api_auth p)"
  "api_enable (apply_auth a p) = (api_enable p \<or> 0 < ca_api a)"
  "api_enable_explicit_path_sessions (apply_auth a p) =
     (api_enable_explicit_path_sessions p \<or> ca_enable_explicit_path_sessions a)"
  "api_host (apply_auth a p) = api_host p"
  "api_session_flow_control (apply_auth a p) = api_session_flow_control p"
  by (auto simp: apply_auth_def effective_auth_def set_from_def Let_def split: option.split)

definition effective_host ::
  "('u, 'c) cli_lib \<Rightarrow> cli_args \<Rightarrow> host_config \<Rightarrow> host_config \<Rightarrow> bool" where
  "effective_host cl a d h \<longleftrightarrow>
     (\<exists>h0. (case ca_api_host a of
              None \<Rightarrow> h0 = d
            | Some x \<Rightarrow> cl_host_from_str cl (x @ '':3001'') = Ok h0)
           \<and> h = (case ca_api_port a of None \<Rightarrow> h0 | Some p \<Rightarrow> h0\<lparr> hc_port := p \<rparr>))"

lemma show_default_api_port: "show_nat default_api_port = ''3001''"
  by code_simp

lemma apply_api_host_Ok:
  assumes "apply_api_host cl a p = Ok q"
  shows "\<exists>h. effective_host cl a (api_host p) h \<and> q = p\<lparr> api_host := h \<rparr>"
proof (cases "ca_api_host a")
  case None
  then show ?thesis
    using assms
    by (cases "ca_api_port a")
       (auto simp: apply_api_host_def try_set_from_def set_from_def effective_host_def)
next
  case (Some x)
  obtain h0 where "cl_host_from_str cl (x @ '':3001'') = Ok h0"
      and "q = set_from (ca_api_port a) (\<lambda>x p. p\<lparr> api_host := (api_host p)\<lparr> hc_port := x \<rparr> \<rparr>)
                 (p\<lparr> api_host := h0 \<rparr>)"
    using assms Some
    by (auto simp: apply_api_host_def try_set_from_def show_default_api_port res_bind_Ok_iff)
  then show ?thesis
    using Some by (cases "ca_api_port a") (auto simp: effective_host_def set_from_def)
qed

lemma apply_listen_host_Ok:
  assumes "apply_listen_host cl a c = Ok d"
  shows "\<exists>s. (case ca_default_session_listen_host a of
                None \<Rightarrow> s = fw_default_entry_listen_host (hd_forwarding c)
              | Some h \<Rightarrow> resolve_session_listen_host cl h = Ok s)
           \<and> d = c\<lparr> hd_forwarding := (hd_forwarding c)\<lparr> fw_default_entry_listen_host := s \<rparr> \<rparr>"
  using assms
  by (cases "ca_default_session_listen_host a")
     (auto simp: apply_listen_host_def try_set_from_def res_bind_Ok_iff)

definition effective_address ::
  "('u, 'c) cli_lib \<Rightarrow> string option \<Rightarrow> address \<Rightarrow> address \<Rightarrow> bool" where
  "effective_address cl arg d v \<longleftrightarrow>
     (case arg of None \<Rightarrow> v = d | Some x \<Rightarrow> cl_parse_address cl x = Ok v)"

lemma apply_safe_module_Ok:
  assumes "apply_safe_module cl a sm = Ok sm'"
  shows "effective_address cl (ca_safe_address a) (sm_safe_address sm) (sm_safe_address sm')
    \<and> effective_address cl (ca_module_address a) (sm_module_address sm) (sm_module_address sm')"
  using assms
  by (cases "ca_safe_address a"; cases "ca_module_address a")
     (auto simp: apply_safe_module_def try_set_from_def effective_address_def res_bind_Ok_iff)

definition arg_or :: "'a option \<Rightarrow> 'a \<Rightarrow> 'a" where
  "arg_or arg d = (case arg of Some x \<Rightarrow> x | None \<Rightarrow> d)"

lemma apply_identity_fields:
  "apply_identity a i =
     \<lparr> id_file = arg_or (ca_identity a) (id_file i),
       id_password = arg_or (ca_password a) (id_password i),
       id_private_key = (case ca_private_key a of Some k \<Rightarrow> Some k | None \<Rightarrow> id_private_key i) \<rparr>"
  by (simp add: apply_identity_def set_from_def arg_or_def split: option.split)

lemma apply_db_fields:
  "apply_db a d =
     \<lparr> db_data = arg_or (ca_data a) (db_data d),
       db_initialize = (db_initialize d \<or> 0 < ca_init a),
       db_force_initialize = (db_force_initialize d \<or> 0 < ca_force_init a) \<rparr>"
  by (auto simp: apply_db_def set_from_def arg_or_def split: option.split)

lemma apply_transport_fields:
  "hd_identity (apply_transport a c) = hd_identity c" "hd_db (apply_transport a c) = hd_db c"
  "hd_api (apply_transport a c) = hd_api c" "hd_forwarding (apply_transport a c) = hd_forwarding c"
  "hd_blokli_url (apply_transport a c) = hd_blokli_url c"
  "hd_blokli_dns_override (apply_transport a c) = hd_blokli_dns_override c"
  "hd_strategy (apply_transport a c) = hd_strategy c"
  "hd_hopr (apply_transport a c) = (hd_hopr c)\<lparr> uc_host := arg_or (ca_host a) (uc_host (hd_hopr c)),
     uc_network := (uc_network (hd_hopr c))
       \<lparr> un_announce_local_addresses := un_announce_local_addresses (uc_network (hd_hopr c))
            \<or> 0 < ca_test_announce_local_addresses a,
          un_prefer_local_addresses := un_prefer_local_addresses (uc_network (hd_hopr c))
            \<or> 0 < ca_test_prefer_local_addresses a \<rparr> \<rparr>"
  by (auto simp: apply_transport_def set_from_def arg_or_def Let_def split: option.split)

lemma apply_chain_fields:
  "hd_identity (apply_chain a c) = hd_identity c" "hd_db (apply_chain a c) = hd_db c"
  "hd_api (apply_chain a c) = hd_api c" "hd_forwarding (apply_chain a c) = hd_forwarding c"
  "hd_blokli_url (apply_chain a c) = arg_or (ca_blokli_url a) (hd_blokli_url c)"
  "hd_blokli_dns_override (apply_chain a c) =
     (case ca_blokli_dns_override a of Some x \<Rightarrow> Some x | None \<Rightarrow> hd_blokli_dns_override c)"
  "hd_strategy (apply_chain a c) = hd_strategy c"
  "hd_hopr (apply_chain a c) = (hd_hopr c)\<lparr> uc_announce := uc_announce (hd_hopr c) \<or> 0 < ca_announce a,
     uc_network := (uc_network (hd_hopr c))
       \<lparr> un_probe_recheck_threshold := (case ca_probe_recheck_threshold a of
            Some x \<Rightarrow> dur_secs x | None \<Rightarrow> un_probe_recheck_threshold (uc_network (hd_hopr c))) \<rparr> \<rparr>"
  by (auto simp: apply_chain_def set_from_def arg_or_def Let_def split: option.split)

lemmas cli_part_fields = apply_auth_fields apply_identity_fields apply_db_fields
  apply_transport_fields apply_chain_fields


section \<open>A concrete command line\<close>

definition sample_supervisor :: "unit supervisor_config" where
  "sample_supervisor =
     \<lparr> sv_max_ssa_delivery_time = dur_secs 20, sv_max_deposit_wait = dur_secs 60,
       sv_max_recovery_time = dur_secs 7200, sv_ssas_per_request = 1,
       sv_allow_dynamic_ssa_batches = True, sv_max_served_without_progress = 2048,
       sv_max_failed_cycles = (), sv_max_recovery_idle = (), sv_max_off_front_share_fraction = (),
       sv_min_share_order_sample = (), sv_max_predeposit_packets = (),
       sv_tombstone_retention_window = (), sv_commitment_recommit_interval = (),
       sv_ssa_request_resend_interval = (),
       sv_fill = \<lparr> pf_enabled = True, pf_max_rate = 250, pf_drain_after_close = True,
         pf_finish_fraction = 0, pf_heartbeat = (), pf_loss_margin = (), pf_min_surb_reserve = () \<rparr> \<rparr>"

definition sample_user_config :: "unit user_config" where
  "sample_user_config =
     \<lparr> uc_announce = True, uc_host = \<lparr> hc_address = Host_IPv4 ''0.0.0.0'', hc_port = 9091 \<rparr>,
       uc_safe_module = \<lparr> sm_safe_address = 0, sm_module_address = 0 \<rparr>,
       uc_network =
         \<lparr> un_session_idle_timeout = dur_secs 180, un_maximum_sessions = 2048,
           un_session_establish_max_retries = 3, un_probe_recheck_threshold = dur_secs 120,
           un_probe_interval = dur_secs 60, un_announce_local_addresses = False,
           un_prefer_local_addresses = False, un_outgoing_ticket_winning_prob = None,
           un_outgoing_ticket_price = None, un_min_incoming_ticket_price = None,
           un_mixer = \<lparr> mx_capacity = 20000, mx_type = Mixer_Uniform
             \<lparr> un_min_delay = 0, un_delay_range = dur_millis 20 \<rparr> \<rparr>,
           un_pix = \<lparr> ug_num_ssa_parts = 4096, ug_ssa_part_size = 128, ug_additional_shares = None,
             ug_max_ssas_per_request = 2 \<rparr>,
           un_incoming_session_pix = user_incoming_of_lib
             \<lparr> ix_enforce_pix = False, ix_quota_range = (1, 2), ix_max_live_cycle_bytes = 3,
               ix_supervision = sample_supervisor \<rparr> \<rparr>,
       uc_ticket_storage_file = None \<rparr>"

definition sample_hoprd_config :: "(unit, unit) hoprd_config" where
  "sample_hoprd_config =
     \<lparr> hd_hopr = sample_user_config,
       hd_identity = \<lparr> id_file = ''~/id'', id_password = ''pw'', id_private_key = None \<rparr>,
       hd_db = \<lparr> db_data = ''/db'', db_initialize = True, db_force_initialize = False \<rparr>,
       hd_api = default_api \<lparr> hc_address = Host_IPv4 ''127.0.0.1'', hc_port = 4000 \<rparr>,
       hd_forwarding = \<lparr> fw_default_entry_listen_host = (V4 2130706433, 0), fw_rest = () \<rparr>,
       hd_blokli_url = default_blokli_url, hd_blokli_dns_override = None,
       hd_strategy = hopr_default_strategies () () \<rparr>"

definition sample_cli_lib :: "(unit, unit) cli_lib" where
  "sample_cli_lib =
     \<lparr> cl_read_file = (\<lambda>p. Err p), cl_parse_yaml = (\<lambda>y. Err y),
       cl_default = sample_hoprd_config,
       cl_interfaces = Ok [V4 2130706433, V4 167772161], cl_home = Some ''/home/me'',
       cl_parse_ip = (\<lambda>s. None), cl_parse_socket = (\<lambda>s. None),
       cl_host_from_str = (\<lambda>s. case split_once (CHR '':'') s of
          None \<Rightarrow> Err s
        | Some (h, p) \<Rightarrow> (case parse_unsigned 16 p of
             None \<Rightarrow> Err s | Some n \<Rightarrow> Ok \<lparr> hc_address = Host_IPv4 h, hc_port = n \<rparr>)),
       cl_is_ipv4 = (\<lambda>s. True), cl_looks_like_domain = (\<lambda>s. False),
       cl_parse_address = (\<lambda>s. Err s) \<rparr>"

definition sample_args :: cli_args where
  "sample_args = no_args\<lparr> ca_disable_api_authentication := 1, ca_api_token := Some ''12345678'',
     ca_api_host := Some ''10.0.0.1'', ca_data := Some ''~/data'',
     ca_default_session_listen_host := Some \<lparr> hc_address = Host_Domain ''auto'', hc_port = 7 \<rparr> \<rparr>"

definition sample_effective :: "(unit, unit) hoprd_config" where
  "sample_effective =
     sample_hoprd_config
       \<lparr> hd_api := (default_api \<lparr> hc_address = Host_IPv4 ''10.0.0.1'', hc_port = 3001 \<rparr>)
            \<lparr> api_auth := Auth_Token ''12345678'' \<rparr>,
         hd_db := \<lparr> db_data = ''/home/me/data'', db_initialize = True, db_force_initialize = False \<rparr>,
         hd_identity := \<lparr> id_file = ''/home/me/id'', id_password = ''pw'', id_private_key = None \<rparr>,
         hd_forwarding := \<lparr> fw_default_entry_listen_host = (V4 167772161, 7), fw_rest = () \<rparr> \<rparr>"

lemma sample_host: "cl_host_from_str sample_cli_lib ''10.0.0.1:3001'' =
    Ok \<lparr> hc_address = Host_IPv4 ''10.0.0.1'', hc_port = 3001 \<rparr>"
proof -
  have "parse_unsigned 16 ''3001'' = Some 3001"
    using parse_show_nat [of default_api_port 16] unfolding show_default_api_port
    by (simp add: default_api_port_def)
  then show ?thesis by (simp add: sample_cli_lib_def)
qed

lemma sample_listen: "resolve_session_listen_host sample_cli_lib
    \<lparr> hc_address = Host_Domain ''auto'', hc_port = 7 \<rparr> = Ok (V4 167772161, 7)"
  by (simp add: resolve_session_listen_host_def session_listen_host_auto_def detect_local_ipv4_def
      sample_cli_lib_def)

lemma sample_base: "base_config sample_cli_lib (ca_configuration_file_path sample_args) = Ok sample_hoprd_config"
  by (simp add: base_config_def sample_args_def no_args_def sample_cli_lib_def)

lemma sample_transport: "apply_transport sample_args c = c"
  by (simp add: apply_transport_def sample_args_def no_args_def set_from_def)

lemma sample_chain: "apply_chain sample_args c = c"
  by (simp add: apply_chain_def sample_args_def no_args_def set_from_def)

lemma sample_safe: "apply_safe_module sample_cli_lib sample_args sm = Ok sm"
  by (simp add: apply_safe_module_def sample_args_def no_args_def try_set_from_def)

lemma sample_listen_host: "apply_listen_host sample_cli_lib sample_args c =
    Ok (c\<lparr> hd_forwarding := (hd_forwarding c)\<lparr> fw_default_entry_listen_host := (V4 167772161, 7) \<rparr> \<rparr>)"
  by (simp add: apply_listen_host_def sample_args_def no_args_def try_set_from_def sample_listen)

lemma sample_db: "apply_db sample_args d = d\<lparr> db_data := ''~/data'' \<rparr>"
  by (simp add: apply_db_fields sample_args_def no_args_def arg_or_def)

lemma sample_identity: "apply_identity sample_args i = i"
  by (simp add: apply_identity_fields sample_args_def no_args_def arg_or_def)

lemma sample_auth: "apply_auth sample_args p = p\<lparr> api_auth := Auth_Token ''12345678'' \<rparr>"
  by (simp add: apply_auth_def sample_args_def no_args_def set_from_def)

lemma sample_api_host: "apply_api_host sample_cli_lib sample_args p =
    Ok (p\<lparr> api_host := \<lparr> hc_address = Host_IPv4 ''10.0.0.1'', hc_port = 3001 \<rparr> \<rparr>)"
  using sample_host
  by (simp add: apply_api_host_def sample_args_def no_args_def try_set_from_def set_from_def
      show_default_api_port)

lemma sample_home: "expand_home sample_cli_lib s =
    Ok (if starts_with ''~'' s then ''/home/me'' @ drop 1 s else s)"
  by (simp add: expand_home_def sample_cli_lib_def)

lemma sample_run: "hoprd_config_of_cli sample_cli_lib sample_args = Ok sample_effective"
  by (simp add: hoprd_config_of_cli_def sample_base sample_transport sample_chain sample_safe
      sample_listen_host sample_db sample_identity sample_auth sample_api_host expand_paths_def
      sample_home starts_with_def Let_def sample_effective_def sample_hoprd_config_def
      default_api_def)


end
