(* ===== verification/Daemon.thy ===== *)
theory Daemon
  imports Hoprd_Cli
begin

text \<open>
  The daemon process: \<open>main\<close> (\<open>hoprd/src/main.rs\<close>), the configuration checker \<open>hoprd-cfg\<close>
  (\<open>hoprd/src/bin/hoprd-cfg.rs\<close>), and the part of \<open>main_inner\<close> and \<open>init_rest_api\<close>
  (\<open>hoprd/src/lib.rs\<close>) that starts the API and the strategies and waits for signals.

  Parameters are the argument parser \<open>clap\<close> (the command line is its outcome), the loading of keys,
  the construction of the node (chain connection, ticket store, network: one fallible step), binding
  the API socket, and the emulation of a signal's default handler.
\<close>

section \<open>Reading the environment\<close>

text \<open>\<open>NonZeroUsize\<close> from a variable, and the stack size, which must be positive too.\<close>

definition env_positive :: "env_vars \<Rightarrow> string \<Rightarrow> nat option" where
  "env_positive env k =
     (case Option.bind (env k) (parse_unsigned 64) of
        Some n \<Rightarrow> if n = 0 then None else Some n
      | None \<Rightarrow> None)"

record runtime_threads =
  rt_cpu :: "nat option"
  rt_io :: "nat option"
  rt_stack :: "nat option"

definition runtime_threads_of_env :: "env_vars \<Rightarrow> runtime_threads" where
  "runtime_threads_of_env env =
     \<lparr> rt_cpu = env_positive env ''HOPRD_NUM_CPU_THREADS'',
       rt_io = env_positive env ''HOPRD_NUM_IO_THREADS'',
       rt_stack = env_positive env ''HOPRD_THREAD_STACK_SIZE'' \<rparr>"

text \<open>\<open>HOPRD_OTEL_EXPORT_LABELS\<close>: pairs separated by commas; malformed ones are skipped with a warning.\<close>

definition parse_label :: "string \<Rightarrow> (string \<times> string) option" where
  "parse_label pair =
     (case split_once (CHR ''='') (str_trim pair) of
        Some (k, v) \<Rightarrow>
          (let k = str_trim k; v = str_trim v
           in if k = [] \<or> v = [] then None else Some (k, v))
      | None \<Rightarrow> None)"

definition parse_labels :: "env_vars \<Rightarrow> (string \<times> string) list" where
  "parse_labels env =
     List.map_filter parse_label
       (split_on (CHR '','') (case env ''HOPRD_OTEL_EXPORT_LABELS'' of Some s \<Rightarrow> s | None \<Rightarrow> []))"

section \<open>Start-up\<close>

datatype clap_outcome =
    Clap_Parsed cli_args
  | Clap_Display
  | Clap_Display_On_Missing
  | Clap_Failed string

datatype startup_error =
    Failed_Logging
  | Failed_Args clap_outcome
  | Failed_Config string
  | Panicked string
  | Failed_Validation "string list"
  | Failed_Keys string

record ('u, 'c, 'h, 'k) daemon_env =
  de_upstream :: "'u upstream"
  de_validators :: "('u, 'c, 'h) validators"
  de_cli :: "('u, 'c) cli_lib"
  de_clap :: "string list \<Rightarrow> clap_outcome"
  de_logging :: "(string, unit) res"
  de_keys_of_private_key :: "string \<Rightarrow> (string, 'k) res"
  de_keys_of_file :: "string \<Rightarrow> string \<Rightarrow> (string, 'k) res"

fun startup_error_of_cli :: "cli_error \<Rightarrow> startup_error" where
  "startup_error_of_cli (Cli_Error e) = Failed_Config e"
| "startup_error_of_cli (Cli_Panic e) = Panicked e"

text \<open>A private key is preferred to the identity file.\<close>

definition load_keys ::
  "('u, 'c, 'h, 'k) daemon_env \<Rightarrow> identity \<Rightarrow> (startup_error, 'k) res" where
  "load_keys d i =
     map_err Failed_Keys
       (case id_private_key i of
          Some k \<Rightarrow> de_keys_of_private_key d k
        | None \<Rightarrow> de_keys_of_file d (id_password i) (id_file i))"

definition startup ::
  "('u, 'c, 'h, 'k) daemon_env \<Rightarrow> string list \<Rightarrow> (startup_error, ('u, 'c) hoprd_config \<times> 'k) res" where
  "startup d argv =
     res_bind (map_err (\<lambda>e. Failed_Logging) (de_logging d)) (\<lambda>u.
     case de_clap d argv of
       Clap_Parsed args \<Rightarrow>
         res_bind (map_err startup_error_of_cli (hoprd_config_of_cli (de_cli d) args)) (\<lambda>cfg.
         let errs = validate_hoprd_config (de_upstream d) (de_validators d) cfg
         in if errs \<noteq> [] then Err (Failed_Validation errs)
            else res_bind (load_keys d (hd_identity cfg)) (\<lambda>keys. Ok (cfg, keys)))
     | outcome \<Rightarrow> Err (Failed_Args outcome))"

text \<open>Exit codes: \<open>clap\<close> exits by itself with 0 for help and version and 2 for a usage error, a panic ends
  with 101, \<open>ExitCode::FAILURE\<close> is 1.\<close>

fun exit_code_of :: "startup_error \<Rightarrow> nat" where
  "exit_code_of (Failed_Args Clap_Display) = 0"
| "exit_code_of (Failed_Args c) = 2"
| "exit_code_of (Panicked e) = 101"
| "exit_code_of e = 1"

definition daemon_main ::
  "('u, 'c, 'h, 'k) daemon_env \<Rightarrow> (('u, 'c) hoprd_config \<Rightarrow> 'k \<Rightarrow> (string, unit) res) \<Rightarrow> string list \<Rightarrow> nat"
where
  "daemon_main d run argv =
     (case startup d argv of
        Inl e \<Rightarrow> exit_code_of e
      | Inr (cfg, keys) \<Rightarrow> (case run cfg keys of Inr u \<Rightarrow> 0 | Inl e \<Rightarrow> 1))"

section \<open>The configuration checker\<close>

datatype checker_command =
    Check_Default
  | Check_Args "string list"
  | Check_File string
  | Check_Nothing

definition validate_effective_config ::
  "('u, 'c, 'h, 'k) daemon_env \<Rightarrow> string list \<Rightarrow> (startup_error, unit) res" where
  "validate_effective_config d args =
     (case de_clap d args of
        Clap_Parsed a \<Rightarrow>
          res_bind (map_err startup_error_of_cli (hoprd_config_of_cli (de_cli d) a)) (\<lambda>cfg.
          let errs = validate_hoprd_config (de_upstream d) (de_validators d) cfg
          in if errs \<noteq> [] then Err (Failed_Validation errs) else Ok ())
      | Clap_Display \<Rightarrow> Ok ()
      | Clap_Display_On_Missing \<Rightarrow> Ok ()
      | Clap_Failed e \<Rightarrow> Err (Failed_Args (Clap_Failed e)))"

text \<open>Writing the default configuration is the only output; \<open>to_yaml\<close> is the serializer's verdict.\<close>

definition hoprd_cfg_main ::
  "('u, 'c, 'h, 'k) daemon_env \<Rightarrow> (string, string) res \<Rightarrow> checker_command \<Rightarrow> nat" where
  "hoprd_cfg_main d to_yaml cmd =
     (let result =
            (case cmd of
               Check_Default \<Rightarrow> res_bind (map_err Failed_Config to_yaml) (\<lambda>y. Ok ())
             | Check_Args args \<Rightarrow> validate_effective_config d args
             | Check_File path \<Rightarrow> validate_effective_config d [''--configurationFilePath'', path]
             | Check_Nothing \<Rightarrow> Ok ())
      in case result of Inr u \<Rightarrow> 0 | Inl (Panicked e) \<Rightarrow> 101 | Inl e \<Rightarrow> 1)"

section \<open>The REST API's parameters\<close>

record rest_api_parameters =
  ra_listen_address :: string
  ra_version :: string
  ra_hoprd_cfg :: json
  ra_cfg :: api
  ra_default_session_listen_host :: socket_addr

definition rest_listen_address :: "api \<Rightarrow> string" where
  "rest_listen_address a =
     (case hc_address (api_host a) of
        Host_IPv4 h \<Rightarrow> h @ '':'' @ show_nat (hc_port (api_host a))
      | Host_Domain h \<Rightarrow> h @ '':'' @ show_nat (hc_port (api_host a)))"

text \<open>\<open>bind_socket\<close> is the verdict of the operating system on the listen address, \<open>to_value\<close> is
  \<open>serde_json::to_value\<close>.\<close>

datatype process = P_ListenerSocket | P_RestApi | P_Strategies

definition init_rest_api ::
  "(('u, 'c) hoprd_config \<Rightarrow> (string, json) res) \<Rightarrow> (string \<Rightarrow> (string, unit) res) \<Rightarrow> string
   \<Rightarrow> ('u, 'c) hoprd_config \<Rightarrow> (string, rest_api_parameters \<times> process list) res" where
  "init_rest_api to_value bind_socket vers cfg =
     res_bind (map_err (\<lambda>e. ''failed to serialize redacted config'') (to_value (as_redacted cfg))) (\<lambda>v.
     let addr = rest_listen_address (hd_api cfg) in
     res_bind (map_err (\<lambda>e. ''REST API bind failed for '' @ addr @ '': '' @ e) (bind_socket addr)) (\<lambda>u.
     Ok (\<lparr> ra_listen_address = addr, ra_version = vers, ra_hoprd_cfg = v, ra_cfg = hd_api cfg,
           ra_default_session_listen_host = fw_default_entry_listen_host (hd_forwarding cfg) \<rparr>,
         [P_ListenerSocket, P_RestApi])))"

section \<open>Signals\<close>

datatype signal = Sig_Hup | Sig_Int | Sig_Term

datatype daemon_action =
    Act_Start process
  | Act_Drop_Node
  | Act_Drop_Processes "process list"
  | Act_Emulate signal
  | Act_Return "(string, unit) res"

record daemon_state =
  ds_node :: bool
  ds_processes :: "process list"
  ds_trace :: "daemon_action list"
  ds_done :: bool

definition act :: "daemon_action \<Rightarrow> daemon_state \<Rightarrow> daemon_state" where
  "act a s = s\<lparr> ds_trace := ds_trace s @ [a] \<rparr>"

definition drop_node :: "daemon_state \<Rightarrow> daemon_state" where
  "drop_node s = (act Act_Drop_Node s)\<lparr> ds_node := False \<rparr>"

definition drop_processes :: "daemon_state \<Rightarrow> daemon_state" where
  "drop_processes s = (act (Act_Drop_Processes (ds_processes s)) s)\<lparr> ds_processes := [] \<rparr>"

text \<open>Returning from \<open>main_inner\<close> drops what the function still owns, the node before the list of
  processes, which was declared earlier.\<close>

definition return_from :: "(string, unit) res \<Rightarrow> daemon_state \<Rightarrow> daemon_state" where
  "return_from r s =
     (let s1 = (if ds_node s then drop_node s else s);
          s2 = (if ds_processes s1 \<noteq> [] then drop_processes s1 else s1)
      in (act (Act_Return r) s2)\<lparr> ds_done := True \<rparr>)"

text \<open>One signal of the loop. \<open>emulate\<close> is the verdict of emulating the default handler: for a
  terminating signal the process normally ends there, and if it comes back the loop is left.\<close>

definition handle_signal ::
  "(signal \<Rightarrow> (string, unit) res) \<Rightarrow> signal \<Rightarrow> daemon_state \<Rightarrow> daemon_state" where
  "handle_signal emulate sig s =
     (case sig of
        Sig_Hup \<Rightarrow> s
      | _ \<Rightarrow>
          (let s1 = act (Act_Emulate sig) (drop_processes (drop_node s))
           in case emulate sig of
                Inl e \<Rightarrow> return_from (Err e) s1
              | Inr u \<Rightarrow> return_from (Ok ()) s1))"

text \<open>Starting: the node exists, the API (when enabled) is started first, then the strategies.\<close>

definition start_process :: "process \<Rightarrow> daemon_state \<Rightarrow> daemon_state" where
  "start_process p s = (act (Act_Start p) s)\<lparr> ds_processes := ds_processes s @ [p] \<rparr>"

definition initial_daemon :: daemon_state where
  "initial_daemon = \<lparr> ds_node = True, ds_processes = [], ds_trace = [], ds_done = False \<rparr>"

definition start_api ::
  "(string, rest_api_parameters \<times> process list) res \<Rightarrow> bool \<Rightarrow> daemon_state \<Rightarrow> (string, daemon_state) res"
where
  "start_api rest enabled s =
     (if enabled
      then res_bind rest (\<lambda>(p, ps). Ok (foldl (\<lambda>s p. start_process p s) s ps))
      else Ok s)"

definition start_strategies ::
  "(string, 'b) res \<Rightarrow> (string, unit) res \<Rightarrow> daemon_state \<Rightarrow> daemon_state" where
  "start_strategies built signals s =
     (case built of
        Inl e \<Rightarrow> return_from (Err e) s
      | Inr b \<Rightarrow>
          (case signals of
             Inl e \<Rightarrow> return_from (Err e) (start_process P_Strategies s)
           | Inr u \<Rightarrow> start_process P_Strategies s))"

definition start_daemon ::
  "(string, rest_api_parameters \<times> process list) res \<Rightarrow> (string, 'b) res \<Rightarrow> (string, unit) res
   \<Rightarrow> ('u, 'c) hoprd_config \<Rightarrow> daemon_state" where
  "start_daemon rest built signals cfg =
     (case start_api rest (api_enable (hd_api cfg)) initial_daemon of
        Inl e \<Rightarrow> return_from (Err e) initial_daemon
      | Inr s \<Rightarrow> start_strategies built signals s)"

text \<open>The running daemon: a signal arrives, or the stream of signals ends.\<close>

inductive daemon_step ::
  "(signal \<Rightarrow> (string, unit) res) \<Rightarrow> daemon_state \<Rightarrow> daemon_state \<Rightarrow> bool"
  for emulate :: "signal \<Rightarrow> (string, unit) res" where
  step_signal: "\<not> ds_done s \<Longrightarrow> daemon_step emulate s (handle_signal emulate sig s)"
| step_stream_ends: "\<not> ds_done s \<Longrightarrow> daemon_step emulate s (return_from (Ok ()) s)"

inductive daemon_reaches ::
  "(signal \<Rightarrow> (string, unit) res) \<Rightarrow> daemon_state \<Rightarrow> daemon_state \<Rightarrow> bool"
  for emulate :: "signal \<Rightarrow> (string, unit) res" and s0 :: daemon_state where
  reaches_refl: "daemon_reaches emulate s0 s0"
| reaches_step: "daemon_reaches emulate s0 s \<Longrightarrow> daemon_step emulate s t \<Longrightarrow> daemon_reaches emulate s0 t"

inductive_simps daemon_step_iff: "daemon_step emulate s t"

end
