(* ===== verification/Daemon_Laws.thy ===== *)
theory Daemon_Laws
  imports Daemon
begin

text \<open>
  The properties of the daemon process: the checker accepts exactly what the daemon starts with, the
  parser of labels, and the teardown on signals as an invariant of the reachable states.
\<close>

section \<open>The checker and the daemon\<close>

text \<open>The start-up got past its configuration: it ended by loading keys, or the arguments only ask for
  help.\<close>

definition past_configuration :: "(startup_error, 'a) res \<Rightarrow> bool" where
  "past_configuration r =
     (case r of
        Inr x \<Rightarrow> True
      | Inl (Failed_Keys e) \<Rightarrow> True
      | Inl (Failed_Args Clap_Display) \<Rightarrow> True
      | Inl (Failed_Args Clap_Display_On_Missing) \<Rightarrow> True
      | _ \<Rightarrow> False)"

lemma cli_errors_stop: "\<not> past_configuration (Inl (startup_error_of_cli e))"
  by (cases e) (simp_all add: past_configuration_def)

lemma load_keys_past: "past_configuration (res_bind (load_keys d i) (\<lambda>k. Ok (c, k)))"
proof (cases "load_keys d i")
  case (Inl e)
  then obtain m where "e = Failed_Keys m" by (auto simp: load_keys_def)
  then show ?thesis by (simp add: Inl past_configuration_def)
qed (simp add: past_configuration_def)

text \<open>C29: The checker accepts an argument vector exactly when the daemon, started with the same
  arguments and environment, gets past its configuration (to the loading of keys), or is only asked for
  help.\<close>

theorem checker_agrees_with_startup:
  "hoprd_cfg_main d to_yaml (Check_Args argv) = 0
     \<longleftrightarrow> past_configuration (startup (d\<lparr> de_logging := Ok () \<rparr>) argv)"
proof (cases "de_clap d argv")
  case (Clap_Parsed a)
  show ?thesis
  proof (cases "hoprd_config_of_cli (de_cli d) a")
    case (Inl e)
    then show ?thesis
      using Clap_Parsed
      by (cases e) (simp_all add: hoprd_cfg_main_def validate_effective_config_def startup_def
          past_configuration_def)
  next
    case (Inr cfg)
    have "load_keys (d\<lparr> de_logging := Ok () \<rparr>) = load_keys d" by (rule ext) (simp add: load_keys_def split: option.split)
    then show ?thesis
      using Clap_Parsed Inr
      by (simp add: hoprd_cfg_main_def validate_effective_config_def startup_def Let_def
          load_keys_past past_configuration_def [of "Inl (Failed_Validation _)"])
  qed
qed (simp_all add: hoprd_cfg_main_def validate_effective_config_def startup_def
    past_configuration_def)

lemma private_key_preferred:
  "id_private_key i = Some k \<Longrightarrow> load_keys d i = map_err Failed_Keys (de_keys_of_private_key d k)"
  by (simp add: load_keys_def)

section \<open>Labels\<close>

lemma parse_label_nonempty: "parse_label p = Some (k, v) \<Longrightarrow> k \<noteq> [] \<and> v \<noteq> []"
  by (auto simp: parse_label_def Let_def split: option.splits if_splits)

lemma parse_labels_nonempty: "(k, v) \<in> set (parse_labels env) \<Longrightarrow> k \<noteq> [] \<and> v \<noteq> []"
  by (auto simp: parse_labels_def List.map_filter_def dest: parse_label_nonempty)

lemma parse_labels_unset: "env ''HOPRD_OTEL_EXPORT_LABELS'' = None \<Longrightarrow> parse_labels env = []"
  by (simp add: parse_labels_def List.map_filter_def parse_label_def str_trim_def)

section \<open>Teardown\<close>

definition terminated ::
  "(signal \<Rightarrow> (string, unit) res) \<Rightarrow> signal \<Rightarrow> daemon_state \<Rightarrow> daemon_state" where
  "terminated emulate sig s =
     \<lparr> ds_node = False, ds_processes = [],
       ds_trace = ds_trace s @ [Act_Drop_Node, Act_Drop_Processes (ds_processes s), Act_Emulate sig,
                                Act_Return (emulate sig)],
       ds_done = True \<rparr>"

definition stream_ended :: "daemon_state \<Rightarrow> daemon_state" where
  "stream_ended s =
     \<lparr> ds_node = False, ds_processes = [],
       ds_trace = ds_trace s @ [Act_Drop_Node, Act_Drop_Processes (ds_processes s),
                                Act_Return (Ok ())],
       ds_done = True \<rparr>"

lemma handle_signal_eq:
  "handle_signal emulate sig s = (if sig = Sig_Hup then s else terminated emulate sig s)"
  by (cases sig; cases "emulate sig")
     (auto simp: handle_signal_def terminated_def return_from_def drop_processes_def drop_node_def
       act_def Let_def)

lemma return_from_running:
  "ds_node s \<Longrightarrow> ds_processes s \<noteq> [] \<Longrightarrow> return_from (Ok ()) s = stream_ended s"
  by (simp add: return_from_def stream_ended_def drop_processes_def drop_node_def act_def Let_def)

text \<open>What a start-up that succeeded looks like.\<close>

definition started_processes :: "('u, 'c) hoprd_config \<Rightarrow> process list" where
  "started_processes cfg =
     (if api_enable (hd_api cfg) then [P_ListenerSocket, P_RestApi] else []) @ [P_Strategies]"

definition running_daemon :: "('u, 'c) hoprd_config \<Rightarrow> daemon_state" where
  "running_daemon cfg =
     \<lparr> ds_node = True, ds_processes = started_processes cfg,
       ds_trace = List.map Act_Start (started_processes cfg), ds_done = False \<rparr>"

lemma init_rest_api_processes:
  "init_rest_api to_value bind_socket vers cfg = Ok (p, ps) \<Longrightarrow> ps = [P_ListenerSocket, P_RestApi]"
  by (auto simp: init_rest_api_def Let_def res_bind_Ok_iff)

lemma return_from_done: "ds_done (return_from r s)"
  by (simp add: return_from_def Let_def)

lemma foldl_start:
  "foldl (\<lambda>s p. start_process p s) s ps =
     s\<lparr> ds_processes := ds_processes s @ ps, ds_trace := ds_trace s @ List.map Act_Start ps \<rparr>"
  by (induction ps arbitrary: s) (simp_all add: start_process_def act_def)

lemma start_daemon_running:
  assumes run: "\<not> ds_done (start_daemon rest built signals cfg)"
    and rest: "\<And>p ps. rest = Ok (p, ps) \<Longrightarrow> ps = [P_ListenerSocket, P_RestApi]"
  shows "start_daemon rest built signals cfg = running_daemon cfg"
proof -
  obtain s where s: "start_api rest (api_enable (hd_api cfg)) initial_daemon = Inr s"
    using run
    by (cases "start_api rest (api_enable (hd_api cfg)) initial_daemon")
       (simp_all add: start_daemon_def return_from_done)
  have st: "start_daemon rest built signals cfg = start_process P_Strategies s"
    using run s
    by (cases built; cases signals)
       (simp_all add: start_daemon_def start_strategies_def return_from_done)
  show ?thesis
  proof (cases "api_enable (hd_api cfg)")
    case True
    obtain p ps where r: "rest = Inr (p, ps)"
      using s True by (auto simp: start_api_def res_bind_Ok_iff)
    then have "s = foldl (\<lambda>s p. start_process p s) initial_daemon [P_ListenerSocket, P_RestApi]"
      using s True rest [OF r] by (simp add: start_api_def)
    then show ?thesis
      using True by (simp add: st running_daemon_def started_processes_def initial_daemon_def
          start_process_def act_def)
  next
    case False
    then have "s = initial_daemon" using s by (simp add: start_api_def)
    then show ?thesis
      using False by (simp add: st running_daemon_def started_processes_def
          initial_daemon_def start_process_def act_def)
  qed
qed

lemma start_rest_running:
  "\<not> ds_done (start_daemon (init_rest_api to_value bind_socket vers cfg) built signals cfg) \<Longrightarrow>
     start_daemon (init_rest_api to_value bind_socket vers cfg) built signals cfg = running_daemon cfg"
  by (erule start_daemon_running) (rule init_rest_api_processes)

lemma done_no_step: "ds_done s \<Longrightarrow> \<not> daemon_step emulate s t"
  by (simp add: daemon_step_iff)

lemma done_is_final: "ds_done s \<Longrightarrow> daemon_reaches emulate s t \<longleftrightarrow> t = s"
proof
  assume d: "ds_done s" and "daemon_reaches emulate s t"
  from this(2) show "t = s"
  proof induction
    case (reaches_step s' t)
    then show ?case using done_no_step [OF d] by blast
  qed simp
qed (simp add: reaches_refl)

lemma step_from_running:
  "daemon_step emulate (running_daemon cfg) t \<longleftrightarrow>
     t = running_daemon cfg \<or> t = stream_ended (running_daemon cfg)
     \<or> (\<exists>sig. sig \<noteq> Sig_Hup \<and> t = terminated emulate sig (running_daemon cfg))"
proof -
  have r: "return_from (Ok ()) (running_daemon cfg) = stream_ended (running_daemon cfg)"
    by (rule return_from_running) (simp_all add: running_daemon_def started_processes_def)
  have n: "\<not> ds_done (running_daemon cfg)" by (simp add: running_daemon_def)
  have "(\<exists>sig. t = handle_signal emulate sig (running_daemon cfg)) \<longleftrightarrow>
      t = running_daemon cfg
      \<or> (\<exists>sig. sig \<noteq> Sig_Hup \<and> t = terminated emulate sig (running_daemon cfg))"
    by (metis handle_signal_eq)
  then show ?thesis
    using n r by (auto simp: daemon_step_iff)
qed

lemma reaches_from_running:
  "daemon_reaches emulate (running_daemon cfg) t \<longleftrightarrow>
     t = running_daemon cfg \<or> t = stream_ended (running_daemon cfg)
     \<or> (\<exists>sig. sig \<noteq> Sig_Hup \<and> t = terminated emulate sig (running_daemon cfg))"
proof
  assume "daemon_reaches emulate (running_daemon cfg) t"
  then show "t = running_daemon cfg \<or> t = stream_ended (running_daemon cfg)
     \<or> (\<exists>sig. sig \<noteq> Sig_Hup \<and> t = terminated emulate sig (running_daemon cfg))"
  proof induction
    case (reaches_step s t)
    have "ds_done (stream_ended u)" "ds_done (terminated emulate sig u)" for u sig
      by (simp_all add: stream_ended_def terminated_def)
    then have "s = running_daemon cfg"
      using reaches_step done_no_step by blast
    then show ?case
      using reaches_step by (simp add: step_from_running)
  qed simp
next
  assume "t = running_daemon cfg \<or> t = stream_ended (running_daemon cfg)
     \<or> (\<exists>sig. sig \<noteq> Sig_Hup \<and> t = terminated emulate sig (running_daemon cfg))"
  then have "daemon_step emulate (running_daemon cfg) t"
    by (simp only: step_from_running)
  then show "daemon_reaches emulate (running_daemon cfg) t"
    by (rule reaches_step [OF reaches_refl])
qed

text \<open>C30: From a start-up that failed nothing more happens; a running daemon stays as it is under any
  number of HUP signals, and otherwise ends by dropping the node, then all the processes it started,
  and only then emulating the default handler of the terminating signal.\<close>

theorem daemon_teardown_exact:
  "daemon_reaches emulate (start_daemon (init_rest_api to_value bind_socket vers cfg) built signals cfg) t
   \<longleftrightarrow>
   (let s0 = start_daemon (init_rest_api to_value bind_socket vers cfg) built signals cfg
    in if ds_done s0 then t = s0
       else s0 = running_daemon cfg
            \<and> (t = s0 \<or> t = stream_ended s0
               \<or> (\<exists>sig. sig \<noteq> Sig_Hup \<and> t = terminated emulate sig s0)))"
proof (cases "ds_done (start_daemon (init_rest_api to_value bind_socket vers cfg) built signals cfg)")
  case True
  then show ?thesis by (simp add: done_is_final)
next
  case False
  have "\<not> ds_done (running_daemon cfg)" by (simp add: running_daemon_def)
  then show ?thesis
    by (simp add: start_rest_running [OF False] reaches_from_running Let_def)
qed

text \<open>A start-up that fails after the API is up drops the API again.\<close>

lemma failed_start_leaves_nothing:
  "ds_done (start_daemon rest built signals cfg) \<Longrightarrow>
     ds_processes (start_daemon rest built signals cfg) = []
     \<and> \<not> ds_node (start_daemon rest built signals cfg)"
proof -
  have r: "ds_processes (return_from r s) = [] \<and> \<not> ds_node (return_from r s)" for r s
    by (simp add: return_from_def drop_processes_def drop_node_def act_def Let_def)
  assume d: "ds_done (start_daemon rest built signals cfg)"
  show ?thesis
  proof (cases "start_api rest (api_enable (hd_api cfg)) initial_daemon")
    case (Inl e)
    then show ?thesis by (simp add: start_daemon_def r)
  next
    case (Inr s)
    have "\<not> ds_done s"
      using Inr by (auto simp: start_api_def foldl_start initial_daemon_def res_bind_Ok_iff split: if_splits)
    then show ?thesis
      using d by (cases built; cases signals)
        (simp_all add: start_daemon_def Inr start_strategies_def r start_process_def act_def)
  qed
qed

end
