(* ===== verification/Telemetry.thy ===== *)
theory Telemetry
  imports Strategy Keyed_Table
begin

unbundle bit_operations_syntax

text \<open>
  Telemetry (\<open>hoprd/src/telemetry.rs\<close>): the decision whether and how OpenTelemetry is exported, read
  from the environment; the export intervals of metrics; the providers and readers \<open>init_logger\<close> builds;
  the shutdown of what was built; and the conversion of an event into a log record.

  Exporters, providers and readers are library objects: a provider is the list of its readers. Building
  an exporter and installing the log layers may fail, which is a parameter. A duration is a number of
  nanoseconds, an environment maps names to values.
\<close>

section \<open>The decision\<close>

type_synonym environment = "string \<Rightarrow> string option"

definition hoprd_otlp_endpoint_key :: string where
  "hoprd_otlp_endpoint_key = ''HOPRD_OTLP_ENDPOINT''"

definition legacy_otlp_endpoint_key :: string where
  "legacy_otlp_endpoint_key = ''OTEL_EXPORTER_OTLP_ENDPOINT''"

datatype otlp_signal = Signal_Traces | Signal_Logs | Signal_Metrics

fun signal_bits :: "otlp_signal \<Rightarrow> 8 word" where
  "signal_bits Signal_Traces = 1"
| "signal_bits Signal_Logs = 2"
| "signal_bits Signal_Metrics = 4"

fun signal_name :: "otlp_signal \<Rightarrow> string" where
  "signal_name Signal_Traces = ''traces''"
| "signal_name Signal_Logs = ''logs''"
| "signal_name Signal_Metrics = ''metrics''"

definition signal_from_str :: "string \<Rightarrow> otlp_signal option" where
  "signal_from_str s =
     (if s = ''traces'' then Some Signal_Traces
      else if s = ''logs'' then Some Signal_Logs
      else if s = ''metrics'' then Some Signal_Metrics
      else None)"

text \<open>The derived order of the signals.\<close>

instantiation otlp_signal :: linorder
begin

definition less_eq_otlp_signal :: "otlp_signal \<Rightarrow> otlp_signal \<Rightarrow> bool" where
  "less_eq_otlp_signal a b \<longleftrightarrow> signal_bits a \<le> signal_bits b"

definition less_otlp_signal :: "otlp_signal \<Rightarrow> otlp_signal \<Rightarrow> bool" where
  "less_otlp_signal a b \<longleftrightarrow> signal_bits a < signal_bits b"

instance
proof
  fix a b :: otlp_signal
  show "a \<le> b \<Longrightarrow> b \<le> a \<Longrightarrow> a = b"
    by (cases a; cases b) (simp_all add: less_eq_otlp_signal_def word_le_nat_alt)
qed (auto simp: less_eq_otlp_signal_def less_otlp_signal_def)

end

datatype otlp_transport = Transport_Grpc | Transport_Http

definition transport_from_str :: "string \<Rightarrow> otlp_transport option" where
  "transport_from_str s =
     (if s = ''grpc'' then Some Transport_Grpc
      else if s = ''http'' \<or> s = ''https'' then Some Transport_Http
      else None)"

definition scheme_separator :: string where
  "scheme_separator = ''://''"

text \<open>\<open>split_once("://")\<close>, the first occurrence of a text.\<close>

fun split_once_str :: "string \<Rightarrow> string \<Rightarrow> (string \<times> string) option" where
  "split_once_str d [] = (if d = [] then Some ([], []) else None)"
| "split_once_str d (c # s) =
     (if starts_with d (c # s) then Some ([], drop (length d) (c # s))
      else map_option (\<lambda>(a, b). (c # a, b)) (split_once_str d s))"

definition transport_from_env :: "environment \<Rightarrow> otlp_transport" where
  "transport_from_env env =
     (case env legacy_otlp_endpoint_key of
        Some raw \<Rightarrow>
          (case transport_from_str
                  (case split_once_str scheme_separator (str_trim raw) of
                     Some (scheme, rest) \<Rightarrow> scheme | None \<Rightarrow> []) of
             Some t \<Rightarrow> t | None \<Rightarrow> Transport_Grpc)
      | None \<Rightarrow> Transport_Grpc)"

text \<open>A non-empty \<open>HOPRD_OTLP_ENDPOINT\<close> replaces the endpoint of the exporter libraries.\<close>

definition apply_otlp_endpoint_override :: "environment \<Rightarrow> environment" where
  "apply_otlp_endpoint_override env =
     (case env hoprd_otlp_endpoint_key of
        None \<Rightarrow> env
      | Some v \<Rightarrow>
          if str_trim v = [] then env
          else env(legacy_otlp_endpoint_key := Some (str_trim v)))"

definition resolve_service_name :: "string \<Rightarrow> environment \<Rightarrow> string" where
  "resolve_service_name pkg env =
     (case env ''OTEL_SERVICE_NAME'' of
        Some s \<Rightarrow> if str_trim s = [] then pkg else str_trim s
      | None \<Rightarrow> pkg)"

record telemetry_identity =
  ti_node_address :: string
  ti_node_peer_id :: string
  ti_extra_labels :: "(string \<times> string) list"

definition resource_attributes :: "telemetry_identity \<Rightarrow> (string \<times> string) list" where
  "resource_attributes ti =
     [(''node_address'', ti_node_address ti), (''node_peer_id'', ti_node_peer_id ti)]
     @ ti_extra_labels ti"

record otlp_config =
  oc_enabled :: bool
  oc_transport :: otlp_transport
  oc_signals :: "8 word"

definition otlp_enabled :: "environment \<Rightarrow> bool" where
  "otlp_enabled env =
     (let auto = (case env hoprd_otlp_endpoint_key of None \<Rightarrow> False | Some v \<Rightarrow> str_trim v \<noteq> [])
      in case env ''HOPRD_USE_OPENTELEMETRY'' of
           None \<Rightarrow> auto
         | Some raw \<Rightarrow>
             (let v = ascii_lowercase (str_trim raw)
              in if v \<in> {''1'', ''true'', ''yes'', ''on''} then True
                 else if v \<in> {''0'', ''false'', ''no'', ''off''} then False
                 else auto))"

definition add_signal :: "8 word \<Rightarrow> string \<Rightarrow> 8 word" where
  "add_signal w raw =
     (let s = str_trim raw
      in if s = [] then w
         else case signal_from_str s of Some sig \<Rightarrow> w OR signal_bits sig | None \<Rightarrow> w)"

definition otlp_signals :: "environment \<Rightarrow> 8 word" where
  "otlp_signals env =
     (let w = (case env ''HOPRD_OTEL_SIGNALS'' of
                 Some raw \<Rightarrow> foldl add_signal 0 (split_on (CHR '','') raw)
               | None \<Rightarrow> signal_bits Signal_Traces)
      in if w = 0 then signal_bits Signal_Traces else w)"

definition otlp_config_from_env :: "environment \<Rightarrow> otlp_config" where
  "otlp_config_from_env env =
     \<lparr> oc_enabled = otlp_enabled env, oc_transport = transport_from_env env,
       oc_signals = otlp_signals env \<rparr>"

definition has_signal :: "otlp_config \<Rightarrow> otlp_signal \<Rightarrow> bool" where
  "has_signal c s \<longleftrightarrow> oc_signals c AND signal_bits s = signal_bits s"

section \<open>Export intervals of metrics\<close>

record metric_intervals =
  mi_default :: "duration option"
  mi_prefixes :: "(string \<times> duration) list"

definition positive :: "nat \<Rightarrow> nat option" where
  "positive n = (if n = 0 then None else Some n)"

definition u64_max :: nat where
  "u64_max = 2 ^ 64 - 1"

text \<open>A plain number is in milliseconds; otherwise the suffixes are tried in the order ms, s, m. A zero
  is refused wherever it is read.\<close>

definition parse_export_interval :: "string \<Rightarrow> duration option" where
  "parse_export_interval value =
     (let trimmed = str_trim value; normalized = ascii_lowercase trimmed;
          suffixed = (\<lambda>suf. Option.bind (strip_suffix suf normalized) (\<lambda>v. parse_unsigned 64 (str_trim v)))
      in if trimmed = [] then None
         else case parse_unsigned 64 trimmed of
           Some ms \<Rightarrow> map_option dur_millis (positive ms)
         | None \<Rightarrow>
             (case suffixed ''ms'' of
                Some ms \<Rightarrow> map_option dur_millis (positive ms)
              | None \<Rightarrow>
                  (case suffixed ''s'' of
                     Some s \<Rightarrow> map_option dur_secs (positive s)
                   | None \<Rightarrow>
                       (case suffixed ''m'' of
                          Some m \<Rightarrow> map_option (\<lambda>m. dur_secs (min (m * 60) u64_max)) (positive m)
                        | None \<Rightarrow> None))))"

text \<open>Setting the interval of a prefix: in place when the prefix is known, at the end otherwise.\<close>

definition set_interval :: "(string \<times> duration) list \<Rightarrow> string \<Rightarrow> duration \<Rightarrow> (string \<times> duration) list" where
  "set_interval = assoc_put"

definition add_interval_token :: "metric_intervals \<Rightarrow> string \<Rightarrow> metric_intervals" where
  "add_interval_token c raw =
     (let token = str_trim raw
      in if token = [] then c
         else case split_once (CHR ''='') token of
           Some (prefix, interval_raw) \<Rightarrow>
             (let prefix = str_trim prefix
              in if prefix = [] then c
                 else case parse_export_interval interval_raw of
                   None \<Rightarrow> c
                 | Some d \<Rightarrow> c\<lparr> mi_prefixes := set_interval (mi_prefixes c) prefix d \<rparr>)
         | None \<Rightarrow>
             (case parse_export_interval token of
                None \<Rightarrow> c
              | Some d \<Rightarrow> c\<lparr> mi_default := Some d \<rparr>))"

definition metric_intervals_of :: "string \<Rightarrow> metric_intervals option" where
  "metric_intervals_of raw =
     (let c = foldl add_interval_token \<lparr> mi_default = None, mi_prefixes = [] \<rparr> (split_on (CHR '','') raw)
      in if mi_default c = None \<and> mi_prefixes c = [] then None else Some c)"

definition metric_intervals_from_env :: "environment \<Rightarrow> metric_intervals option" where
  "metric_intervals_from_env env =
     Option.bind (env ''HOPRD_METRIC_EXPORT_INTERVAL'') metric_intervals_of"

section \<open>Initialisation\<close>

datatype metric_reader = Otlp_Reader otlp_transport duration | Prometheus_Reader

type_synonym meter_provider = "metric_reader list"

record telemetry_handles =
  th_tracer :: bool
  th_logger :: bool
  th_meter :: "meter_provider option"
  th_prefixed :: "(string \<times> meter_provider) list"

definition no_handles :: telemetry_handles where
  "no_handles = \<lparr> th_tracer = False, th_logger = False, th_meter = None, th_prefixed = [] \<rparr>"

datatype log_layer = Trace_Layer | Logs_Layer

definition prefixed_provider :: "otlp_transport \<Rightarrow> string \<Rightarrow> duration \<Rightarrow> meter_provider" where
  "prefixed_provider t prefix d =
     Otlp_Reader t d # (if starts_with ''hopr_session'' prefix then [] else [Prometheus_Reader])"

definition default_metric_interval :: "metric_intervals option \<Rightarrow> duration" where
  "default_metric_interval mi =
     (case Option.bind mi mi_default of Some d \<Rightarrow> d | None \<Rightarrow> dur_secs 60)"

text \<open>The metrics part: the exporter of the default provider, then one per prefix, any of which may fail;
  without the metrics signal only the text exporter reads.\<close>

definition init_metrics ::
  "(otlp_signal \<Rightarrow> otlp_transport \<Rightarrow> (string, unit) res) \<Rightarrow> otlp_config \<Rightarrow> metric_intervals option
   \<Rightarrow> (string, meter_provider \<times> (string \<times> meter_provider) list) res" where
  "init_metrics build c mi =
     (if has_signal c Signal_Metrics
      then res_bind (build Signal_Metrics (oc_transport c)) (\<lambda>u.
           res_bind (traverse_res
               (\<lambda>(p, d). res_bind (build Signal_Metrics (oc_transport c))
                  (\<lambda>u. Ok (p, prefixed_provider (oc_transport c) p d)))
               (case mi of None \<Rightarrow> [] | Some m \<Rightarrow> mi_prefixes m)) (\<lambda>ps.
           Ok ([Otlp_Reader (oc_transport c) (default_metric_interval mi), Prometheus_Reader], ps)))
      else Ok ([Prometheus_Reader], []))"

text \<open>The exporter of a signal is built when the signal is exported.\<close>

definition exporter_for ::
  "(otlp_signal \<Rightarrow> otlp_transport \<Rightarrow> (string, unit) res) \<Rightarrow> otlp_config \<Rightarrow> otlp_signal
   \<Rightarrow> (string, unit) res" where
  "exporter_for build c sig = (if has_signal c sig then build sig (oc_transport c) else Ok ())"

definition signal_layers :: "otlp_config \<Rightarrow> log_layer list" where
  "signal_layers c =
     (if has_signal c Signal_Traces then [Trace_Layer] else [])
     @ (if has_signal c Signal_Logs then [Logs_Layer] else [])"

text \<open>Exporting: tracer, logger, metrics and log layers in this order; the handles built so far are
  returned with the result.\<close>

definition start_exporting ::
  "(otlp_signal \<Rightarrow> otlp_transport \<Rightarrow> (string, unit) res) \<Rightarrow> (log_layer list \<Rightarrow> (string, unit) res)
   \<Rightarrow> otlp_config \<Rightarrow> metric_intervals option \<Rightarrow> telemetry_handles \<times> (string, log_layer list) res" where
  "start_exporting build install c mi =
     (case exporter_for build c Signal_Traces of
        Inl e \<Rightarrow> (no_handles, Err e)
      | Inr u1 \<Rightarrow>
          (let h1 = no_handles\<lparr> th_tracer := has_signal c Signal_Traces \<rparr>
           in case exporter_for build c Signal_Logs of
                Inl e \<Rightarrow> (h1, Err e)
              | Inr u2 \<Rightarrow>
                  (let h2 = h1\<lparr> th_logger := has_signal c Signal_Logs \<rparr>
                   in case init_metrics build c mi of
                        Inl e \<Rightarrow> (h2, Err e)
                      | Inr (m, ps) \<Rightarrow>
                          (h2\<lparr> th_prefixed := ps, th_meter := Some m \<rparr>,
                           res_bind (install (signal_layers c)) (\<lambda>u. Ok (signal_layers c))))))"

text \<open>On an error the handles are dropped.\<close>

definition init_logger ::
  "(otlp_signal \<Rightarrow> otlp_transport \<Rightarrow> (string, unit) res) \<Rightarrow> (log_layer list \<Rightarrow> (string, unit) res)
   \<Rightarrow> environment \<Rightarrow> telemetry_handles \<times> (string, log_layer list) res" where
  "init_logger build install env0 =
     (let env = apply_otlp_endpoint_override env0; c = otlp_config_from_env env
      in if oc_enabled c then start_exporting build install c (metric_intervals_from_env env)
         else (no_handles\<lparr> th_meter := Some [Prometheus_Reader] \<rparr>, Ok []))"

text \<open>Dropping the handles shuts down what was built, in this order.\<close>

datatype shutdown = Shutdown_Tracer | Shutdown_Logger | Shutdown_Meter | Shutdown_Prefixed string

definition drop_handles :: "telemetry_handles \<Rightarrow> shutdown list" where
  "drop_handles h =
     (if th_tracer h then [Shutdown_Tracer] else [])
     @ (if th_logger h then [Shutdown_Logger] else [])
     @ (case th_meter h of Some m \<Rightarrow> [Shutdown_Meter] | None \<Rightarrow> [])
     @ List.map (Shutdown_Prefixed \<circ> fst) (th_prefixed h)"

section \<open>Events as log records\<close>

datatype any_value = Any_Int int | Any_Bool bool | Any_String string

datatype field_value =
    Field_I64 "64 word"
  | Field_U64 "64 word"
  | Field_Bool bool
  | Field_Str string
  | Field_Error string
  | Field_Debug string

record event_visitor =
  ev_body :: "string option"
  ev_attributes :: "(string \<times> any_value) list"
  ev_timestamp :: "nat option"

definition empty_visitor :: event_visitor where
  "empty_visitor = \<lparr> ev_body = None, ev_attributes = [], ev_timestamp = None \<rparr>"

fun any_to_string :: "any_value \<Rightarrow> string" where
  "any_to_string (Any_Int i) = show_int i"
| "any_to_string (Any_Bool b) = (if b then ''true'' else ''false'')"
| "any_to_string (Any_String s) = s"

definition body_or_attribute :: "string \<Rightarrow> any_value \<Rightarrow> event_visitor \<Rightarrow> event_visitor" where
  "body_or_attribute field v ev =
     (if field = ''message'' then ev\<lparr> ev_body := Some (any_to_string v) \<rparr>
      else ev\<lparr> ev_attributes := ev_attributes ev @ [(field, v)] \<rparr>)"

definition maybe_timestamp :: "string \<Rightarrow> nat \<Rightarrow> event_visitor \<Rightarrow> event_visitor" where
  "maybe_timestamp field ms ev =
     (if field = ''timestamp'' \<and> ev_timestamp ev = None
      then ev\<lparr> ev_timestamp := Some ms \<rparr> else ev)"

fun record_field :: "string \<times> field_value \<Rightarrow> event_visitor \<Rightarrow> event_visitor" where
  "record_field (f, Field_I64 w) ev =
     body_or_attribute f (Any_Int (sint w))
       (if 0 \<le> sint w then maybe_timestamp f (nat (sint w)) ev else ev)"
| "record_field (f, Field_U64 w) ev =
     body_or_attribute f
       (if unat w < 2 ^ 63 then Any_Int (int (unat w)) else Any_String (show_nat (unat w)))
       (maybe_timestamp f (unat w) ev)"
| "record_field (f, Field_Bool b) ev = body_or_attribute f (Any_Bool b) ev"
| "record_field (f, Field_Str s) ev = body_or_attribute f (Any_String s) ev"
| "record_field (f, Field_Error s) ev = body_or_attribute f (Any_String s) ev"
| "record_field (f, Field_Debug s) ev = body_or_attribute f (Any_String s) ev"

datatype level = Level_Error | Level_Warn | Level_Info | Level_Debug | Level_Trace

fun level_text :: "level \<Rightarrow> string" where
  "level_text Level_Error = ''ERROR''"
| "level_text Level_Warn = ''WARN''"
| "level_text Level_Info = ''INFO''"
| "level_text Level_Debug = ''DEBUG''"
| "level_text Level_Trace = ''TRACE''"

record event_metadata =
  em_level :: level
  em_target :: string
  em_module_path :: "string option"
  em_file :: "string option"
  em_line :: "nat option"

record log_record =
  lr_timestamp :: nat
  lr_observed :: nat
  lr_target :: string
  lr_severity :: string
  lr_body :: "string option"
  lr_attributes :: "(string \<times> any_value) list"

definition on_event :: "nat \<Rightarrow> event_metadata \<Rightarrow> (string \<times> field_value) list \<Rightarrow> log_record" where
  "on_event now m fs =
     (let ev = fold record_field fs empty_visitor;
          t = (case ev_timestamp ev of Some t \<Rightarrow> t | None \<Rightarrow> now)
      in \<lparr> lr_timestamp = t, lr_observed = t, lr_target = em_target m,
           lr_severity = level_text (em_level m), lr_body = ev_body ev,
           lr_attributes =
             (case em_module_path m of Some p \<Rightarrow> [(''module_path'', Any_String p)] | None \<Rightarrow> [])
             @ (case em_file m of Some f \<Rightarrow> [(''file'', Any_String f)] | None \<Rightarrow> [])
             @ (case em_line m of Some l \<Rightarrow> [(''line'', Any_Int (int l))] | None \<Rightarrow> [])
             @ [(''target'', Any_String (em_target m))] @ ev_attributes ev \<rparr>)"

end
