(* ===== verification/Telemetry_Laws.thy ===== *)
theory Telemetry_Laws
  imports Telemetry
begin

text \<open>
  The properties of telemetry: which signals are exported, the export intervals as a last-wins table, the
  readers of the providers that are built, and log records.
\<close>

section \<open>Signals\<close>

lemma has_bit: "(w :: 8 word) AND 2 ^ n = 2 ^ n \<longleftrightarrow> bit w n" if "n < 8"
proof
  assume "w AND 2 ^ n = 2 ^ n"
  then have "bit (w AND 2 ^ n) n = bit (2 ^ n :: 8 word) n" by simp
  then show "bit w n" using that by (simp add: bit_simps)
next
  assume "bit w n"
  then show "w AND 2 ^ n = 2 ^ n"
    by (intro bit_word_eqI) (auto simp: bit_simps)
qed

lemma has_signal_bit:
  "has_signal c Signal_Traces \<longleftrightarrow> bit (oc_signals c) 0"
  "has_signal c Signal_Logs \<longleftrightarrow> bit (oc_signals c) 1"
  "has_signal c Signal_Metrics \<longleftrightarrow> bit (oc_signals c) 2"
  using has_bit [of 0 "oc_signals c"] has_bit [of 1 "oc_signals c"] has_bit [of 2 "oc_signals c"]
  by (simp_all add: has_signal_def)

lemma or_signal:
  "has_signal (c\<lparr> oc_signals := w OR signal_bits a \<rparr>) b \<longleftrightarrow> a = b \<or> has_signal (c\<lparr> oc_signals := w \<rparr>) b"
  by (cases a; cases b) (simp_all add: has_signal_bit bit_simps)

definition named_signals :: "string \<Rightarrow> otlp_signal list" where
  "named_signals raw = List.map_filter (signal_from_str \<circ> str_trim) (split_on (CHR '','') raw)"

lemma add_signal_eq:
  "add_signal w raw = (case signal_from_str (str_trim raw) of Some s \<Rightarrow> w OR signal_bits s | None \<Rightarrow> w)"
  by (simp add: add_signal_def signal_from_str_def Let_def)

lemma fold_add_signal:
  "has_signal (c\<lparr> oc_signals := foldl add_signal w raws \<rparr>) b \<longleftrightarrow>
     b \<in> set (List.map_filter (signal_from_str \<circ> str_trim) raws) \<or> has_signal (c\<lparr> oc_signals := w \<rparr>) b"
proof (induction raws arbitrary: w)
  case Nil
  then show ?case by (simp add: List.map_filter_def)
next
  case (Cons r raws)
  then show ?case
    by (cases "signal_from_str (str_trim r)") (auto simp: add_signal_eq or_signal List.map_filter_def)
qed

lemma has_no_signal: "\<not> has_signal (c\<lparr> oc_signals := 0 \<rparr>) b"
  by (cases b) (simp_all add: has_signal_def)

lemma fold_add_signal_zero:
  "foldl add_signal 0 raws = 0 \<longleftrightarrow> List.map_filter (signal_from_str \<circ> str_trim) raws = []"
proof (induction raws rule: rev_induct)
  case Nil
  then show ?case by (simp add: List.map_filter_def)
next
  case (snoc r raws)
  have "w OR signal_bits s \<noteq> 0" for w s
    by (cases s) (auto simp: or_eq_0_iff)
  then show ?case
    using snoc by (cases "signal_from_str (str_trim r)") (auto simp: add_signal_eq List.map_filter_def)
qed

text \<open>The exported signals are the named ones, and traces when none is named.\<close>

lemma exported_signals:
  "has_signal (otlp_config_from_env env) b \<longleftrightarrow>
     (let named = (case env ''HOPRD_OTEL_SIGNALS'' of Some raw \<Rightarrow> named_signals raw | None \<Rightarrow> [])
      in if named = [] then b = Signal_Traces else b \<in> set named)"
proof -
  have c: "otlp_config_from_env env =
      (otlp_config_from_env env)\<lparr> oc_signals := otlp_signals env \<rparr>"
    by (simp add: otlp_config_from_env_def)
  have t: "has_signal (d\<lparr> oc_signals := signal_bits Signal_Traces \<rparr>) b \<longleftrightarrow> b = Signal_Traces" for d
    by (cases b) (simp_all add: has_signal_def)
  show ?thesis
  proof (cases "env ''HOPRD_OTEL_SIGNALS''")
    case None
    then show ?thesis
      by (subst c) (simp add: otlp_signals_def t [simplified] Let_def)
  next
    case (Some raw)
    then show ?thesis
      by (subst c)
         (simp add: otlp_signals_def t [simplified] Let_def fold_add_signal fold_add_signal_zero
           named_signals_def has_no_signal)
  qed
qed

section \<open>Export intervals\<close>

interpretation intervals: keyed_table map_of set_interval assoc_remove distinct_keys
  by unfold_locales
     (simp_all add: set_interval_def map_of_assoc_put map_of_assoc_remove distinct_assoc_put
       distinct_assoc_remove)

text \<open>What one entry of the variable says: an interval for a prefix, or the default interval.\<close>

definition interval_entry :: "string \<Rightarrow> (string option \<times> duration) option" where
  "interval_entry raw =
     (let token = str_trim raw
      in case split_once (CHR ''='') token of
           Some (p, v) \<Rightarrow>
             if str_trim p = [] then None
             else map_option (\<lambda>d. (Some (str_trim p), d)) (parse_export_interval v)
         | None \<Rightarrow> map_option (\<lambda>d. (None, d)) (parse_export_interval token))"

definition interval_entries :: "string \<Rightarrow> (string option \<times> duration) list" where
  "interval_entries raw = List.map_filter interval_entry (split_on (CHR '','') raw)"

definition put_entry :: "metric_intervals \<Rightarrow> string option \<times> duration \<Rightarrow> metric_intervals" where
  "put_entry c e =
     (case e of
        (Some p, d) \<Rightarrow> c\<lparr> mi_prefixes := set_interval (mi_prefixes c) p d \<rparr>
      | (None, d) \<Rightarrow> c\<lparr> mi_default := Some d \<rparr>)"

lemma parse_empty_interval: "parse_export_interval [] = None"
  by (simp add: parse_export_interval_def str_trim_def)

lemma add_interval_token_eq:
  "add_interval_token c raw = (case interval_entry raw of None \<Rightarrow> c | Some e \<Rightarrow> put_entry c e)"
  by (auto simp: add_interval_token_def interval_entry_def put_entry_def Let_def parse_empty_interval
      split: option.splits)

lemma fold_add_interval_token:
  "foldl add_interval_token c raws = foldl put_entry c (List.map_filter interval_entry raws)"
proof (induction raws arbitrary: c)
  case Nil
  then show ?case by (simp add: List.map_filter_def)
next
  case (Cons r raws)
  then show ?case
    by (cases "interval_entry r") (simp_all add: add_interval_token_eq List.map_filter_def)
qed

lemma put_entries_default:
  "mi_default (foldl put_entry c es) =
     (case map_of (rev es) None of Some d \<Rightarrow> Some d | None \<Rightarrow> mi_default c)"
  by (induction es rule: rev_induct) (auto simp: put_entry_def split: option.split prod.splits)

definition prefix_entries :: "(string option \<times> duration) list \<Rightarrow> (string \<times> duration) list" where
  "prefix_entries es = List.map_filter (\<lambda>(k, d). map_option (\<lambda>p. (p, d)) k) es"

lemma put_entries_prefixes:
  "mi_prefixes (foldl put_entry c es) =
     foldl (\<lambda>t kv. set_interval t (fst kv) (snd kv)) (mi_prefixes c) (prefix_entries es)"
proof (induction es rule: rev_induct)
  case (snoc e es)
  then show ?case
    by (cases e; cases "fst e") (simp_all add: prefix_entries_def List.map_filter_def put_entry_def)
qed (simp add: prefix_entries_def List.map_filter_def)

lemma map_of_prefix_entries:
  "map_of (rev (prefix_entries es)) p = map_of (rev es) (Some p)"
proof (induction es rule: rev_induct)
  case (snoc e es)
  then show ?case
    by (cases e; cases "fst e") (auto simp: prefix_entries_def List.map_filter_def)
qed (simp add: prefix_entries_def List.map_filter_def)

lemma positive_intervals: "parse_export_interval s = Some d \<Longrightarrow> 0 < d"
  by (auto simp: parse_export_interval_def Let_def positive_def dur_millis_def dur_secs_def u64_max_def
      split: option.splits if_splits)

lemma interval_entry_positive: "interval_entry r = Some e \<Longrightarrow> 0 < snd e"
  by (auto simp: interval_entry_def Let_def dest!: positive_intervals split: option.splits if_splits)

text \<open>The configured export intervals are exactly what the valid entries say, the last one winning
  for the default and for each prefix; every interval is positive, no prefix occurs twice, and nothing is
  configured exactly when no entry is valid.\<close>

theorem metric_intervals_last_wins:
  "list_all (\<lambda>e. 0 < snd e) (interval_entries raw)
   \<and> (case metric_intervals_of raw of
        None \<Rightarrow> interval_entries raw = []
      | Some m \<Rightarrow> interval_entries raw \<noteq> []
          \<and> mi_default m = map_of (rev (interval_entries raw)) None
          \<and> map_of (mi_prefixes m) = (\<lambda>p. map_of (rev (interval_entries raw)) (Some p))
          \<and> distinct (List.map fst (mi_prefixes m)))"
proof -
  define es where "es = interval_entries raw"
  define m where "m = foldl put_entry \<lparr> mi_default = None, mi_prefixes = [] \<rparr> es"
  have pos: "list_all (\<lambda>e. 0 < snd e) es"
    using interval_entry_positive
    by (fastforce simp: es_def interval_entries_def list_all_iff List.map_filter_def)
  have d: "mi_default m = map_of (rev es) None"
    by (simp add: m_def put_entries_default split: option.split)
  have p: "map_of (mi_prefixes m) = (\<lambda>p. map_of (rev es) (Some p))"
    using intervals.lookup_insert_last [of "[]" "prefix_entries es"]
    by (auto simp: m_def put_entries_prefixes map_of_prefix_entries split: option.split)
  have dist: "distinct (List.map fst (mi_prefixes m))"
    using intervals.valid_insert_all [of "[]" "prefix_entries es"]
    by (simp add: m_def put_entries_prefixes)
  have none: "mi_default m = None \<and> mi_prefixes m = [] \<longleftrightarrow> es = []"
  proof
    assume a: "mi_default m = None \<and> mi_prefixes m = []"
    show "es = []"
    proof (rule ccontr)
      assume "es \<noteq> []"
      then obtain k v where kv: "(k, v) \<in> set es" by (cases es) auto
      then have "map_of (rev es) k \<noteq> None"
        by (metis map_of_eq_None_iff image_eqI fst_conv set_rev)
      moreover have "map_of (rev es) None = None" using a d by simp
      moreover have "map_of (rev es) (Some q) = None" for q
        using a p by (metis map_of.simps(1))
      ultimately show False by (cases k) auto
    qed
  qed (simp add: m_def)
  have "metric_intervals_of raw = (if es = [] then None else Some m)"
    using none by (simp add: metric_intervals_of_def fold_add_interval_token es_def
        interval_entries_def m_def Let_def)
  then show ?thesis
    using pos d p dist by (simp add: es_def [symmetric])
qed

section \<open>Initialisation\<close>

lemma ambient_endpoint_never_enables:
  "otlp_enabled (env(legacy_otlp_endpoint_key := v)) = otlp_enabled env"
  by (simp add: otlp_enabled_def legacy_otlp_endpoint_key_def hoprd_otlp_endpoint_key_def)

lemma override_keeps_gate: "otlp_enabled (apply_otlp_endpoint_override env) = otlp_enabled env"
  by (auto simp: apply_otlp_endpoint_override_def ambient_endpoint_never_enables split: option.split)

lemma traverse_prefixed:
  "traverse_res (\<lambda>(p, d). res_bind r (\<lambda>u. Ok (p, f p d))) xs = Ok ys \<Longrightarrow>
     ys = List.map (\<lambda>(p, d). (p, f p d)) xs"
  by (induction xs arbitrary: ys) (auto simp: res_bind_Ok_iff)

definition configured_prefixes :: "environment \<Rightarrow> (string \<times> duration) list" where
  "configured_prefixes env =
     (case metric_intervals_from_env env of None \<Rightarrow> [] | Some m \<Rightarrow> mi_prefixes m)"

lemma init_metrics_Ok:
  assumes "init_metrics build c mi = Ok (m, ps)"
  shows "m = (if has_signal c Signal_Metrics
              then [Otlp_Reader (oc_transport c) (default_metric_interval mi), Prometheus_Reader]
              else [Prometheus_Reader])"
    and "ps = (if has_signal c Signal_Metrics
               then List.map (\<lambda>(p, d). (p, prefixed_provider (oc_transport c) p d))
                      (case mi of None \<Rightarrow> [] | Some m \<Rightarrow> mi_prefixes m)
               else [])"
  using assms
  by (auto simp: init_metrics_def res_bind_Ok_iff dest!: traverse_prefixed split: if_splits)

lemma start_exporting_Ok:
  assumes "start_exporting build install c mi = (h, Ok layers)"
  shows "layers = signal_layers c \<and> (\<exists>m ps. init_metrics build c mi = Ok (m, ps)
    \<and> h = \<lparr> th_tracer = has_signal c Signal_Traces, th_logger = has_signal c Signal_Logs,
            th_meter = Some m, th_prefixed = ps \<rparr>)"
  using assms
  by (auto simp: start_exporting_def no_handles_def Let_def res_bind_Ok_iff split: sum.splits)


section \<open>Log records\<close>

text \<open>A field is either the body or one attribute, in order, and no number loses its value.\<close>

fun number_of_field :: "field_value \<Rightarrow> int option" where
  "number_of_field (Field_I64 w) = Some (sint w)"
| "number_of_field (Field_U64 w) = Some (int (unat w))"
| "number_of_field _ = None"

fun value_of_field :: "field_value \<Rightarrow> any_value" where
  "value_of_field (Field_I64 w) = Any_Int (sint w)"
| "value_of_field (Field_U64 w) =
     (if unat w < 2 ^ 63 then Any_Int (int (unat w)) else Any_String (show_nat (unat w)))"
| "value_of_field (Field_Bool b) = Any_Bool b"
| "value_of_field (Field_Str s) = Any_String s"
| "value_of_field (Field_Error s) = Any_String s"
| "value_of_field (Field_Debug s) = Any_String s"

lemma record_field_attributes:
  "ev_attributes (record_field (f, v) ev) =
     ev_attributes ev @ (if f = ''message'' then [] else [(f, value_of_field v)])"
  by (cases v) (simp_all add: body_or_attribute_def maybe_timestamp_def)

lemma recorded_attributes:
  "ev_attributes (fold record_field fs ev) =
     ev_attributes ev @ List.map (\<lambda>(f, v). (f, value_of_field v)) (filter (\<lambda>(f, v). f \<noteq> ''message'') fs)"
proof (induction fs arbitrary: ev)
  case (Cons fv fs)
  then show ?case by (cases fv) (simp add: record_field_attributes)
qed simp

lemma int_attributes_fit:
  "value_of_field v = Any_Int i \<Longrightarrow> - (2 ^ 63) \<le> i \<and> i < 2 ^ 63"
proof (cases v)
  case (Field_I64 w)
  assume "value_of_field v = Any_Int i"
  then have "i = sint w" using Field_I64 by simp
  then show ?thesis using sint_range_size [of w] by (simp add: word_size)
next
  case (Field_U64 w)
  assume "value_of_field v = Any_Int i"
  then have "i = int (unat w)" "unat w < 9223372036854775808"
    using Field_U64 by (auto split: if_splits)
  then have "0 \<le> i" "nat i < 9223372036854775808" by simp_all
  then show ?thesis by (simp add: nat_less_iff)
qed auto

lemma first_timestamp_kept:
  "ev_timestamp ev = Some t \<Longrightarrow> ev_timestamp (fold record_field fs ev) = Some t"
proof (induction fs arbitrary: ev)
  case (Cons fv fs)
  obtain f v where fv: "fv = (f, v)" by (cases fv)
  have "ev_timestamp (record_field (f, v) ev) = Some t"
    using Cons.prems by (cases v) (simp_all add: body_or_attribute_def maybe_timestamp_def)
  then show ?case using Cons.IH by (simp add: fv)
qed simp

end
