(* ===== verification/Latency.thy ===== *)
theory Latency
  imports Strategy
begin

text \<open>
  The artificial latency of a local cluster (\<open>localcluster/src/latency.rs\<close>): delay distributions and
  their textual form, the resolution of a directed link, and the description of a node's inbound links.

  Durations are nanoseconds. Reading a floating-point number and converting it to a duration, drawing
  random delays, and rendering milliseconds are parameters. The text is UTF-8, so the plus-minus and
  micro signs are two bytes each.
\<close>

datatype delay_dist =
    Fixed_Delay duration
  | Uniform_Delay duration duration
  | Normal_Delay duration duration

definition plus_minus :: string where
  "plus_minus = [CHR 0xC2, CHR 0xB1]"

definition micro_sign :: string where
  "micro_sign = [CHR 0xC2, CHR 0xB5]"

section \<open>Description and sampling\<close>

text \<open>\<open>show_ms\<close> renders a duration as a whole number of milliseconds.\<close>

fun describe_delay :: "(duration \<Rightarrow> string) \<Rightarrow> delay_dist \<Rightarrow> string" where
  "describe_delay show_ms (Fixed_Delay d) = show_ms d @ ''ms''"
| "describe_delay show_ms (Uniform_Delay a b) = show_ms a @ ''-'' @ show_ms b @ ''ms uniform''"
| "describe_delay show_ms (Normal_Delay m s) = show_ms m @ ''ms'' @ plus_minus @ show_ms s @ ''ms normal''"

text \<open>The random draws: from a non-empty range, and the clamped normal sample.\<close>

record delay_draws =
  dd_uniform :: "duration \<Rightarrow> duration \<Rightarrow> duration"
  dd_normal :: "duration \<Rightarrow> duration \<Rightarrow> duration"

fun sample_delay :: "delay_draws \<Rightarrow> delay_dist \<Rightarrow> duration" where
  "sample_delay r (Fixed_Delay d) = d"
| "sample_delay r (Uniform_Delay lo hi) = (if hi \<le> lo then lo else dd_uniform r lo hi)"
| "sample_delay r (Normal_Delay m s) = dd_normal r m s"

section \<open>Resolution\<close>

record latency_config =
  lt_default :: "delay_dist option"
  lt_per_node :: "nat \<rightharpoonup> delay_dist"
  lt_per_link :: "nat \<times> nat \<rightharpoonup> delay_dist"

definition global_latency :: "delay_dist \<Rightarrow> latency_config" where
  "global_latency d = \<lparr> lt_default = Some d, lt_per_node = Map.empty, lt_per_link = Map.empty \<rparr>"

definition resolve_latency :: "latency_config \<Rightarrow> nat \<Rightarrow> nat \<Rightarrow> delay_dist option" where
  "resolve_latency c src dst =
     (case lt_per_link c (src, dst) of
        Some d \<Rightarrow> Some d
      | None \<Rightarrow> (case lt_per_node c dst of Some d \<Rightarrow> Some d | None \<Rightarrow> lt_default c))"

text \<open>The sources whose link to a node is shaped, in order, with their descriptions.\<close>

definition inbound_descriptions ::
  "(duration \<Rightarrow> string) \<Rightarrow> latency_config \<Rightarrow> nat \<Rightarrow> nat \<Rightarrow> (nat \<times> string) list" where
  "inbound_descriptions show_ms c node num_nodes =
     List.map_filter
       (\<lambda>src. map_option (\<lambda>d. (src, describe_delay show_ms d)) (resolve_latency c src node))
       (filter (\<lambda>s. s \<noteq> node) [0..<num_nodes])"

definition describe_inbound ::
  "(duration \<Rightarrow> string) \<Rightarrow> latency_config \<Rightarrow> nat \<Rightarrow> nat \<Rightarrow> string option" where
  "describe_inbound show_ms c node num_nodes =
     (let per_src = inbound_descriptions show_ms c node num_nodes
      in case per_src of
           [] \<Rightarrow> None
         | (src, first) # rest \<Rightarrow>
             if list_all (\<lambda>(s, v). v = first) per_src then Some first
             else Some (join_with '', '' (List.map (\<lambda>(s, v). ''from '' @ show_nat s @ '': '' @ v) per_src)))"

section \<open>Parsing\<close>

text \<open>The library's floating-point numbers: reading one, and turning it into a duration at a scale given
  by the unit, unless it is negative, not finite or out of range.\<close>

datatype time_unit = Unit_S | Unit_Ms | Unit_Us

record 'f float_lib =
  fl_parse :: "string \<Rightarrow> 'f option"
  fl_usable :: "'f \<Rightarrow> bool"
  fl_duration :: "time_unit \<Rightarrow> 'f \<Rightarrow> duration option"

definition split_unit :: "string \<Rightarrow> string \<times> time_unit" where
  "split_unit s =
     (case strip_suffix ''ms'' s of
        Some v \<Rightarrow> (v, Unit_Ms)
      | None \<Rightarrow>
          (case (case strip_suffix ''us'' s of Some v \<Rightarrow> Some v
                 | None \<Rightarrow> strip_suffix (micro_sign @ ''s'') s) of
             Some v \<Rightarrow> (v, Unit_Us)
           | None \<Rightarrow>
               (case strip_suffix ''s'' s of
                  Some v \<Rightarrow> (v, Unit_S)
                | None \<Rightarrow> (s, Unit_Ms))))"

definition parse_duration :: "'f float_lib \<Rightarrow> string \<Rightarrow> (string, duration) res" where
  "parse_duration fl raw =
     (let s = str_trim raw; (value, unit) = split_unit s
      in case fl_parse fl (str_trim value) of
           None \<Rightarrow> Err (s @ '' is not a valid duration'')
         | Some f \<Rightarrow>
             if \<not> fl_usable fl f then Err (''duration must be a non-negative number, got '' @ s)
             else ok_or (''duration '' @ s @ '' is out of range'') (fl_duration fl unit f))"

definition split_pair :: "string \<Rightarrow> (string, string \<times> string) res" where
  "split_pair s =
     (case split_once (CHR '','') s of
        Some (a, b) \<Rightarrow> Ok (str_trim a, str_trim b)
      | None \<Rightarrow> Err (''expected two comma-separated durations, got '' @ s))"

text \<open>The text before and after the first occurrence of a separator.\<close>

fun split_at_str :: "string \<Rightarrow> string \<Rightarrow> (string \<times> string) option" where
  "split_at_str d [] = (if d = [] then Some ([], []) else None)"
| "split_at_str d (c # s) =
     (if starts_with d (c # s) then Some ([], drop (length d) (c # s))
      else map_option (\<lambda>(a, b). (c # a, b)) (split_at_str d s))"

definition duration_max :: duration where
  "duration_max = (2 ^ 64 - 1) * 1000000000 + 999999999"

definition parse_jitter :: "'f float_lib \<Rightarrow> string \<times> string \<Rightarrow> (string, delay_dist) res" where
  "parse_jitter fl p =
     res_bind (parse_duration fl (fst p)) (\<lambda>mean.
     res_bind (parse_duration fl (snd p)) (\<lambda>jitter.
     Ok (Uniform_Delay (mean - jitter) (min (mean + jitter) duration_max))))"

definition parse_uniform :: "'f float_lib \<Rightarrow> string \<Rightarrow> (string, delay_dist) res" where
  "parse_uniform fl rest =
     res_bind (split_pair rest) (\<lambda>(a, b).
     res_bind (parse_duration fl a) (\<lambda>lo.
     res_bind (parse_duration fl b) (\<lambda>hi.
     if hi \<le> lo then Err ''uniform delay max must be > min; use a fixed delay for a degenerate range''
     else Ok (Uniform_Delay lo hi))))"

definition parse_normal :: "'f float_lib \<Rightarrow> string \<Rightarrow> (string, delay_dist) res" where
  "parse_normal fl rest =
     res_bind (split_pair rest) (\<lambda>(a, b).
     res_bind (parse_duration fl a) (\<lambda>m.
     res_bind (parse_duration fl b) (\<lambda>s.
     Ok (Normal_Delay m s))))"

definition parse_delay :: "'f float_lib \<Rightarrow> string \<Rightarrow> (string, delay_dist) res" where
  "parse_delay fl raw =
     (let s = str_trim raw
      in case strip_prefix ''uniform:'' s of
           Some rest \<Rightarrow> parse_uniform fl rest
         | None \<Rightarrow>
             (case strip_prefix ''normal:'' s of
                Some rest \<Rightarrow> parse_normal fl rest
              | None \<Rightarrow>
                  (case split_at_str plus_minus s of
                     Some p \<Rightarrow> parse_jitter fl p
                   | None \<Rightarrow>
                       (case split_at_str ''+-'' s of
                          Some p \<Rightarrow> parse_jitter fl p
                        | None \<Rightarrow>
                            res_bind (parse_duration fl s) (\<lambda>d. Ok (Fixed_Delay d))))))"

text \<open>A configuration file after YAML parsing: specifications as text, links in order; a link given twice
  takes the last specification.\<close>

record raw_latency =
  rl_default :: "string option"
  rl_per_node :: "(nat \<times> string) list"
  rl_per_link :: "((nat \<times> nat) \<times> string) list"

definition latency_of_raw :: "'f float_lib \<Rightarrow> raw_latency \<Rightarrow> (string, latency_config) res" where
  "latency_of_raw fl raw =
     res_bind (case rl_default raw of None \<Rightarrow> Ok None
               | Some s \<Rightarrow> res_bind (parse_delay fl s) (\<lambda>d. Ok (Some d))) (\<lambda>dflt.
     res_bind (traverse_res (\<lambda>(n, s). res_bind (parse_delay fl s) (\<lambda>d. Ok (n, d))) (rl_per_node raw)) (\<lambda>ns.
     res_bind (traverse_res (\<lambda>(l, s). res_bind (parse_delay fl s) (\<lambda>d. Ok (l, d))) (rl_per_link raw)) (\<lambda>ls.
     Ok \<lparr> lt_default = dflt, lt_per_node = map_of (rev ns), lt_per_link = map_of (rev ls) \<rparr>)))"

section \<open>Lemmas\<close>

lemma resolve_cases:
  "resolve_latency c src dst = Some d \<longleftrightarrow>
     lt_per_link c (src, dst) = Some d
     \<or> lt_per_link c (src, dst) = None \<and> lt_per_node c dst = Some d
     \<or> lt_per_link c (src, dst) = None \<and> lt_per_node c dst = None \<and> lt_default c = Some d"
  by (auto simp: resolve_latency_def split: option.split)

lemma resolve_global [simp]: "resolve_latency (global_latency d) src dst = Some d"
  by (simp add: resolve_latency_def global_latency_def)

text \<open>A parsed range is never inverted.\<close>

lemma parse_delay_ordered:
  assumes "parse_delay fl s = Ok (Uniform_Delay lo hi)" and "hi < duration_max"
  shows "lo \<le> hi"
  using assms
  by (auto simp: parse_delay_def parse_uniform_def parse_normal_def parse_jitter_def Let_def
      res_bind_Ok_iff split: option.splits if_splits)

lemma sample_within:
  assumes "\<And>a b. a < b \<Longrightarrow> a \<le> dd_uniform r a b \<and> dd_uniform r a b < b"
  shows "sample_delay r (Uniform_Delay lo hi) = lo \<or> lo < hi \<and> lo \<le> sample_delay r (Uniform_Delay lo hi)
    \<and> sample_delay r (Uniform_Delay lo hi) < hi"
  using assms [of lo hi] by auto

text \<open>A single description stands for all the links that are shaped; links without a delay are not
  mentioned.\<close>

lemma describe_inbound_single:
  assumes "resolve_latency c 0 2 = Some (Fixed_Delay d)" and "resolve_latency c 1 2 = None"
  shows "describe_inbound show_ms c 2 3 = Some (show_ms d @ ''ms'')"
proof -
  have "[0..<3] = [0, 1, 2::nat]" by (simp add: upt_rec)
  then show ?thesis
    using assms by (simp add: describe_inbound_def inbound_descriptions_def List.map_filter_def)
qed

end
