(* ===== verification/Text_Extra.thy ===== *)
theory Text_Extra
  imports Prelude
begin

text \<open>
  More of Rust's string functions, with the lemmas that lines and words written one after the other are
  read back.
\<close>

text \<open>\<open>str::split_whitespace\<close> on ASCII text.\<close>

fun split_whitespace :: "string \<Rightarrow> string list" where
  "split_whitespace [] = []"
| "split_whitespace (c # s) =
     (if is_ascii_ws c then split_whitespace s
      else case s of
        [] \<Rightarrow> [[c]]
      | d # t \<Rightarrow>
          if is_ascii_ws d then [c] # split_whitespace s
          else (case split_whitespace s of [] \<Rightarrow> [[c]] | p # ps \<Rightarrow> (c # p) # ps))"

text \<open>\<open>str::rsplit_once\<close>: at the last occurrence.\<close>

definition rsplit_once :: "char \<Rightarrow> string \<Rightarrow> (string \<times> string) option" where
  "rsplit_once d s =
     map_option (\<lambda>(b, a). (rev a, rev b)) (split_once d (rev s))"

lemma rsplit_once_append: "d \<notin> set b \<Longrightarrow> rsplit_once d (a @ d # b) = Some (a, b)"
  using split_once_append [of d "rev b" "rev a"] by (simp add: rsplit_once_def)

lemma rsplit_once_None_iff: "rsplit_once d s = None \<longleftrightarrow> d \<notin> set s"
  by (simp add: rsplit_once_def split_once_None_iff)

section \<open>Words\<close>

lemma split_whitespace_word:
  assumes "list_all (\<lambda>c. \<not> is_ascii_ws c) w" and "w \<noteq> []"
  shows "split_whitespace w = [w]"
  using assms
proof (induction w rule: split_whitespace.induct)
  case (2 c s)
  then show ?case by (cases s) auto
qed simp

lemma split_whitespace_Cons:
  assumes "list_all (\<lambda>c. \<not> is_ascii_ws c) w" and "w \<noteq> []" and "is_ascii_ws d"
  shows "split_whitespace (w @ d # s) = w # split_whitespace s"
  using assms(1,2)
proof (induction w)
  case (Cons c w)
  then show ?case using assms(3) by (cases w) auto
qed simp

section \<open>Lines\<close>

definition unlines :: "string list \<Rightarrow> string" where
  "unlines ls = concat (List.map (\<lambda>l. l @ [newline]) ls)"

lemma split_on_unlines: "list_all (\<lambda>l. newline \<notin> set l) ls \<Longrightarrow> split_on newline (unlines ls) = ls @ [[]]"
  by (induction ls) (simp_all add: unlines_def split_on_append_sep)

lemma str_lines_unlines:
  assumes "list_all (\<lambda>l. newline \<notin> set l \<and> carriage_return \<notin> set l) ls"
  shows "str_lines (unlines ls) = ls"
proof -
  have "split_on newline (unlines ls) = ls @ [[]]"
    using assms by (intro split_on_unlines) (auto simp: list_all_iff)
  moreover have "chomp_cr l = l" if "l \<in> set ls" for l
    using assms that last_in_set by (fastforce simp: chomp_cr_def list_all_iff)
  ultimately show ?thesis by (simp add: str_lines_def map_idI)
qed

end
