(* ===== verification/Relay.thy ===== *)
theory Relay
  imports Latency Keyed_Table "HOL-Library.Multiset" Text_Extra
begin

text \<open>
  The UDP relay that injects latency between the nodes of a local cluster
  (\<open>localcluster/src/relay.rs\<close>): the table of peer sessions with its eviction, the delaying sender of one
  directed flow, link cuts and stalls, and the files they are read from.

  Instants are nanoseconds. Sockets are the events of the model: a datagram received from a peer, whether
  an upstream socket could be created, the datagrams a worker sends. Random delays are drawn by the
  latency model; the wall clock of a stall window is an argument.
\<close>

type_synonym instant = nat
type_synonym payload = string
type_synonym pending = "instant \<times> payload"

definition relay_queue_cap :: nat where
  "relay_queue_cap = 1024"

definition max_sessions :: nat where
  "max_sessions = 256"

definition unknown_peer :: nat where
  "unknown_peer = 2 ^ 64 - 1"

section \<open>Links\<close>

record stall =
  st_period :: duration
  st_stall :: duration
  st_delay :: duration

definition as_millis :: "duration \<Rightarrow> nat" where
  "as_millis d = d div 1000000"

definition stall_delay :: "(nat \<times> nat \<rightharpoonup> stall) \<Rightarrow> nat \<Rightarrow> nat \<Rightarrow> nat \<Rightarrow> duration" where
  "stall_delay stalled unix_ms src dst =
     (case stalled (src, dst) of
        None \<Rightarrow> 0
      | Some st \<Rightarrow>
          (let period_ms = max 1 (as_millis (st_period st)); phase_ms = unix_ms mod period_ms
           in if phase_ms < as_millis (st_stall st) then st_delay st else 0))"

definition is_blocked :: "(nat \<times> nat) set \<Rightarrow> nat \<Rightarrow> nat \<Rightarrow> bool" where
  "is_blocked blocked src dst \<longleftrightarrow> (src, dst) \<in> blocked"

definition peer_index :: "16 word \<Rightarrow> 16 word \<Rightarrow> nat" where
  "peer_index base port = (if base \<le> port then unat (port - base) else unknown_peer)"

text \<open>A line of the file of cut links cuts both directions; a line whose first two tokens are no numbers
  is skipped.\<close>

definition blocked_line :: "string \<Rightarrow> (nat \<times> nat) list" where
  "blocked_line line =
     (case split_whitespace line of
        x # y # _ \<Rightarrow>
          (case (parse_unsigned 64 x, parse_unsigned 64 y) of
             (Some a, Some b) \<Rightarrow> [(a, b), (b, a)]
           | _ \<Rightarrow> [])
      | _ \<Rightarrow> [])"

definition blocked_links :: "string option \<Rightarrow> (nat \<times> nat) set" where
  "blocked_links file =
     set (concat (List.map blocked_line (str_lines (case file of Some s \<Rightarrow> s | None \<Rightarrow> []))))"

definition stalled_line :: "string \<Rightarrow> ((nat \<times> nat) \<times> stall) list" where
  "stalled_line line =
     (case List.map_filter (parse_unsigned 64) (split_whitespace line) of
        [a, b, period, st, delay] \<Rightarrow>
          (let s = \<lparr> st_period = dur_millis period, st_stall = dur_millis st, st_delay = dur_millis delay \<rparr>
           in [((a, b), s), ((b, a), s)])
      | _ \<Rightarrow> [])"

definition stalled_links :: "string option \<Rightarrow> (nat \<times> nat \<rightharpoonup> stall)" where
  "stalled_links file =
     map_of (rev (concat (List.map stalled_line (str_lines (case file of Some s \<Rightarrow> s | None \<Rightarrow> [])))))"

section \<open>The delaying sender of a flow\<close>

text \<open>The release heap: datagrams ordered by release instant, then by sequence number. A binary heap pops
  its least element; the model keeps the elements in order.\<close>

type_synonym release = "instant \<times> nat \<times> payload"

fun heap_push :: "release \<Rightarrow> release list \<Rightarrow> release list" where
  "heap_push x [] = [x]"
| "heap_push (r, q, d) ((r', q', d') # h) =
     (if r < r' \<or> r = r' \<and> q \<le> q' then (r, q, d) # (r', q', d') # h
      else (r', q', d') # heap_push (r, q, d) h)"

record worker =
  wk_heap :: "release list"
  wk_seq :: nat
  wk_sent :: "(instant \<times> release) list"

definition new_worker :: worker where
  "new_worker = \<lparr> wk_heap = [], wk_seq = 0, wk_sent = [] \<rparr>"

text \<open>Everything that is due is sent in order.\<close>

fun release_due :: "instant \<Rightarrow> release list \<Rightarrow> (instant \<times> release) list \<Rightarrow> release list \<times> (instant \<times> release) list"
where
  "release_due now [] sent = ([], sent)"
| "release_due now ((r, q, d) # h) sent =
     (if r \<le> now then release_due now h (sent @ [(now, (r, q, d))]) else ((r, q, d) # h, sent))"

definition worker_wake :: "instant \<Rightarrow> worker \<Rightarrow> worker" where
  "worker_wake now w =
     (case release_due now (wk_heap w) (wk_sent w) of
        (h, sent) \<Rightarrow> w\<lparr> wk_heap := h, wk_sent := sent \<rparr>)"

text \<open>A datagram from the queue: dropped when the heap is full, or when its release instant is not
  representable; \<open>instant_max\<close> is the last representable instant.\<close>

definition worker_recv :: "instant \<Rightarrow> duration \<Rightarrow> pending \<Rightarrow> worker \<Rightarrow> worker" where
  "worker_recv instant_max sampled p w =
     (if relay_queue_cap \<le> length (wk_heap w) then w
      else if fst p + sampled \<le> instant_max
      then w\<lparr> wk_heap := heap_push (fst p + sampled, wk_seq w, snd p) (wk_heap w), wk_seq := wk_seq w + 1 \<rparr>
      else w)"

datatype worker_event = Ev_Wake instant | Ev_Recv duration pending

fun worker_step :: "instant \<Rightarrow> worker \<Rightarrow> worker_event \<Rightarrow> worker" where
  "worker_step mx w (Ev_Wake now) = worker_wake now w"
| "worker_step mx w (Ev_Recv sampled p) = worker_recv mx sampled p w"

definition worker_run :: "instant \<Rightarrow> worker_event list \<Rightarrow> worker" where
  "worker_run mx evs = foldl (worker_step mx) new_worker evs"

section \<open>Sessions\<close>

record relay_session =
  rs_queue :: "pending list"
  rs_last_seen :: instant
  rs_alive :: bool

record relay_config =
  rc_node_id :: nat
  rc_port_base :: "16 word"
  rc_latency :: latency_config
  rc_blocked :: "(nat \<times> nat) set"
  rc_stalled :: "nat \<times> nat \<rightharpoonup> stall"

type_synonym 'p relay_sessions = "('p \<times> relay_session) list"

text \<open>The least recently active peer: the first with a minimal \<open>last_seen\<close>.\<close>

fun lru_peer :: "'p relay_sessions \<Rightarrow> 'p option" where
  "lru_peer [] = None"
| "lru_peer [(p, s)] = Some p"
| "lru_peer ((p, s) # (q, t) # xs) =
     (if rs_last_seen t < rs_last_seen s then lru_peer ((q, t) # xs) else lru_peer ((p, s) # xs))"

definition make_room :: "'p relay_sessions \<Rightarrow> 'p relay_sessions" where
  "make_room ss =
     (if max_sessions \<le> length ss
      then (case lru_peer ss of Some p \<Rightarrow> assoc_remove ss p | None \<Rightarrow> ss)
      else ss)"

definition new_session :: "instant \<Rightarrow> relay_session" where
  "new_session now = \<lparr> rs_queue = [], rs_last_seen = now, rs_alive = True \<rparr>"

text \<open>The session of a peer, created when it is new: \<open>upstream\<close> says whether its socket could be made.
  A failed creation still has evicted.\<close>

definition ensure_session ::
  "instant \<Rightarrow> bool \<Rightarrow> 'p \<Rightarrow> 'p relay_sessions \<Rightarrow> 'p relay_sessions \<times> bool" where
  "ensure_session now upstream peer ss =
     (case map_of ss peer of
        Some s \<Rightarrow> (ss, True)
      | None \<Rightarrow>
          if upstream then (assoc_put (make_room ss) peer (new_session now), True)
          else (make_room ss, False))"

text \<open>One datagram of the listen socket. \<open>index\<close> is the node index of the peer.\<close>

definition relay_receive ::
  "relay_config \<Rightarrow> instant \<Rightarrow> nat \<Rightarrow> bool \<Rightarrow> nat \<Rightarrow> 'p \<Rightarrow> payload \<Rightarrow> 'p relay_sessions
   \<Rightarrow> 'p relay_sessions" where
  "relay_receive cfg now unix_ms upstream index peer datagram ss =
     (case ensure_session now upstream peer ss of
        (ss1, ready) \<Rightarrow>
          if \<not> ready \<or> is_blocked (rc_blocked cfg) index (rc_node_id cfg) then ss1
          else (case map_of ss1 peer of
            None \<Rightarrow> ss1
          | Some s \<Rightarrow>
              (let s1 = s\<lparr> rs_last_seen := now \<rparr>;
                   held = stall_delay (rc_stalled cfg) unix_ms index (rc_node_id cfg)
               in if \<not> rs_alive s1 then assoc_remove ss1 peer
                  else if relay_queue_cap \<le> length (rs_queue s1) then assoc_put ss1 peer s1
                  else assoc_put ss1 peer (s1\<lparr> rs_queue := rs_queue s1 @ [(now + held, datagram)] \<rparr>))))"

text \<open>What else happens to the table: a worker takes a datagram from its queue, or stops.\<close>

definition worker_takes :: "'p \<Rightarrow> 'p relay_sessions \<Rightarrow> 'p relay_sessions" where
  "worker_takes peer ss =
     (case map_of ss peer of None \<Rightarrow> ss | Some s \<Rightarrow> assoc_put ss peer (s\<lparr> rs_queue := tl (rs_queue s) \<rparr>))"

definition worker_stops :: "'p \<Rightarrow> 'p relay_sessions \<Rightarrow> 'p relay_sessions" where
  "worker_stops peer ss =
     (case map_of ss peer of None \<Rightarrow> ss | Some s \<Rightarrow> assoc_put ss peer (s\<lparr> rs_alive := False \<rparr>))"

inductive relay_step :: "relay_config \<Rightarrow> 'p relay_sessions \<Rightarrow> 'p relay_sessions \<Rightarrow> bool"
  for cfg :: relay_config where
  relay_step_receive:
    "relay_step cfg ss (relay_receive cfg now unix_ms upstream index peer datagram ss)"
| relay_step_takes: "relay_step cfg ss (worker_takes peer ss)"
| relay_step_stops: "relay_step cfg ss (worker_stops peer ss)"

inductive relay_reaches :: "relay_config \<Rightarrow> 'p relay_sessions \<Rightarrow> bool"
  for cfg :: relay_config where
  relay_starts: "relay_reaches cfg []"
| relay_continues: "relay_reaches cfg ss \<Longrightarrow> relay_step cfg ss ts \<Longrightarrow> relay_reaches cfg ts"

inductive_simps relay_step_iff: "relay_step cfg ss ts"

text \<open>The delay of the two legs of a peer's session.\<close>

definition forward_delay :: "relay_config \<Rightarrow> nat \<Rightarrow> delay_dist option" where
  "forward_delay cfg index = resolve_latency (rc_latency cfg) index (rc_node_id cfg)"

definition return_delay :: "relay_config \<Rightarrow> nat \<Rightarrow> delay_dist option" where
  "return_delay cfg index = resolve_latency (rc_latency cfg) (rc_node_id cfg) index"

definition sampled_delay :: "delay_draws \<Rightarrow> delay_dist option \<Rightarrow> duration" where
  "sampled_delay r d = (case d of Some dist \<Rightarrow> sample_delay r dist | None \<Rightarrow> 0)"

end
