(* ===== verification/Relay_Laws.thy ===== *)
theory Relay_Laws
  imports Relay
begin

text \<open>
  The properties of the relay: a flow neither loses nor duplicates what it accepted, sends nothing early,
  and keeps the order under a fixed delay; the session table stays bounded and evicts only the least
  recently active peer.
\<close>

section \<open>The delaying sender\<close>

definition release_le :: "release \<Rightarrow> release \<Rightarrow> bool" where
  "release_le a b \<longleftrightarrow> fst a < fst b \<or> fst a = fst b \<and> fst (snd a) \<le> fst (snd b)"

abbreviation heap_ordered :: "release list \<Rightarrow> bool" where
  "heap_ordered \<equiv> sorted_wrt release_le"

lemma heap_push_Cons [simp]:
  "heap_push x (y # h) = (if release_le x y then x # y # h else y # heap_push x h)"
  by (cases x; cases y) (simp add: release_le_def)

declare heap_push.simps(2) [simp del]

lemma set_heap_push [simp]: "set (heap_push x h) = insert x (set h)"
  by (induction h) auto

lemma mset_heap_push [simp]: "mset (heap_push x h) = add_mset x (mset h)"
  by (induction h) auto

lemma length_heap_push [simp]: "length (heap_push x h) = Suc (length h)"
  by (induction h) auto

lemma release_le_trans: "release_le a b \<Longrightarrow> release_le b c \<Longrightarrow> release_le a c"
  by (auto simp: release_le_def)

lemma heap_ordered_push: "heap_ordered h \<Longrightarrow> heap_ordered (heap_push x h)"
proof (induction h)
  case (Cons y h)
  have "release_le y x" if "\<not> release_le x y"
    using that by (auto simp: release_le_def)
  then show ?case
    using Cons by (auto intro: release_le_trans)
qed simp

lemma heap_push_last: "list_all (\<lambda>y. \<not> release_le x y) h \<Longrightarrow> heap_push x h = h @ [x]"
  by (induction h) auto

lemma release_due_eq:
  "release_due now h sent =
     (dropWhile (\<lambda>x. fst x \<le> now) h, sent @ List.map (Pair now) (takeWhile (\<lambda>x. fst x \<le> now) h))"
  by (induction now h sent rule: release_due.induct) auto

lemma worker_wake_eq:
  "worker_wake now w = w\<lparr> wk_heap := dropWhile (\<lambda>x. fst x \<le> now) (wk_heap w),
     wk_sent := wk_sent w @ List.map (Pair now) (takeWhile (\<lambda>x. fst x \<le> now) (wk_heap w)) \<rparr>"
  by (simp add: worker_wake_def release_due_eq)

text \<open>What the flow accepts, in the order of acceptance.\<close>

fun accepts :: "instant \<Rightarrow> worker \<Rightarrow> worker_event \<Rightarrow> release list" where
  "accepts mx w (Ev_Wake now) = []"
| "accepts mx w (Ev_Recv sampled p) =
     (if length (wk_heap w) < relay_queue_cap \<and> fst p + sampled \<le> mx
      then [(fst p + sampled, wk_seq w, snd p)] else [])"

fun accepted :: "instant \<Rightarrow> worker \<Rightarrow> worker_event list \<Rightarrow> release list" where
  "accepted mx w [] = []"
| "accepted mx w (e # es) = accepts mx w e @ accepted mx (worker_step mx w e) es"

lemma accepted_snoc:
  "accepted mx w (es @ [e]) = accepted mx w es @ accepts mx (foldl (worker_step mx) w es) e"
  by (induction es arbitrary: w) simp_all

lemma worker_recv_eq:
  "worker_step mx w (Ev_Recv sampled p) =
     (case accepts mx w (Ev_Recv sampled p) of
        [] \<Rightarrow> w
      | x # _ \<Rightarrow> w\<lparr> wk_heap := heap_push x (wk_heap w), wk_seq := wk_seq w + 1 \<rparr>)"
  by (simp add: worker_recv_def)

lemma worker_run_snoc: "worker_run mx (es @ [e]) = worker_step mx (worker_run mx es) e"
  by (simp add: worker_run_def)

definition flow_ok :: "worker \<Rightarrow> release list \<Rightarrow> bool" where
  "flow_ok w acc \<longleftrightarrow>
     mset (List.map snd (wk_sent w)) + mset (wk_heap w) = mset acc
     \<and> list_all (\<lambda>x. fst (snd x) \<le> fst x) (wk_sent w)
     \<and> heap_ordered (wk_heap w)
     \<and> length (wk_heap w) \<le> relay_queue_cap"

lemma flow_ok_step:
  assumes "flow_ok w acc"
  shows "flow_ok (worker_step mx w e) (acc @ accepts mx w e)"
proof (cases e)
  case (Ev_Wake now)
  let ?P = "\<lambda>x :: release. fst x \<le> now"
  have m: "mset (wk_heap w) = mset (takeWhile ?P (wk_heap w)) + mset (dropWhile ?P (wk_heap w))"
    by (simp flip: mset_append)
  have o: "heap_ordered (dropWhile ?P (wk_heap w))"
    using assms by (simp add: flow_ok_def)
  have l: "length (dropWhile ?P (wk_heap w)) \<le> relay_queue_cap"
    using assms length_dropWhile_le [of ?P "wk_heap w"] by (simp add: flow_ok_def)
  have due: "list_all (\<lambda>x. fst (snd x) \<le> fst x) (List.map (Pair now) (takeWhile ?P (wk_heap w)))"
    by (auto simp: list_all_iff dest: set_takeWhileD)
  have s: "worker_step mx w e = w\<lparr> wk_heap := dropWhile ?P (wk_heap w),
      wk_sent := wk_sent w @ List.map (Pair now) (takeWhile ?P (wk_heap w)) \<rparr>"
    by (simp add: Ev_Wake worker_wake_eq)
  have a: "mset (List.map snd (wk_sent w)) + mset (wk_heap w) = mset acc"
    and d: "list_all (\<lambda>x. fst (snd x) \<le> fst x) (wk_sent w)"
    using assms by (simp_all add: flow_ok_def)
  have "mset (List.map snd (wk_sent (worker_step mx w e))) + mset (wk_heap (worker_step mx w e)) = mset acc"
    unfolding s using a [unfolded m] by (simp add: comp_def add.assoc)
  moreover have "list_all (\<lambda>x. fst (snd x) \<le> fst x) (wk_sent (worker_step mx w e))"
    unfolding s using d due by (simp add: list_all_append)
  moreover have "accepts mx w e = []" by (simp add: Ev_Wake)
  ultimately show ?thesis
    unfolding flow_ok_def using o l by (simp add: s)
next
  case (Ev_Recv d p)
  then show ?thesis
    using assms unfolding Ev_Recv worker_recv_eq
    by (auto simp: flow_ok_def heap_ordered_push)
qed

lemma flow_ok_run: "flow_ok (worker_run mx evs) (accepted mx new_worker evs)"
proof (induction evs rule: rev_induct)
  case Nil
  then show ?case by (simp add: flow_ok_def worker_run_def new_worker_def)
next
  case (snoc e evs)
  then show ?case
    using flow_ok_step [OF snoc, of mx e]
    by (simp add: worker_run_snoc accepted_snoc) (simp add: worker_run_def)
qed

text \<open>A fixed delay, and arrivals that do not go back in time.\<close>

fun fixed_delay :: "duration \<Rightarrow> worker_event \<Rightarrow> bool" where
  "fixed_delay d (Ev_Wake now) = True"
| "fixed_delay d (Ev_Recv sampled p) = (sampled = d)"

fun event_arrival :: "worker_event \<Rightarrow> instant list" where
  "event_arrival (Ev_Wake now) = []"
| "event_arrival (Ev_Recv sampled p) = [fst p]"

definition arrivals :: "worker_event list \<Rightarrow> instant list" where
  "arrivals evs = concat (List.map event_arrival evs)"

lemma heap_bounds:
  assumes "list_all (fixed_delay d) evs" and "\<And>a. a \<in> set (arrivals evs) \<Longrightarrow> a \<le> t"
  shows "x \<in> set (wk_heap (worker_run mx evs)) \<Longrightarrow>
    fst x \<le> t + d \<and> fst (snd x) < wk_seq (worker_run mx evs)"
  using assms
proof (induction evs arbitrary: x rule: rev_induct)
  case Nil
  then show ?case by (simp add: worker_run_def new_worker_def)
next
  case (snoc e evs)
  show ?case
  proof (cases e)
    case (Ev_Wake now)
    have "x \<in> set (wk_heap (worker_run mx evs))"
      using snoc.prems(1) set_dropWhileD [of x _ "wk_heap (worker_run mx evs)"]
      by (simp add: Ev_Wake worker_run_snoc worker_wake_eq)
    then have "fst x \<le> t + d \<and> fst (snd x) < wk_seq (worker_run mx evs)"
      by (rule snoc.IH) (use snoc.prems in \<open>auto simp: arrivals_def\<close>)
    then show ?thesis by (simp add: Ev_Wake worker_run_snoc worker_wake_eq)
  next
    case (Ev_Recv s p)
    have "fst p \<le> t" "s = d" using snoc.prems Ev_Recv by (auto simp: arrivals_def)
    moreover have "y \<in> set (wk_heap (worker_run mx evs)) \<Longrightarrow>
        fst y \<le> t + d \<and> fst (snd y) < wk_seq (worker_run mx evs)" for y
      using snoc.IH [of y] snoc.prems by (auto simp: arrivals_def)
    ultimately show ?thesis
      using snoc.prems(1) unfolding Ev_Recv worker_run_snoc worker_recv_eq
      by (cases x) (auto split: if_splits dest: less_SucI intro: less_SucI)
  qed
qed

lemma fixed_delay_fifo:
  assumes "list_all (fixed_delay d) evs" and "sorted (arrivals evs)"
  shows "List.map snd (wk_sent (worker_run mx evs)) @ wk_heap (worker_run mx evs)
    = accepted mx new_worker evs"
  using assms
proof (induction evs rule: rev_induct)
  case Nil
  then show ?case by (simp add: worker_run_def new_worker_def)
next
  case (snoc e evs)
  have IH: "List.map snd (wk_sent (worker_run mx evs)) @ wk_heap (worker_run mx evs)
    = accepted mx new_worker evs"
    using snoc by (simp add: arrivals_def sorted_append)
  have acc: "accepted mx new_worker (evs @ [e]) = accepted mx new_worker evs @ accepts mx (worker_run mx evs) e"
    by (simp add: accepted_snoc worker_run_def)
  show ?case
  proof (cases e)
    case (Ev_Wake now)
    then show ?thesis
      using IH acc by (simp add: worker_run_snoc worker_wake_eq comp_def)
  next
    case (Ev_Recv s p)
    let ?w = "worker_run mx evs"
    have b: "fst x \<le> fst p + d \<and> fst (snd x) < wk_seq ?w" if "x \<in> set (wk_heap ?w)" for x
      using heap_bounds [of d evs "fst p" x mx] that snoc.prems Ev_Recv
      by (auto simp: arrivals_def sorted_append)
    have "list_all (\<lambda>y. \<not> release_le (fst p + d, wk_seq ?w, snd p) y) (wk_heap ?w)"
      using b by (fastforce simp: list_all_iff release_le_def)
    then have "heap_push (fst p + d, wk_seq ?w, snd p) (wk_heap ?w)
        = wk_heap ?w @ [(fst p + d, wk_seq ?w, snd p)]"
      by (rule heap_push_last)
    then show ?thesis
      using IH acc snoc.prems(1) unfolding worker_run_snoc Ev_Recv worker_recv_eq
      by auto
  qed
qed

definition in_order :: "duration \<Rightarrow> worker_event list \<Rightarrow> bool" where
  "in_order d evs \<longleftrightarrow> list_all (fixed_delay d) evs \<and> sorted (arrivals evs)"

text \<open>C35: What a flow has sent and still holds is exactly what it accepted, each datagram once; nothing is
  sent before its release instant, the held datagrams are ordered and bounded; and under a fixed delay
  the datagrams leave in the order of their arrival.\<close>

theorem relay_flow_exact:
  "mset (List.map snd (wk_sent (worker_run mx evs))) + mset (wk_heap (worker_run mx evs))
     = mset (accepted mx new_worker evs)
   \<and> list_all (\<lambda>x. fst (snd x) \<le> fst x) (wk_sent (worker_run mx evs))
   \<and> heap_ordered (wk_heap (worker_run mx evs))
   \<and> length (wk_heap (worker_run mx evs)) \<le> relay_queue_cap
   \<and> (in_order d evs \<longrightarrow>
       List.map snd (wk_sent (worker_run mx evs)) @ wk_heap (worker_run mx evs)
         = accepted mx new_worker evs)"
  using flow_ok_run [of mx evs] fixed_delay_fifo [of d evs mx]
  by (simp add: flow_ok_def in_order_def)

definition sample_events :: "worker_event list" where
  "sample_events =
     [Ev_Recv 5 (1, ''a''), Ev_Recv 5 (1, ''b''), Ev_Recv 5 (3, ''c''), Ev_Wake 7]"

lemma sample_events_run:
  "List.map snd (wk_sent (worker_run 100 sample_events)) = [(6, 0, ''a''), (6, 1, ''b'')]
   \<and> wk_heap (worker_run 100 sample_events) = [(8, 2, ''c'')]"
  by (simp add: sample_events_def worker_run_def new_worker_def worker_recv_def relay_queue_cap_def
      release_le_def worker_wake_def)

theorem relay_flow_exact_witness:
  "accepted 100 new_worker sample_events = [(6, 0, ''a''), (6, 1, ''b''), (8, 2, ''c'')]"
  using relay_flow_exact [of 100 sample_events 5] sample_events_run
  by (simp add: in_order_def sample_events_def arrivals_def)

section \<open>Sessions\<close>

interpretation sessions: keyed_table map_of assoc_put assoc_remove distinct_keys
  by unfold_locales
     (simp_all add: map_of_assoc_put map_of_assoc_remove distinct_assoc_put distinct_assoc_remove)

lemma lru_peer_minimal:
  "lru_peer ss = Some p \<Longrightarrow>
     \<exists>s. (p, s) \<in> set ss \<and> (\<forall>(q, t) \<in> set ss. rs_last_seen s \<le> rs_last_seen t)"
proof (induction ss rule: lru_peer.induct)
  case (3 p' s q t xs)
  show ?case
  proof (cases "rs_last_seen t < rs_last_seen s")
    case True
    then obtain u where u: "(p, u) \<in> set ((q, t) # xs)"
        "\<forall>(r, v) \<in> set ((q, t) # xs). rs_last_seen u \<le> rs_last_seen v"
      using 3 by auto
    then have "rs_last_seen u \<le> rs_last_seen s" using True by auto
    then show ?thesis using u by auto
  next
    case False
    then obtain u where u: "(p, u) \<in> set ((p', s) # xs)"
        "\<forall>(r, v) \<in> set ((p', s) # xs). rs_last_seen u \<le> rs_last_seen v"
      using 3 by auto
    then have "rs_last_seen u \<le> rs_last_seen t" using False by auto
    then show ?thesis using u by auto
  qed
qed auto

lemma lru_peer_Some: "ss \<noteq> [] \<Longrightarrow> \<exists>p. lru_peer ss = Some p"
  by (induction ss rule: lru_peer.induct) auto

lemma lru_peer_key: "lru_peer ss = Some p \<Longrightarrow> p \<in> fst ` set ss"
  using lru_peer_minimal [of ss p] by force

definition table_ok :: "'p relay_sessions \<Rightarrow> bool" where
  "table_ok ss \<longleftrightarrow> distinct_keys ss \<and> length ss \<le> max_sessions
     \<and> list_all (\<lambda>x. length (rs_queue (snd x)) \<le> relay_queue_cap) ss"

lemma set_assoc_put: "set (assoc_put ss p s) \<subseteq> insert (p, s) (set ss)"
  by (induction ss p s rule: assoc_put.induct) auto

lemma table_ok_put:
  assumes "table_ok ss" and "length (rs_queue s) \<le> relay_queue_cap"
    and "p \<in> fst ` set ss \<or> length ss < max_sessions"
  shows "table_ok (assoc_put ss p s)"
proof -
  have "length (rs_queue (snd x)) \<le> relay_queue_cap" if "x \<in> set (assoc_put ss p s)" for x
    using set_assoc_put [of ss p s] that assms(1,2) by (auto simp: table_ok_def list_all_iff)
  moreover have "length (assoc_put ss p s) \<le> max_sessions"
    using assms by (auto simp: table_ok_def length_assoc_put)
  ultimately show ?thesis
    using assms(1) by (simp add: table_ok_def distinct_assoc_put list_all_iff)
qed

lemma table_ok_remove: "table_ok ss \<Longrightarrow> table_ok (assoc_remove ss p)"
  by (simp add: table_ok_def distinct_assoc_remove list_all_iff)
     (auto simp: assoc_remove_def intro: le_trans [OF length_filter_le])

lemma make_room_ok:
  assumes "table_ok ss"
  shows "table_ok (make_room ss) \<and> length (make_room ss) < max_sessions"
proof (cases "max_sessions \<le> length ss")
  case True
  then have "ss \<noteq> []" by (auto simp: max_sessions_def)
  then obtain p where p: "lru_peer ss = Some p" using lru_peer_Some by blast
  have "Suc (length (assoc_remove ss p)) = length ss"
    using assms lru_peer_key [OF p] by (simp add: table_ok_def length_assoc_remove)
  then show ?thesis
    using assms True by (simp add: make_room_def p table_ok_remove) (simp add: table_ok_def)
qed (use assms in \<open>simp add: make_room_def\<close>)

lemma ensure_session_ok:
  assumes "table_ok ss"
  shows "table_ok (fst (ensure_session now upstream peer ss))"
  using assms make_room_ok [OF assms]
  by (auto simp: ensure_session_def new_session_def intro!: table_ok_put split: option.split)

lemma map_of_fst: "map_of ss p = Some s \<Longrightarrow> p \<in> fst ` set ss"
  by (force dest: map_of_SomeD)

lemma relay_receive_ok:
  assumes "table_ok ss"
  shows "table_ok (relay_receive cfg now ms upstream index peer dg ss)"
proof -
  obtain ss1 r where e: "ensure_session now upstream peer ss = (ss1, r)"
    by (cases "ensure_session now upstream peer ss")
  have ok: "table_ok ss1" using ensure_session_ok [OF assms, of now upstream peer] by (simp add: e)
  have q: "length (rs_queue s) \<le> relay_queue_cap" if "map_of ss1 peer = Some s" for s
    using ok map_of_SomeD [OF that] by (auto simp: table_ok_def list_all_iff)
  show ?thesis
    using ok q
    by (auto simp: relay_receive_def e Let_def table_ok_remove map_of_fst
        intro!: table_ok_put split: option.split)
qed

lemma table_ok_step:
  assumes "table_ok ss" "relay_step cfg ss ts"
  shows "table_ok ts"
proof -
  have q: "length (rs_queue s) \<le> relay_queue_cap" if "map_of ss p = Some s" for s p
    using assms(1) map_of_SomeD [OF that] by (auto simp: table_ok_def list_all_iff)
  show ?thesis
    using assms(2)
  proof (cases rule: relay_step.cases)
    case (relay_step_receive now ms upstream index peer dg)
    then show ?thesis using relay_receive_ok [OF assms(1)] by simp
  next
    case (relay_step_takes peer)
    have "length (tl (rs_queue s)) \<le> relay_queue_cap" if "map_of ss peer = Some s" for s
      using q [OF that] by simp
    then show ?thesis
      using assms(1) relay_step_takes
      by (cases "map_of ss peer") (auto simp: worker_takes_def map_of_fst intro!: table_ok_put)
  next
    case (relay_step_stops peer)
    then show ?thesis
      using assms(1) q
      by (cases "map_of ss peer") (auto simp: worker_stops_def map_of_fst intro!: table_ok_put)
  qed
qed


definition sample_relay :: relay_config where
  "sample_relay = \<lparr> rc_node_id = 1, rc_port_base = 9000, rc_latency = global_latency (Fixed_Delay 5),
     rc_blocked = {}, rc_stalled = Map.empty \<rparr>"

lemma sample_relay_reaches:
  "relay_reaches sample_relay [(''p'', new_session 7)]"
proof -
  have "worker_takes ''p'' (relay_receive sample_relay 7 0 True 0 ''p'' ''x'' []) = [(''p'', new_session 7)]"
    by (simp add: relay_receive_def ensure_session_def make_room_def max_sessions_def is_blocked_def
        sample_relay_def new_session_def stall_delay_def relay_queue_cap_def worker_takes_def Let_def)
  then show ?thesis
    by (metis relay_starts relay_continues relay_step_receive relay_step_takes)
qed


end
