(* ===== verification/Relay_Node.thy ===== *)
theory Relay_Node
  imports Relay
begin

text \<open>
  A whole relay (\<open>localcluster/src/relay.rs\<close>): the table of sessions together with the tasks of each session, which
  are the delaying sender toward the node, the reader of its upstream socket, and the delaying sender back to
  the peer. What happens is a list of events: datagrams arriving at either socket, a sender taking from its
  queue or waking, a socket that fails, and the files of cut and stalled links being read again.
\<close>

section \<open>State\<close>

text \<open>The tasks of a session. The table of sessions holds the queue of the forward sender and whether it lives.\<close>

record peer_flow =
  fl_forward :: worker
  fl_back_queue :: "pending list"
  fl_back :: worker
  fl_back_alive :: bool
  fl_reading :: bool

definition new_flow :: peer_flow where
  "new_flow =
     \<lparr> fl_forward = new_worker, fl_back_queue = [], fl_back = new_worker, fl_back_alive = True,
       fl_reading = True \<rparr>"

text \<open>What has been handed to the sockets is kept: when, and for which peer.\<close>

record 'p relay_run =
  rr_config :: relay_config
  rr_running :: bool
  rr_table :: "'p relay_sessions"
  rr_flows :: "'p \<Rightarrow> peer_flow"
  rr_to_node :: "('p \<times> instant \<times> payload) list"
  rr_to_peers :: "('p \<times> instant \<times> payload) list"

definition relay_started :: "relay_config \<Rightarrow> 'p relay_run" where
  "relay_started cfg =
     \<lparr> rr_config = cfg, rr_running = True, rr_table = [], rr_flows = (\<lambda>_. new_flow), rr_to_node = [],
       rr_to_peers = [] \<rparr>"

text \<open>The source port of a peer, and the last instant that can be represented.\<close>

record 'p relay_env =
  rn_port :: "'p \<Rightarrow> 16 word"
  rn_instant_max :: instant

definition index_of_peer :: "'p relay_env \<Rightarrow> relay_config \<Rightarrow> 'p \<Rightarrow> nat" where
  "index_of_peer env cfg p = peer_index (rc_port_base cfg) (rn_port env p)"

section \<open>Events\<close>

datatype 'p relay_event =
    From_Peer instant nat bool 'p payload
  | From_Node instant nat 'p payload
  | Forward_Takes 'p delay_draws
  | Forward_Wakes 'p instant
  | Return_Takes 'p delay_draws
  | Return_Wakes 'p instant
  | Upstream_Fails 'p
  | Links_Read "string option" "string option"
  | Relay_Ends

text \<open>A datagram of the listen socket. A session made for it comes with tasks of its own.\<close>

definition hear_peer ::
  "'p relay_env \<Rightarrow> instant \<Rightarrow> nat \<Rightarrow> bool \<Rightarrow> 'p \<Rightarrow> payload \<Rightarrow> 'p relay_run \<Rightarrow> 'p relay_run" where
  "hear_peer env now ms upstream p d r =
     r \<lparr> rr_table := relay_receive (rr_config r) now ms upstream (index_of_peer env (rr_config r) p) p d (rr_table r),
         rr_flows := (if map_of (rr_table r) p = None \<and> upstream then (rr_flows r)(p := new_flow)
                      else rr_flows r) \<rparr>"

text \<open>A datagram from the node, read from the upstream socket of a peer's session.\<close>

definition read_upstream ::
  "relay_config \<Rightarrow> nat \<Rightarrow> instant \<Rightarrow> nat \<Rightarrow> payload \<Rightarrow> peer_flow \<Rightarrow> peer_flow" where
  "read_upstream cfg i now ms d f =
     (if \<not> fl_reading f \<or> is_blocked (rc_blocked cfg) (rc_node_id cfg) i then f
      else if \<not> fl_back_alive f then f \<lparr> fl_reading := False \<rparr>
      else if relay_queue_cap \<le> length (fl_back_queue f) then f
      else f \<lparr> fl_back_queue :=
             fl_back_queue f @ [(now + stall_delay (rc_stalled cfg) ms (rc_node_id cfg) i, d)] \<rparr>)"

text \<open>The sender back takes the next datagram; with none left and the reader gone it ends, and what it held is lost.\<close>

definition back_takes :: "instant \<Rightarrow> duration \<Rightarrow> peer_flow \<Rightarrow> peer_flow" where
  "back_takes mx sampled f =
     (if \<not> fl_back_alive f then f
      else (case fl_back_queue f of
          [] \<Rightarrow> if fl_reading f then f else f \<lparr> fl_back_alive := False \<rparr>
        | x # q \<Rightarrow> f \<lparr> fl_back_queue := q, fl_back := worker_recv mx sampled x (fl_back f) \<rparr>))"

text \<open>What a sender hands to its socket when it wakes.\<close>

definition sent_now :: "instant \<Rightarrow> worker \<Rightarrow> (instant \<times> payload) list" where
  "sent_now now w =
     List.map (\<lambda>(t, _, _, d). (t, d)) (drop (length (wk_sent w)) (wk_sent (worker_wake now w)))"

definition forward_takes :: "'p relay_env \<Rightarrow> 'p \<Rightarrow> delay_draws \<Rightarrow> 'p relay_run \<Rightarrow> 'p relay_run" where
  "forward_takes env p draws r =
     (case map_of (rr_table r) p of
        None \<Rightarrow> r
      | Some s \<Rightarrow>
          if \<not> rs_alive s then r
          else (case rs_queue s of
              [] \<Rightarrow> r
            | x # _ \<Rightarrow>
                (let f = rr_flows r p;
                     dist = forward_delay (rr_config r) (index_of_peer env (rr_config r) p);
                     w = worker_recv (rn_instant_max env) (sampled_delay draws dist) x (fl_forward f)
                 in r \<lparr> rr_table := worker_takes p (rr_table r),
                        rr_flows := (rr_flows r)(p := f \<lparr> fl_forward := w \<rparr>) \<rparr>)))"

definition forward_wakes :: "'p \<Rightarrow> instant \<Rightarrow> 'p relay_run \<Rightarrow> 'p relay_run" where
  "forward_wakes p now r =
     (case map_of (rr_table r) p of
        None \<Rightarrow> r
      | Some s \<Rightarrow>
          if \<not> rs_alive s then r
          else (let f = rr_flows r p in
            r \<lparr> rr_flows := (rr_flows r)(p := f \<lparr> fl_forward := worker_wake now (fl_forward f) \<rparr>),
                rr_to_node := rr_to_node r @ List.map (Pair p) (sent_now now (fl_forward f)) \<rparr>))"

text \<open>The tasks of the way back, as far as the session is in the table.\<close>

definition at_flow :: "'p \<Rightarrow> (peer_flow \<Rightarrow> peer_flow) \<Rightarrow> 'p relay_run \<Rightarrow> 'p relay_run" where
  "at_flow p g r =
     (if map_of (rr_table r) p = None then r else r \<lparr> rr_flows := (rr_flows r)(p := g (rr_flows r p)) \<rparr>)"

definition return_wakes :: "'p \<Rightarrow> instant \<Rightarrow> 'p relay_run \<Rightarrow> 'p relay_run" where
  "return_wakes p now r =
     (if map_of (rr_table r) p = None \<or> \<not> fl_back_alive (rr_flows r p) then r
      else (let f = rr_flows r p in
        r \<lparr> rr_flows := (rr_flows r)(p := f \<lparr> fl_back := worker_wake now (fl_back f) \<rparr>),
            rr_to_peers := rr_to_peers r @ List.map (Pair p) (sent_now now (fl_back f)) \<rparr>))"

definition return_takes :: "'p relay_env \<Rightarrow> 'p \<Rightarrow> delay_draws \<Rightarrow> 'p relay_run \<Rightarrow> 'p relay_run" where
  "return_takes env p draws r =
     (let dist = return_delay (rr_config r) (index_of_peer env (rr_config r) p)
      in at_flow p (back_takes (rn_instant_max env) (sampled_delay draws dist)) r)"

definition hear_node :: "'p relay_env \<Rightarrow> instant \<Rightarrow> nat \<Rightarrow> 'p \<Rightarrow> payload \<Rightarrow> 'p relay_run \<Rightarrow> 'p relay_run" where
  "hear_node env now ms p d r =
     at_flow p (read_upstream (rr_config r) (index_of_peer env (rr_config r) p) now ms d) r"

definition upstream_fails :: "'p \<Rightarrow> 'p relay_run \<Rightarrow> 'p relay_run" where
  "upstream_fails p = at_flow p (\<lambda>f. f \<lparr> fl_reading := False \<rparr>)"

definition read_links :: "string option \<Rightarrow> string option \<Rightarrow> 'p relay_run \<Rightarrow> 'p relay_run" where
  "read_links cuts stalls r =
     r \<lparr> rr_config := (rr_config r) \<lparr> rc_blocked := blocked_links cuts, rc_stalled := stalled_links stalls \<rparr> \<rparr>"

text \<open>The listen socket fails or the relay is aborted: all sessions are dropped, and their tasks with them.\<close>

definition end_relay :: "'p relay_run \<Rightarrow> 'p relay_run" where
  "end_relay r = r \<lparr> rr_running := False, rr_table := [] \<rparr>"

fun relay_happens :: "'p relay_env \<Rightarrow> 'p relay_run \<Rightarrow> 'p relay_event \<Rightarrow> 'p relay_run" where
  "relay_happens env r (From_Peer now ms upstream p d) =
     (if rr_running r then hear_peer env now ms upstream p d r else r)"
| "relay_happens env r (From_Node now ms p d) = hear_node env now ms p d r"
| "relay_happens env r (Forward_Takes p draws) = forward_takes env p draws r"
| "relay_happens env r (Forward_Wakes p now) = forward_wakes p now r"
| "relay_happens env r (Return_Takes p draws) = return_takes env p draws r"
| "relay_happens env r (Return_Wakes p now) = return_wakes p now r"
| "relay_happens env r (Upstream_Fails p) = upstream_fails p r"
| "relay_happens env r (Links_Read cuts stalls) = read_links cuts stalls r"
| "relay_happens env r Relay_Ends = end_relay r"

definition run_of_relay :: "'p relay_env \<Rightarrow> relay_config \<Rightarrow> 'p relay_event list \<Rightarrow> 'p relay_run" where
  "run_of_relay env cfg = foldl (relay_happens env) (relay_started cfg)"

end
