(* ===== verification/Relay_Node_Laws.thy ===== *)
theory Relay_Node_Laws
  imports Relay_Node Relay_Laws
begin

text \<open>
  What a whole relay hands to the node and to the peers. Deliveries are matched one to one with arrivals
  (\<open>follows\<close>): same payload, and not earlier than the arrival with the stall and the least delay of its link. Each
  event of the relay keeps the match, so every run has it.
\<close>

section \<open>Matching\<close>

text \<open>Of two datagrams with instants, the first is the second at a later instant, or at the same.\<close>

definition later :: "instant \<times> payload \<Rightarrow> instant \<times> payload \<Rightarrow> bool" where
  "later x y \<longleftrightarrow> snd x = snd y \<and> fst y \<le> fst x"

definition follows :: "(instant \<times> payload) multiset \<Rightarrow> (instant \<times> payload) multiset \<Rightarrow> bool" where
  "follows A B \<longleftrightarrow> (\<exists>M. M \<subseteq># B \<and> rel_mset later A M)"

lemma later_refl [simp]: "later x x"
  by (simp add: later_def)

lemma later_trans: "later x y \<Longrightarrow> later y z \<Longrightarrow> later x z"
  by (auto simp: later_def)

lemma rel_later_refl: "rel_mset later A A"
  by (rule multiset.rel_refl) simp

lemma rel_mset_union: "rel_mset P A M \<Longrightarrow> rel_mset P B N \<Longrightarrow> rel_mset P (A + B) (M + N)"
  unfolding rel_mset_def by (metis list_all2_appendI mset_append)

lemma rel_mset_sub: "rel_mset P (A + C) N \<Longrightarrow> \<exists>N'. N' \<subseteq># N \<and> rel_mset P A N'"
proof (induction C arbitrary: N)
  case (add x C)
  from add.prems obtain b N1 where n: "N = add_mset b N1" "rel_mset P (A + C) N1"
    by (auto dest: msed_rel_invL)
  from add.IH [OF n(2)] obtain N' where "N' \<subseteq># N1" "rel_mset P A N'" by blast
  then show ?case using n(1) by (metis add_mset_add_single mset_subset_eq_add_left subset_mset.dual_order.trans)
qed auto

lemma rel_later_trans:
  assumes "rel_mset later A M" and "rel_mset later M N"
  shows "rel_mset later A N"
proof -
  have "(rel_mset later OO rel_mset later) A N" using assms by blast
  then have "rel_mset (later OO later) A N" by (simp add: multiset.rel_compp)
  then show ?thesis
    by (rule multiset.rel_mono_strong) (auto intro: later_trans)
qed

lemma follows_sub: "A \<subseteq># B \<Longrightarrow> follows A B"
  unfolding follows_def using rel_later_refl by blast

lemma follows_refl [simp]: "follows A A"
  by (rule follows_sub) simp

lemma follows_trans:
  assumes "follows A B" and "follows B C"
  shows "follows A C"
proof -
  from assms(1) obtain M where M: "M \<subseteq># B" "rel_mset later A M" unfolding follows_def by blast
  from assms(2) obtain N where N: "N \<subseteq># C" "rel_mset later B N" unfolding follows_def by blast
  have "rel_mset later (M + (B - M)) N" using N(2) M(1) by simp
  then obtain N' where N': "N' \<subseteq># N" "rel_mset later M N'" using rel_mset_sub by blast
  have "rel_mset later A N'" by (rule rel_later_trans [OF M(2) N'(2)])
  then show ?thesis
    unfolding follows_def using N'(1) N(1) subset_mset.order_trans by blast
qed

lemma follows_add:
  assumes "follows A B" and "follows A' B'"
  shows "follows (A + A') (B + B')"
proof -
  from assms obtain M M' where "M \<subseteq># B" "rel_mset later A M" "M' \<subseteq># B'" "rel_mset later A' M'"
    unfolding follows_def by blast
  then show ?thesis
    unfolding follows_def by (intro exI [of _ "M + M'"]) (simp add: rel_mset_union subset_mset.add_mono)
qed

lemma follows_one: "later x y \<Longrightarrow> follows {#x#} {#y#}"
  unfolding follows_def by (intro exI [of _ "{#y#}"]) (simp add: rel_mset_Plus rel_mset_Zero)

lemma follows_map: "(\<And>x. x \<in> set xs \<Longrightarrow> later (f x) (g x)) \<Longrightarrow> follows (mset (List.map f xs)) (mset (List.map g xs))"
proof (induction xs)
  case (Cons x xs)
  then have "follows ({#f x#} + mset (List.map f xs)) ({#g x#} + mset (List.map g xs))"
    by (intro follows_add follows_one) simp_all
  then show ?case by simp
qed simp

section \<open>One direction of a session\<close>

text \<open>What is on its way in the queue and in the sender, with the earliest instant it can be sent at.\<close>

definition leg_items :: "duration \<Rightarrow> pending list \<Rightarrow> worker \<Rightarrow> (instant \<times> payload) multiset" where
  "leg_items least q w =
     mset (List.map (\<lambda>(a, d). (a + least, d)) q) + mset (List.map (\<lambda>(t, _, d). (t, d)) (wk_heap w))"

lemma leg_items_new [simp]: "leg_items least [] new_worker = {#}"
  by (simp add: leg_items_def new_worker_def)

lemma leg_items_snoc: "leg_items least (q @ [(a, d)]) w = leg_items least q w + {#(a + least, d)#}"
  by (simp add: leg_items_def)

lemma mset_map_heap_push:
  "mset (List.map f (heap_push x h)) = add_mset (f x) (mset (List.map f h))"
  by simp

lemma leg_takes:
  assumes "least \<le> sampled"
  shows "follows (leg_items least q (worker_recv mx sampled x w)) (leg_items least (x # q) w)"
proof -
  obtain a d where x: "x = (a, d)" by (cases x)
  have drop: "follows (leg_items least q w) (leg_items least (x # q) w)"
    by (rule follows_sub) (simp add: leg_items_def x)
  have "follows (leg_items least q w + {#(a + sampled, d)#}) (leg_items least q w + {#(a + least, d)#})"
    by (intro follows_add follows_one follows_refl) (use assms in \<open>simp add: later_def\<close>)
  then have push: "follows (add_mset (a + sampled, d) (leg_items least q w)) (leg_items least (x # q) w)"
    by (simp add: leg_items_def x)
  show ?thesis
    using drop push by (simp add: worker_recv_def x) (simp add: leg_items_def mset_map_heap_push)
qed

lemma sent_now_eq:
  "sent_now now w = List.map (\<lambda>(_, _, d). (now, d)) (takeWhile (\<lambda>x. fst x \<le> now) (wk_heap w))"
  by (auto simp: sent_now_def worker_wake_eq)

lemma leg_wakes:
  "follows (mset (sent_now now w) + leg_items least q (worker_wake now w)) (leg_items least q w)"
proof -
  let ?due = "\<lambda>x :: release. fst x \<le> now" and ?item = "\<lambda>(t, _, d). (t, d)"
  have "follows (mset (List.map (\<lambda>(_, _, d). (now, d)) (takeWhile ?due (wk_heap w))))
      (mset (List.map ?item (takeWhile ?due (wk_heap w))))"
    by (rule follows_map) (auto simp: later_def dest: set_takeWhileD)
  then have "follows
      (mset (sent_now now w) + mset (List.map ?item (dropWhile ?due (wk_heap w))))
      (mset (List.map ?item (takeWhile ?due (wk_heap w))) + mset (List.map ?item (dropWhile ?due (wk_heap w))))"
    unfolding sent_now_eq by (rule follows_add) simp
  moreover have "mset (List.map ?item (takeWhile ?due (wk_heap w))) + mset (List.map ?item (dropWhile ?due (wk_heap w)))
      = mset (List.map ?item (wk_heap w))"
    by (metis map_append mset_append takeWhile_dropWhile_id)
  ultimately have "follows (mset (List.map (\<lambda>(a, d). (a + least, d)) q)
      + (mset (sent_now now w) + mset (List.map ?item (dropWhile ?due (wk_heap w)))))
      (mset (List.map (\<lambda>(a, d). (a + least, d)) q) + mset (List.map ?item (wk_heap w)))"
    by (metis follows_add follows_refl)
  then show ?thesis
    by (simp add: leg_items_def worker_wake_eq add.left_commute)
qed

section \<open>Links\<close>

text \<open>The least delay of a link; a draw from a range is in the range.\<close>

definition least_delay :: "delay_dist option \<Rightarrow> duration" where
  "least_delay d = (case d of Some (Fixed_Delay x) \<Rightarrow> x | Some (Uniform_Delay lo hi) \<Rightarrow> lo | _ \<Rightarrow> 0)"

definition fair_draws :: "delay_draws \<Rightarrow> bool" where
  "fair_draws r \<longleftrightarrow> (\<forall>a b. a < b \<longrightarrow> a \<le> dd_uniform r a b)"

fun fair_event :: "'p relay_event \<Rightarrow> bool" where
  "fair_event (Forward_Takes p draws) = fair_draws draws"
| "fair_event (Return_Takes p draws) = fair_draws draws"
| "fair_event e = True"

lemma least_sampled: "fair_draws r \<Longrightarrow> least_delay d \<le> sampled_delay r d"
  by (auto simp: least_delay_def sampled_delay_def fair_draws_def split: option.split delay_dist.split)

definition least_forward :: "'p relay_env \<Rightarrow> relay_config \<Rightarrow> 'p \<Rightarrow> duration" where
  "least_forward env cfg p = least_delay (forward_delay cfg (index_of_peer env cfg p))"

definition least_return :: "'p relay_env \<Rightarrow> relay_config \<Rightarrow> 'p \<Rightarrow> duration" where
  "least_return env cfg p = least_delay (return_delay cfg (index_of_peer env cfg p))"

text \<open>What an event brings to a link, unless the link is cut at that moment.\<close>

fun arrives_from_peer ::
  "'p relay_env \<Rightarrow> 'p \<Rightarrow> 'p relay_run \<Rightarrow> 'p relay_event \<Rightarrow> (instant \<times> payload) list" where
  "arrives_from_peer env p r (From_Peer now ms upstream q d) =
     (let cfg = rr_config r; i = index_of_peer env cfg p in
      if q = p \<and> rr_running r \<and> \<not> is_blocked (rc_blocked cfg) i (rc_node_id cfg)
      then [(now + stall_delay (rc_stalled cfg) ms i (rc_node_id cfg) + least_forward env cfg p, d)]
      else [])"
| "arrives_from_peer env p r e = []"

fun arrives_from_node ::
  "'p relay_env \<Rightarrow> 'p \<Rightarrow> 'p relay_run \<Rightarrow> 'p relay_event \<Rightarrow> (instant \<times> payload) list" where
  "arrives_from_node env p r (From_Node now ms q d) =
     (let cfg = rr_config r; i = index_of_peer env cfg p in
      if q = p \<and> \<not> is_blocked (rc_blocked cfg) (rc_node_id cfg) i
      then [(now + stall_delay (rc_stalled cfg) ms (rc_node_id cfg) i + least_return env cfg p, d)]
      else [])"
| "arrives_from_node env p r e = []"

fun arrived ::
  "'p relay_env \<Rightarrow> ('p relay_run \<Rightarrow> 'p relay_event \<Rightarrow> (instant \<times> payload) list) \<Rightarrow> 'p relay_run
   \<Rightarrow> 'p relay_event list \<Rightarrow> (instant \<times> payload) list" where
  "arrived env f r [] = []"
| "arrived env f r (e # es) = f r e @ arrived env f (relay_happens env r e) es"

definition delivered :: "'p \<Rightarrow> ('p \<times> instant \<times> payload) list \<Rightarrow> (instant \<times> payload) list" where
  "delivered p log = List.map snd (filter (\<lambda>x. fst x = p) log)"

lemma delivered_append [simp]: "delivered p (xs @ ys) = delivered p xs @ delivered p ys"
  by (simp add: delivered_def)

lemma delivered_pairs [simp]: "delivered p (List.map (Pair q) ds) = (if q = p then ds else [])"
  by (simp add: delivered_def filter_map comp_def)

lemma delivered_map [simp]: "delivered p (List.map (\<lambda>x. (p, f x)) xs) = List.map f xs"
  by (simp add: delivered_def filter_map comp_def)

section \<open>Toward the node\<close>

definition toward_node :: "'p relay_env \<Rightarrow> 'p \<Rightarrow> 'p relay_run \<Rightarrow> (instant \<times> payload) multiset" where
  "toward_node env p r =
     mset (delivered p (rr_to_node r))
     + (case map_of (rr_table r) p of
          None \<Rightarrow> {#}
        | Some s \<Rightarrow>
            leg_items (least_forward env (rr_config r) p) (rs_queue s) (fl_forward (rr_flows r p)))"

text \<open>What a datagram does to the sessions: to those of other peers nothing, unless it evicts one.\<close>

lemma receive_other:
  "q \<noteq> p \<Longrightarrow> map_of (relay_receive cfg now ms up i q d ss) p \<in> {None, map_of ss p}"
  by (auto simp: relay_receive_def ensure_session_def make_room_def Let_def map_of_assoc_put map_of_assoc_remove
      split: option.splits prod.splits)

lemma receive_known:
  "map_of ss p = Some s \<Longrightarrow>
   map_of (relay_receive cfg now ms up i p d ss) p =
     (if is_blocked (rc_blocked cfg) i (rc_node_id cfg) then Some s
      else if \<not> rs_alive s then None
      else if relay_queue_cap \<le> length (rs_queue s) then Some (s\<lparr> rs_last_seen := now \<rparr>)
      else Some (s\<lparr> rs_last_seen := now,
        rs_queue := rs_queue s @ [(now + stall_delay (rc_stalled cfg) ms i (rc_node_id cfg), d)] \<rparr>))"
  by (simp add: relay_receive_def ensure_session_def Let_def map_of_assoc_put map_of_assoc_remove)

lemma receive_new:
  "map_of ss p = None \<Longrightarrow>
   map_of (relay_receive cfg now ms up i p d ss) p =
     (if \<not> up then None
      else if is_blocked (rc_blocked cfg) i (rc_node_id cfg) then Some (new_session now)
      else Some (new_session now\<lparr> rs_queue := [(now + stall_delay (rc_stalled cfg) ms i (rc_node_id cfg), d)] \<rparr>))"
  by (auto simp: relay_receive_def ensure_session_def make_room_def Let_def new_session_def relay_queue_cap_def
      map_of_assoc_put map_of_assoc_remove split: option.split)

lemma hear_peer_keeps [simp]:
  "rr_config (hear_peer env now ms up q d r) = rr_config r"
  "rr_to_node (hear_peer env now ms up q d r) = rr_to_node r"
  "rr_to_peers (hear_peer env now ms up q d r) = rr_to_peers r"
  "q \<noteq> p \<Longrightarrow> rr_flows (hear_peer env now ms up q d r) p = rr_flows r p"
  by (simp_all add: hear_peer_def)

lemma hear_peer_other:
  "q \<noteq> p \<Longrightarrow> map_of (rr_table (hear_peer env now ms up q d r)) p \<in> {None, map_of (rr_table r) p}"
  using receive_other by (simp add: hear_peer_def)

lemma hear_peer_toward:
  assumes "rr_running r"
  shows "follows (toward_node env p (hear_peer env now ms up q d r))
    (toward_node env p r + mset (arrives_from_peer env p r (From_Peer now ms up q d)))"
proof (cases "q = p")
  case False
  then have "map_of (rr_table (hear_peer env now ms up q d r)) p \<in> {None, map_of (rr_table r) p}"
    by (rule hear_peer_other)
  then have "toward_node env p (hear_peer env now ms up q d r) \<subseteq># toward_node env p r"
    using False by (auto simp: toward_node_def split: option.split)
  then show ?thesis using False by (simp add: follows_sub)
next
  case True
  let ?cfg = "rr_config r"
  let ?i = "index_of_peer env ?cfg p"
  show ?thesis
  proof (cases "map_of (rr_table r) p")
    case None
    then show ?thesis
      using True assms
      by (auto simp: toward_node_def hear_peer_def Let_def receive_new new_session_def new_flow_def leg_items_def
          new_worker_def intro!: follows_sub)
  next
    case (Some s)
    then show ?thesis
      using True assms
      by (auto simp: toward_node_def hear_peer_def Let_def receive_known leg_items_snoc intro!: follows_sub)
  qed
qed

lemma forward_takes_toward:
  assumes "fair_draws draws"
  shows "follows (toward_node env p (forward_takes env q draws r)) (toward_node env p r)"
proof (cases "map_of (rr_table r) q")
  case (Some s)
  show ?thesis
  proof (cases "rs_alive s \<and> rs_queue s \<noteq> []")
    case True
    then obtain x rest where queue: "rs_queue s = x # rest" by (cases "rs_queue s") auto
    have "follows (leg_items (least_forward env (rr_config r) q) rest
          (worker_recv (rn_instant_max env)
            (sampled_delay draws (forward_delay (rr_config r) (index_of_peer env (rr_config r) q))) x
            (fl_forward (rr_flows r q))))
        (leg_items (least_forward env (rr_config r) q) (x # rest) (fl_forward (rr_flows r q)))"
      by (rule leg_takes) (simp add: least_forward_def least_sampled assms)
    then have "follows (mset (delivered q (rr_to_node r)) + leg_items (least_forward env (rr_config r) q) rest
          (worker_recv (rn_instant_max env)
            (sampled_delay draws (forward_delay (rr_config r) (index_of_peer env (rr_config r) q))) x
            (fl_forward (rr_flows r q)))) (toward_node env q r)"
      by (simp add: toward_node_def Some queue follows_add)
    then show ?thesis
      using True Some queue
      by (cases "p = q")
        (simp_all add: forward_takes_def toward_node_def Let_def worker_takes_def map_of_assoc_put
          split: option.split)
  qed (use Some in \<open>auto simp: forward_takes_def split: list.split\<close>)
qed (simp add: forward_takes_def)

lemma forward_wakes_toward: "follows (toward_node env p (forward_wakes q now r)) (toward_node env p r)"
proof (cases "map_of (rr_table r) q")
  case (Some s)
  have "follows (mset (sent_now now (fl_forward (rr_flows r q)))
        + leg_items (least_forward env (rr_config r) q) (rs_queue s) (worker_wake now (fl_forward (rr_flows r q))))
      (leg_items (least_forward env (rr_config r) q) (rs_queue s) (fl_forward (rr_flows r q)))"
    by (rule leg_wakes)
  then have "follows (mset (delivered q (rr_to_node r)) + (mset (sent_now now (fl_forward (rr_flows r q)))
        + leg_items (least_forward env (rr_config r) q) (rs_queue s) (worker_wake now (fl_forward (rr_flows r q)))))
      (toward_node env q r)"
    by (simp add: toward_node_def Some follows_add)
  then show ?thesis
    using Some
    by (cases "p = q") (simp_all add: forward_wakes_def toward_node_def Let_def add.assoc split: option.split)
qed (simp add: forward_wakes_def)

text \<open>The tasks of the way back leave the way to the node alone.\<close>

lemma at_flow_toward:
  "(\<And>f. fl_forward (g f) = fl_forward f) \<Longrightarrow> toward_node env p (at_flow q g r) = toward_node env p r"
  by (simp add: at_flow_def toward_node_def split: option.split)

lemma back_keeps_forward [simp]:
  "fl_forward (read_upstream cfg i now ms d f) = fl_forward f"
  "fl_forward (back_takes mx sampled f) = fl_forward f"
  by (simp_all add: read_upstream_def back_takes_def split: list.split)

lemma return_wakes_toward [simp]: "toward_node env p (return_wakes q now r) = toward_node env p r"
  by (simp add: return_wakes_def toward_node_def Let_def split: option.split)

lemma read_links_toward [simp]: "toward_node env p (read_links cuts stalls r) = toward_node env p r"
  by (simp add: read_links_def toward_node_def least_forward_def index_of_peer_def forward_delay_def
      split: option.split)

lemma end_relay_toward: "toward_node env p (end_relay r) \<subseteq># toward_node env p r"
  by (simp add: end_relay_def toward_node_def)

lemma toward_node_step:
  assumes "fair_event e"
  shows "follows (toward_node env p (relay_happens env r e)) (toward_node env p r + mset (arrives_from_peer env p r e))"
proof (cases e)
  case (From_Peer now ms up q d)
  then show ?thesis
    using hear_peer_toward [of r env p now ms up q d] by (cases "rr_running r") (simp_all add: follows_sub)
qed (use assms in \<open>simp_all add: forward_takes_toward forward_wakes_toward hear_node_def return_takes_def
    upstream_fails_def at_flow_toward end_relay_toward follows_sub Let_def\<close>)

section \<open>Toward the peers\<close>

definition toward_peer :: "'p relay_env \<Rightarrow> 'p \<Rightarrow> 'p relay_run \<Rightarrow> (instant \<times> payload) multiset" where
  "toward_peer env p r =
     mset (delivered p (rr_to_peers r))
     + (if map_of (rr_table r) p \<noteq> None \<and> fl_back_alive (rr_flows r p)
        then leg_items (least_return env (rr_config r) p) (fl_back_queue (rr_flows r p)) (fl_back (rr_flows r p))
        else {#})"

lemma read_upstream_leg:
  assumes "fl_back_alive (read_upstream cfg i now ms d f)"
  shows "follows (leg_items l (fl_back_queue (read_upstream cfg i now ms d f)) (fl_back (read_upstream cfg i now ms d f)))
    (leg_items l (fl_back_queue f) (fl_back f)
     + (if is_blocked (rc_blocked cfg) (rc_node_id cfg) i then {#}
        else {#(now + stall_delay (rc_stalled cfg) ms (rc_node_id cfg) i + l, d)#}))"
  by (rule follows_sub) (simp add: read_upstream_def leg_items_snoc)

lemma back_alive_before: "fl_back_alive (read_upstream cfg i now ms d f) \<Longrightarrow> fl_back_alive f"
  by (simp add: read_upstream_def split: if_splits)

lemma hear_node_back:
  "follows (toward_peer env p (hear_node env now ms q d r))
    (toward_peer env p r + mset (arrives_from_node env p r (From_Node now ms q d)))"
proof (cases "q = p \<and> map_of (rr_table r) p \<noteq> None")
  case False
  then have "toward_peer env p (hear_node env now ms q d r) = toward_peer env p r"
    by (auto simp: hear_node_def at_flow_def toward_peer_def)
  then show ?thesis by (simp add: follows_sub)
next
  case True
  then obtain s where live: "q = p" "map_of (rr_table r) p = Some s" by blast
  let ?cfg = "rr_config r" and ?f = "rr_flows r p"
  let ?f' = "read_upstream ?cfg (index_of_peer env ?cfg p) now ms d ?f"
  let ?l = "least_return env ?cfg p"
  have new: "mset (arrives_from_node env p r (From_Node now ms q d)) =
      (if is_blocked (rc_blocked ?cfg) (rc_node_id ?cfg) (index_of_peer env ?cfg p) then {#}
       else {#(now + stall_delay (rc_stalled ?cfg) ms (rc_node_id ?cfg) (index_of_peer env ?cfg p) + ?l, d)#})"
    using live by (simp add: Let_def)
  have after: "toward_peer env p (hear_node env now ms q d r) = mset (delivered p (rr_to_peers r))
      + (if fl_back_alive ?f' then leg_items ?l (fl_back_queue ?f') (fl_back ?f') else {#})"
    using live by (simp add: hear_node_def at_flow_def toward_peer_def)
  have before: "toward_peer env p r = mset (delivered p (rr_to_peers r))
      + (if fl_back_alive ?f then leg_items ?l (fl_back_queue ?f) (fl_back ?f) else {#})"
    using live by (simp add: toward_peer_def)
  show ?thesis
  proof (cases "fl_back_alive ?f'")
    case True
    have "follows (mset (delivered p (rr_to_peers r)) + leg_items ?l (fl_back_queue ?f') (fl_back ?f'))
      (mset (delivered p (rr_to_peers r)) + (leg_items ?l (fl_back_queue ?f) (fl_back ?f)
        + mset (arrives_from_node env p r (From_Node now ms q d))))"
      unfolding new by (intro follows_add follows_refl read_upstream_leg [OF True])
    then show ?thesis
      unfolding after before using True back_alive_before [OF True] by (simp add: add.assoc)
  next
    case False
    then show ?thesis unfolding after before by (intro follows_sub) simp
  qed
qed

lemma return_takes_back:
  assumes "fair_draws draws"
  shows "follows (toward_peer env p (return_takes env q draws r)) (toward_peer env p r)"
proof (cases "q = p \<and> map_of (rr_table r) p \<noteq> None \<and> fl_back_alive (rr_flows r p)")
  case False
  then have "toward_peer env p (return_takes env q draws r) = toward_peer env p r"
    by (auto simp: return_takes_def at_flow_def toward_peer_def back_takes_def Let_def)
  then show ?thesis by simp
next
  case True
  then obtain s where live: "q = p" "map_of (rr_table r) p = Some s" "fl_back_alive (rr_flows r p)" by blast
  let ?f = "rr_flows r p" and ?l = "least_return env (rr_config r) p"
  let ?s = "sampled_delay draws (return_delay (rr_config r) (index_of_peer env (rr_config r) p))"
  show ?thesis
  proof (cases "fl_back_queue ?f")
    case Nil
    then show ?thesis
      using live by (intro follows_sub) (simp add: return_takes_def at_flow_def toward_peer_def back_takes_def Let_def)
  next
    case (Cons x rest)
    have "follows (leg_items ?l rest (worker_recv (rn_instant_max env) ?s x (fl_back ?f)))
        (leg_items ?l (x # rest) (fl_back ?f))"
      by (rule leg_takes) (simp add: least_return_def least_sampled assms)
    then have "follows (mset (delivered p (rr_to_peers r)) + leg_items ?l rest
        (worker_recv (rn_instant_max env) ?s x (fl_back ?f))) (toward_peer env p r)"
      using live by (simp add: toward_peer_def Cons follows_add)
    then show ?thesis
      using live Cons by (simp add: return_takes_def at_flow_def toward_peer_def back_takes_def Let_def)
  qed
qed

lemma return_wakes_back: "follows (toward_peer env p (return_wakes q now r)) (toward_peer env p r)"
proof (cases "q = p \<and> map_of (rr_table r) p \<noteq> None \<and> fl_back_alive (rr_flows r p)")
  case False
  then have "toward_peer env p (return_wakes q now r) = toward_peer env p r"
    by (auto simp: return_wakes_def toward_peer_def Let_def)
  then show ?thesis by simp
next
  case True
  then obtain s where live: "q = p" "map_of (rr_table r) p = Some s" "fl_back_alive (rr_flows r p)" by blast
  let ?f = "rr_flows r p" and ?l = "least_return env (rr_config r) p"
  have "follows (mset (delivered p (rr_to_peers r))
      + (mset (sent_now now (fl_back ?f)) + leg_items ?l (fl_back_queue ?f) (worker_wake now (fl_back ?f))))
      (toward_peer env p r)"
    unfolding toward_peer_def using live by (simp add: follows_add leg_wakes)
  then show ?thesis
    using live by (simp add: return_wakes_def toward_peer_def Let_def add.assoc)
qed

text \<open>A datagram of a peer can make a session, whose way back is empty, or end one.\<close>

lemma hear_peer_back: "toward_peer env p (hear_peer env now ms up q d r) \<subseteq># toward_peer env p r"
proof (cases "q = p")
  case False
  then show ?thesis
    using hear_peer_other [OF False, of env now ms up d r] by (auto simp: toward_peer_def)
next
  case True
  then show ?thesis
    by (cases "map_of (rr_table r) p")
      (simp_all add: toward_peer_def hear_peer_def receive_new receive_known new_flow_def)
qed

lemma forward_back [simp]:
  "toward_peer env p (forward_takes env q draws r) = toward_peer env p r"
  "toward_peer env p (forward_wakes q now r) = toward_peer env p r"
  by (auto simp: forward_takes_def forward_wakes_def toward_peer_def worker_takes_def map_of_assoc_put Let_def
      split: option.split list.split)

lemma upstream_fails_back [simp]: "toward_peer env p (upstream_fails q r) = toward_peer env p r"
  by (auto simp: upstream_fails_def at_flow_def toward_peer_def)

lemma read_links_back [simp]: "toward_peer env p (read_links cuts stalls r) = toward_peer env p r"
  by (simp add: read_links_def toward_peer_def least_return_def index_of_peer_def return_delay_def)

lemma end_relay_back: "toward_peer env p (end_relay r) \<subseteq># toward_peer env p r"
  by (simp add: end_relay_def toward_peer_def)

lemma toward_peer_step:
  assumes "fair_event e"
  shows "follows (toward_peer env p (relay_happens env r e)) (toward_peer env p r + mset (arrives_from_node env p r e))"
proof (cases e)
  case (From_Node now ms q d)
  then show ?thesis using hear_node_back by simp
qed (use assms in \<open>simp_all add: return_takes_back return_wakes_back hear_peer_back end_relay_back follows_sub\<close>)

section \<open>Runs\<close>

lemma follows_run:
  assumes "\<And>r e. fair_event e \<Longrightarrow> follows (toward (relay_happens env r e)) (toward r + mset (new r e))"
    and "list_all fair_event es"
  shows "follows (toward (foldl (relay_happens env) r es)) (toward r + mset (arrived env new r es))"
  using assms(2)
proof (induction es arbitrary: r)
  case (Cons e es)
  then have "follows (toward (foldl (relay_happens env) r (e # es)))
      (toward (relay_happens env r e) + mset (arrived env new (relay_happens env r e) es))"
    by simp
  moreover have "follows (toward (relay_happens env r e) + mset (arrived env new (relay_happens env r e) es))
      ((toward r + mset (new r e)) + mset (arrived env new (relay_happens env r e) es))"
    using Cons.prems by (intro follows_add follows_refl assms(1)) simp
  ultimately show ?case
    by (simp add: add.assoc) (rule follows_trans)
qed simp

text \<open>C32: A relay hands on only what it has heard, and each datagram once. In every run, whatever sessions are made,
  evicted or dropped and links are cut or stalled, the datagrams handed to the node for a peer can be matched
  one to one with datagrams of that peer that arrived while the link was not cut: the same bytes, and not
  before the arrival with the stall of that moment and the least delay of the link. The same holds of the
  datagrams handed to the peer and those the node sent it.\<close>

theorem relay_hands_on_what_it_heard:
  assumes "list_all fair_event es" and "run_of_relay env cfg es = r"
  shows "follows (mset (delivered p (rr_to_node r)))
      (mset (arrived env (arrives_from_peer env p) (relay_started cfg) es))
    \<and> follows (mset (delivered p (rr_to_peers r)))
      (mset (arrived env (arrives_from_node env p) (relay_started cfg) es))"
proof -
  have "follows (toward_node env p r)
      (toward_node env p (relay_started cfg) + mset (arrived env (arrives_from_peer env p) (relay_started cfg) es))"
    using follows_run [where toward = "toward_node env p", OF toward_node_step assms(1)] assms(2)
    by (auto simp: run_of_relay_def)
  moreover have "follows (toward_peer env p r)
      (toward_peer env p (relay_started cfg) + mset (arrived env (arrives_from_node env p) (relay_started cfg) es))"
    using follows_run [where toward = "toward_peer env p", OF toward_peer_step assms(1)] assms(2)
    by (auto simp: run_of_relay_def)
  moreover have "toward_node env p (relay_started cfg) = {#}" "toward_peer env p (relay_started cfg) = {#}"
    by (simp_all add: toward_node_def toward_peer_def relay_started_def delivered_def)
  moreover have "follows (mset (delivered p (rr_to_node r))) (toward_node env p r)"
    "follows (mset (delivered p (rr_to_peers r))) (toward_peer env p r)"
    by (simp_all add: toward_node_def toward_peer_def follows_sub)
  ultimately show ?thesis using follows_trans by auto
qed

definition sample_relay_env :: "nat relay_env" where
  "sample_relay_env = \<lparr> rn_port = of_nat, rn_instant_max = 100 \<rparr>"

definition sample_relay_events :: "nat relay_event list" where
  "sample_relay_events =
     [From_Peer 2 0 True 9000 ''x'', Forward_Takes 9000 \<lparr> dd_uniform = (\<lambda>a b. a), dd_normal = (\<lambda>m s. m) \<rparr>,
      Forward_Wakes 9000 8]"

lemma sample_relay_run:
  "delivered 9000 (rr_to_node (run_of_relay sample_relay_env sample_relay sample_relay_events)) = [(8, ''x'')]"
proof -
  have i: "index_of_peer sample_relay_env sample_relay 9000 = 0"
    by (simp add: index_of_peer_def sample_relay_env_def sample_relay_def peer_index_def)
  have d: "forward_delay sample_relay 0 = Some (Fixed_Delay 5)"
    by (simp add: forward_delay_def sample_relay_def global_latency_def resolve_latency_def)
  have table: "relay_receive sample_relay 2 0 True 0 9000 ''x'' [] =
      [(9000, \<lparr> rs_queue = [(2, ''x'')], rs_last_seen = 2, rs_alive = True \<rparr>)]"
    by (simp add: relay_receive_def ensure_session_def make_room_def max_sessions_def is_blocked_def
        sample_relay_def new_session_def stall_delay_def relay_queue_cap_def Let_def)
  have mx: "rn_instant_max sample_relay_env = 100" by (simp add: sample_relay_env_def)
  show ?thesis
    by (simp add: run_of_relay_def sample_relay_events_def relay_started_def hear_peer_def i table forward_takes_def d
        sampled_delay_def forward_wakes_def worker_takes_def sent_now_eq new_flow_def new_worker_def worker_recv_def
        relay_queue_cap_def mx Let_def delivered_def)
qed

theorem relay_hands_on_what_it_heard_witness:
  "delivered 9000 (rr_to_node (run_of_relay sample_relay_env sample_relay sample_relay_events)) = [(8, ''x'')]
    \<and> follows {#(8, ''x'')#}
      (mset (arrived sample_relay_env (arrives_from_peer sample_relay_env 9000) (relay_started sample_relay)
        sample_relay_events))"
proof -
  have "list_all fair_event sample_relay_events"
    by (simp add: sample_relay_events_def fair_draws_def)
  from relay_hands_on_what_it_heard [OF this refl, of 9000 sample_relay_env sample_relay] show ?thesis
    by (auto simp: sample_relay_run)
qed

section \<open>Nothing is stuck\<close>

definition flow_heap :: "'p \<Rightarrow> 'p relay_run \<Rightarrow> release list" where
  "flow_heap p r = wk_heap (fl_forward (rr_flows r p))"

lemma wake_all:
  assumes "map_of (rr_table r) p = Some s" and "rs_alive s" and "\<forall>x\<in>set (flow_heap p r). fst x \<le> t"
  shows "rr_table (forward_wakes p t r) = rr_table r \<and> rr_config (forward_wakes p t r) = rr_config r
    \<and> flow_heap p (forward_wakes p t r) = []
    \<and> List.map snd (delivered p (rr_to_node (forward_wakes p t r)))
      = List.map snd (delivered p (rr_to_node r)) @ List.map (\<lambda>(_, _, d). d) (flow_heap p r)"
proof -
  have "takeWhile (\<lambda>x. fst x \<le> t) (flow_heap p r) = flow_heap p r" "dropWhile (\<lambda>x. fst x \<le> t) (flow_heap p r) = []"
    using assms(3) by (simp_all add: takeWhile_eq_all_conv)
  then show ?thesis
    using assms(1,2)
    by (simp add: forward_wakes_def Let_def sent_now_eq worker_wake_eq flow_heap_def comp_def case_prod_beta
        del: takeWhile_eq_all_conv)
qed

lemma take_one:
  assumes "map_of (rr_table r) p = Some s" and "rs_alive s" and "flow_heap p r = []" and "rs_queue s = (a, d) # q"
    and "a + sampled_delay draws (forward_delay (rr_config r) (index_of_peer env (rr_config r) p)) \<le> rn_instant_max env"
  shows "map_of (rr_table (forward_takes env p draws r)) p = Some (s \<lparr> rs_queue := q \<rparr>)
    \<and> rr_config (forward_takes env p draws r) = rr_config r
    \<and> rr_to_node (forward_takes env p draws r) = rr_to_node r
    \<and> (\<exists>n. flow_heap p (forward_takes env p draws r)
        = [(a + sampled_delay draws (forward_delay (rr_config r) (index_of_peer env (rr_config r) p)), n, d)])"
  using assms
  by (simp add: forward_takes_def Let_def worker_takes_def map_of_assoc_put flow_heap_def worker_recv_def
      relay_queue_cap_def)

fun only_forwards :: "'p \<Rightarrow> 'p relay_event \<Rightarrow> bool" where
  "only_forwards p (Forward_Takes q draws) = (q = p)"
| "only_forwards p (Forward_Wakes q now) = (q = p)"
| "only_forwards p e = False"

lemma drain_queue:
  assumes "map_of (rr_table r) p = Some s" and "rs_alive s" and "flow_heap p r = []"
    and "\<forall>x\<in>set (rs_queue s).
      fst x + sampled_delay draws (forward_delay (rr_config r) (index_of_peer env (rr_config r) p))
        \<le> min t (rn_instant_max env)"
  shows "\<exists>es. list_all (only_forwards p) es
    \<and> map_of (rr_table (foldl (relay_happens env) r es)) p = Some (s \<lparr> rs_queue := [] \<rparr>)
    \<and> flow_heap p (foldl (relay_happens env) r es) = []
    \<and> List.map snd (delivered p (rr_to_node (foldl (relay_happens env) r es)))
      = List.map snd (delivered p (rr_to_node r)) @ List.map snd (rs_queue s)"
  using assms
proof (induction "rs_queue s" arbitrary: r s)
  case Nil
  then show ?case by (intro exI [of _ "[]"]) simp
next
  case (Cons x q)
  obtain a d where x: "x = (a, d)" by (cases x)
  let ?delay = "sampled_delay draws (forward_delay (rr_config r) (index_of_peer env (rr_config r) p))"
  let ?s = "s \<lparr> rs_queue := q \<rparr>" and ?r1 = "forward_takes env p draws r"
  let ?r2 = "forward_wakes p t ?r1"
  have queue: "rs_queue s = (a, d) # q" using Cons.hyps(2) x by simp
  have bound: "a + ?delay \<le> t" "a + ?delay \<le> rn_instant_max env" using Cons.prems(4) queue by auto
  note one = take_one [OF Cons.prems(1-3) queue bound(2)]
  then obtain n where heap: "flow_heap p ?r1 = [(a + ?delay, n, d)]" by blast
  have two: "rr_table ?r2 = rr_table ?r1 \<and> rr_config ?r2 = rr_config ?r1 \<and> flow_heap p ?r2 = []
    \<and> List.map snd (delivered p (rr_to_node ?r2))
      = List.map snd (delivered p (rr_to_node ?r1)) @ List.map (\<lambda>(_, _, d). d) (flow_heap p ?r1)"
    by (rule wake_all [where s = ?s]) (use one heap bound Cons.prems(2) in simp_all)
  have "\<exists>es. list_all (only_forwards p) es
    \<and> map_of (rr_table (foldl (relay_happens env) ?r2 es)) p = Some (?s \<lparr> rs_queue := [] \<rparr>)
    \<and> flow_heap p (foldl (relay_happens env) ?r2 es) = []
    \<and> List.map snd (delivered p (rr_to_node (foldl (relay_happens env) ?r2 es)))
      = List.map snd (delivered p (rr_to_node ?r2)) @ List.map snd (rs_queue ?s)"
    by (rule Cons.hyps(1)) (use one two Cons.prems queue in simp_all)
  then obtain es where es: "list_all (only_forwards p) es"
    "map_of (rr_table (foldl (relay_happens env) ?r2 es)) p = Some (?s \<lparr> rs_queue := [] \<rparr>)"
    "flow_heap p (foldl (relay_happens env) ?r2 es) = []"
    "List.map snd (delivered p (rr_to_node (foldl (relay_happens env) ?r2 es)))
      = List.map snd (delivered p (rr_to_node ?r2)) @ List.map snd (rs_queue ?s)"
    by blast
  show ?case
    using es one two heap queue
    by (intro exI [of _ "Forward_Takes p draws # Forward_Wakes p t # es"]) simp
qed

text \<open>C36: No datagram is stuck. Whatever a session holds for the node, its sender can hand all of it over: if the
  release instants can be represented, there are steps of the sender alone after which its queue and its heap
  are empty, and the payloads handed over are those before, then those of the heap, then those of the queue.\<close>

theorem relay_can_drain:
  assumes "map_of (rr_table r) p = Some s" and "rs_alive s"
    and "\<forall>x\<in>set (rs_queue s).
      fst x + sampled_delay draws (forward_delay (rr_config r) (index_of_peer env (rr_config r) p))
        \<le> rn_instant_max env"
  shows "\<exists>es. list_all (only_forwards p) es
    \<and> map_of (rr_table (foldl (relay_happens env) r es)) p = Some (s \<lparr> rs_queue := [] \<rparr>)
    \<and> flow_heap p (foldl (relay_happens env) r es) = []
    \<and> List.map snd (delivered p (rr_to_node (foldl (relay_happens env) r es)))
      = List.map snd (delivered p (rr_to_node r)) @ List.map (\<lambda>(_, _, d). d) (flow_heap p r)
        @ List.map snd (rs_queue s)"
proof -
  let ?t = "Max (insert (rn_instant_max env) (fst ` set (flow_heap p r)))"
  let ?r1 = "forward_wakes p ?t r"
  have one: "rr_table ?r1 = rr_table r \<and> rr_config ?r1 = rr_config r \<and> flow_heap p ?r1 = []
    \<and> List.map snd (delivered p (rr_to_node ?r1))
      = List.map snd (delivered p (rr_to_node r)) @ List.map (\<lambda>(_, _, d). d) (flow_heap p r)"
    by (rule wake_all [OF assms(1,2)]) simp
  have "rn_instant_max env \<le> ?t" by simp
  then have "\<exists>es. list_all (only_forwards p) es
    \<and> map_of (rr_table (foldl (relay_happens env) ?r1 es)) p = Some (s \<lparr> rs_queue := [] \<rparr>)
    \<and> flow_heap p (foldl (relay_happens env) ?r1 es) = []
    \<and> List.map snd (delivered p (rr_to_node (foldl (relay_happens env) ?r1 es)))
      = List.map snd (delivered p (rr_to_node ?r1)) @ List.map snd (rs_queue s)"
    using one assms by (intro drain_queue [where draws = draws and t = ?t]) (auto intro: order_trans)
  then obtain es where es: "list_all (only_forwards p) es"
    "map_of (rr_table (foldl (relay_happens env) ?r1 es)) p = Some (s \<lparr> rs_queue := [] \<rparr>)"
    "flow_heap p (foldl (relay_happens env) ?r1 es) = []"
    "List.map snd (delivered p (rr_to_node (foldl (relay_happens env) ?r1 es)))
      = List.map snd (delivered p (rr_to_node ?r1)) @ List.map snd (rs_queue s)"
    by blast
  then show ?thesis
    using one by (intro exI [of _ "Forward_Wakes p ?t # es"]) simp
qed

text \<open>The example's session, which has a datagram in its queue.\<close>

definition waiting_relay :: "nat relay_run" where
  "waiting_relay =
     (relay_started sample_relay)
       \<lparr> rr_table := [(9000, \<lparr> rs_queue = [(2, ''x'')], rs_last_seen = 2, rs_alive = True \<rparr>)] \<rparr>"

theorem relay_can_drain_witness:
  "\<exists>es. delivered 9000 (rr_to_node waiting_relay) = []
    \<and> List.map snd (delivered 9000 (rr_to_node (foldl (relay_happens sample_relay_env) waiting_relay es))) = [''x'']"
proof -
  let ?s = "\<lparr> rs_queue = [(2, ''x'')], rs_last_seen = 2, rs_alive = True \<rparr>"
  have s: "map_of (rr_table waiting_relay) 9000 = Some ?s" "rs_alive ?s" "flow_heap 9000 waiting_relay = []"
    "delivered 9000 (rr_to_node waiting_relay) = []"
    by (simp_all add: waiting_relay_def relay_started_def flow_heap_def new_flow_def new_worker_def delivered_def)
  have "\<forall>x\<in>set (rs_queue ?s). fst x + sampled_delay \<lparr> dd_uniform = (\<lambda>a b. a), dd_normal = (\<lambda>m s. m) \<rparr>
      (forward_delay (rr_config waiting_relay) (index_of_peer sample_relay_env (rr_config waiting_relay) 9000))
      \<le> rn_instant_max sample_relay_env"
    by (simp add: waiting_relay_def relay_started_def forward_delay_def sample_relay_def sample_relay_env_def
        global_latency_def resolve_latency_def sampled_delay_def index_of_peer_def peer_index_def)
  from relay_can_drain [OF s(1,2) this] obtain es where
    "List.map snd (delivered 9000 (rr_to_node (foldl (relay_happens sample_relay_env) waiting_relay es)))
      = List.map snd (delivered 9000 (rr_to_node waiting_relay))
        @ List.map (\<lambda>(_, _, d). d) (flow_heap 9000 waiting_relay) @ List.map snd (rs_queue ?s)"
    by blast
  then show ?thesis by (intro exI [of _ es]) (simp add: s)
qed

end
