(* ===== verification/Curvy_Grant.thy ===== *)
theory Curvy_Grant
  imports Json Node_Types
begin

text \<open>
  The one-time grant of the Curvy aggregator (\<open>localcluster/src/curvy_grant.rs\<close>): the hand-written ABI
  encodings, the question to the module over JSON-RPC, and the transaction that is sent.

  Bytes are 8-bit words, an address is a 160-bit word written big-endian. The Blokli client, the JSON-RPC
  endpoint and the signing of a transaction are parameters; what is submitted is the trace.
\<close>

type_synonym bytes = "8 word list"

section \<open>Encodings\<close>

fun be_bytes :: "nat \<Rightarrow> nat \<Rightarrow> bytes" where
  "be_bytes 0 v = []"
| "be_bytes (Suc n) v = be_bytes n (v div 256) @ [of_nat (v mod 256)]"

definition address_bytes :: "address \<Rightarrow> bytes" where
  "address_bytes a = be_bytes 20 (unat a)"

definition try_get_target_selector :: bytes where
  "try_get_target_selector = [0xdf, 0x4e, 0x6f, 0x8a]"

definition scope_target_token_selector :: bytes where
  "scope_target_token_selector = [0xa7, 0x6c, 0x9a, 0x2f]"

definition exec_transaction_selector :: bytes where
  "exec_transaction_selector = [0x6a, 0x76, 0x12, 0x02]"

definition gas_limit :: nat where "gas_limit = 300000"
definition fallback_max_fee_per_gas :: nat where "fallback_max_fee_per_gas = 5000000000"
definition fallback_max_priority_fee_per_gas :: nat where
  "fallback_max_priority_fee_per_gas = 1000000000"

text \<open>A buffer of zeros into which slices are written.\<close>

definition zeros :: "nat \<Rightarrow> bytes" where
  "zeros n = replicate n 0"

definition copy_at :: "nat \<Rightarrow> bytes \<Rightarrow> bytes \<Rightarrow> bytes" where
  "copy_at i src dst = take i dst @ src @ drop (i + length src) dst"

definition encode_target :: "address \<Rightarrow> bytes" where
  "encode_target a =
     (((copy_at 0 (address_bytes a) (zeros 32))[20 := 1])[21 := 0])[22 := 3]"

definition encode_scope_target_token :: "bytes \<Rightarrow> bytes" where
  "encode_scope_target_token target = scope_target_token_selector @ target"

definition prevalidated_signature :: "address \<Rightarrow> bytes" where
  "prevalidated_signature owner =
     (copy_at 12 (address_bytes owner) (zeros 65))[64 := 1]"

definition word_u64 :: "nat \<Rightarrow> bytes" where
  "word_u64 v = copy_at 24 (be_bytes 8 v) (zeros 32)"

definition word_address :: "address \<Rightarrow> bytes" where
  "word_address a = copy_at 12 (address_bytes a) (zeros 32)"

definition padded :: "bytes \<Rightarrow> bytes" where
  "padded bs =
     (let out = word_u64 (length bs) @ bs;
          n = (length out + 31) div 32 * 32
      in out @ zeros (n - length out))"

definition encode_exec_transaction :: "address \<Rightarrow> bytes \<Rightarrow> bytes \<Rightarrow> bytes" where
  "encode_exec_transaction to data signatures =
     (let head_len = 10 * 32;
          data_tail = padded data;
          signatures_offset = head_len + length data_tail
      in exec_transaction_selector
         @ word_address to @ word_u64 0 @ word_u64 head_len @ word_u64 0 @ word_u64 0 @ word_u64 0
         @ word_u64 0 @ zeros 32 @ zeros 32 @ word_u64 signatures_offset
         @ data_tail @ padded signatures)"

definition encode_try_get_target :: "address \<Rightarrow> bytes" where
  "encode_try_get_target target = try_get_target_selector @ zeros 12 @ address_bytes target"

section \<open>Asking the module\<close>

datatype grant_error = Grant_Error string | Grant_Panic

text \<open>A byte that continues a UTF-8 sequence: slicing a text there panics.\<close>

definition is_continuation :: "char \<Rightarrow> bool" where
  "is_continuation c \<longleftrightarrow> 128 \<le> (of_char c :: nat) \<and> (of_char c :: nat) < 192"

definition decode_try_get_target :: "string \<Rightarrow> (grant_error, bool) res" where
  "decode_try_get_target returned =
     (let hex = (case strip_prefix ''0x'' returned of Some h \<Rightarrow> h | None \<Rightarrow> returned)
      in if length hex < 128
         then Err (Grant_Error (''tryGetTarget returned '' @ show_nat (length hex) @ '' hex chars, expected 128''))
         else if is_continuation (hex ! 64) then Err Grant_Panic
         else (let word = take 64 hex
               in if \<not> list_all is_hex_digit word
                  then Err (Grant_Error ''tryGetTarget returned non-hex data'')
                  else Ok (dropWhile (\<lambda>c. c = CHR ''0'') word = ''1'')))"

record eip1559_call =
  ec_to :: address
  ec_calldata :: bytes
  ec_value :: nat
  ec_nonce :: nat
  ec_gas_limit :: nat
  ec_max_fee_per_gas :: nat
  ec_max_priority_fee_per_gas :: nat
  ec_chain_id :: nat

record 's grant_env =
  ge_rpc_url :: "string option"
  ge_rpc_post :: "string \<Rightarrow> address \<Rightarrow> bytes \<Rightarrow> (string, json) res"
  ge_chain_info :: "(string, int \<times> string option \<times> string option) res"
  ge_nonce :: "address \<Rightarrow> (string, nat) res"
  ge_sign :: "eip1559_call \<Rightarrow> (string, 's) res"
  ge_submit :: "'s \<Rightarrow> (string, unit) res"

definition already_scoped_on_chain ::
  "'s grant_env \<Rightarrow> string \<Rightarrow> address \<Rightarrow> address \<Rightarrow> (grant_error, bool) res" where
  "already_scoped_on_chain env rpc_url module aggregator =
     res_bind (map_err (\<lambda>e. Grant_Error ''eth_call tryGetTarget'')
                 (ge_rpc_post env rpc_url module (encode_try_get_target aggregator))) (\<lambda>response.
     case json_get ''error'' response of
       Some e \<Rightarrow> Err (Grant_Error ''eth_call tryGetTarget'')
     | None \<Rightarrow>
         (case json_get ''result'' response of
            Some (JStr s) \<Rightarrow> decode_try_get_target s
          | _ \<Rightarrow> Err (Grant_Error ''eth_call tryGetTarget: no result'')))"

definition is_already_scoped :: "string \<Rightarrow> bool" where
  "is_already_scoped message = contains_str ''TargetIsScoped'' message"

section \<open>The grant\<close>

definition quoted_fee :: "string option \<Rightarrow> nat \<Rightarrow> nat" where
  "quoted_fee raw fallback =
     (case Option.bind raw (parse_unsigned 128) of Some n \<Rightarrow> n | None \<Rightarrow> fallback)"

definition grant_call ::
  "address \<Rightarrow> address \<Rightarrow> address \<Rightarrow> address \<Rightarrow> nat \<Rightarrow> nat \<Rightarrow> string option \<Rightarrow> string option
   \<Rightarrow> eip1559_call" where
  "grant_call owner safe module aggregator chain_id nonce fee priority =
     (let scope = encode_scope_target_token (encode_target aggregator);
          max_fee = quoted_fee fee fallback_max_fee_per_gas
      in \<lparr> ec_to = safe,
           ec_calldata = encode_exec_transaction module scope (prevalidated_signature owner),
           ec_value = 0, ec_nonce = nonce, ec_gas_limit = gas_limit,
           ec_max_fee_per_gas = max_fee,
           ec_max_priority_fee_per_gas = min (quoted_fee priority fallback_max_priority_fee_per_gas) max_fee,
           ec_chain_id = chain_id \<rparr>)"

text \<open>The submission, and its verdict: an error that names an already scoped target is a success.\<close>

definition submit_grant :: "'s grant_env \<Rightarrow> 's \<Rightarrow> (grant_error, unit) res" where
  "submit_grant env tx =
     (case ge_submit env tx of
        Inr u \<Rightarrow> Ok ()
      | Inl e \<Rightarrow> if is_already_scoped e then Ok ()
                 else Err (Grant_Error (''submitting the Safe transaction: '' @ e)))"

text \<open>Everything before the submission: chain id, fees, nonce and signature.\<close>

definition prepare_grant ::
  "'s grant_env \<Rightarrow> address \<Rightarrow> address \<Rightarrow> address \<Rightarrow> address \<Rightarrow> (grant_error, 's) res" where
  "prepare_grant env owner safe module aggregator =
     res_bind (map_err (\<lambda>e. Grant_Error ''querying chain info'') (ge_chain_info env)) (\<lambda>(cid, fee, priority).
     if cid < 0 then Err (Grant_Error ''Blokli reported a negative chain id'')
     else
       res_bind (map_err (\<lambda>e. Grant_Error ''querying the owner's nonce'') (ge_nonce env owner)) (\<lambda>nonce.
       map_err (\<lambda>e. Grant_Error ''signing the Safe transaction'')
         (ge_sign env (grant_call owner safe module aggregator (nat cid) nonce fee priority))))"

definition send_grant ::
  "'s grant_env \<Rightarrow> address \<Rightarrow> address \<Rightarrow> address \<Rightarrow> address \<Rightarrow> 's list \<times> (grant_error, unit) res"
where
  "send_grant env owner safe module aggregator =
     (case prepare_grant env owner safe module aggregator of
        Inl e \<Rightarrow> ([], Err e)
      | Inr tx \<Rightarrow> ([tx], submit_grant env tx))"

definition scope_aggregator ::
  "'s grant_env \<Rightarrow> address \<Rightarrow> address \<Rightarrow> address \<Rightarrow> address \<Rightarrow> 's list \<times> (grant_error, unit) res"
where
  "scope_aggregator env owner safe module aggregator =
     (case ge_rpc_url env of
        None \<Rightarrow> send_grant env owner safe module aggregator
      | Some url \<Rightarrow>
          (case already_scoped_on_chain env (str_trim url) module aggregator of
             Inl e \<Rightarrow> ([], Err e)
           | Inr True \<Rightarrow> ([], Ok ())
           | Inr False \<Rightarrow> send_grant env owner safe module aggregator))"

text \<open>The variable that names the aggregator.\<close>

definition aggregator_from_env ::
  "(string \<Rightarrow> address option) \<Rightarrow> string option \<Rightarrow> (string, address option) res" where
  "aggregator_from_env parse_address raw =
     (case raw of
        None \<Rightarrow> Ok None
      | Some v \<Rightarrow>
          (case parse_address (str_trim v) of
             Some a \<Rightarrow> Ok (Some a)
           | None \<Rightarrow> Err ''HOPRD_CURVY_SCOPE_AGGREGATOR must be an EVM address''))"

section \<open>Reading an encoding back\<close>

definition be_val :: "bytes \<Rightarrow> nat" where
  "be_val bs = foldl (\<lambda>acc b. acc * 256 + unat b) 0 bs"

text \<open>The head words of a call, and a dynamic argument found by its offset, as the callee reads them.\<close>

definition abi_word :: "nat \<Rightarrow> bytes \<Rightarrow> bytes" where
  "abi_word i args = take 32 (drop (32 * i) args)"

definition abi_bytes :: "nat \<Rightarrow> bytes \<Rightarrow> bytes" where
  "abi_bytes i args =
     (let off = be_val (abi_word i args); len = be_val (take 32 (drop off args))
      in take len (drop (off + 32) args))"

lemma length_be_bytes [simp]: "length (be_bytes n v) = n"
  by (induction n v rule: be_bytes.induct) simp_all

lemma length_address_bytes [simp]: "length (address_bytes a) = 20"
  by (simp add: address_bytes_def)

lemma length_zeros [simp]: "length (zeros n) = n"
  by (simp add: zeros_def)

lemma zeros_0 [simp]: "zeros 0 = []"
  by (simp add: zeros_def)

lemma take_zeros [simp]: "take i (zeros n) = zeros (min i n)"
  by (simp add: zeros_def)

lemma drop_zeros [simp]: "drop i (zeros n) = zeros (n - i)"
  by (simp add: zeros_def)

lemma be_val_append: "be_val (xs @ [b]) = be_val xs * 256 + unat b"
  by (simp add: be_val_def)

lemma be_val_be_bytes: "v < 256 ^ n \<Longrightarrow> be_val (be_bytes n v) = v"
proof (induction n v rule: be_bytes.induct)
  case (1 v)
  then show ?case by (simp add: be_val_def)
next
  case (2 n v)
  have "v div 256 < 256 ^ n"
    using 2(2) by (simp add: less_mult_imp_div_less mult.commute)
  moreover have "unat (of_nat (v mod 256) :: 8 word) = v mod 256"
    by (simp add: unat_of_nat)
  ultimately show ?case using 2(1) by (simp add: be_val_append)
qed

lemma be_val_zeros: "be_val (zeros n @ bs) = be_val bs"
proof -
  have "foldl (\<lambda>acc b. acc * 256 + unat b) 0 (zeros n) = (0 :: nat)"
    by (induction n) (simp_all add: zeros_def)
  then show ?thesis by (simp add: be_val_def)
qed

lemma word_u64_eq: "word_u64 v = zeros 24 @ be_bytes 8 v"
  by (simp add: word_u64_def copy_at_def zeros_def)

lemma word_address_eq: "word_address a = zeros 12 @ address_bytes a"
  by (simp add: word_address_def copy_at_def zeros_def)

lemma length_words [simp]: "length (word_u64 v) = 32" "length (word_address a) = 32"
  by (simp_all add: word_u64_eq word_address_eq)

lemma be_val_word_u64: "v < 2 ^ 64 \<Longrightarrow> be_val (word_u64 v) = v"
  by (simp add: word_u64_eq be_val_zeros be_val_be_bytes)

lemma be_val_address: "be_val (address_bytes a) = unat a"
proof -
  have "unat a < 2 ^ LENGTH(160)" by (rule unsigned_less)
  then show ?thesis by (simp add: address_bytes_def be_val_be_bytes)
qed

lemma be_val_word_address: "be_val (word_address a) = unat a"
  by (simp add: word_address_eq be_val_zeros be_val_address)

lemma padded_eq: "\<exists>k. padded bs = word_u64 (length bs) @ bs @ zeros k"
  by (auto simp: padded_def Let_def)

lemma length_padded: "32 dvd length (padded bs) \<and> length (padded bs) < length bs + 64"
proof -
  let ?l = "length bs + 32"
  have "?l \<le> (?l + 31) div 32 * 32" by presburger
  then have "length (padded bs) = (?l + 31) div 32 * 32"
    by (simp add: padded_def Let_def add.commute)
  moreover have "(?l + 31) div 32 * 32 < length bs + 64" by presburger
  ultimately show ?thesis by simp
qed

text \<open>A dynamic argument written at an offset is read back from there.\<close>

lemma abi_bytes_at:
  assumes "args = pre @ padded bs @ post" and "be_val (abi_word i args) = length pre"
    and "length bs < 2 ^ 64"
  shows "abi_bytes i args = bs"
proof -
  obtain k where k: "padded bs = word_u64 (length bs) @ bs @ zeros k" using padded_eq by blast
  have "take 32 (drop (length pre) args) = word_u64 (length bs)"
    by (simp add: assms(1) k)
  then show ?thesis
    using assms by (simp add: abi_bytes_def be_val_word_u64 k Let_def)
qed

lemma abi_word_nth:
  assumes "list_all (\<lambda>w. length w = 32) ws" and "i < length ws"
  shows "abi_word i (concat ws @ rest) = ws ! i"
  using assms
proof (induction ws arbitrary: i)
  case (Cons w ws)
  then show ?case
  proof (cases i)
    case 0
    then show ?thesis using Cons.prems by (simp add: abi_word_def)
  next
    case (Suc j)
    have "abi_word i (concat (w # ws) @ rest) = abi_word j (concat ws @ rest)"
      using Cons.prems Suc by (simp add: abi_word_def add.commute)
    then show ?thesis using Cons Suc by simp
  qed
qed simp

definition exec_head :: "address \<Rightarrow> nat \<Rightarrow> bytes list" where
  "exec_head to off =
     [word_address to, word_u64 0, word_u64 320, word_u64 0, word_u64 0, word_u64 0, word_u64 0,
      zeros 32, zeros 32, word_u64 off]"

lemma exec_head_words: "list_all (\<lambda>w. length w = 32) (exec_head to off)"
  by (simp add: exec_head_def)

lemma length_exec_head: "length (concat (exec_head to off)) = 320"
  by (simp add: exec_head_def)

lemma encode_exec_eq:
  "encode_exec_transaction to data sigs =
     exec_transaction_selector @ concat (exec_head to (320 + length (padded data)))
       @ padded data @ padded sigs"
  by (simp add: encode_exec_transaction_def exec_head_def Let_def)

lemma exec_roundtrip:
  assumes "length data + length sigs < 2 ^ 63"
  shows "take 4 (encode_exec_transaction to data sigs) = [0x6a, 0x76, 0x12, 0x02]
    \<and> (let args = drop 4 (encode_exec_transaction to data sigs)
       in be_val (abi_word 0 args) = unat to
          \<and> List.map (\<lambda>i. be_val (abi_word i args)) [1, 3, 4, 5, 6, 7, 8] = [0, 0, 0, 0, 0, 0, 0]
          \<and> abi_bytes 2 args = data
          \<and> abi_bytes 9 args = sigs
          \<and> length args mod 32 = 0)"
proof -
  define off where "off = 320 + length (padded data)"
  define args where "args = concat (exec_head to off) @ padded data @ padded sigs"
  have enc: "encode_exec_transaction to data sigs = exec_transaction_selector @ args"
    by (simp add: encode_exec_eq args_def off_def)
  have w: "abi_word i args = exec_head to off ! i" if "i < 10" for i
    unfolding args_def by (rule abi_word_nth [OF exec_head_words]) (use that in \<open>simp add: exec_head_def\<close>)
  have off: "off < 2 ^ 64"
    using length_padded [of data] assms by (simp add: off_def)
  have z: "be_val (zeros n) = 0" for n
    using be_val_zeros [of n "[]"] by (simp add: be_val_def)
  have d: "abi_bytes 2 args = data"
  proof (rule abi_bytes_at)
    show "args = concat (exec_head to off) @ padded data @ padded sigs" by (simp add: args_def)
    show "be_val (abi_word 2 args) = length (concat (exec_head to off))"
      by (simp add: w exec_head_def be_val_word_u64)
  qed (use assms in simp)
  have s: "abi_bytes 9 args = sigs"
  proof (rule abi_bytes_at)
    show "args = (concat (exec_head to off) @ padded data) @ padded sigs @ []" by (simp add: args_def)
    show "be_val (abi_word 9 args) = length (concat (exec_head to off) @ padded data)"
      using off by (simp add: w exec_head_def be_val_word_u64 off_def)
  qed (use assms in simp)
  have "32 dvd length args"
    using length_padded [of data] length_padded [of sigs]
    by (simp add: args_def length_exec_head dvd_add_left_iff)
  then have "length args mod 32 = 0" by simp
  moreover have "List.map (\<lambda>i. be_val (abi_word i args)) [1, 3, 4, 5, 6, 7, 8] = [0, 0, 0, 0, 0, 0, 0]"
    by (simp add: w exec_head_def be_val_word_u64 z)
  moreover have "be_val (abi_word 0 args) = unat to"
    by (simp add: w exec_head_def be_val_word_address)
  ultimately show ?thesis
    using d s by (simp add: enc exec_transaction_selector_def Let_def)
qed

text \<open>The hand-written call of the Safe is a well-formed ABI encoding: read by the ABI's rules it has
  the selector, the target, no value, a plain call without refunds, and exactly the inner call data and
  signatures that were given.\<close>

theorem exec_transaction_roundtrip:
  assumes "length data + length sigs < 2 ^ 63"
  shows "take 4 (encode_exec_transaction to data sigs) = [0x6a, 0x76, 0x12, 0x02]
    \<and> (let args = drop 4 (encode_exec_transaction to data sigs)
       in be_val (abi_word 0 args) = unat to
          \<and> List.map (\<lambda>i. be_val (abi_word i args)) [1, 3, 4, 5, 6, 7, 8] = [0, 0, 0, 0, 0, 0, 0]
          \<and> abi_bytes 2 args = data
          \<and> abi_bytes 9 args = sigs
          \<and> length args mod 32 = 0)"
  using assms by (rule exec_roundtrip)

lemma length_exec_transaction:
  "length (encode_exec_transaction to data sigs) = 324 + length (padded data) + length (padded sigs)"
  by (simp add: encode_exec_eq length_exec_head exec_transaction_selector_def)

theorem exec_transaction_roundtrip_witness:
  "abi_bytes 2 (drop 4 (encode_exec_transaction 7 [1, 2, 3] [4])) = [1, 2, 3]
   \<and> abi_bytes 9 (drop 4 (encode_exec_transaction 7 [1, 2, 3] [4])) = [4]"
  using exec_transaction_roundtrip [of "[1, 2, 3]" "[4]" 7] by (simp add: Let_def)

lemma encode_target_eq:
  "encode_target a = address_bytes a @ [1, 0, 3] @ zeros 9"
proof -
  have "zeros 12 = 0 # 0 # 0 # zeros 9" by (simp add: zeros_def numeral_eq_Suc)
  then show ?thesis
    by (simp add: encode_target_def copy_at_def list_update_append)
qed

lemma prevalidated_signature_eq:
  "prevalidated_signature owner = zeros 12 @ address_bytes owner @ zeros 32 @ [1]"
proof -
  have "zeros 33 = zeros 32 @ [0]"
    by (simp add: zeros_def flip: replicate_append_same) (simp add: numeral_eq_Suc)
  then show ?thesis
    by (simp add: prevalidated_signature_def copy_at_def list_update_append)
qed

text \<open>The grant names the aggregator and the owner: what the module and the Safe read.\<close>

lemma grant_call_reads:
  "let c = grant_call owner safe module aggregator cid nonce fee priority;
       args = drop 4 (ec_calldata c)
   in ec_to c = safe \<and> ec_value c = 0
      \<and> be_val (abi_word 0 args) = unat module
      \<and> abi_bytes 2 args = scope_target_token_selector @ address_bytes aggregator @ [1, 0, 3] @ zeros 9
      \<and> abi_bytes 9 args = zeros 12 @ address_bytes owner @ zeros 32 @ [1]
      \<and> ec_max_priority_fee_per_gas c \<le> ec_max_fee_per_gas c"
proof -
  have "length (encode_scope_target_token (encode_target aggregator)) + length (prevalidated_signature owner) < 2 ^ 63"
    by (simp add: encode_scope_target_token_def encode_target_eq prevalidated_signature_eq
        scope_target_token_selector_def)
  from exec_roundtrip [OF this] show ?thesis
    by (simp add: grant_call_def Let_def encode_scope_target_token_def encode_target_eq
        prevalidated_signature_eq)
qed

text \<open>At most one transaction is submitted, none when the module already has the target or the question
  failed, and the verdict of the only submission is the result.\<close>

lemma scope_aggregator_cases:
  "scope_aggregator env owner safe module aggregator =
     (case (case ge_rpc_url env of None \<Rightarrow> Ok False
            | Some url \<Rightarrow> already_scoped_on_chain env (str_trim url) module aggregator) of
        Inl e \<Rightarrow> ([], Err e)
      | Inr scoped \<Rightarrow>
          if scoped then ([], Ok ())
          else (case prepare_grant env owner safe module aggregator of
                  Inl e \<Rightarrow> ([], Err e)
                | Inr tx \<Rightarrow> ([tx], submit_grant env tx)))"
  by (auto simp: scope_aggregator_def send_grant_def split: option.split sum.split bool.split)

lemma at_most_one_submission: "length (fst (scope_aggregator env owner safe module aggregator)) \<le> 1"
  by (simp add: scope_aggregator_cases split: option.split sum.split)

lemma decode_scoped_word:
  assumes "length rest = 64" and "list_all is_hex_digit rest"
  shows "decode_try_get_target (''0x'' @ replicate 63 (CHR ''0'') @ ''1'' @ rest) = Ok True"
proof -
  have "\<not> is_continuation c" if "is_hex_digit c" for c
    using that by (auto simp: is_continuation_def is_hex_digit_def is_digit_def)
  moreover have "is_hex_digit (rest ! 0)" using assms by (simp add: list_all_length)
  moreover have "(replicate 63 (CHR ''0'') @ ''1'' @ rest) ! 64 = rest ! 0"
    by (simp add: nth_append)
  moreover have "take 64 (replicate 63 (CHR ''0'') @ ''1'' @ rest) = replicate 63 (CHR ''0'') @ ''1''"
    by simp
  moreover have "dropWhile (\<lambda>c. c = CHR ''0'') (replicate 63 (CHR ''0'') @ ''1'') = ''1''"
    by (subst dropWhile_append2) simp_all
  moreover have "list_all is_hex_digit (replicate 63 (CHR ''0'') @ ''1'')"
    by (simp add: list_all_iff is_hex_digit_def is_digit_def)
  ultimately show ?thesis
    using assms(1) by (simp add: decode_try_get_target_def Let_def strip_prefix_def starts_with_def)
qed

end
