(* ===== verification/Cluster_State.thy ===== *)
theory Cluster_State
  imports Prelude "HOL-Library.Sublist"
begin

text \<open>
  What a local cluster keeps on disk: the reset of the nodes' state for a fresh chain and the adoption of
  an old Curvy database (\<open>localcluster/src/state.rs\<close>), and the lock of a running cluster
  (\<open>localcluster/src/lock.rs\<close>).

  A path is its list of components; the file system maps paths to directories, files and symbolic links.
  Failures of the operating system are parameters. An advisory lock is a holder per lock file.
\<close>

section \<open>The file system\<close>

type_synonym path = "string list"

datatype fs_entry = FS_Dir | FS_File string | FS_Symlink path

type_synonym file_system = "path \<rightharpoonup> fs_entry"

text \<open>\<open>os_error\<close> gives the error of an operation on a path, if any: reading its metadata, or removing it.\<close>

record os_errors =
  os_metadata :: "path \<Rightarrow> string option"
  os_remove :: "path \<Rightarrow> string option"
  os_rename :: "path \<Rightarrow> string option"

definition remove_dir_all :: "path \<Rightarrow> file_system \<Rightarrow> file_system" where
  "remove_dir_all p fs = (\<lambda>q. if prefix p q then None else fs q)"

definition remove_file :: "path \<Rightarrow> file_system \<Rightarrow> file_system" where
  "remove_file p fs = (\<lambda>q. if q = p then None else fs q)"

text \<open>\<open>Path::try_exists\<close> follows a symbolic link.\<close>

definition path_exists :: "file_system \<Rightarrow> path \<Rightarrow> bool" where
  "path_exists fs p =
     (case fs p of None \<Rightarrow> False | Some (FS_Symlink t) \<Rightarrow> fs t \<noteq> None | Some _ \<Rightarrow> True)"

definition create_dir_all :: "path \<Rightarrow> file_system \<Rightarrow> file_system" where
  "create_dir_all p fs = (\<lambda>q. if prefix q p \<and> fs q = None then Some FS_Dir else fs q)"

definition rename_file :: "path \<Rightarrow> path \<Rightarrow> file_system \<Rightarrow> file_system" where
  "rename_file p q fs = (fs(q := fs p))(p := None)"

section \<open>Resetting the nodes\<close>

definition max_num_nodes :: nat where
  "max_num_nodes = 10"

definition node_dir :: "path \<Rightarrow> nat \<Rightarrow> path" where
  "node_dir data_dir i = data_dir @ [''db_'' @ show_nat i]"

text \<open>One directory: absent is fine, a directory goes with its contents, anything else is unlinked.\<close>

definition reset_node ::
  "os_errors \<Rightarrow> path \<Rightarrow> file_system \<Rightarrow> file_system \<times> (string, unit) res" where
  "reset_node os p fs =
     (case os_metadata os p of
        Some e \<Rightarrow> (fs, Err ''reading node state directory'')
      | None \<Rightarrow>
          (case fs p of
             None \<Rightarrow> (fs, Ok ())
           | Some entry \<Rightarrow>
               (case os_remove os p of
                  Some e \<Rightarrow> (fs, Err ''resetting node state'')
                | None \<Rightarrow>
                    (if entry = FS_Dir then remove_dir_all p fs else remove_file p fs, Ok ()))))"

fun reset_nodes ::
  "os_errors \<Rightarrow> path \<Rightarrow> nat list \<Rightarrow> file_system \<Rightarrow> file_system \<times> (string, unit) res" where
  "reset_nodes os d [] fs = (fs, Ok ())"
| "reset_nodes os d (i # is) fs =
     (case reset_node os (node_dir d i) fs of
        (fs1, Inl e) \<Rightarrow> (fs1, Err e)
      | (fs1, Inr u) \<Rightarrow> reset_nodes os d is fs1)"

definition prepare_node_state ::
  "os_errors \<Rightarrow> path \<Rightarrow> bool \<Rightarrow> file_system \<Rightarrow> file_system \<times> (string, unit) res" where
  "prepare_node_state os data_dir fresh_chain fs =
     (if fresh_chain then reset_nodes os data_dir [0..<max_num_nodes] fs else (fs, Ok ()))"

section \<open>Adopting an old database\<close>

definition adopt_legacy_curvy_state ::
  "os_errors \<Rightarrow> path \<Rightarrow> path \<Rightarrow> file_system \<Rightarrow> file_system \<times> (string, unit) res" where
  "adopt_legacy_curvy_state os nd legacy fs =
     (if \<not> path_exists fs legacy then (fs, Ok ())
      else if legacy = [] then (fs, Err ''invalid Curvy state path'')
      else
        (let destination = nd @ [last legacy]
         in if path_exists fs destination
            then (fs, Err ''Curvy state exists at both; select the correct database before restarting'')
            else
              (let fs1 = create_dir_all nd fs
               in case os_rename os legacy of
                    Some e \<Rightarrow> (fs1, Err ''moving existing Curvy state'')
                  | None \<Rightarrow> (rename_file legacy destination fs1, Ok ()))))"

section \<open>The lock\<close>

type_synonym pid = nat

record lock_file =
  lk_holder :: "pid option"
  lk_content :: string

definition lock_path :: "string \<Rightarrow> string" where
  "lock_path control_base = control_base @ ''.lock''"

datatype lock_error =
    Lock_Open string
  | Lock_Held "pid option"
  | Lock_Other string

text \<open>Acquiring: \<open>opened\<close> is the verdict of opening the file, \<open>refused\<close> an error of the lock operation
  other than being held, \<open>written\<close> the content after writing the pid failed.\<close>

definition acquire_lock ::
  "(string, unit) res \<Rightarrow> string option \<Rightarrow> string option \<Rightarrow> pid \<Rightarrow> lock_file
   \<Rightarrow> lock_file \<times> (lock_error, unit) res" where
  "acquire_lock opened refused written pid f =
     (case opened of
        Inl e \<Rightarrow> (f, Err (Lock_Open e))
      | Inr u \<Rightarrow>
          (case refused of
             Some e \<Rightarrow> (f, Err (Lock_Other e))
           | None \<Rightarrow>
               (case lk_holder f of
                  Some p \<Rightarrow> (f, Err (Lock_Held (parse_unsigned 32 (str_trim (lk_content f)))))
                | None \<Rightarrow>
                    (f\<lparr> lk_holder := Some pid,
                        lk_content := (case written of None \<Rightarrow> show_nat pid | Some c \<Rightarrow> c) \<rparr>, Ok ()))))"

text \<open>The process ends, by itself or killed: the operating system releases its lock, the file stays.\<close>

definition release_lock :: "pid \<Rightarrow> lock_file \<Rightarrow> lock_file" where
  "release_lock pid f = (if lk_holder f = Some pid then f\<lparr> lk_holder := None \<rparr> else f)"

section \<open>Lemmas\<close>

lemma node_dir_inj: "node_dir d i = node_dir d j \<longleftrightarrow> i = j"
proof -
  have "show_nat i = show_nat j \<Longrightarrow> i = j"
    by (metis digits_val_show_nat option.inject)
  then show ?thesis by (auto simp: node_dir_def)
qed

lemma node_dir_prefix: "prefix (node_dir d i) (node_dir d j) \<longleftrightarrow> i = j"
proof
  assume "prefix (node_dir d i) (node_dir d j)"
  then have "node_dir d i = node_dir d j"
    by (auto simp: prefix_def node_dir_def)
  then show "i = j" by (simp add: node_dir_inj)
qed simp

text \<open>What resetting a path removes: a directory with everything below it, or a single entry.\<close>

definition removes :: "file_system \<Rightarrow> path \<Rightarrow> path \<Rightarrow> bool" where
  "removes fs p q =
     (case fs p of None \<Rightarrow> False | Some FS_Dir \<Rightarrow> prefix p q | Some entry \<Rightarrow> q = p)"

definition without :: "file_system \<Rightarrow> path list \<Rightarrow> file_system" where
  "without fs ps = (\<lambda>q. if list_ex (\<lambda>p. removes fs p q) ps then None else fs q)"

lemma reset_node_Ok: "reset_node os p fs = (fs1, Inr u) \<Longrightarrow> fs1 = without fs [p]"
  by (auto simp: reset_node_def without_def removes_def remove_dir_all_def remove_file_def
      split: option.splits if_splits fs_entry.splits)

lemma reset_node_Err: "reset_node os p fs = (fs1, Inl e) \<Longrightarrow> fs1 = fs"
  by (auto simp: reset_node_def split: option.splits if_splits)

lemma removes_other:
  "i \<noteq> j \<Longrightarrow> removes (without fs [node_dir d i]) (node_dir d j) = removes fs (node_dir d j)"
proof -
  assume "i \<noteq> j"
  then have "\<not> removes fs (node_dir d i) (node_dir d j)"
    by (auto simp: removes_def node_dir_prefix node_dir_inj split: option.splits fs_entry.splits)
  then have "without fs [node_dir d i] (node_dir d j) = fs (node_dir d j)"
    by (simp add: without_def)
  then show ?thesis by (intro ext) (simp add: removes_def)
qed

lemma without_Cons:
  assumes "i \<notin> set is"
  shows "without (without fs [node_dir d i]) (List.map (node_dir d) is)
    = without fs (List.map (node_dir d) (i # is))"
proof -
  have "list_ex (\<lambda>p. removes (without fs [node_dir d i]) p q) (List.map (node_dir d) is)
      = list_ex (\<lambda>p. removes fs p q) (List.map (node_dir d) is)" for q
  proof -
    have "removes (without fs [node_dir d i]) (node_dir d j) q = removes fs (node_dir d j) q"
      if "j \<in> set is" for j
      using that assms removes_other [of i j fs d] by metis
    then show ?thesis by (simp add: list_ex_iff)
  qed
  then show ?thesis
    by (intro ext, simp add: without_def [of "without fs [node_dir d i]"], simp add: without_def)
qed

lemma reset_nodes_exact:
  "distinct is \<Longrightarrow> reset_nodes os d is fs = (fs', r) \<Longrightarrow>
     \<exists>js. prefix js is \<and> fs' = without fs (List.map (node_dir d) js) \<and> (is_ok r \<longrightarrow> js = is)"
proof (induction "is" arbitrary: fs)
  case Nil
  then show ?case by (auto simp: without_def)
next
  case (Cons i "is")
  obtain fs1 r1 where n: "reset_node os (node_dir d i) fs = (fs1, r1)"
    by (cases "reset_node os (node_dir d i) fs")
  show ?case
  proof (cases r1)
    case (Inl e)
    then have "fs' = fs" "r = Inl e"
      using Cons.prems n reset_node_Err [of os "node_dir d i" fs fs1 e] by auto
    then show ?thesis
      by (intro exI [of _ "[]"]) (simp add: without_def)
  next
    case (Inr u)
    then have fs1: "fs1 = without fs [node_dir d i]" using n reset_node_Ok by blast
    have "reset_nodes os d is fs1 = (fs', r)" using Cons.prems n Inr by simp
    then obtain js where js: "prefix js is" "fs' = without fs1 (List.map (node_dir d) js)"
        "is_ok r \<longrightarrow> js = is"
      using Cons by auto
    have "i \<notin> set js" using js(1) Cons.prems(1) set_mono_prefix by auto
    then have "fs' = without fs (List.map (node_dir d) (i # js))"
      using js(2) fs1 without_Cons by simp
    then show ?thesis using js by (intro exI [of _ "i # js"]) simp
  qed
qed

text \<open>Resetting removes exactly the state of the ten node directories of a fresh chain, a directory
  with its contents and anything else as a single entry (a symbolic link is not followed); after an
  error a prefix of them is removed, and everything else in the data directory is untouched.\<close>

theorem prepare_node_state_exact:
  "\<exists>n. fst (prepare_node_state os data_dir fresh fs)
        = without fs (List.map (node_dir data_dir) [0..<n])
      \<and> n \<le> 10
      \<and> (is_ok (snd (prepare_node_state os data_dir fresh fs)) \<longrightarrow> n = (if fresh then 10 else 0))"
proof (cases fresh)
  case False
  then show ?thesis
    by (intro exI [of _ 0]) (simp add: prepare_node_state_def without_def)
next
  case True
  obtain fs' r where out: "reset_nodes os data_dir [0..<max_num_nodes] fs = (fs', r)"
    by (cases "reset_nodes os data_dir [0..<max_num_nodes] fs")
  obtain js where js: "prefix js [0..<max_num_nodes]" "fs' = without fs (List.map (node_dir data_dir) js)"
      "is_ok r \<longrightarrow> js = [0..<max_num_nodes]"
    using reset_nodes_exact [OF _ out] by auto
  have l: "length js \<le> max_num_nodes" using prefix_length_le [OF js(1)] by simp
  then have "js = [0..<length js]"
    using js(1) by (metis add_0 prefix_def append_eq_conv_conj take_upt)
  moreover have "is_ok r \<Longrightarrow> length js = 10" using js(3) by (simp add: max_num_nodes_def)
  ultimately show ?thesis
    using True out js(2) l
    by (intro exI [of _ "length js"]) (auto simp: prepare_node_state_def max_num_nodes_def)
qed

definition sample_fs :: file_system where
  "sample_fs = Map.empty([''d'', ''db_0''] \<mapsto> FS_Dir, [''d'', ''db_0'', ''x''] \<mapsto> FS_File ''state'',
     [''d'', ''id''] \<mapsto> FS_File ''keep'')"

definition no_os_errors :: os_errors where
  "no_os_errors = \<lparr> os_metadata = (\<lambda>p. None), os_remove = (\<lambda>p. None), os_rename = (\<lambda>p. None) \<rparr>"

lemma sample_reset_ok:
  "is_ok (snd (reset_nodes no_os_errors d is fs))"
proof (induction "is" arbitrary: fs)
  case (Cons i "is")
  then show ?case
    by (cases "fs (node_dir d i)") (simp_all add: reset_node_def no_os_errors_def)
qed simp

lemma list_ex_node_dirs:
  "fs (node_dir d 0) = Some FS_Dir \<Longrightarrow> list_ex (\<lambda>p. removes fs p (node_dir d 0 @ q)) (List.map (node_dir d) [0..<10])"
  by (auto simp: list_ex_iff removes_def intro!: bexI [of _ 0])

theorem prepare_node_state_exact_witness:
  "fst (prepare_node_state no_os_errors [''d''] True sample_fs) [''d'', ''db_0'', ''x''] = None"
proof -
  have ok: "is_ok (snd (prepare_node_state no_os_errors [''d''] True sample_fs))"
    using sample_reset_ok by (simp add: prepare_node_state_def)
  have "node_dir [''d''] 0 = [''d'', ''db_0'']"
    unfolding node_dir_def by code_simp
  then have "list_ex (\<lambda>p. removes sample_fs p [''d'', ''db_0'', ''x'']) (List.map (node_dir [''d'']) [0..<10])"
    using list_ex_node_dirs [of sample_fs "[''d'']" "[''x'']"] by (simp add: sample_fs_def)
  then show ?thesis
    using prepare_node_state_exact [of no_os_errors "[''d'']" True sample_fs] ok
    by (auto simp: without_def)
qed

text \<open>Adopting never loses or overwrites a database.\<close>

lemma adopt_keeps_content:
  assumes "adopt_legacy_curvy_state os nd legacy fs = (fs', r)" and "fs legacy = Some (FS_File c)"
    and "legacy \<noteq> nd @ [last legacy]" and "\<not> prefix legacy nd"
  shows "fs' (if is_ok r then nd @ [last legacy] else legacy) = Some (FS_File c)
    \<and> (path_exists fs (nd @ [last legacy]) \<longrightarrow> fs' = fs)"
  using assms
  by (auto simp: adopt_legacy_curvy_state_def path_exists_def rename_file_def create_dir_all_def Let_def
      split: if_splits option.splits)

text \<open>A second process is refused while the first lives, with the pid of the holder when it could be
  written, and gets the lock once the holder is gone.\<close>

lemma lock_excludes:
  assumes "acquire_lock (Ok ()) None None p f = (g, Ok ())" and "p < 2 ^ 32"
  shows "lk_holder g = Some p
    \<and> acquire_lock (Ok ()) None w q g = (g, Err (Lock_Held (Some p)))
    \<and> is_ok (snd (acquire_lock (Ok ()) None w q (release_lock p g)))"
proof -
  have g: "g = f\<lparr> lk_holder := Some p, lk_content := show_nat p \<rparr>"
    using assms(1) by (auto simp: acquire_lock_def split: option.splits)
  have "str_trim (show_nat p) = show_nat p"
  proof -
    have ws: "\<not> is_ascii_ws c" if "c \<in> set (show_nat p)" for c
      using show_nat_digits [OF that] by (auto simp: is_digit_def is_ascii_ws_def)
    have "dropWhile is_ascii_ws (show_nat p) = show_nat p"
      using ws show_nat_not_Nil by (cases "show_nat p") auto
    moreover have "dropWhile is_ascii_ws (rev (show_nat p)) = rev (show_nat p)"
      using ws show_nat_not_Nil by (cases "rev (show_nat p)") (auto simp: rev_eq_Cons_iff)
    ultimately show ?thesis by (simp add: str_trim_def)
  qed
  then show ?thesis
    using assms(2) by (simp add: g acquire_lock_def release_lock_def parse_show_nat)
qed

end
