(* ===== verification/Metrics_Scrape.thy ===== *)
theory Metrics_Scrape
  imports Text_Extra
begin

text \<open>
  The reading of a node's \<open>/metrics\<close> answer by the cluster tools (\<open>MetricsSnapshot\<close> in
  \<open>localcluster/src/client_helper.rs\<close>): the samples of a text exposition, and the sum of a series over the
  label sets that carry a pair. Reading and adding floating-point numbers are parameters; text is ASCII.
\<close>

record 'f f64_lib =
  mf_parse :: "string \<Rightarrow> 'f option"
  mf_add :: "'f \<Rightarrow> 'f \<Rightarrow> 'f"
  mf_zero :: 'f

type_synonym 'f sample = "string \<times> string \<times> 'f"

section \<open>Parsing\<close>

definition sample_line :: "string \<Rightarrow> bool" where
  "sample_line line \<longleftrightarrow> \<not> starts_with ''#'' line \<and> str_trim line \<noteq> []"

definition parse_sample :: "'f f64_lib \<Rightarrow> string \<Rightarrow> 'f sample option" where
  "parse_sample lib line =
     (case split_whitespace line of
        series # number # _ \<Rightarrow>
          (case mf_parse lib number of
             None \<Rightarrow> None
           | Some v \<Rightarrow>
               (case split_once (CHR ''{'') series of
                  Some (name, rest) \<Rightarrow> Some (name, ''{'' @ rest, v)
                | None \<Rightarrow> Some (series, [], v)))
      | _ \<Rightarrow> None)"

definition parse_metrics :: "'f f64_lib \<Rightarrow> string \<Rightarrow> 'f sample list" where
  "parse_metrics lib body =
     List.map_filter (parse_sample lib) (filter sample_line (str_lines body))"

section \<open>Series and labels\<close>

function strip_total_suffixes :: "string \<Rightarrow> string" where
  "strip_total_suffixes name =
     (case strip_suffix ''_total'' name of
        Some stripped \<Rightarrow> strip_total_suffixes stripped
      | None \<Rightarrow> name)"
  by pat_completeness auto

termination
  by (relation "measure length") (auto simp: strip_suffix_Some_iff)

declare strip_total_suffixes.simps [simp del]

text \<open>The loop over the characters of a label block: inside quotes, after a backslash, and the piece so far.\<close>

definition backslash :: char where "backslash = CHR 0x5C"
definition double_quote :: char where "double_quote = CHR 0x22"
definition comma :: char where "comma = CHR '',''"

fun label_pieces :: "bool \<Rightarrow> bool \<Rightarrow> string \<Rightarrow> string \<Rightarrow> string list" where
  "label_pieces in_quotes escaped piece [] = [piece]"
| "label_pieces in_quotes escaped piece (c # s) =
     (if escaped then label_pieces in_quotes False (piece @ [c]) s
      else if c = backslash \<and> in_quotes then label_pieces in_quotes True (piece @ [c]) s
      else if c = double_quote then label_pieces (\<not> in_quotes) False (piece @ [c]) s
      else if c = comma \<and> \<not> in_quotes then piece # label_pieces in_quotes False [] s
      else label_pieces in_quotes False (piece @ [c]) s)"

definition trim_start_char :: "char \<Rightarrow> string \<Rightarrow> string" where
  "trim_start_char d s = dropWhile (\<lambda>c. c = d) s"

definition trim_end_char :: "char \<Rightarrow> string \<Rightarrow> string" where
  "trim_end_char d s = rev (dropWhile (\<lambda>c. c = d) (rev s))"

definition split_labels :: "string \<Rightarrow> string list" where
  "split_labels labels =
     (let inner = trim_end_char (CHR ''}'') (trim_start_char (CHR ''{'') (str_trim labels))
      in filter (\<lambda>p. p \<noteq> []) (List.map str_trim (label_pieces False False [] inner)))"

definition has_label :: "string \<Rightarrow> string \<Rightarrow> bool" where
  "has_label labels pair \<longleftrightarrow> pair = [] \<or> List.member (split_labels labels) pair"

text \<open>\<open>Iterator::sum\<close> adds from the left.\<close>

definition sum_where :: "'f f64_lib \<Rightarrow> 'f sample list \<Rightarrow> string \<Rightarrow> string \<Rightarrow> 'f" where
  "sum_where lib samples name pair =
     foldl (mf_add lib) (mf_zero lib)
       (List.map (\<lambda>(n, ls, v). v)
          (filter (\<lambda>(n, ls, v). strip_total_suffixes n = strip_total_suffixes name \<and> has_label ls pair)
             samples))"

definition sum_series :: "'f f64_lib \<Rightarrow> 'f sample list \<Rightarrow> string \<Rightarrow> 'f" where
  "sum_series lib samples name = sum_where lib samples name []"

section \<open>Names\<close>

lemma strip_total_fixed: "\<not> ends_with ''_total'' name \<Longrightarrow> strip_total_suffixes name = name"
  by (simp add: strip_total_suffixes.simps [of name] strip_suffix_def)

lemma strip_total_append: "strip_total_suffixes (name @ ''_total'') = strip_total_suffixes name"
  by (subst strip_total_suffixes.simps) (simp add: strip_suffix_def ends_with_iff)

lemma concat_replicate_Suc: "concat (replicate (Suc n) x) = concat (replicate n x) @ x"
  by (induction n) simp_all

text \<open>The result is the name without any of its suffixes.\<close>

lemma strip_total_result:
  "(\<exists>n. name = strip_total_suffixes name @ concat (replicate n ''_total''))
   \<and> \<not> ends_with ''_total'' (strip_total_suffixes name)"
proof (induction name rule: strip_total_suffixes.induct)
  case (1 name)
  show ?case
  proof (cases "strip_suffix ''_total'' name")
    case None
    then have s: "strip_total_suffixes name = name" "\<not> ends_with ''_total'' name"
      by (simp_all add: strip_total_suffixes.simps [of name] strip_suffix_def split: if_splits)
    then have "name = strip_total_suffixes name @ concat (replicate 0 ''_total'')" by simp
    then show ?thesis using s by metis
  next
    case (Some stripped)
    then have s: "strip_total_suffixes name = strip_total_suffixes stripped" "name = stripped @ ''_total''"
      by (simp_all add: strip_total_append strip_suffix_Some_iff)
    obtain n where n: "stripped = strip_total_suffixes stripped @ concat (replicate n ''_total'')"
      using 1 [OF Some] by blast
    have "name = (strip_total_suffixes stripped @ concat (replicate n ''_total'')) @ ''_total''"
      using n s(2) by metis
    then have "name = strip_total_suffixes name @ concat (replicate (Suc n) ''_total'')"
      by (metis s(1) concat_replicate_Suc append.assoc)
    then show ?thesis using 1 [OF Some] s(1) by metis
  qed
qed

section \<open>Written expositions are read back\<close>

text \<open>The text format: a sample is its name, its labels in braces with the values quoted, and the number;
  a comment starts with \<open>#\<close>.\<close>

datatype expo_line =
    Comment string
  | Sample string "(string \<times> string) list" string

definition escape_char :: "char \<Rightarrow> string" where
  "escape_char c =
     (if c = backslash then [backslash, backslash]
      else if c = double_quote then [backslash, double_quote]
      else if c = newline then [backslash, CHR ''n'']
      else [c])"

definition escape_value :: "string \<Rightarrow> string" where
  "escape_value v = concat (List.map escape_char v)"

definition label_pair :: "string \<times> string \<Rightarrow> string" where
  "label_pair kv = fst kv @ ''='' @ [double_quote] @ escape_value (snd kv) @ [double_quote]"

definition label_block :: "(string \<times> string) list \<Rightarrow> string" where
  "label_block kvs =
     (if kvs = [] then [] else ''{'' @ join_with '','' (List.map label_pair kvs) @ ''}'')"

fun expo_text :: "expo_line \<Rightarrow> string" where
  "expo_text (Comment s) = ''#'' @ s"
| "expo_text (Sample name kvs number) = name @ label_block kvs @ '' '' @ number"

definition name_char :: "char \<Rightarrow> bool" where
  "name_char c \<longleftrightarrow> is_alnum c \<or> c = CHR ''_'' \<or> c = CHR '':''"

definition plain_char :: "char \<Rightarrow> bool" where
  "plain_char c \<longleftrightarrow> \<not> is_ascii_ws c"

definition label_ok :: "string \<times> string \<Rightarrow> bool" where
  "label_ok kv \<longleftrightarrow> list_all name_char (fst kv) \<and> list_all plain_char (snd kv)"

fun expo_ok :: "'f f64_lib \<Rightarrow> expo_line \<Rightarrow> bool" where
  "expo_ok lib (Comment s) = list_all (\<lambda>c. c \<noteq> newline \<and> c \<noteq> carriage_return) s"
| "expo_ok lib (Sample name kvs number) =
     (name \<noteq> [] \<and> list_all name_char name \<and> list_all label_ok kvs
      \<and> number \<noteq> [] \<and> list_all plain_char number \<and> mf_parse lib number \<noteq> None)"

fun expo_sample :: "'f f64_lib \<Rightarrow> expo_line \<Rightarrow> (string \<times> (string \<times> string) list \<times> 'f) option" where
  "expo_sample lib (Comment s) = None"
| "expo_sample lib (Sample name kvs number) = map_option (\<lambda>x. (name, kvs, x)) (mf_parse lib number)"

subsection \<open>Labels\<close>

lemma name_char_code: "name_char c \<Longrightarrow> 48 \<le> (of_char c :: nat) \<and> (of_char c :: nat) \<le> 122
    \<and> (of_char c :: nat) \<noteq> 61 \<and> (of_char c :: nat) \<noteq> 92"
  by (auto simp: name_char_def is_alnum_def is_digit_def)

lemma name_char_not:
  assumes "name_char c"
  shows "c \<noteq> double_quote" "c \<noteq> comma" "c \<noteq> CHR ''{''" "c \<noteq> CHR ''=''" "c \<noteq> CHR ''#''" "\<not> is_ascii_ws c"
  using name_char_code [OF assms] by (auto simp: double_quote_def comma_def is_ascii_ws_def)

lemma marks_plain: "\<not> is_ascii_ws double_quote" "\<not> is_ascii_ws backslash" "\<not> is_ascii_ws comma"
  "backslash \<noteq> double_quote" "double_quote \<noteq> CHR ''}''" "double_quote \<noteq> comma"
  by (simp_all add: double_quote_def backslash_def comma_def is_ascii_ws_def)

lemma pieces_quoted:
  "label_pieces True False p (escape_value v @ double_quote # s)
   = label_pieces False False (p @ escape_value v @ [double_quote]) s"
proof (induction v arbitrary: p)
  case Nil
  then show ?case using marks_plain(4) by (simp add: escape_value_def)
next
  case (Cons c v)
  then show ?case
    using marks_plain(4) by (auto simp: escape_value_def escape_char_def)
qed

lemma pieces_name:
  "list_all name_char k \<Longrightarrow> label_pieces False False p (k @ s) = label_pieces False False (p @ k) s"
  by (induction k arbitrary: p) (auto simp: name_char_not)

lemma pieces_pair:
  assumes "label_ok kv"
  shows "label_pieces False False p (label_pair kv @ s) = label_pieces False False (p @ label_pair kv) s"
proof -
  have eq: "CHR ''='' \<noteq> double_quote" "CHR ''='' \<noteq> comma" by (simp_all add: double_quote_def comma_def)
  show ?thesis
    using assms pieces_name [of "fst kv"] eq pieces_quoted [of "p @ fst kv @ ''='' @ [double_quote]" "snd kv"]
    by (simp add: label_pair_def label_ok_def)
qed

lemma pieces_pairs:
  "list_all label_ok kvs \<Longrightarrow> kvs \<noteq> [] \<Longrightarrow>
     label_pieces False False [] (join_with '','' (List.map label_pair kvs)) = List.map label_pair kvs"
proof (induction kvs rule: induct_list012)
  case (2 kv)
  then show ?case using pieces_pair [of kv "[]" "[]"] by simp
next
  case (3 kv kv' kvs)
  have "comma \<noteq> double_quote" by (simp add: comma_def double_quote_def)
  then show ?case using 3 pieces_pair [of kv "[]"] by (simp add: comma_def)
qed simp

lemma str_trim_id: "\<not> is_ascii_ws (hd s) \<Longrightarrow> \<not> is_ascii_ws (last s) \<Longrightarrow> str_trim s = s"
proof (cases "s = []")
  case False
  assume "\<not> is_ascii_ws (hd s)" "\<not> is_ascii_ws (last s)"
  with False have "dropWhile is_ascii_ws s = s" "dropWhile is_ascii_ws (rev s) = rev s"
    by (simp_all add: dropWhile_eq_self_iff hd_rev)
  then show ?thesis by (simp add: str_trim_def)
qed (simp add: str_trim_def)

lemma label_pair_ends:
  assumes "label_ok kv"
  shows "label_pair kv \<noteq> []" "\<not> is_ascii_ws (hd (label_pair kv))" "hd (label_pair kv) \<noteq> CHR ''{''"
    "last (label_pair kv) = double_quote"
  using assms name_char_not
  by (cases "fst kv"; auto simp: label_pair_def label_ok_def is_ascii_ws_def)+

lemma join_ends:
  assumes "list_all label_ok kvs" and "kvs \<noteq> []"
  shows "join_with '','' (List.map label_pair kvs) \<noteq> []
    \<and> hd (join_with '','' (List.map label_pair kvs)) \<noteq> CHR ''{''
    \<and> last (join_with '','' (List.map label_pair kvs)) = double_quote"
  using assms by (induction kvs rule: induct_list012) (auto simp: label_pair_ends)

lemma trim_chars_id:
  "s \<noteq> [] \<Longrightarrow> hd s \<noteq> d \<Longrightarrow> trim_start_char d (d # s) = s"
  "s \<noteq> [] \<Longrightarrow> last s \<noteq> d \<Longrightarrow> trim_end_char d (s @ [d]) = s"
  by (cases s; simp add: trim_start_char_def) (cases s rule: rev_cases; simp add: trim_end_char_def)

lemma split_label_block:
  assumes "list_all label_ok kvs"
  shows "split_labels (label_block kvs) = List.map label_pair kvs"
proof (cases "kvs = []")
  case True
  then show ?thesis
    by (simp add: split_labels_def label_block_def str_trim_def trim_start_char_def trim_end_char_def)
next
  case False
  let ?j = "join_with '','' (List.map label_pair kvs)"
  note ends = join_ends [OF assms False]
  have "str_trim (label_block kvs) = CHR ''{'' # (?j @ ''}'')"
    using False by (subst str_trim_id) (simp_all add: label_block_def is_ascii_ws_def)
  moreover have "trim_start_char (CHR ''{'') (CHR ''{'' # (?j @ ''}'')) = ?j @ ''}''"
    using ends by (intro trim_chars_id(1)) (simp_all add: hd_append)
  moreover have "trim_end_char (CHR ''}'') (?j @ ''}'') = ?j"
    using ends marks_plain(5) by (intro trim_chars_id(2)) auto
  moreover have "str_trim (label_pair kv) = label_pair kv \<and> label_pair kv \<noteq> []" if "kv \<in> set kvs" for kv
    using assms that label_pair_ends [of kv] marks_plain(1) by (auto simp: list_all_iff intro!: str_trim_id)
  ultimately show ?thesis
    using pieces_pairs [OF assms False]
    by (simp add: split_labels_def o_def cong: map_cong)
qed

lemma escape_char_prefix: "escape_char c @ x = escape_char d @ y \<longleftrightarrow> c = d \<and> x = y"
  using marks_plain(4) by (auto simp: escape_char_def backslash_def double_quote_def newline_def split: if_splits)

lemma escape_char_not_Nil: "escape_char c \<noteq> []"
  by (simp add: escape_char_def)

lemma escape_value_inject: "escape_value v = escape_value w \<Longrightarrow> v = w"
proof (induction v arbitrary: w)
  case Nil
  then show ?case by (cases w) (simp_all add: escape_value_def escape_char_not_Nil)
next
  case (Cons c v)
  then show ?case
    by (cases w) (auto simp: escape_value_def escape_char_not_Nil escape_char_prefix)
qed

lemma label_pair_inject:
  assumes "label_ok kv" and "label_ok kv'" and "label_pair kv = label_pair kv'"
  shows "kv = kv'"
proof -
  have "CHR ''='' \<notin> set (fst kv)" "CHR ''='' \<notin> set (fst kv')"
    using assms(1,2) name_char_not(4) by (auto simp: label_ok_def list_all_iff)
  then have "split_once (CHR ''='') (label_pair kv) = Some (fst kv, [double_quote] @ escape_value (snd kv) @ [double_quote])"
    "split_once (CHR ''='') (label_pair kv') = Some (fst kv', [double_quote] @ escape_value (snd kv') @ [double_quote])"
    by (simp_all add: label_pair_def)
  then have "fst kv = fst kv'" "escape_value (snd kv) = escape_value (snd kv')"
    using assms(3) by simp_all
  then show ?thesis using escape_value_inject by (simp add: prod_eq_iff)
qed

lemma has_label_block:
  assumes "list_all label_ok kvs" and "label_ok kv"
  shows "has_label (label_block kvs) (label_pair kv) \<longleftrightarrow> kv \<in> set kvs"
proof -
  have "label_pair kv \<in> label_pair ` set kvs \<longleftrightarrow> kv \<in> set kvs"
    using assms label_pair_inject [of kv] by (fastforce simp: list_all_iff)
  then show ?thesis
    using label_pair_ends(1) [OF assms(2)] by (simp add: has_label_def split_label_block [OF assms(1)])
qed

subsection \<open>Lines\<close>

lemma escape_value_plain: "list_all plain_char v \<Longrightarrow> list_all plain_char (escape_value v)"
proof (induction v)
  case (Cons c v)
  have "\<not> is_ascii_ws (CHR ''n'')" by (simp add: is_ascii_ws_def)
  then have "list_all plain_char (escape_char c)"
    using Cons.prems marks_plain by (simp add: escape_char_def plain_char_def)
  then show ?case using Cons by (simp add: escape_value_def)
qed (simp add: escape_value_def)

lemma name_plain: "list_all name_char k \<Longrightarrow> list_all plain_char k"
  using name_char_not(6) by (auto simp: list_all_iff plain_char_def)

lemma label_pair_plain: "label_ok kv \<Longrightarrow> list_all plain_char (label_pair kv)"
  using escape_value_plain name_plain marks_plain(1)
  by (auto simp: label_pair_def label_ok_def plain_char_def is_ascii_ws_def)

lemma join_plain: "list_all (list_all plain_char) ps \<Longrightarrow> list_all plain_char (join_with '','' ps)"
proof (induction ps rule: induct_list012)
  case (3 p q ps)
  have "plain_char (CHR '','')" by (simp add: plain_char_def is_ascii_ws_def)
  then show ?case using 3 by simp
qed simp_all

lemma label_block_plain: "list_all label_ok kvs \<Longrightarrow> list_all plain_char (label_block kvs)"
proof -
  assume "list_all label_ok kvs"
  then have "list_all plain_char (join_with '','' (List.map label_pair kvs))"
    using label_pair_plain by (intro join_plain) (auto simp: list_all_iff)
  moreover have "plain_char (CHR ''{'')" "plain_char (CHR ''}'')" by (simp_all add: plain_char_def is_ascii_ws_def)
  ultimately show ?thesis by (simp add: label_block_def)
qed

lemma parse_sample_text:
  assumes "expo_ok lib (Sample name kvs number)"
  shows "sample_line (expo_text (Sample name kvs number))"
    and "parse_sample lib (expo_text (Sample name kvs number))
      = map_option (\<lambda>x. (name, label_block kvs, x)) (mf_parse lib number)"
proof -
  have n: "name \<noteq> []" "list_all name_char name" "list_all label_ok kvs" "number \<noteq> []"
      "list_all plain_char number" using assms by simp_all
  have name: "\<not> is_ascii_ws (hd name)" "hd name \<noteq> CHR ''#''" "CHR ''{'' \<notin> set name"
    using n(1,2) name_char_not by (cases name; auto simp: list_all_iff)+
  have last: "\<not> is_ascii_ws (last number)" using n(4,5) by (simp add: list_all_iff plain_char_def)
  show "sample_line (expo_text (Sample name kvs number))"
    using n(1,4) name last str_trim_id [of "expo_text (Sample name kvs number)"]
    by (cases name) (auto simp: sample_line_def starts_with_def)
  have word: "list_all (\<lambda>c. \<not> is_ascii_ws c) (name @ label_block kvs)"
    using name_plain [OF n(2)] label_block_plain [OF n(3)] by (auto simp: list_all_iff plain_char_def)
  let ?w = "name @ label_block kvs"
  have whole: "expo_text (Sample name kvs number) = ?w @ CHR '' '' # number" by simp
  have words: "split_whitespace (?w @ CHR '' '' # number) = [?w, number]"
    using n(1,4,5) split_whitespace_word [of number]
    by (subst split_whitespace_Cons [OF word]) (simp_all add: plain_char_def [abs_def], simp add: is_ascii_ws_def)
  show "parse_sample lib (expo_text (Sample name kvs number))
      = map_option (\<lambda>x. (name, label_block kvs, x)) (mf_parse lib number)"
  proof (cases "kvs = []")
    case True
    have "split_once (CHR ''{'') name = None" using name(3) by (simp add: split_once_None_iff)
    then show ?thesis
      unfolding parse_sample_def whole words
      by (cases "mf_parse lib number") (simp_all add: True label_block_def)
  next
    case False
    then obtain r where r: "label_block kvs = CHR ''{'' # r" by (simp add: label_block_def)
    then show ?thesis
      unfolding parse_sample_def whole words
      using name(3) by (cases "mf_parse lib number") (simp_all add: r)
  qed
qed

lemma expo_no_break:
  assumes "expo_ok lib l"
  shows "newline \<notin> set (expo_text l) \<and> carriage_return \<notin> set (expo_text l)"
proof (cases l)
  case (Comment s)
  then show ?thesis using assms by (auto simp: list_all_iff newline_def carriage_return_def)
next
  case (Sample name kvs number)
  have "list_all plain_char (name @ label_block kvs @ number)"
    using assms name_plain label_block_plain by (simp add: Sample)
  moreover have "\<not> plain_char newline" "\<not> plain_char carriage_return" "newline \<noteq> CHR '' ''"
      "carriage_return \<noteq> CHR '' ''"
    by (simp_all add: plain_char_def is_ascii_ws_def newline_def carriage_return_def)
  ultimately show ?thesis by (auto simp: Sample list_all_iff)
qed

lemma parse_metrics_text:
  assumes "list_all (expo_ok lib) ls"
  shows "parse_metrics lib (unlines (List.map expo_text ls))
    = List.map (\<lambda>(n, kvs, x). (n, label_block kvs, x)) (List.map_filter (expo_sample lib) ls)"
proof -
  have "str_lines (unlines (List.map expo_text ls)) = List.map expo_text ls"
    using assms expo_no_break by (intro str_lines_unlines) (auto simp: list_all_iff)
  moreover have "List.map_filter (parse_sample lib) (filter sample_line (List.map expo_text ls))
    = List.map (\<lambda>(n, kvs, x). (n, label_block kvs, x)) (List.map_filter (expo_sample lib) ls)"
    using assms
  proof (induction ls)
    case (Cons l ls)
    then show ?case
    proof (cases l)
      case (Comment s)
      then show ?thesis using Cons by (simp add: sample_line_def starts_with_def)
    next
      case (Sample name kvs number)
      then show ?thesis
        using Cons parse_sample_text [of lib name kvs number]
        by (auto simp: simp del: expo_text.simps split: option.split)
    qed
  qed simp
  ultimately show ?thesis by (simp add: parse_metrics_def)
qed

lemma expo_sample_labels:
  "list_all (expo_ok lib) ls \<Longrightarrow> (n, kvs, x) \<in> set (List.map_filter (expo_sample lib) ls) \<Longrightarrow> list_all label_ok kvs"
  by (induction ls) (auto split: option.splits elim!: expo_sample.elims)


definition sample_f64 :: "int f64_lib" where
  "sample_f64 = \<lparr> mf_parse = (\<lambda>s. map_option int (parse_digits s)), mf_add = (+), mf_zero = 0 \<rparr>"

definition sample_exposition :: "expo_line list" where
  "sample_exposition =
     [Comment ''HELP hopr_packets_count packets'',
      Sample ''hopr_packets_count_total'' [(''type'', ''sent''), (''x'', ''a,b'')] ''12'',
      Sample ''hopr_packets_count_total'' [(''type'', ''received'')] ''7'',
      Sample ''hopr_packets_count_total'' [(''packet_type'', ''sent'')] ''1000'']"


end
