(* ===== verification/Wire.thy ===== *)
theory Wire
  imports Session_Api Account Channels Json
begin

text \<open>
  How the server reads the JSON of a request: the \<open>Deserialize\<close> implementations that serde derives for
  the request types of \<open>rest-api/src/session.rs\<close>, \<open>account.rs\<close>, \<open>channels.rs\<close> and \<open>tickets.rs\<close>. Fields are
  looked up by their camel-case names, unknown ones are ignored; a field read through \<open>DisplayFromStr\<close>
  is a string given to the type's parser. An \<open>Option\<close> field may be absent or \<open>null\<close>. An enum with data is
  an object of exactly one member, named by the variant. The parsers of addresses, balances, sizes,
  bandwidths and Base64 are the libraries'.
\<close>

record wire_lib =
  wl_address :: "string \<Rightarrow> address option"
  wl_balance :: "string \<Rightarrow> balance option"
  wl_bytesize :: "string \<Rightarrow> 64 word option"
  wl_bandwidth :: "string \<Rightarrow> nat option"
  wl_base64 :: "string \<Rightarrow> string option"

section \<open>Fields\<close>

definition read_via :: "(string \<Rightarrow> 'a option) \<Rightarrow> json \<Rightarrow> 'a option" where
  "read_via p j = Option.bind (as_str j) p"

fun read_uint :: "nat \<Rightarrow> json \<Rightarrow> nat option" where
  "read_uint w (JNum s) = parse_unsigned w s"
| "read_uint w _ = None"

definition read_list :: "(json \<Rightarrow> 'a option) \<Rightarrow> json \<Rightarrow> 'a list option" where
  "read_list f j = Option.bind (as_array j) (\<lambda>js. those (List.map f js))"

definition read_field :: "string \<Rightarrow> (json \<Rightarrow> 'a option) \<Rightarrow> json \<Rightarrow> 'a option" where
  "read_field k f j = Option.bind (json_get k j) f"

definition read_optional :: "string \<Rightarrow> (json \<Rightarrow> 'a option) \<Rightarrow> json \<Rightarrow> 'a option option" where
  "read_optional k f j =
     (case as_object j of
        None \<Rightarrow> None
      | Some ms \<Rightarrow>
          (case map_of ms k of
             None \<Rightarrow> Some None
           | Some JNull \<Rightarrow> Some None
           | Some v \<Rightarrow> map_option Some (f v)))"

section \<open>Request types\<close>

definition read_session_target :: "wire_lib \<Rightarrow> json \<Rightarrow> session_target_spec option" where
  "read_session_target lib j =
     (case j of
        JObj [(v, x)] \<Rightarrow>
          if v = ''Plain'' then map_option Plain (as_str x)
          else if v = ''Sealed'' then map_option Sealed (read_via (wl_base64 lib) x)
          else if v = ''Service'' then map_option (\<lambda>n. Service (of_nat n)) (read_uint 32 x)
          else None
      | _ \<Rightarrow> None)"

definition read_routing_options :: "json \<Rightarrow> routing_options option" where
  "read_routing_options j =
     (case j of
        JObj [(v, x)] \<Rightarrow>
          if v = ''Hops'' then map_option Hops (read_uint 64 x)
          else if v = ''IntermediatePath'' then map_option IntermediatePath (read_list as_str x)
          else None
      | _ \<Rightarrow> None)"

definition read_session_client_request :: "wire_lib \<Rightarrow> json \<Rightarrow> session_client_request option" where
  "read_session_client_request lib j =
     do {
       destination \<leftarrow> read_field ''destination'' (read_via (wl_address lib)) j;
       forward \<leftarrow> read_field ''forwardPath'' read_routing_options j;
       return \<leftarrow> read_field ''returnPath'' read_routing_options j;
       target \<leftarrow> read_field ''target'' (read_session_target lib) j;
       listen_host \<leftarrow> read_optional ''listenHost'' as_str j;
       capabilities \<leftarrow> read_optional ''capabilities'' (read_list (read_via capability_from_str)) j;
       response_buffer \<leftarrow> read_optional ''responseBuffer'' (read_via (wl_bytesize lib)) j;
       max_surb_upstream \<leftarrow> read_optional ''maxSurbUpstream'' (read_via (wl_bandwidth lib)) j;
       session_pool \<leftarrow> read_optional ''sessionPool'' (read_uint 64) j;
       max_client_sessions \<leftarrow> read_optional ''maxClientSessions'' (read_uint 64) j;
       flow_control \<leftarrow> read_optional ''flowControl'' (read_via parse_flow_control) j;
       Some \<lparr> scr_destination = destination, scr_forward_path = forward, scr_return_path = return,
         scr_target = target, scr_listen_host = listen_host, scr_capabilities = capabilities,
         scr_response_buffer = response_buffer, scr_max_surb_upstream = max_surb_upstream,
         scr_session_pool = session_pool, scr_max_client_sessions = max_client_sessions,
         scr_flow_control = flow_control \<rparr>
     }"

definition read_session_config :: "wire_lib \<Rightarrow> json \<Rightarrow> session_config_body option" where
  "read_session_config lib j =
     do {
       response_buffer \<leftarrow> read_optional ''responseBuffer'' (read_via (wl_bytesize lib)) j;
       max_surb_upstream \<leftarrow> read_optional ''maxSurbUpstream'' (read_via (wl_bandwidth lib)) j;
       Some \<lparr> scb_response_buffer = response_buffer, scb_max_surb_upstream = max_surb_upstream \<rparr>
     }"

definition read_withdraw_body :: "wire_lib \<Rightarrow> json \<Rightarrow> withdraw_body_request option" where
  "read_withdraw_body lib j =
     do {
       amount \<leftarrow> read_field ''amount'' as_str j;
       address \<leftarrow> read_field ''address'' (read_via (wl_address lib)) j;
       Some \<lparr> wbr_amount = amount, wbr_address = address \<rparr>
     }"

definition read_open_channel_body :: "wire_lib \<Rightarrow> json \<Rightarrow> open_channel_body_request option" where
  "read_open_channel_body lib j =
     do {
       destination \<leftarrow> read_field ''destination'' (read_via (wl_address lib)) j;
       amount \<leftarrow> read_field ''amount'' (read_via (wl_balance lib)) j;
       Some \<lparr> ocr_destination = destination, ocr_amount = amount \<rparr>
     }"

definition read_fund_body :: "wire_lib \<Rightarrow> json \<Rightarrow> balance option" where
  "read_fund_body lib j = read_field ''amount'' (read_via (wl_balance lib)) j"

definition read_redeem_body :: "wire_lib \<Rightarrow> json \<Rightarrow> address option option" where
  "read_redeem_body lib j = read_optional ''address'' (read_via (wl_address lib)) j"

section \<open>Lemmas\<close>

lemma read_via_JStr [simp]: "read_via p (JStr s) = p s"
  by (simp add: read_via_def)

lemma read_list_JArr: "read_list f (JArr js) = those (List.map f js)"
  by (simp add: read_list_def)

lemma those_map_Some: "(\<And>x. x \<in> set xs \<Longrightarrow> f x = Some (g x)) \<Longrightarrow> those (List.map f xs) = Some (List.map g xs)"
  by (induction xs) simp_all

lemma read_optional_JObj:
  "read_optional k f (JObj ms) =
     (case map_of ms k of None \<Rightarrow> Some None | Some JNull \<Rightarrow> Some None | Some v \<Rightarrow> map_option Some (f v))"
  by (simp add: read_optional_def)

lemma read_field_JObj: "read_field k f (JObj ms) = Option.bind (map_of ms k) f"
  by (simp add: read_field_def)

end
