(* ===== verification/Api_Client.thy ===== *)
theory Api_Client
  imports Endpoint Json
begin

text \<open>
  The generated client of the REST API (\<open>rest-api-client/src/codegen/mod.rs\<close>): the types of its request
  bodies and how they are written as JSON, and for every operation the request it builds and how it
  reads the status of the answer.

  \<open>encode_path\<close> and \<open>QueryParam\<close> come from \<open>progenitor_client\<close> and are parameters; the path is what is
  appended to the base URL. Sending the request is the HTTP library's.
\<close>

section \<open>Enumerations\<close>

datatype cl_direction = CD_Outgoing | CD_Incoming

fun cl_direction_text :: "cl_direction \<Rightarrow> string" where
  "cl_direction_text CD_Outgoing = ''outgoing''"
| "cl_direction_text CD_Incoming = ''incoming''"

definition cl_direction_parse :: "string \<Rightarrow> cl_direction option" where
  "cl_direction_parse s =
     (if s = ''outgoing'' then Some CD_Outgoing
      else if s = ''incoming'' then Some CD_Incoming
      else None)"

datatype cl_protocol = CP_Tcp | CP_Udp

fun cl_protocol_text :: "cl_protocol \<Rightarrow> string" where
  "cl_protocol_text CP_Tcp = ''tcp''"
| "cl_protocol_text CP_Udp = ''udp''"

definition cl_protocol_parse :: "string \<Rightarrow> cl_protocol option" where
  "cl_protocol_parse s =
     (if s = ''tcp'' then Some CP_Tcp else if s = ''udp'' then Some CP_Udp else None)"

datatype cl_origin = CO_Chain | CO_Dht

fun cl_origin_text :: "cl_origin \<Rightarrow> string" where
  "cl_origin_text CO_Chain = ''chain''"
| "cl_origin_text CO_Dht = ''dht''"

definition cl_origin_parse :: "string \<Rightarrow> cl_origin option" where
  "cl_origin_parse s =
     (if s = ''chain'' then Some CO_Chain else if s = ''dht'' then Some CO_Dht else None)"

datatype cl_capability =
    CC_Segmentation | CC_Retransmission | CC_RetransmissionAckOnly | CC_NoDelay | CC_NoRateControl
  | CC_UsePix

fun cl_capability_text :: "cl_capability \<Rightarrow> string" where
  "cl_capability_text CC_Segmentation = ''Segmentation''"
| "cl_capability_text CC_Retransmission = ''Retransmission''"
| "cl_capability_text CC_RetransmissionAckOnly = ''RetransmissionAckOnly''"
| "cl_capability_text CC_NoDelay = ''NoDelay''"
| "cl_capability_text CC_NoRateControl = ''NoRateControl''"
| "cl_capability_text CC_UsePix = ''UsePIX''"

definition cl_capability_parse :: "string \<Rightarrow> cl_capability option" where
  "cl_capability_parse s =
     (if s = ''Segmentation'' then Some CC_Segmentation
      else if s = ''Retransmission'' then Some CC_Retransmission
      else if s = ''RetransmissionAckOnly'' then Some CC_RetransmissionAckOnly
      else if s = ''NoDelay'' then Some CC_NoDelay
      else if s = ''NoRateControl'' then Some CC_NoRateControl
      else if s = ''UsePIX'' then Some CC_UsePix
      else None)"

datatype cl_flow_control = CF_Off | CF_Clean | CF_Robust

fun cl_flow_control_text :: "cl_flow_control \<Rightarrow> string" where
  "cl_flow_control_text CF_Off = ''off''"
| "cl_flow_control_text CF_Clean = ''clean''"
| "cl_flow_control_text CF_Robust = ''robust''"

definition cl_flow_control_parse :: "string \<Rightarrow> cl_flow_control option" where
  "cl_flow_control_parse s =
     (if s = ''off'' then Some CF_Off
      else if s = ''clean'' then Some CF_Clean
      else if s = ''robust'' then Some CF_Robust
      else None)"

section \<open>Request bodies\<close>

text \<open>A field with \<open>skip_serializing_if = "Option::is_none"\<close>.\<close>

definition opt_member :: "string \<Rightarrow> ('a \<Rightarrow> json) \<Rightarrow> 'a option \<Rightarrow> (string \<times> json) list" where
  "opt_member k f v = (case v of None \<Rightarrow> [] | Some x \<Rightarrow> [(k, f x)])"

definition json_u64 :: "64 word \<Rightarrow> json" where
  "json_u64 n = JNum (show_nat (unat n))"

definition json_i32 :: "32 word \<Rightarrow> json" where
  "json_i32 n = JNum (show_int (sint n))"

datatype cl_target = CT_Plain string | CT_Sealed "32 word list" | CT_Service "32 word"

fun cl_target_json :: "cl_target \<Rightarrow> json" where
  "cl_target_json (CT_Plain s) = JObj [(''Plain'', JStr s)]"
| "cl_target_json (CT_Sealed bs) = JObj [(''Sealed'', JArr (List.map json_i32 bs))]"
| "cl_target_json (CT_Service n) = JObj [(''Service'', json_i32 n)]"

datatype cl_routing = CR_Hops "64 word" | CR_IntermediatePath "string list"

fun cl_routing_json :: "cl_routing \<Rightarrow> json" where
  "cl_routing_json (CR_Hops n) = JObj [(''Hops'', json_u64 n)]"
| "cl_routing_json (CR_IntermediatePath p) = JObj [(''IntermediatePath'', JArr (List.map JStr p))]"

record cl_session_request =
  cs_capabilities :: "cl_capability list option"
  cs_destination :: string
  cs_flow_control :: "cl_flow_control option"
  cs_forward_path :: cl_routing
  cs_listen_host :: "string option"
  cs_max_client_sessions :: "64 word option"
  cs_max_surb_upstream :: "string option"
  cs_response_buffer :: "string option"
  cs_return_path :: cl_routing
  cs_session_pool :: "64 word option"
  cs_target :: cl_target

definition cl_session_request_json :: "cl_session_request \<Rightarrow> json" where
  "cl_session_request_json r = JObj
     (opt_member ''capabilities'' (\<lambda>cs. JArr (List.map (\<lambda>c. JStr (cl_capability_text c)) cs))
        (cs_capabilities r)
      @ [(''destination'', JStr (cs_destination r))]
      @ opt_member ''flowControl'' (\<lambda>f. JStr (cl_flow_control_text f)) (cs_flow_control r)
      @ [(''forwardPath'', cl_routing_json (cs_forward_path r))]
      @ opt_member ''listenHost'' JStr (cs_listen_host r)
      @ opt_member ''maxClientSessions'' json_u64 (cs_max_client_sessions r)
      @ opt_member ''maxSurbUpstream'' JStr (cs_max_surb_upstream r)
      @ opt_member ''responseBuffer'' JStr (cs_response_buffer r)
      @ [(''returnPath'', cl_routing_json (cs_return_path r))]
      @ opt_member ''sessionPool'' json_u64 (cs_session_pool r)
      @ [(''target'', cl_target_json (cs_target r))])"

record cl_session_config_body =
  cg_max_surb_upstream :: "string option"
  cg_response_buffer :: "string option"

definition cl_session_config_json :: "cl_session_config_body \<Rightarrow> json" where
  "cl_session_config_json c = JObj
     (opt_member ''maxSurbUpstream'' JStr (cg_max_surb_upstream c)
      @ opt_member ''responseBuffer'' JStr (cg_response_buffer c))"

record cl_withdraw_body =
  cw_address :: string
  cw_amount :: string

definition cl_withdraw_json :: "cl_withdraw_body \<Rightarrow> json" where
  "cl_withdraw_json b = JObj [(''address'', JStr (cw_address b)), (''amount'', JStr (cw_amount b))]"

record cl_open_channel_body =
  co_amount :: string
  co_destination :: string

definition cl_open_channel_json :: "cl_open_channel_body \<Rightarrow> json" where
  "cl_open_channel_json b =
     JObj [(''amount'', JStr (co_amount b)), (''destination'', JStr (co_destination b))]"

definition cl_fund_json :: "string \<Rightarrow> json" where
  "cl_fund_json amount = JObj [(''amount'', JStr amount)]"

definition cl_redeem_json :: "string option \<Rightarrow> json" where
  "cl_redeem_json address = JObj (opt_member ''address'' JStr address)"

section \<open>Operations\<close>

record progenitor_lib =
  pl_encode_path :: "string \<Rightarrow> string"
  pl_query :: "string \<Rightarrow> string option \<Rightarrow> (string \<times> string) list"

record client_request =
  cq_operation :: string
  cq_method :: http_method
  cq_path :: string
  cq_headers :: "(string \<times> string) list"
  cq_query :: "(string \<times> string) list"
  cq_body :: "json option"

text \<open>What the client makes of an answer: a value decoded from JSON, a byte stream or nothing; an error
  whose body is decoded or ignored; or \<open>UnexpectedResponse\<close>.\<close>

datatype client_outcome =
    Json_Value | Byte_Stream | Empty_Value | Json_Error | Empty_Error | Unexpected_Response

fun outcome_ok :: "client_outcome \<Rightarrow> bool" where
  "outcome_ok Json_Value = True"
| "outcome_ok Byte_Stream = True"
| "outcome_ok Empty_Value = True"
| "outcome_ok Json_Error = False"
| "outcome_ok Empty_Error = False"
| "outcome_ok Unexpected_Response = False"

record client_operation =
  op_request :: client_request
  op_outcome :: "nat \<Rightarrow> client_outcome"

definition client_api_version :: string where
  "client_api_version = ''4.14.0''"

definition api_version_header :: "(string \<times> string) list" where
  "api_version_header = [(''api-version'', client_api_version)]"

text \<open>The three shapes of the generated operations: those that expect JSON, those that hand back a
  stream, and the probes.\<close>

definition on_status :: "nat \<Rightarrow> client_outcome \<Rightarrow> nat \<Rightarrow> client_outcome" where
  "on_status ok v st = (if st = ok then v else Unexpected_Response)"

definition on_success :: "nat \<Rightarrow> client_outcome" where
  "on_success st =
     (if 200 \<le> st \<and> st \<le> 299 then Byte_Stream
      else if st = 400 then Json_Error
      else Unexpected_Response)"

definition on_probe :: "nat list \<Rightarrow> nat \<Rightarrow> client_outcome" where
  "on_probe errs st =
     (if st = 200 then Empty_Value
      else if st \<in> set errs then Empty_Error
      else Unexpected_Response)"

definition json_operation ::
  "string \<Rightarrow> http_method \<Rightarrow> string \<Rightarrow> (string \<times> string) list \<Rightarrow> json option \<Rightarrow> nat \<Rightarrow> client_operation" where
  "json_operation op m path query body ok =
     \<lparr> op_request =
         \<lparr> cq_operation = op, cq_method = m, cq_path = path,
           cq_headers = [(''accept'', ''application/json'')] @ api_version_header,
           cq_query = query, cq_body = body \<rparr>,
       op_outcome = on_status ok Json_Value \<rparr>"

definition raw_operation ::
  "string \<Rightarrow> http_method \<Rightarrow> string \<Rightarrow> (string \<times> string) list \<Rightarrow> json option
   \<Rightarrow> (nat \<Rightarrow> client_outcome) \<Rightarrow> client_operation" where
  "raw_operation op m path query body out =
     \<lparr> op_request =
         \<lparr> cq_operation = op, cq_method = m, cq_path = path,
           cq_headers = api_version_header,
           cq_query = query, cq_body = body \<rparr>,
       op_outcome = out \<rparr>"

definition cl_addresses :: client_operation where
  "cl_addresses = json_operation ''addresses'' GET ''/api/v4/account/addresses'' [] None 200"

definition cl_balances :: client_operation where
  "cl_balances = json_operation ''balances'' GET ''/api/v4/account/balances'' [] None 200"

definition cl_withdraw :: "cl_withdraw_body \<Rightarrow> client_operation" where
  "cl_withdraw body =
     json_operation ''withdraw'' POST ''/api/v4/account/withdraw'' [] (Some (cl_withdraw_json body)) 200"

definition show_bool :: "bool \<Rightarrow> string" where
  "show_bool b = (if b then ''true'' else ''false'')"

definition cl_list_channels :: "progenitor_lib \<Rightarrow> bool option \<Rightarrow> bool option \<Rightarrow> client_operation" where
  "cl_list_channels lib full_topology including_closed =
     json_operation ''list_channels'' GET ''/api/v4/channels''
       (pl_query lib ''fullTopology'' (map_option show_bool full_topology)
        @ pl_query lib ''includingClosed'' (map_option show_bool including_closed)) None 200"

definition cl_open_channel :: "cl_open_channel_body \<Rightarrow> client_operation" where
  "cl_open_channel body =
     json_operation ''open_channel'' POST ''/api/v4/channels'' [] (Some (cl_open_channel_json body)) 201"

definition cl_show_channel :: "progenitor_lib \<Rightarrow> string \<Rightarrow> cl_direction option \<Rightarrow> client_operation" where
  "cl_show_channel lib address direction =
     json_operation ''show_channel'' GET (''/api/v4/channels/'' @ pl_encode_path lib address)
       (pl_query lib ''direction'' (map_option cl_direction_text direction)) None 200"

definition cl_close_channel :: "progenitor_lib \<Rightarrow> string \<Rightarrow> cl_direction option \<Rightarrow> client_operation" where
  "cl_close_channel lib address direction =
     json_operation ''close_channel'' DELETE (''/api/v4/channels/'' @ pl_encode_path lib address)
       (pl_query lib ''direction'' (map_option cl_direction_text direction)) None 200"

definition cl_fund_channel :: "progenitor_lib \<Rightarrow> string \<Rightarrow> string \<Rightarrow> client_operation" where
  "cl_fund_channel lib address amount =
     json_operation ''fund_channel'' POST (''/api/v4/channels/'' @ pl_encode_path lib address @ ''/fund'')
       [] (Some (cl_fund_json amount)) 200"

definition cl_announced :: client_operation where
  "cl_announced = json_operation ''announced'' GET ''/api/v4/network/announced'' [] None 200"

definition cl_connected :: client_operation where
  "cl_connected = json_operation ''connected'' GET ''/api/v4/network/connected'' [] None 200"

definition cl_graph :: "progenitor_lib \<Rightarrow> bool option \<Rightarrow> client_operation" where
  "cl_graph lib reachable_only =
     raw_operation ''graph'' GET ''/api/v4/network/graph''
       (pl_query lib ''reachableOnly'' (map_option show_bool reachable_only)) None
       (on_status 200 Byte_Stream)"

definition cl_price :: client_operation where
  "cl_price = json_operation ''price'' GET ''/api/v4/network/price'' [] None 200"

definition cl_probability :: client_operation where
  "cl_probability = json_operation ''probability'' GET ''/api/v4/network/probability'' [] None 200"

definition cl_configuration :: client_operation where
  "cl_configuration = json_operation ''configuration'' GET ''/api/v4/node/configuration'' [] None 200"

definition cl_info :: client_operation where
  "cl_info = json_operation ''info'' GET ''/api/v4/node/info'' [] None 200"

definition cl_status :: client_operation where
  "cl_status = json_operation ''status'' GET ''/api/v4/node/status'' [] None 200"

definition cl_version :: client_operation where
  "cl_version = json_operation ''version'' GET ''/api/v4/node/version'' [] None 200"

definition cl_show_peer_info :: "progenitor_lib \<Rightarrow> string \<Rightarrow> client_operation" where
  "cl_show_peer_info lib address =
     json_operation ''show_peer_info'' GET (''/api/v4/peers/'' @ pl_encode_path lib address) [] None 200"

definition cl_ping_peer :: "progenitor_lib \<Rightarrow> string \<Rightarrow> client_operation" where
  "cl_ping_peer lib address =
     json_operation ''ping_peer'' POST (''/api/v4/peers/'' @ pl_encode_path lib address @ ''/ping'')
       [] None 200"

definition cl_session_config :: "progenitor_lib \<Rightarrow> string \<Rightarrow> client_operation" where
  "cl_session_config lib i =
     json_operation ''session_config'' GET (''/api/v4/session/config/'' @ pl_encode_path lib i) [] None 200"

definition cl_adjust_session :: "progenitor_lib \<Rightarrow> string \<Rightarrow> cl_session_config_body \<Rightarrow> client_operation" where
  "cl_adjust_session lib i body =
     raw_operation ''adjust_session'' POST (''/api/v4/session/config/'' @ pl_encode_path lib i)
       [] (Some (cl_session_config_json body)) on_success"

definition cl_list_clients :: "progenitor_lib \<Rightarrow> string \<Rightarrow> client_operation" where
  "cl_list_clients lib protocol =
     json_operation ''list_clients'' GET (''/api/v4/session/'' @ pl_encode_path lib protocol) [] None 200"

definition cl_create_client :: "progenitor_lib \<Rightarrow> string \<Rightarrow> cl_session_request \<Rightarrow> client_operation" where
  "cl_create_client lib protocol body =
     json_operation ''create_client'' POST (''/api/v4/session/'' @ pl_encode_path lib protocol)
       [] (Some (cl_session_request_json body)) 200"

definition cl_close_client :: "progenitor_lib \<Rightarrow> cl_protocol \<Rightarrow> string \<Rightarrow> 32 word \<Rightarrow> client_operation" where
  "cl_close_client lib protocol ip port =
     raw_operation ''close_client'' DELETE
       (''/api/v4/session/'' @ pl_encode_path lib (cl_protocol_text protocol)
        @ ''/'' @ pl_encode_path lib ip
        @ ''/'' @ pl_encode_path lib (show_int (sint port)))
       [] None on_success"

definition cl_redeem_tickets :: "string option \<Rightarrow> client_operation" where
  "cl_redeem_tickets address =
     raw_operation ''redeem_tickets'' POST ''/api/v4/tickets/redeem'' [] (Some (cl_redeem_json address))
       on_success"

definition cl_show_ticket_statistics :: "progenitor_lib \<Rightarrow> string option \<Rightarrow> client_operation" where
  "cl_show_ticket_statistics lib address =
     json_operation ''show_ticket_statistics'' GET ''/api/v4/tickets/statistics''
       (pl_query lib ''address'' address) None 200"

definition cl_eligiblez :: client_operation where
  "cl_eligiblez = raw_operation ''eligiblez'' GET ''/eligiblez'' [] None (on_probe [412, 500])"

definition cl_healthyz :: client_operation where
  "cl_healthyz = raw_operation ''healthyz'' GET ''/healthyz'' [] None (on_probe [412])"

definition cl_metrics :: client_operation where
  "cl_metrics = raw_operation ''metrics'' GET ''/metrics'' [] None (on_status 200 Byte_Stream)"

definition cl_readyz :: client_operation where
  "cl_readyz = raw_operation ''readyz'' GET ''/readyz'' [] None (on_probe [412])"

definition cl_startedz :: client_operation where
  "cl_startedz = raw_operation ''startedz'' GET ''/startedz'' [] None (on_probe [412])"

section \<open>All operations\<close>

datatype client_call =
    C_addresses | C_balances | C_withdraw cl_withdraw_body
  | C_list_channels "bool option" "bool option" | C_open_channel cl_open_channel_body
  | C_show_channel string "cl_direction option" | C_close_channel string "cl_direction option"
  | C_fund_channel string string
  | C_announced | C_connected | C_graph "bool option" | C_price | C_probability
  | C_configuration | C_info | C_status | C_version
  | C_show_peer_info string | C_ping_peer string
  | C_session_config string | C_adjust_session string cl_session_config_body
  | C_list_clients string | C_create_client string cl_session_request
  | C_close_client cl_protocol string "32 word"
  | C_redeem_tickets "string option" | C_show_ticket_statistics "string option"
  | C_eligiblez | C_healthyz | C_metrics | C_readyz | C_startedz

fun client_operation_of :: "progenitor_lib \<Rightarrow> client_call \<Rightarrow> client_operation" where
  "client_operation_of lib C_addresses = cl_addresses"
| "client_operation_of lib C_balances = cl_balances"
| "client_operation_of lib (C_withdraw b) = cl_withdraw b"
| "client_operation_of lib (C_list_channels f i) = cl_list_channels lib f i"
| "client_operation_of lib (C_open_channel b) = cl_open_channel b"
| "client_operation_of lib (C_show_channel a d) = cl_show_channel lib a d"
| "client_operation_of lib (C_close_channel a d) = cl_close_channel lib a d"
| "client_operation_of lib (C_fund_channel a n) = cl_fund_channel lib a n"
| "client_operation_of lib C_announced = cl_announced"
| "client_operation_of lib C_connected = cl_connected"
| "client_operation_of lib (C_graph r) = cl_graph lib r"
| "client_operation_of lib C_price = cl_price"
| "client_operation_of lib C_probability = cl_probability"
| "client_operation_of lib C_configuration = cl_configuration"
| "client_operation_of lib C_info = cl_info"
| "client_operation_of lib C_status = cl_status"
| "client_operation_of lib C_version = cl_version"
| "client_operation_of lib (C_show_peer_info a) = cl_show_peer_info lib a"
| "client_operation_of lib (C_ping_peer a) = cl_ping_peer lib a"
| "client_operation_of lib (C_session_config i) = cl_session_config lib i"
| "client_operation_of lib (C_adjust_session i b) = cl_adjust_session lib i b"
| "client_operation_of lib (C_list_clients p) = cl_list_clients lib p"
| "client_operation_of lib (C_create_client p b) = cl_create_client lib p b"
| "client_operation_of lib (C_close_client p a n) = cl_close_client lib p a n"
| "client_operation_of lib (C_redeem_tickets a) = cl_redeem_tickets a"
| "client_operation_of lib (C_show_ticket_statistics a) = cl_show_ticket_statistics lib a"
| "client_operation_of lib C_eligiblez = cl_eligiblez"
| "client_operation_of lib C_healthyz = cl_healthyz"
| "client_operation_of lib C_metrics = cl_metrics"
| "client_operation_of lib C_readyz = cl_readyz"
| "client_operation_of lib C_startedz = cl_startedz"

end
