(* ===== verification/Wire_Laws.thy ===== *)
theory Wire_Laws
  imports Wire Api_Client
begin

text \<open>
  The request bodies the generated client writes, read by the server: what the server gets of every
  field, and which bodies it refuses.
\<close>

section \<open>Enumerations\<close>

fun server_protocol :: "cl_protocol \<Rightarrow> ip_protocol" where
  "server_protocol CP_Tcp = TCP"
| "server_protocol CP_Udp = UDP"

fun server_capability :: "cl_capability \<Rightarrow> session_capability" where
  "server_capability CC_Segmentation = Segmentation"
| "server_capability CC_Retransmission = Retransmission"
| "server_capability CC_RetransmissionAckOnly = RetransmissionAckOnly"
| "server_capability CC_NoDelay = NoDelay"
| "server_capability CC_NoRateControl = NoRateControl"
| "server_capability CC_UsePix = UsePIX"

fun server_flow_control :: "cl_flow_control \<Rightarrow> session_flow_control" where
  "server_flow_control CF_Off = FC_Off"
| "server_flow_control CF_Clean = FC_Clean"
| "server_flow_control CF_Robust = FC_Robust"

lemma capability_crosses: "capability_from_str (cl_capability_text c) = Some (server_capability c)"
  by (cases c) (simp_all add: capability_from_str_def)

lemma flow_control_crosses: "parse_flow_control (cl_flow_control_text f) = Some (server_flow_control f)"
proof -
  have "cl_flow_control_text f = flow_control_name (server_flow_control f)" by (cases f) simp_all
  then show ?thesis by (simp add: flow_control.parse_show)
qed

lemma protocol_crosses: "protocol_deserialize (cl_protocol_text p) = Some (server_protocol p)"
  by (cases p) (simp_all add: protocol_deserialize_def)

interpretation cl_direction: text_codec cl_direction_text cl_direction_parse "\<lambda>_. True"
proof unfold_locales
  fix x show "cl_direction_parse (cl_direction_text x) = Some x"
    by (cases x) (simp_all add: cl_direction_parse_def)
qed

interpretation cl_protocol: text_codec cl_protocol_text cl_protocol_parse "\<lambda>_. True"
proof unfold_locales
  fix x show "cl_protocol_parse (cl_protocol_text x) = Some x"
    by (cases x) (simp_all add: cl_protocol_parse_def)
qed

interpretation cl_origin: text_codec cl_origin_text cl_origin_parse "\<lambda>_. True"
proof unfold_locales
  fix x show "cl_origin_parse (cl_origin_text x) = Some x"
    by (cases x) (simp_all add: cl_origin_parse_def)
qed

interpretation cl_capability: text_codec cl_capability_text cl_capability_parse "\<lambda>_. True"
proof unfold_locales
  fix x show "cl_capability_parse (cl_capability_text x) = Some x"
    by (cases x) (simp_all add: cl_capability_parse_def)
qed

interpretation cl_flow_control: text_codec cl_flow_control_text cl_flow_control_parse "\<lambda>_. True"
proof unfold_locales
  fix x show "cl_flow_control_parse (cl_flow_control_text x) = Some x"
    by (cases x) (simp_all add: cl_flow_control_parse_def)
qed

section \<open>Numbers, routes and targets\<close>

lemma u64_crosses [simp]: "read_uint 64 (json_u64 n) = Some (unat n)"
proof -
  have "unat n < 2 ^ 64" using unsigned_less [of n] by simp
  then show ?thesis by (simp add: json_u64_def parse_show_nat)
qed

lemma json_u64_not_null [simp]: "json_u64 n \<noteq> JNull"
  by (simp add: json_u64_def)

lemma i32_crosses:
  "read_uint 32 (json_i32 n) = (if 0 \<le> sint n then Some (nat (sint n)) else None)"
proof -
  have "sint n < 2 ^ 32" using sint_less [of n] by simp
  then show ?thesis by (simp add: json_i32_def parse_show_int)
qed

fun server_routing :: "cl_routing \<Rightarrow> routing_options" where
  "server_routing (CR_Hops n) = Hops (unat n)"
| "server_routing (CR_IntermediatePath p) = IntermediatePath p"

lemma routing_crosses: "read_routing_options (cl_routing_json r) = Some (server_routing r)"
proof (cases r)
  case (CR_Hops n)
  then show ?thesis by (simp add: read_routing_options_def)
next
  case (CR_IntermediatePath p)
  have "those (List.map (as_str \<circ> JStr) p) = Some p" by (induction p) simp_all
  then show ?thesis
    by (simp add: CR_IntermediatePath read_routing_options_def read_list_JArr)
qed

text \<open>What the server can read of a target: a plain text, and a service with a non-negative number.
  Sealed bytes are written as numbers where the server expects Base64 text.\<close>

fun server_target :: "cl_target \<Rightarrow> session_target_spec option" where
  "server_target (CT_Plain s) = Some (Plain s)"
| "server_target (CT_Sealed bs) = None"
| "server_target (CT_Service n) = (if 0 \<le> sint n then Some (Service n) else None)"

lemma nonneg_sint_word:
  assumes "0 \<le> sint (n :: 32 word)"
  shows "(of_nat (nat (sint n)) :: 32 word) = n"
proof -
  have "(of_nat (nat (sint n)) :: 32 word) = of_int (sint n)" using assms by simp
  then show ?thesis by simp
qed

lemma nonneg_sint_iff: "0 \<le> sint (s :: 32 word) \<longleftrightarrow> unat s < 2 ^ 31"
proof
  assume nonneg: "0 \<le> sint s"
  have lt: "nat (sint s) < 2147483648" using sint_less [of s] nonneg by (simp add: nat_less_iff)
  have "unat s = unat (of_nat (nat (sint s)) :: 32 word)"
    by (rule arg_cong [OF nonneg_sint_word [OF nonneg, symmetric]])
  also have "\<dots> = nat (sint s) mod 2 ^ LENGTH(32)" by (rule unat_of_nat)
  also have "\<dots> = nat (sint s)" using lt by simp
  finally show "unat s < 2 ^ 31" using lt by simp
next
  assume lt: "unat s < 2 ^ 31"
  have "unat s < 2147483648" using lt by simp
  then have "int (unat s) < int 2147483648" by (simp only: of_nat_less_iff)
  then have "uint s < 2147483648" by simp
  moreover have "sint s = signed_take_bit 31 (uint s)" using sint_uint [of s] by simp
  moreover have "0 \<le> uint s" by (rule uint_ge_0)
  ultimately have "sint s = uint s" using signed_take_bit_int_eq_self [of 31 "uint s"] by simp
  then show "0 \<le> sint s" by simp
qed

lemma target_crosses: "read_session_target lib (cl_target_json t) = server_target t"
proof (cases t)
  case (CT_Service n)
  then show ?thesis
    by (simp add: read_session_target_def i32_crosses nonneg_sint_word del: of_nat_nat)
qed (simp_all add: read_session_target_def read_via_def)

section \<open>Request bodies\<close>

lemma map_of_opt_member [simp]:
  "map_of (opt_member k f v) k' = (if k' = k then map_option f v else None)"
  by (cases v) (simp_all add: opt_member_def)

lemma read_optional_opt:
  assumes "map_of ms k = map_option f v" and "\<And>x. f x \<noteq> JNull"
  shows "read_optional k g (JObj ms) =
    (case v of None \<Rightarrow> Some None | Some x \<Rightarrow> map_option Some (g (f x)))"
  using assms by (cases v) (auto simp: read_optional_JObj split: json.splits)

text \<open>An optional text field the server parses: absent, or present and accepted by its parser.\<close>

definition crosses :: "('b \<Rightarrow> 'a option) \<Rightarrow> 'b option \<Rightarrow> 'a option option" where
  "crosses p v = (case v of None \<Rightarrow> Some None | Some x \<Rightarrow> map_option Some (p x))"

definition server_session_request :: "wire_lib \<Rightarrow> cl_session_request \<Rightarrow> session_client_request option" where
  "server_session_request lib r =
     do {
       destination \<leftarrow> wl_address lib (cs_destination r);
       target \<leftarrow> server_target (cs_target r);
       response_buffer \<leftarrow> crosses (wl_bytesize lib) (cs_response_buffer r);
       max_surb_upstream \<leftarrow> crosses (wl_bandwidth lib) (cs_max_surb_upstream r);
       Some \<lparr> scr_destination = destination,
         scr_forward_path = server_routing (cs_forward_path r),
         scr_return_path = server_routing (cs_return_path r),
         scr_target = target,
         scr_listen_host = cs_listen_host r,
         scr_capabilities = map_option (List.map server_capability) (cs_capabilities r),
         scr_response_buffer = response_buffer,
         scr_max_surb_upstream = max_surb_upstream,
         scr_session_pool = map_option unat (cs_session_pool r),
         scr_max_client_sessions = map_option unat (cs_max_client_sessions r),
         scr_flow_control = map_option server_flow_control (cs_flow_control r) \<rparr>
     }"

lemma capabilities_cross:
  "read_list (read_via capability_from_str) (JArr (List.map (\<lambda>c. JStr (cl_capability_text c)) cs))
    = Some (List.map server_capability cs)"
  by (simp add: read_list_JArr o_def capability_crosses those_map_Some)

text \<open>The fields of the written object.\<close>

lemma session_request_fields:
  assumes "cl_session_request_json r = JObj ms"
  shows "map_of ms ''destination'' = Some (JStr (cs_destination r))"
    and "map_of ms ''forwardPath'' = Some (cl_routing_json (cs_forward_path r))"
    and "map_of ms ''returnPath'' = Some (cl_routing_json (cs_return_path r))"
    and "map_of ms ''target'' = Some (cl_target_json (cs_target r))"
    and "map_of ms ''listenHost'' = map_option JStr (cs_listen_host r)"
    and "map_of ms ''capabilities'' =
      map_option (\<lambda>cs. JArr (List.map (\<lambda>c. JStr (cl_capability_text c)) cs)) (cs_capabilities r)"
    and "map_of ms ''responseBuffer'' = map_option JStr (cs_response_buffer r)"
    and "map_of ms ''maxSurbUpstream'' = map_option JStr (cs_max_surb_upstream r)"
    and "map_of ms ''sessionPool'' = map_option json_u64 (cs_session_pool r)"
    and "map_of ms ''maxClientSessions'' = map_option json_u64 (cs_max_client_sessions r)"
    and "map_of ms ''flowControl'' =
      map_option (\<lambda>f. JStr (cl_flow_control_text f)) (cs_flow_control r)"
  using assms by (auto simp: cl_session_request_json_def map_add_def split: option.splits)

text \<open>C11: A session request crosses the wire. What the server reads of the body the client writes has every
  field of the client's request: numbers, paths, capabilities and the flow-control profile unchanged,
  the texts as the server's parsers read them. It is refused exactly when a parser refuses its text, the
  target is a service with a negative number, or the target is sealed: no sealed target the client
  can write is ever accepted.\<close>

theorem session_request_crosses:
  "read_session_client_request lib (cl_session_request_json r) = server_session_request lib r"
proof -
  obtain ms where ms: "cl_session_request_json r = JObj ms"
    by (simp add: cl_session_request_json_def)
  note fields = session_request_fields [OF ms]
  have opts:
    "read_optional ''listenHost'' as_str (JObj ms) = Some (cs_listen_host r)"
    "read_optional ''capabilities'' (read_list (read_via capability_from_str)) (JObj ms)
       = Some (map_option (List.map server_capability) (cs_capabilities r))"
    "read_optional ''responseBuffer'' (read_via (wl_bytesize lib)) (JObj ms)
       = crosses (wl_bytesize lib) (cs_response_buffer r)"
    "read_optional ''maxSurbUpstream'' (read_via (wl_bandwidth lib)) (JObj ms)
       = crosses (wl_bandwidth lib) (cs_max_surb_upstream r)"
    "read_optional ''sessionPool'' (read_uint 64) (JObj ms) = Some (map_option unat (cs_session_pool r))"
    "read_optional ''maxClientSessions'' (read_uint 64) (JObj ms)
       = Some (map_option unat (cs_max_client_sessions r))"
    "read_optional ''flowControl'' (read_via parse_flow_control) (JObj ms)
       = Some (map_option server_flow_control (cs_flow_control r))"
    unfolding crosses_def
    by (simp_all add: read_optional_opt [OF fields(5)] read_optional_opt [OF fields(6)]
        read_optional_opt [OF fields(7)] read_optional_opt [OF fields(8)] read_optional_opt [OF fields(9)]
        read_optional_opt [OF fields(10)] read_optional_opt [OF fields(11)] capabilities_cross
        flow_control_crosses split: option.split)
  show ?thesis
    unfolding read_session_client_request_def server_session_request_def ms
    by (simp add: read_field_JObj fields(1-4) routing_crosses target_crosses opts)
qed

lemma session_config_crosses:
  "read_session_config lib (cl_session_config_json c) =
    do {
      buffer \<leftarrow> crosses (wl_bytesize lib) (cg_response_buffer c);
      upstream \<leftarrow> crosses (wl_bandwidth lib) (cg_max_surb_upstream c);
      Some \<lparr> scb_response_buffer = buffer, scb_max_surb_upstream = upstream \<rparr>
    }"
  by (cases "cg_response_buffer c"; cases "cg_max_surb_upstream c")
     (simp_all add: read_session_config_def cl_session_config_json_def read_optional_JObj
        crosses_def opt_member_def)

lemma withdraw_crosses:
  "read_withdraw_body lib (cl_withdraw_json b) =
    map_option (\<lambda>a. \<lparr> wbr_amount = cw_amount b, wbr_address = a \<rparr>) (wl_address lib (cw_address b))"
  by (cases "wl_address lib (cw_address b)")
     (simp_all add: read_withdraw_body_def cl_withdraw_json_def read_field_JObj)

lemma open_channel_crosses:
  "read_open_channel_body lib (cl_open_channel_json b) =
    do {
      destination \<leftarrow> wl_address lib (co_destination b);
      amount \<leftarrow> wl_balance lib (co_amount b);
      Some \<lparr> ocr_destination = destination, ocr_amount = amount \<rparr>
    }"
  by (simp add: read_open_channel_body_def cl_open_channel_json_def read_field_JObj)

lemma fund_crosses: "read_fund_body lib (cl_fund_json amount) = wl_balance lib amount"
  by (simp add: read_fund_body_def cl_fund_json_def read_field_JObj)

lemma redeem_crosses: "read_redeem_body lib (cl_redeem_json address) = crosses (wl_address lib) address"
  by (cases address)
     (simp_all add: read_redeem_body_def cl_redeem_json_def read_optional_JObj crosses_def opt_member_def)

text \<open>The targets a client can name are bounded. The server reads a target the client writes as service
  number s for some client value exactly when s is below 2^31, though its own service numbers go up to
  2^32 - 1; every plain text can be named, and no sealed target.\<close>

theorem client_target_bounds:
  "((\<exists>t. read_session_target lib (cl_target_json t) = Some (Service s)) \<longleftrightarrow> unat s < 2 ^ 31)
   \<and> (\<exists>t. read_session_target lib (cl_target_json t) = Some (Plain p))
   \<and> \<not> (\<exists>t. read_session_target lib (cl_target_json t) = Some (Sealed b))"
proof (intro conjI)
  have range: "0 \<le> sint s \<longleftrightarrow> unat s < 2 ^ 31"
    by (rule nonneg_sint_iff)
  show "(\<exists>t. read_session_target lib (cl_target_json t) = Some (Service s)) \<longleftrightarrow> unat s < 2 ^ 31"
  proof
    assume "\<exists>t. read_session_target lib (cl_target_json t) = Some (Service s)"
    then obtain t where "server_target t = Some (Service s)" by (auto simp: target_crosses)
    then show "unat s < 2 ^ 31" using range by (cases t) (auto split: if_splits)
  next
    assume "unat s < 2 ^ 31"
    then show "\<exists>t. read_session_target lib (cl_target_json t) = Some (Service s)"
      using range by (auto simp: target_crosses intro: exI [of _ "CT_Service s"])
  qed
  show "\<exists>t. read_session_target lib (cl_target_json t) = Some (Plain p)"
    by (rule exI [of _ "CT_Plain p"]) (simp add: read_session_target_def)
  show "\<not> (\<exists>t. read_session_target lib (cl_target_json t) = Some (Sealed b))"
  proof
    assume "\<exists>t. read_session_target lib (cl_target_json t) = Some (Sealed b)"
    then obtain t where "server_target t = Some (Sealed b)" by (auto simp: target_crosses)
    then show False by (cases t) (auto split: if_splits)
  qed
qed

end
