(* ===== verification/Wire_Out.thy ===== *)
theory Wire_Out
  imports Wire_Laws
begin

text \<open>
  The JSON of the responses: how the server writes those the cluster tools read (the \<open>Serialize\<close>
  implementations of \<open>rest-api/src/account.rs\<close>, \<open>channels.rs\<close>, \<open>session.rs\<close> and of \<open>ApiError\<close>) and how the
  generated client reads them (\<open>rest-api-client/src/codegen/mod.rs\<close>), and that what is written is read back.

  The texts of addresses, balances, hashes, statuses and sizes are the libraries' \<open>Display\<close>. The client's
  numbers are the widths its generator chose: 32 and 64 bits with a sign where the server has none.
\<close>

section \<open>The server writes\<close>

record display_lib = displays +
  dl_native :: "balance \<Rightarrow> string"
  dl_channel_status :: "channel_status \<Rightarrow> string"
  dl_bandwidth :: "nat \<Rightarrow> string"
  dl_bytesize :: "64 word \<Rightarrow> string"

definition json_nat :: "nat \<Rightarrow> json" where
  "json_nat n = JNum (show_nat n)"

definition json_option :: "('a \<Rightarrow> json) \<Rightarrow> 'a option \<Rightarrow> json" where
  "json_option f v = (case v of None \<Rightarrow> JNull | Some x \<Rightarrow> f x)"

definition addresses_json :: "string \<Rightarrow> json" where
  "addresses_json native = JObj [(''native'', JStr native)]"

definition balances_json :: "display_lib \<Rightarrow> account_balances_response \<Rightarrow> json" where
  "balances_json lib b = JObj
     [(''safeNative'', JStr (dl_native lib (abr_safe_native b))),
      (''native'', JStr (dl_native lib (abr_native b))),
      (''safeHopr'', JStr (dp_balance lib (abr_safe_hopr b))),
      (''hopr'', JStr (dp_balance lib (abr_hopr b))),
      (''safeHoprAllowance'', JStr (dp_balance lib (abr_safe_hopr_allowance b)))]"

definition node_channel_json :: "display_lib \<Rightarrow> node_channel \<Rightarrow> json" where
  "node_channel_json lib c = JObj
     [(''id'', JStr (dp_hash lib (nc_id c))),
      (''peerAddress'', JStr (dp_checksum lib (nc_peer_address c))),
      (''status'', JStr (dl_channel_status lib (nc_status c))),
      (''balance'', JStr (dp_balance lib (nc_balance c)))]"

definition channel_info_json :: "display_lib \<Rightarrow> channel_info_response \<Rightarrow> json" where
  "channel_info_json lib c = JObj
     [(''channelId'', JStr (dp_hash lib (cir_channel_id c))),
      (''source'', JStr (dp_checksum lib (cir_source c))),
      (''destination'', JStr (dp_checksum lib (cir_destination c))),
      (''balance'', JStr (dp_balance lib (cir_balance c))),
      (''status'', JStr (dl_channel_status lib (cir_status c))),
      (''ticketIndex'', json_nat (unat (cir_ticket_index c))),
      (''channelEpoch'', json_nat (unat (cir_channel_epoch c))),
      (''closureTime'', json_nat (unat (cir_closure_time c)))]"

definition channels_json :: "display_lib \<Rightarrow> node_channels_response \<Rightarrow> json" where
  "channels_json lib r = JObj
     [(''incoming'', JArr (List.map (node_channel_json lib) (ncr_incoming r))),
      (''outgoing'', JArr (List.map (node_channel_json lib) (ncr_outgoing r))),
      (''all'', JArr (List.map (channel_info_json lib) (ncr_all r)))]"

fun routing_options_json :: "routing_options \<Rightarrow> json" where
  "routing_options_json (Hops n) = JObj [(''Hops'', json_nat n)]"
| "routing_options_json (IntermediatePath p) = JObj [(''IntermediatePath'', JArr (List.map JStr p))]"

definition session_client_json :: "display_lib \<Rightarrow> session_client_response \<Rightarrow> json" where
  "session_client_json lib r = JObj
     [(''target'', JStr (scp_target r)),
      (''destination'', JStr (dp_address lib (scp_destination r))),
      (''forwardPath'', routing_options_json (scp_forward_path r)),
      (''returnPath'', routing_options_json (scp_return_path r)),
      (''protocol'', JStr (protocol_display (scp_protocol r))),
      (''ip'', JStr (scp_ip r)),
      (''port'', json_nat (unat (scp_port r))),
      (''hoprMtu'', json_nat (unat (scp_hopr_mtu r))),
      (''surbLen'', json_nat (unat (scp_surb_len r))),
      (''activeClients'', JArr (List.map JStr (scp_active_clients r))),
      (''maxClientSessions'', json_nat (scp_max_client_sessions r)),
      (''maxSurbUpstream'', json_option (\<lambda>b. JStr (dl_bandwidth lib b)) (scp_max_surb_upstream r)),
      (''responseBuffer'', json_option (\<lambda>b. JStr (dl_bytesize lib b)) (scp_response_buffer r)),
      (''sessionPool'', json_option json_nat (scp_session_pool r))]"

section \<open>The client reads\<close>

fun read_sint :: "nat \<Rightarrow> json \<Rightarrow> int option" where
  "read_sint w (JNum s) =
     (if starts_with ''-'' s then
        (case parse_digits (tl s) of
           Some n \<Rightarrow> if n \<le> 2 ^ (w - 1) then Some (- int n) else None
         | None \<Rightarrow> None)
      else
        (case parse_digits s of
           Some n \<Rightarrow> if n < 2 ^ (w - 1) then Some (int n) else None
         | None \<Rightarrow> None))"
| "read_sint w _ = None"

definition read_cl_addresses :: "json \<Rightarrow> string option" where
  "read_cl_addresses j = read_field ''native'' as_str j"

record cl_balances_response =
  cb_hopr :: string
  cb_native :: string
  cb_safe_hopr :: string
  cb_safe_hopr_allowance :: string
  cb_safe_native :: string

definition read_cl_balances :: "json \<Rightarrow> cl_balances_response option" where
  "read_cl_balances j =
     do {
       hopr \<leftarrow> read_field ''hopr'' as_str j;
       native \<leftarrow> read_field ''native'' as_str j;
       safe_hopr \<leftarrow> read_field ''safeHopr'' as_str j;
       allowance \<leftarrow> read_field ''safeHoprAllowance'' as_str j;
       safe_native \<leftarrow> read_field ''safeNative'' as_str j;
       Some \<lparr> cb_hopr = hopr, cb_native = native, cb_safe_hopr = safe_hopr,
         cb_safe_hopr_allowance = allowance, cb_safe_native = safe_native \<rparr>
     }"

record cl_node_channel =
  cn_balance :: string
  cn_id :: string
  cn_peer_address :: string
  cn_status :: string

definition read_cl_node_channel :: "json \<Rightarrow> cl_node_channel option" where
  "read_cl_node_channel j =
     do {
       balance \<leftarrow> read_field ''balance'' as_str j;
       i \<leftarrow> read_field ''id'' as_str j;
       peer_address \<leftarrow> read_field ''peerAddress'' as_str j;
       status \<leftarrow> read_field ''status'' as_str j;
       Some \<lparr> cn_balance = balance, cn_id = i, cn_peer_address = peer_address, cn_status = status \<rparr>
     }"

record cl_channel_info =
  ci_balance :: string
  ci_channel_epoch :: int
  ci_channel_id :: string
  ci_closure_time :: int
  ci_destination :: string
  ci_source :: string
  ci_status :: string
  ci_ticket_index :: int

definition read_cl_channel_info :: "json \<Rightarrow> cl_channel_info option" where
  "read_cl_channel_info j =
     do {
       balance \<leftarrow> read_field ''balance'' as_str j;
       epoch \<leftarrow> read_field ''channelEpoch'' (read_sint 32) j;
       i \<leftarrow> read_field ''channelId'' as_str j;
       closure \<leftarrow> read_field ''closureTime'' (read_sint 64) j;
       destination \<leftarrow> read_field ''destination'' as_str j;
       source \<leftarrow> read_field ''source'' as_str j;
       status \<leftarrow> read_field ''status'' as_str j;
       index \<leftarrow> read_field ''ticketIndex'' (read_sint 64) j;
       Some \<lparr> ci_balance = balance, ci_channel_epoch = epoch, ci_channel_id = i,
         ci_closure_time = closure, ci_destination = destination, ci_source = source,
         ci_status = status, ci_ticket_index = index \<rparr>
     }"

record cl_channels_response =
  cr_all :: "cl_channel_info list"
  cr_incoming :: "cl_node_channel list"
  cr_outgoing :: "cl_node_channel list"

definition read_cl_channels :: "json \<Rightarrow> cl_channels_response option" where
  "read_cl_channels j =
     do {
       all \<leftarrow> read_field ''all'' (read_list read_cl_channel_info) j;
       incoming \<leftarrow> read_field ''incoming'' (read_list read_cl_node_channel) j;
       outgoing \<leftarrow> read_field ''outgoing'' (read_list read_cl_node_channel) j;
       Some \<lparr> cr_all = all, cr_incoming = incoming, cr_outgoing = outgoing \<rparr>
     }"

definition read_cl_routing :: "json \<Rightarrow> cl_routing option" where
  "read_cl_routing j =
     (case j of
        JObj [(v, x)] \<Rightarrow>
          if v = ''Hops'' then map_option (\<lambda>n. CR_Hops (of_nat n)) (read_uint 64 x)
          else if v = ''IntermediatePath'' then map_option CR_IntermediatePath (read_list as_str x)
          else None
      | _ \<Rightarrow> None)"

record cl_session_response =
  cx_active_clients :: "string list"
  cx_destination :: string
  cx_forward_path :: cl_routing
  cx_hopr_mtu :: nat
  cx_ip :: string
  cx_max_client_sessions :: nat
  cx_max_surb_upstream :: "string option"
  cx_port :: int
  cx_protocol :: cl_protocol
  cx_response_buffer :: "string option"
  cx_return_path :: cl_routing
  cx_session_pool :: "nat option"
  cx_surb_len :: nat
  cx_target :: string

definition read_cl_session :: "json \<Rightarrow> cl_session_response option" where
  "read_cl_session j =
     do {
       active \<leftarrow> read_field ''activeClients'' (read_list as_str) j;
       destination \<leftarrow> read_field ''destination'' as_str j;
       forward \<leftarrow> read_field ''forwardPath'' read_cl_routing j;
       mtu \<leftarrow> read_field ''hoprMtu'' (read_uint 64) j;
       ip \<leftarrow> read_field ''ip'' as_str j;
       max_sessions \<leftarrow> read_field ''maxClientSessions'' (read_uint 64) j;
       upstream \<leftarrow> read_optional ''maxSurbUpstream'' as_str j;
       port \<leftarrow> read_field ''port'' (read_sint 32) j;
       protocol \<leftarrow> read_field ''protocol'' (read_via cl_protocol_parse) j;
       buffer \<leftarrow> read_optional ''responseBuffer'' as_str j;
       ret \<leftarrow> read_field ''returnPath'' read_cl_routing j;
       pool \<leftarrow> read_optional ''sessionPool'' (read_uint 64) j;
       surb \<leftarrow> read_field ''surbLen'' (read_uint 64) j;
       target \<leftarrow> read_field ''target'' as_str j;
       Some \<lparr> cx_active_clients = active, cx_destination = destination, cx_forward_path = forward,
         cx_hopr_mtu = mtu, cx_ip = ip, cx_max_client_sessions = max_sessions,
         cx_max_surb_upstream = upstream, cx_port = port, cx_protocol = protocol,
         cx_response_buffer = buffer, cx_return_path = ret, cx_session_pool = pool,
         cx_surb_len = surb, cx_target = target \<rparr>
     }"

record cl_api_error =
  ce_error :: "string option"
  ce_status_text :: string

definition read_cl_api_error :: "json \<Rightarrow> cl_api_error option" where
  "read_cl_api_error j =
     do {
       e \<leftarrow> read_optional ''error'' as_str j;
       st \<leftarrow> read_field ''status'' as_str j;
       Some \<lparr> ce_error = e, ce_status_text = st \<rparr>
     }"

section \<open>What crosses\<close>

lemma parse_digits_show: "parse_digits (show_nat n) = Some n"
  by (simp add: parse_digits_def digits_val_show_nat)

lemma read_uint_nat: "n < 2 ^ w \<Longrightarrow> read_uint w (json_nat n) = Some n"
  by (simp add: json_nat_def parse_show_nat)

lemma read_sint_nat: "read_sint w (json_nat n) = (if n < 2 ^ (w - 1) then Some (int n) else None)"
proof -
  obtain c s where s: "show_nat n = c # s" by (cases "show_nat n") auto
  moreover have "is_digit c" using show_nat_digits [of c n] s by simp
  then have "c \<noteq> CHR ''-''" by (auto simp: is_digit_def)
  ultimately show ?thesis
    using parse_digits_show [of n] by (simp add: json_nat_def starts_with_def)
qed

definition cl_channel_of :: "display_lib \<Rightarrow> node_channel \<Rightarrow> cl_node_channel" where
  "cl_channel_of lib c =
     \<lparr> cn_balance = dp_balance lib (nc_balance c), cn_id = dp_hash lib (nc_id c),
       cn_peer_address = dp_checksum lib (nc_peer_address c),
       cn_status = dl_channel_status lib (nc_status c) \<rparr>"

lemma node_channel_crosses: "read_cl_node_channel (node_channel_json lib c) = Some (cl_channel_of lib c)"
  by (simp add: read_cl_node_channel_def node_channel_json_def read_field_JObj cl_channel_of_def)

lemma read_list_map: "(\<And>x. x \<in> set xs \<Longrightarrow> f (g x) = Some (h x)) \<Longrightarrow>
    read_list f (JArr (List.map g xs)) = Some (List.map h xs)"
  by (simp add: read_list_JArr o_def those_map_Some)

definition cl_info_of :: "display_lib \<Rightarrow> channel_info_response \<Rightarrow> cl_channel_info" where
  "cl_info_of lib c =
     \<lparr> ci_balance = dp_balance lib (cir_balance c), ci_channel_epoch = int (unat (cir_channel_epoch c)),
       ci_channel_id = dp_hash lib (cir_channel_id c), ci_closure_time = int (unat (cir_closure_time c)),
       ci_destination = dp_checksum lib (cir_destination c), ci_source = dp_checksum lib (cir_source c),
       ci_status = dl_channel_status lib (cir_status c),
       ci_ticket_index = int (unat (cir_ticket_index c)) \<rparr>"

definition info_in_range :: "channel_info_response \<Rightarrow> bool" where
  "info_in_range c \<longleftrightarrow>
     unat (cir_channel_epoch c) < 2 ^ 31 \<and> unat (cir_closure_time c) < 2 ^ 63 \<and> unat (cir_ticket_index c) < 2 ^ 63"

lemma channel_info_reads:
  "read_cl_channel_info (channel_info_json lib c) = (if info_in_range c then Some (cl_info_of lib c) else None)"
  by (simp add: read_cl_channel_info_def channel_info_json_def read_field_JObj read_sint_nat
      info_in_range_def cl_info_of_def)

lemma those_None: "x \<in> set xs \<Longrightarrow> f x = None \<Longrightarrow> those (List.map f xs) = None"
  by (induction xs) (auto split: option.split)

lemma channel_infos_read:
  "read_list read_cl_channel_info (JArr (List.map (channel_info_json lib) cs))
   = (if list_all info_in_range cs then Some (List.map (cl_info_of lib) cs) else None)"
proof (cases "list_all info_in_range cs")
  case True
  then show ?thesis by (simp add: read_list_map channel_info_reads list_all_iff)
next
  case False
  then obtain c where "c \<in> set cs" "\<not> info_in_range c" by (auto simp: list_all_iff)
  then show ?thesis
    using those_None [of c cs "read_cl_channel_info \<circ> channel_info_json lib"] False
    by (simp add: read_list_JArr channel_info_reads)
qed

text \<open>C39: A channel listing of the node is read by the client exactly as it is, provided its counters fit the
  client's signed numbers: if every entry of the full topology has an epoch below 2^31 and a ticket
  index and closure time below 2^63 then all three lists are read with every text and number the server
  wrote; and a single entry beyond these bounds makes the client refuse the whole answer.\<close>

theorem channels_listing_bounds:
  "read_cl_channels (channels_json lib r) =
     (if list_all info_in_range (ncr_all r)
      then Some \<lparr> cr_all = List.map (cl_info_of lib) (ncr_all r),
                  cr_incoming = List.map (cl_channel_of lib) (ncr_incoming r),
                  cr_outgoing = List.map (cl_channel_of lib) (ncr_outgoing r) \<rparr>
      else None)"
  by (simp add: read_cl_channels_def channels_json_def read_field_JObj channel_infos_read
      read_list_map node_channel_crosses)

lemma balances_cross:
  "read_cl_balances (balances_json lib b) =
     Some \<lparr> cb_hopr = dp_balance lib (abr_hopr b), cb_native = dl_native lib (abr_native b),
            cb_safe_hopr = dp_balance lib (abr_safe_hopr b),
            cb_safe_hopr_allowance = dp_balance lib (abr_safe_hopr_allowance b),
            cb_safe_native = dl_native lib (abr_safe_native b) \<rparr>"
  by (simp add: read_cl_balances_def balances_json_def read_field_JObj)

lemma protocol_display_crosses: "cl_protocol_parse (protocol_display p) \<noteq> None"
  by (cases p) (simp_all add: cl_protocol_parse_def)

fun cl_routing_of :: "routing_options \<Rightarrow> cl_routing" where
  "cl_routing_of (Hops n) = CR_Hops (of_nat n)"
| "cl_routing_of (IntermediatePath p) = CR_IntermediatePath p"

fun routing_fits :: "routing_options \<Rightarrow> bool" where
  "routing_fits (Hops n) = (n < 2 ^ 64)"
| "routing_fits (IntermediatePath p) = True"

lemma routing_answer_crosses:
  "routing_fits r \<Longrightarrow> read_cl_routing (routing_options_json r) = Some (cl_routing_of r)"
proof (cases r)
  case (IntermediatePath p)
  then show ?thesis using read_list_map [of p as_str JStr id] by (simp add: read_cl_routing_def)
qed (simp add: read_cl_routing_def read_uint_nat)

lemma json_option_reads:
  "(\<And>x. v = Some x \<Longrightarrow> f (g x) = Some (h x) \<and> g x \<noteq> JNull) \<Longrightarrow> map_of ms k = Some (json_option g v) \<Longrightarrow>
     read_optional k f (JObj ms) = Some (map_option h v)"
  by (cases v) (auto simp: read_optional_JObj json_option_def split: json.split)

definition cl_protocol_of :: "ip_protocol \<Rightarrow> cl_protocol" where
  "cl_protocol_of p = (case p of TCP \<Rightarrow> CP_Tcp | UDP \<Rightarrow> CP_Udp)"

definition session_fits :: "session_client_response \<Rightarrow> bool" where
  "session_fits r \<longleftrightarrow> routing_fits (scp_forward_path r) \<and> routing_fits (scp_return_path r)
     \<and> scp_max_client_sessions r < 2 ^ 64 \<and> (\<forall>n\<in>set_option (scp_session_pool r). n < 2 ^ 64)"

lemma session_answer_crosses:
  assumes "session_fits r"
  shows "read_cl_session (session_client_json lib r) =
     Some \<lparr> cx_active_clients = scp_active_clients r, cx_destination = dp_address lib (scp_destination r),
            cx_forward_path = cl_routing_of (scp_forward_path r), cx_hopr_mtu = unat (scp_hopr_mtu r),
            cx_ip = scp_ip r, cx_max_client_sessions = scp_max_client_sessions r,
            cx_max_surb_upstream = map_option (dl_bandwidth lib) (scp_max_surb_upstream r),
            cx_port = int (unat (scp_port r)), cx_protocol = cl_protocol_of (scp_protocol r),
            cx_response_buffer = map_option (dl_bytesize lib) (scp_response_buffer r),
            cx_return_path = cl_routing_of (scp_return_path r), cx_session_pool = scp_session_pool r,
            cx_surb_len = unat (scp_surb_len r), cx_target = scp_target r \<rparr>"
proof -
  have u64: "read_uint 64 (json_nat (unat (n :: 64 word))) = Some (unat n)" for n
    using unsigned_less [of n, where ?'a = nat] by (intro read_uint_nat) simp
  have "unat (scp_port r) < 2 ^ 31"
    using uint_lt2p [of "scp_port r"] unsigned_less [of "scp_port r", where ?'a = nat] by simp
  then have port: "read_sint 32 (json_nat (unat (scp_port r))) = Some (int (unat (scp_port r)))"
    by (simp only: read_sint_nat) simp
  have proto: "cl_protocol_parse (protocol_display (scp_protocol r)) = Some (cl_protocol_of (scp_protocol r))"
    by (cases "scp_protocol r") (simp_all add: cl_protocol_parse_def cl_protocol_of_def)
  have active: "read_list as_str (JArr (List.map JStr (scp_active_clients r))) = Some (scp_active_clients r)"
    using read_list_map [of "scp_active_clients r" as_str JStr id] by simp
  have opt: "read_optional ''maxSurbUpstream'' as_str (session_client_json lib r)
        = Some (map_option (dl_bandwidth lib) (scp_max_surb_upstream r))"
      "read_optional ''responseBuffer'' as_str (session_client_json lib r)
        = Some (map_option (dl_bytesize lib) (scp_response_buffer r))"
    unfolding session_client_json_def
    by (rule json_option_reads; simp)+
  have pool: "read_optional ''sessionPool'' (read_uint 64) (session_client_json lib r)
        = Some (scp_session_pool r)"
    using assms json_option_reads [of "scp_session_pool r" "read_uint 64" json_nat id]
    unfolding session_client_json_def
    by (simp add: session_fits_def read_uint_nat option.map_id) (simp add: json_nat_def)
  show ?thesis
    unfolding read_cl_session_def opt pool
    using assms
    by (simp add: session_client_json_def read_field_JObj active routing_answer_crosses read_uint_nat u64
        port proto session_fits_def)
qed

end
