(* ===== verification/Wire_Answers.thy ===== *)
theory Wire_Answers
  imports Wire_Out Network_Views Node_Info Peers Tickets
begin

text \<open>
  The JSON of the other answers: those of \<open>rest-api/src/network.rs\<close>, \<open>node.rs\<close>, \<open>peers.rs\<close>, \<open>tickets.rs\<close> and
  the receipts of \<open>channels.rs\<close> and \<open>account.rs\<close>, written by the server, and read by the generated client
  (\<open>rest-api-client/src/codegen/mod.rs\<close>); and what crosses.

  How a number with a point is written and read, and the milliseconds of a duration, are the libraries'.
\<close>

record answer_lib = display_lib +
  an_f64 :: "f64 \<Rightarrow> string"
  an_parse_f64 :: "string \<Rightarrow> f64 option"
  an_millis :: "nat \<Rightarrow> 64 word"

section \<open>The server writes\<close>

text \<open>JSON has no numbers that are not finite: they are written as null. The exponent of such a number is all
  ones.\<close>

definition is_finite :: "f64 \<Rightarrow> bool" where
  "is_finite x \<longleftrightarrow> uint x div 2 ^ 52 mod 2 ^ 11 \<noteq> 2047"

definition f64_json :: "('z) answer_lib_scheme \<Rightarrow> f64 \<Rightarrow> json" where
  "f64_json lib x = (if is_finite x then JNum (an_f64 lib x) else JNull)"

definition present :: "string \<Rightarrow> ('a \<Rightarrow> json) \<Rightarrow> 'a option \<Rightarrow> (string \<times> json) list" where
  "present k f v = (case v of None \<Rightarrow> [] | Some x \<Rightarrow> [(k, f x)])"

definition ticket_price_json :: "answer_lib \<Rightarrow> ticket_price_response \<Rightarrow> json" where
  "ticket_price_json lib r = JObj [(''price'', JStr (dp_balance lib (tpr_price r)))]"

definition ticket_probability_json :: "answer_lib \<Rightarrow> ticket_probability_response \<Rightarrow> json" where
  "ticket_probability_json lib r = JObj [(''probability'', f64_json lib (tpp_probability r))]"

definition connected_peer_json :: "answer_lib \<Rightarrow> connected_peer_response \<Rightarrow> json" where
  "connected_peer_json lib r = JObj
     [(''address'', JStr (dp_checksum lib (cpr_address r))),
      (''probeRate'', json_option (f64_json lib) (cpr_probe_rate r)),
      (''lastUpdate'', json_nat (cpr_last_update r)),
      (''averageLatency'', json_option json_nat (cpr_average_latency r)),
      (''score'', json_option (f64_json lib) (cpr_score r))]"

definition announced_peer_json :: "answer_lib \<Rightarrow> announced_peer_response \<Rightarrow> json" where
  "announced_peer_json lib r = JObj
     [(''address'', JStr (dp_checksum lib (apr_address r))),
      (''multiaddrs'', JArr (List.map JStr (apr_multiaddrs r))),
      (''origin'', JStr (origin_display (apr_origin r)))]"

definition node_version_json :: "node_version_response \<Rightarrow> json" where
  "node_version_json r = JObj [(''version'', JStr (nv_version r))]"

definition node_info_json :: "answer_lib \<Rightarrow> node_info_response \<Rightarrow> json" where
  "node_info_json lib r = JObj
     [(''announcedAddress'', JArr (List.map JStr (nir_announced_address r))),
      (''listeningAddress'', JArr (List.map JStr (nir_listening_address r))),
      (''providerUrl'', JStr (nir_provider_url r)),
      (''hoprNetworkName'', JStr (nir_hopr_network_name r)),
      (''hoprNodeSafe'', JStr (dp_checksum lib (nir_hopr_node_safe r))),
      (''connectivityStatus'', JStr (dp_health lib (nir_connectivity_status r))),
      (''chainStatus'', JStr (nir_chain_status r)),
      (''channelClosurePeriod'', json_nat (nir_channel_closure_period r))]"

definition component_status_json :: "component_status_info \<Rightarrow> json" where
  "component_status_json r = JObj ((''status'', JStr (csi_status r)) # present ''detail'' JStr (csi_detail r))"

definition component_statuses_json :: "component_statuses_response \<Rightarrow> json" where
  "component_statuses_json r = JObj
     [(''chain'', component_status_json (csr_chain r)), (''network'', component_status_json (csr_network r)),
      (''transport'', component_status_json (csr_transport r))]"

definition node_status_json :: "node_status_response \<Rightarrow> json" where
  "node_status_json r = JObj
     [(''overall'', JStr (nsr_overall r)), (''nodeState'', JStr (nsr_node_state r)),
      (''components'', component_statuses_json (nsr_components r))]"

definition multiaddress_source_json :: "multiaddress_source \<Rightarrow> json" where
  "multiaddress_source_json r = JObj
     [(''multiaddress'', JStr (ms_multiaddress r)), (''origin'', JStr (origin_display (ms_origin r)))]"

definition peer_channel_json :: "answer_lib \<Rightarrow> peer_channel_info \<Rightarrow> json" where
  "peer_channel_json lib r = JObj
     [(''id'', JStr (dp_hash lib (pci_id r))), (''status'', JStr (dl_channel_status lib (pci_status r))),
      (''balance'', JStr (dp_balance lib (pci_balance r)))]"

definition peer_qos_json :: "answer_lib \<Rightarrow> peer_qos_info \<Rightarrow> json" where
  "peer_qos_json lib r = JObj
     [(''probeRate'', json_option (f64_json lib) (pqi_probe_rate r)),
      (''lastUpdate'', json_nat (pqi_last_update r)),
      (''averageLatency'', json_option json_nat (pqi_average_latency r)),
      (''score'', json_option (f64_json lib) (pqi_score r))]"

definition peer_info_json :: "answer_lib \<Rightarrow> node_peer_info_response \<Rightarrow> json" where
  "peer_info_json lib r = JObj
     ([(''announcedSources'', JArr (List.map multiaddress_source_json (npi_announced_sources r))),
       (''observed'', JArr (List.map JStr (npi_observed r)))]
      @ present ''qos'' (peer_qos_json lib) (npi_qos r)
      @ present ''outgoingChannel'' (peer_channel_json lib) (npi_outgoing_channel r)
      @ present ''incomingChannel'' (peer_channel_json lib) (npi_incoming_channel r))"

definition ping_json :: "answer_lib \<Rightarrow> ping_response \<Rightarrow> json" where
  "ping_json lib r = JObj [(''latency'', json_nat (unat (an_millis lib (pr_latency r))))]"

definition ticket_statistics_json :: "answer_lib \<Rightarrow> node_ticket_statistics_response \<Rightarrow> json" where
  "ticket_statistics_json lib r = JObj
     [(''winningCount'', json_nat (unat (tsr_winning_count r))),
      (''unredeemedValue'', JStr (dp_balance lib (tsr_unredeemed_value r))),
      (''neglectedValue'', JStr (dp_balance lib (tsr_neglected_value r))),
      (''rejectedValue'', JStr (dp_balance lib (tsr_rejected_value r)))]"

definition open_channel_json :: "answer_lib \<Rightarrow> open_channel_response \<Rightarrow> json" where
  "open_channel_json lib r = JObj
     [(''channelId'', JStr (dp_hash lib (ocp_channel_id r))),
      (''transactionReceipt'', JStr (dp_hash lib (ocp_transaction_receipt r)))]"

definition close_channel_json :: "answer_lib \<Rightarrow> close_channel_response \<Rightarrow> json" where
  "close_channel_json lib r = JObj [(''receipt'', JStr (dp_hash lib (ccr_receipt r)))]"

definition fund_channel_json :: "answer_lib \<Rightarrow> fund_channel_response \<Rightarrow> json" where
  "fund_channel_json lib r = JObj [(''hash'', JStr (dp_hash lib (fcr_hash r)))]"

definition withdraw_json :: "withdraw_response \<Rightarrow> json" where
  "withdraw_json r = JObj [(''receipt'', JStr (wr_receipt r))]"

section \<open>The client reads\<close>

fun read_f64 :: "answer_lib \<Rightarrow> json \<Rightarrow> f64 option" where
  "read_f64 lib (JNum s) = an_parse_f64 lib s"
| "read_f64 lib _ = None"

definition read_cl_ticket_price :: "json \<Rightarrow> string option" where
  "read_cl_ticket_price j = read_field ''price'' as_str j"

definition read_cl_ticket_probability :: "answer_lib \<Rightarrow> json \<Rightarrow> f64 option" where
  "read_cl_ticket_probability lib j = read_field ''probability'' (read_f64 lib) j"

record cl_qos =
  cq_average_latency :: "nat option"
  cq_last_update :: nat
  cq_probe_rate :: "f64 option"
  cq_score :: "f64 option"

definition read_cl_qos :: "answer_lib \<Rightarrow> json \<Rightarrow> cl_qos option" where
  "read_cl_qos lib j =
     do {
       latency \<leftarrow> read_optional ''averageLatency'' (read_uint 64) j;
       updated \<leftarrow> read_field ''lastUpdate'' (read_uint 64) j;
       rate \<leftarrow> read_optional ''probeRate'' (read_f64 lib) j;
       score \<leftarrow> read_optional ''score'' (read_f64 lib) j;
       Some \<lparr> cq_average_latency = latency, cq_last_update = updated, cq_probe_rate = rate, cq_score = score \<rparr>
     }"

text \<open>A connected peer is an address with the fields of a quality record.\<close>

definition read_cl_connected_peer :: "answer_lib \<Rightarrow> json \<Rightarrow> (string \<times> cl_qos) option" where
  "read_cl_connected_peer lib j =
     do {
       address \<leftarrow> read_field ''address'' as_str j;
       qos \<leftarrow> read_cl_qos lib j;
       Some (address, qos)
     }"

record cl_announced_peer =
  ap_address :: string
  ap_multiaddrs :: "string list"
  ap_origin :: cl_origin

definition read_cl_announced_peer :: "json \<Rightarrow> cl_announced_peer option" where
  "read_cl_announced_peer j =
     do {
       address \<leftarrow> read_field ''address'' as_str j;
       addrs \<leftarrow> read_field ''multiaddrs'' (read_list as_str) j;
       origin \<leftarrow> read_field ''origin'' (read_via cl_origin_parse) j;
       Some \<lparr> ap_address = address, ap_multiaddrs = addrs, ap_origin = origin \<rparr>
     }"

definition read_cl_version :: "json \<Rightarrow> string option" where
  "read_cl_version j = read_field ''version'' as_str j"

record cl_node_info =
  cf_announced_address :: "string list"
  cf_chain_status :: string
  cf_channel_closure_period :: int
  cf_connectivity_status :: string
  cf_hopr_network_name :: string
  cf_hopr_node_safe :: string
  cf_listening_address :: "string list"
  cf_provider_url :: string

definition read_cl_node_info :: "json \<Rightarrow> cl_node_info option" where
  "read_cl_node_info j =
     do {
       announced \<leftarrow> read_field ''announcedAddress'' (read_list as_str) j;
       chain \<leftarrow> read_field ''chainStatus'' as_str j;
       closure \<leftarrow> read_field ''channelClosurePeriod'' (read_sint 64) j;
       connectivity \<leftarrow> read_field ''connectivityStatus'' as_str j;
       network \<leftarrow> read_field ''hoprNetworkName'' as_str j;
       safe \<leftarrow> read_field ''hoprNodeSafe'' as_str j;
       listening \<leftarrow> read_field ''listeningAddress'' (read_list as_str) j;
       provider \<leftarrow> read_field ''providerUrl'' as_str j;
       Some \<lparr> cf_announced_address = announced, cf_chain_status = chain, cf_channel_closure_period = closure,
         cf_connectivity_status = connectivity, cf_hopr_network_name = network, cf_hopr_node_safe = safe,
         cf_listening_address = listening, cf_provider_url = provider \<rparr>
     }"

definition read_cl_component :: "json \<Rightarrow> component_status_info option" where
  "read_cl_component j =
     do {
       detail \<leftarrow> read_optional ''detail'' as_str j;
       status \<leftarrow> read_field ''status'' as_str j;
       Some \<lparr> csi_status = status, csi_detail = detail \<rparr>
     }"

definition read_cl_components :: "json \<Rightarrow> component_statuses_response option" where
  "read_cl_components j =
     do {
       chain \<leftarrow> read_field ''chain'' read_cl_component j;
       network \<leftarrow> read_field ''network'' read_cl_component j;
       transport \<leftarrow> read_field ''transport'' read_cl_component j;
       Some \<lparr> csr_chain = chain, csr_network = network, csr_transport = transport \<rparr>
     }"

definition read_cl_node_status :: "json \<Rightarrow> node_status_response option" where
  "read_cl_node_status j =
     do {
       components \<leftarrow> read_field ''components'' read_cl_components j;
       state \<leftarrow> read_field ''nodeState'' as_str j;
       overall \<leftarrow> read_field ''overall'' as_str j;
       Some \<lparr> nsr_overall = overall, nsr_node_state = state, nsr_components = components \<rparr>
     }"

record cl_source =
  cl_multiaddress :: string
  cl_source_origin :: cl_origin

definition read_cl_source :: "json \<Rightarrow> cl_source option" where
  "read_cl_source j =
     do {
       a \<leftarrow> read_field ''multiaddress'' as_str j;
       origin \<leftarrow> read_field ''origin'' (read_via cl_origin_parse) j;
       Some \<lparr> cl_multiaddress = a, cl_source_origin = origin \<rparr>
     }"

record cl_peer_channel =
  ck_balance :: string
  ck_id :: string
  ck_status :: string

definition read_cl_peer_channel :: "json \<Rightarrow> cl_peer_channel option" where
  "read_cl_peer_channel j =
     do {
       balance \<leftarrow> read_field ''balance'' as_str j;
       i \<leftarrow> read_field ''id'' as_str j;
       status \<leftarrow> read_field ''status'' as_str j;
       Some \<lparr> ck_balance = balance, ck_id = i, ck_status = status \<rparr>
     }"

record cl_peer_info =
  cp_announced_sources :: "cl_source list"
  cp_incoming_channel :: "cl_peer_channel option"
  cp_observed :: "string list"
  cp_outgoing_channel :: "cl_peer_channel option"
  cp_qos :: "cl_qos option"

definition read_cl_peer_info :: "answer_lib \<Rightarrow> json \<Rightarrow> cl_peer_info option" where
  "read_cl_peer_info lib j =
     do {
       sources \<leftarrow> read_field ''announcedSources'' (read_list read_cl_source) j;
       incoming \<leftarrow> read_optional ''incomingChannel'' read_cl_peer_channel j;
       observed \<leftarrow> read_field ''observed'' (read_list as_str) j;
       outgoing \<leftarrow> read_optional ''outgoingChannel'' read_cl_peer_channel j;
       qos \<leftarrow> read_optional ''qos'' (read_cl_qos lib) j;
       Some \<lparr> cp_announced_sources = sources, cp_incoming_channel = incoming, cp_observed = observed,
         cp_outgoing_channel = outgoing, cp_qos = qos \<rparr>
     }"

definition read_cl_ping :: "json \<Rightarrow> int option" where
  "read_cl_ping j = read_field ''latency'' (read_sint 64) j"

record cl_ticket_statistics =
  ct_neglected_value :: string
  ct_rejected_value :: string
  ct_unredeemed_value :: string
  ct_winning_count :: int

definition read_cl_ticket_statistics :: "json \<Rightarrow> cl_ticket_statistics option" where
  "read_cl_ticket_statistics j =
     do {
       neglected \<leftarrow> read_field ''neglectedValue'' as_str j;
       rejected \<leftarrow> read_field ''rejectedValue'' as_str j;
       unredeemed \<leftarrow> read_field ''unredeemedValue'' as_str j;
       winning \<leftarrow> read_field ''winningCount'' (read_sint 64) j;
       Some \<lparr> ct_neglected_value = neglected, ct_rejected_value = rejected, ct_unredeemed_value = unredeemed,
         ct_winning_count = winning \<rparr>
     }"

definition read_cl_open_channel :: "json \<Rightarrow> (string \<times> string) option" where
  "read_cl_open_channel j =
     do {
       i \<leftarrow> read_field ''channelId'' as_str j;
       receipt \<leftarrow> read_field ''transactionReceipt'' as_str j;
       Some (i, receipt)
     }"

definition read_cl_receipt :: "json \<Rightarrow> string option" where
  "read_cl_receipt j = read_field ''receipt'' as_str j"

definition read_cl_fund_channel :: "json \<Rightarrow> string option" where
  "read_cl_fund_channel j = read_field ''hash'' as_str j"

section \<open>What crosses\<close>

text \<open>Every finite number is read back as it was written. This is what the JSON library documents.\<close>

definition f64_law :: "answer_lib \<Rightarrow> bool" where
  "f64_law lib \<longleftrightarrow> (\<forall>x. is_finite x \<longrightarrow> an_parse_f64 lib (an_f64 lib x) = Some x)"

definition finite_part :: "f64 option \<Rightarrow> f64 option" where
  "finite_part v = Option.bind v (\<lambda>x. if is_finite x then Some x else None)"

lemma read_strings: "read_list as_str (JArr (List.map JStr xs)) = Some xs"
  using read_list_map [of xs as_str JStr id] by simp

fun cl_origin_of :: "announcement_origin_response \<Rightarrow> cl_origin" where
  "cl_origin_of Origin_Chain = CO_Chain"
| "cl_origin_of Origin_Dht = CO_Dht"

lemma origin_crosses [simp]: "cl_origin_parse (origin_display x) = Some (cl_origin_of x)"
  by (cases x) (simp_all add: cl_origin_parse_def)

lemma f64_option_reads:
  assumes "f64_law lib" and "map_of ms k = Some (json_option (f64_json lib) v)"
  shows "read_optional k (read_f64 lib) (JObj ms) = Some (finite_part v)"
  using assms
  by (cases v) (auto simp: read_optional_JObj json_option_def f64_json_def f64_law_def finite_part_def)

text \<open>Milliseconds of 128 bits are read into 64.\<close>

definition qos_fits :: "nat \<Rightarrow> nat option \<Rightarrow> bool" where
  "qos_fits updated latency \<longleftrightarrow> updated < 2 ^ 64 \<and> (case latency of None \<Rightarrow> True | Some l \<Rightarrow> l < 2 ^ 64)"

lemma read_uint_nat_eq: "read_uint w (json_nat n) = (if n < 2 ^ w then Some n else None)"
  proof (cases "read_uint w (json_nat n)")
  case (Some m)
  then show ?thesis
    using parse_unsigned_bound [of w "show_nat n" m]
    by (auto simp: json_nat_def parse_unsigned_def parse_digits_def show_nat_hd_not_plus digits_val_show_nat
        split: if_splits)
next
  case None
  then show ?thesis using read_uint_nat [of n w] by (cases "n < 2 ^ w") auto
qed

lemma nat_option_reads:
  assumes "map_of ms k = Some (json_option json_nat v)"
  shows "read_optional k (read_uint w) (JObj ms)
    = (case v of None \<Rightarrow> Some None | Some n \<Rightarrow> if n < 2 ^ w then Some (Some n) else None)"
proof (cases v)
  case None
  then show ?thesis using assms by (simp add: read_optional_JObj json_option_def)
next
  case (Some n)
  then have "read_optional k (read_uint w) (JObj ms) = map_option Some (read_uint w (json_nat n))"
    using assms by (simp add: read_optional_JObj json_option_def json_nat_def)
  then show ?thesis using Some by (simp only: read_uint_nat_eq option.case) simp
qed

lemma peer_qos_reads:
  assumes "f64_law lib"
  shows "read_cl_qos lib (peer_qos_json lib r) =
    (if qos_fits (pqi_last_update r) (pqi_average_latency r)
     then Some \<lparr> cq_average_latency = pqi_average_latency r, cq_last_update = pqi_last_update r,
                 cq_probe_rate = finite_part (pqi_probe_rate r), cq_score = finite_part (pqi_score r) \<rparr>
     else None)"
  unfolding read_cl_qos_def peer_qos_json_def
  by (subst nat_option_reads [where v = "pqi_average_latency r"], simp,
      subst f64_option_reads [OF assms, where v = "pqi_probe_rate r"], simp,
      subst f64_option_reads [OF assms, where v = "pqi_score r"], simp)
     (simp add: read_field_JObj read_uint_nat_eq qos_fits_def split: option.split)

lemma connected_peer_reads:
  assumes "f64_law lib"
  shows "read_cl_connected_peer lib (connected_peer_json lib r) =
    (if qos_fits (cpr_last_update r) (cpr_average_latency r)
     then Some (dp_checksum lib (cpr_address r),
                \<lparr> cq_average_latency = cpr_average_latency r, cq_last_update = cpr_last_update r,
                  cq_probe_rate = finite_part (cpr_probe_rate r), cq_score = finite_part (cpr_score r) \<rparr>)
     else None)"
  unfolding read_cl_connected_peer_def read_cl_qos_def connected_peer_json_def
  by (subst nat_option_reads [where v = "cpr_average_latency r"], simp,
      subst f64_option_reads [OF assms, where v = "cpr_probe_rate r"], simp,
      subst f64_option_reads [OF assms, where v = "cpr_score r"], simp)
     (simp add: read_field_JObj read_uint_nat_eq qos_fits_def split: option.split)

lemma announced_peer_crosses:
  "read_cl_announced_peer (announced_peer_json lib r) =
     Some \<lparr> ap_address = dp_checksum lib (apr_address r), ap_multiaddrs = apr_multiaddrs r, ap_origin = cl_origin_of (apr_origin r) \<rparr>"
  by (simp add: read_cl_announced_peer_def announced_peer_json_def read_field_JObj read_strings)

lemma node_info_reads:
  "read_cl_node_info (node_info_json lib r) =
     (if nir_channel_closure_period r < 2 ^ 63
      then Some \<lparr> cf_announced_address = nir_announced_address r, cf_chain_status = nir_chain_status r,
             cf_channel_closure_period = int (nir_channel_closure_period r),
             cf_connectivity_status = dp_health lib (nir_connectivity_status r),
             cf_hopr_network_name = nir_hopr_network_name r,
             cf_hopr_node_safe = dp_checksum lib (nir_hopr_node_safe r),
             cf_listening_address = nir_listening_address r, cf_provider_url = nir_provider_url r \<rparr>
      else None)"
  by (simp add: read_cl_node_info_def node_info_json_def read_field_JObj read_strings read_sint_nat)

lemma component_crosses: "read_cl_component (component_status_json c) = Some c"
  by (cases "csi_detail c")
     (simp_all add: read_cl_component_def component_status_json_def present_def read_optional_JObj read_field_JObj)

lemma node_status_crosses: "read_cl_node_status (node_status_json r) = Some r"
  by (simp add: read_cl_node_status_def node_status_json_def read_cl_components_def component_statuses_json_def
      read_field_JObj component_crosses)

definition cl_source_of :: "multiaddress_source \<Rightarrow> cl_source" where
  "cl_source_of m = \<lparr> cl_multiaddress = ms_multiaddress m, cl_source_origin = cl_origin_of (ms_origin m) \<rparr>"

lemma source_crosses: "read_cl_source (multiaddress_source_json m) = Some (cl_source_of m)"
  by (simp add: read_cl_source_def multiaddress_source_json_def read_field_JObj cl_source_of_def)

definition cl_peer_channel_of :: "answer_lib \<Rightarrow> peer_channel_info \<Rightarrow> cl_peer_channel" where
  "cl_peer_channel_of lib c =
     \<lparr> ck_balance = dp_balance lib (pci_balance c), ck_id = dp_hash lib (pci_id c),
       ck_status = dl_channel_status lib (pci_status c) \<rparr>"

lemma peer_channel_crosses: "read_cl_peer_channel (peer_channel_json lib c) = Some (cl_peer_channel_of lib c)"
  by (simp add: read_cl_peer_channel_def peer_channel_json_def read_field_JObj cl_peer_channel_of_def)

lemma ping_reads:
  "read_cl_ping (ping_json lib r) =
     (if unat (an_millis lib (pr_latency r)) < 2 ^ 63 then Some (int (unat (an_millis lib (pr_latency r)))) else None)"
  by (simp add: read_cl_ping_def ping_json_def read_field_JObj read_sint_nat)

lemma ticket_statistics_reads:
  "read_cl_ticket_statistics (ticket_statistics_json lib r) =
     (if unat (tsr_winning_count r) < 2 ^ 63
      then Some \<lparr> ct_neglected_value = dp_balance lib (tsr_neglected_value r),
             ct_rejected_value = dp_balance lib (tsr_rejected_value r),
             ct_unredeemed_value = dp_balance lib (tsr_unredeemed_value r),
             ct_winning_count = int (unat (tsr_winning_count r)) \<rparr>
      else None)"
  by (simp add: read_cl_ticket_statistics_def ticket_statistics_json_def read_field_JObj read_sint_nat)

lemma receipts_cross:
  "read_cl_open_channel (open_channel_json lib r) =
     Some (dp_hash lib (ocp_channel_id r), dp_hash lib (ocp_transaction_receipt r))"
  "read_cl_receipt (close_channel_json lib c) = Some (dp_hash lib (ccr_receipt c))"
  "read_cl_fund_channel (fund_channel_json lib f) = Some (dp_hash lib (fcr_hash f))"
  "read_cl_receipt (withdraw_json w) = Some (wr_receipt w)"
  "read_cl_version (node_version_json v) = Some (nv_version v)"
  "read_cl_ticket_price (ticket_price_json lib p) = Some (dp_balance lib (tpr_price p))"
  by (simp_all add: read_cl_open_channel_def open_channel_json_def read_cl_receipt_def close_channel_json_def
      read_cl_fund_channel_def fund_channel_json_def withdraw_json_def read_cl_version_def node_version_json_def
      read_cl_ticket_price_def ticket_price_json_def read_field_JObj)

lemma probability_reads:
  assumes "f64_law lib"
  shows "read_cl_ticket_probability lib (ticket_probability_json lib p) = finite_part (Some (tpp_probability p))"
  using assms
  by (simp add: read_cl_ticket_probability_def ticket_probability_json_def read_field_JObj f64_json_def
      f64_law_def finite_part_def)

text \<open>What the node answers about a peer is read by the client as it is, its measures included, whether or not
  there are channels with the peer. Only two things are lost: a measure that is not finite becomes an absent
  one, and times beyond 64 bits make the whole answer unreadable.\<close>

theorem peer_info_reads:
  assumes "f64_law lib"
  shows "read_cl_peer_info lib (peer_info_json lib r) =
    (if (case npi_qos r of None \<Rightarrow> True | Some q \<Rightarrow> qos_fits (pqi_last_update q) (pqi_average_latency q))
     then Some \<lparr> cp_announced_sources = List.map cl_source_of (npi_announced_sources r),
            cp_incoming_channel = map_option (cl_peer_channel_of lib) (npi_incoming_channel r),
            cp_observed = npi_observed r,
            cp_outgoing_channel = map_option (cl_peer_channel_of lib) (npi_outgoing_channel r),
            cp_qos = map_option (\<lambda>q. \<lparr> cq_average_latency = pqi_average_latency q, cq_last_update = pqi_last_update q,
                cq_probe_rate = finite_part (pqi_probe_rate q), cq_score = finite_part (pqi_score q) \<rparr>) (npi_qos r) \<rparr>
     else None)"
proof -
  have sources: "read_list read_cl_source (JArr (List.map multiaddress_source_json xs))
      = Some (List.map cl_source_of xs)" for xs
    using read_list_map [of xs read_cl_source multiaddress_source_json cl_source_of] by (simp add: source_crosses)
  have "peer_channel_json lib c \<noteq> JNull" "peer_qos_json lib q \<noteq> JNull" for c q
    by (simp_all add: peer_channel_json_def peer_qos_json_def)
  note shapes = this
  have opt: "read_optional k f (JObj ms) = (case map_of ms k of None \<Rightarrow> Some None | Some j \<Rightarrow> map_option Some (f j))"
    if "map_of ms k \<noteq> Some JNull" for k ms and f :: "json \<Rightarrow> 'z option"
    using that by (auto simp: read_optional_JObj split: option.split json.split)
  show ?thesis
    unfolding read_cl_peer_info_def peer_info_json_def
    by (subst opt, simp add: present_def shapes shapes [symmetric] split: option.split,
        subst opt, simp add: present_def shapes shapes [symmetric] split: option.split,
        subst opt, simp add: present_def shapes shapes [symmetric] split: option.split)
       (simp add: present_def read_field_JObj sources read_strings peer_channel_crosses peer_qos_reads [OF assms]
         split: option.split)
qed

end
