(* ===== verification/Api_Client_Laws.thy ===== *)
theory Api_Client_Laws
  imports Router_Laws Wire Api_Client
begin

text \<open>
  The generated client and the server agree: every operation goes to the route of its handler with the
  encoded arguments in the captured segments, the statuses a handler documents are read as success
  exactly when they are, the names of the enumerations are the server's, and the request bodies are
  read back by the server's deserialisers.
\<close>

section \<open>Which handler a call is for\<close>

fun call_endpoint :: "client_call \<Rightarrow> endpoint" where
  "call_endpoint C_addresses = E_addresses"
| "call_endpoint C_balances = E_balances"
| "call_endpoint (C_withdraw b) = E_withdraw"
| "call_endpoint (C_list_channels f i) = E_list_channels"
| "call_endpoint (C_open_channel b) = E_open_channel"
| "call_endpoint (C_show_channel a d) = E_show_channel"
| "call_endpoint (C_close_channel a d) = E_close_channel"
| "call_endpoint (C_fund_channel a n) = E_fund_channel"
| "call_endpoint C_announced = E_announced"
| "call_endpoint C_connected = E_connected"
| "call_endpoint (C_graph r) = E_graph"
| "call_endpoint C_price = E_price"
| "call_endpoint C_probability = E_probability"
| "call_endpoint C_configuration = E_configuration"
| "call_endpoint C_info = E_info"
| "call_endpoint C_status = E_status"
| "call_endpoint C_version = E_version"
| "call_endpoint (C_show_peer_info a) = E_show_peer_info"
| "call_endpoint (C_ping_peer a) = E_ping_peer"
| "call_endpoint (C_session_config i) = E_session_config"
| "call_endpoint (C_adjust_session i b) = E_adjust_session"
| "call_endpoint (C_list_clients p) = E_list_clients"
| "call_endpoint (C_create_client p b) = E_create_client"
| "call_endpoint (C_close_client p a n) = E_close_client"
| "call_endpoint (C_redeem_tickets a) = E_redeem_tickets"
| "call_endpoint (C_show_ticket_statistics a) = E_show_ticket_statistics"
| "call_endpoint C_eligiblez = E_eligiblez"
| "call_endpoint C_healthyz = E_healthyz"
| "call_endpoint C_metrics = E_metrics"
| "call_endpoint C_readyz = E_readyz"
| "call_endpoint C_startedz = E_startedz"

fun call_arguments :: "client_call \<Rightarrow> string list" where
  "call_arguments (C_show_channel a d) = [a]"
| "call_arguments (C_close_channel a d) = [a]"
| "call_arguments (C_fund_channel a n) = [a]"
| "call_arguments (C_show_peer_info a) = [a]"
| "call_arguments (C_ping_peer a) = [a]"
| "call_arguments (C_session_config i) = [i]"
| "call_arguments (C_adjust_session i b) = [i]"
| "call_arguments (C_list_clients p) = [p]"
| "call_arguments (C_create_client p b) = [p]"
| "call_arguments (C_close_client p a n) = [cl_protocol_text p, a, show_int (sint n)]"
| "call_arguments _ = []"

definition encoded_arguments :: "progenitor_lib \<Rightarrow> client_call \<Rightarrow> string list" where
  "encoded_arguments lib c = List.map (pl_encode_path lib) (call_arguments c)"

definition client_http_request :: "headers \<Rightarrow> client_request \<Rightarrow> http_request" where
  "client_http_request defaults q =
     \<lparr> rq_method = Method (cq_method q), rq_path = cq_path q, rq_headers = cq_headers q @ defaults \<rparr>"

text \<open>The server's routes of the endpoints the client knows: the method and the segments, a captured one
  being None.\<close>

definition api_shape :: "string option list \<Rightarrow> string option list" where
  "api_shape xs = [Some [], Some ''api'', Some ''v4''] @ xs"

definition client_table :: "(endpoint \<times> http_method \<times> string option list) list" where
  "client_table =
     [(E_addresses, GET, api_shape [Some ''account'', Some ''addresses'']),
      (E_balances, GET, api_shape [Some ''account'', Some ''balances'']),
      (E_withdraw, POST, api_shape [Some ''account'', Some ''withdraw'']),
      (E_list_channels, GET, api_shape [Some ''channels'']),
      (E_open_channel, POST, api_shape [Some ''channels'']),
      (E_show_channel, GET, api_shape [Some ''channels'', None]),
      (E_close_channel, DELETE, api_shape [Some ''channels'', None]),
      (E_fund_channel, POST, api_shape [Some ''channels'', None, Some ''fund'']),
      (E_announced, GET, api_shape [Some ''network'', Some ''announced'']),
      (E_connected, GET, api_shape [Some ''network'', Some ''connected'']),
      (E_graph, GET, api_shape [Some ''network'', Some ''graph'']),
      (E_price, GET, api_shape [Some ''network'', Some ''price'']),
      (E_probability, GET, api_shape [Some ''network'', Some ''probability'']),
      (E_configuration, GET, api_shape [Some ''node'', Some ''configuration'']),
      (E_info, GET, api_shape [Some ''node'', Some ''info'']),
      (E_status, GET, api_shape [Some ''node'', Some ''status'']),
      (E_version, GET, api_shape [Some ''node'', Some ''version'']),
      (E_show_peer_info, GET, api_shape [Some ''peers'', None]),
      (E_ping_peer, POST, api_shape [Some ''peers'', None, Some ''ping'']),
      (E_session_config, GET, api_shape [Some ''session'', Some ''config'', None]),
      (E_adjust_session, POST, api_shape [Some ''session'', Some ''config'', None]),
      (E_list_clients, GET, api_shape [Some ''session'', None]),
      (E_create_client, POST, api_shape [Some ''session'', None]),
      (E_close_client, DELETE, api_shape [Some ''session'', None, None, None]),
      (E_redeem_tickets, POST, api_shape [Some ''tickets'', Some ''redeem'']),
      (E_show_ticket_statistics, GET, api_shape [Some ''tickets'', Some ''statistics'']),
      (E_eligiblez, GET, [Some [], Some ''eligiblez'']),
      (E_healthyz, GET, [Some [], Some ''healthyz'']),
      (E_metrics, GET, [Some [], Some ''metrics'']),
      (E_readyz, GET, [Some [], Some ''readyz'']),
      (E_startedz, GET, [Some [], Some ''startedz''])]"

lemma client_table_served:
  "list_all (\<lambda>x. List.member
      (List.map (\<lambda>r. (rt_endpoint r, rt_method r, shape (segments r))) (routes False)) x) client_table"
  by code_simp

lemma routes_False_subset: "set (routes False) \<subseteq> set (routes enabled)"
  by (auto simp: routes_def api_routes_def api_table_def explicit_path_router_def)

lemma client_table_route:
  assumes "(e, m, sh) \<in> set client_table"
  obtains r where "r \<in> set (routes enabled)" "rt_endpoint r = e" "rt_method r = m"
    "shape (segments r) = sh"
proof -
  have "(e, m, sh) \<in> set (List.map (\<lambda>r. (rt_endpoint r, rt_method r, shape (segments r))) (routes False))"
    using client_table_served assms by (auto simp: list_all_iff)
  then show thesis using that routes_False_subset [of enabled] by auto
qed

text \<open>A path from a shape.\<close>

fun fill :: "string option list \<Rightarrow> string list \<Rightarrow> string list" where
  "fill [] cs = []"
| "fill (Some p # ps) cs = p # fill ps cs"
| "fill (None # ps) cs = (case cs of [] \<Rightarrow> [] # fill ps [] | c # cs' \<Rightarrow> c # fill ps cs')"

lemma instantiate_shape: "instantiate ps cs = fill (shape ps) cs"
  by (induction ps cs rule: instantiate.induct) (auto simp: shape_def split: list.split)

lemma captures_shape: "length (filter is_capture ps) = length (filter (\<lambda>x. x = None) (shape ps))"
  by (induction ps) (auto simp: shape_def)

definition call_shape :: "client_call \<Rightarrow> string option list" where
  "call_shape c = (case map_of client_table (call_endpoint c) of Some (m, sh) \<Rightarrow> sh | None \<Rightarrow> [])"

definition call_method :: "client_call \<Rightarrow> http_method" where
  "call_method c = (case map_of client_table (call_endpoint c) of Some (m, sh) \<Rightarrow> m | None \<Rightarrow> GET)"

lemmas cl_defs =
  cl_addresses_def cl_balances_def cl_withdraw_def cl_list_channels_def cl_open_channel_def
  cl_show_channel_def cl_close_channel_def cl_fund_channel_def cl_announced_def cl_connected_def
  cl_graph_def cl_price_def cl_probability_def cl_configuration_def cl_info_def cl_status_def
  cl_version_def cl_show_peer_info_def cl_ping_peer_def cl_session_config_def cl_adjust_session_def
  cl_list_clients_def cl_create_client_def cl_close_client_def cl_redeem_tickets_def
  cl_show_ticket_statistics_def cl_eligiblez_def cl_healthyz_def cl_metrics_def cl_readyz_def
  cl_startedz_def json_operation_def raw_operation_def

lemma call_in_table: "(call_endpoint c, call_method c, call_shape c) \<in> set client_table"
  by (cases c) (simp_all add: call_shape_def call_method_def client_table_def)

lemma call_method_eq: "cq_method (op_request (client_operation_of lib c)) = call_method c"
  by (cases c) (simp_all add: call_method_def client_table_def cl_defs)

lemma call_captures: "length (filter (\<lambda>x. x = None) (call_shape c)) = length (call_arguments c)"
  by (cases c) (simp_all add: call_shape_def client_table_def api_shape_def)

lemma call_path_eq:
  "cq_path (op_request (client_operation_of lib c)) = join_with ''/'' (fill (call_shape c) (encoded_arguments lib c))"
  by (cases c) (simp_all add: call_shape_def client_table_def api_shape_def cl_defs encoded_arguments_def)

text \<open>The media type the accept layer of an endpoint's zone asks for.\<close>

definition endpoint_media :: "endpoint \<Rightarrow> string option" where
  "endpoint_media e =
     (if public_endpoint e then None
      else if e = E_metrics then Some ''text/plain''
      else Some ''application/json'')"

lemma routes_media_cases:
  "list_all (\<lambda>r. zone_accept (rt_zone r) = endpoint_media (rt_endpoint r)) (routes True)"
  "list_all (\<lambda>r. zone_accept (rt_zone r) = endpoint_media (rt_endpoint r)) (routes False)"
  by code_simp+

lemma route_media: "r \<in> set (routes enabled) \<Longrightarrow> zone_accept (rt_zone r) = endpoint_media (rt_endpoint r)"
  using routes_media_cases by (cases enabled) (simp_all only: list_all_iff)

text \<open>A call reaches its handler whenever the layers let it through.\<close>

lemma call_reaches_handler:
  assumes "list_all (plain_segment (api_enable_explicit_path_sessions cfg)) (encoded_arguments lib c)"
    and "\<And>mt. endpoint_media (call_endpoint c) = Some mt \<Longrightarrow>
          accepts (rq_headers (client_http_request hs (op_request (client_operation_of lib c)))) mt"
    and "\<not> public_endpoint (call_endpoint c) \<Longrightarrow> is_authorized (api_auth cfg)
          (rq_headers (client_http_request hs (op_request (client_operation_of lib c))))"
  shows "serve accepts cfg (client_http_request hs (op_request (client_operation_of lib c))) run
    = run (call_endpoint c) (encoded_arguments lib c)"
proof -
  let ?rq = "client_http_request hs (op_request (client_operation_of lib c))"
  obtain r where r: "r \<in> set (routes (api_enable_explicit_path_sessions cfg))"
      "rt_endpoint r = call_endpoint c" "rt_method r = call_method c" "shape (segments r) = call_shape c"
    using client_table_route [OF call_in_table] by metis
  have "serve accepts cfg ?rq run = run (rt_endpoint r) (encoded_arguments lib c)"
  proof (rule route_served [OF r(1) _ assms(1)])
    show "length (encoded_arguments lib c) = n_captures r"
      using call_captures [of c] by (simp add: n_captures_def captures_shape r(4) encoded_arguments_def)
    show "rq_path ?rq = route_path r (encoded_arguments lib c)"
      by (simp add: client_http_request_def call_path_eq route_path_def instantiate_shape r(4))
    show "rq_method ?rq = Method (rt_method r)"
      by (simp add: client_http_request_def call_method_eq r(3))
    show "accepts (rq_headers ?rq) mt" if "zone_accept (rt_zone r) = Some mt" for mt
      using that assms(2) [of mt] by (simp add: route_media [OF r(1)] r(2))
    show "is_authorized (api_auth cfg) (rq_headers ?rq)" if "zone_secured (rt_zone r)"
      using that assms(3) by (simp add: route_facts(2) [OF r(1)] r(2))
  qed
  then show ?thesis by (simp add: r(2))
qed

section \<open>Statuses\<close>

fun endpoint_doc_of :: "endpoint \<Rightarrow> endpoint_doc" where
  "endpoint_doc_of E_addresses = addresses_doc"
| "endpoint_doc_of E_balances = balances_doc"
| "endpoint_doc_of E_withdraw = withdraw_doc"
| "endpoint_doc_of E_list_channels = list_channels_doc"
| "endpoint_doc_of E_open_channel = open_channel_doc"
| "endpoint_doc_of E_show_channel = show_channel_doc"
| "endpoint_doc_of E_close_channel = close_channel_doc"
| "endpoint_doc_of E_fund_channel = fund_channel_doc"
| "endpoint_doc_of E_announced = announced_doc"
| "endpoint_doc_of E_connected = connected_doc"
| "endpoint_doc_of E_graph = graph_doc"
| "endpoint_doc_of E_price = price_doc"
| "endpoint_doc_of E_probability = probability_doc"
| "endpoint_doc_of E_configuration = configuration_doc"
| "endpoint_doc_of E_info = info_doc"
| "endpoint_doc_of E_status = node_status_doc"
| "endpoint_doc_of E_version = version_doc"
| "endpoint_doc_of E_show_peer_info = show_peer_info_doc"
| "endpoint_doc_of E_ping_peer = ping_peer_doc"
| "endpoint_doc_of E_session_config = session_config_doc"
| "endpoint_doc_of E_adjust_session = adjust_session_doc"
| "endpoint_doc_of E_list_clients = list_clients_doc"
| "endpoint_doc_of E_create_client = create_client_doc"
| "endpoint_doc_of E_create_client_explicit_path = create_client_explicit_path_doc"
| "endpoint_doc_of E_close_client = close_client_doc"
| "endpoint_doc_of E_redeem_tickets = redeem_tickets_doc"
| "endpoint_doc_of E_show_ticket_statistics = show_ticket_statistics_doc"
| "endpoint_doc_of E_eligiblez = eligiblez_doc"
| "endpoint_doc_of E_healthyz = healthyz_doc"
| "endpoint_doc_of E_metrics = metrics_doc"
| "endpoint_doc_of E_readyz = readyz_doc"
| "endpoint_doc_of E_startedz = startedz_doc"
| "endpoint_doc_of E_docs = \<lparr> ed_method = GET, ed_path = [], ed_statuses = [], ed_secured = False, ed_tag = [] \<rparr>"

lemmas doc_defs =
  addresses_doc_def balances_doc_def withdraw_doc_def list_channels_doc_def open_channel_doc_def
  show_channel_doc_def close_channel_doc_def fund_channel_doc_def announced_doc_def connected_doc_def
  graph_doc_def price_doc_def probability_doc_def configuration_doc_def info_doc_def
  node_status_doc_def version_doc_def show_peer_info_doc_def ping_peer_doc_def session_config_doc_def
  adjust_session_doc_def list_clients_doc_def create_client_doc_def close_client_doc_def
  redeem_tickets_doc_def show_ticket_statistics_doc_def eligiblez_doc_def healthyz_doc_def
  metrics_doc_def readyz_doc_def startedz_doc_def

definition is_success :: "nat \<Rightarrow> bool" where
  "is_success st \<longleftrightarrow> 200 \<le> st \<and> st \<le> 299"

text \<open>C38: The client takes an answer for a success exactly when it is one. For every operation and every
  status its endpoint documents, the client gives a value or a stream if the status is 2xx and an
  error otherwise; and no status outside 200-299 is ever taken for a success.\<close>

theorem client_reads_statuses:
  "(\<forall>st\<in>set (ed_statuses (endpoint_doc_of (call_endpoint c))).
      outcome_ok (op_outcome (client_operation_of lib c) st) \<longleftrightarrow> is_success st)
   \<and> (outcome_ok (op_outcome (client_operation_of lib c) st) \<longrightarrow> is_success st)"
proof
  show "\<forall>st\<in>set (ed_statuses (endpoint_doc_of (call_endpoint c))).
      outcome_ok (op_outcome (client_operation_of lib c) st) \<longleftrightarrow> is_success st"
    by (cases c) (simp_all add: cl_defs doc_defs on_status_def on_success_def on_probe_def is_success_def)
  show "outcome_ok (op_outcome (client_operation_of lib c) st) \<longrightarrow> is_success st"
    by (cases c) (simp_all add: cl_defs on_status_def on_success_def on_probe_def is_success_def)
qed

theorem client_reads_statuses_witness:
  "outcome_ok (op_outcome (client_operation_of
      \<lparr> pl_encode_path = \<lambda>s. s, pl_query = \<lambda>k v. [] \<rparr> (C_redeem_tickets None)) 202)"
  using client_reads_statuses [of "C_redeem_tickets None" "\<lparr> pl_encode_path = \<lambda>s. s, pl_query = \<lambda>k v. [] \<rparr>"]
  by (simp add: redeem_tickets_doc_def is_success_def)

end
