(* ===== verification/Client_Spec.thy ===== *)
theory Client_Spec
  imports Json
begin

text \<open>
  The preparation of the OpenAPI document for the client generator (\<open>rest-api-client/build.rs\<close>): the
  document, which the server describes in OpenAPI 3.1, is rewritten to what the generator reads of
  3.0. \<open>serde_json\<close>'s objects keep the order of their members and remove by swapping, as \<open>Json\<close> has it.
\<close>

section \<open>Version\<close>

fun normalize_openapi_version :: "json \<Rightarrow> json" where
  "normalize_openapi_version (JObj ms) =
     JObj (obj_remove ''jsonSchemaDialect'' (obj_insert ''openapi'' (JStr ''3.0.3'') ms))"
| "normalize_openapi_version v = v"

section \<open>Nullable types\<close>

definition is_null_schema :: "json \<Rightarrow> bool" where
  "is_null_schema v = (v = JObj [(''type'', JStr ''null'')])"

definition type_names :: "json list \<Rightarrow> string list" where
  "type_names ts = filter (\<lambda>s. s \<noteq> ''null'') (List.map_filter as_str ts)"

definition or_insert :: "string \<Rightarrow> json \<Rightarrow> (string \<times> json) list \<Rightarrow> (string \<times> json) list" where
  "or_insert k v ms = (if map_of ms k = None then obj_insert k v ms else ms)"

text \<open>The array form of \<open>type\<close>.\<close>

definition rewrite_type :: "(string \<times> json) list \<Rightarrow> (string \<times> json) list" where
  "rewrite_type ms =
     (case map_of ms ''type'' of
        Some (JArr ts) \<Rightarrow>
          (let ms' =
             (case type_names ts of
                [] \<Rightarrow> obj_remove ''type'' ms
              | [t] \<Rightarrow> obj_insert ''type'' (JStr t) ms
              | names \<Rightarrow> obj_insert ''oneOf'' (JArr (List.map (\<lambda>t. JObj [(''type'', JStr t)]) names))
                          (obj_remove ''type'' ms))
           in if List.member ts (JStr ''null'') then or_insert ''nullable'' (JBool True) ms' else ms')
      | _ \<Rightarrow> ms)"

text \<open>\<open>oneOf\<close> and \<open>anyOf\<close> with a null variant. The member is removed first; a member that is no array is
  not put back.\<close>

definition insert_all :: "(string \<times> json) list \<Rightarrow> (string \<times> json) list \<Rightarrow> (string \<times> json) list" where
  "insert_all inner ms = foldl (\<lambda>ms (k, v). obj_insert k v ms) ms inner"

definition rewrite_variants :: "string \<Rightarrow> (string \<times> json) list \<Rightarrow> (string \<times> json) list" where
  "rewrite_variants key ms =
     (case map_of ms key of
        None \<Rightarrow> ms
      | Some v \<Rightarrow>
          (let ms' = obj_remove key ms in
           case v of
             JArr variants \<Rightarrow>
               if list_ex is_null_schema variants then
                 obj_insert ''nullable'' (JBool True)
                   (case filter (\<lambda>v. \<not> is_null_schema v) variants of
                      [] \<Rightarrow> ms'
                    | [x] \<Rightarrow> (case as_object x of Some inner \<Rightarrow> insert_all inner ms' | None \<Rightarrow> ms')
                    | non_null \<Rightarrow> obj_insert key (JArr non_null) ms')
               else obj_insert key (JArr variants) ms'
           | _ \<Rightarrow> ms'))"

definition rewrite_schema :: "(string \<times> json) list \<Rightarrow> (string \<times> json) list" where
  "rewrite_schema ms = rewrite_variants ''anyOf'' (rewrite_variants ''oneOf'' (rewrite_type ms))"

text \<open>
  The rewriting of an object does not shrink it: an array of type names becomes a longer list of
  objects. Termination is by a weight in which an array of types counts twice.
\<close>

fun weight :: "json \<Rightarrow> nat" and member_weight :: "string \<times> json \<Rightarrow> nat" where
  "weight (JArr xs) = Suc (sum_list (List.map weight xs))"
| "weight (JObj ms) = Suc (sum_list (List.map member_weight ms))"
| "weight JNull = 1"
| "weight (JBool b) = 1"
| "weight (JNum n) = 1"
| "weight (JStr s) = 1"
| "member_weight (k, v) =
     (case v of JArr xs \<Rightarrow> (if k = ''type'' then 2 * weight v else weight v) | _ \<Rightarrow> weight v)"

abbreviation members_weight :: "(string \<times> json) list \<Rightarrow> nat" where
  "members_weight ms \<equiv> sum_list (List.map member_weight ms)"

lemma weight_pos: "0 < weight v"
  by (cases v) simp_all

lemma weight_le_member: "weight v \<le> member_weight (k, v)"
  by (cases v) simp_all

lemma members_weight_mset: "mset ms = mset ms' \<Longrightarrow> members_weight ms = members_weight ms'"
  by (metis mset_map sum_mset_sum_list)

lemma members_weight_remove:
  assumes "map_of ms k = Some v"
  shows "members_weight ms = member_weight (k, v) + members_weight (obj_remove k ms)"
  using members_weight_mset [of ms "(k, v) # obj_remove k ms"] obj_remove_present [OF assms] by simp

lemma members_weight_insert: "members_weight (obj_insert k v ms) \<le> member_weight (k, v) + members_weight ms"
  by (induction k v ms rule: obj_insert.induct) auto

lemma members_weight_replace:
  "map_of ms k = Some v' \<Longrightarrow>
     members_weight (obj_insert k v ms) + member_weight (k, v') = member_weight (k, v) + members_weight ms"
  by (induction k v ms rule: obj_insert.induct) (auto split: if_splits)

lemma members_weight_or_insert:
  "members_weight (or_insert k v ms) \<le> member_weight (k, v) + members_weight ms"
  using members_weight_insert [of k v ms] by (simp add: or_insert_def)

lemma members_weight_insert_all: "members_weight (insert_all inner ms) \<le> members_weight inner + members_weight ms"
proof (induction inner arbitrary: ms)
  case Nil
  then show ?case by (simp add: insert_all_def)
next
  case (Cons m inner)
  obtain k v where m: "m = (k, v)" by (cases m)
  have "members_weight (insert_all (m # inner) ms) = members_weight (insert_all inner (obj_insert k v ms))"
    by (simp add: insert_all_def m)
  also have "\<dots> \<le> members_weight inner + members_weight (obj_insert k v ms)" by (rule Cons.IH)
  finally show ?case using members_weight_insert [of k v ms] m by simp
qed

lemma type_names_weight:
  "length (type_names ts) + (if List.member ts (JStr ''null'') then 1 else 0) \<le> sum_list (List.map weight ts)"
proof (induction ts)
  case (Cons t ts)
  have "0 < weight t" by (rule weight_pos)
  then show ?case using Cons by (cases t) (auto simp: type_names_def map_filter_def)
qed (simp add: type_names_def)

lemma rewrite_type_weight: "members_weight (rewrite_type ms) \<le> members_weight ms"
proof (cases "map_of ms ''type''")
  case (Some v)
  show ?thesis
  proof (cases v)
    case (JArr ts)
    let ?null = "List.member ts (JStr ''null'')"
    define ms' where "ms' = (case type_names ts of
                [] \<Rightarrow> obj_remove ''type'' ms
              | [t] \<Rightarrow> obj_insert ''type'' (JStr t) ms
              | names \<Rightarrow> obj_insert ''oneOf'' (JArr (List.map (\<lambda>t. JObj [(''type'', JStr t)]) names))
                          (obj_remove ''type'' ms))"
    have new: "rewrite_type ms = (if ?null then or_insert ''nullable'' (JBool True) ms' else ms')"
      by (simp add: rewrite_type_def Some JArr ms'_def Let_def)
    have old: "members_weight ms = 2 * weight (JArr ts) + members_weight (obj_remove ''type'' ms)"
      using members_weight_remove [OF Some] by (simp add: JArr)
    have "members_weight ms' + (if ?null then 1 else 0) \<le> members_weight ms"
    proof (cases "type_names ts")
      case Nil
      then show ?thesis using old by (simp add: ms'_def)
    next
      case (Cons t names)
      show ?thesis
      proof (cases names)
        case Nil
        then have "ms' = obj_insert ''type'' (JStr t) ms" by (simp add: ms'_def Cons)
        then show ?thesis
          using members_weight_replace [OF Some, of "JStr t"] by (simp add: JArr)
      next
        case (Cons t' names')
        let ?objs = "JArr (List.map (\<lambda>t. JObj [(''type'', JStr t)]) (t # names))"
        have "ms' = obj_insert ''oneOf'' ?objs (obj_remove ''type'' ms)"
          by (simp add: ms'_def \<open>type_names ts = t # names\<close> Cons)
        then have "members_weight ms' \<le> weight ?objs + members_weight (obj_remove ''type'' ms)"
          using members_weight_insert [of "''oneOf''" ?objs "obj_remove ''type'' ms"] by simp
        moreover have "weight ?objs = Suc (2 * length (t # names))"
          by (simp add: o_def sum_list_triv)
        ultimately show ?thesis
          using old type_names_weight [of ts] \<open>type_names ts = t # names\<close> by simp
      qed
    qed
    then show ?thesis
      using members_weight_or_insert [of "''nullable''" "JBool True" ms'] by (auto simp: new)
  qed (simp_all add: rewrite_type_def Some)
qed (simp add: rewrite_type_def)

lemma non_null_weight:
  "sum_list (List.map weight (filter (\<lambda>v. \<not> is_null_schema v) vs))
     + (if list_ex is_null_schema vs then 2 else 0) \<le> sum_list (List.map weight vs)"
  by (induction vs) (auto simp: is_null_schema_def)

lemma rewrite_variants_weight:
  assumes key: "key \<noteq> ''type''"
  shows "members_weight (rewrite_variants key ms) \<le> members_weight ms"
proof (cases "map_of ms key")
  case (Some v)
  note old = members_weight_remove [OF Some]
  show ?thesis
  proof (cases v)
    case (JArr vs)
    let ?rest = "obj_remove key ms"
    let ?non_null = "filter (\<lambda>v. \<not> is_null_schema v) vs"
    have old': "members_weight ms = Suc (sum_list (List.map weight vs)) + members_weight ?rest"
      using old key by (simp add: JArr)
    show ?thesis
    proof (cases "list_ex is_null_schema vs")
      case False
      then have "rewrite_variants key ms = obj_insert key (JArr vs) ?rest"
        by (simp add: rewrite_variants_def Some JArr Let_def)
      then show ?thesis using members_weight_insert [of key "JArr vs" ?rest] old' key by simp
    next
      case True
      define ms' where "ms' = (case ?non_null of
                      [] \<Rightarrow> ?rest
                    | [x] \<Rightarrow> (case as_object x of Some inner \<Rightarrow> insert_all inner ?rest | None \<Rightarrow> ?rest)
                    | non_null \<Rightarrow> obj_insert key (JArr non_null) ?rest)"
      have "rewrite_variants key ms = obj_insert ''nullable'' (JBool True) ms'"
        using True by (simp add: rewrite_variants_def Some JArr Let_def ms'_def)
      moreover have "members_weight ms' \<le> Suc (sum_list (List.map weight ?non_null)) + members_weight ?rest"
      proof (cases ?non_null)
        case Nil
        then show ?thesis by (simp add: ms'_def)
      next
        case (Cons x xs)
        show ?thesis
        proof (cases xs)
          case Nil
          then have "ms' = (case as_object x of Some inner \<Rightarrow> insert_all inner ?rest | None \<Rightarrow> ?rest)"
            by (simp add: ms'_def Cons)
          then show ?thesis
            using members_weight_insert_all [of _ ?rest] by (cases x) (simp_all add: Cons Nil le_Suc_eq)
        next
          case (Cons y ys)
          then have "ms' = obj_insert key (JArr ?non_null) ?rest"
            by (simp add: ms'_def \<open>?non_null = x # xs\<close>)
          then show ?thesis using members_weight_insert [of key "JArr ?non_null" ?rest] key by simp
        qed
      qed
      ultimately show ?thesis
        using members_weight_insert [of "''nullable''" "JBool True" ms'] non_null_weight [of vs] True old'
        by simp
    qed
  qed (use old in \<open>simp_all add: rewrite_variants_def Some Let_def\<close>)
qed (simp add: rewrite_variants_def)

lemma rewrite_schema_weight: "members_weight (rewrite_schema ms) \<le> members_weight ms"
proof -
  have "members_weight (rewrite_schema ms) \<le> members_weight (rewrite_variants ''oneOf'' (rewrite_type ms))"
    unfolding rewrite_schema_def by (rule rewrite_variants_weight) simp
  also have "\<dots> \<le> members_weight (rewrite_type ms)" by (rule rewrite_variants_weight) simp
  also have "\<dots> \<le> members_weight ms" by (rule rewrite_type_weight)
  finally show ?thesis .
qed

lemma element_weight: "x \<in> set xs \<Longrightarrow> weight x \<le> sum_list (List.map weight xs)"
  by (rule member_le_sum_list) auto

lemma value_weight: "(k, v) \<in> set ms \<Longrightarrow> weight v \<le> members_weight ms"
  using member_le_sum_list [of "member_weight (k, v)" "List.map member_weight ms"] weight_le_member [of v k]
  by force

function normalize_nullable_types :: "json \<Rightarrow> json" where
  "normalize_nullable_types (JArr xs) = JArr (List.map normalize_nullable_types xs)"
| "normalize_nullable_types (JObj ms) =
     JObj (List.map (\<lambda>(k, v). (k, normalize_nullable_types v)) (rewrite_schema ms))"
| "normalize_nullable_types JNull = JNull"
| "normalize_nullable_types (JBool b) = JBool b"
| "normalize_nullable_types (JNum n) = JNum n"
| "normalize_nullable_types (JStr s) = JStr s"
  by pat_completeness auto

termination
proof (relation "measure weight")
  show "(x, JArr xs) \<in> measure weight" if "x \<in> set xs" for x xs
    using element_weight [OF that] by simp
  show "(v, JObj ms) \<in> measure weight" if "m \<in> set (rewrite_schema ms)" "(k, v) = m" for ms m k v
    using value_weight [of k v "rewrite_schema ms"] rewrite_schema_weight [of ms] that by simp
qed simp

section \<open>What the generator gets\<close>

text \<open>What a 3.0 reader needs of every object: \<open>type\<close> is no array, and no variant is the null schema.\<close>

definition no_type_array :: "(string \<times> json) list \<Rightarrow> bool" where
  "no_type_array ms \<longleftrightarrow> (\<forall>m\<in>set ms. fst m = ''type'' \<longrightarrow> as_array (snd m) = None)"

definition no_null_variant :: "string \<Rightarrow> (string \<times> json) list \<Rightarrow> bool" where
  "no_null_variant key ms \<longleftrightarrow> (\<forall>m\<in>set ms. fst m = key \<longrightarrow>
     (case as_array (snd m) of None \<Rightarrow> False | Some vs \<Rightarrow> \<not> list_ex is_null_schema vs))"

fun openapi30 :: "json \<Rightarrow> bool" where
  "openapi30 (JArr xs) = (\<forall>x\<in>set xs. openapi30 x)"
| "openapi30 (JObj ms) =
     (no_type_array ms \<and> no_null_variant ''oneOf'' ms \<and> no_null_variant ''anyOf'' ms
      \<and> (\<forall>m\<in>set ms. openapi30 (snd m)))"
| "openapi30 _ = True"

text \<open>What the server's generator emits: distinct member names, \<open>oneOf\<close> and \<open>anyOf\<close> are arrays, and the only
  variant beside a null schema has neither an array of types nor variants of its own.\<close>

definition inlinable :: "json \<Rightarrow> bool" where
  "inlinable x \<longleftrightarrow>
     (case as_object x of
        None \<Rightarrow> True
      | Some inner \<Rightarrow> no_type_array inner \<and> ''oneOf'' \<notin> fst ` set inner \<and> ''anyOf'' \<notin> fst ` set inner)"

definition variants_ok :: "string \<Rightarrow> (string \<times> json) list \<Rightarrow> bool" where
  "variants_ok key ms \<longleftrightarrow> (\<forall>m\<in>set ms. fst m = key \<longrightarrow>
     (case as_array (snd m) of
        None \<Rightarrow> False
      | Some vs \<Rightarrow> list_ex is_null_schema vs \<longrightarrow>
          (case filter (\<lambda>v. \<not> is_null_schema v) vs of [x] \<Rightarrow> inlinable x | _ \<Rightarrow> True)))"

fun emitted :: "json \<Rightarrow> bool" where
  "emitted (JArr xs) = (\<forall>x\<in>set xs. emitted x)"
| "emitted (JObj ms) =
     (distinct (List.map fst ms) \<and> variants_ok ''oneOf'' ms \<and> variants_ok ''anyOf'' ms
      \<and> (\<forall>m\<in>set ms. emitted (snd m)))"
| "emitted _ = True"

lemma set_obj_insert_distinct:
  "distinct (List.map fst ms) \<Longrightarrow> set (obj_insert k v ms) = insert (k, v) {m \<in> set ms. fst m \<noteq> k}"
  by (induction k v ms rule: obj_insert.induct) (auto simp: image_iff)

lemma distinct_insert_all: "distinct (List.map fst ms) \<Longrightarrow> distinct (List.map fst (insert_all inner ms))"
  unfolding insert_all_def by (induction inner arbitrary: ms) auto

lemma set_insert_all: "set (insert_all inner ms) \<subseteq> set inner \<union> set ms"
  unfolding insert_all_def
proof (induction inner arbitrary: ms)
  case (Cons m inner)
  show ?case
    using Cons.IH [of "obj_insert (fst m) (snd m) ms"] set_obj_insert [of "fst m" "snd m" ms]
    by (auto simp: split_def)
qed simp

lemma no_null_variant_ok: "no_null_variant key ms \<Longrightarrow> variants_ok key ms"
  unfolding no_null_variant_def variants_ok_def by (auto split: option.splits)

text \<open>The conditions are about the members only.\<close>

lemma condition_subset:
  assumes "set ms' \<subseteq> set ms"
  shows "no_type_array ms \<Longrightarrow> no_type_array ms'"
    and "variants_ok key ms \<Longrightarrow> variants_ok key ms'"
    and "no_null_variant key ms \<Longrightarrow> no_null_variant key ms'"
  using assms unfolding no_type_array_def variants_ok_def no_null_variant_def by blast+

lemma condition_Cons:
  "no_type_array (m # ms) \<longleftrightarrow> (fst m = ''type'' \<longrightarrow> as_array (snd m) = None) \<and> no_type_array ms"
  "fst m \<noteq> key \<Longrightarrow> variants_ok key (m # ms) = variants_ok key ms"
  "fst m \<noteq> key \<Longrightarrow> no_null_variant key (m # ms) = no_null_variant key ms"
  unfolding no_type_array_def variants_ok_def no_null_variant_def by auto

lemma condition_append:
  "no_type_array (ms @ ms') \<longleftrightarrow> no_type_array ms \<and> no_type_array ms'"
  "variants_ok key (ms @ ms') \<longleftrightarrow> variants_ok key ms \<and> variants_ok key ms'"
  "no_null_variant key (ms @ ms') \<longleftrightarrow> no_null_variant key ms \<and> no_null_variant key ms'"
  unfolding no_type_array_def variants_ok_def no_null_variant_def by auto

lemma condition_absent:
  "key \<notin> fst ` set ms \<Longrightarrow> variants_ok key ms"
  "key \<notin> fst ` set ms \<Longrightarrow> no_null_variant key ms"
  unfolding variants_ok_def no_null_variant_def by auto

lemma insert_subset_Cons: "set (obj_insert k v ms) \<subseteq> set ((k, v) # ms)"
  using set_obj_insert [of k v ms] by simp

text \<open>The array form of \<open>type\<close> is gone after the first step, which leaves the variants readable.\<close>

definition readable :: "(string \<times> json) list \<Rightarrow> bool" where
  "readable ms \<longleftrightarrow> distinct (List.map fst ms) \<and> no_type_array ms \<and> (\<forall>m\<in>set ms. emitted (snd m))"

lemma readable_insert:
  assumes "readable ms" and "emitted v" and "k \<noteq> ''type'' \<or> as_array v = None"
  shows "readable (obj_insert k v ms)"
  using assms set_obj_insert [of k v ms]
  by (fastforce simp: readable_def no_type_array_def)

lemma readable_remove: "readable ms \<Longrightarrow> readable (obj_remove k ms)"
  using set_obj_remove [of k ms] obj_remove_distinct(1) [of ms k]
  by (auto simp: readable_def no_type_array_def)

lemma readable_insert_all:
  assumes "readable ms" and "no_type_array inner" and "\<forall>m\<in>set inner. emitted (snd m)"
  shows "readable (insert_all inner ms)"
  using assms set_insert_all [of inner ms] distinct_insert_all [of ms inner]
  by (fastforce simp: readable_def no_type_array_def)

lemma rewrite_type_ok:
  assumes d: "distinct (List.map fst ms)" and e: "\<forall>m\<in>set ms. emitted (snd m)"
    and v: "variants_ok ''oneOf'' ms" "variants_ok ''anyOf'' ms"
  shows "readable (rewrite_type ms) \<and> variants_ok ''oneOf'' (rewrite_type ms)
    \<and> variants_ok ''anyOf'' (rewrite_type ms)"
proof (cases "\<exists>ts. map_of ms ''type'' = Some (JArr ts)")
  case False
  have "no_type_array ms"
    unfolding no_type_array_def
  proof (intro ballI impI)
    fix m assume m: "m \<in> set ms" "fst m = ''type''"
    then have "(''type'', snd m) \<in> set ms" by (metis prod.collapse)
    then have "map_of ms ''type'' = Some (snd m)" by (rule map_of_is_SomeI [OF d])
    then show "as_array (snd m) = None" using False by (cases "snd m") auto
  qed
  moreover have "rewrite_type ms = ms"
    using False by (auto simp: rewrite_type_def split: option.split json.split)
  ultimately show ?thesis using assms by (simp add: readable_def)
next
  case True
  then obtain ts where ts: "map_of ms ''type'' = Some (JArr ts)" by blast
  let ?rest = "obj_remove ''type'' ms"
  note rest = obj_remove_distinct [OF d, of "''type''"]
  have r: "readable ?rest" using rest e by (auto simp: readable_def no_type_array_def)
  define ms' where "ms' = (case type_names ts of
                [] \<Rightarrow> ?rest
              | [t] \<Rightarrow> obj_insert ''type'' (JStr t) ms
              | names \<Rightarrow> obj_insert ''oneOf'' (JArr (List.map (\<lambda>t. JObj [(''type'', JStr t)]) names)) ?rest)"
  have new: "rewrite_type ms =
      (if List.member ts (JStr ''null'') then or_insert ''nullable'' (JBool True) ms' else ms')"
    by (simp add: rewrite_type_def ts ms'_def Let_def)
  have vrest: "variants_ok ''oneOf'' ?rest" "variants_ok ''anyOf'' ?rest"
    using v condition_subset(2) [OF set_obj_remove] by blast+
  have ms': "readable ms' \<and> variants_ok ''oneOf'' ms' \<and> variants_ok ''anyOf'' ms'"
  proof (cases "type_names ts")
    case Nil
    then show ?thesis using r vrest by (simp add: ms'_def)
  next
    case (Cons t names)
    show ?thesis
    proof (cases names)
      case Nil
      then have eq: "ms' = obj_insert ''type'' (JStr t) ms" by (simp add: ms'_def Cons)
      have "readable ms'"
        using d e by (auto simp: eq readable_def no_type_array_def set_obj_insert_distinct)
      then show ?thesis
        using v condition_subset(2) [OF insert_subset_Cons]
        by (simp add: eq condition_Cons(2))
    next
      case (Cons t' names')
      let ?objs = "JArr (List.map (\<lambda>t. JObj [(''type'', JStr t)]) (type_names ts))"
      have eq: "ms' = obj_insert ''oneOf'' ?objs ?rest"
        by (simp add: ms'_def \<open>type_names ts = t # names\<close> Cons)
      have objs: "emitted ?objs"
        by (auto simp: variants_ok_def)
      have nonull: "\<not> list_ex is_null_schema (List.map (\<lambda>t. JObj [(''type'', JStr t)]) (type_names ts))"
        by (auto simp: list_ex_iff is_null_schema_def type_names_def)
      have "readable ms'" unfolding eq using r objs by (rule readable_insert) simp
      moreover have "variants_ok ''oneOf'' ((''oneOf'', ?objs) # ?rest)"
        using vrest(1) nonull by (simp add: variants_ok_def)
      moreover have "variants_ok ''anyOf'' ((''oneOf'', ?objs) # ?rest)"
        using vrest(2) by (simp add: condition_Cons(2))
      ultimately show ?thesis
        unfolding eq using condition_subset(2) [OF insert_subset_Cons] by blast
    qed
  qed
  have "readable (or_insert ''nullable'' (JBool True) ms')"
    using ms' readable_insert [of ms' "JBool True" "''nullable''"] by (simp add: or_insert_def)
  moreover have "variants_ok k (or_insert ''nullable'' (JBool True) ms')"
    if "variants_ok k ms'" "k \<noteq> ''nullable''" for k
    using that condition_subset(2) [OF insert_subset_Cons, where key = k]
    by (simp add: or_insert_def condition_Cons(2))
  ultimately show ?thesis using ms' by (simp add: new)
qed

lemma rewrite_variants_ok:
  assumes r: "readable ms" and v: "variants_ok key ms"
    and key: "key = ''oneOf'' \<or> key = ''anyOf''" and other: "other = ''oneOf'' \<or> other = ''anyOf''"
    and ne: "other \<noteq> key"
  shows "readable (rewrite_variants key ms)"
    and "no_null_variant key (rewrite_variants key ms)"
    and "variants_ok other ms \<Longrightarrow> variants_ok other (rewrite_variants key ms)"
    and "no_null_variant other ms \<Longrightarrow> no_null_variant other (rewrite_variants key ms)"
proof -
  let ?new = "rewrite_variants key ms"
  let ?rest = "obj_remove key ms"
  have d: "distinct (List.map fst ms)" using r by (simp add: readable_def)
  have "readable ?new \<and> no_null_variant key ?new
    \<and> (variants_ok other ms \<longrightarrow> variants_ok other ?new)
    \<and> (no_null_variant other ms \<longrightarrow> no_null_variant other ?new)"
  proof (cases "map_of ms key")
    case None
    then have "?new = ms" by (simp add: rewrite_variants_def)
    then show ?thesis using r None condition_absent(2) by (simp add: map_of_eq_None_iff)
  next
    case (Some val)
    have mem: "(key, val) \<in> set ms" using Some by (rule map_of_SomeD)
    obtain vs where val: "val = JArr vs"
      using v mem by (cases val) (auto simp: variants_ok_def)
    have vs: "emitted (JArr vs)" using r mem val by (auto simp: readable_def)
    have rrest: "readable ?rest" using r by (rule readable_remove)
    have krest: "key \<notin> fst ` set ?rest" using obj_remove_distinct(2) [OF d] by auto
    have orest: "variants_ok other ms \<Longrightarrow> variants_ok other ?rest"
      "no_null_variant other ms \<Longrightarrow> no_null_variant other ?rest"
      using condition_subset [OF set_obj_remove] by blast+
    have put: "readable (obj_insert key (JArr ws) ?rest) \<and> no_null_variant key (obj_insert key (JArr ws) ?rest)
        \<and> (variants_ok other ms \<longrightarrow> variants_ok other (obj_insert key (JArr ws) ?rest))
        \<and> (no_null_variant other ms \<longrightarrow> no_null_variant other (obj_insert key (JArr ws) ?rest))"
      if "emitted (JArr ws)" "\<not> list_ex is_null_schema ws" for ws
    proof -
      have "readable (obj_insert key (JArr ws) ?rest)"
        using rrest that(1) key by (intro readable_insert) auto
      moreover have "no_null_variant key ((key, JArr ws) # ?rest)"
        using krest that(2) by (auto simp: no_null_variant_def)
      ultimately show ?thesis
        using orest ne condition_subset [OF insert_subset_Cons [of key "JArr ws" ?rest]]
        by (simp add: condition_Cons)
    qed
    show ?thesis
    proof (cases "list_ex is_null_schema vs")
      case False
      then have "?new = obj_insert key (JArr vs) ?rest"
        by (simp add: rewrite_variants_def Some val Let_def)
      then show ?thesis using put [OF vs False] by simp
    next
      case True
      let ?non_null = "filter (\<lambda>v. \<not> is_null_schema v) vs"
      define ms' where "ms' = (case ?non_null of
                      [] \<Rightarrow> ?rest
                    | [x] \<Rightarrow> (case as_object x of Some inner \<Rightarrow> insert_all inner ?rest | None \<Rightarrow> ?rest)
                    | non_null \<Rightarrow> obj_insert key (JArr non_null) ?rest)"
      have new: "?new = obj_insert ''nullable'' (JBool True) ms'"
        using True by (simp add: rewrite_variants_def Some val Let_def ms'_def)
      have keep: "readable ?rest \<and> no_null_variant key ?rest
          \<and> (variants_ok other ms \<longrightarrow> variants_ok other ?rest)
          \<and> (no_null_variant other ms \<longrightarrow> no_null_variant other ?rest)"
        using rrest orest condition_absent(2) [OF krest] by blast
      have "readable ms' \<and> no_null_variant key ms'
          \<and> (variants_ok other ms \<longrightarrow> variants_ok other ms')
          \<and> (no_null_variant other ms \<longrightarrow> no_null_variant other ms')"
      proof (cases ?non_null)
        case Nil
        then show ?thesis using keep by (simp add: ms'_def)
      next
        case (Cons x xs)
        show ?thesis
        proof (cases xs)
          case Nil
          note single = Cons Nil
          then have eq: "ms' = (case as_object x of Some inner \<Rightarrow> insert_all inner ?rest | None \<Rightarrow> ?rest)"
            by (simp add: ms'_def Cons)
          have inl: "inlinable x"
            using v mem True single by (auto simp: variants_ok_def val)
          have "x \<in> set ?non_null" unfolding Cons by simp
          then have "x \<in> set vs" by simp
          then have ex: "emitted x" using vs by simp
          show ?thesis
          proof (cases x)
            case (JObj inner)
            have "no_type_array inner \<and> ''oneOf'' \<notin> fst ` set inner \<and> ''anyOf'' \<notin> fst ` set inner"
              using inl by (simp add: inlinable_def JObj)
            then have i: "no_type_array inner" "key \<notin> fst ` set inner" "other \<notin> fst ` set inner"
              using key other by metis+
            have "readable (insert_all inner ?rest)"
              using rrest i(1) ex by (intro readable_insert_all) (auto simp: JObj)
            moreover have "set (insert_all inner ?rest) \<subseteq> set (inner @ ?rest)"
              using set_insert_all by simp
            ultimately show ?thesis
              using keep condition_absent [OF i(2)] condition_absent [OF i(3)]
                condition_subset [of "insert_all inner ?rest" "inner @ ?rest"]
              by (simp add: eq JObj condition_append)
          qed (use keep eq in simp_all)
        next
          case (Cons y ys)
          then have "ms' = obj_insert key (JArr ?non_null) ?rest"
            by (simp add: ms'_def \<open>?non_null = x # xs\<close>)
          moreover have "emitted (JArr ?non_null)" using vs by simp
          moreover have "\<not> list_ex is_null_schema ?non_null" by (auto simp: list_ex_iff)
          ultimately show ?thesis using put by metis
        qed
      qed
      then show ?thesis
        using readable_insert [of ms' "JBool True" "''nullable''"] key other
          condition_subset [OF insert_subset_Cons [of "''nullable''" "JBool True" ms']]
        by (auto simp: new condition_Cons)
    qed
  qed
  then show "readable ?new" "no_null_variant key ?new"
    "variants_ok other ms \<Longrightarrow> variants_ok other ?new"
    "no_null_variant other ms \<Longrightarrow> no_null_variant other ?new" by auto
qed

text \<open>A variant does not become a null schema.\<close>

lemma rewrite_type_not_null:
  assumes "rewrite_type ms = [(''type'', JStr ''null'')]" and "distinct (List.map fst ms)"
  shows "ms = [(''type'', JStr ''null'')]"
proof (rule ccontr)
  assume ne: "ms \<noteq> [(''type'', JStr ''null'')]"
  then obtain ts where ts: "map_of ms ''type'' = Some (JArr ts)"
    using assms(1) by (auto simp: rewrite_type_def split: option.splits json.splits)
  have set: "set (rewrite_type ms) = {(''type'', JStr ''null'')}" using assms(1) by simp
  note rest = obj_remove_distinct [OF assms(2), of "''type''"]
  consider (none) "type_names ts = []" | (one) t where "type_names ts = [t]"
    | (many) t t' names where "type_names ts = t # t' # names"
    by (cases "type_names ts" rule: remdups_adj.cases) auto
  then show False
  proof cases
    case none
    then have "set (rewrite_type ms) \<subseteq> insert (''nullable'', JBool True) (set (obj_remove ''type'' ms))"
      using set_obj_insert by (auto simp: rewrite_type_def ts Let_def or_insert_def)
    then show False using set rest(2) by auto
  next
    case one
    have "t \<in> set (type_names ts)" using one by simp
    then have "t \<noteq> ''null''" by (simp add: type_names_def)
    moreover have "set (rewrite_type ms)
        \<subseteq> insert (''nullable'', JBool True) (set (obj_insert ''type'' (JStr t) ms))"
      using set_obj_insert by (auto simp: rewrite_type_def ts Let_def or_insert_def one)
    ultimately show False using set by (auto simp: set_obj_insert_distinct [OF assms(2)])
  next
    case many
    then have "set (rewrite_type ms) \<subseteq> insert (''nullable'', JBool True)
        (set (obj_insert ''oneOf'' (JArr (List.map (\<lambda>t. JObj [(''type'', JStr t)]) (type_names ts)))
          (obj_remove ''type'' ms)))"
      using set_obj_insert by (auto simp: rewrite_type_def ts Let_def or_insert_def)
    then show False using set rest by (auto simp: set_obj_insert_distinct)
  qed
qed

lemma rewrite_variants_not_null:
  assumes "rewrite_variants key ms = [(''type'', JStr ''null'')]"
    and "variants_ok key ms" and "key \<noteq> ''type''"
  shows "ms = [(''type'', JStr ''null'')]"
proof (cases "map_of ms key")
  case None
  then show ?thesis using assms(1) by (simp add: rewrite_variants_def)
next
  case (Some v)
  then have "(key, v) \<in> set ms" by (rule map_of_SomeD)
  then obtain vs where v: "v = JArr vs"
    using assms(2) by (cases v) (auto simp: variants_ok_def)
  have put: "k \<in> fst ` set (obj_insert k w xs)" for k w xs by (simp add: keys_obj_insert)
  have "key \<in> fst ` set (rewrite_variants key ms) \<or> ''nullable'' \<in> fst ` set (rewrite_variants key ms)"
    by (simp add: rewrite_variants_def Some v Let_def put keys_obj_insert)
  then show ?thesis using assms(1,3) by simp
qed

lemma rewrite_schema_not_null:
  assumes "emitted (JObj ms)" and "rewrite_schema ms = [(''type'', JStr ''null'')]"
  shows "ms = [(''type'', JStr ''null'')]"
proof -
  have t: "readable (rewrite_type ms)" "variants_ok ''oneOf'' (rewrite_type ms)"
      "variants_ok ''anyOf'' (rewrite_type ms)"
    using rewrite_type_ok [of ms] assms(1) by auto
  have a: "variants_ok ''anyOf'' (rewrite_variants ''oneOf'' (rewrite_type ms))"
    by (rule rewrite_variants_ok(3) [OF t(1,2) _ _ _ t(3)]) simp_all
  have "rewrite_variants ''oneOf'' (rewrite_type ms) = [(''type'', JStr ''null'')]"
    by (rule rewrite_variants_not_null [OF assms(2) [unfolded rewrite_schema_def] a]) simp
  then have "rewrite_type ms = [(''type'', JStr ''null'')]"
    by (rule rewrite_variants_not_null [OF _ t(2)]) simp
  moreover have "distinct (List.map fst ms)" using assms(1) by simp
  ultimately show ?thesis by (rule rewrite_type_not_null)
qed

lemma rewrite_schema_ok:
  assumes "emitted (JObj ms)"
  shows "readable (rewrite_schema ms)" "no_null_variant ''oneOf'' (rewrite_schema ms)"
    "no_null_variant ''anyOf'' (rewrite_schema ms)"
proof -
  have t: "readable (rewrite_type ms)" "variants_ok ''oneOf'' (rewrite_type ms)"
      "variants_ok ''anyOf'' (rewrite_type ms)"
    using rewrite_type_ok [of ms] assms by auto
  have o: "readable (rewrite_variants ''oneOf'' (rewrite_type ms))"
      "no_null_variant ''oneOf'' (rewrite_variants ''oneOf'' (rewrite_type ms))"
      "variants_ok ''anyOf'' (rewrite_variants ''oneOf'' (rewrite_type ms))"
    using rewrite_variants_ok [OF t(1,2), of "''anyOf''"] t(3) by simp_all
  have a: "readable (rewrite_schema ms)" "no_null_variant ''anyOf'' (rewrite_schema ms)"
      "no_null_variant ''oneOf'' (rewrite_schema ms)"
    using rewrite_variants_ok [OF o(1,3), of "''oneOf''"] o(2) by (simp_all add: rewrite_schema_def)
  show "readable (rewrite_schema ms)" "no_null_variant ''oneOf'' (rewrite_schema ms)"
    "no_null_variant ''anyOf'' (rewrite_schema ms)"
    by (fact a)+
qed

lemma normalize_JStr_iff: "normalize_nullable_types v = JStr s \<longleftrightarrow> v = JStr s"
  by (cases v) simp_all

lemma normalize_as_array:
  "as_array (normalize_nullable_types v) = map_option (List.map normalize_nullable_types) (as_array v)"
  by (cases v) simp_all

lemma normalize_null_schema:
  assumes "emitted v"
  shows "is_null_schema (normalize_nullable_types v) \<Longrightarrow> is_null_schema v"
proof (cases v)
  case (JObj ms)
  assume "is_null_schema (normalize_nullable_types v)"
  then have "List.map (\<lambda>(k, v). (k, normalize_nullable_types v)) (rewrite_schema ms)
      = [(''type'', JStr ''null'')]"
    by (simp add: is_null_schema_def JObj)
  then have "rewrite_schema ms = [(''type'', JStr ''null'')]"
    by (auto simp: map_eq_Cons_conv normalize_JStr_iff split_def intro: prod_eqI)
  then show ?thesis
    using rewrite_schema_not_null assms by (simp add: JObj is_null_schema_def)
qed (simp_all add: is_null_schema_def)

text \<open>The prepared document is one a reader of OpenAPI 3.0 understands. The rewriting ends on every JSON
  value, and of every document whose variants are as the server emits them it leaves no object with an
  array of types and none with a null schema among its variants, at any depth.\<close>

lemma normalized_is_openapi30:
  assumes "emitted v"
  shows "openapi30 (normalize_nullable_types v)"
  using assms
proof (induction v rule: normalize_nullable_types.induct)
  case (1 xs)
  then show ?case by simp
next
  case (2 ms)
  note ok = rewrite_schema_ok [OF 2(2)]
  let ?new = "List.map (\<lambda>(k, v). (k, normalize_nullable_types v)) (rewrite_schema ms)"
  have em: "emitted (snd m)" if "m \<in> set (rewrite_schema ms)" for m
    using that ok(1) by (auto simp: readable_def)
  have "no_type_array ?new"
    using ok(1) by (auto simp: readable_def no_type_array_def normalize_as_array)
  moreover have "no_null_variant key ?new" if nn: "no_null_variant key (rewrite_schema ms)" for key
    unfolding no_null_variant_def
  proof (intro ballI impI)
    fix m assume "m \<in> set ?new" "fst m = key"
    then obtain v where v: "(key, v) \<in> set (rewrite_schema ms)" "snd m = normalize_nullable_types v" by auto
    then obtain vs where vs: "v = JArr vs" "\<not> list_ex is_null_schema vs"
      using nn by (cases v) (auto simp: no_null_variant_def)
    have "emitted (JArr vs)" using em v(1) vs(1) by force
    then have "\<not> list_ex is_null_schema (List.map normalize_nullable_types vs)"
      using vs(2) normalize_null_schema by (auto simp: list_ex_iff)
    then show "case as_array (snd m) of None \<Rightarrow> False | Some vs \<Rightarrow> \<not> list_ex is_null_schema vs"
      by (simp add: v(2) vs(1))
  qed
  moreover have "openapi30 (normalize_nullable_types v)" if "(k, v) \<in> set (rewrite_schema ms)" for k v
    using 2(1) [OF that refl] em [OF that] by simp
  ultimately show ?case using ok(2,3) by auto
qed simp_all

section \<open>One answer per operation\<close>

definition response_has_content :: "json option \<Rightarrow> bool" where
  "response_has_content r =
     (case r of
        Some (JObj ms) \<Rightarrow> (case map_of ms ''content'' of Some (JObj c) \<Rightarrow> c \<noteq> [] | _ \<Rightarrow> False)
      | _ \<Rightarrow> False)"

definition preferred_statuses :: "string list" where
  "preferred_statuses = [''200'', ''201'', ''202'', ''204'', ''206'', ''207'']"

definition keep_key :: "(string \<times> json) list \<Rightarrow> string option" where
  "keep_key responses =
     (case find (\<lambda>k. response_has_content (map_of responses k)) preferred_statuses of
        Some k \<Rightarrow> Some k
      | None \<Rightarrow> map_option fst (find (\<lambda>m. response_has_content (Some (snd m))) responses))"

definition trim_content :: "json \<Rightarrow> json" where
  "trim_content r =
     (case as_object r of
        Some ms \<Rightarrow>
          (case map_of ms ''content'' of
             Some (JObj c) \<Rightarrow>
               if 1 < length c then
                 (case map_of c ''application/json'' of
                    Some v \<Rightarrow> JObj (obj_insert ''content'' (JObj [(''application/json'', v)]) ms)
                  | None \<Rightarrow> JObj (obj_insert ''content'' (JObj [hd c]) ms))
               else r
           | _ \<Rightarrow> r)
      | None \<Rightarrow> r)"

definition keep_response :: "(string \<times> json) list \<Rightarrow> (string \<times> json) list" where
  "keep_response responses =
     (case keep_key responses of
        None \<Rightarrow> responses
      | Some k \<Rightarrow>
          (case map_of responses k of
             Some r \<Rightarrow> [(k, trim_content r)]
           | None \<Rightarrow> responses))"

definition rewrite_responses :: "(string \<times> json) list \<Rightarrow> (string \<times> json) list" where
  "rewrite_responses ms =
     (case map_of ms ''responses'' of
        Some (JObj responses) \<Rightarrow> obj_insert ''responses'' (JObj (keep_response responses)) ms
      | _ \<Rightarrow> ms)"

lemma map_of_weight: "map_of ms k = Some v \<Longrightarrow> member_weight (k, v) \<le> members_weight ms"
  by (simp only: members_weight_remove)

lemma trim_content_weight: "weight (trim_content r) \<le> weight r"
proof (cases "\<exists>ms c. r = JObj ms \<and> map_of ms ''content'' = Some (JObj c) \<and> 1 < length c")
  case True
  then obtain ms c where r: "r = JObj ms" "map_of ms ''content'' = Some (JObj c)" "1 < length c" by blast
  have "members_weight (obj_insert ''content'' (JObj [m]) ms) \<le> members_weight ms" if "m \<in> set c" for m
  proof -
    have "member_weight m \<le> members_weight c" using that by (intro member_le_sum_list) auto
    then show ?thesis using members_weight_replace [OF r(2), of "JObj [m]"] by simp
  qed
  moreover have "(''application/json'', v) \<in> set c" if "map_of c ''application/json'' = Some v" for v
    using that by (rule map_of_SomeD)
  moreover have "hd c \<in> set c" using r(3) by (cases c) auto
  ultimately show ?thesis using r by (auto simp: trim_content_def split: option.split)
next
  case False
  then have "trim_content r = r"
    by (cases r) (auto simp: trim_content_def split: option.split json.split)
  then show ?thesis by simp
qed

lemma keep_response_weight: "members_weight (keep_response rs) \<le> members_weight rs"
proof (cases "\<exists>k r. keep_key rs = Some k \<and> map_of rs k = Some r")
  case True
  then obtain k r where kr: "keep_key rs = Some k" "map_of rs k = Some r" by blast
  show ?thesis
  proof (cases "as_array r")
    case None
    have "member_weight (k, trim_content r) = weight (trim_content r)"
      using None by (cases r) (auto simp: trim_content_def split: option.split json.split)
    also have "\<dots> \<le> weight r" by (rule trim_content_weight)
    also have "\<dots> \<le> member_weight (k, r)" by (rule weight_le_member)
    also have "\<dots> \<le> members_weight rs" by (rule map_of_weight [OF kr(2)])
    finally show ?thesis by (simp add: keep_response_def kr del: member_weight.simps)
  next
    case (Some xs)
    then have "trim_content r = r" by (cases r) (auto simp: trim_content_def)
    then show ?thesis
      using map_of_weight [OF kr(2)] by (simp add: keep_response_def kr del: member_weight.simps)
  qed
next
  case False
  then show ?thesis by (auto simp: keep_response_def split: option.split)
qed

lemma rewrite_responses_weight: "members_weight (rewrite_responses ms) \<le> members_weight ms"
proof (cases "\<exists>rs. map_of ms ''responses'' = Some (JObj rs)")
  case True
  then obtain rs where rs: "map_of ms ''responses'' = Some (JObj rs)" by blast
  then show ?thesis
    using members_weight_replace [OF rs, of "JObj (keep_response rs)"] keep_response_weight [of rs]
    by (simp add: rewrite_responses_def)
next
  case False
  then have "rewrite_responses ms = ms"
    by (auto simp: rewrite_responses_def split: option.split json.split)
  then show ?thesis by simp
qed

function normalize_response_content :: "json \<Rightarrow> json" where
  "normalize_response_content (JArr xs) = JArr (List.map normalize_response_content xs)"
| "normalize_response_content (JObj ms) =
     JObj (List.map (\<lambda>(k, v). (k, normalize_response_content v)) (rewrite_responses ms))"
| "normalize_response_content JNull = JNull"
| "normalize_response_content (JBool b) = JBool b"
| "normalize_response_content (JNum n) = JNum n"
| "normalize_response_content (JStr s) = JStr s"
  by pat_completeness auto

termination
proof (relation "measure weight")
  show "(x, JArr xs) \<in> measure weight" if "x \<in> set xs" for x xs
    using element_weight [OF that] by simp
  show "(v, JObj ms) \<in> measure weight" if "m \<in> set (rewrite_responses ms)" "(k, v) = m" for ms m k v
    using value_weight [of k v "rewrite_responses ms"] rewrite_responses_weight [of ms] that by simp
qed simp

text \<open>The document the generator reads.\<close>

definition prepared_document :: "json \<Rightarrow> json" where
  "prepared_document v =
     normalize_response_content (normalize_nullable_types (normalize_openapi_version v))"

section \<open>What is kept\<close>

definition content_types :: "json \<Rightarrow> nat" where
  "content_types r = (case json_get ''content'' r of Some (JObj c) \<Rightarrow> length c | _ \<Rightarrow> 0)"

text \<open>An object of responses either has no content at all, or is one response with one media type.\<close>

definition one_answer :: "(string \<times> json) list \<Rightarrow> bool" where
  "one_answer rs \<longleftrightarrow>
     list_all (\<lambda>m. \<not> response_has_content (Some (snd m))) rs
     \<or> (\<exists>k r. rs = [(k, r)] \<and> content_types r = 1)"

fun single_answers :: "json \<Rightarrow> bool" where
  "single_answers (JArr xs) = (\<forall>x\<in>set xs. single_answers x)"
| "single_answers (JObj ms) =
     ((case map_of ms ''responses'' of Some (JObj rs) \<Rightarrow> one_answer rs | _ \<Rightarrow> True)
      \<and> (\<forall>m\<in>set ms. single_answers (snd m)))"
| "single_answers _ = True"

lemma response_has_content_iff: "response_has_content (Some r) \<longleftrightarrow> 0 < content_types r"
  by (cases r) (auto simp: response_has_content_def content_types_def json_get_def
      split: option.splits json.splits)

lemma keep_key_None:
  "keep_key rs = None \<Longrightarrow> list_all (\<lambda>m. \<not> response_has_content (Some (snd m))) rs"
  unfolding keep_key_def
  by (auto split: option.splits simp: find_None_iff2 list_all_iff)

lemma keep_key_Some:
  assumes "keep_key rs = Some k" and "distinct (List.map fst rs)"
  obtains r where "map_of rs k = Some r" "response_has_content (Some r)"
proof (cases "find (\<lambda>k. response_has_content (map_of rs k)) preferred_statuses")
  case (Some p)
  then have "response_has_content (map_of rs k)"
    using assms(1) find_Some_iff2 [OF Some] by (simp add: keep_key_def)
  then show thesis using that by (cases "map_of rs k") (auto simp: response_has_content_def)
next
  case None
  then obtain m where m: "find (\<lambda>m. response_has_content (Some (snd m))) rs = Some m" "fst m = k"
    using assms(1) by (auto simp: keep_key_def)
  have "response_has_content (Some (snd m))" "m \<in> set rs" using find_Some_iff2 [OF m(1)] by auto
  moreover have "map_of rs k = Some (snd m)"
    using \<open>m \<in> set rs\<close> m(2) assms(2) by (metis map_of_is_SomeI prod.collapse)
  ultimately show thesis using that by blast
qed

lemma length_one: "c \<noteq> [] \<Longrightarrow> \<not> Suc 0 < length c \<Longrightarrow> length c = Suc 0"
  by (cases c) auto

lemma trim_content_one: "response_has_content (Some r) \<Longrightarrow> content_types (trim_content r) = 1"
  by (cases r)
     (auto simp: response_has_content_def content_types_def trim_content_def json_get_def
        split: option.splits json.splits intro: length_one)

lemma keep_response_one: "distinct (List.map fst rs) \<Longrightarrow> one_answer (keep_response rs)"
proof (cases "keep_key rs")
  case None
  then show ?thesis using keep_key_None by (simp add: keep_response_def one_answer_def)
next
  case (Some k)
  assume "distinct (List.map fst rs)"
  then obtain r where "map_of rs k = Some r" "response_has_content (Some r)"
    using keep_key_Some [OF Some] by blast
  then show ?thesis
    using trim_content_one by (simp add: keep_response_def Some one_answer_def)
qed

text \<open>The deeper rewriting does not change how many media types a response has.\<close>

lemma map_of_map_values: "map_of (List.map (\<lambda>(k, v). (k, f v)) ms) k = map_option f (map_of ms k)"
  by (induction ms) auto

lemma length_obj_insert_present: "map_of ms k = Some v \<Longrightarrow> length (obj_insert k w ms) = length ms"
  by (induction k w ms rule: obj_insert.induct) (auto split: if_splits)

lemma length_rewrite_responses: "length (rewrite_responses ms) = length ms"
  by (auto simp: rewrite_responses_def length_obj_insert_present split: option.split json.split)

lemma rewrite_responses_other: "k \<noteq> ''responses'' \<Longrightarrow> map_of (rewrite_responses ms) k = map_of ms k"
  by (auto simp: rewrite_responses_def split: option.split json.split)

lemma content_types_normalize: "content_types (normalize_response_content r) = content_types r"
proof (cases r)
  case (JObj ms)
  show ?thesis
  proof (cases "map_of ms ''content''")
    case (Some c)
    then show ?thesis
      by (cases c) (simp_all add: JObj content_types_def map_of_map_values rewrite_responses_other
          length_rewrite_responses)
  qed (simp add: JObj content_types_def map_of_map_values rewrite_responses_other)
qed (simp_all add: content_types_def json_get_def)

lemma one_answer_normalize:
  "one_answer rs \<Longrightarrow> one_answer (List.map (\<lambda>(k, v). (k, normalize_response_content v)) rs)"
  by (auto simp: one_answer_def response_has_content_iff content_types_normalize list_all_iff split_def)

text \<open>Names are distinct, and no status is called like a keyword of schemas.\<close>

definition schema_keywords :: "string list" where
  "schema_keywords = [''responses'', ''type'', ''oneOf'', ''anyOf'']"

definition status_names :: "json \<Rightarrow> bool" where
  "status_names v =
     (case as_object v of None \<Rightarrow> True | Some rs \<Rightarrow> list_all (\<lambda>m. fst m \<notin> set schema_keywords) rs)"

fun document_ok :: "json \<Rightarrow> bool" where
  "document_ok (JArr xs) = (\<forall>x\<in>set xs. document_ok x)"
| "document_ok (JObj ms) =
     (distinct (List.map fst ms)
      \<and> (\<forall>m\<in>set ms. document_ok (snd m) \<and> (fst m = ''responses'' \<longrightarrow> status_names (snd m))))"
| "document_ok _ = True"

lemma document_ok_member:
  "document_ok (JObj ms) \<Longrightarrow> map_of ms k = Some v \<Longrightarrow>
    document_ok v \<and> (k = ''responses'' \<longrightarrow> status_names v)"
  by (fastforce dest: map_of_SomeD)

lemma document_ok_single:
  "document_ok (JObj c) \<Longrightarrow> m \<in> set c \<Longrightarrow> document_ok (JObj [m])"
  by simp

lemma document_ok_insert:
  assumes "document_ok (JObj ms)" and "document_ok v" and "k = ''responses'' \<Longrightarrow> status_names v"
  shows "document_ok (JObj (obj_insert k v ms))"
  using assms by (auto simp: set_obj_insert_distinct)

lemma document_ok_trim: "document_ok r \<Longrightarrow> document_ok (trim_content r)"
proof (cases "\<exists>ms c. r = JObj ms \<and> map_of ms ''content'' = Some (JObj c) \<and> 1 < length c")
  case True
  then obtain ms c where r: "r = JObj ms" "map_of ms ''content'' = Some (JObj c)" "1 < length c" by blast
  assume d: "document_ok r"
  have c: "document_ok (JObj c)" using document_ok_member d r(1,2) by blast
  have ins: "document_ok (JObj (obj_insert ''content'' (JObj [m]) ms))" if "m \<in> set c" for m
    using d r(1) document_ok_single [OF c that] by (intro document_ok_insert) auto
  have "hd c \<in> set c" using r(3) by (cases c) auto
  then show ?thesis
    using r ins by (auto simp: trim_content_def simp del: document_ok.simps split: option.split dest: map_of_SomeD)
next
  case False
  assume "document_ok r"
  moreover have "trim_content r = r"
    using False by (cases r) (auto simp: trim_content_def split: option.split json.split)
  ultimately show ?thesis by simp
qed

lemma keep_response_cases:
  obtains "keep_response rs = rs"
  | k r where "map_of rs k = Some r" "keep_response rs = [(k, trim_content r)]"
  by (cases "keep_key rs"; cases "map_of rs (the (keep_key rs))") (auto simp: keep_response_def)

lemma document_ok_keep:
  assumes "document_ok (JObj rs)" and "status_names (JObj rs)"
  shows "document_ok (JObj (keep_response rs)) \<and> status_names (JObj (keep_response rs))"
proof (cases rule: keep_response_cases [of rs])
  case 1
  then show ?thesis using assms by simp
next
  case (2 k r)
  have "k \<notin> set schema_keywords" using assms(2) map_of_SomeD [OF 2(1)] by (force simp: status_names_def list_all_iff)
  then show ?thesis
    using 2 document_ok_trim document_ok_member [OF assms(1) 2(1)] by (auto simp: status_names_def schema_keywords_def)
qed

lemma document_ok_rewrite:
  assumes "document_ok (JObj ms)"
  shows "document_ok (JObj (rewrite_responses ms))"
proof (cases "\<exists>rs. map_of ms ''responses'' = Some (JObj rs)")
  case True
  then obtain rs where rs: "map_of ms ''responses'' = Some (JObj rs)" by blast
  have "document_ok (JObj (keep_response rs)) \<and> status_names (JObj (keep_response rs))"
    using document_ok_member [OF assms rs] document_ok_keep by blast
  then have "document_ok (JObj (obj_insert ''responses'' (JObj (keep_response rs)) ms))"
    using assms by (intro document_ok_insert) auto
  then show ?thesis by (simp only: rewrite_responses_def rs option.case json.case)
next
  case False
  then have "rewrite_responses ms = ms"
    by (auto simp: rewrite_responses_def split: option.split json.split)
  then show ?thesis using assms by simp
qed

lemma status_names_absent:
  "status_names (JObj rs) \<Longrightarrow> k \<in> set schema_keywords \<Longrightarrow> map_of rs k = None"
  by (auto simp: status_names_def list_all_iff map_of_eq_None_iff)

lemma single_answers_normalize: "document_ok v \<Longrightarrow> single_answers (normalize_response_content v)"
proof (induction v rule: normalize_response_content.induct)
  case (2 ms)
  note d = document_ok_rewrite [OF 2(2)]
  have deep: "single_answers (normalize_response_content v)" if "(k, v) \<in> set (rewrite_responses ms)" for k v
    using 2(1) [OF that refl] d that by fastforce
  have "case map_of (List.map (\<lambda>(k, v). (k, normalize_response_content v)) (rewrite_responses ms)) ''responses''
      of Some (JObj rs) \<Rightarrow> one_answer rs | _ \<Rightarrow> True"
  proof (cases "map_of ms ''responses''")
    case (Some r)
    show ?thesis
    proof (cases r)
      case (JObj rs)
      have rs: "document_ok (JObj rs)" "status_names (JObj rs)"
        using document_ok_member [OF 2(2) Some] by (simp_all add: JObj)
      have now: "map_of (rewrite_responses ms) ''responses'' = Some (JObj (keep_response rs))"
        by (simp add: rewrite_responses_def Some JObj)
      have "map_of (keep_response rs) ''responses'' = None"
        using document_ok_keep [OF rs] by (intro status_names_absent) (simp_all add: schema_keywords_def)
      then have "rewrite_responses (keep_response rs) = keep_response rs"
        by (simp add: rewrite_responses_def)
      moreover have "one_answer (keep_response rs)" using keep_response_one rs(1) by simp
      ultimately show ?thesis using now one_answer_normalize by (simp add: map_of_map_values)
    qed (simp_all add: map_of_map_values rewrite_responses_def Some)
  qed (simp add: map_of_map_values rewrite_responses_def)
  then show ?case using deep by auto
qed simp_all

text \<open>The rewriting of the types keeps the names.\<close>

lemma document_ok_subset:
  assumes "document_ok (JObj ms)" and "set ms' \<subseteq> set ms" and "distinct (List.map fst ms')"
  shows "document_ok (JObj ms')"
  using assms by auto

lemma document_ok_remove: "document_ok (JObj ms) \<Longrightarrow> document_ok (JObj (obj_remove k ms))"
  by (rule document_ok_subset [OF _ set_obj_remove]) (simp_all add: obj_remove_distinct(1))

lemma document_ok_type: "document_ok (JObj ms) \<Longrightarrow> document_ok (JObj (rewrite_type ms))"
proof -
  assume d: "document_ok (JObj ms)"
  have objs: "document_ok (JObj [(''type'', JStr t)])" for t by simp
  show ?thesis
    using d document_ok_remove [OF d] objs
    by (auto simp: rewrite_type_def Let_def or_insert_def simp del: document_ok.simps(2)
        intro!: document_ok_insert split: option.splits json.splits list.splits)
qed

lemma document_ok_insert_all:
  "document_ok (JObj ms) \<Longrightarrow> document_ok (JObj inner) \<Longrightarrow> document_ok (JObj (insert_all inner ms))"
  using set_insert_all [of inner ms] distinct_insert_all [of ms inner] by fastforce

lemma document_ok_variants: "document_ok (JObj ms) \<Longrightarrow> key \<noteq> ''responses'' \<Longrightarrow> document_ok (JObj (rewrite_variants key ms))"
proof -
  assume d: "document_ok (JObj ms)" and key: "key \<noteq> ''responses''"
  show ?thesis
  proof (cases "map_of ms key")
    case (Some v)
    note rest = document_ok_remove [OF d, of key]
    show ?thesis
    proof (cases v)
      case (JArr vs)
      have vs: "document_ok (JArr vs)" using document_ok_member [OF d Some] by (simp add: JArr)
      let ?non_null = "filter (\<lambda>v. \<not> is_null_schema v) vs"
      have nn: "document_ok x" if "x \<in> set ?non_null" for x using vs that by simp
      have "document_ok (JObj (case ?non_null of
                      [] \<Rightarrow> obj_remove key ms
                    | [x] \<Rightarrow> (case as_object x of Some inner \<Rightarrow> insert_all inner (obj_remove key ms)
                             | None \<Rightarrow> obj_remove key ms)
                    | non_null \<Rightarrow> obj_insert key (JArr non_null) (obj_remove key ms)))"
      proof (cases ?non_null)
        case (Cons x xs)
        have "document_ok x" using nn Cons by (metis list.set_intros(1))
        moreover have "document_ok (JArr ?non_null)" using vs by simp
        ultimately show ?thesis
          using rest key unfolding Cons
          by (cases x; cases xs)
             (auto simp del: document_ok.simps(2) intro!: document_ok_insert document_ok_insert_all)
      qed (use rest in simp)
      then show ?thesis
        using rest vs key
        by (auto simp: rewrite_variants_def Some JArr Let_def simp del: document_ok.simps(2)
            intro!: document_ok_insert)
    qed (use rest in \<open>simp_all add: rewrite_variants_def Some Let_def\<close>)
  qed (use d in \<open>simp add: rewrite_variants_def\<close>)
qed

lemma document_ok_schema: "document_ok (JObj ms) \<Longrightarrow> document_ok (JObj (rewrite_schema ms))"
  unfolding rewrite_schema_def by (intro document_ok_variants document_ok_type) simp_all

lemma status_names_normalize: "status_names v \<Longrightarrow> status_names (normalize_nullable_types v)"
proof (cases v)
  case (JObj rs)
  assume s: "status_names v"
  have "map_of rs k = None" if "k \<in> set schema_keywords" for k
    using s that status_names_absent by (simp add: JObj)
  then have "rewrite_schema rs = rs"
    by (simp add: rewrite_schema_def rewrite_type_def rewrite_variants_def schema_keywords_def)
  then show ?thesis using s by (auto simp: JObj status_names_def list_all_iff)
qed (simp_all add: status_names_def)

lemma document_ok_normalize: "document_ok v \<Longrightarrow> document_ok (normalize_nullable_types v)"
proof (induction v rule: normalize_nullable_types.induct)
  case (2 ms)
  note d = document_ok_schema [OF 2(2)]
  have "document_ok (normalize_nullable_types v)" if "(k, v) \<in> set (rewrite_schema ms)" for k v
    using 2(1) [OF that refl] d that by fastforce
  moreover have "List.map fst (List.map (\<lambda>(k, v). (k, normalize_nullable_types v)) (rewrite_schema ms))
      = List.map fst (rewrite_schema ms)"
    by (simp add: o_def split_def)
  ultimately show ?case
    using d status_names_normalize by (fastforce simp del: map_map)
qed simp_all

lemma document_ok_version: "document_ok (JObj ms) \<Longrightarrow> document_ok (normalize_openapi_version (JObj ms))"
  by (simp del: document_ok.simps) (intro document_ok_remove document_ok_insert, simp_all)

text \<open>The preferred answer is the first 2xx with content of the list, if there is one.\<close>

lemma keep_key_preferred:
  assumes "find (\<lambda>k. response_has_content (map_of rs k)) preferred_statuses = Some k"
  shows "keep_key rs = Some k"
  by (simp add: keep_key_def assms)

text \<open>Trimming the answers keeps the document readable as 3.0.\<close>

lemma openapi30_members:
  "openapi30 (JObj ms) \<Longrightarrow> m \<in> set ms \<Longrightarrow> openapi30 (snd m)
    \<and> (fst m = ''type'' \<longrightarrow> as_array (snd m) = None)
    \<and> (fst m = ''oneOf'' \<or> fst m = ''anyOf'' \<longrightarrow>
        (case as_array (snd m) of None \<Rightarrow> False | Some vs \<Rightarrow> \<not> list_ex is_null_schema vs))"
  by (auto simp: no_type_array_def no_null_variant_def)

lemma openapi30_intro:
  assumes "\<And>m. m \<in> set ms \<Longrightarrow> openapi30 (snd m)
    \<and> (fst m = ''type'' \<longrightarrow> as_array (snd m) = None)
    \<and> (fst m = ''oneOf'' \<or> fst m = ''anyOf'' \<longrightarrow>
        (case as_array (snd m) of None \<Rightarrow> False | Some vs \<Rightarrow> \<not> list_ex is_null_schema vs))"
  shows "openapi30 (JObj ms)"
  using assms by (simp add: no_type_array_def no_null_variant_def)

lemma openapi30_insert:
  assumes "openapi30 (JObj ms)" and "openapi30 v" and "k \<noteq> ''oneOf''" "k \<noteq> ''anyOf''"
    and "k = ''type'' \<Longrightarrow> as_array v = None"
  shows "openapi30 (JObj (obj_insert k v ms))"
proof (rule openapi30_intro)
  fix m assume "m \<in> set (obj_insert k v ms)"
  then consider "m = (k, v)" | "m \<in> set ms" using set_obj_insert by blast
  then show "openapi30 (snd m)
    \<and> (fst m = ''type'' \<longrightarrow> as_array (snd m) = None)
    \<and> (fst m = ''oneOf'' \<or> fst m = ''anyOf'' \<longrightarrow>
        (case as_array (snd m) of None \<Rightarrow> False | Some vs \<Rightarrow> \<not> list_ex is_null_schema vs))"
    using assms openapi30_members [OF assms(1)] by cases auto
qed

lemma openapi30_subset:
  "openapi30 (JObj ms) \<Longrightarrow> set ms' \<subseteq> set ms \<Longrightarrow> openapi30 (JObj ms')"
  using openapi30_members by (intro openapi30_intro) blast

lemma openapi30_value: "openapi30 (JObj ms) \<Longrightarrow> map_of ms k = Some v \<Longrightarrow> openapi30 v"
  using openapi30_members by (fastforce dest: map_of_SomeD)

lemma openapi30_trim: "openapi30 r \<Longrightarrow> openapi30 (trim_content r)"
proof (cases "\<exists>ms c. r = JObj ms \<and> map_of ms ''content'' = Some (JObj c) \<and> 1 < length c")
  case True
  then obtain ms c where r: "r = JObj ms" "map_of ms ''content'' = Some (JObj c)" "1 < length c" by blast
  assume o: "openapi30 r"
  have c: "openapi30 (JObj c)" using openapi30_value o r(1,2) by blast
  have ins: "openapi30 (JObj (obj_insert ''content'' (JObj [m]) ms))" if "m \<in> set c" for m
    using o r(1) openapi30_subset [OF c, of "[m]"] that by (intro openapi30_insert) auto
  have "hd c \<in> set c" using r(3) by (cases c) auto
  then show ?thesis
    using r ins by (auto simp: trim_content_def simp del: openapi30.simps split: option.split dest: map_of_SomeD)
next
  case False
  assume "openapi30 r"
  moreover have "trim_content r = r"
    using False by (cases r) (auto simp: trim_content_def split: option.split json.split)
  ultimately show ?thesis by simp
qed

lemma trim_content_array: "as_array (trim_content r) = as_array r"
  by (cases r) (auto simp: trim_content_def split: option.split json.split)

lemma openapi30_keep: "openapi30 (JObj rs) \<Longrightarrow> openapi30 (JObj (keep_response rs))"
proof (cases rule: keep_response_cases [of rs])
  case 1
  assume "openapi30 (JObj rs)"
  then show ?thesis by (simp only: 1)
next
  case (2 k r)
  assume o: "openapi30 (JObj rs)"
  note m = openapi30_members [OF o map_of_SomeD [OF 2(1)]]
  have "trim_content r = r" if "as_array r \<noteq> None" using that by (cases r) (simp_all add: trim_content_def)
  then show ?thesis
    unfolding 2(2) using m openapi30_trim [of r]
    by (intro openapi30_intro) (auto simp: trim_content_array split: option.splits)
qed

lemma openapi30_rewrite: "openapi30 (JObj ms) \<Longrightarrow> openapi30 (JObj (rewrite_responses ms))"
proof (cases "\<exists>rs. map_of ms ''responses'' = Some (JObj rs)")
  case True
  then obtain rs where rs: "map_of ms ''responses'' = Some (JObj rs)" by blast
  assume o: "openapi30 (JObj ms)"
  have "openapi30 (JObj (obj_insert ''responses'' (JObj (keep_response rs)) ms))"
    using o openapi30_keep [OF openapi30_value [OF o rs]] by (intro openapi30_insert) auto
  then show ?thesis by (simp only: rewrite_responses_def rs option.case json.case)
next
  case False
  then have "rewrite_responses ms = ms"
    by (auto simp: rewrite_responses_def split: option.split json.split)
  then show "openapi30 (JObj ms) \<Longrightarrow> ?thesis" by simp
qed

lemma response_normalize_array:
  "as_array (normalize_response_content v) = map_option (List.map normalize_response_content) (as_array v)"
  by (cases v) simp_all

lemma response_null_schema: "is_null_schema (normalize_response_content v) \<longleftrightarrow> is_null_schema v"
proof (cases v)
  case (JObj ms)
  have str: "normalize_response_content w = JStr s \<longleftrightarrow> w = JStr s" for w s by (cases w) simp_all
  have "rewrite_responses ms = [(''type'', JStr ''null'')] \<longleftrightarrow> ms = [(''type'', JStr ''null'')]"
  proof
    assume r: "rewrite_responses ms = [(''type'', JStr ''null'')]"
    have "map_of (rewrite_responses ms) ''responses'' = None" by (simp add: r)
    then have "map_of ms ''responses'' = None"
      by (auto simp: rewrite_responses_def split: option.splits json.splits)
    then show "ms = [(''type'', JStr ''null'')]" using r by (simp add: rewrite_responses_def)
  qed (simp add: rewrite_responses_def)
  then show ?thesis
    by (auto simp: JObj is_null_schema_def map_eq_Cons_conv str split_def intro: prod_eqI)
qed (simp_all add: is_null_schema_def)

lemma openapi30_responses: "openapi30 v \<Longrightarrow> openapi30 (normalize_response_content v)"
proof (induction v rule: normalize_response_content.induct)
  case (2 ms)
  note o = openapi30_rewrite [OF 2(2)]
  show ?case
    unfolding normalize_response_content.simps
  proof (rule openapi30_intro)
    fix m assume "m \<in> set (List.map (\<lambda>(k, v). (k, normalize_response_content v)) (rewrite_responses ms))"
    then obtain k v where m: "(k, v) \<in> set (rewrite_responses ms)" "m = (k, normalize_response_content v)"
      by auto
    note kv = openapi30_members [OF o m(1)]
    have "openapi30 (normalize_response_content v)" using 2(1) [OF m(1) refl] kv by simp
    moreover have "\<not> list_ex is_null_schema (List.map normalize_response_content vs)"
      if "\<not> list_ex is_null_schema vs" for vs
      using that by (auto simp: list_ex_iff response_null_schema)
    ultimately show "openapi30 (snd m)
      \<and> (fst m = ''type'' \<longrightarrow> as_array (snd m) = None)
      \<and> (fst m = ''oneOf'' \<or> fst m = ''anyOf'' \<longrightarrow>
          (case as_array (snd m) of None \<Rightarrow> False | Some vs \<Rightarrow> \<not> list_ex is_null_schema vs))"
      using kv by (auto simp: m(2) response_normalize_array split: option.splits)
  qed
qed simp_all

lemma emitted_version: "emitted (JObj ms) \<Longrightarrow> emitted (normalize_openapi_version (JObj ms))"
proof -
  assume e: "emitted (JObj ms)"
  let ?v = "JStr ''3.0.3''"
  let ?new = "obj_remove ''jsonSchemaDialect'' (obj_insert ''openapi'' ?v ms)"
  have sub: "set ?new \<subseteq> set ((''openapi'', ?v) # ms)"
    using set_obj_remove insert_subset_Cons by blast
  have "variants_ok key ?new" if "variants_ok key ms" "key \<noteq> ''openapi''" for key
    using condition_subset(2) [OF sub] that by (simp add: condition_Cons(2))
  moreover have "distinct (List.map fst ?new)" using e by (intro obj_remove_distinct(1)) simp
  moreover have "\<forall>m\<in>set ?new. emitted (snd m)" using sub e by auto
  ultimately show ?thesis using e by simp
qed


text \<open>An operation as the server documents the adjustment of a session: its 204 has no content, so that the
  error 400 is the only answer the generator is told of.\<close>

definition sample_document :: "(string \<times> json) list" where
  "sample_document =
     [(''openapi'', JStr ''3.1.0''),
      (''schema'', JObj [(''type'', JArr [JStr ''string'', JStr ''null''])]),
      (''maybe'', JObj [(''oneOf'', JArr [JObj [(''type'', JStr ''null'')], JObj [(''$ref'', JStr ''x'')]])]),
      (''responses'', JObj
         [(''204'', JObj [(''description'', JStr ''done'')]),
          (''400'', JObj [(''content'', JObj [(''application/json'', JObj [])])]),
          (''401'', JObj [(''content'', JObj [(''application/json'', JObj [])])])])]"


lemma success_without_content_dropped:
  "prepared_document (JObj sample_document) =
     JObj [(''openapi'', JStr ''3.0.3''),
      (''schema'', JObj [(''type'', JStr ''string''), (''nullable'', JBool True)]),
      (''maybe'', JObj [(''$ref'', JStr ''x''), (''nullable'', JBool True)]),
      (''responses'', JObj [(''400'', JObj [(''content'', JObj [(''application/json'', JObj [])])])])]"
  by code_simp

end
