(* ===== verification/Poll.thy ===== *)
theory Poll
  imports Prelude
begin

text \<open>
  The polling loops of the cluster tools: an attempt is made, and unless it succeeds or breaks off, the time
  since the start is compared with the timeout and the loop sleeps before the next attempt. The world is
  threaded through; reading its clock and sleeping are operations of the world. The loop need not end in
  a world whose clock stands still, so it is a partial function.
\<close>

record 'w clock =
  ck_now :: "'w \<Rightarrow> nat"
  ck_sleep :: "nat \<Rightarrow> 'w \<Rightarrow> 'w"

text \<open>Time is in nanoseconds. \<open>elapsed\<close> of an earlier instant.\<close>

definition secs :: "nat \<Rightarrow> nat" where
  "secs n = n * 10 ^ 9"

definition elapsed :: "'w clock \<Rightarrow> nat \<Rightarrow> 'w \<Rightarrow> nat" where
  "elapsed ck start w = ck_now ck w - start"

partial_function (option) poll_from ::
  "'w clock \<Rightarrow> nat \<Rightarrow> nat \<Rightarrow> nat \<Rightarrow> ('f list \<Rightarrow> 'e) \<Rightarrow> ('w \<Rightarrow> ('e, 'f list) res \<times> 'w) \<Rightarrow> 'w
   \<Rightarrow> (('e, unit) res \<times> 'w) option" where
  "poll_from ck start delay timeout give_up attempt w =
     (case attempt w of
        (Inl e, w') \<Rightarrow> Some (Inl e, w')
      | (Inr failed, w') \<Rightarrow>
          if failed = [] then Some (Inr (), w')
          else if timeout < elapsed ck start w' then Some (Inl (give_up failed), w')
          else poll_from ck start delay timeout give_up attempt (ck_sleep ck delay w'))"

definition poll ::
  "'w clock \<Rightarrow> nat \<Rightarrow> nat \<Rightarrow> ('f list \<Rightarrow> 'e) \<Rightarrow> ('w \<Rightarrow> ('e, 'f list) res \<times> 'w) \<Rightarrow> 'w
   \<Rightarrow> (('e, unit) res \<times> 'w) option" where
  "poll ck delay timeout give_up attempt w =
     poll_from ck (ck_now ck w) delay timeout give_up attempt w"

section \<open>The loop ends\<close>

text \<open>A clock that goes forward: sleeping takes at least the time asked for.\<close>

definition clock_runs :: "'w clock \<Rightarrow> bool" where
  "clock_runs ck \<longleftrightarrow> (\<forall>d w. ck_now ck w + d \<le> ck_now ck (ck_sleep ck d w))"

definition keeps_time :: "'w clock \<Rightarrow> ('w \<Rightarrow> 'r \<times> 'w) \<Rightarrow> bool" where
  "keeps_time ck f \<longleftrightarrow> (\<forall>w. ck_now ck w \<le> ck_now ck (snd (f w)))"

lemma keeps_timeD: "keeps_time ck f \<Longrightarrow> f w = (r, w') \<Longrightarrow> ck_now ck w \<le> ck_now ck w'"
  unfolding keeps_time_def by (metis snd_conv)

lemma poll_from_returns:
  assumes ck: "clock_runs ck" and att: "keeps_time ck attempt" and d: "0 < delay"
  shows "\<exists>r w'. poll_from ck start delay timeout give_up attempt w = Some (r, w')"
proof (induction "Suc (start + timeout) - ck_now ck w" arbitrary: w rule: less_induct)
  case less
  obtain r w1 where a: "attempt w = (r, w1)" by (cases "attempt w")
  show ?case
  proof (cases "\<exists>failed. r = Inr failed \<and> failed \<noteq> [] \<and> \<not> timeout < elapsed ck start w1")
    case False
    then show ?thesis
      by (cases r) (auto simp: poll_from.simps [of ck start delay timeout give_up attempt w] a)
  next
    case True
    let ?w = "ck_sleep ck delay w1"
    have "ck_now ck w1 + delay \<le> ck_now ck ?w" using ck by (simp add: clock_runs_def)
    then have "ck_now ck w < ck_now ck ?w" using keeps_timeD [OF att a] d by simp
    moreover have "ck_now ck w \<le> start + timeout"
      using True keeps_timeD [OF att a] by (auto simp: elapsed_def)
    ultimately have "Suc (start + timeout) - ck_now ck ?w < Suc (start + timeout) - ck_now ck w" by simp
    from less [OF this] obtain r' w' where
      "poll_from ck start delay timeout give_up attempt ?w = Some (r', w')" by blast
    then show ?thesis
      using True by (auto simp: poll_from.simps [of ck start delay timeout give_up attempt w] a)
  qed
qed

lemma poll_returns:
  "clock_runs ck \<Longrightarrow> keeps_time ck attempt \<Longrightarrow> 0 < delay \<Longrightarrow>
     \<exists>r w'. poll ck delay timeout give_up attempt w = Some (r, w')"
  unfolding poll_def by (rule poll_from_returns)

section \<open>What the result says\<close>

text \<open>The result is that of the last attempt: it succeeded, it broke off, or it failed after the timeout.
  An invariant of attempts and sleeping holds in the world of the last attempt.\<close>

definition last_attempt ::
  "'w clock \<Rightarrow> nat \<Rightarrow> nat \<Rightarrow> ('f list \<Rightarrow> 'e) \<Rightarrow> ('w \<Rightarrow> ('e, 'f list) res \<times> 'w) \<Rightarrow> ('w \<Rightarrow> bool)
   \<Rightarrow> ('e, unit) res \<times> 'w \<Rightarrow> bool" where
  "last_attempt ck start timeout give_up attempt I r \<longleftrightarrow>
     (\<exists>w0 a. I w0 \<and> attempt w0 = (a, snd r) \<and>
        (case a of
           Inl e \<Rightarrow> fst r = Inl e
         | Inr failed \<Rightarrow>
             if failed = [] then fst r = Inr ()
             else fst r = Inl (give_up failed) \<and> timeout < elapsed ck start (snd r)))"

lemma poll_from_result:
  assumes ret: "poll_from ck start delay timeout give_up attempt w = Some r"
    and inv: "\<And>w failed w'. I w \<Longrightarrow> attempt w = (Inr failed, w') \<Longrightarrow> I (ck_sleep ck delay w')"
    and "I w"
  shows "last_attempt ck start timeout give_up attempt I r"
proof -
  have "(\<forall>w failed w'. I w \<longrightarrow> attempt w = (Inr failed, w') \<longrightarrow> I (ck_sleep ck delay w')) \<longrightarrow> I w \<longrightarrow>
      last_attempt ck start timeout give_up attempt I r"
  proof (rule poll_from.raw_induct [where P = "\<lambda>ck start delay timeout give_up attempt w r.
        (\<forall>w failed w'. I w \<longrightarrow> attempt w = (Inr failed, w') \<longrightarrow> I (ck_sleep ck delay w')) \<longrightarrow> I w \<longrightarrow>
          last_attempt ck start timeout give_up attempt I r", OF _ ret])
    fix f ck start delay timeout give_up attempt w r
    assume IH: "\<And>ck start delay timeout give_up attempt w r.
        f ck start delay timeout give_up attempt w = Some r \<Longrightarrow>
        (\<forall>w failed w'. I w \<longrightarrow> attempt w = (Inr failed, w') \<longrightarrow> I (ck_sleep ck delay w')) \<longrightarrow> I w \<longrightarrow>
          last_attempt ck start timeout give_up attempt I r"
      and step: "(case attempt w of
          (Inl e, w') \<Rightarrow> Some (Inl e, w')
        | (Inr failed, w') \<Rightarrow>
            if failed = [] then Some (Inr (), w')
            else if timeout < elapsed ck start w' then Some (Inl (give_up failed), w')
            else f ck start delay timeout give_up attempt (ck_sleep ck delay w')) = Some r"
    show "(\<forall>w failed w'. I w \<longrightarrow> attempt w = (Inr failed, w') \<longrightarrow> I (ck_sleep ck delay w')) \<longrightarrow> I w \<longrightarrow>
          last_attempt ck start timeout give_up attempt I r"
    proof (intro impI)
      assume inv: "\<forall>w failed w'. I w \<longrightarrow> attempt w = (Inr failed, w') \<longrightarrow> I (ck_sleep ck delay w')"
        and w: "I w"
      obtain a w1 where a: "attempt w = (a, w1)" by (cases "attempt w")
      show "last_attempt ck start timeout give_up attempt I r"
      proof (cases "\<exists>failed. a = Inr failed \<and> failed \<noteq> [] \<and> \<not> timeout < elapsed ck start w1")
        case True
        then have "f ck start delay timeout give_up attempt (ck_sleep ck delay w1) = Some r"
          using step by (auto simp: a)
        moreover have "I (ck_sleep ck delay w1)" using True inv w a by blast
        ultimately show ?thesis using IH inv by blast
      next
        case False
        then show ?thesis
          unfolding last_attempt_def using step w by (intro exI [of _ w] exI [of _ a]) (cases a; auto simp: a split: if_splits)
      qed
    qed
  qed
  then show ?thesis using inv \<open>I w\<close> by blast
qed

lemma poll_result:
  assumes "poll ck delay timeout give_up attempt w = Some r"
    and "\<And>w failed w'. I w \<Longrightarrow> attempt w = (Inr failed, w') \<Longrightarrow> I (ck_sleep ck delay w')"
    and "I w"
  shows "last_attempt ck (ck_now ck w) timeout give_up attempt I r"
  using assms unfolding poll_def by (rule poll_from_result)

lemma last_attempt_ok:
  "last_attempt ck start timeout give_up attempt I (Inr (), w') \<Longrightarrow> \<exists>w0. I w0 \<and> attempt w0 = (Inr [], w')"
  unfolding last_attempt_def by (fastforce split: sum.splits if_splits)

lemma last_attempt_error:
  assumes "last_attempt ck start timeout give_up attempt I (Inl e, w')"
  obtains (broke_off) w0 where "I w0" "attempt w0 = (Inl e, w')"
  | (timed_out) w0 failed where "I w0" "attempt w0 = (Inr failed, w')" "failed \<noteq> []" "e = give_up failed"
      "timeout < elapsed ck start w'"
  using assms unfolding last_attempt_def by (fastforce split: sum.splits if_splits)

lemma poll_ok:
  assumes "poll ck delay timeout give_up attempt w = Some (Inr (), w')"
    and "\<And>w failed w'. I w \<Longrightarrow> attempt w = (Inr failed, w') \<Longrightarrow> I (ck_sleep ck delay w')"
    and "I w"
  shows "\<exists>w0. I w0 \<and> attempt w0 = (Inr [], w')"
  using last_attempt_ok [OF poll_result [where I = I, OF assms]] .

end
