(* ===== verification/Effects.thy ===== *)
theory Effects
  imports Poll
begin

text \<open>
  Effects of the tools that drive other programs: an action takes the world and returns a result with the
  new world. Actions are chained; an error ends the chain and keeps what the world has become.
\<close>

type_synonym ('e, 'a, 'w) action = "'w \<Rightarrow> ('e, 'a) res \<times> 'w"

definition act_return :: "'a \<Rightarrow> ('e, 'a, 'w) action" where
  "act_return x w = (Inr x, w)"

definition act_fail :: "'e \<Rightarrow> ('e, 'a, 'w) action" where
  "act_fail e w = (Inl e, w)"

definition act_of :: "('e, 'a) res \<Rightarrow> ('e, 'a, 'w) action" where
  "act_of r w = (r, w)"

definition act_bind :: "('e, 'a, 'w) action \<Rightarrow> ('a \<Rightarrow> ('e, 'b, 'w) action) \<Rightarrow> ('e, 'b, 'w) action" where
  "act_bind m f w = (case m w of (Inl e, w') \<Rightarrow> (Inl e, w') | (Inr x, w') \<Rightarrow> f x w')"

definition act_map_err :: "('e \<Rightarrow> 'f) \<Rightarrow> ('e, 'a, 'w) action \<Rightarrow> ('f, 'a, 'w) action" where
  "act_map_err g m w = (case m w of (r, w') \<Rightarrow> (map_err g r, w'))"

text \<open>\<open>with_context\<close>: the error is shown by its outermost context.\<close>

definition act_context :: "string \<Rightarrow> (string, 'a, 'w) action \<Rightarrow> (string, 'a, 'w) action" where
  "act_context c m = act_map_err (\<lambda>_. c) m"

definition act_when :: "bool \<Rightarrow> ('e, unit, 'w) action \<Rightarrow> ('e, unit, 'w) action" where
  "act_when b m = (if b then m else act_return ())"

text \<open>A loop that collects a result for each item.\<close>

fun act_each :: "('i \<Rightarrow> ('e, 'a, 'w) action) \<Rightarrow> 'i list \<Rightarrow> ('e, 'a list, 'w) action" where
  "act_each f [] = act_return []"
| "act_each f (i # is) = act_bind (f i) (\<lambda>x. act_bind (act_each f is) (\<lambda>xs. act_return (x # xs)))"

section \<open>Results\<close>

named_theorems act_Ok

lemma act_return_Ok [act_Ok]: "act_return x w = (Inr y, w') \<longleftrightarrow> y = x \<and> w' = w"
  by (auto simp: act_return_def)

lemma act_fail_Ok [act_Ok]: "act_fail e w = (Inr y, w') \<longleftrightarrow> False"
  by (simp add: act_fail_def)

lemma act_of_Ok [act_Ok]: "act_of r w = (Inr y, w') \<longleftrightarrow> r = Inr y \<and> w' = w"
  by (auto simp: act_of_def)

lemma act_bind_Ok [act_Ok]:
  "act_bind m f w = (Inr y, w') \<longleftrightarrow> (\<exists>x w1. m w = (Inr x, w1) \<and> f x w1 = (Inr y, w'))"
  by (auto simp: act_bind_def split: prod.splits sum.splits)

lemma act_map_err_Ok [act_Ok]: "act_map_err g m w = (Inr y, w') \<longleftrightarrow> m w = (Inr y, w')"
  by (cases "m w"; cases "fst (m w)") (auto simp: act_map_err_def)

lemma act_context_Ok [act_Ok]: "act_context c m w = (Inr y, w') \<longleftrightarrow> m w = (Inr y, w')"
  by (simp add: act_context_def act_map_err_Ok)

lemma act_when_Ok [act_Ok]:
  "act_when b m w = (Inr y, w') \<longleftrightarrow> (if b then m w = (Inr y, w') else w' = w)"
  by (auto simp: act_when_def act_return_def)

lemma act_each_length: "act_each f is w = (Inr xs, w') \<Longrightarrow> length xs = length is"
  by (induction "is" arbitrary: xs w) (auto simp: act_Ok)

text \<open>A property every round keeps is kept by the loop; a loop whose every round makes \<open>P\<close> true of its item, and
  keeps it of the others, makes it true of all.\<close>

lemma act_each_keeps:
  assumes "act_each f is w = (Inr xs, w')" and "Q w"
    and "\<And>i w x w'. i \<in> set is \<Longrightarrow> Q w \<Longrightarrow> f i w = (Inr x, w') \<Longrightarrow> Q w'"
  shows "Q w'"
  using assms
proof (induction "is" arbitrary: w xs)
  case Nil
  then show ?case by (simp add: act_Ok)
next
  case (Cons i "is")
  from Cons.prems(1) obtain x w1 ys where x: "f i w = (Inr x, w1)" and ys: "act_each f is w1 = (Inr ys, w')"
    by (auto simp: act_Ok)
  have "Q w1" using Cons.prems(3) [of i w x w1] Cons.prems(2) x by simp
  then show ?case by (rule Cons.IH [OF ys]) (use Cons.prems(3) in auto)
qed

lemma act_each_Ok:
  assumes "act_each f is w = (Inr xs, w')" and "I w" and "distinct is"
    and "\<And>i w x w'. i \<in> set is \<Longrightarrow> I w \<Longrightarrow> f i w = (Inr x, w') \<Longrightarrow> I w' \<and> P i x w'"
    and "\<And>i j w x y w'. i \<in> set is \<Longrightarrow> i \<noteq> j \<Longrightarrow> I w \<Longrightarrow> f i w = (Inr x, w') \<Longrightarrow> P j y w \<Longrightarrow> P j y w'"
  shows "I w' \<and> list_all2 (\<lambda>i x. P i x w') is xs"
  using assms
proof (induction "is" arbitrary: w xs)
  case Nil
  then show ?case by (simp add: act_Ok)
next
  case (Cons i "is")
  note round = Cons.prems(4) and keep = Cons.prems(5)
  from Cons.prems(1) obtain x w1 ys where
    x: "f i w = (Inr x, w1)" and ys: "act_each f is w1 = (Inr ys, w')" and xs: "xs = x # ys"
    by (auto simp: act_Ok)
  have dist: "distinct is" "i \<notin> set is" using Cons.prems(3) by simp_all
  have 1: "I w1 \<and> P i x w1" using round [of i w x w1] Cons.prems(2) x by simp
  have rest: "I w' \<and> list_all2 (\<lambda>i x. P i x w') is ys"
  proof (rule Cons.IH [OF ys conjunct1 [OF 1] dist(1)])
    fix j v y v' assume "j \<in> set is" "I v" "f j v = (Inr y, v')"
    then show "I v' \<and> P j y v'" using round [of j v y v'] by simp
  next
    fix j v y v' k z assume "j \<in> set is" "j \<noteq> k" "I v" "f j v = (Inr y, v')" "P k z v"
    then show "P k z v'" using keep [of j k v y v' z] by simp
  qed
  have "I w' \<and> P i x w'"
  proof (rule act_each_keeps [OF ys, of "\<lambda>w. I w \<and> P i x w", OF 1])
    fix j v y v' assume j: "j \<in> set is" "I v \<and> P i x v" "f j v = (Inr y, v')"
    then have "j \<noteq> i" using dist(2) by blast
    then show "I v' \<and> P i x v'"
      using round [of j v y v'] keep [of j i v y v' x] j by simp
  qed
  then show ?case using rest by (simp add: xs)
qed

text \<open>What an action leaves alone, whatever its result.\<close>

definition leaves :: "('w \<Rightarrow> 'v) \<Rightarrow> ('e, 'a, 'w) action \<Rightarrow> bool" where
  "leaves v m \<longleftrightarrow> (\<forall>w. v (snd (m w)) = v w)"

named_theorems leaves_intros

lemma leaves_return [leaves_intros]: "leaves v (act_return x)"
  by (simp add: leaves_def act_return_def)

lemma leaves_fail [leaves_intros]: "leaves v (act_fail e)"
  by (simp add: leaves_def act_fail_def)

lemma leaves_of [leaves_intros]: "leaves v (act_of r)"
  by (simp add: leaves_def act_of_def)

lemma leaves_bind [leaves_intros]: "leaves v m \<Longrightarrow> (\<And>x. leaves v (f x)) \<Longrightarrow> leaves v (act_bind m f)"
  unfolding leaves_def act_bind_def
proof
  fix w assume m: "\<forall>w. v (snd (m w)) = v w" and f: "\<And>x. \<forall>w. v (snd (f x w)) = v w"
  obtain r w1 where w1: "m w = (r, w1)" by fastforce
  then have "v w1 = v w" using m by (metis snd_conv)
  then show "v (snd (case m w of (Inl e, w') \<Rightarrow> (Inl e, w') | (Inr x, w') \<Rightarrow> f x w')) = v w"
    using f by (simp add: w1 split: sum.split)
qed

lemma leaves_map_err [leaves_intros]: "leaves v m \<Longrightarrow> leaves v (act_map_err g m)"
  by (auto simp: leaves_def act_map_err_def split: prod.splits) (metis snd_conv)

lemma leaves_context [leaves_intros]: "leaves v m \<Longrightarrow> leaves v (act_context c m)"
  by (simp add: act_context_def leaves_map_err)

lemma leaves_when [leaves_intros]: "leaves v m \<Longrightarrow> leaves v (act_when b m)"
  by (simp add: act_when_def leaves_return)

lemma leaves_each [leaves_intros]: "(\<And>i. i \<in> set is \<Longrightarrow> leaves v (f i)) \<Longrightarrow> leaves v (act_each f is)"
  by (induction "is") (auto intro!: leaves_intros)

lemma leavesD: "leaves v m \<Longrightarrow> m w = (r, w') \<Longrightarrow> v w' = v w"
  by (metis leaves_def snd_conv)

text \<open>How the world develops under an action that succeeds.\<close>

definition advances :: "('w \<Rightarrow> 'w \<Rightarrow> bool) \<Rightarrow> ('e, 'a, 'w) action \<Rightarrow> bool" where
  "advances R m \<longleftrightarrow> (\<forall>w x w'. m w = (Inr x, w') \<longrightarrow> R w w')"

named_theorems advances_intros

lemma advancesI: "(\<And>w x w'. m w = (Inr x, w') \<Longrightarrow> R w w') \<Longrightarrow> advances R m"
  by (simp add: advances_def)

lemma advancesD: "advances R m \<Longrightarrow> m w = (Inr x, w') \<Longrightarrow> R w w'"
  by (simp add: advances_def)

lemma advances_return [advances_intros]: "reflp R \<Longrightarrow> advances R (act_return x)"
  by (auto simp: advances_def act_Ok dest: reflpD)

lemma advances_fail [advances_intros]: "advances R (act_fail e)"
  by (simp add: advances_def act_Ok)

lemma advances_of [advances_intros]: "reflp R \<Longrightarrow> advances R (act_of r)"
  by (auto simp: advances_def act_Ok dest: reflpD)

lemma advances_bind:
  "transp R \<Longrightarrow> advances R m \<Longrightarrow> (\<And>x. advances R (f x)) \<Longrightarrow> advances R (act_bind m f)"
  unfolding advances_def act_bind_Ok by (blast dest: transpD)

lemma advances_context [advances_intros]: "advances R m \<Longrightarrow> advances R (act_context c m)"
  by (simp add: advances_def act_Ok)

lemma advances_when [advances_intros]: "reflp R \<Longrightarrow> advances R m \<Longrightarrow> advances R (act_when b m)"
  by (auto simp: advances_def act_Ok dest: reflpD)

lemma advances_each [advances_intros]:
  "reflp R \<Longrightarrow> transp R \<Longrightarrow> (\<And>i. i \<in> set is \<Longrightarrow> advances R (f i)) \<Longrightarrow> advances R (act_each f is)"
  by (induction "is") (auto intro!: advances_bind advances_return)

lemma leaves_advances: "leaves v m \<Longrightarrow> (\<And>w w'. v w' = v w \<Longrightarrow> R w w') \<Longrightarrow> advances R m"
  by (auto simp: advances_def dest: leavesD)

section \<open>Waiting for a value\<close>

text \<open>A loop that asks until it is given a value or the deadline is reached. It is \<open>poll\<close> with the value as the way to
  break off; \<open>now >= deadline\<close> is \<open>elapsed > timeout - 1\<close> in nanoseconds.\<close>

definition ask :: "('e, 'a option, 'w) action \<Rightarrow> 'w \<Rightarrow> (('e, 'a) res, unit list) res \<times> 'w" where
  "ask m w =
     (case m w of
        (Inl e, w') \<Rightarrow> (Inl (Inl e), w')
      | (Inr None, w') \<Rightarrow> (Inr [()], w')
      | (Inr (Some x), w') \<Rightarrow> (Inl (Inr x), w'))"

definition poll_until ::
  "'w clock \<Rightarrow> nat \<Rightarrow> nat \<Rightarrow> nat \<Rightarrow> ('e, 'a) res \<Rightarrow> ('e, 'a option, 'w) action \<Rightarrow> 'w
   \<Rightarrow> (('e, 'a) res \<times> 'w) option" where
  "poll_until ck start delay timeout give_up m w =
     map_option (\<lambda>(r, w'). (case r of Inl x \<Rightarrow> x | Inr u \<Rightarrow> give_up, w'))
       (poll_from ck start delay (timeout - 1) (\<lambda>_. give_up) (ask m) w)"

lemma keeps_time_ask: "keeps_time ck m \<Longrightarrow> keeps_time ck (ask m)"
  unfolding keeps_time_def ask_def
  by (auto split: prod.splits sum.splits option.splits) (metis snd_conv)+

lemma poll_until_returns:
  assumes "clock_runs ck" and "keeps_time ck m" and "0 < delay"
  shows "\<exists>r w'. poll_until ck start delay timeout give_up m w = Some (r, w')"
  using poll_from_returns [OF assms(1) keeps_time_ask [OF assms(2)] assms(3),
      of start "timeout - 1" "\<lambda>_. give_up" w]
  by (auto simp: poll_until_def split: prod.splits)

lemma ask_cases:
  assumes "ask m w = (r, w')"
  shows "(\<exists>e. r = Inl (Inl e) \<and> m w = (Inl e, w')) \<or> (r = Inr [()] \<and> m w = (Inr None, w'))
    \<or> (\<exists>x. r = Inl (Inr x) \<and> m w = (Inr (Some x), w'))"
  using assms by (auto simp: ask_def split: prod.splits sum.splits option.splits)

lemma poll_until_Ok:
  assumes "poll_until ck start delay timeout give_up m w = Some (Inr x, w')" and "give_up \<noteq> Inr x"
    and "\<And>w w'. I w \<Longrightarrow> m w = (Inr None, w') \<Longrightarrow> I (ck_sleep ck delay w')" and "I w"
  shows "\<exists>w0. I w0 \<and> m w0 = (Inr (Some x), w')"
proof -
  from assms(1) obtain r where r: "poll_from ck start delay (timeout - 1) (\<lambda>_. give_up) (ask m) w = Some (r, w')"
    and x: "(case r of Inl x \<Rightarrow> x | Inr u \<Rightarrow> give_up) = Inr x"
    by (auto simp: poll_until_def)
  with assms(2) have "r = Inl (Inr x)" by (cases r) auto
  from poll_from_result [OF r [unfolded this], of I] assms(3,4)
  have "last_attempt ck start (timeout - 1) (\<lambda>_. give_up) (ask m) I (Inl (Inr x), w')"
    by (meson ask_cases old.sum.distinct(2) old.sum.inject(2))
  then show ?thesis
    by (rule last_attempt_error) (use assms(2) ask_cases in \<open>fastforce+\<close>)
qed

lemma poll_until_at_once:
  "m w = (Inr (Some x), w') \<Longrightarrow>
    poll_until ck start delay timeout give_up m w = Some (Inr x, w')"
  unfolding poll_until_def by (subst poll_from.simps) (simp add: ask_def)

text \<open>The result of a loop that returns.\<close>

definition act_total :: "string \<Rightarrow> ('w \<Rightarrow> ((string, 'a) res \<times> 'w) option) \<Rightarrow> (string, 'a, 'w) action" where
  "act_total never m w = (case m w of Some r \<Rightarrow> r | None \<Rightarrow> (Inl never, w))"

lemma act_total_Ok [act_Ok]: "act_total e m w = (Inr y, w') \<longleftrightarrow> m w = Some (Inr y, w')"
  by (auto simp: act_total_def split: option.splits)

end
