(* ===== verification/Node_Build.thy ===== *)
theory Node_Build
  imports Daemon Daemon_Laws Effects
begin

text \<open>
  The construction of the node in \<open>main_inner\<close> (\<open>hoprd/src/lib.rs\<close>): the library's configuration, the connection to
  the chain, the prober, the ticket store and manager, and what the builder of the node is given. The
  constructors of the library are operations of a world; a keypair has type \<open>'k\<close>, a connector \<open>'n\<close>, a store \<open>'t\<close>, the
  ticket manager with its factory \<open>'m\<close> and the node \<open>'o\<close>.
\<close>

record connector_config =
  cc_sync_timeout :: duration
  cc_sync_tolerance :: nat
  cc_tx_multiplier :: nat
  cc_nonce_gap :: nat

record blokli_client_config =
  bc_timeout :: duration
  bc_reconnect_timeout :: duration
  bc_restart_delay :: "duration option"
  bc_dns_override :: "(ip_addr \<times> 16 word option) option"

record prober_config =
  pb_interval :: duration
  pb_shuffle_ttl :: duration

text \<open>What \<open>HoprBuilder\<close> is given. The graph takes its parameters from the path planner's configuration, the network
  its address and preference from the library's configuration.\<close>

record ('u, 'n, 'm) node_parts =
  np_config :: "'u lib_config"
  np_safe :: address
  np_module :: address
  np_chain :: 'n
  np_planner :: 'u
  np_forwarding :: "'u forwarding_config"
  np_prober :: prober_config
  np_tickets :: 'm
  np_host :: host_config
  np_protocol :: string
  np_prefer_local :: bool

record ('u, 'c, 'k, 'n, 't, 'm, 'o, 'w) node_library =
  nl_redacted :: "('u, 'c) hoprd_config \<Rightarrow> (string, string) res"
  nl_parse_multiplier :: "string \<Rightarrow> nat option"
  nl_default_multiplier :: nat
  nl_default_nonce_gap :: nat
  nl_parse_url :: "string \<Rightarrow> (string, string) res"
  nl_connector :: "'k \<Rightarrow> connector_config \<Rightarrow> string \<Rightarrow> blokli_client_config \<Rightarrow> address \<Rightarrow> (string, 'n, 'w) action"
  nl_connect :: "'n \<Rightarrow> (string, unit, 'w) action"
  nl_check_prober :: "prober_config \<Rightarrow> 'u lib_config \<Rightarrow> (string, unit) res"
  nl_temp_store :: "(string, 't, 'w) action"
  nl_tickets :: "'n \<Rightarrow> 't \<Rightarrow> (string, 'm, 'w) action"
  nl_build :: "'k \<Rightarrow> ('u, 'n, 'm) node_parts \<Rightarrow> (string, 'o, 'w) action"

definition connector_config_of_env ::
  "('u, 'c, 'k, 'n, 't, 'm, 'o, 'w) node_library \<Rightarrow> env_vars \<Rightarrow> connector_config" where
  "connector_config_of_env nl env =
     \<lparr> cc_sync_timeout = dur_secs 60, cc_sync_tolerance = 90,
       cc_tx_multiplier =
         (case Option.bind (env ''HOPR_TX_TIMEOUT_MULTIPLIER'') (nl_parse_multiplier nl) of
            Some n \<Rightarrow> n | None \<Rightarrow> nl_default_multiplier nl),
       cc_nonce_gap = nl_default_nonce_gap nl \<rparr>"

definition blokli_config_of :: "('u, 'c) hoprd_config \<Rightarrow> blokli_client_config" where
  "blokli_config_of cfg =
     \<lparr> bc_timeout = dur_secs 30, bc_reconnect_timeout = dur_secs 30, bc_restart_delay = Some (dur_secs 1),
       bc_dns_override = hd_blokli_dns_override cfg \<rparr>"

text \<open>Doubling the probe interval panics beyond the largest duration, of 64 bits of seconds.\<close>

definition longest_duration :: duration where
  "longest_duration = 2 ^ 64 * 10 ^ 9 - 1"

definition prober_config_of :: "('u, 'c) hoprd_config \<Rightarrow> (string, prober_config) res" where
  "prober_config_of cfg =
     (let i = un_probe_interval (uc_network (hd_hopr cfg)) in
      if i * 2 \<le> longest_duration then Inr \<lparr> pb_interval = i, pb_shuffle_ttl = i * 2 \<rparr>
      else Inl ''overflow when multiplying duration by scalar'')"

definition parts_of ::
  "('u, 'c) hoprd_config \<Rightarrow> 'u lib_config \<Rightarrow> 'n \<Rightarrow> prober_config \<Rightarrow> 'm \<Rightarrow> ('u, 'n, 'm) node_parts" where
  "parts_of cfg lib chain prober tickets =
     \<lparr> np_config = lib, np_safe = sm_safe_address (lc_safe_module lib), np_module = sm_module_address (lc_safe_module lib),
       np_chain = chain, np_planner = lc_path_planner lib, np_forwarding = hd_forwarding cfg, np_prober = prober,
       np_tickets = tickets, np_host = lc_host lib, np_protocol = ''/hopr/mix/1.1.0'',
       np_prefer_local = lc_prefer_local lib \<rparr>"

definition node_lib_config ::
  "'u upstream \<Rightarrow> bool \<Rightarrow> env_vars \<Rightarrow> ('u, 'c) hoprd_config \<Rightarrow> 'u lib_config" where
  "node_lib_config up debug_build env cfg =
     update_lib_config_from_env debug_build env (lib_config_of_user up (hd_hopr cfg))"

definition build_node ::
  "('u, 'c, 'k, 'n, 't, 'm, 'o, 'w) node_library \<Rightarrow> 'u upstream \<Rightarrow> bool \<Rightarrow> env_vars \<Rightarrow> ('u, 'c) hoprd_config \<Rightarrow> 'k
   \<Rightarrow> (string, 'o, 'w) action" where
  "build_node nl up debug_build env cfg keys =
     (let lib = node_lib_config up debug_build env cfg in
      act_bind (act_of (nl_redacted nl cfg)) (\<lambda>_.
      act_bind (act_of (nl_parse_url nl (hd_blokli_url cfg))) (\<lambda>url.
      act_bind
        (nl_connector nl keys (connector_config_of_env nl env) url (blokli_config_of cfg)
          (sm_module_address (uc_safe_module (hd_hopr cfg)))) (\<lambda>chain.
      act_bind (nl_connect nl chain) (\<lambda>_.
      act_bind (act_of (prober_config_of cfg)) (\<lambda>prober.
      act_bind (act_of (nl_check_prober nl prober lib)) (\<lambda>_.
      act_bind (act_map_err (\<lambda>e. ''failed to create the ticket store: '' @ e) (nl_temp_store nl)) (\<lambda>store.
      act_bind (act_map_err (\<lambda>e. ''failed to seed ticket manager: '' @ e) (nl_tickets nl chain store)) (\<lambda>tickets.
        nl_build nl keys (parts_of cfg lib chain prober tickets))))))))))"

section \<open>Up to the signals\<close>

text \<open>A failure before there is a node returns without one; after it the daemon starts on the node.\<close>

definition main_inner_start ::
  "('u, 'c, 'k, 'n, 't, 'm, 'o, 'w) node_library \<Rightarrow> 'u upstream \<Rightarrow> bool \<Rightarrow> env_vars \<Rightarrow> ('u, 'c) hoprd_config \<Rightarrow> 'k
   \<Rightarrow> ('o \<Rightarrow> (string, rest_api_parameters \<times> process list) res) \<Rightarrow> ('o \<Rightarrow> (string, 'b) res) \<Rightarrow> (string, unit) res
   \<Rightarrow> 'w \<Rightarrow> daemon_state \<times> 'w" where
  "main_inner_start nl up debug_build env cfg keys rest built signals w =
     (case build_node nl up debug_build env cfg keys w of
        (Inl e, w') \<Rightarrow> (return_from (Err e) (initial_daemon\<lparr> ds_node := False \<rparr>), w')
      | (Inr node, w') \<Rightarrow> (start_daemon (rest node) (built node) signals cfg, w'))"

text \<open>A node that is built belongs to the Safe and the module of the user's configuration, and the connector, the
  graph, the network and the prober are configured by it.\<close>

lemma update_keeps [simp]:
  "lc_safe_module (update_lib_config_from_env d env l) = lc_safe_module l"
  "lc_host (update_lib_config_from_env d env l) = lc_host l"
  "lc_path_planner (update_lib_config_from_env d env l) = lc_path_planner l"
  "lc_prefer_local (update_lib_config_from_env d env l) = lc_prefer_local l"
  by (simp_all add: update_lib_config_from_env_def Let_def split: option.split)

lemma build_node_Ok:
  assumes "build_node nl up d env cfg keys w = (Inr node, w')"
  shows "\<exists>url chain prober tickets v1 v2 v3.
    nl_parse_url nl (hd_blokli_url cfg) = Inr url
    \<and> nl_connector nl keys (connector_config_of_env nl env) url (blokli_config_of cfg)
        (sm_module_address (uc_safe_module (hd_hopr cfg))) w = (Inr chain, v1)
    \<and> nl_connect nl chain v1 = (Inr (), v2)
    \<and> prober_config_of cfg = Inr prober \<and> nl_check_prober nl prober (node_lib_config up d env cfg) = Inr ()
    \<and> nl_build nl keys (parts_of cfg (node_lib_config up d env cfg) chain prober tickets) v3 = (Inr node, w')"
  using assms unfolding build_node_def Let_def act_Ok by (clarsimp) blast

lemma parts_of_user:
  "np_safe (parts_of cfg (node_lib_config up d env cfg) chain prober tickets)
      = sm_safe_address (uc_safe_module (hd_hopr cfg))"
  "np_module (parts_of cfg (node_lib_config up d env cfg) chain prober tickets)
      = sm_module_address (uc_safe_module (hd_hopr cfg))"
  "np_host (parts_of cfg (node_lib_config up d env cfg) chain prober tickets) = uc_host (hd_hopr cfg)"
  "np_prefer_local (parts_of cfg (node_lib_config up d env cfg) chain prober tickets)
      = un_prefer_local_addresses (uc_network (hd_hopr cfg))"
  by (simp_all add: parts_of_def node_lib_config_def lib_config_of_user_def Let_def)

lemma no_node_starts_nothing:
  "build_node nl up d env cfg keys w = (Inl e, w') \<Longrightarrow>
    ds_trace (fst (main_inner_start nl up d env cfg keys rest built signals w)) = [Act_Return (Err e)]"
  by (simp add: main_inner_start_def return_from_def initial_daemon_def act_def)

text \<open>The daemon comes to run exactly when every step succeeds, and then it is the running daemon of its
  configuration on a node that was built from it.\<close>

theorem daemon_runs_iff:
  "\<not> ds_done (fst (main_inner_start nl up d env cfg keys rest built signals w)) \<longleftrightarrow>
     (\<exists>node w'. build_node nl up d env cfg keys w = (Inr node, w')
       \<and> (api_enable (hd_api cfg) \<longrightarrow> is_ok (rest node)) \<and> is_ok (built node) \<and> is_ok signals)"
proof (cases "build_node nl up d env cfg keys w")
  case (Pair r w')
  show ?thesis
  proof (cases r)
    case (Inl e)
    then show ?thesis by (simp add: main_inner_start_def Pair return_from_done)
  next
    case (Inr node)
    show ?thesis
      by (cases "rest node"; cases "built node"; cases signals)
        (auto simp: main_inner_start_def Pair Inr start_daemon_def start_api_def start_strategies_def return_from_done
          start_process_def [of P_Strategies] act_def foldl_start initial_daemon_def)
  qed
qed

end
