(* ===== verification/Logging.thy ===== *)
theory Logging
  imports Hoprd_Config
begin

text \<open>
  The log subscriber of the daemon with its slot for OpenTelemetry layers (\<open>hoprd/src/tracing_setup.rs\<close>), and the
  lines about the allocator (\<open>hoprd/src/jemalloc_stats.rs\<close>). Filters, layers and the allocator's counters belong to
  libraries: filters have type \<open>'f\<close>, layers \<open>'l\<close>, and reading a counter is a result.
\<close>

section \<open>The subscriber\<close>

text \<open>An empty list of layers would disable everything below it; the identity layer takes its place.\<close>

datatype 'l otel_layer = Identity_Layer | Otel_Layer 'l

definition passthrough_layers :: "'l otel_layer list \<Rightarrow> 'l otel_layer list" where
  "passthrough_layers layers = (if layers = [] then [Identity_Layer] else layers)"

record 'f filter_lib =
  fr_from_env :: "(string, 'f) res"
  fr_new :: "string \<Rightarrow> 'f"
  fr_add :: "'f \<Rightarrow> string \<Rightarrow> (string, 'f) res"

definition add_directives :: "'f filter_lib \<Rightarrow> string list \<Rightarrow> (string, 'f) res \<Rightarrow> (string, 'f) res" where
  "add_directives fr ds f = foldl (\<lambda>f d. res_bind f (\<lambda>x. fr_add fr x d)) f ds"

definition quiet_directives :: "string list" where
  "quiet_directives =
     [''libp2p_swarm=info'', ''libp2p_mplex=info'', ''libp2p_tcp=info'', ''libp2p_dns=info'',
      ''multistream_select=info'', ''isahc=error'', ''sea_orm=warn'', ''sqlx=warn'', ''hyper_util=warn'']"

text \<open>The filter of the environment, else the default; \<open>prof\<close> is the feature of that name.\<close>

definition base_filter :: "'f filter_lib \<Rightarrow> bool \<Rightarrow> (string, 'f) res" where
  "base_filter fr prof =
     (let f = (case fr_from_env fr of
                 Inr x \<Rightarrow> Ok x
               | Inl e \<Rightarrow> add_directives fr quiet_directives (Ok (fr_new fr ''info'')))
      in if prof then add_directives fr [''tokio=trace'', ''runtime=trace''] f else f)"

definition json_format :: "env_vars \<Rightarrow> bool" where
  "json_format env =
     (case env ''HOPRD_LOG_FORMAT'' of Some v \<Rightarrow> ascii_lowercase v = ''json'' | None \<Rightarrow> False)"

text \<open>A subscriber holds one reload slot. The global default is set once in a process, and so is the handle that
  \<open>install_otel_layers\<close> uses; a slot whose subscriber has been dropped cannot be reloaded.\<close>

record ('f, 'l) log_subscriber =
  lb_slot :: nat
  lb_layers :: "'l otel_layer list"
  lb_filter :: 'f
  lb_json :: bool

record ('f, 'l) log_process =
  lp_slots :: nat
  lp_handle :: "nat option"
  lp_default :: "('f, 'l) log_subscriber option"

definition fresh_process :: "('f, 'l) log_process" where
  "fresh_process = \<lparr> lp_slots = 0, lp_handle = None, lp_default = None \<rparr>"

definition install_base_subscriber ::
  "'f filter_lib \<Rightarrow> bool \<Rightarrow> env_vars \<Rightarrow> ('f, 'l) log_process \<Rightarrow> (string, unit) res \<times> ('f, 'l) log_process" where
  "install_base_subscriber fr prof env p =
     (case base_filter fr prof of
        Inl e \<Rightarrow> (Err e, p)
      | Inr f \<Rightarrow>
          (let slot = lp_slots p;
               p1 = p\<lparr> lp_slots := slot + 1,
                       lp_handle := (case lp_handle p of Some h \<Rightarrow> Some h | None \<Rightarrow> Some slot) \<rparr>
           in case lp_default p1 of
                Some s \<Rightarrow> (Err ''a global default trace dispatcher has already been set'', p1)
              | None \<Rightarrow>
                  (Ok (), p1\<lparr> lp_default :=
                     Some \<lparr> lb_slot = slot, lb_layers = passthrough_layers [], lb_filter = f,
                            lb_json = json_format env \<rparr> \<rparr>)))"

definition install_otel_layers ::
  "'l otel_layer list \<Rightarrow> ('f, 'l) log_process \<Rightarrow> (string, unit) res \<times> ('f, 'l) log_process" where
  "install_otel_layers layers p =
     (case lp_handle p of
        None \<Rightarrow> (Err ''base subscriber not initialized; call install_base_subscriber() first'', p)
      | Some h \<Rightarrow>
          (case lp_default p of
             Some s \<Rightarrow>
               if lb_slot s = h
               then (Ok (), p\<lparr> lp_default := Some (s\<lparr> lb_layers := passthrough_layers layers \<rparr>) \<rparr>)
               else (Err ''subscriber no longer exists'', p)
           | None \<Rightarrow> (Err ''subscriber no longer exists'', p)))"

section \<open>The allocator\<close>

record allocator =
  al_epoch :: "(string, unit) res"
  al_version :: "(string, string) res"
  al_opt_narenas :: "(string, nat) res"
  al_tcache_max :: "(string, nat) res"
  al_background :: "(string, bool) res"
  al_allocated :: "(string, nat) res"
  al_active :: "(string, nat) res"
  al_mapped :: "(string, nat) res"
  al_retained :: "(string, nat) res"
  al_narenas :: "(string, nat) res"

definition counter :: "string \<Rightarrow> (string, 'a) res \<Rightarrow> (string, 'a) res" where
  "counter name r = map_err (\<lambda>e. name @ '' failed: '' @ e) r"

definition read_or :: "'a \<Rightarrow> (string, 'a) res \<Rightarrow> 'a" where
  "read_or d r = (case r of Inr x \<Rightarrow> x | Inl e \<Rightarrow> d)"

definition read_config :: "allocator \<Rightarrow> (string, string) res" where
  "read_config al =
     res_bind (counter ''epoch advance'' (al_epoch al)) (\<lambda>_.
     res_bind (counter ''version read'' (al_version al)) (\<lambda>vers.
       Ok (''jemalloc_config: version=\"'' @ vers @ ''\" narenas='' @ show_nat (read_or 0 (al_opt_narenas al))
         @ '' tcache_max='' @ show_nat (read_or 0 (al_tcache_max al))
         @ '' background_thread='' @ (if read_or False (al_background al) then ''true'' else ''false''))))"

definition log_startup_config :: "allocator \<Rightarrow> string" where
  "log_startup_config al =
     (case read_config al of
        Inr text \<Rightarrow> text
      | Inl e \<Rightarrow> ''jemalloc_config: status=error reason=\"failed to read configuration\"'')"

text \<open>\<open>human\<close> writes a number of bytes for people, \<open>ratio\<close> the quotient of two numbers with three decimals; with
  nothing active it is zero.\<close>

definition read_stats ::
  "(nat \<Rightarrow> string) \<Rightarrow> (nat \<Rightarrow> nat \<Rightarrow> string) \<Rightarrow> allocator \<Rightarrow> nat \<Rightarrow> (string, string) res" where
  "read_stats human ratio al uptime_secs =
     res_bind (counter ''epoch advance'' (al_epoch al)) (\<lambda>_.
     res_bind (counter ''allocated read'' (al_allocated al)) (\<lambda>allocated.
     res_bind (counter ''active read'' (al_active al)) (\<lambda>active.
     res_bind (counter ''mapped read'' (al_mapped al)) (\<lambda>mapped.
     res_bind (counter ''retained read'' (al_retained al)) (\<lambda>retained.
     res_bind (counter ''narenas read'' (al_narenas al)) (\<lambda>narenas.
       Ok (''jemalloc_stats: allocated='' @ human allocated @ '' active='' @ human active @ '' mapped='' @ human mapped
         @ '' retained='' @ human retained @ '' arenas_active='' @ show_nat narenas
         @ '' cache_efficiency='' @ (if 0 < active then ratio allocated active else ''0.000'')
         @ '' uptime_secs='' @ show_nat uptime_secs)))))))"

text \<open>The lines of a collector: the configuration, the counters at once, and again at every tick until it is dropped.
  A tick is the allocator of that moment with the time it has run.\<close>

definition log_periodic_stats ::
  "(nat \<Rightarrow> string) \<Rightarrow> (nat \<Rightarrow> nat \<Rightarrow> string) \<Rightarrow> allocator \<Rightarrow> nat \<Rightarrow> string" where
  "log_periodic_stats human ratio al uptime_secs =
     (case read_stats human ratio al uptime_secs of
        Inr text \<Rightarrow> text
      | Inl e \<Rightarrow> ''Failed to collect jemalloc statistics: '' @ e)"

definition collector_lines ::
  "(nat \<Rightarrow> string) \<Rightarrow> (nat \<Rightarrow> nat \<Rightarrow> string) \<Rightarrow> allocator \<Rightarrow> (allocator \<times> nat) list \<Rightarrow> string list" where
  "collector_lines human ratio al ticks =
     log_startup_config al # log_periodic_stats human ratio al 0
     # List.map (\<lambda>(a, t). log_periodic_stats human ratio a t) ticks"

section \<open>The layers reach the subscriber\<close>

text \<open>A process that only \<open>install_base_subscriber\<close> and \<open>install_otel_layers\<close> change.\<close>

inductive log_reaches :: "'f filter_lib \<Rightarrow> bool \<Rightarrow> ('f, 'l) log_process \<Rightarrow> bool" for fr prof where
  log_fresh: "log_reaches fr prof fresh_process"
| log_base: "log_reaches fr prof p \<Longrightarrow> log_reaches fr prof (snd (install_base_subscriber fr prof env p))"
| log_otel: "log_reaches fr prof p \<Longrightarrow> log_reaches fr prof (snd (install_otel_layers layers p))"

lemma log_reaches_handle:
  "log_reaches fr prof p \<Longrightarrow>
     (case lp_default p of None \<Rightarrow> lp_handle p = None | Some s \<Rightarrow> lp_handle p = Some (lb_slot s))"
proof (induction rule: log_reaches.induct)
  case log_fresh
  then show ?case by (simp add: fresh_process_def)
next
  case (log_base p env)
  then show ?case
    by (auto simp: install_base_subscriber_def Let_def split: sum.splits option.splits)
next
  case (log_otel p layers)
  then show ?case
    by (auto simp: install_otel_layers_def split: option.splits)
qed

text \<open>In every reachable state, layers are installed exactly when there is a subscriber, and then they are in the
  subscriber that is the process's default; a second base subscriber is refused and changes neither.\<close>

theorem otel_layers_reach_subscriber:
  assumes "log_reaches fr prof p"
  shows "(fst (install_otel_layers layers p) = Ok () \<longleftrightarrow> lp_default p \<noteq> None)
    \<and> (\<forall>s. lp_default p = Some s \<longrightarrow>
         lp_default (snd (install_otel_layers layers p)) = Some (s\<lparr> lb_layers := passthrough_layers layers \<rparr>)
         \<and> fst (install_base_subscriber fr prof env p) \<noteq> Ok ()
         \<and> lp_default (snd (install_base_subscriber fr prof env p)) = Some s
         \<and> lp_handle (snd (install_base_subscriber fr prof env p)) = lp_handle p)"
  using log_reaches_handle [OF assms]
  by (auto simp: install_otel_layers_def install_base_subscriber_def Let_def split: sum.splits option.splits)

end
