(* ===== verification/Cluster_Client.thy ===== *)
theory Cluster_Client
  imports Wire_Out Metrics_Scrape Poll
begin

text \<open>
  The client the cluster tools use for a node (\<open>HoprdApiClient\<close> in \<open>localcluster/src/client_helper.rs\<close>): the
  generated client with the node's base URL and token, the scrape of its metrics, and the loops that
  wait for the nodes and open the channels between them.

  The world is threaded through. Sending a request, the JSON parser, the texts of errors and statuses,
  the HTTP library's check of a header value and the parsers of balances are parameters. Requests that
  are sent together (\<open>join_all\<close>) are modelled one after the other, in the order of the list.
\<close>

section \<open>The client\<close>

datatype client_error =
    Communication string
  | Error_Response cl_api_error
  | Error_Status nat
  | Invalid_Payload
  | Unexpected nat "string option"

text \<open>An answer is its status and its body, which may fail to be read.\<close>

type_synonym answer = "nat \<times> string option"

record hoprd_client =
  hc_base_url :: string
  hc_headers :: headers

record 'w web = "'w clock" +
  wb_send :: "hoprd_client \<Rightarrow> client_request \<Rightarrow> 'w \<Rightarrow> (string, answer) res \<times> 'w"
  wb_get :: "string \<Rightarrow> headers \<Rightarrow> 'w \<Rightarrow> (string, answer) res \<times> 'w"
  wb_json :: "string \<Rightarrow> json option"
  wb_progenitor :: progenitor_lib
  wb_error_text :: "client_error \<Rightarrow> string"
  wb_status_text :: "nat \<Rightarrow> string"

record header_lib =
  hl_value :: "string \<Rightarrow> string option"
  hl_builds :: "headers \<Rightarrow> bool"

definition client_new :: "header_lib \<Rightarrow> string \<Rightarrow> string option \<Rightarrow> (string, hoprd_client) res" where
  "client_new lib base_url token =
     res_bind
       (case token of
          None \<Rightarrow> Inr []
        | Some t \<Rightarrow> map_err (\<lambda>_. ''invalid api token'')
            (ok_or () (map_option (\<lambda>v. [(''authorization'', v)]) (hl_value lib (''Bearer '' @ t)))))
       (\<lambda>headers.
          if hl_builds lib headers then Inr \<lparr> hc_base_url = base_url, hc_headers = headers \<rparr>
          else Inl ''failed to build http client'')"

text \<open>One operation of the generated client.\<close>

definition read_body :: "'w web \<Rightarrow> (json \<Rightarrow> 'a option) \<Rightarrow> string option \<Rightarrow> (client_error, 'a) res" where
  "read_body lib read body =
     (case Option.bind (Option.bind body (wb_json lib)) read of
        Some x \<Rightarrow> Inr x
      | None \<Rightarrow> Inl Invalid_Payload)"

definition run_operation ::
  "'w web \<Rightarrow> hoprd_client \<Rightarrow> client_operation \<Rightarrow> (json \<Rightarrow> 'a option) \<Rightarrow> 'a \<Rightarrow> 'w \<Rightarrow> (client_error, 'a) res \<times> 'w" where
  "run_operation lib c op read no_value w =
     (case wb_send lib c (op_request op) w of
        (Inl e, w') \<Rightarrow> (Inl (Communication e), w')
      | (Inr (st, body), w') \<Rightarrow>
          (case op_outcome op st of
             Json_Value \<Rightarrow> read_body lib read body
           | Byte_Stream \<Rightarrow> Inr no_value
           | Empty_Value \<Rightarrow> Inr no_value
           | Json_Error \<Rightarrow> (case read_body lib read_cl_api_error body of
               Inr e \<Rightarrow> Inl (Error_Response e) | Inl e \<Rightarrow> Inl e)
           | Empty_Error \<Rightarrow> Inl (Error_Status st)
           | Unexpected_Response \<Rightarrow> Inl (Unexpected st body), w'))"

text \<open>An operation whose value is decoded and dropped: the answer must have the shape of its type.\<close>

definition run_unit ::
  "'w web \<Rightarrow> hoprd_client \<Rightarrow> client_operation \<Rightarrow> (json \<Rightarrow> bool) \<Rightarrow> 'w \<Rightarrow> (client_error, unit) res \<times> 'w" where
  "run_unit lib c op well_formed w =
     run_operation lib c op (\<lambda>j. if well_formed j then Some () else None) () w"

definition map_result :: "('a \<Rightarrow> 'b) \<Rightarrow> 'a \<times> 'w \<Rightarrow> 'b \<times> 'w" where
  "map_result f r = (f (fst r), snd r)"

section \<open>Operations\<close>

definition api_addresses :: "'w web \<Rightarrow> hoprd_client \<Rightarrow> 'w \<Rightarrow> (string, string) res \<times> 'w" where
  "api_addresses lib c w =
     map_result (map_err (wb_error_text lib)) (run_operation lib c cl_addresses read_cl_addresses [] w)"

definition no_channels :: cl_channels_response where
  "no_channels = \<lparr> cr_all = [], cr_incoming = [], cr_outgoing = [] \<rparr>"

definition list_channels_call ::
  "'w web \<Rightarrow> hoprd_client \<Rightarrow> bool option \<Rightarrow> 'w \<Rightarrow> (client_error, cl_channels_response) res \<times> 'w" where
  "list_channels_call lib c closed w =
     run_operation lib c (cl_list_channels (wb_progenitor lib) None closed) read_cl_channels no_channels w"

definition channel_to :: "string \<Rightarrow> cl_node_channel \<Rightarrow> bool" where
  "channel_to destination ch \<longleftrightarrow> ascii_lowercase (cn_peer_address ch) = ascii_lowercase destination"

definition is_outgoing_channel_open ::
  "'w web \<Rightarrow> hoprd_client \<Rightarrow> string \<Rightarrow> 'w \<Rightarrow> (string, bool) res \<times> 'w" where
  "is_outgoing_channel_open lib c destination w =
     map_result
       (\<lambda>r. res_bind (map_err (\<lambda>e. ''list_channels: '' @ wb_error_text lib e) r) (\<lambda>resp.
          Inr (list_ex (\<lambda>ch. channel_to destination ch \<and> cn_status ch = ''Open'') (cr_outgoing resp))))
       (list_channels_call lib c None w)"

definition outgoing_channel_status ::
  "'w web \<Rightarrow> hoprd_client \<Rightarrow> string \<Rightarrow> 'w \<Rightarrow> (string, string option) res \<times> 'w" where
  "outgoing_channel_status lib c destination w =
     map_result
       (\<lambda>r. res_bind (map_err (wb_error_text lib) r) (\<lambda>resp.
          Inr (map_option cn_status (find (channel_to destination) (cr_outgoing resp)))))
       (list_channels_call lib c (Some True) w)"

text \<open>The shapes of the answers that are decoded and dropped.\<close>

definition ping_shape :: "json \<Rightarrow> bool" where
  "ping_shape j \<longleftrightarrow> read_field ''latency'' (read_sint 64) j \<noteq> None"

definition open_channel_shape :: "json \<Rightarrow> bool" where
  "open_channel_shape j \<longleftrightarrow>
     read_field ''channelId'' as_str j \<noteq> None \<and> read_field ''transactionReceipt'' as_str j \<noteq> None"

definition close_channel_shape :: "json \<Rightarrow> bool" where
  "close_channel_shape j \<longleftrightarrow> read_field ''receipt'' as_str j \<noteq> None"

definition ping_peer_call :: "'w web \<Rightarrow> hoprd_client \<Rightarrow> string \<Rightarrow> 'w \<Rightarrow> (string, unit) res \<times> 'w" where
  "ping_peer_call lib c address w =
     map_result (map_err (wb_error_text lib))
       (run_unit lib c (cl_ping_peer (wb_progenitor lib) address) ping_shape w)"

definition open_channel_call ::
  "'w web \<Rightarrow> hoprd_client \<Rightarrow> string \<Rightarrow> string \<Rightarrow> 'w \<Rightarrow> (string, unit) res \<times> 'w" where
  "open_channel_call lib c destination amount w =
     map_result (map_err (\<lambda>e. ''open_channel to '' @ destination @ '': '' @ wb_error_text lib e))
       (run_unit lib c (cl_open_channel \<lparr> co_amount = amount, co_destination = destination \<rparr>)
          open_channel_shape w)"

definition close_channel_call :: "'w web \<Rightarrow> hoprd_client \<Rightarrow> string \<Rightarrow> 'w \<Rightarrow> (string, unit) res \<times> 'w" where
  "close_channel_call lib c destination w =
     map_result
       (map_err (\<lambda>e.
          ''close_channel to '' @ destination @ '': ''
          @ (case e of
               Unexpected st body \<Rightarrow>
                 ''HTTP '' @ wb_status_text lib st @ '' - '' @ (case body of None \<Rightarrow> [] | Some b \<Rightarrow> b)
             | _ \<Rightarrow> wb_error_text lib e)))
       (run_unit lib c (cl_close_channel (wb_progenitor lib) destination (Some CD_Outgoing))
          close_channel_shape w)"

record open_session_request =
  os_protocol :: string
  os_destination :: string
  os_target :: string
  os_hops :: "64 word"
  os_capabilities :: "cl_capability list option"
  os_response_buffer :: "string option"
  os_max_surb_upstream :: "string option"

definition open_session_body :: "open_session_request \<Rightarrow> cl_session_request" where
  "open_session_body r =
     \<lparr> cs_capabilities = os_capabilities r, cs_destination = os_destination r, cs_flow_control = None,
       cs_forward_path = CR_Hops (os_hops r), cs_listen_host = None, cs_max_client_sessions = None,
       cs_max_surb_upstream = os_max_surb_upstream r, cs_response_buffer = os_response_buffer r,
       cs_return_path = CR_Hops (os_hops r), cs_session_pool = None,
       cs_target = CT_Plain (os_target r) \<rparr>"

definition bound_endpoint :: "cl_session_response \<Rightarrow> (string, string \<times> 16 word) res" where
  "bound_endpoint resp =
     (if 0 \<le> cx_port resp \<and> cx_port resp < 2 ^ 16
      then Inr (cx_ip resp, of_int (cx_port resp))
      else Inl (''session port '' @ show_int (cx_port resp) @ '' out of u16 range''))"

definition open_session ::
  "'w web \<Rightarrow> hoprd_client \<Rightarrow> open_session_request \<Rightarrow> 'w \<Rightarrow> (string, string \<times> 16 word) res \<times> 'w" where
  "open_session lib c r w =
     (case wb_send lib c (op_request (cl_create_client (wb_progenitor lib) (os_protocol r) (open_session_body r))) w of
        (answer, w') \<Rightarrow>
          (res_bind
             (map_err (\<lambda>e. ''create '' @ os_protocol r @ '' session to '' @ os_destination r @ '': '' @ wb_error_text lib e)
                (case answer of
                   Inl e \<Rightarrow> Inl (Communication e)
                 | Inr (st, body) \<Rightarrow>
                     if st = 200 then read_body lib read_cl_session body else Inl (Unexpected st body)))
             bound_endpoint, w'))"

record 'b node_balances =
  nb_node_hopr :: 'b
  nb_node_native :: 'b
  nb_safe_hopr :: 'b
  nb_safe_native :: 'b

definition parse_balances ::
  "(string \<Rightarrow> 'b option) \<Rightarrow> (string \<Rightarrow> 'b option) \<Rightarrow> cl_balances_response \<Rightarrow> (string, 'b node_balances) res" where
  "parse_balances hopr native b =
     (let parse_hopr = (\<lambda>raw. ok_or (''unparseable wxHOPR balance '' @ raw) (hopr raw));
          parse_native = (\<lambda>raw. ok_or (''unparseable xDai balance '' @ raw) (native raw))
      in res_bind (parse_hopr (cb_hopr b)) (\<lambda>nh.
         res_bind (parse_native (cb_native b)) (\<lambda>nn.
         res_bind (parse_hopr (cb_safe_hopr b)) (\<lambda>sh.
         res_bind (parse_native (cb_safe_native b)) (\<lambda>sn.
           Inr \<lparr> nb_node_hopr = nh, nb_node_native = nn, nb_safe_hopr = sh, nb_safe_native = sn \<rparr>)))))"

definition empty_balances :: cl_balances_response where
  "empty_balances = \<lparr> cb_hopr = [], cb_native = [], cb_safe_hopr = [], cb_safe_hopr_allowance = [],
     cb_safe_native = [] \<rparr>"

definition api_balances ::
  "'w web \<Rightarrow> (string \<Rightarrow> 'b option) \<Rightarrow> (string \<Rightarrow> 'b option) \<Rightarrow> hoprd_client \<Rightarrow> 'w
   \<Rightarrow> (string, 'b node_balances) res \<times> 'w" where
  "api_balances lib hopr native c w =
     map_result
       (\<lambda>r. res_bind (map_err (\<lambda>e. ''balances: '' @ wb_error_text lib e) r) (parse_balances hopr native))
       (run_operation lib c cl_balances read_cl_balances empty_balances w)"

definition close_client_call :: "'w web \<Rightarrow> hoprd_client \<Rightarrow> string \<Rightarrow> 16 word \<Rightarrow> 'w \<Rightarrow> (string, unit) res \<times> 'w" where
  "close_client_call lib c ip port w =
     map_result (map_err (wb_error_text lib))
       (run_unit lib c (cl_close_client (wb_progenitor lib) CP_Udp ip (ucast port)) (\<lambda>_. True) w)"

section \<open>Metrics\<close>

definition client_metrics ::
  "'w web \<Rightarrow> 'f f64_lib \<Rightarrow> hoprd_client \<Rightarrow> 'w \<Rightarrow> (string, 'f sample list) res \<times> 'w" where
  "client_metrics lib f c w =
     (let url = hc_base_url c @ ''/metrics''
      in case wb_get lib url (hc_headers c) w of
           (Inl e, w') \<Rightarrow> (Inl (''scraping '' @ url), w')
         | (Inr (st, body), w') \<Rightarrow>
             (if st = 422 then Inr []
              else if \<not> (200 \<le> st \<and> st \<le> 299) then
                Inl (''scraping '' @ url @ '': HTTP '' @ wb_status_text lib st @ '' - ''
                     @ (case body of None \<Rightarrow> [] | Some b \<Rightarrow> b))
              else (case body of
                      None \<Rightarrow> Inl ''reading metrics body''
                    | Some b \<Rightarrow> Inr (parse_metrics f b)), w'))"

section \<open>Waiting for a node\<close>

definition probe_status ::
  "'w web \<Rightarrow> hoprd_client \<Rightarrow> string \<Rightarrow> 'w \<Rightarrow> (string, unit list) res \<times> 'w" where
  "probe_status lib c path w =
     (let probe = (\<lambda>op. case run_unit lib c op (\<lambda>_. True) w of
                          (r, w') \<Rightarrow> (Inr (if is_ok r then [] else [()]), w'))
      in if path = ''/startedz'' then probe cl_startedz
         else if path = ''/readyz'' then probe cl_readyz
         else (Inl (''unknown status path: '' @ path), w))"

definition wait_status ::
  "'w web \<Rightarrow> hoprd_client \<Rightarrow> string \<Rightarrow> nat \<Rightarrow> 'w \<Rightarrow> ((string, unit) res \<times> 'w) option" where
  "wait_status lib c path timeout w =
     poll (clock.truncate lib) (secs 1) timeout (\<lambda>_. ''timeout while waiting for '' @ path)
       (probe_status lib c path) w"

definition wait_started :: "'w web \<Rightarrow> hoprd_client \<Rightarrow> nat \<Rightarrow> 'w \<Rightarrow> ((string, unit) res \<times> 'w) option" where
  "wait_started lib c timeout w = wait_status lib c ''/startedz'' timeout w"

definition wait_ready :: "'w web \<Rightarrow> hoprd_client \<Rightarrow> nat \<Rightarrow> 'w \<Rightarrow> ((string, unit) res \<times> 'w) option" where
  "wait_ready lib c timeout w = wait_status lib c ''/readyz'' timeout w"

section \<open>The mesh\<close>

record node_process =
  np_id :: nat
  np_api :: hoprd_client
  np_address :: "string option"

text \<open>The ordered pairs of nodes with different known addresses.\<close>

definition mesh_pair :: "node_process \<Rightarrow> node_process \<Rightarrow> (nat \<times> nat \<times> hoprd_client \<times> string) option" where
  "mesh_pair src dst =
     (case (np_address src, np_address dst) of
        (Some a, Some b) \<Rightarrow> if a = b then None else Some (np_id src, np_id dst, np_api src, b)
      | _ \<Rightarrow> None)"

definition mesh_pairs :: "node_process list \<Rightarrow> (nat \<times> nat \<times> hoprd_client \<times> string) list" where
  "mesh_pairs nodes = concat (List.map (\<lambda>src. List.map_filter (mesh_pair src) nodes) nodes)"

text \<open>A check of every pair, which collects those that fail.\<close>

fun check_pairs ::
  "(hoprd_client \<Rightarrow> string \<Rightarrow> 'w \<Rightarrow> bool \<times> 'w) \<Rightarrow> (nat \<times> nat \<times> hoprd_client \<times> string) list \<Rightarrow> 'w
   \<Rightarrow> (nat \<times> nat) list \<times> 'w" where
  "check_pairs f [] w = ([], w)"
| "check_pairs f ((s, d, api, addr) # ps) w =
     (case f api addr w of (ok, w') \<Rightarrow>
        (case check_pairs f ps w' of (failed, w'') \<Rightarrow> (if ok then failed else (s, d) # failed, w'')))"

definition arrow :: string where
  "arrow = [CHR 0xE2, CHR 0x86, CHR 0x92]"

definition show_pairs :: "(nat \<times> nat) list \<Rightarrow> string" where
  "show_pairs ps = join_with '', '' (List.map (\<lambda>(s, d). show_nat s @ arrow @ show_nat d) ps)"

definition wait_full_mesh_reachable ::
  "'w web \<Rightarrow> node_process list \<Rightarrow> nat \<Rightarrow> 'w \<Rightarrow> ((string, unit) res \<times> 'w) option" where
  "wait_full_mesh_reachable lib nodes timeout w =
     poll (clock.truncate lib) (secs 2) timeout
       (\<lambda>failed. ''timeout waiting for peer visibility: '' @ show_pairs failed)
       (\<lambda>w. map_result Inr
              (check_pairs (\<lambda>api dst w. map_result is_ok (ping_peer_call lib api dst w)) (mesh_pairs nodes) w)) w"

definition unresolved :: "node_process list \<Rightarrow> nat option" where
  "unresolved nodes = map_option np_id (find (\<lambda>n. np_address n = None) nodes)"

definition reports_open :: "'w web \<Rightarrow> hoprd_client \<Rightarrow> string \<Rightarrow> 'w \<Rightarrow> bool \<times> 'w" where
  "reports_open lib api dst w = map_result (\<lambda>r. r = Inr True) (is_outgoing_channel_open lib api dst w)"

definition wait_full_mesh_channels ::
  "'w web \<Rightarrow> node_process list \<Rightarrow> nat \<Rightarrow> 'w \<Rightarrow> ((string, unit) res \<times> 'w) option" where
  "wait_full_mesh_channels lib nodes timeout w =
     (case unresolved nodes of
        Some i \<Rightarrow> Some (Inl (''node '' @ show_nat i @ '' address not resolved before waiting for full-mesh channels''), w)
      | None \<Rightarrow>
          poll (clock.truncate lib) (secs 5) timeout
            (\<lambda>missing. ''timeout waiting for full-mesh channels: '' @ show_pairs missing)
            (\<lambda>w. map_result Inr (check_pairs (reports_open lib) (mesh_pairs nodes) w)) w)"

text \<open>One round of opening: a pair whose channel is open is left alone, otherwise a channel is opened, and a
  failure to open it counts only if the channel is still not open. A failing query ends the round.\<close>

fun open_pairs ::
  "'w web \<Rightarrow> string \<Rightarrow> (nat \<times> nat \<times> hoprd_client \<times> string) list \<Rightarrow> 'w
   \<Rightarrow> (string, (nat \<times> nat) list) res \<times> 'w" where
  "open_pairs lib amount [] w = (Inr [], w)"
| "open_pairs lib amount ((s, d, api, addr) # ps) w =
     (case is_outgoing_channel_open lib api addr w of
        (Inl e, w1) \<Rightarrow> (Inl e, w1)
      | (Inr True, w1) \<Rightarrow> open_pairs lib amount ps w1
      | (Inr False, w1) \<Rightarrow>
          (case open_channel_call lib api addr amount w1 of
             (Inr _, w2) \<Rightarrow> open_pairs lib amount ps w2
           | (Inl _, w2) \<Rightarrow>
               (case is_outgoing_channel_open lib api addr w2 of
                  (Inl e, w3) \<Rightarrow> (Inl e, w3)
                | (Inr True, w3) \<Rightarrow> open_pairs lib amount ps w3
                | (Inr False, w3) \<Rightarrow>
                    map_result (\<lambda>r. res_bind r (\<lambda>missing. Inr ((s, d) # missing)))
                      (open_pairs lib amount ps w3))))"

definition open_full_mesh_channels ::
  "'w web \<Rightarrow> node_process list \<Rightarrow> string \<Rightarrow> nat \<Rightarrow> 'w \<Rightarrow> ((string, unit) res \<times> 'w) option" where
  "open_full_mesh_channels lib nodes amount timeout w =
     (case unresolved nodes of
        Some i \<Rightarrow> Some (Inl (''node '' @ show_nat i @ '' address not resolved before opening full-mesh channels''), w)
      | None \<Rightarrow>
          poll (clock.truncate lib) (secs 5) timeout
            (\<lambda>missing. ''timeout opening full-mesh channels: '' @ show_pairs missing)
            (open_pairs lib amount (mesh_pairs nodes)) w)"

end
