(* ===== verification/Cluster_Client_Laws.thy ===== *)
theory Cluster_Client_Laws
  imports Cluster_Client
begin

text \<open>
  The waiting loops of the cluster tools return in every world whose clock runs, with what their result
  says of the nodes; and what the tools read of a channel is what the node's handler answers.
\<close>

section \<open>Time passes\<close>

text \<open>Sleeping takes the time asked for and requests do not turn the clock back.\<close>

definition web_runs :: "'w web \<Rightarrow> bool" where
  "web_runs lib \<longleftrightarrow> clock_runs (clock.truncate lib)
     \<and> (\<forall>c q. keeps_time (clock.truncate lib) (wb_send lib c q))"

lemma web_runs_clock: "web_runs lib \<Longrightarrow> clock_runs (clock.truncate lib)"
  by (simp add: web_runs_def)

lemma keeps_time_map_result: "keeps_time ck f \<Longrightarrow> keeps_time ck (\<lambda>w. map_result g (f w))"
  by (simp add: keeps_time_def map_result_def)

lemma keeps_time_pair: "keeps_time ck f \<Longrightarrow> (\<And>w r w'. f w = (r, w') \<Longrightarrow> snd (g w) = w') \<Longrightarrow> keeps_time ck g"
  unfolding keeps_time_def by (metis prod.collapse)

lemma run_operation_world:
  "snd (run_operation lib c op read v w) = snd (wb_send lib c (op_request op) w)"
  by (simp add: run_operation_def split: prod.split sum.split)

lemma run_operation_time: "web_runs lib \<Longrightarrow> keeps_time (clock.truncate lib) (run_operation lib c op read v)"
  unfolding web_runs_def keeps_time_def by (simp add: run_operation_world)

lemma run_unit_time: "web_runs lib \<Longrightarrow> keeps_time (clock.truncate lib) (run_unit lib c op shape)"
  by (simp add: run_unit_def [abs_def] run_operation_time)

lemma channel_queries_time:
  assumes "web_runs lib"
  shows "keeps_time (clock.truncate lib) (ping_peer_call lib c a)"
    and "keeps_time (clock.truncate lib) (is_outgoing_channel_open lib c a)"
    and "keeps_time (clock.truncate lib) (open_channel_call lib c a n)"
  unfolding ping_peer_call_def [abs_def] is_outgoing_channel_open_def [abs_def] open_channel_call_def [abs_def]
    list_channels_call_def
  using assms by (intro keeps_time_map_result run_unit_time run_operation_time; simp)+

lemma keeps_time_trans:
  "keeps_time ck f \<Longrightarrow> f w = (r, w1) \<Longrightarrow> ck_now ck w1 \<le> t \<Longrightarrow> ck_now ck w \<le> t"
  by (drule keeps_timeD) auto

lemma check_pairs_time:
  assumes f: "\<And>api addr. keeps_time ck (f api addr)"
  shows "keeps_time ck (check_pairs f ps)"
  unfolding keeps_time_def
proof
  show "ck_now ck w \<le> ck_now ck (snd (check_pairs f ps w))" for w
  proof (induction ps arbitrary: w)
    case (Cons p ps)
    obtain s d api addr where p: "p = (s, d, api, addr)" by (cases p)
    obtain ok w1 where r: "f api addr w = (ok, w1)" by (cases "f api addr w")
    have "snd (check_pairs f (p # ps) w) = snd (check_pairs f ps w1)"
      by (simp add: p r split: prod.split)
    then show ?case using keeps_time_trans [OF f r Cons.IH] by simp
  qed simp
qed

text \<open>The round of opening, step by step.\<close>

lemma open_pairs_cases:
  obtains (query_failed) e w1 where "is_outgoing_channel_open lib api addr w = (Inl e, w1)"
      "open_pairs lib n ((s, d, api, addr) # ps) w = (Inl e, w1)"
  | (was_open) w1 where "is_outgoing_channel_open lib api addr w = (Inr True, w1)"
      "open_pairs lib n ((s, d, api, addr) # ps) w = open_pairs lib n ps w1"
  | (opened) w1 w2 where "is_outgoing_channel_open lib api addr w = (Inr False, w1)"
      "open_channel_call lib api addr n w1 = (Inr (), w2)"
      "open_pairs lib n ((s, d, api, addr) # ps) w = open_pairs lib n ps w2"
  | (requery_failed) w1 w2 e' e w3 where "is_outgoing_channel_open lib api addr w = (Inr False, w1)"
      "open_channel_call lib api addr n w1 = (Inl e', w2)"
      "is_outgoing_channel_open lib api addr w2 = (Inl e, w3)"
      "open_pairs lib n ((s, d, api, addr) # ps) w = (Inl e, w3)"
  | (open_after_all) w1 w2 e' w3 where "is_outgoing_channel_open lib api addr w = (Inr False, w1)"
      "open_channel_call lib api addr n w1 = (Inl e', w2)"
      "is_outgoing_channel_open lib api addr w2 = (Inr True, w3)"
      "open_pairs lib n ((s, d, api, addr) # ps) w = open_pairs lib n ps w3"
  | (not_opened) w1 w2 e' w3 where "is_outgoing_channel_open lib api addr w = (Inr False, w1)"
      "open_channel_call lib api addr n w1 = (Inl e', w2)"
      "is_outgoing_channel_open lib api addr w2 = (Inr False, w3)"
      "open_pairs lib n ((s, d, api, addr) # ps) w
       = map_result (\<lambda>r. res_bind r (\<lambda>missing. Inr ((s, d) # missing))) (open_pairs lib n ps w3)"
proof -
  obtain a w1 where q: "is_outgoing_channel_open lib api addr w = (a, w1)" by (cases "is_outgoing_channel_open lib api addr w")
  obtain b w2 where o: "open_channel_call lib api addr n w1 = (b, w2)" by (cases "open_channel_call lib api addr n w1")
  obtain c w3 where r: "is_outgoing_channel_open lib api addr w2 = (c, w3)" by (cases "is_outgoing_channel_open lib api addr w2")
  show thesis
  proof (cases a)
    case (Inl e)
    then show ?thesis using query_failed q by simp
  next
    case (Inr op)
    show ?thesis
    proof (cases op)
      case True
      then show ?thesis using was_open q Inr by simp
    next
      case False
      note q = q [unfolded Inr eq_False [THEN iffD2, OF False]]
      show ?thesis
      proof (cases b)
        case (Inr u)
        then show ?thesis using opened q o by simp
      next
        case (Inl e')
        show ?thesis
        proof (cases c)
          case (Inl e)
          then show ?thesis using requery_failed q o \<open>b = Inl e'\<close> r by simp
        next
          case (Inr again)
          then show ?thesis using open_after_all not_opened q o \<open>b = Inl e'\<close> r by (cases again) simp_all
        qed
      qed
    qed
  qed
qed

lemma open_pairs_time:
  assumes w: "web_runs lib"
  shows "keeps_time (clock.truncate lib) (open_pairs lib n ps)"
  unfolding keeps_time_def
proof
  let ?ck = "clock.truncate lib"
  note times = keeps_timeD [OF channel_queries_time(2) [OF w]] keeps_timeD [OF channel_queries_time(3) [OF w]]
  show "ck_now ?ck w \<le> ck_now ?ck (snd (open_pairs lib n ps w))" for w
  proof (induction ps arbitrary: w)
    case (Cons p ps)
    obtain s d api addr where p: "p = (s, d, api, addr)" by (cases p)
    show ?case
      by (cases rule: open_pairs_cases [where lib = lib and api = api and addr = addr and w = w
            and n = n and s = s and d = d and ps = ps])
         (auto simp: p map_result_def dest!: times intro!: order_trans [OF _ Cons.IH])
  qed simp
qed

section \<open>Waiting for a node\<close>

lemma poll_clock: "ck_sleep (clock.truncate lib) = ck_sleep lib" "ck_now (clock.truncate lib) = ck_now lib"
  by (simp_all add: clock.defs)

lemma probe_time: "web_runs lib \<Longrightarrow> keeps_time (clock.truncate lib) (probe_status lib c path)"
proof -
  assume w: "web_runs lib"
  have "snd (probe_status lib c path v) = (if path = ''/startedz'' then snd (run_unit lib c cl_startedz (\<lambda>_. True) v)
      else if path = ''/readyz'' then snd (run_unit lib c cl_readyz (\<lambda>_. True) v) else v)" for v
    by (simp add: probe_status_def Let_def split: prod.split)
  then show ?thesis
    using run_unit_time [OF w] by (simp add: keeps_time_def)
qed

definition probe_operation :: "string \<Rightarrow> client_operation option" where
  "probe_operation path =
     (if path = ''/startedz'' then Some cl_startedz else if path = ''/readyz'' then Some cl_readyz else None)"

lemma probe_ok:
  assumes "probe_status lib c path w = (Inr [], w')"
  shows "\<exists>op. probe_operation path = Some op \<and> run_unit lib c op (\<lambda>_. True) w = (Inr (), w')"
proof -
  have "is_ok r \<longleftrightarrow> r = Inr ()" for r :: "(client_error, unit) res" by (auto simp: is_ok_iff)
  then show ?thesis
    using assms by (auto simp: probe_status_def probe_operation_def Let_def split: if_splits prod.splits)
qed

lemma probe_error:
  "probe_status lib c path w = (Inl e, w') \<Longrightarrow> probe_operation path = None"
  by (auto simp: probe_status_def probe_operation_def Let_def split: if_splits prod.splits)

lemma probe_answer:
  assumes "run_unit lib c op (\<lambda>_. True) w = (Inr (), w')" and "op \<in> {cl_startedz, cl_readyz}"
  shows "\<exists>body. wb_send lib c (op_request op) w = (Inr (200, body), w')"
proof -
  have "op_outcome op = on_probe [412]"
    using assms(2) by (auto simp: cl_startedz_def cl_readyz_def raw_operation_def)
  then show ?thesis
    using assms(1)
    by (auto simp: run_unit_def run_operation_def on_probe_def split: prod.splits sum.splits if_splits)
qed

lemma wait_status_result:
  assumes ret: "wait_status lib c path timeout w = Some (r, w')"
  shows "case r of
      Inr _ \<Rightarrow> \<exists>op w0 body. probe_operation path = Some op \<and> wb_send lib c (op_request op) w0 = (Inr (200, body), w')
    | Inl _ \<Rightarrow> probe_operation path = None \<or> timeout < ck_now lib w' - ck_now lib w"
proof -
  let ?ck = "clock.truncate lib"
  have last: "last_attempt ?ck (ck_now ?ck w) timeout (\<lambda>_. ''timeout while waiting for '' @ path)
      (probe_status lib c path) (\<lambda>_. True) (r, w')"
    by (rule poll_result [where I = "\<lambda>_. True", OF ret [unfolded wait_status_def]]) simp_all
  show ?thesis
  proof (cases r)
    case (Inl e)
    from last [unfolded Inl] have "probe_operation path = None \<or> timeout < ck_now lib w' - ck_now lib w"
    proof (cases rule: last_attempt_error)
      case broke_off
      show ?thesis by (rule disjI1) (rule probe_error [OF broke_off(2)])
    next
      case timed_out
      show ?thesis by (rule disjI2) (rule timed_out(5) [unfolded elapsed_def poll_clock])
    qed
    then show ?thesis by (simp add: Inl)
  next
    case (Inr u)
    then have "last_attempt ?ck (ck_now ?ck w) timeout (\<lambda>_. ''timeout while waiting for '' @ path)
      (probe_status lib c path) (\<lambda>_. True) (Inr (), w')" using last by simp
    from last_attempt_ok [OF this] obtain w0 where p: "probe_status lib c path w0 = (Inr [], w')" by blast
    obtain op where op: "probe_operation path = Some op" "run_unit lib c op (\<lambda>_. True) w0 = (Inr (), w')"
      using probe_ok [OF p] by blast
    have "op \<in> {cl_startedz, cl_readyz}" using op(1) by (auto simp: probe_operation_def split: if_splits)
    from probe_answer [OF op(2) this] op(1) show ?thesis unfolding Inr sum.case by blast
  qed
qed

lemma wait_status_returns:
  assumes "web_runs lib"
  shows "\<exists>r w'. wait_status lib c path timeout w = Some (r, w')"
  unfolding wait_status_def
  by (rule poll_returns [OF web_runs_clock [OF assms] probe_time [OF assms]]) (simp add: secs_def)

text \<open>Waiting for a node always comes to an end, with a true answer. Whatever the node does, and however long a
  request takes, \<open>wait_status\<close> returns: with success only if the node just answered the probe with 200, and
  with an error only if the path is not one of the two probes or more time than the timeout has passed.\<close>

theorem wait_status_settles:
  assumes "web_runs lib"
  shows "\<exists>r w'. wait_status lib c path timeout w = Some (r, w')
    \<and> (case r of
         Inr _ \<Rightarrow> \<exists>op w0 body. probe_operation path = Some op
            \<and> wb_send lib c (op_request op) w0 = (Inr (200, body), w')
       | Inl _ \<Rightarrow> probe_operation path = None \<or> timeout < ck_now lib w' - ck_now lib w)"
proof -
  obtain r w' where "wait_status lib c path timeout w = Some (r, w')"
    using wait_status_returns [OF assms] by blast
  from conjI [OF this wait_status_result [OF this]] show ?thesis by (intro exI)
qed

section \<open>The mesh\<close>

text \<open>A reading of the world in which the channels are: what a node reports open is, what was opened is, and
  neither queries nor openings nor the passing of time take a channel away.\<close>

definition tracks_channels :: "'w web \<Rightarrow> string \<Rightarrow> (hoprd_client \<Rightarrow> string \<Rightarrow> 'w \<Rightarrow> bool) \<Rightarrow> bool" where
  "tracks_channels lib n P \<longleftrightarrow>
     (\<forall>c a w w'. is_outgoing_channel_open lib c a w = (Inr True, w') \<longrightarrow> P c a w')
     \<and> (\<forall>c a w w'. open_channel_call lib c a n w = (Inr (), w') \<longrightarrow> P c a w')
     \<and> (\<forall>c a w r w' c' a'. is_outgoing_channel_open lib c a w = (r, w') \<longrightarrow> P c' a' w \<longrightarrow> P c' a' w')
     \<and> (\<forall>c a w r w' c' a'. open_channel_call lib c a n w = (r, w') \<longrightarrow> P c' a' w \<longrightarrow> P c' a' w')
     \<and> (\<forall>d w c' a'. P c' a' w \<longrightarrow> P c' a' (ck_sleep lib d w))"

lemma tracksD:
  assumes "tracks_channels lib n P"
  shows "is_outgoing_channel_open lib c a w = (Inr True, w') \<Longrightarrow> P c a w'"
    and "open_channel_call lib c a n w = (Inr (), w') \<Longrightarrow> P c a w'"
    and "is_outgoing_channel_open lib c a w = (r, w') \<Longrightarrow> P c' a' w \<Longrightarrow> P c' a' w'"
    and "open_channel_call lib c a n w = (r', w') \<Longrightarrow> P c' a' w \<Longrightarrow> P c' a' w'"
  using assms unfolding tracks_channels_def by metis+

lemma open_pairs_keeps:
  assumes t: "tracks_channels lib n P"
  shows "P c a w \<Longrightarrow> P c a (snd (open_pairs lib n ps w))"
proof (induction ps arbitrary: w)
  case (Cons p ps)
  obtain s d api addr where p: "p = (s, d, api, addr)" by (cases p)
  note keep = tracksD(3,4) [OF t, where c' = c and a' = a]
  show ?case
    by (cases rule: open_pairs_cases [where lib = lib and api = api and addr = addr and w = w
          and n = n and s = s and d = d and ps = ps])
       (use Cons.prems in \<open>auto simp: p map_result_def intro!: Cons.IH dest!: keep\<close>)
qed simp

lemma open_pairs_all:
  assumes t: "tracks_channels lib n P"
  shows "open_pairs lib n ps w = (Inr [], w') \<Longrightarrow> (s, d, api, addr) \<in> set ps \<Longrightarrow> P api addr w'"
proof (induction ps arbitrary: w)
  case (Cons p ps)
  obtain s1 d1 api1 addr1 where p: "p = (s1, d1, api1, addr1)" by (cases p)
  have rest: "P api addr w'" if "open_pairs lib n ps v = (Inr [], w')" "P api1 addr1 v" for v
  proof (cases "(s, d, api, addr) \<in> set ps")
    case True
    then show ?thesis using Cons.IH [OF that(1)] by simp
  next
    case False
    then have "api = api1" "addr = addr1" using Cons.prems(2) p by simp_all
    then show ?thesis using open_pairs_keeps [OF t, of api1 addr1 v ps] that by simp
  qed
  show ?case
  proof (cases rule: open_pairs_cases [where lib = lib and api = api1 and addr = addr1 and w = w
          and n = n and s = s1 and d = d1 and ps = ps])
    case was_open
    then show ?thesis using Cons.prems(1) rest tracksD(1) [OF t was_open(1)] by (simp add: p)
  next
    case opened
    then show ?thesis using Cons.prems(1) rest tracksD(2) [OF t opened(2)] by (simp add: p)
  next
    case open_after_all
    then show ?thesis using Cons.prems(1) rest tracksD(1) [OF t open_after_all(3)] by (simp add: p)
  next
    case not_opened
    then show ?thesis using Cons.prems(1)
      by (cases "fst (open_pairs lib n ps w3)"; auto simp: p map_result_def res_bind_Ok_iff)
  qed (use Cons.prems(1) in \<open>simp_all add: p\<close>)
qed simp

lemma mesh_pairs_iff:
  "(s, d, c, a) \<in> set (mesh_pairs nodes) \<longleftrightarrow>
     (\<exists>src\<in>set nodes. \<exists>dst\<in>set nodes. mesh_pair src dst = Some (s, d, c, a))"
  by (auto simp: mesh_pairs_def filter_map_Some)

lemma unresolved_None: "unresolved nodes = None \<longleftrightarrow> (\<forall>n\<in>set nodes. np_address n \<noteq> None)"
  by (auto simp: unresolved_def find_None_iff)

text \<open>C22: Opening the mesh always ends, and success means the whole mesh. In any world whose clock runs
  \<open>open_full_mesh_channels\<close> returns; if it returns success then every node's address was known and every
  node has a channel open to every other node with a different address, whichever channels were open
  before, whichever attempts failed, and however many rounds it took.\<close>

theorem open_mesh_settles:
  assumes "web_runs lib" and "tracks_channels lib amount P"
  shows "\<exists>r w'. open_full_mesh_channels lib nodes amount timeout w = Some (r, w')
    \<and> (r = Inr () \<longrightarrow>
         (\<forall>src\<in>set nodes. \<forall>dst\<in>set nodes. \<exists>a b. np_address src = Some a \<and> np_address dst = Some b
            \<and> (a \<noteq> b \<longrightarrow> P (np_api src) b w')))"
proof (cases "unresolved nodes")
  case (Some i)
  then show ?thesis by (simp add: open_full_mesh_channels_def)
next
  case None
  let ?ck = "clock.truncate lib"
  obtain r w' where ret: "poll ?ck (secs 5) timeout (\<lambda>missing. ''timeout opening full-mesh channels: '' @ show_pairs missing)
      (open_pairs lib amount (mesh_pairs nodes)) w = Some (r, w')"
    using poll_returns [OF web_runs_clock [OF assms(1)] open_pairs_time [OF assms(1)], of "secs 5"]
    by (force simp: secs_def)
  have all: "P (np_api src) b w'"
    if ok: "r = Inr ()" and "src \<in> set nodes" "dst \<in> set nodes" "np_address src = Some a" "np_address dst = Some b" "a \<noteq> b"
    for src dst a b
  proof -
    obtain w0 where "open_pairs lib amount (mesh_pairs nodes) w0 = (Inr [], w')"
      using poll_ok [where I = "\<lambda>_. True", OF ret [unfolded ok]] by blast
    moreover have "(np_id src, np_id dst, np_api src, b) \<in> set (mesh_pairs nodes)"
      unfolding mesh_pairs_iff using that
      by (intro bexI [of _ src] bexI [of _ dst]) (simp_all add: mesh_pair_def)
    ultimately show ?thesis by (rule open_pairs_all [OF assms(2)])
  qed
  have known: "np_address n \<noteq> None" if "n \<in> set nodes" for n
    using None that by (simp add: unresolved_None)
  have "open_full_mesh_channels lib nodes amount timeout w = Some (r, w')"
    using None ret by (simp add: open_full_mesh_channels_def)
  moreover have "\<exists>a b. np_address src = Some a \<and> np_address dst = Some b \<and> (a \<noteq> b \<longrightarrow> P (np_api src) b w')"
    if "r = Inr ()" "src \<in> set nodes" "dst \<in> set nodes" for src dst
    using all [OF that] known [OF that(2)] known [OF that(3)] by auto
  ultimately show ?thesis by blast
qed

section \<open>A sample world\<close>

text \<open>Two clients of one small network: the world is its time and whether the channels are open. A node lists
  its channels as open or lists none, and opening a channel opens them.\<close>

definition sample_listing :: "bool \<Rightarrow> json" where
  "sample_listing b = JObj
     [(''all'', JArr []), (''incoming'', JArr []),
      (''outgoing'', JArr (if b then
          List.map (\<lambda>a. JObj [(''balance'', JStr ''1''), (''id'', JStr ''7''), (''peerAddress'', JStr a),
              (''status'', JStr ''Open'')]) [''0xA'', ''0xb'']
        else [])),
      (''channelId'', JStr ''7''), (''transactionReceipt'', JStr ''8'')]"

definition sample_send :: "hoprd_client \<Rightarrow> client_request \<Rightarrow> nat \<times> bool \<Rightarrow> (string, answer) res \<times> nat \<times> bool" where
  "sample_send c q w =
     (if cq_operation q = ''open_channel'' then (Inr (201, Some ''y''), Suc (fst w), True)
      else (Inr (200, Some (if snd w then ''y'' else ''n'')), Suc (fst w), snd w))"

definition sample_web :: "(nat \<times> bool) web" where
  "sample_web =
     \<lparr> ck_now = fst, ck_sleep = (\<lambda>d w. (fst w + d, snd w)),
       wb_send = sample_send, wb_get = (\<lambda>u hs w. (Inl ''down'', w)),
       wb_json = (\<lambda>s. Some (sample_listing (s = ''y''))),
       wb_progenitor = \<lparr> pl_encode_path = \<lambda>s. s, pl_query = \<lambda>k v. [] \<rparr>,
       wb_error_text = (\<lambda>e. []), wb_status_text = show_nat \<rparr>"

definition sample_client :: hoprd_client where
  "sample_client = \<lparr> hc_base_url = ''http://127.0.0.1:3000'', hc_headers = [] \<rparr>"

definition sample_nodes :: "node_process list" where
  "sample_nodes =
     [\<lparr> np_id = 0, np_api = sample_client, np_address = Some ''0xa'' \<rparr>,
      \<lparr> np_id = 1, np_api = sample_client, np_address = Some ''0xb'' \<rparr>]"

lemma sample_web_runs: "web_runs sample_web"
  by (simp add: web_runs_def clock_runs_def keeps_time_def sample_web_def sample_send_def clock.defs)

theorem wait_status_settles_witness:
  "\<exists>r w'. wait_status sample_web sample_client ''/startedz'' (secs 120) (0, False) = Some (r, w')"
  using wait_status_settles [OF sample_web_runs, of sample_client "''/startedz''" "secs 120" "(0, False)"] by blast

lemma sample_list_open:
  "is_outgoing_channel_open sample_web c a w =
     (Inr (snd w \<and> (ascii_lowercase a = ''0xa'' \<or> ascii_lowercase a = ''0xb'')), Suc (fst w), snd w)"
proof -
  have l: "ascii_lowercase ''0xA'' = ''0xa''" "ascii_lowercase ''0xb'' = ''0xb''"
    by code_simp+
  have read: "read_cl_channels (sample_listing b) =
      Some \<lparr> cr_all = [], cr_incoming = [],
        cr_outgoing = (if b then List.map (\<lambda>a. \<lparr> cn_balance = ''1'', cn_id = ''7'', cn_peer_address = a,
            cn_status = ''Open'' \<rparr>) [''0xA'', ''0xb''] else []) \<rparr>" for b
    by (simp add: read_cl_channels_def sample_listing_def read_field_JObj read_list_def read_cl_node_channel_def)
  have "list_channels_call sample_web c None w =
      (Inr \<lparr> cr_all = [], cr_incoming = [],
        cr_outgoing = (if snd w then List.map (\<lambda>a. \<lparr> cn_balance = ''1'', cn_id = ''7'', cn_peer_address = a,
            cn_status = ''Open'' \<rparr>) [''0xA'', ''0xb''] else []) \<rparr>, Suc (fst w), snd w)"
    by (simp add: list_channels_call_def run_operation_def cl_list_channels_def json_operation_def
        sample_web_def sample_send_def on_status_def read_body_def read)
  then show ?thesis
    using l by (auto simp: is_outgoing_channel_open_def map_result_def channel_to_def)
qed

lemma sample_open: "open_channel_call sample_web c a n w = (Inr (), Suc (fst w), True)"
  by (simp add: open_channel_call_def map_result_def run_unit_def run_operation_def cl_open_channel_def
      json_operation_def sample_web_def sample_send_def on_status_def read_body_def open_channel_shape_def
      sample_listing_def read_field_JObj)

lemma sample_tracks: "tracks_channels sample_web ''1'' (\<lambda>c a w. snd w)"
  unfolding tracks_channels_def sample_list_open sample_open by (simp add: sample_web_def)

theorem open_mesh_settles_witness:
  "\<exists>r w'. open_full_mesh_channels sample_web sample_nodes ''1'' (secs 120) (0, False) = Some (r, w')"
  using open_mesh_settles [OF sample_web_runs sample_tracks, of sample_nodes "secs 120" "(0, False)"] by blast

end
