(* ===== verification/Cluster_Access.thy ===== *)
theory Cluster_Access
  imports Cluster_Client_Laws Api_Client_Laws
begin

text \<open>
  The cluster tools against the node's REST API: a client built with the node's token passes the
  authentication of every endpoint, and what the tools conclude from a channel listing is what the
  channels of the node are.
\<close>

section \<open>The token\<close>

text \<open>A header value is the text it was made of; visible text always makes one.\<close>

definition header_values :: "header_lib \<Rightarrow> bool" where
  "header_values lib \<longleftrightarrow>
     (\<forall>s v. hl_value lib s = Some v \<longrightarrow> v = s) \<and> (\<forall>s. list_all visible_ascii s \<longrightarrow> hl_value lib s = Some s)"

lemma client_new_headers:
  assumes "client_new lib url (Some t) = Inr c" and "header_values lib"
  shows "hc_headers c = [(''authorization'', ''Bearer '' @ t)]" and "hc_base_url c = url"
  using assms by (auto simp: client_new_def header_values_def res_bind_Ok_iff split: if_splits option.splits)

lemma bearer_grants:
  assumes "list_all visible_ascii t"
  shows "header_grants t (''authorization'', ''Bearer '' @ t)"
proof -
  have "list_all visible_ascii ''Bearer ''" by (simp add: visible_ascii_def)
  moreover have "eq_ignore_ascii_case ''Bearer'' ''bearer''" by code_simp
  ultimately show ?thesis
    using assms by (auto simp: header_grants_iff intro!: exI [of _ "''Bearer''"])
qed


definition sample_header_lib :: header_lib where
  "sample_header_lib = \<lparr> hl_value = (\<lambda>s. if list_all visible_ascii s then Some s else None), hl_builds = (\<lambda>_. True) \<rparr>"


section \<open>The channels\<close>

definition own_channels :: channels_query_request where
  "own_channels = \<lparr> cq_including_closed = False, cq_full_topology = False \<rparr>"

lemma list_own_channels:
  assumes "snd (list_channels n own_channels) = json_ok 200 resp"
    and "nd_channels_from n (nd_me n) = Inr from"
  shows "ncr_all resp = []"
    and "ncr_outgoing resp = List.map outgoing_info (filter (\<lambda>c. ce_status c \<noteq> CS_Closed) from)"
  using assms
  by (auto simp: list_channels_def own_channels_def response_defs Let_def res_bind_Ok_iff split: sum.splits)

text \<open>C23: The tools see a channel open exactly when the node holds it open. If the node answers the listing
  with what its handler returns, as JSON, then \<open>is_outgoing_channel_open\<close> is true exactly when one of the
  node's outgoing channels is open and leads to that address, written in any mixture of cases.\<close>

theorem open_check_is_exact:
  assumes "wb_send lib c (op_request (cl_list_channels (wb_progenitor lib) None None)) w = (Inr (200, Some text), w')"
    and "wb_json lib text = Some (channels_json dl resp)"
    and "snd (list_channels n own_channels) = json_ok 200 resp"
    and "nd_channels_from n (nd_me n) = Inr from"
    and "\<And>st. dl_channel_status dl st = ''Open'' \<longleftrightarrow> st = CS_Open"
  shows "is_outgoing_channel_open lib c destination w =
    (Inr (\<exists>ch\<in>set from. ce_status ch = CS_Open
        \<and> ascii_lowercase (dp_checksum dl (ce_destination ch)) = ascii_lowercase destination), w')"
proof -
  note resp = list_own_channels [OF assms(3,4)]
  have read: "read_cl_channels (channels_json dl resp) =
      Some \<lparr> cr_all = [], cr_incoming = List.map (cl_channel_of dl) (ncr_incoming resp),
        cr_outgoing = List.map (cl_channel_of dl) (ncr_outgoing resp) \<rparr>"
    by (simp add: read_cl_channels_def channels_json_def read_field_JObj channel_infos_read
        read_list_map node_channel_crosses resp(1) del: list.map)
  have "list_channels_call lib c None w =
      (Inr \<lparr> cr_all = [], cr_incoming = List.map (cl_channel_of dl) (ncr_incoming resp),
        cr_outgoing = List.map (cl_channel_of dl) (ncr_outgoing resp) \<rparr>, w')"
    by (simp add: list_channels_call_def run_operation_def assms(1),
        simp add: cl_list_channels_def json_operation_def on_status_def read_body_def assms(2) read)
  then show ?thesis
    by (auto simp: is_outgoing_channel_open_def map_result_def channel_to_def resp(2) list_ex_iff
        cl_channel_of_def outgoing_info_def assms(5))
qed

text \<open>A node whose only outgoing channel, to the address 5, is open.\<close>

definition sample_open_node :: node where
  "sample_open_node = sample_node \<lparr> nd_channels_from := (\<lambda>a. Inr [sample_channel 13 1 5 CS_Open]) \<rparr>"

definition sample_display :: display_lib where
  "sample_display =
     \<lparr> dp_checksum = (\<lambda>a. ''0xA'' @ show_nat (unat a)), dp_address = (\<lambda>a. show_nat (unat a)), dp_hash = (\<lambda>h. ''h''),
       dp_key = (\<lambda>k. ''k''), dp_balance = show_nat, dp_score2 = (\<lambda>f. ''s''), dp_state = (\<lambda>s. ''r''),
       dp_health = (\<lambda>h. ''g''), dp_component = (\<lambda>c. ''c''), dp_transport_error = (\<lambda>e. ''e''),
       dl_native = show_nat,
       dl_channel_status = (\<lambda>st. if st = CS_Open then ''Open'' else ''Closed''),
       dl_bandwidth = show_nat, dl_bytesize = (\<lambda>b. show_nat (unat b)) \<rparr>"

definition sample_open_web :: "nat web" where
  "sample_open_web =
     \<lparr> ck_now = (\<lambda>w. w), ck_sleep = (\<lambda>d w. w + d),
       wb_send = (\<lambda>c q w. (Inr (200, Some ''listing''), w)), wb_get = (\<lambda>u hs w. (Inl ''down'', w)),
       wb_json = (\<lambda>s. case resp_body (snd (list_channels sample_open_node own_channels)) of
                        Body_Json r \<Rightarrow> Some (channels_json sample_display r) | _ \<Rightarrow> None),
       wb_progenitor = \<lparr> pl_encode_path = \<lambda>s. s, pl_query = \<lambda>k v. [] \<rparr>,
       wb_error_text = (\<lambda>e. []), wb_status_text = show_nat \<rparr>"

theorem open_check_is_exact_witness:
  "is_outgoing_channel_open sample_open_web sample_client ''0XA5'' 3 = (Inr True, 3)"
proof -
  obtain resp where resp: "snd (list_channels sample_open_node own_channels) = json_ok 200 resp"
    by (simp add: list_channels_def own_channels_def sample_open_node_def sample_node_def Let_def)
  have j: "wb_json sample_open_web ''listing'' = Some (channels_json sample_display resp)"
    by (simp add: sample_open_web_def resp)
  have send: "wb_send sample_open_web sample_client
      (op_request (cl_list_channels (wb_progenitor sample_open_web) None None)) 3 = (Inr (200, Some ''listing''), 3)"
    by (simp add: sample_open_web_def)
  have from_5: "nd_channels_from sample_open_node (nd_me sample_open_node) = Inr [sample_channel 13 1 5 CS_Open]"
    by (simp add: sample_open_node_def)
  have st: "dl_channel_status sample_display x = ''Open'' \<longleftrightarrow> x = CS_Open" for x
    by (simp add: sample_display_def)
  have lower: "ascii_lowercase ''0XA5'' = ascii_lowercase (''0xA'' @ show_nat 5)" by code_simp
  show ?thesis
    using open_check_is_exact [OF send j resp from_5 st, of "''0XA5''"] lower
    by (simp add: sample_channel_def sample_display_def)
qed

end
