(* ===== verification/Cluster_Nodes.thy ===== *)
theory Cluster_Nodes
  imports Cluster_Client Cluster_State
begin

text \<open>
  Starting the nodes of a local cluster (\<open>node_command\<close> and \<open>start_nodes\<close> in
  \<open>localcluster/src/client_helper.rs\<close>): the environment and the command line of every node, its working
  directory, and the client for its API. What is done to the system is a list of actions, up to the
  first failure; the operating system's answers are parameters. Paths are their text. Ports are added as
  16-bit words, which wrap in a release build.
\<close>

type_synonym path_text = string

record node_shell =
  sh_absolute :: "path_text \<Rightarrow> (string, path_text) res"
  sh_canonicalize :: "path_text \<Rightarrow> path_text option"
  sh_env :: "string \<Rightarrow> string option"
  sh_exists :: "path_text \<Rightarrow> bool"
  sh_creates_dir :: "path_text \<Rightarrow> bool"
  sh_creates_log :: "path_text \<Rightarrow> bool"
  sh_clones_log :: "path_text \<Rightarrow> bool"
  sh_spawns :: "path_text \<Rightarrow> bool"

definition join_path :: "path_text \<Rightarrow> string \<Rightarrow> path_text" where
  "join_path p s = p @ ''/'' @ s"

section \<open>Environment\<close>

text \<open>\<open>Path::components\<close>: the root, a leading dot, and the names; empty parts and further dots are no components.\<close>

definition path_components :: "path_text \<Rightarrow> nat" where
  "path_components p =
     (if starts_with ''/'' p then 1 else if hd (split_on (CHR ''/'') p) = ''.'' then 1 else 0)
     + length (filter (\<lambda>c. c \<noteq> [] \<and> c \<noteq> ''.'') (split_on (CHR ''/'') p))"

definition default_tx_timeout_multiplier :: nat where
  "default_tx_timeout_multiplier = 10"

definition inherited :: "node_shell \<Rightarrow> string \<Rightarrow> string \<Rightarrow> string \<times> string" where
  "inherited os k fallback = (k, case sh_env os k of Some v \<Rightarrow> v | None \<Rightarrow> fallback)"

definition set_env :: "(string \<rightharpoonup> string) \<Rightarrow> (string \<times> string) list \<Rightarrow> (string \<rightharpoonup> string)" where
  "set_env m kvs = foldl (\<lambda>m (k, v). m(k \<mapsto> v)) m kvs"

definition keys_dir_variable :: string where
  "keys_dir_variable = ''CURVY_ZK_KEYS_DIR''"

record node_command =
  nm_program :: path_text
  nm_cwd :: path_text
  nm_env :: "string \<rightharpoonup> string"
  nm_args :: "string list"

definition node_command_for ::
  "node_shell \<Rightarrow> path_text \<Rightarrow> path_text \<Rightarrow> (string \<times> string) list \<Rightarrow> (string, node_command) res" where
  "node_command_for os hoprd_bin dir env =
     res_bind (if 1 < path_components hoprd_bin then sh_absolute os hoprd_bin else Inr hoprd_bin) (\<lambda>binary.
       let vars = set_env Map.empty
             ([inherited os ''HOPRD_OTEL_SIGNALS'' ''metrics'',
               inherited os ''HOPRD_OTLP_ENDPOINT'' ''http://localhost:4318'',
               inherited os ''HOPRD_METRIC_EXPORT_INTERVAL'' ''15000,hopr_session=1000'',
               (''HOPR_TX_TIMEOUT_MULTIPLIER'', show_nat default_tx_timeout_multiplier)] @ env);
           keys_dir = (case find (\<lambda>(k, v). k = keys_dir_variable) (rev env) of
                         Some (k, v) \<Rightarrow> Some v
                       | None \<Rightarrow> sh_env os keys_dir_variable)
       in case keys_dir of
            None \<Rightarrow> Inr \<lparr> nm_program = binary, nm_cwd = dir, nm_env = vars, nm_args = [] \<rparr>
          | Some d \<Rightarrow> res_bind (sh_absolute os d) (\<lambda>abs.
              Inr \<lparr> nm_program = binary, nm_cwd = dir, nm_env = vars(keys_dir_variable \<mapsto> abs),
                    nm_args = [] \<rparr>))"

section \<open>Start\<close>

record node_start_config =
  ns_num_nodes :: nat
  ns_hoprd_bin :: path_text
  ns_data_dir :: path_text
  ns_log_dir :: path_text
  ns_api_host :: string
  ns_api_port_base :: "16 word"
  ns_p2p_host :: string
  ns_p2p_port_base :: "16 word"
  ns_identity_password :: string
  ns_api_token :: "string option"
  ns_env :: "(string \<times> string) list"

record started_node = node_process +
  sn_api_port :: "16 word"
  sn_p2p_port :: "16 word"

datatype start_action = Create_Dir path_text | Create_Log path_text | Spawn node_command

definition show_port :: "16 word \<Rightarrow> string" where
  "show_port p = show_nat (unat p)"

definition node_port :: "16 word \<Rightarrow> nat \<Rightarrow> 16 word" where
  "node_port base i = base + of_nat i"

definition node_args :: "node_start_config \<Rightarrow> path_text \<Rightarrow> nat \<Rightarrow> string list" where
  "node_args cfg cfg_file i =
     [''--configurationFilePath'', cfg_file, ''--api'', ''--apiHost'', ns_api_host cfg,
      ''--apiPort'', show_port (node_port (ns_api_port_base cfg) i),
      ''--host'', ns_p2p_host cfg @ '':'' @ show_port (node_port (ns_p2p_port_base cfg) i),
      ''--password'', ns_identity_password cfg]
     @ (case ns_api_token cfg of None \<Rightarrow> [] | Some t \<Rightarrow> [''--apiToken'', t])"

definition api_client_host :: "string \<Rightarrow> string" where
  "api_client_host h = (if h = ''0.0.0.0'' then ''127.0.0.1'' else h)"

definition start_node ::
  "node_shell \<Rightarrow> header_lib \<Rightarrow> node_start_config \<Rightarrow> path_text \<Rightarrow> nat
   \<Rightarrow> start_action list \<times> (string, started_node) res" where
  "start_node os lib cfg data_dir i =
     (let cfg_file = join_path data_dir (''hoprd_cfg_'' @ show_nat i @ ''.yaml'');
          dir = join_path data_dir (''db_'' @ show_nat i);
          node_db = join_path dir ''node_db'';
          log = join_path (ns_log_dir cfg) (''hoprd_'' @ show_nat i @ ''.log'')
      in if \<not> sh_exists os cfg_file then ([], Inl (''missing hoprd config file: '' @ cfg_file))
         else if \<not> sh_creates_dir os node_db then ([], Inl (''failed to create db directory '' @ node_db))
         else if \<not> sh_creates_log os log then ([Create_Dir node_db], Inl ''failed to create hoprd log file'')
         else if \<not> sh_clones_log os log then
           ([Create_Dir node_db, Create_Log log], Inl ''failed to clone hoprd log file handle'')
         else
           (case node_command_for os (ns_hoprd_bin cfg) dir (ns_env cfg) of
              Inl e \<Rightarrow> ([Create_Dir node_db, Create_Log log], Inl e)
            | Inr cmd \<Rightarrow>
                (let cmd' = cmd \<lparr> nm_args := node_args cfg cfg_file i \<rparr>
                 in if \<not> sh_spawns os (nm_program cmd) then
                      ([Create_Dir node_db, Create_Log log], Inl ''failed to start hoprd'')
                    else
                      ([Create_Dir node_db, Create_Log log, Spawn cmd'],
                       res_bind
                         (client_new lib
                            (''http://'' @ api_client_host (ns_api_host cfg) @ '':''
                             @ show_port (node_port (ns_api_port_base cfg) i))
                            (ns_api_token cfg))
                         (\<lambda>api. Inr \<lparr> np_id = i, np_api = api, np_address = None,
                            sn_api_port = node_port (ns_api_port_base cfg) i,
                            sn_p2p_port = node_port (ns_p2p_port_base cfg) i \<rparr>)))))"

text \<open>The loop stops at the first failure; what was started until then stays started.\<close>

fun start_each :: "('i \<Rightarrow> 'a list \<times> ('e, 'b) res) \<Rightarrow> 'i list \<Rightarrow> 'a list \<times> ('e, 'b list) res" where
  "start_each f [] = ([], Inr [])"
| "start_each f (i # is) =
     (case f i of
        (acts, Inl e) \<Rightarrow> (acts, Inl e)
      | (acts, Inr x) \<Rightarrow>
          (case start_each f is of (acts', r) \<Rightarrow> (acts @ acts', res_bind r (\<lambda>xs. Inr (x # xs)))))"

definition effective_nodes :: "nat \<Rightarrow> nat" where
  "effective_nodes n = (if n < 1 then 1 else if max_num_nodes < n then max_num_nodes else n)"

definition start_nodes ::
  "node_shell \<Rightarrow> header_lib \<Rightarrow> node_start_config \<Rightarrow> start_action list \<times> (string, started_node list) res" where
  "start_nodes os lib cfg =
     (case sh_canonicalize os (ns_data_dir cfg) of
        None \<Rightarrow> ([], Inl ''resolving data directory'')
      | Some data_dir \<Rightarrow>
          start_each (start_node os lib cfg data_dir) [0..<effective_nodes (ns_num_nodes cfg)])"

section \<open>Properties\<close>

lemma set_env_append: "set_env m (xs @ ys) = set_env (set_env m xs) ys"
  by (simp add: set_env_def)

lemma set_env_last: "set_env m (xs @ [(k, v)]) = (set_env m xs)(k \<mapsto> v)"
  by (simp add: set_env_def)

text \<open>What the caller sets for a cluster wins over the defaults; of two settings the later one.\<close>

lemma set_env_lookup:
  "set_env m kvs k = (case map_of (rev kvs) k of Some v \<Rightarrow> Some v | None \<Rightarrow> m k)"
  by (induction kvs arbitrary: m rule: rev_induct) (auto simp: set_env_def split: option.split)

lemma find_rev_env: "find (\<lambda>(k, v). k = x) xs = map_option (Pair x) (map_of xs x)"
  by (induction xs) auto

lemma node_env_override:
  assumes "node_command_for os bin dir env = Inr cmd" and "map_of (rev env) k = Some v" and "k \<noteq> keys_dir_variable"
  shows "nm_env cmd k = Some v"
  using assms
  by (auto simp: node_command_for_def Let_def set_env_lookup res_bind_Ok_iff split: option.splits)

lemma start_each_Ok:
  "start_each f is = (acts, Inr xs) \<Longrightarrow>
     length xs = length is
     \<and> (\<forall>j<length is. \<exists>a. f (is ! j) = (a, Inr (xs ! j)))
     \<and> acts = concat (List.map (\<lambda>i. fst (f i)) is)"
proof (induction "is" arbitrary: acts xs)
  case (Cons i "is")
  obtain a x where x: "f i = (a, Inr x)"
    using Cons.prems by (cases "f i"; cases "snd (f i)") auto
  obtain acts' xs' where r: "start_each f is = (acts', Inr xs')" "xs = x # xs'" "acts = a @ acts'"
    using Cons.prems x by (cases "start_each f is") (auto simp: res_bind_Ok_iff)
  from Cons.IH [OF r(1)] show ?case
    using x r by (auto simp: nth_Cons split: nat.split)
qed simp

lemma effective_nodes_bounds: "1 \<le> effective_nodes n \<and> effective_nodes n \<le> 10"
  by (simp add: effective_nodes_def max_num_nodes_def)

lemma node_port_distinct: "i < 10 \<Longrightarrow> j < 10 \<Longrightarrow> node_port b i = node_port b j \<Longrightarrow> i = j"
proof -
  assume ij: "i < 10" "j < 10" and "node_port b i = node_port b j"
  then have "(of_nat i :: 16 word) = of_nat j" by (simp add: node_port_def)
  then have "i mod 65536 = j mod 65536"
    using unat_of_nat [of i, where ?'a = 16] unat_of_nat [of j, where ?'a = 16] by simp
  then show "i = j" using ij by simp
qed

lemma concat_single:
  "(\<And>i. i \<in> set xs \<Longrightarrow> concat (List.map h (g i)) = [k i]) \<Longrightarrow>
     concat (List.map h (concat (List.map g xs))) = List.map k xs"
  by (induction xs) simp_all

text \<open>The options on a command line: each with the word after it, but for the switch \<open>--api\<close>.\<close>

fun told_options :: "string list \<Rightarrow> (string \<times> string) list" where
  "told_options (f # v # ws) =
     (if f = ''--api'' then (f, []) # told_options (v # ws) else (f, v) # told_options ws)"
| "told_options [f] = [(f, [])]"
| "told_options [] = []"

definition node_spawn :: "node_start_config \<Rightarrow> path_text \<Rightarrow> nat \<Rightarrow> node_command \<Rightarrow> bool" where
  "node_spawn cfg data_dir i cmd \<longleftrightarrow>
     nm_cwd cmd = join_path data_dir (''db_'' @ show_nat i)
     \<and> (let told = map_of (told_options (nm_args cmd)) in
          told ''--configurationFilePath'' = Some (join_path data_dir (''hoprd_cfg_'' @ show_nat i @ ''.yaml''))
          \<and> told ''--api'' = Some []
          \<and> told ''--apiHost'' = Some (ns_api_host cfg)
          \<and> told ''--apiPort'' = Some (show_port (node_port (ns_api_port_base cfg) i))
          \<and> told ''--host'' = Some (ns_p2p_host cfg @ '':'' @ show_port (node_port (ns_p2p_port_base cfg) i))
          \<and> told ''--password'' = Some (ns_identity_password cfg)
          \<and> told ''--apiToken'' = ns_api_token cfg)"

lemma node_args_told:
  "nm_cwd cmd = join_path data_dir (''db_'' @ show_nat i)
   \<Longrightarrow> nm_args cmd = node_args cfg (join_path data_dir (''hoprd_cfg_'' @ show_nat i @ ''.yaml'')) i
   \<Longrightarrow> node_spawn cfg data_dir i cmd"
  by (simp add: node_spawn_def node_args_def Let_def split: option.split)

fun spawned :: "start_action \<Rightarrow> node_command list" where
  "spawned (Spawn c) = [c]"
| "spawned (Create_Dir p) = []"
| "spawned (Create_Log p) = []"

lemma start_node_Ok:
  assumes "start_node os lib cfg data_dir i = (acts, Inr n)"
  obtains cmd where "concat (List.map spawned acts) = [cmd]" "node_spawn cfg data_dir i cmd"
    "np_id n = i" "sn_api_port n = node_port (ns_api_port_base cfg) i"
    "sn_p2p_port n = node_port (ns_p2p_port_base cfg) i" "np_address n = None"
    "client_new lib (''http://'' @ api_client_host (ns_api_host cfg) @ '':'' @ show_port (sn_api_port n))
       (ns_api_token cfg) = Inr (np_api n)"
proof -
  obtain cmd where c: "node_command_for os (ns_hoprd_bin cfg) (join_path data_dir (''db_'' @ show_nat i)) (ns_env cfg) = Inr cmd"
    using assms by (auto simp: start_node_def Let_def split: if_splits sum.splits)
  then have "nm_cwd cmd = join_path data_dir (''db_'' @ show_nat i)"
    by (auto simp: node_command_for_def Let_def res_bind_Ok_iff split: option.splits)
  then have "node_spawn cfg data_dir i
      (cmd\<lparr> nm_args := node_args cfg (join_path data_dir (''hoprd_cfg_'' @ show_nat i @ ''.yaml'')) i \<rparr>)"
    by (intro node_args_told) simp_all
  then show thesis
    using that assms c
    by (auto simp: start_node_def Let_def res_bind_Ok_iff split: if_splits)
qed

text \<open>What the nodes of a successful start are.\<close>

lemma start_nodes_Ok:
  assumes "start_nodes os lib cfg = (acts, Inr nodes)"
  obtains data_dir where "sh_canonicalize os (ns_data_dir cfg) = Some data_dir"
    and "length nodes = effective_nodes (ns_num_nodes cfg)"
    and "acts = concat (List.map (\<lambda>i. fst (start_node os lib cfg data_dir i)) [0..<length nodes])"
    and "\<And>i. i < length nodes \<Longrightarrow>
           \<exists>a. start_node os lib cfg data_dir i = (a, Inr (nodes ! i))"
proof -
  obtain data_dir where d: "sh_canonicalize os (ns_data_dir cfg) = Some data_dir"
      and run: "start_each (start_node os lib cfg data_dir) [0..<effective_nodes (ns_num_nodes cfg)] = (acts, Inr nodes)"
    using assms by (auto simp: start_nodes_def split: option.splits)
  show thesis using start_each_Ok [OF run] by (intro that [OF d]) auto
qed

lemma one_process_each:
  assumes "\<And>i. i < n \<Longrightarrow> \<exists>cmd. concat (List.map spawned (g i)) = [cmd] \<and> Q i cmd"
  shows "length (concat (List.map spawned (concat (List.map g [0..<n])))) = n
    \<and> (\<forall>i<n. Q i (concat (List.map spawned (concat (List.map g [0..<n]))) ! i))"
proof -
  let ?c = "\<lambda>i. hd (concat (List.map spawned (g i)))"
  have "concat (List.map spawned (g i)) = [?c i] \<and> Q i (?c i)" if "i < n" for i
    using assms [OF that] by auto
  then show ?thesis by (subst (1 2) concat_single [where k = ?c]) auto
qed

lemma ports_distinct:
  assumes "length nodes = effective_nodes n" and "\<And>i. i < length nodes \<Longrightarrow> f (nodes ! i) = node_port b i"
  shows "distinct (List.map f nodes)"
proof -
  have "List.map f nodes = List.map (node_port b) [0..<length nodes]"
    using assms(2) by (auto intro!: nth_equalityI)
  moreover have "inj_on (node_port b) {0..<length nodes}"
    using effective_nodes_bounds [of n] assms(1) by (intro inj_onI node_port_distinct [of _ _ b]) auto
  ultimately show ?thesis by (simp add: distinct_map)
qed

text \<open>C20: A started cluster is wired consistently. If \<open>start_nodes\<close> succeeds then it started between one and ten
  nodes, one process each in order, each in a directory of its own and told the ports that the node's
  record and the address of its API client have; the client has the token the process was given; and no
  two nodes share an API port or a peer-to-peer port, even if the base port plus the index wraps around.\<close>

theorem started_cluster_is_wired:
  assumes "start_nodes os lib cfg = (acts, Inr nodes)"
  shows "\<exists>data_dir. sh_canonicalize os (ns_data_dir cfg) = Some data_dir
    \<and> length nodes = effective_nodes (ns_num_nodes cfg)
    \<and> length (concat (List.map spawned acts)) = length nodes
    \<and> distinct (List.map sn_api_port nodes) \<and> distinct (List.map sn_p2p_port nodes)
    \<and> (\<forall>i<length nodes.
          np_id (nodes ! i) = i
          \<and> sn_api_port (nodes ! i) = node_port (ns_api_port_base cfg) i
          \<and> node_spawn cfg data_dir i (concat (List.map spawned acts) ! i)
          \<and> client_new lib (''http://'' @ api_client_host (ns_api_host cfg) @ '':''
               @ show_port (sn_api_port (nodes ! i))) (ns_api_token cfg) = Inr (np_api (nodes ! i)))"
proof -
  obtain data_dir where d: "sh_canonicalize os (ns_data_dir cfg) = Some data_dir"
      and len: "length nodes = effective_nodes (ns_num_nodes cfg)"
      and acts: "acts = concat (List.map (\<lambda>i. fst (start_node os lib cfg data_dir i)) [0..<length nodes])"
      and run: "\<And>i. i < length nodes \<Longrightarrow> \<exists>a. start_node os lib cfg data_dir i = (a, Inr (nodes ! i))"
    using start_nodes_Ok [OF assms] by blast
  have each: "(\<exists>cmd. concat (List.map spawned (fst (start_node os lib cfg data_dir i))) = [cmd]
          \<and> node_spawn cfg data_dir i cmd)
      \<and> np_id (nodes ! i) = i \<and> sn_api_port (nodes ! i) = node_port (ns_api_port_base cfg) i
      \<and> sn_p2p_port (nodes ! i) = node_port (ns_p2p_port_base cfg) i
      \<and> client_new lib (''http://'' @ api_client_host (ns_api_host cfg) @ '':''
               @ show_port (sn_api_port (nodes ! i))) (ns_api_token cfg) = Inr (np_api (nodes ! i))"
    if i: "i < length nodes" for i
  proof -
    obtain a where a: "start_node os lib cfg data_dir i = (a, Inr (nodes ! i))" using run [OF i] by blast
    show ?thesis by (rule start_node_Ok [OF a]) (auto simp: a)
  qed
  have "distinct (List.map sn_api_port nodes)" "distinct (List.map sn_p2p_port nodes)"
    using each by (blast intro: ports_distinct [OF len])+
  moreover have "length (concat (List.map spawned acts)) = length nodes
      \<and> (\<forall>i<length nodes. node_spawn cfg data_dir i (concat (List.map spawned acts) ! i))"
    unfolding acts by (rule one_process_each) (use each in blast)
  ultimately show ?thesis using d len each by blast
qed

definition sample_shell :: node_shell where
  "sample_shell =
     \<lparr> sh_absolute = (\<lambda>p. Inr (''/w/'' @ p)), sh_canonicalize = (\<lambda>p. Some (''/w/'' @ p)), sh_env = (\<lambda>k. None),
       sh_exists = (\<lambda>p. True), sh_creates_dir = (\<lambda>p. True), sh_creates_log = (\<lambda>p. True),
       sh_clones_log = (\<lambda>p. True), sh_spawns = (\<lambda>p. True) \<rparr>"

definition sample_start :: node_start_config where
  "sample_start =
     \<lparr> ns_num_nodes = 2, ns_hoprd_bin = ''hoprd'', ns_data_dir = ''data'', ns_log_dir = ''logs'',
       ns_api_host = ''0.0.0.0'', ns_api_port_base = 65535, ns_p2p_host = ''localhost'', ns_p2p_port_base = 9000,
       ns_identity_password = ''pw'', ns_api_token = None,
       ns_env = [(''HOPR_TX_TIMEOUT_MULTIPLIER'', ''42'')] \<rparr>"

definition any_headers :: header_lib where
  "any_headers = \<lparr> hl_value = Some, hl_builds = (\<lambda>hs. True) \<rparr>"

theorem started_cluster_is_wired_witness:
  "\<exists>acts nodes. start_nodes sample_shell any_headers sample_start = (acts, Inr nodes)
     \<and> length nodes = 2 \<and> distinct (List.map sn_api_port nodes)"
proof -
  have cmd: "\<exists>c. node_command_for sample_shell ''hoprd'' dir env = Inr c" for dir env
  proof -
    have "map_of xs keys_dir_variable = None \<or> (\<exists>v. map_of xs keys_dir_variable = Some v)" for xs :: "(string \<times> string) list"
      by (cases "map_of xs keys_dir_variable") auto
    then show ?thesis
      by (auto simp: node_command_for_def path_components_def starts_with_def sample_shell_def Let_def
          split: option.split)
  qed
  have node: "\<exists>acts n. start_node sample_shell any_headers sample_start d i = (acts, Inr n)" for d i
    using cmd [of "join_path d (''db_'' @ show_nat i)" "ns_env sample_start"]
    by (auto simp: start_node_def Let_def sample_start_def client_new_def any_headers_def sample_shell_def)
  have "effective_nodes (ns_num_nodes sample_start) = 2"
    by (simp add: effective_nodes_def sample_start_def max_num_nodes_def)
  then have "\<exists>acts nodes. start_nodes sample_shell any_headers sample_start = (acts, Inr nodes)"
    using node [of "''/w/data''" 0] node [of "''/w/data''" 1]
    by (auto simp: start_nodes_def sample_shell_def sample_start_def upt_conv_Cons)
  then obtain acts nodes where run: "start_nodes sample_shell any_headers sample_start = (acts, Inr nodes)" by blast
  have "effective_nodes (ns_num_nodes sample_start) = 2"
    by (simp add: effective_nodes_def sample_start_def max_num_nodes_def)
  then show ?thesis using run started_cluster_is_wired [OF run] by auto
qed

end
