(* ===== verification/Cluster_Cli.thy ===== *)
theory Cluster_Cli
  imports Latency Cluster_State Text_Extra
begin

text \<open>
  The command line of \<open>hoprd-localcluster\<close> (\<open>localcluster/src/cli.rs\<close> with the constants of \<open>identity.rs\<close> and
  the socket path of \<open>control.rs\<close>): the parsers of the argument values, the defaults, and the resolution of
  the latency model. Splitting the command line into arguments is the \<open>clap\<close> library's. Reading a latency
  file (I/O and YAML) and floating-point numbers are parameters; paths are their text.
\<close>

section \<open>Values\<close>

definition default_num_nodes :: nat where "default_num_nodes = 3"
definition default_num_extras :: nat where "default_num_extras = 0"
definition max_extra_identities :: nat where "max_extra_identities = 5"
definition default_latency_port_base :: "16 word" where "default_latency_port_base = 9100"
definition default_config_home :: string where "default_config_home = ''/tmp/hopr-nodes''"
definition default_identity_password :: string where "default_identity_password = ''password''"

definition quoted :: "string \<Rightarrow> string" where
  "quoted s = [CHR 0x27] @ s @ [CHR 0x27]"

definition parse_size :: "string \<Rightarrow> (string, nat) res" where
  "parse_size s =
     (case parse_unsigned 64 s of
        None \<Rightarrow> Inl (quoted s @ '' is not a valid number'')
      | Some n \<Rightarrow>
          if \<not> (1 \<le> n \<and> n \<le> max_num_nodes) then
            Inl (''size must be between 1 and '' @ show_nat max_num_nodes @ '', got '' @ show_nat n)
          else Inr n)"

definition parse_extras :: "string \<Rightarrow> (string, nat) res" where
  "parse_extras s =
     (case parse_unsigned 64 s of
        None \<Rightarrow> Inl (quoted s @ '' is not a valid number'')
      | Some n \<Rightarrow>
          if max_extra_identities < n then
            Inl (''extra-identities must be between 0 and '' @ show_nat max_extra_identities
                 @ '', got '' @ show_nat n)
          else Inr n)"

definition parse_funding_amount :: "string \<Rightarrow> (string, string) res" where
  "parse_funding_amount s =
     (let value = str_trim s in if value = [] then Inl ''funding-amount must not be empty'' else Inr value)"

datatype latency_kind = Latency_Fixed delay_dist | Latency_Config string

record latency_option =
  lo_kind :: latency_kind
  lo_port_base :: "16 word"

definition parse_latency :: "'f float_lib \<Rightarrow> string \<Rightarrow> (string, latency_option) res" where
  "parse_latency fl s =
     res_bind
       (case rsplit_once (CHR ''@'') s of
          Some (body, port) \<Rightarrow>
            (case parse_unsigned 16 port of
               None \<Rightarrow> Inl (''invalid relay base port '' @ quoted port)
             | Some p \<Rightarrow> Inr (body, of_nat p))
        | None \<Rightarrow> Inr (s, default_latency_port_base))
       (\<lambda>(body, port_base).
          res_bind
            (case strip_prefix ''config:'' body of
               Some path \<Rightarrow> Inr (Latency_Config path)
             | None \<Rightarrow> res_bind (parse_delay fl body) (\<lambda>d. Inr (Latency_Fixed d)))
            (\<lambda>kind. Inr \<lparr> lo_kind = kind, lo_port_base = port_base \<rparr>))"

text \<open>The delay model; a file that yields no delays is refused.\<close>

definition latency_is_empty :: "latency_config \<Rightarrow> bool" where
  "latency_is_empty c \<longleftrightarrow> lt_default c = None \<and> lt_per_node c = Map.empty \<and> lt_per_link c = Map.empty"

record 'f latency_files =
  lf_floats :: "'f float_lib"
  lf_read :: "string \<Rightarrow> (string, string) res"
  lf_yaml :: "string \<Rightarrow> (string, raw_latency) res"

definition raw_is_empty :: "raw_latency \<Rightarrow> bool" where
  "raw_is_empty r \<longleftrightarrow> rl_default r = None \<and> rl_per_node r = [] \<and> rl_per_link r = []"

definition resolve_latency_option :: "'f latency_files \<Rightarrow> latency_option \<Rightarrow> (string, latency_config) res" where
  "resolve_latency_option lf l =
     (case lo_kind l of
        Latency_Fixed d \<Rightarrow> Inr (global_latency d)
      | Latency_Config path \<Rightarrow>
          res_bind (map_err (\<lambda>e. ''failed to read '' @ path @ '': '' @ e) (lf_read lf path)) (\<lambda>contents.
          res_bind (lf_yaml lf contents) (\<lambda>raw.
          res_bind (latency_of_raw (lf_floats lf) raw) (\<lambda>cfg.
            if raw_is_empty raw then Inl (''latency config '' @ path @ '' produced no delays'')
            else Inr cfg))))"

section \<open>Arguments\<close>

datatype channel_management = CM_Api | CM_Strategy | CM_Both | CM_None

fun channel_management_text :: "channel_management \<Rightarrow> string" where
  "channel_management_text CM_Api = ''api''"
| "channel_management_text CM_Strategy = ''strategy''"
| "channel_management_text CM_Both = ''both''"
| "channel_management_text CM_None = ''none''"

record cluster_args =
  lc_size :: nat
  lc_channel_management :: channel_management
  lc_api_host :: string
  lc_api_port_base :: "16 word"
  lc_p2p_host :: string
  lc_p2p_port_base :: "16 word"
  lc_data_dir :: string
  lc_control_base :: "string option"
  lc_chain_image :: "string option"
  lc_chain_url :: "string option"
  lc_container_runtime :: string
  lc_hoprd_bin :: string
  lc_identity_password :: string
  lc_api_token :: "string option"
  lc_funding_amount :: string
  lc_extra_identities :: nat
  lc_frozen_identities :: bool
  lc_latency :: "latency_option option"
  lc_enable_pix :: bool
  lc_pix_config :: "string option"

text \<open>An empty command line, given an image from the environment or none.\<close>

definition default_args :: cluster_args where
  "default_args =
     \<lparr> lc_size = default_num_nodes, lc_channel_management = CM_Api,
       lc_api_host = ''localhost'', lc_api_port_base = 3000,
       lc_p2p_host = ''localhost'', lc_p2p_port_base = 9000,
       lc_data_dir = default_config_home, lc_control_base = None,
       lc_chain_image = None, lc_chain_url = None, lc_container_runtime = ''docker'',
       lc_hoprd_bin = ''hoprd'', lc_identity_password = default_identity_password, lc_api_token = None,
       lc_funding_amount = ''1 wxHOPR'', lc_extra_identities = default_num_extras,
       lc_frozen_identities = False, lc_latency = None, lc_enable_pix = False, lc_pix_config = None \<rparr>"

definition resolve_control_base :: "string option \<Rightarrow> string \<Rightarrow> string" where
  "resolve_control_base explicit data_dir =
     (case explicit of Some p \<Rightarrow> p | None \<Rightarrow> data_dir @ ''/cluster'')"

definition control_base :: "cluster_args \<Rightarrow> string" where
  "control_base a = resolve_control_base (lc_control_base a) (lc_data_dir a)"

definition socket_path :: "string \<Rightarrow> string" where
  "socket_path base = base @ ''.sock''"

record status_args =
  sa_data_dir :: string
  sa_control_base :: "string option"

definition status_socket_path :: "status_args \<Rightarrow> string" where
  "status_socket_path a = socket_path (resolve_control_base (sa_control_base a) (sa_data_dir a))"

section \<open>Properties\<close>

lemma parse_size_Ok_iff:
  "parse_size s = Inr n \<longleftrightarrow> parse_unsigned 64 s = Some n \<and> 1 \<le> n \<and> n \<le> 10"
  by (auto simp: parse_size_def max_num_nodes_def split: option.splits)

lemma parse_extras_Ok_iff: "parse_extras s = Inr n \<longleftrightarrow> parse_unsigned 64 s = Some n \<and> n \<le> 5"
  by (auto simp: parse_extras_def max_extra_identities_def split: option.splits)

text \<open>The two commands that share a data directory meet at the same socket.\<close>

lemma status_finds_cluster:
  "sa_data_dir q = lc_data_dir a \<Longrightarrow> sa_control_base q = lc_control_base a \<Longrightarrow>
     status_socket_path q = socket_path (control_base a)"
  by (simp add: status_socket_path_def control_base_def)

text \<open>An option written as \<open>spec@port\<close> is read at its last \<open>@\<close>.\<close>

lemma parse_latency_with_port:
  "p < 2 ^ 16 \<Longrightarrow> parse_latency fl (''config:'' @ path @ ''@'' @ show_nat p) =
     Inr \<lparr> lo_kind = Latency_Config path, lo_port_base = of_nat p \<rparr>"
proof -
  assume p: "p < 2 ^ 16"
  have "CHR ''@'' \<notin> set (show_nat p)" by (rule show_nat_no_char) (simp add: is_digit_def)
  from rsplit_once_append [OF this, of "''config:'' @ path"] show ?thesis
    using parse_show_nat [OF p] strip_prefix_append [of "''config:''" path]
    by (simp add: parse_latency_def)
qed

text \<open>The emptiness of the parsed model is that of the file.\<close>

lemma latency_of_raw_empty:
  assumes "latency_of_raw fl raw = Ok cfg"
  shows "latency_is_empty cfg \<longleftrightarrow> raw_is_empty raw"
proof -
  obtain d ns ls where c: "(case rl_default raw of None \<Rightarrow> Ok None
        | Some s \<Rightarrow> res_bind (parse_delay fl s) (\<lambda>d. Ok (Some d))) = Ok d"
      "traverse_res (\<lambda>(n, s). res_bind (parse_delay fl s) (\<lambda>d. Ok (n, d))) (rl_per_node raw) = Ok ns"
      "traverse_res (\<lambda>(l, s). res_bind (parse_delay fl s) (\<lambda>d. Ok (l, d))) (rl_per_link raw) = Ok ls"
      "cfg = \<lparr> lt_default = d, lt_per_node = map_of (rev ns), lt_per_link = map_of (rev ls) \<rparr>"
    using assms by (auto simp: latency_of_raw_def res_bind_Ok_iff)
  have "length ns = length (rl_per_node raw)" "length ls = length (rl_per_link raw)"
    using c(2,3) unfolding traverse_res_Ok_iff by (auto dest: list_all2_lengthD)
  moreover have "d = None \<longleftrightarrow> rl_default raw = None"
    using c(1) by (auto simp: res_bind_Ok_iff split: option.splits)
  ultimately show ?thesis
    by (auto simp: c(4) latency_is_empty_def raw_is_empty_def)
qed

end
