(* ===== verification/Cluster_Summary.thy ===== *)
theory Cluster_Summary
  imports Cluster_Cli Wire_Out
begin

text \<open>
  The summary of a local cluster (\<open>localcluster/src/summary.rs\<close>): its state, its nodes and extra identities,
  the operations that update it, its JSON form and its rendering, and what the control socket answers
  (\<open>localcluster/src/control.rs\<close>).

  Rendering a delay in milliseconds is a parameter. JSON text and pretty printing are the library's; the
  model is the JSON value. Process ids are 32 bits, node ids 64.
\<close>

section \<open>States\<close>

datatype cluster_state = CL_NotRunning | CL_Initializing | CL_Starting | CL_Running | CL_ShuttingDown | CL_Failed

datatype node_state = NS_Pending | NS_Spawned | NS_Started | NS_Ready | NS_ChannelsOpen | NS_Failed

text \<open>The label is also the name serde gives the variant (\<open>snake_case\<close>).\<close>

fun cluster_state_label :: "cluster_state \<Rightarrow> string" where
  "cluster_state_label CL_NotRunning = ''not_running''"
| "cluster_state_label CL_Initializing = ''initializing''"
| "cluster_state_label CL_Starting = ''starting''"
| "cluster_state_label CL_Running = ''running''"
| "cluster_state_label CL_ShuttingDown = ''shutting_down''"
| "cluster_state_label CL_Failed = ''failed''"

fun node_state_label :: "node_state \<Rightarrow> string" where
  "node_state_label NS_Pending = ''pending''"
| "node_state_label NS_Spawned = ''spawned''"
| "node_state_label NS_Started = ''started''"
| "node_state_label NS_Ready = ''ready''"
| "node_state_label NS_ChannelsOpen = ''channels_open''"
| "node_state_label NS_Failed = ''failed''"

definition parse_cluster_state :: "string \<Rightarrow> cluster_state option" where
  "parse_cluster_state s =
     find (\<lambda>x. cluster_state_label x = s)
       [CL_NotRunning, CL_Initializing, CL_Starting, CL_Running, CL_ShuttingDown, CL_Failed]"

definition parse_node_state :: "string \<Rightarrow> node_state option" where
  "parse_node_state s =
     find (\<lambda>x. node_state_label x = s)
       [NS_Pending, NS_Spawned, NS_Started, NS_Ready, NS_ChannelsOpen, NS_Failed]"

record node_summary =
  su_id :: nat
  su_state :: node_state
  su_address :: "string option"
  su_api_url :: string
  su_api_token :: "string option"
  su_p2p :: string
  su_latency :: "string option"
  su_admin_url :: string
  su_pid :: "nat option"

record extra_summary =
  ex_id :: nat
  ex_address :: string
  ex_safe_address :: string
  ex_module_address :: string
  ex_keystore_path :: string
  ex_password :: string

record cluster_summary =
  cm_state :: cluster_state
  cm_pid :: nat
  cm_blokli_url :: "string option"
  cm_nodes :: "node_summary list"
  cm_extras :: "extra_summary list"
  cm_error :: "string option"

section \<open>Construction\<close>

definition advertised_host :: "string \<Rightarrow> string" where
  "advertised_host h = (if h = ''0.0.0.0'' \<or> h = ''auto'' then ''127.0.0.1'' else h)"

definition summary_api_url :: "cluster_args \<Rightarrow> nat \<Rightarrow> string" where
  "summary_api_url a i =
     ''http://'' @ advertised_host (lc_api_host a) @ '':'' @ show_nat (unat (lc_api_port_base a) + i)"

definition initial_node ::
  "(duration \<Rightarrow> string) \<Rightarrow> cluster_args \<Rightarrow> latency_config option \<Rightarrow> nat \<Rightarrow> node_summary" where
  "initial_node show_ms a latency i =
     (let p2p_base = (case lc_latency a of Some l \<Rightarrow> unat (lo_port_base l) | None \<Rightarrow> unat (lc_p2p_port_base a));
          url = summary_api_url a i
      in \<lparr> su_id = i, su_state = NS_Pending, su_address = None, su_api_url = url,
           su_api_token = lc_api_token a,
           su_p2p = advertised_host (lc_p2p_host a) @ '':'' @ show_nat (p2p_base + i),
           su_latency = Option.bind latency (\<lambda>c. describe_inbound show_ms c i (lc_size a)),
           su_admin_url = ''http://localhost:4677/node/info?apiEndpoint='' @ url
             @ (case lc_api_token a of None \<Rightarrow> [] | Some t \<Rightarrow> ''&apiToken='' @ t),
           su_pid = None \<rparr>)"

definition initial_summary ::
  "(duration \<Rightarrow> string) \<Rightarrow> nat \<Rightarrow> cluster_args \<Rightarrow> latency_config option \<Rightarrow> cluster_summary" where
  "initial_summary show_ms pid a latency =
     \<lparr> cm_state = CL_Initializing, cm_pid = pid, cm_blokli_url = None,
       cm_nodes = List.map (initial_node show_ms a latency) [0..<lc_size a],
       cm_extras = [], cm_error = None \<rparr>"

definition not_running_summary :: cluster_summary where
  "not_running_summary =
     \<lparr> cm_state = CL_NotRunning, cm_pid = 0, cm_blokli_url = None, cm_nodes = [], cm_extras = [],
       cm_error = None \<rparr>"

section \<open>Updates\<close>

text \<open>\<open>node_mut\<close> is the first node with the id.\<close>

fun update_node :: "nat \<Rightarrow> (node_summary \<Rightarrow> node_summary) \<Rightarrow> node_summary list \<Rightarrow> node_summary list" where
  "update_node i f [] = []"
| "update_node i f (n # ns) = (if su_id n = i then f n # ns else n # update_node i f ns)"

definition with_node :: "nat \<Rightarrow> (node_summary \<Rightarrow> node_summary) \<Rightarrow> cluster_summary \<Rightarrow> cluster_summary" where
  "with_node i f s = s \<lparr> cm_nodes := update_node i f (cm_nodes s) \<rparr>"

text \<open>Spawned processes: their id and their process id.\<close>

definition mark_spawned :: "(nat \<times> nat) list \<Rightarrow> cluster_summary \<Rightarrow> cluster_summary" where
  "mark_spawned procs s =
     foldl (\<lambda>s (i, pid). with_node i (\<lambda>n. n \<lparr> su_pid := Some pid, su_state := NS_Spawned \<rparr>) s) s procs"

definition set_node_state :: "nat \<Rightarrow> node_state \<Rightarrow> cluster_summary \<Rightarrow> cluster_summary" where
  "set_node_state i st s = with_node i (\<lambda>n. n \<lparr> su_state := st \<rparr>) s"

definition set_all_node_states :: "node_state \<Rightarrow> cluster_summary \<Rightarrow> cluster_summary" where
  "set_all_node_states st s = s \<lparr> cm_nodes := List.map (\<lambda>n. n \<lparr> su_state := st \<rparr>) (cm_nodes s) \<rparr>"

definition set_node_address :: "nat \<Rightarrow> string \<Rightarrow> cluster_summary \<Rightarrow> cluster_summary" where
  "set_node_address i a s = with_node i (\<lambda>n. n \<lparr> su_address := Some a \<rparr>) s"

record generated_identity =
  gi_id :: nat
  gi_address :: string
  gi_safe_address :: string
  gi_module_address :: string
  gi_id_file :: string
  gi_password :: string

definition extra_of :: "generated_identity \<Rightarrow> extra_summary" where
  "extra_of g =
     \<lparr> ex_id = gi_id g, ex_address = gi_address g, ex_safe_address = gi_safe_address g,
       ex_module_address = gi_module_address g, ex_keystore_path = gi_id_file g, ex_password = gi_password g \<rparr>"

definition set_extras :: "generated_identity list \<Rightarrow> cluster_summary \<Rightarrow> cluster_summary" where
  "set_extras gs s = s \<lparr> cm_extras := List.map extra_of gs \<rparr>"

section \<open>JSON\<close>

definition json_opt_str :: "string option \<Rightarrow> json" where
  "json_opt_str v = json_option JStr v"

definition node_summary_json :: "node_summary \<Rightarrow> json" where
  "node_summary_json n = JObj
     [(''id'', json_nat (su_id n)),
      (''state'', JStr (node_state_label (su_state n))),
      (''address'', json_opt_str (su_address n)),
      (''api_url'', JStr (su_api_url n)),
      (''api_token'', json_opt_str (su_api_token n)),
      (''p2p'', JStr (su_p2p n)),
      (''latency'', json_opt_str (su_latency n)),
      (''node_admin_url'', JStr (su_admin_url n)),
      (''pid'', json_option json_nat (su_pid n))]"

definition extra_summary_json :: "extra_summary \<Rightarrow> json" where
  "extra_summary_json e = JObj
     [(''id'', json_nat (ex_id e)),
      (''address'', JStr (ex_address e)),
      (''safe_address'', JStr (ex_safe_address e)),
      (''module_address'', JStr (ex_module_address e)),
      (''keystore_path'', JStr (ex_keystore_path e)),
      (''password'', JStr (ex_password e))]"

definition summary_json :: "cluster_summary \<Rightarrow> json" where
  "summary_json s = JObj
     ([(''state'', JStr (cluster_state_label (cm_state s))),
       (''pid'', json_nat (cm_pid s))]
      @ opt_member ''blokli_url'' JStr (cm_blokli_url s)
      @ [(''nodes'', JArr (List.map node_summary_json (cm_nodes s))),
         (''extras'', JArr (List.map extra_summary_json (cm_extras s)))]
      @ opt_member ''error'' JStr (cm_error s))"

definition read_node_summary :: "json \<Rightarrow> node_summary option" where
  "read_node_summary j =
     do {
       i \<leftarrow> read_field ''id'' (read_uint 64) j;
       state \<leftarrow> read_field ''state'' (read_via parse_node_state) j;
       address \<leftarrow> read_optional ''address'' as_str j;
       api_url \<leftarrow> read_field ''api_url'' as_str j;
       api_token \<leftarrow> read_optional ''api_token'' as_str j;
       p2p \<leftarrow> read_field ''p2p'' as_str j;
       latency \<leftarrow> read_optional ''latency'' as_str j;
       admin \<leftarrow> read_field ''node_admin_url'' as_str j;
       pid \<leftarrow> read_optional ''pid'' (read_uint 32) j;
       Some \<lparr> su_id = i, su_state = state, su_address = address, su_api_url = api_url,
         su_api_token = api_token, su_p2p = p2p, su_latency = latency, su_admin_url = admin, su_pid = pid \<rparr>
     }"

definition read_extra_summary :: "json \<Rightarrow> extra_summary option" where
  "read_extra_summary j =
     do {
       i \<leftarrow> read_field ''id'' (read_uint 64) j;
       address \<leftarrow> read_field ''address'' as_str j;
       safe \<leftarrow> read_field ''safe_address'' as_str j;
       module \<leftarrow> read_field ''module_address'' as_str j;
       keystore \<leftarrow> read_field ''keystore_path'' as_str j;
       password \<leftarrow> read_field ''password'' as_str j;
       Some \<lparr> ex_id = i, ex_address = address, ex_safe_address = safe, ex_module_address = module,
         ex_keystore_path = keystore, ex_password = password \<rparr>
     }"

text \<open>A field with \<open>serde(default)\<close> that is absent takes the default; \<open>null\<close> is no list.\<close>

definition read_default :: "string \<Rightarrow> (json \<Rightarrow> 'a option) \<Rightarrow> 'a \<Rightarrow> json \<Rightarrow> 'a option" where
  "read_default k f d j =
     (case as_object j of
        None \<Rightarrow> None
      | Some ms \<Rightarrow> (case map_of ms k of None \<Rightarrow> Some d | Some v \<Rightarrow> f v))"

definition read_summary :: "json \<Rightarrow> cluster_summary option" where
  "read_summary j =
     do {
       state \<leftarrow> read_field ''state'' (read_via parse_cluster_state) j;
       pid \<leftarrow> read_field ''pid'' (read_uint 32) j;
       url \<leftarrow> read_optional ''blokli_url'' as_str j;
       nodes \<leftarrow> read_field ''nodes'' (read_list read_node_summary) j;
       extras \<leftarrow> read_default ''extras'' (read_list read_extra_summary) [] j;
       err \<leftarrow> read_optional ''error'' as_str j;
       Some \<lparr> cm_state = state, cm_pid = pid, cm_blokli_url = url, cm_nodes = nodes, cm_extras = extras,
         cm_error = err \<rparr>
     }"

section \<open>Rendering\<close>

definition or_na :: "string option \<Rightarrow> string" where
  "or_na v = (case v of None \<Rightarrow> ''N/A'' | Some s \<Rightarrow> s)"

definition tab :: char where "tab = CHR 0x09"

definition pad_right :: "nat \<Rightarrow> string \<Rightarrow> string" where
  "pad_right w s = s @ replicate (w - length s) (CHR '' '')"

definition render_rows :: "(string \<times> string) list \<Rightarrow> string" where
  "render_rows rows =
     (let w = foldl max 0 (List.map (\<lambda>(l, v). length l) rows)
      in concat (List.map (\<lambda>(l, v). [tab] @ pad_right w l @ '': '' @ v @ [newline]) rows))"

definition node_rows :: "node_summary \<Rightarrow> (string \<times> string) list" where
  "node_rows n =
     [(''State'', node_state_label (su_state n)),
      (''Address'', or_na (su_address n)),
      (''P2P'', su_p2p n),
      (''Latency'', case su_latency n of None \<Rightarrow> ''none'' | Some l \<Rightarrow> l),
      (''API host'', su_api_url n),
      (''API token'', or_na (su_api_token n)),
      (''Node admin'', su_admin_url n),
      (''PID'', or_na (map_option show_nat (su_pid n)))]"

definition extra_rows :: "extra_summary \<Rightarrow> (string \<times> string) list" where
  "extra_rows e =
     [(''Address'', ex_address e), (''Safe address'', ex_safe_address e),
      (''Module address'', ex_module_address e), (''Identity file'', ex_keystore_path e),
      (''Password'', ex_password e)]"

definition render_human :: "cluster_summary \<Rightarrow> string" where
  "render_human s =
     [newline] @ ''State: '' @ cluster_state_label (cm_state s) @ [newline]
     @ ''Chain (Blokli): '' @ or_na (cm_blokli_url s) @ [newline, newline]
     @ concat (List.map (\<lambda>n. ''Node '' @ show_nat (su_id n) @ [newline] @ render_rows (node_rows n) @ [newline])
         (cm_nodes s))
     @ concat (List.map (\<lambda>e. ''Extra '' @ show_nat (ex_id e) @ [newline] @ render_rows (extra_rows e) @ [newline])
         (cm_extras s))"

section \<open>The control socket\<close>

text \<open>What \<open>query\<close> returns: the bytes of the socket, the document of a cluster that is not running, or an
  error. \<open>Connect_Refused\<close> stands for a missing socket and a refused connection.\<close>

datatype connect_result =
    Connected "(string, json) res"
  | Connect_Refused
  | Connect_Failed

definition not_running_document :: json where
  "not_running_document = JObj [(''state'', JStr ''not_running'')]"

definition query_status :: "string \<Rightarrow> connect_result \<Rightarrow> (string, json) res" where
  "query_status path r =
     (case r of
        Connected (Inr j) \<Rightarrow> Inr j
      | Connected (Inl e) \<Rightarrow> Inl (''failed to read status from '' @ path)
      | Connect_Refused \<Rightarrow> Inr not_running_document
      | Connect_Failed \<Rightarrow> Inl (''failed to connect to control socket '' @ path))"

section \<open>Properties\<close>

subsection \<open>Names\<close>

interpretation cluster_state: text_codec cluster_state_label parse_cluster_state "\<lambda>_. True"
proof unfold_locales
  fix x show "parse_cluster_state (cluster_state_label x) = Some x"
    by (cases x) (simp_all add: parse_cluster_state_def)
qed

interpretation node_state: text_codec node_state_label parse_node_state "\<lambda>_. True"
proof unfold_locales
  fix x show "parse_node_state (node_state_label x) = Some x"
    by (cases x) (simp_all add: parse_node_state_def)
qed

subsection \<open>Nodes\<close>

text \<open>A summary lists its nodes in order, numbered from zero.\<close>

definition numbered :: "cluster_summary \<Rightarrow> bool" where
  "numbered s \<longleftrightarrow> List.map su_id (cm_nodes s) = [0..<length (cm_nodes s)]"

lemma numbered_initial [simp]: "numbered (initial_summary show_ms pid a latency)"
proof -
  have "su_id (initial_node show_ms a latency i) = i" for i by (simp add: initial_node_def Let_def)
  then show ?thesis by (simp add: numbered_def initial_summary_def o_def)
qed

lemma update_node_ids:
  "(\<And>n. su_id (f n) = su_id n) \<Longrightarrow> List.map su_id (update_node i f ns) = List.map su_id ns"
  by (induction ns) auto

lemma length_update_node [simp]: "length (update_node i f ns) = length ns"
  by (induction ns) auto

lemma update_node_nth:
  assumes "distinct (List.map su_id ns)" and "j < length ns"
  shows "update_node i f ns ! j = (if su_id (ns ! j) = i then f (ns ! j) else ns ! j)"
  using assms
proof (induction ns arbitrary: j)
  case (Cons n ns)
  show ?case
  proof (cases "su_id n = i")
    case True
    have "su_id (ns ! k) \<noteq> i" if "k < length ns" for k
      using Cons.prems(1) True imageI [OF nth_mem [OF that], of su_id] by auto
    then show ?thesis using True Cons.prems(2) by (cases j) auto
  next
    case False
    then show ?thesis using Cons by (cases j) auto
  qed
qed simp

lemma numbered_nth: "numbered s \<Longrightarrow> j < length (cm_nodes s) \<Longrightarrow> su_id (cm_nodes s ! j) = j"
  unfolding numbered_def by (metis add_0 nth_map nth_upt)

lemma numbered_distinct: "numbered s \<Longrightarrow> distinct (List.map su_id (cm_nodes s))"
  by (simp add: numbered_def)

text \<open>An update of a node changes that node and nothing else.\<close>

lemma with_node_facts:
  assumes "numbered s" and "\<And>n. su_id (f n) = su_id n"
  shows "numbered (with_node i f s)" and "length (cm_nodes (with_node i f s)) = length (cm_nodes s)"
    and "j < length (cm_nodes s) \<Longrightarrow> cm_nodes (with_node i f s) ! j = (if j = i then f (cm_nodes s ! j) else cm_nodes s ! j)"
    and "cm_state (with_node i f s) = cm_state s" and "cm_pid (with_node i f s) = cm_pid s"
    and "cm_blokli_url (with_node i f s) = cm_blokli_url s" and "cm_extras (with_node i f s) = cm_extras s"
    and "cm_error (with_node i f s) = cm_error s"
  using assms update_node_ids [of f i "cm_nodes s"] numbered_nth [OF assms(1)]
    update_node_nth [OF numbered_distinct [OF assms(1)], of j i f]
  by (simp_all add: with_node_def numbered_def)

lemma mark_spawned_facts:
  assumes "numbered s"
  shows "numbered (mark_spawned ps s) \<and> length (cm_nodes (mark_spawned ps s)) = length (cm_nodes s)
    \<and> cm_state (mark_spawned ps s) = cm_state s \<and> cm_error (mark_spawned ps s) = cm_error s
    \<and> (\<forall>j<length (cm_nodes s).
         su_state (cm_nodes (mark_spawned ps s) ! j)
           = (if j \<in> fst ` set ps then NS_Spawned else su_state (cm_nodes s ! j))
         \<and> su_address (cm_nodes (mark_spawned ps s) ! j) = su_address (cm_nodes s ! j)
         \<and> su_pid (cm_nodes (mark_spawned ps s) ! j)
           = (case map_of (rev ps) j of Some p \<Rightarrow> Some p | None \<Rightarrow> su_pid (cm_nodes s ! j)))"
  using assms
proof (induction ps rule: rev_induct)
  case (snoc p ps)
  obtain i pid where p: "p = (i, pid)" by (cases p)
  let ?f = "\<lambda>n. n \<lparr> su_pid := Some pid, su_state := NS_Spawned \<rparr>"
  have m: "mark_spawned (ps @ [p]) s = with_node i ?f (mark_spawned ps s)"
    by (simp add: mark_spawned_def p)
  note IH = snoc.IH [OF snoc.prems]
  have n: "numbered (mark_spawned ps s)" using IH by blast
  note facts = with_node_facts [OF n, where f = ?f and i = i]
  show ?case
    unfolding m using IH facts by (auto simp: p)
qed (simp add: mark_spawned_def)

subsection \<open>The JSON form\<close>

lemma read_optional_str:
  "map_of ms k = Some (json_opt_str v) \<Longrightarrow> read_optional k as_str (JObj ms) = Some v"
  by (cases v) (simp_all add: read_optional_JObj json_opt_str_def json_option_def)

definition node_fits :: "node_summary \<Rightarrow> bool" where
  "node_fits n \<longleftrightarrow> su_id n < 2 ^ 64 \<and> (case su_pid n of None \<Rightarrow> True | Some p \<Rightarrow> p < 2 ^ 32)"

definition summary_fits :: "cluster_summary \<Rightarrow> bool" where
  "summary_fits s \<longleftrightarrow> cm_pid s < 2 ^ 32 \<and> list_all node_fits (cm_nodes s)
     \<and> list_all (\<lambda>e. ex_id e < 2 ^ 64) (cm_extras s)"

lemma node_summary_round_trip:
  assumes "node_fits n"
  shows "read_node_summary (node_summary_json n) = Some n"
proof -
  have pid: "read_optional ''pid'' (read_uint 32) (node_summary_json n) = Some (su_pid n)"
    using assms
    by (cases "su_pid n")
       (auto simp: node_summary_json_def read_optional_JObj json_option_def read_uint_nat node_fits_def json_nat_def
          parse_show_nat)
  have opt: "read_optional ''address'' as_str (node_summary_json n) = Some (su_address n)"
      "read_optional ''api_token'' as_str (node_summary_json n) = Some (su_api_token n)"
      "read_optional ''latency'' as_str (node_summary_json n) = Some (su_latency n)"
    unfolding node_summary_json_def by (rule read_optional_str; simp)+
  have i: "read_uint 64 (json_nat (su_id n)) = Some (su_id n)"
    using assms by (intro read_uint_nat) (simp add: node_fits_def)
  show ?thesis
    unfolding read_node_summary_def opt pid
    by (simp add: node_summary_json_def read_field_JObj i node_state.parse_show)
qed

lemma extra_summary_round_trip:
  "ex_id e < 2 ^ 64 \<Longrightarrow> read_extra_summary (extra_summary_json e) = Some e"
  by (simp add: read_extra_summary_def extra_summary_json_def read_field_JObj read_uint_nat)

text \<open>C19: The status a running cluster serves is its summary. Every summary, with any nodes, addresses, tokens,
  latencies, extras and error, is read back from its JSON document unchanged, as long as the numbers fit
  the integers they are.\<close>

theorem summary_round_trip:
  assumes "summary_fits s"
  shows "read_summary (summary_json s) = Some s"
proof -
  have nodes: "read_list read_node_summary (JArr (List.map node_summary_json (cm_nodes s))) = Some (cm_nodes s)"
    using assms read_list_map [of "cm_nodes s" read_node_summary node_summary_json id] node_summary_round_trip
    by (simp add: summary_fits_def list_all_iff)
  have extras: "read_list read_extra_summary (JArr (List.map extra_summary_json (cm_extras s))) = Some (cm_extras s)"
    using assms read_list_map [of "cm_extras s" read_extra_summary extra_summary_json id] extra_summary_round_trip
    by (simp add: summary_fits_def list_all_iff)
  have pid: "read_uint 32 (json_nat (cm_pid s)) = Some (cm_pid s)"
    using assms by (intro read_uint_nat) (simp add: summary_fits_def)
  show ?thesis
    unfolding read_summary_def summary_json_def
    by (cases "cm_blokli_url s"; cases "cm_error s")
       (simp_all add: opt_member_def read_field_JObj read_optional_JObj read_default_def nodes extras pid
          cluster_state.parse_show)
qed

definition sample_summary :: cluster_summary where
  "sample_summary =
     set_node_state 1 NS_Ready (mark_spawned [(0, 77), (1, 78)]
       (initial_summary (\<lambda>d. []) 4242 (default_args \<lparr> lc_size := 2 \<rparr>) None))"

lemma sample_fits: "summary_fits sample_summary"
  by (simp add: sample_summary_def summary_fits_def set_node_state_def mark_spawned_def with_node_def
      initial_summary_def initial_node_def Let_def upt_conv_Cons node_fits_def default_args_def)

theorem summary_round_trip_witness:
  "map_option cm_pid (read_summary (summary_json sample_summary)) = Some 4242"
  using summary_round_trip [OF sample_fits]
  by (simp add: sample_summary_def set_node_state_def mark_spawned_def with_node_def initial_summary_def)

text \<open>The document of a cluster that is not running has the state's name but is no summary.\<close>

lemma not_running_document_unreadable:
  "Option.bind (json_get ''state'' not_running_document) as_str = Some (cluster_state_label CL_NotRunning)
   \<and> read_summary not_running_document = None"
  by (simp add: not_running_document_def read_summary_def read_field_JObj)

end
