(* ===== verification/Orchestrator.thy ===== *)
theory Orchestrator
  imports Cluster_Summary Cluster_Nodes
begin

text \<open>
  The life of a local cluster (\<open>main\<close> and \<open>wait_nodes\<close> in \<open>localcluster/src/main.rs\<close>, after the lock is held and
  the control socket serves): the chain, the identities, the relays, the nodes, their start-up, their
  addresses, the channels, running, and the shutdown. Every await of the code is a step whose outcome is
  the world's; the waits for several nodes complete in any order. \<open>ru_alive\<close> are the processes that were
  spawned and not yet killed, \<open>ru_cleanup\<close> those the cleanup knows of.
\<close>

datatype phase =
    Ph_Chain | Ph_Generate | Ph_Relays | Ph_Spawn
  | Ph_Wait_Started | Ph_Wait_Ready | Ph_Addresses | Ph_Channels
  | Ph_Running | Ph_Ended | Ph_Exited

record cluster_run =
  ru_phase :: phase
  ru_summary :: cluster_summary
  ru_waiting :: "nat list"
  ru_cleanup :: "nat list"
  ru_alive :: "nat list"
  ru_relays :: nat
  ru_chain :: bool

definition run_start :: "(duration \<Rightarrow> string) \<Rightarrow> nat \<Rightarrow> cluster_args \<Rightarrow> latency_config option \<Rightarrow> cluster_run" where
  "run_start show_ms pid a latency =
     \<lparr> ru_phase = Ph_Chain, ru_summary = initial_summary show_ms pid a latency, ru_waiting = [],
       ru_cleanup = [], ru_alive = [], ru_relays = 0, ru_chain = False \<rparr>"

definition node_ids :: "cluster_args \<Rightarrow> nat list" where
  "node_ids a = [0..<effective_nodes (lc_size a)]"

definition set_state :: "cluster_state \<Rightarrow> cluster_summary \<Rightarrow> cluster_summary" where
  "set_state st s = s \<lparr> cm_state := st \<rparr>"

text \<open>The error of the body is recorded and the cleanup follows.\<close>

definition fail_run :: "string \<Rightarrow> cluster_run \<Rightarrow> cluster_run" where
  "fail_run e r = r \<lparr> ru_phase := Ph_Ended,
     ru_summary := (ru_summary r) \<lparr> cm_state := CL_Failed, cm_error := Some e \<rparr> \<rparr>"

text \<open>\<open>Cleanup::shutdown\<close> kills the nodes it knows, aborts the relays and stops the chain it started.\<close>

definition cleanup_run :: "cluster_run \<Rightarrow> cluster_run" where
  "cleanup_run r = r \<lparr> ru_phase := Ph_Exited,
     ru_alive := filter (\<lambda>i. i \<notin> set (ru_cleanup r)) (ru_alive r), ru_relays := 0, ru_chain := False \<rparr>"

text \<open>The chain needs a URL or an image to start; a relay needs its two ports to be ports.\<close>

definition chain_given :: "cluster_args \<Rightarrow> bool" where
  "chain_given a \<longleftrightarrow> lc_chain_url a \<noteq> None \<or> lc_chain_image a \<noteq> None"

definition relay_ports :: "cluster_args \<Rightarrow> nat \<Rightarrow> bool" where
  "relay_ports a i =
     (case lc_latency a of
        None \<Rightarrow> False
      | Some l \<Rightarrow> unat (lo_port_base l) + i < 2 ^ 16 \<and> unat (lc_p2p_port_base a) + i < 2 ^ 16)"

inductive cluster_step :: "cluster_args \<Rightarrow> cluster_run \<Rightarrow> cluster_run \<Rightarrow> bool" for a where
  chain_up: "ru_phase r = Ph_Chain \<Longrightarrow> chain_given a \<Longrightarrow>
    cluster_step a r (r \<lparr> ru_phase := Ph_Generate, ru_chain := (lc_chain_url a = None),
      ru_summary := (ru_summary r) \<lparr> cm_blokli_url := Some url \<rparr> \<rparr>)"
| generated: "ru_phase r = Ph_Generate \<Longrightarrow>
    cluster_step a r (r \<lparr> ru_phase := Ph_Relays, ru_summary := set_extras extras (ru_summary r) \<rparr>)"
| relay_up: "ru_phase r = Ph_Relays \<Longrightarrow> relay_ports a (ru_relays r) \<Longrightarrow> ru_relays r < lc_size a \<Longrightarrow>
    cluster_step a r (r \<lparr> ru_relays := Suc (ru_relays r) \<rparr>)"
| relays_up: "ru_phase r = Ph_Relays \<Longrightarrow> ru_relays r = (if lc_latency a = None then 0 else lc_size a) \<Longrightarrow>
    cluster_step a r (r \<lparr> ru_phase := Ph_Spawn \<rparr>)"
| spawned: "ru_phase r = Ph_Spawn \<Longrightarrow> List.map fst procs = node_ids a \<Longrightarrow>
    cluster_step a r (r \<lparr> ru_phase := Ph_Wait_Started, ru_waiting := node_ids a,
      ru_cleanup := node_ids a, ru_alive := node_ids a,
      ru_summary := set_state CL_Starting (mark_spawned procs (ru_summary r)) \<rparr>)"
| spawn_failed: "ru_phase r = Ph_Spawn \<Longrightarrow> k < length (node_ids a) \<Longrightarrow>
    cluster_step a r (fail_run e (r \<lparr> ru_alive := take (if client_failed then Suc k else k) (node_ids a) \<rparr>))"
| node_started: "ru_phase r = Ph_Wait_Started \<Longrightarrow> i \<in> set (ru_waiting r) \<Longrightarrow>
    cluster_step a r (r \<lparr> ru_waiting := remove1 i (ru_waiting r),
      ru_summary := set_node_state i NS_Started (ru_summary r) \<rparr>)"
| all_started: "ru_phase r = Ph_Wait_Started \<Longrightarrow> ru_waiting r = [] \<Longrightarrow>
    cluster_step a r (r \<lparr> ru_phase := Ph_Wait_Ready, ru_waiting := node_ids a \<rparr>)"
| node_ready: "ru_phase r = Ph_Wait_Ready \<Longrightarrow> i \<in> set (ru_waiting r) \<Longrightarrow>
    cluster_step a r (r \<lparr> ru_waiting := remove1 i (ru_waiting r),
      ru_summary := set_node_state i NS_Ready (ru_summary r) \<rparr>)"
| all_ready: "ru_phase r = Ph_Wait_Ready \<Longrightarrow> ru_waiting r = [] \<Longrightarrow>
    cluster_step a r (r \<lparr> ru_phase := Ph_Addresses, ru_waiting := node_ids a \<rparr>)"
| address_known: "ru_phase r = Ph_Addresses \<Longrightarrow> ru_waiting r = i # is \<Longrightarrow>
    cluster_step a r (r \<lparr> ru_waiting := is, ru_summary := set_node_address i address (ru_summary r) \<rparr>)"
| all_addresses: "ru_phase r = Ph_Addresses \<Longrightarrow> ru_waiting r = [] \<Longrightarrow>
    cluster_step a r (r \<lparr> ru_phase := Ph_Channels \<rparr>)"
| running: "ru_phase r = Ph_Channels \<Longrightarrow>
    cluster_step a r (r \<lparr> ru_phase := Ph_Running,
      ru_summary := set_state CL_Running
        (if lc_channel_management a \<noteq> CM_None then set_all_node_states NS_ChannelsOpen (ru_summary r)
         else ru_summary r) \<rparr>)"
| stop_requested: "ru_phase r = Ph_Running \<Longrightarrow>
    cluster_step a r (r \<lparr> ru_phase := Ph_Ended, ru_summary := set_state CL_ShuttingDown (ru_summary r) \<rparr>)"
| failed: "ru_phase r \<notin> {Ph_Spawn, Ph_Ended, Ph_Exited} \<Longrightarrow> cluster_step a r (fail_run e r)"
| cleaned: "ru_phase r = Ph_Ended \<Longrightarrow> cluster_step a r (cleanup_run r)"

inductive cluster_reach :: "cluster_args \<Rightarrow> cluster_run \<Rightarrow> cluster_run \<Rightarrow> bool" for a r0 where
  here: "cluster_reach a r0 r0"
| further: "cluster_reach a r0 r \<Longrightarrow> cluster_step a r r' \<Longrightarrow> cluster_reach a r0 r'"

section \<open>Invariant\<close>

definition nodes_all :: "cluster_run \<Rightarrow> (nat \<Rightarrow> node_summary \<Rightarrow> bool) \<Rightarrow> bool" where
  "nodes_all r P \<longleftrightarrow> (\<forall>j<length (cm_nodes (ru_summary r)). P j (cm_nodes (ru_summary r) ! j))"

definition open_state :: "cluster_args \<Rightarrow> node_state" where
  "open_state a = (if lc_channel_management a = CM_None then NS_Ready else NS_ChannelsOpen)"

definition booting :: "cluster_run \<Rightarrow> bool" where
  "booting r \<longleftrightarrow> cm_state (ru_summary r) = CL_Initializing \<and> cm_error (ru_summary r) = None
     \<and> ru_cleanup r = [] \<and> ru_alive r = []"

definition coming_up :: "cluster_args \<Rightarrow> cluster_run \<Rightarrow> bool" where
  "coming_up a r \<longleftrightarrow> cm_state (ru_summary r) = CL_Starting \<and> cm_error (ru_summary r) = None
     \<and> ru_cleanup r = node_ids a \<and> ru_alive r = node_ids a"

text \<open>The cleanup knows all processes, or the start of the nodes failed.\<close>

definition accounted :: "cluster_run \<Rightarrow> bool" where
  "accounted r \<longleftrightarrow> ru_cleanup r = ru_alive r \<or> ru_cleanup r = [] \<and> cm_state (ru_summary r) = CL_Failed"

definition ended_well :: "cluster_run \<Rightarrow> bool" where
  "ended_well r \<longleftrightarrow> cm_state (ru_summary r) = CL_ShuttingDown \<and> cm_error (ru_summary r) = None
     \<or> cm_state (ru_summary r) = CL_Failed \<and> cm_error (ru_summary r) \<noteq> None"

definition phase_inv :: "cluster_args \<Rightarrow> cluster_run \<Rightarrow> bool" where
  "phase_inv a r \<longleftrightarrow>
     (case ru_phase r of
        Ph_Chain \<Rightarrow> booting r \<and> ru_relays r = 0 | Ph_Generate \<Rightarrow> booting r \<and> ru_relays r = 0
      | Ph_Relays \<Rightarrow> booting r \<and> ru_relays r \<le> (if lc_latency a = None then 0 else lc_size a)
      | Ph_Spawn \<Rightarrow> booting r
      | Ph_Wait_Started \<Rightarrow> coming_up a r
          \<and> nodes_all r (\<lambda>j n. j \<in> set (ru_waiting r) \<or> su_state n = NS_Started)
      | Ph_Wait_Ready \<Rightarrow> coming_up a r
          \<and> nodes_all r (\<lambda>j n. j \<in> set (ru_waiting r) \<or> su_state n = NS_Ready)
      | Ph_Addresses \<Rightarrow> coming_up a r
          \<and> nodes_all r (\<lambda>j n. su_state n = NS_Ready \<and> (j \<in> set (ru_waiting r) \<or> su_address n \<noteq> None))
      | Ph_Channels \<Rightarrow> coming_up a r \<and> nodes_all r (\<lambda>j n. su_state n = NS_Ready \<and> su_address n \<noteq> None)
      | Ph_Running \<Rightarrow> cm_state (ru_summary r) = CL_Running \<and> cm_error (ru_summary r) = None
          \<and> ru_cleanup r = node_ids a \<and> ru_alive r = node_ids a
          \<and> nodes_all r (\<lambda>j n. su_state n = open_state a \<and> su_address n \<noteq> None)
      | Ph_Ended \<Rightarrow> ended_well r \<and> accounted r
      | Ph_Exited \<Rightarrow> ended_well r \<and> ru_relays r = 0 \<and> \<not> ru_chain r
          \<and> (ru_alive r = [] \<or> ru_cleanup r = [] \<and> cm_state (ru_summary r) = CL_Failed))"

definition run_inv :: "cluster_args \<Rightarrow> cluster_run \<Rightarrow> bool" where
  "run_inv a r \<longleftrightarrow> numbered (ru_summary r) \<and> length (cm_nodes (ru_summary r)) = lc_size a \<and> phase_inv a r"

text \<open>The summary operations as the steps use them.\<close>

lemma set_node_state_facts:
  assumes "numbered s"
  shows "numbered (set_node_state i st s)" and "length (cm_nodes (set_node_state i st s)) = length (cm_nodes s)"
    and "cm_state (set_node_state i st s) = cm_state s" and "cm_error (set_node_state i st s) = cm_error s"
    and "j < length (cm_nodes s) \<Longrightarrow> su_state (cm_nodes (set_node_state i st s) ! j)
      = (if j = i then st else su_state (cm_nodes s ! j))"
  using with_node_facts [OF assms, where f = "\<lambda>n. n \<lparr> su_state := st \<rparr>" and i = i]
  by (simp_all add: set_node_state_def)

lemma set_node_address_facts:
  assumes "numbered s"
  shows "numbered (set_node_address i x s)" and "length (cm_nodes (set_node_address i x s)) = length (cm_nodes s)"
    and "cm_state (set_node_address i x s) = cm_state s" and "cm_error (set_node_address i x s) = cm_error s"
    and "j < length (cm_nodes s) \<Longrightarrow> su_state (cm_nodes (set_node_address i x s) ! j) = su_state (cm_nodes s ! j)"
    and "j < length (cm_nodes s) \<Longrightarrow> su_address (cm_nodes (set_node_address i x s) ! j)
      = (if j = i then Some x else su_address (cm_nodes s ! j))"
  using with_node_facts [OF assms, where f = "\<lambda>n. n \<lparr> su_address := Some x \<rparr>" and i = i]
  by (simp_all add: set_node_address_def)

lemma numbered_updates [simp]:
  "numbered (s \<lparr> cm_state := st \<rparr>) = numbered s" "numbered (s \<lparr> cm_error := e \<rparr>) = numbered s"
  "numbered (s \<lparr> cm_blokli_url := u \<rparr>) = numbered s" "numbered (set_extras gs s) = numbered s"
  "numbered (set_state st s) = numbered s" "numbered (set_all_node_states ns s) = numbered s"
  by (simp_all add: numbered_def set_extras_def set_state_def set_all_node_states_def o_def)

lemma summary_updates [simp]:
  "cm_nodes (set_state st s) = cm_nodes s" "cm_state (set_state st s) = st" "cm_error (set_state st s) = cm_error s"
  "cm_nodes (set_extras gs s) = cm_nodes s" "cm_state (set_extras gs s) = cm_state s"
  "cm_error (set_extras gs s) = cm_error s"
  "length (cm_nodes (set_all_node_states ns s)) = length (cm_nodes s)"
  "cm_error (set_all_node_states ns s) = cm_error s"
  by (simp_all add: set_state_def set_extras_def set_all_node_states_def)

lemma set_all_nth:
  "j < length (cm_nodes s) \<Longrightarrow> cm_nodes (set_all_node_states st s) ! j = (cm_nodes s ! j) \<lparr> su_state := st \<rparr>"
  by (simp add: set_all_node_states_def)

lemma run_inv_start: "run_inv a (run_start show_ms pid a latency)"
  by (simp add: run_inv_def run_start_def phase_inv_def booting_def) (simp add: initial_summary_def)

lemma node_ids_size: "1 \<le> lc_size a \<Longrightarrow> lc_size a \<le> 10 \<Longrightarrow> node_ids a = [0..<lc_size a]"
  by (simp add: node_ids_def effective_nodes_def max_num_nodes_def)

lemma run_inv_fail:
  assumes "run_inv a r" and "accounted (fail_run e r)"
  shows "run_inv a (fail_run e r)"
  using assms by (simp add: run_inv_def fail_run_def phase_inv_def ended_well_def)

lemma in_remove1: "x \<in> set xs \<Longrightarrow> x \<noteq> y \<Longrightarrow> x \<in> set (remove1 y xs)"
  by simp

lemma run_inv_step:
  assumes step: "cluster_step a r r'" and inv: "run_inv a r" and size: "1 \<le> lc_size a" "lc_size a \<le> 10"
  shows "run_inv a r'"
  using step inv
proof cases
  case (spawned procs)
  have s: "numbered (ru_summary r)" "length (cm_nodes (ru_summary r)) = lc_size a" "booting r"
    using inv spawned(2) by (simp_all add: run_inv_def phase_inv_def)
  note m = mark_spawned_facts [OF s(1), of procs]
  then show ?thesis
    using s size
    by (simp add: spawned(1) run_inv_def phase_inv_def coming_up_def booting_def nodes_all_def node_ids_size)
next
  case (spawn_failed k e client_failed)
  then show ?thesis
    using inv
    by (simp add: run_inv_def phase_inv_def booting_def ended_well_def accounted_def fail_run_def)
next
  case (node_started i)
  then show ?thesis
    using inv set_node_state_facts [where s = "ru_summary r" and i = i and st = NS_Started]
    by (auto simp: run_inv_def phase_inv_def coming_up_def nodes_all_def)
next
  case all_started
  then show ?thesis
    using inv size by (auto simp: run_inv_def phase_inv_def coming_up_def nodes_all_def node_ids_size)
next
  case (node_ready i)
  then show ?thesis
    using inv set_node_state_facts [where s = "ru_summary r" and i = i and st = NS_Ready]
    by (auto simp: run_inv_def phase_inv_def coming_up_def nodes_all_def)
next
  case all_ready
  then show ?thesis
    using inv size by (auto simp: run_inv_def phase_inv_def coming_up_def nodes_all_def node_ids_size)
next
  case (address_known i "is" address)
  then show ?thesis
    using inv set_node_address_facts [where s = "ru_summary r" and i = i and x = address]
    by (auto simp: run_inv_def phase_inv_def coming_up_def nodes_all_def)
next
  case all_addresses
  then show ?thesis
    using inv by (auto simp: run_inv_def phase_inv_def coming_up_def nodes_all_def)
next
  case running
  then show ?thesis
    using inv
    by (auto simp: run_inv_def phase_inv_def coming_up_def nodes_all_def open_state_def set_all_nth)
next
  case stop_requested
  then show ?thesis
    using inv by (auto simp: run_inv_def phase_inv_def ended_well_def accounted_def)
next
  case (failed e)
  have "accounted (fail_run e r)"
    using inv failed(2)
    by (cases "ru_phase r")
       (auto simp: run_inv_def phase_inv_def booting_def coming_up_def accounted_def fail_run_def)
  then show ?thesis using inv run_inv_fail by (simp add: failed(1))
next
  case cleaned
  then show ?thesis
    using inv by (auto simp: run_inv_def phase_inv_def cleanup_run_def ended_well_def accounted_def)
qed (auto simp: run_inv_def phase_inv_def booting_def relay_ports_def split: option.splits)

lemma run_inv_reach:
  assumes "cluster_reach a (run_start show_ms pid a latency) r" and "1 \<le> lc_size a" "lc_size a \<le> 10"
  shows "run_inv a r"
  using assms by (induction rule: cluster_reach.induct) (auto intro: run_inv_start run_inv_step)

section \<open>What the states mean\<close>

lemma reach_states:
  assumes "cluster_reach a (run_start show_ms pid a latency) r" and "1 \<le> lc_size a" "lc_size a \<le> 10"
  shows "cm_state (ru_summary r) = CL_Running \<Longrightarrow> ru_phase r = Ph_Running"
    and "cm_state (ru_summary r) = CL_Failed \<longleftrightarrow> cm_error (ru_summary r) \<noteq> None"
  using run_inv_reach [OF assms]
  by (cases "ru_phase r"; auto simp: run_inv_def phase_inv_def booting_def coming_up_def ended_well_def)+



text \<open>The exception is real: a cluster of two whose second node fails to start exits with the first one alive.\<close>

definition two_nodes :: cluster_args where
  "two_nodes = default_args \<lparr> lc_size := 2, lc_channel_management := CM_None, lc_chain_image := Some ''chain'' \<rparr>"

definition boot_run :: "phase \<Rightarrow> cluster_run" where
  "boot_run p =
     (run_start (\<lambda>d. []) 1 two_nodes None)
       \<lparr> ru_phase := p, ru_chain := True,
         ru_summary := set_extras [] ((initial_summary (\<lambda>d. []) 1 two_nodes None) \<lparr> cm_blokli_url := Some ''u'' \<rparr>) \<rparr>"

lemma boot_reach: "cluster_reach two_nodes (run_start (\<lambda>d. []) 1 two_nodes None) (boot_run Ph_Spawn)"
proof -
  let ?r0 = "run_start (\<lambda>d. []) 1 two_nodes None"
  let ?r1 = "?r0 \<lparr> ru_phase := Ph_Generate, ru_chain := (lc_chain_url two_nodes = None),
      ru_summary := (ru_summary ?r0) \<lparr> cm_blokli_url := Some ''u'' \<rparr> \<rparr>"
  have 1: "cluster_reach two_nodes ?r0 ?r1"
    by (rule further [OF here chain_up]) (simp_all add: run_start_def chain_given_def two_nodes_def)
  have 2: "cluster_reach two_nodes ?r0 (?r1 \<lparr> ru_phase := Ph_Relays, ru_summary := set_extras [] (ru_summary ?r1) \<rparr>)"
    by (rule further [OF 1 generated]) simp
  have 3: "cluster_reach two_nodes ?r0
      (?r1 \<lparr> ru_phase := Ph_Relays, ru_summary := set_extras [] (ru_summary ?r1) \<rparr> \<lparr> ru_phase := Ph_Spawn \<rparr>)"
    by (rule further [OF 2 relays_up]) (simp_all add: run_start_def two_nodes_def default_args_def)
  then show ?thesis
    by (simp add: boot_run_def run_start_def two_nodes_def default_args_def)
qed

lemma failed_start_leaks:
  "\<exists>r. cluster_reach two_nodes (run_start (\<lambda>d. []) 1 two_nodes None) r
     \<and> ru_phase r = Ph_Exited \<and> ru_alive r = [0]"
proof -
  have ids: "node_ids two_nodes = [0, 1]"
    by (simp add: node_ids_def two_nodes_def default_args_def effective_nodes_def max_num_nodes_def upt_conv_Cons)
  let ?r = "fail_run ''failed to start hoprd'' (boot_run Ph_Spawn \<lparr> ru_alive := take (if False then Suc 1 else 1) (node_ids two_nodes) \<rparr>)"
  have "cluster_step two_nodes (boot_run Ph_Spawn) ?r"
    by (rule spawn_failed) (simp_all add: boot_run_def ids)
  from further [OF boot_reach this] have "cluster_reach two_nodes (run_start (\<lambda>d. []) 1 two_nodes None) (cleanup_run ?r)"
    by (rule further) (rule cleaned, simp add: fail_run_def)
  moreover have "ru_phase (cleanup_run ?r) = Ph_Exited" "ru_alive (cleanup_run ?r) = [0]"
    by (simp_all add: cleanup_run_def fail_run_def boot_run_def run_start_def ids)
  ultimately show ?thesis by blast
qed


section \<open>A cluster can always come up\<close>

lemma from_running:
  "run_inv a r \<Longrightarrow> ru_phase r = Ph_Running \<Longrightarrow> cm_state (ru_summary r) = CL_Running"
  by (simp add: run_inv_def phase_inv_def)

definition comes_up :: "cluster_args \<Rightarrow> cluster_run \<Rightarrow> cluster_run \<Rightarrow> bool" where
  "comes_up a r0 r \<longleftrightarrow> (cluster_reach a r0 r \<longrightarrow> (\<exists>r'. cluster_reach a r0 r' \<and> ru_phase r' = Ph_Running))"

lemma comes_up_step: "cluster_step a r r' \<Longrightarrow> comes_up a r0 r' \<Longrightarrow> comes_up a r0 r"
  unfolding comes_up_def using further by blast

lemma up_running: "ru_phase r = Ph_Running \<Longrightarrow> comes_up a r0 r"
  by (auto simp: comes_up_def)

lemma up_channels: "ru_phase r = Ph_Channels \<Longrightarrow> comes_up a r0 r"
  by (rule comes_up_step [OF running]) (auto simp: comes_up_def)

lemma up_addresses: "ru_phase r = Ph_Addresses \<Longrightarrow> comes_up a r0 r"
proof (induction "ru_waiting r" arbitrary: r)
  case Nil
  show ?case
    by (rule comes_up_step [OF all_addresses [OF Nil(2) Nil(1) [symmetric]]]) (simp add: up_channels)
next
  case (Cons i "is")
  show ?case
    by (rule comes_up_step [OF address_known [OF Cons(3) Cons(2) [symmetric]]]) (simp add: Cons(1) Cons(3))
qed

lemma up_ready: "ru_phase r = Ph_Wait_Ready \<Longrightarrow> comes_up a r0 r"
proof (induction "length (ru_waiting r)" arbitrary: r)
  case 0
  show ?case
    by (rule comes_up_step [OF all_ready]) (use 0 in \<open>simp_all add: up_addresses\<close>)
next
  case (Suc n)
  from Suc(2) obtain i where i: "i \<in> set (ru_waiting r)" by (cases "ru_waiting r") auto
  then have len: "length (remove1 i (ru_waiting r)) = n" using Suc(2) by (simp add: length_remove1)
  show ?case
    by (rule comes_up_step [OF node_ready [OF Suc(3) i]], rule Suc(1)) (simp_all add: len Suc(3))
qed

lemma up_started: "ru_phase r = Ph_Wait_Started \<Longrightarrow> comes_up a r0 r"
proof (induction "length (ru_waiting r)" arbitrary: r)
  case 0
  show ?case
    by (rule comes_up_step [OF all_started]) (use 0 in \<open>simp_all add: up_ready\<close>)
next
  case (Suc n)
  from Suc(2) obtain i where i: "i \<in> set (ru_waiting r)" by (cases "ru_waiting r") auto
  then have len: "length (remove1 i (ru_waiting r)) = n" using Suc(2) by (simp add: length_remove1)
  show ?case
    by (rule comes_up_step [OF node_started [OF Suc(3) i]], rule Suc(1)) (simp_all add: len Suc(3))
qed

lemma up_spawn: "ru_phase r = Ph_Spawn \<Longrightarrow> comes_up a r0 r"
  by (rule comes_up_step [OF spawned [where procs = "List.map (\<lambda>i. (i, i)) (node_ids a)"]])
     (simp_all add: o_def up_started)

definition cluster_fits :: "cluster_args \<Rightarrow> bool" where
  "cluster_fits a \<longleftrightarrow> chain_given a \<and> (lc_latency a \<noteq> None \<longrightarrow> (\<forall>i<lc_size a. relay_ports a i))"

lemma up_relays:
  "cluster_fits a \<Longrightarrow> ru_phase r = Ph_Relays \<Longrightarrow> ru_relays r \<le> (if lc_latency a = None then 0 else lc_size a) \<Longrightarrow> comes_up a r0 r"
proof (induction "lc_size a - ru_relays r" arbitrary: r rule: less_induct)
  case less
  show ?case
  proof (cases "ru_relays r = (if lc_latency a = None then 0 else lc_size a)")
    case True
    show ?thesis
      by (rule comes_up_step [OF relays_up [OF less(3) True]]) (simp add: up_spawn)
  next
    case False
    then have lt: "lc_latency a \<noteq> None" "ru_relays r < lc_size a" using less(4) by (auto split: if_splits)
    then have ports: "relay_ports a (ru_relays r)" using less(2) by (auto simp: cluster_fits_def)
    show ?thesis
      by (rule comes_up_step [OF relay_up [OF less(3) ports lt(2)]], rule less(1)) (use less(2,3) lt in auto)
  qed
qed

lemma up_chain:
  assumes "cluster_fits a"
  shows "ru_phase r = Ph_Generate \<Longrightarrow> ru_relays r = 0 \<Longrightarrow> comes_up a r0 r"
    and "ru_phase r = Ph_Chain \<Longrightarrow> ru_relays r = 0 \<Longrightarrow> comes_up a r0 r"
proof -
  show *: "ru_phase r = Ph_Generate \<Longrightarrow> ru_relays r = 0 \<Longrightarrow> comes_up a r0 r" for r
    by (rule comes_up_step [OF generated]) (simp_all add: up_relays assms)
  show "ru_phase r = Ph_Chain \<Longrightarrow> ru_relays r = 0 \<Longrightarrow> comes_up a r0 r"
    by (rule comes_up_step [OF chain_up]) (use assms in \<open>simp_all add: * cluster_fits_def\<close>)
qed



lemma two_nodes_running:
  "\<exists>r'. cluster_reach two_nodes (run_start (\<lambda>d. []) 1 two_nodes None) r' \<and> cm_state (ru_summary r') = CL_Running"
proof -
  let ?r0 = "run_start (\<lambda>d. []) 1 two_nodes None"
  have "comes_up two_nodes ?r0 ?r0" by (rule up_chain) (simp_all add: run_start_def cluster_fits_def chain_given_def two_nodes_def default_args_def)
  then obtain r' where r': "cluster_reach two_nodes ?r0 r'" "ru_phase r' = Ph_Running"
    using here unfolding comes_up_def by blast
  have "run_inv two_nodes r'" by (rule run_inv_reach [OF r'(1)]) (simp_all add: two_nodes_def)
  then show ?thesis using from_running r' by blast
qed


end
