(* ===== verification/Pix_Settings.thy ===== *)
theory Pix_Settings
  imports Hoprd_Config Text_Extra
begin

text \<open>
  The PIX settings of a local cluster (\<open>localcluster/src/identity.rs\<close>): \<open>PixSettings\<close> with its defaults, the
  file \<open>--pix-config\<close> reads, the quota they imply, and the two sections of the node configuration they are
  written to. Parsing YAML, amounts and the payload of a share are parameters; static amounts are in wei.
\<close>

record pix_lib =
  px_hopr :: "string \<Rightarrow> (string, balance) res"
  px_xdai :: "string \<Rightarrow> (string, balance) res"
  px_bytes_per_share :: "64 word"

record pix_settings =
  ps_num_ssa_parts :: nat
  ps_ssa_part_size :: nat
  ps_additional_shares :: nat
  ps_quota_range_min :: nat
  ps_quota_range_max :: nat
  ps_max_ssa_delivery_time :: duration
  ps_max_deposit_wait :: duration
  ps_enforce_on_nodes :: "nat list"
  ps_ssas_per_request :: nat
  ps_max_ssas_per_request :: nat
  ps_allow_dynamic_ssa_batches :: bool
  ps_max_served_without_progress :: nat
  ps_max_recovery_time :: duration
  ps_fill_enabled :: bool
  ps_fill_max_rate :: nat
  ps_fill_finish_fraction :: f64
  ps_safe_deposit_float :: balance
  ps_price_per_byte :: balance
  ps_max_ssa_allocation :: balance
  ps_max_spend_per_window :: balance
  ps_spend_window :: duration
  ps_max_deposit_tracking_time :: duration
  ps_gas_xdai_per_sweep :: balance

text \<open>The multiplications are on \<open>u64\<close>.\<close>

definition quota_per_ssa :: "pix_lib \<Rightarrow> pix_settings \<Rightarrow> 64 word" where
  "quota_per_ssa lib p =
     of_nat (ps_num_ssa_parts p) * of_nat (ps_ssa_part_size p + ps_additional_shares p) * px_bytes_per_share lib"

definition default_pix_settings :: "'u upstream \<Rightarrow> pix_settings" where
  "default_pix_settings up =
     (let ui = default_user_incoming_pix up in
      \<lparr> ps_num_ssa_parts = 8, ps_ssa_part_size = 2, ps_additional_shares = 2,
        ps_quota_range_min = 0, ps_quota_range_max = 1024 * 1024,
        ps_max_ssa_delivery_time = dur_secs 20, ps_max_deposit_wait = dur_secs 60,
        ps_enforce_on_nodes = [],
        ps_ssas_per_request = 1, ps_max_ssas_per_request = 2, ps_allow_dynamic_ssa_batches = True,
        ps_max_served_without_progress = 2048,
        ps_max_recovery_time = ui_max_recovery_time ui,
        ps_fill_enabled = ui_fill_enabled ui,
        ps_fill_max_rate = ui_fill_max_rate ui,
        ps_fill_finish_fraction = ui_fill_finish_fraction ui,
        ps_safe_deposit_float = 1000 * 10 ^ 18,
        ps_price_per_byte = 715 * 10 ^ 11,
        ps_max_ssa_allocation = 10 * 10 ^ 18,
        ps_max_spend_per_window = 1000 * 10 ^ 18,
        ps_spend_window = dur_secs (24 * 3600),
        ps_max_deposit_tracking_time = dur_secs 30,
        ps_gas_xdai_per_sweep = 10 ^ 16 \<rparr>)"

section \<open>The settings file\<close>

text \<open>The wire form: every field may be missing, amounts are texts.\<close>

record raw_pix =
  rp_num_ssa_parts :: "nat option"
  rp_ssa_part_size :: "nat option"
  rp_additional_shares :: "nat option"
  rp_quota_range_min :: "nat option"
  rp_quota_range_max :: "nat option"
  rp_max_ssa_delivery_time :: "duration option"
  rp_max_deposit_wait :: "duration option"
  rp_enforce_on_nodes :: "nat list option"
  rp_ssas_per_request :: "nat option"
  rp_max_ssas_per_request :: "nat option"
  rp_allow_dynamic_ssa_batches :: "bool option"
  rp_max_served_without_progress :: "nat option"
  rp_max_recovery_time :: "duration option"
  rp_fill_enabled :: "bool option"
  rp_fill_max_rate :: "nat option"
  rp_fill_finish_fraction :: "f64 option"
  rp_safe_deposit_float :: "string option"
  rp_price_per_byte :: "string option"
  rp_max_ssa_allocation :: "string option"
  rp_max_spend_per_window :: "string option"
  rp_spend_window :: "duration option"
  rp_max_deposit_tracking_time :: "duration option"
  rp_gas_xdai_per_sweep :: "string option"

definition or_default :: "'a option \<Rightarrow> 'a \<Rightarrow> 'a" where
  "or_default v d = (case v of None \<Rightarrow> d | Some x \<Rightarrow> x)"

definition given_amount ::
  "(string \<Rightarrow> (string, balance) res) \<Rightarrow> string \<Rightarrow> string option \<Rightarrow> balance \<Rightarrow> (string, balance) res" where
  "given_amount parse field given fallback =
     (case given of
        None \<Rightarrow> Inr fallback
      | Some v \<Rightarrow> map_err (\<lambda>e. ''invalid PIX config: '' @ field @ '' ('' @ v @ ''): '' @ e) (parse v))"

definition merge_pix :: "pix_lib \<Rightarrow> pix_settings \<Rightarrow> raw_pix \<Rightarrow> (string, pix_settings) res" where
  "merge_pix lib d raw =
     res_bind (given_amount (px_hopr lib) ''safe_deposit_float'' (rp_safe_deposit_float raw) (ps_safe_deposit_float d))
       (\<lambda>fl.
     res_bind (given_amount (px_hopr lib) ''price_per_byte'' (rp_price_per_byte raw) (ps_price_per_byte d))
       (\<lambda>price.
     res_bind (given_amount (px_hopr lib) ''max_ssa_allocation'' (rp_max_ssa_allocation raw) (ps_max_ssa_allocation d))
       (\<lambda>allocation.
     res_bind (given_amount (px_hopr lib) ''max_spend_per_window'' (rp_max_spend_per_window raw)
         (ps_max_spend_per_window d))
       (\<lambda>spend.
     res_bind (given_amount (px_xdai lib) ''gas_xdai_per_sweep'' (rp_gas_xdai_per_sweep raw) (ps_gas_xdai_per_sweep d))
       (\<lambda>gas. Inr
      \<lparr> ps_num_ssa_parts = or_default (rp_num_ssa_parts raw) (ps_num_ssa_parts d),
        ps_ssa_part_size = or_default (rp_ssa_part_size raw) (ps_ssa_part_size d),
        ps_additional_shares = or_default (rp_additional_shares raw) (ps_additional_shares d),
        ps_quota_range_min = or_default (rp_quota_range_min raw) (ps_quota_range_min d),
        ps_quota_range_max = or_default (rp_quota_range_max raw) (ps_quota_range_max d),
        ps_max_ssa_delivery_time = or_default (rp_max_ssa_delivery_time raw) (ps_max_ssa_delivery_time d),
        ps_max_deposit_wait = or_default (rp_max_deposit_wait raw) (ps_max_deposit_wait d),
        ps_enforce_on_nodes = or_default (rp_enforce_on_nodes raw) (ps_enforce_on_nodes d),
        ps_ssas_per_request = or_default (rp_ssas_per_request raw) (ps_ssas_per_request d),
        ps_max_ssas_per_request = or_default (rp_max_ssas_per_request raw) (ps_max_ssas_per_request d),
        ps_allow_dynamic_ssa_batches =
          or_default (rp_allow_dynamic_ssa_batches raw) (ps_allow_dynamic_ssa_batches d),
        ps_max_served_without_progress =
          or_default (rp_max_served_without_progress raw) (ps_max_served_without_progress d),
        ps_max_recovery_time = or_default (rp_max_recovery_time raw) (ps_max_recovery_time d),
        ps_fill_enabled = or_default (rp_fill_enabled raw) (ps_fill_enabled d),
        ps_fill_max_rate = or_default (rp_fill_max_rate raw) (ps_fill_max_rate d),
        ps_fill_finish_fraction = or_default (rp_fill_finish_fraction raw) (ps_fill_finish_fraction d),
        ps_safe_deposit_float = fl, ps_price_per_byte = price, ps_max_ssa_allocation = allocation,
        ps_max_spend_per_window = spend,
        ps_spend_window = or_default (rp_spend_window raw) (ps_spend_window d),
        ps_max_deposit_tracking_time =
          or_default (rp_max_deposit_tracking_time raw) (ps_max_deposit_tracking_time d),
        ps_gas_xdai_per_sweep = gas \<rparr>)))))"

definition pix_from_yaml ::
  "pix_lib \<Rightarrow> 'u upstream \<Rightarrow> (string \<Rightarrow> (string, raw_pix) res) \<Rightarrow> string \<Rightarrow> (string, pix_settings) res" where
  "pix_from_yaml lib up yaml s =
     res_bind (map_err (\<lambda>e. ''invalid PIX config: '' @ e) (yaml s)) (merge_pix lib (default_pix_settings up))"

section \<open>The node configuration\<close>

definition pix_global_of :: "pix_settings option \<Rightarrow> user_pix_global option" where
  "pix_global_of pix = map_option (\<lambda>p.
     \<lparr> ug_num_ssa_parts = ps_num_ssa_parts p, ug_ssa_part_size = ps_ssa_part_size p,
       ug_additional_shares = Some (ps_additional_shares p),
       ug_max_ssas_per_request = ps_max_ssas_per_request p \<rparr>) pix"

definition incoming_pix_of :: "'u upstream \<Rightarrow> pix_settings option \<Rightarrow> nat \<Rightarrow> user_incoming_pix" where
  "incoming_pix_of up pix i =
     (let d = default_user_incoming_pix up in
      case pix of
        None \<Rightarrow> d
      | Some p \<Rightarrow>
          \<lparr> ui_enforce_pix = List.member (ps_enforce_on_nodes p) i,
            ui_quota_range_min = ps_quota_range_min p,
            ui_quota_range_max = ps_quota_range_max p,
            ui_max_ssa_delivery_time = ps_max_ssa_delivery_time p,
            ui_max_deposit_wait = ps_max_deposit_wait p,
            ui_max_live_cycle_bytes = ui_max_live_cycle_bytes d,
            ui_max_recovery_time = ps_max_recovery_time p,
            ui_max_served_without_progress = ps_max_served_without_progress p,
            ui_ssas_per_request = ps_ssas_per_request p,
            ui_allow_dynamic_ssa_batches = ps_allow_dynamic_ssa_batches p,
            ui_drain_after_close = ui_drain_after_close d,
            ui_fill_enabled = ps_fill_enabled p,
            ui_fill_max_rate = ps_fill_max_rate p,
            ui_fill_finish_fraction = ps_fill_finish_fraction p \<rparr>)"

text \<open>What \<open>main\<close> takes: the file if there is one, else the defaults if PIX is enabled.\<close>

definition resolve_pix_option ::
  "pix_lib \<Rightarrow> 'u upstream \<Rightarrow> (string \<Rightarrow> (string, raw_pix) res) \<Rightarrow> (string \<Rightarrow> (string, string) res)
   \<Rightarrow> bool \<Rightarrow> string option \<Rightarrow> (string, pix_settings option) res" where
  "resolve_pix_option lib up yaml read enable path =
     (case path of
        Some p \<Rightarrow>
          res_bind (map_err (\<lambda>e. ''reading PIX config '' @ p) (read p)) (\<lambda>text.
          res_bind (map_err (\<lambda>e. e @ '' (in '' @ p @ '')'') (pix_from_yaml lib up yaml text)) (\<lambda>s.
            Inr (Some s)))
      | None \<Rightarrow> Inr (if enable then Some (default_pix_settings up) else None))"

section \<open>Properties\<close>

lemma given_amount_Ok_iff:
  "given_amount parse field given d = Inr x \<longleftrightarrow>
    (case given of None \<Rightarrow> x = d | Some v \<Rightarrow> parse v = Inr x)"
  by (auto simp: given_amount_def split: option.splits)

text \<open>The fields that are given as texts, with their parsers.\<close>

definition amounts_read :: "pix_lib \<Rightarrow> raw_pix \<Rightarrow> bool" where
  "amounts_read lib raw \<longleftrightarrow>
     list_all (\<lambda>v. v = None \<or> is_ok (px_hopr lib (the v)))
       [rp_safe_deposit_float raw, rp_price_per_byte raw, rp_max_ssa_allocation raw, rp_max_spend_per_window raw]
     \<and> (rp_gas_xdai_per_sweep raw = None \<or> is_ok (px_xdai lib (the (rp_gas_xdai_per_sweep raw))))"

lemma given_amount_is_ok:
  "is_ok (given_amount parse field given d) \<longleftrightarrow> given = None \<or> is_ok (parse (the given))"
  by (cases given; cases "parse (the given)") (simp_all add: given_amount_def is_ok_iff)

lemma is_ok_bind: "is_ok (res_bind r f) \<longleftrightarrow> (\<exists>x. r = Inr x \<and> is_ok (f x))"
  by (cases r) (simp_all add: is_ok_iff)

lemma ex_given_amount:
  "(\<exists>x. given_amount parse field given b = Inr x) \<longleftrightarrow> given = None \<or> is_ok (parse (the given))"
  "(\<exists>x. given_amount parse field given b = Inr x \<and> Q) \<longleftrightarrow> (given = None \<or> is_ok (parse (the given))) \<and> Q"
  by (simp_all flip: is_ok_iff given_amount_is_ok [where field = field and d = b])

lemma merge_is_ok: "is_ok (merge_pix lib d raw) \<longleftrightarrow> amounts_read lib raw"
  by (simp add: merge_pix_def is_ok_bind ex_given_amount amounts_read_def)

text \<open>The quota is the product as long as it is a number of 64 bits.\<close>

lemma quota_exact:
  assumes "ps_num_ssa_parts p * (ps_ssa_part_size p + ps_additional_shares p) * unat (px_bytes_per_share lib) < 2 ^ 64"
  shows "unat (quota_per_ssa lib p)
    = ps_num_ssa_parts p * (ps_ssa_part_size p + ps_additional_shares p) * unat (px_bytes_per_share lib)"
proof -
  have "quota_per_ssa lib p
      = of_nat (ps_num_ssa_parts p * (ps_ssa_part_size p + ps_additional_shares p) * unat (px_bytes_per_share lib))"
    by (simp add: quota_per_ssa_def)
  then show ?thesis using assms by (simp only: unat_of_nat take_bit_nat_eq_self) (simp add: unat_of_nat)
qed

end
