(* ===== verification/Cluster_Identity.thy ===== *)
theory Cluster_Identity
  imports Pix_Settings Cluster_Summary Cluster_Nodes Config_Rules
begin

text \<open>
  The identities and configurations of the nodes of a local cluster, as far as they do not depend on the
  chain (\<open>localcluster/src/identity.rs\<close>): the frozen secrets and the keys made of them, the address a node
  announces, the strategies, and \<open>node_config\<close>. Keys, multiaddresses, paths and the strategy configurations
  of the library are parameters. A secret is the 256-bit number its bytes are, big-endian.
\<close>

section \<open>Secrets\<close>

definition node_secret_numbers :: "(nat \<times> nat) list" where
  "node_secret_numbers =
     [(0x76a4edbc3f595d4d07671779a0055e30b2b8477ecfd5d23c37afd7b5aa83781d,
       0x71bf1f42ebbfcd89c3e197a3fd7cda79b92499e509b6fefa0fe44d02821d146a),
      (0xc90f09e849aa512be3dd007452977e32c7cfdc1e3de1a62bd92ba6592bcc9e90,
       0xc3659450e994f3ad086373440e4e7070629a1bfbd555387237ccb28d17acbfc8),
      (0x40d4749a620d1a4278d030a3153b5b94d6fcd4f9677f6ce8e37e6ebb1987ad53,
       0x4a14c5aeb53629a2dd45058a8d233f24dd90192189e8200a1e5f10069868f963),
      (0xe539f1ac48270be4e84b6acfe35252df5e141a29b50ddb07b50670271bb574ee,
       0x8c1edcdebfe508031e4124168bb4a133180e8ee68207a7946fcdc4ad0068ef0d),
      (0x9ab557eb14d8b081c7e1750eb87407d8c421aa79bdeb420f38980829e7dbf936,
       0x6075c595103667537c33cdb954e3e5189921cab942e5fc0ba9ec27fe6d7787d1),
      (0xb7fb93ee0c174b60b2fca90f74a3e54eb5b6bd5a75e61137c9c9c8c2d4d35694,
       0x7bb93faf5eefa558d4c11effaeb9338177b0fdc3098b068bd2b4c8127da1d8ea),
      (0x01d3087f8f4ed0948c9a0c04ef7dfc9d392fa7e6b337ffbb1fd6ffb2362b5417,
       0x29e66d1d3a77ca0c887266e3f0442b765485aad9cdb1341361d0f9f48acc5906),
      (0x8e140a72fec685044fc63145c7ac3f97528db5713862b8dc5e9af63b8691f909,
       0xdbb3e361e2a0a13f3985edeb994c639fdb908a8c65d710bb1cd06156bcecfd38),
      (0x48b5142545bd7d8ce20c07af1bf3a2bd7ac7cfe819742c38fa855dbcd0004593,
       0xf80bd9f0ed5d1618faeae34f0aa6fe91593f15d33eaa0ffd6a204ca9aa18785c),
      (0xf776a0c4de2b9828de9291367672671c370a1fcd5c08d80055fabe1359476cc6,
       0x6863839382fa079e4c1cb2479ef0f0eb4d872680f5d95552fbda64af67d071b4)]"

definition extra_secret_numbers :: "(nat \<times> nat) list" where
  "extra_secret_numbers =
     [(0xa8c2179d4f2e5b1a0c9d8e7f6a5b4c3d2e1f0a9b8c7d6e5f4a3b2c1d0e9f8a7b,
       0xb7d3286ae0f3c4b5d6e7f8a9b0c1d2e3f4a5b6c7d8e9f0a1b2c3d4e5f6a7b8c9),
      (0xc8e4397bf1a4d5c6e7f8a9b0c1d2e3f4a5b6c7d8e9f0a1b2c3d4e5f6a7b8c9d0,
       0xd9f54a8c02b5e6d7f8a9b0c1d2e3f4a5b6c7d8e9f0a1b2c3d4e5f6a7b8c9d0e1),
      (0xea065b9d13c6f7e8a9b0c1d2e3f4a5b6c7d8e9f0a1b2c3d4e5f6a7b8c9d0e1f2,
       0xfb176cae24d7a8f9b0c1d2e3f4a5b6c7d8e9f0a1b2c3d4e5f6a7b8c9d0e1f2a3),
      (0x0c287dbf35e8b9a0c1d2e3f4a5b6c7d8e9f0a1b2c3d4e5f6a7b8c9d0e1f2a3b4,
       0x1d398ec046f9cab1d2e3f4a5b6c7d8e9f0a1b2c3d4e5f6a7b8c9d0e1f2a3b4c5),
      (0x2e4a9fd157a0dbc2e3f4a5b6c7d8e9f0a1b2c3d4e5f6a7b8c9d0e1f2a3b4c5d6,
       0x3f5ba0e268b1ecd3f4a5b6c7d8e9f0a1b2c3d4e5f6a7b8c9d0e1f2a3b4c5d6e7)]"

definition secret_words :: "(nat \<times> nat) list \<Rightarrow> (256 word \<times> 256 word) list" where
  "secret_words ns = List.map (\<lambda>(p, c). (word_of_nat p, word_of_nat c)) ns"

definition node_secrets :: "(256 word \<times> 256 word) list" where
  "node_secrets = secret_words node_secret_numbers"

definition extra_secrets :: "(256 word \<times> 256 word) list" where
  "extra_secrets = secret_words extra_secret_numbers"

definition extra_identity_password :: string where
  "extra_identity_password = ''local-cluster''"

text \<open>The Baby JubJub secret is the chain secret without its most significant byte, or one.\<close>

definition frozen_bjj_key :: "256 word \<Rightarrow> 256 word" where
  "frozen_bjj_key chain_key =
     (let k = take_bit 248 chain_key in if k = 0 then 1 else k)"

definition frozen_hopr_keys ::
  "(256 word \<times> 256 word \<times> 256 word \<Rightarrow> (string, 'k) res) \<Rightarrow> 256 word \<Rightarrow> 256 word \<Rightarrow> (string, 'k) res" where
  "frozen_hopr_keys try_from packet_key chain_key =
     map_err (\<lambda>_. ''canonicalized frozen BJJ secret is not a valid HoprKeys triplet'')
       (try_from (packet_key, chain_key, frozen_bjj_key chain_key))"

section \<open>The generation\<close>

record strategy_set =
  ss_auto_redeeming :: bool
  ss_channel_lifecycle :: bool

definition default_strategy_set :: strategy_set where
  "default_strategy_set = \<lparr> ss_auto_redeeming = True, ss_channel_lifecycle = False \<rparr>"

definition deployer_key_variable :: string where
  "deployer_key_variable = ''HOPRD_DEPLOYER_PRIVATE_KEY''"

definition default_private_key :: string where
  "default_private_key = ''0xac0974bec39a17e36ba4a6b4d238ff944bacb478cbed5efcae784d7bf4f2ff80''"

record generation_config =
  gc_blokli_url :: string
  gc_private_key :: string
  gc_num_nodes :: nat
  gc_config_home :: string
  gc_identity_password :: string
  gc_random_identities :: bool
  gc_reuse_identities :: bool
  gc_num_extras :: nat
  gc_p2p_host :: string
  gc_p2p_port_base :: "16 word"
  gc_strategies :: strategy_set
  gc_latency :: "latency_option option"
  gc_strategy_interval :: "duration option"
  gc_pix :: "pix_settings option"

definition default_generation :: "env_vars \<Rightarrow> generation_config" where
  "default_generation env =
     \<lparr> gc_blokli_url = ''http://localhost:8080'',
       gc_private_key = (case env deployer_key_variable of Some k \<Rightarrow> k | None \<Rightarrow> default_private_key),
       gc_num_nodes = default_num_nodes, gc_config_home = default_config_home,
       gc_identity_password = default_identity_password,
       gc_random_identities = False, gc_reuse_identities = False, gc_num_extras = default_num_extras,
       gc_p2p_host = ''127.0.0.1'', gc_p2p_port_base = 9000, gc_strategies = default_strategy_set,
       gc_latency = None, gc_strategy_interval = None, gc_pix = None \<rparr>"

text \<open>What \<open>main\<close> asks for.\<close>

definition generation_of_args ::
  "env_vars \<Rightarrow> cluster_args \<Rightarrow> string \<Rightarrow> string \<Rightarrow> pix_settings option \<Rightarrow> generation_config" where
  "generation_of_args env a url data_dir pix =
     (default_generation env)
       \<lparr> gc_blokli_url := url, gc_num_nodes := lc_size a, gc_config_home := data_dir,
         gc_identity_password := lc_identity_password a,
         gc_random_identities := \<not> lc_frozen_identities a,
         gc_reuse_identities := (lc_chain_url a \<noteq> None),
         gc_num_extras := lc_extra_identities a,
         gc_p2p_host := lc_p2p_host a, gc_p2p_port_base := lc_p2p_port_base a,
         gc_strategies := default_strategy_set
           \<lparr> ss_channel_lifecycle := lc_channel_management a \<in> {CM_Strategy, CM_Both} \<rparr>,
         gc_pix := pix, gc_latency := lc_latency a \<rparr>"

section \<open>Announcements\<close>

definition announce_text :: "(string \<Rightarrow> bool) \<Rightarrow> string \<Rightarrow> 16 word \<Rightarrow> string" where
  "announce_text is_ip host port =
     (if is_ip host then ''/ip4/'' else ''/dns4/'') @ host @ ''/udp/'' @ show_nat (unat port) @ ''/quic-v1''"

definition build_announce_multiaddr ::
  "(string \<Rightarrow> bool) \<Rightarrow> (string \<Rightarrow> (string, multiaddr) res) \<Rightarrow> string \<Rightarrow> 16 word \<Rightarrow> (string, multiaddr) res" where
  "build_announce_multiaddr is_ip parse host port =
     map_err (\<lambda>_. ''invalid pre-announce multiaddr'') (parse (announce_text is_ip host port))"

text \<open>\<open>checked_add\<close> on \<open>u16\<close>.\<close>

definition checked_port :: "16 word \<Rightarrow> nat \<Rightarrow> 16 word option" where
  "checked_port base i =
     (if unat base + unat (of_nat i :: 16 word) < 2 ^ 16 then Some (base + of_nat i) else None)"

definition announce_port :: "generation_config \<Rightarrow> nat \<Rightarrow> (string, 16 word) res" where
  "announce_port cfg i =
     ok_or (''announce port overflow: port base + node id '' @ show_nat i @ '' exceeds u16'')
       (case gc_latency cfg of
          Some l \<Rightarrow> checked_port (lo_port_base l) i
        | None \<Rightarrow> checked_port (gc_p2p_port_base cfg) i)"

text \<open>A relay is reached at the host that is advertised; without one the host of the command line is announced.\<close>

definition announce_host :: "generation_config \<Rightarrow> string" where
  "announce_host cfg =
     (if gc_latency cfg \<noteq> None then advertised_host (gc_p2p_host cfg) else gc_p2p_host cfg)"

section \<open>Strategies\<close>

text \<open>The library's strategy configurations with the values the code sets: \<open>redeem_on_winning\<close>; a target of open
  channels, sizing at 0.99 and a tick of ten seconds; and the settlement of PIX with its pool, which has a
  parsed URL and the timeout multiplier of the cluster.\<close>

record 'c strategy_params =
  sr_redeem :: 'c
  sr_lifecycle :: "nat \<Rightarrow> duration \<Rightarrow> 'c"
  sr_pix :: "balance \<Rightarrow> balance \<Rightarrow> balance \<Rightarrow> duration \<Rightarrow> duration \<Rightarrow> balance \<Rightarrow> string \<Rightarrow> nat \<Rightarrow> 'c"
  sr_url :: "string \<Rightarrow> (string, string) res"

definition node_strategies ::
  "'c strategy_params \<Rightarrow> generation_config \<Rightarrow> nat \<Rightarrow> (string, 'c multi_strategy_config) res" where
  "node_strategies sr cfg effective =
     (let ss = gc_strategies cfg;
          redeem = (if ss_auto_redeeming ss \<or> ss_channel_lifecycle ss then [Auto_Redeeming (sr_redeem sr)] else []);
          lifecycle = (if ss_channel_lifecycle ss
                       then [Channel_Lifecycle (sr_lifecycle sr (effective - 1) (dur_secs 10))] else []);
          interval = or_default (gc_strategy_interval cfg) (dur_secs 60)
      in res_bind
           (case gc_pix cfg of
              None \<Rightarrow> Inr []
            | Some p \<Rightarrow>
                res_bind
                  (map_err (\<lambda>_. ''parsing blokli URL '' @ gc_blokli_url cfg @ '' for the PIX pool'')
                    (sr_url sr (gc_blokli_url cfg)))
                  (\<lambda>url. Inr [Pix_Strategy
                     (sr_pix sr (ps_price_per_byte p) (ps_max_ssa_allocation p) (ps_max_spend_per_window p)
                        (ps_spend_window p) (ps_max_deposit_tracking_time p) (ps_gas_xdai_per_sweep p)
                        url default_tx_timeout_multiplier)]))
           (\<lambda>pix. Inr (Multi_Config False interval (redeem @ lifecycle @ pix))))"

section \<open>The configuration of a node\<close>

record 'u config_env =
  ce_upstream :: "'u upstream"
  ce_vars :: env_vars
  ce_api_host :: host_config
  ce_no_allow_list :: "'u forwarding_config"
  ce_absolute :: "string \<Rightarrow> (string, string) res"

definition node_config ::
  "'u config_env \<Rightarrow> generation_config \<Rightarrow> nat \<Rightarrow> safe_module \<Rightarrow> 'c multi_strategy_config \<Rightarrow> string
   \<Rightarrow> user_pix_global option \<Rightarrow> (string, ('u, 'c) hoprd_config) res" where
  "node_config ce cfg i safe strategy id_path pix_global =
     (let up = ce_upstream ce in
      res_bind (ce_absolute ce id_path) (\<lambda>id_file.
      res_bind (ce_absolute ce (gc_config_home cfg)) (\<lambda>home.
        Inr \<lparr> hd_hopr =
                (default_user_config up (ce_vars ce))
                  \<lparr> uc_announce := (gc_latency cfg = None),
                    uc_network :=
                      (default_user_network up (ce_vars ce))
                        \<lparr> un_announce_local_addresses := True, un_prefer_local_addresses := True,
                          un_probe_recheck_threshold := dur_secs 3, un_probe_interval := dur_secs 3,
                          un_pix := or_default pix_global (default_user_pix_global up),
                          un_incoming_session_pix := incoming_pix_of up (gc_pix cfg) i \<rparr>,
                    uc_safe_module := safe \<rparr>,
              hd_identity =
                \<lparr> id_file = id_file, id_password = gc_identity_password cfg, id_private_key = None \<rparr>,
              hd_db =
                \<lparr> db_data = join_path home (''db_'' @ show_nat i), db_initialize = True,
                  db_force_initialize = False \<rparr>,
              hd_api = (default_api (ce_api_host ce)) \<lparr> api_enable := True, api_auth := Auth_None \<rparr>,
              hd_forwarding = ce_no_allow_list ce,
              hd_blokli_url = gc_blokli_url cfg,
              hd_blokli_dns_override = None,
              hd_strategy = strategy \<rparr>)))"

end
