(* ===== verification/Cluster_Identity_Laws.thy ===== *)
theory Cluster_Identity_Laws
  imports Cluster_Identity
begin

text \<open>
  The properties of the generated identities and configurations: the frozen keys are canonical and
  distinct, the announced address is the one the cluster publishes, and the PIX settings reach the
  library of every node.
\<close>

section \<open>Keys\<close>

lemma unat_bjj: "unat (frozen_bjj_key c) = (let k = unat c mod 2 ^ 248 in if k = 0 then 1 else k)"
proof -
  have "unat (take_bit 248 c) = take_bit 248 (unat c)" by (rule unsigned_take_bit_eq)
  then have k: "unat (take_bit 248 c) = unat c mod 2 ^ 248" by (simp only: take_bit_nat_def)
  then show ?thesis by (simp add: frozen_bjj_key_def Let_def flip: unat_eq_0)
qed

lemma unat_bjj_nat: "unat (frozen_bjj_key (word_of_nat n)) = (let k = n mod 2 ^ 248 in if k = 0 then 1 else k)"
proof -
  have "n mod 2 ^ 256 mod 2 ^ 248 = n mod (2 ^ 248 :: nat)" by (rule mod_mod_cancel) simp
  then show ?thesis by (simp only: unat_bjj unat_of_nat len_of_numeral_defs) simp
qed

lemma distinct_words:
  assumes "list_all (\<lambda>n. n < 2 ^ 256) ns" and "distinct ns"
  shows "distinct (List.map (word_of_nat :: nat \<Rightarrow> 256 word) ns)"
proof -
  have "inj_on (word_of_nat :: nat \<Rightarrow> 256 word) (set ns)"
  proof (rule inj_onI)
    fix m n assume "m \<in> set ns" "n \<in> set ns" and eq: "word_of_nat m = (word_of_nat n :: 256 word)"
    then have "m < 2 ^ 256" "n < 2 ^ 256" using assms(1) by (simp_all add: list_all_iff)
    then show "m = n" using arg_cong [OF eq, of unat] by (simp add: unat_of_nat)
  qed
  then show ?thesis using assms(2) by (simp add: distinct_map)
qed

text \<open>All secrets of one kind, as the numbers they are.\<close>

definition secret_numbers :: "(nat \<times> nat) list" where
  "secret_numbers = node_secret_numbers @ extra_secret_numbers"

lemmas secret_defs = secret_numbers_def node_secret_numbers_def extra_secret_numbers_def

lemma secrets_eq: "node_secrets @ extra_secrets = List.map (\<lambda>(p, c). (word_of_nat p, word_of_nat c)) secret_numbers"
  by (simp add: node_secrets_def extra_secrets_def secret_words_def secret_numbers_def)

lemma secret_numbers_facts:
  shows "list_all (\<lambda>n. n < 2 ^ 256) (List.map fst secret_numbers @ List.map snd secret_numbers)"
    and "distinct (List.map fst secret_numbers @ List.map snd secret_numbers)"
    and "distinct (List.map (\<lambda>(p, c). c mod 2 ^ 248) secret_numbers)"
    and "list_all (\<lambda>(p, c). c mod 2 ^ 248 \<noteq> 0) secret_numbers"
  by (simp_all add: secret_defs)

text \<open>The frozen identities are fifteen different ones with canonical keys. All thirty secrets differ, the third
  secret each chain key is given differs from all others of its kind, is positive and below 2^248, and
  is the chain secret modulo 2^248.\<close>

theorem frozen_identities_distinct:
  "distinct (List.map fst (node_secrets @ extra_secrets) @ List.map snd (node_secrets @ extra_secrets))
   \<and> distinct (List.map (\<lambda>(p, c). frozen_bjj_key c) (node_secrets @ extra_secrets))
   \<and> list_all (\<lambda>(p, c). 0 < unat (frozen_bjj_key c) \<and> unat (frozen_bjj_key c) = unat c mod 2 ^ 248)
       (node_secrets @ extra_secrets)"
proof (intro conjI)
  have words: "List.map fst (node_secrets @ extra_secrets) @ List.map snd (node_secrets @ extra_secrets)
      = List.map word_of_nat (List.map fst secret_numbers @ List.map snd secret_numbers)"
    by (simp only: secrets_eq) (simp add: o_def case_prod_unfold)
  show "distinct (List.map fst (node_secrets @ extra_secrets) @ List.map snd (node_secrets @ extra_secrets))"
    unfolding words by (rule distinct_words [OF secret_numbers_facts(1,2)])
  have "List.map unat (List.map (\<lambda>(p, c). frozen_bjj_key c) (node_secrets @ extra_secrets))
      = List.map (\<lambda>(p, c). c mod 2 ^ 248) secret_numbers"
    using secret_numbers_facts(4)
    by (simp only: secrets_eq) (auto simp: list_all_iff unat_bjj_nat Let_def)
  then show "distinct (List.map (\<lambda>(p, c). frozen_bjj_key c) (node_secrets @ extra_secrets))"
    using secret_numbers_facts(3) by (metis distinct_map)
  show "list_all (\<lambda>(p, c). 0 < unat (frozen_bjj_key c) \<and> unat (frozen_bjj_key c) = unat c mod 2 ^ 248)
       (node_secrets @ extra_secrets)"
  proof -
    have "unat (word_of_nat c :: 256 word) = c \<and> c mod 2 ^ 248 \<noteq> 0" if "(p, c) \<in> set secret_numbers" for p c
    proof -
      have "c < 2 ^ 256" using secret_numbers_facts(1) that by (force simp: list_all_iff)
      moreover have "c mod 2 ^ 248 \<noteq> 0" using secret_numbers_facts(4) that by (force simp: list_all_iff)
      ultimately show ?thesis by (simp add: unat_of_nat)
    qed
    then show ?thesis by (simp only: secrets_eq) (fastforce simp: list_all_iff unat_bjj Let_def)
  qed
qed

section \<open>Announcements\<close>

lemma checked_port_Some:
  assumes "checked_port base i = Some p" and "i < 2 ^ 16"
  shows "unat p = unat base + i"
  using assms by (auto simp: checked_port_def unat_of_nat unat_word_ariths split: if_splits)


section \<open>PIX\<close>

lemma node_config_Ok:
  "node_config ce cfg i safe st id_path g = Inr c \<Longrightarrow>
    uc_announce (hd_hopr c) = (gc_latency cfg = None) \<and> uc_safe_module (hd_hopr c) = safe
    \<and> un_pix (uc_network (hd_hopr c)) = or_default g (default_user_pix_global (ce_upstream ce))
    \<and> un_incoming_session_pix (uc_network (hd_hopr c)) = incoming_pix_of (ce_upstream ce) (gc_pix cfg) i
    \<and> id_password (hd_identity c) = gc_identity_password cfg \<and> hd_strategy c = st"
  by (auto simp: node_config_def Let_def res_bind_Ok_iff)

text \<open>The PIX settings of a cluster are those its nodes run with. In the library configuration of node i made from
  its generated file, the generator has the dimensions, the surplus and the batch limit of the settings,
  the admission accepts exactly their quota range and is enforced exactly on the nodes listed, and the
  supervisor has their deadlines, batch size and fill parameters.\<close>

theorem pix_settings_reach_library:
  assumes "node_config ce cfg i safe st id_path (pix_global_of (gc_pix cfg)) = Inr c" and "gc_pix cfg = Some p"
  shows "let lib = lib_config_of_user up (hd_hopr c);
             ix = lc_incoming_pix lib; sv = ix_supervision ix
         in pg_num_ssa_parts (lc_pix lib) = ps_num_ssa_parts p
          \<and> pg_ssa_part_size (lc_pix lib) = ps_ssa_part_size p
          \<and> pg_additional_shares (lc_pix lib) = Some (ps_additional_shares p)
          \<and> pg_max_ssas_per_request (lc_pix lib) = ps_max_ssas_per_request p
          \<and> ix_quota_range ix = (ps_quota_range_min p, ps_quota_range_max p)
          \<and> (ix_enforce_pix ix \<longleftrightarrow> i \<in> set (ps_enforce_on_nodes p))
          \<and> sv_max_ssa_delivery_time sv = ps_max_ssa_delivery_time p
          \<and> sv_max_deposit_wait sv = ps_max_deposit_wait p
          \<and> sv_max_recovery_time sv = ps_max_recovery_time p
          \<and> sv_ssas_per_request sv = ps_ssas_per_request p
          \<and> sv_allow_dynamic_ssa_batches sv = ps_allow_dynamic_ssa_batches p
          \<and> sv_max_served_without_progress sv = ps_max_served_without_progress p
          \<and> pf_enabled (sv_fill sv) = ps_fill_enabled p
          \<and> pf_max_rate (sv_fill sv) = ps_fill_max_rate p
          \<and> pf_finish_fraction (sv_fill sv) = ps_fill_finish_fraction p"
  using node_config_Ok [OF assms(1)] assms(2)
  by (simp add: Let_def lib_config_of_user_def supervisor_of_user_def pix_global_of_def incoming_pix_of_def
      or_default_def)

text \<open>The demo settings fit together. With shares of 1452 bytes their quota is 46464 bytes, which the Exit's range
  admits; the deposit for it is below the allocation; a Safe's float pays for 300 deposits and the spending
  limit for as many; and the Exit never asks for more commitments than the Entry grants.\<close>

theorem demo_settings_consistent:
  assumes "px_bytes_per_share lib = 1452"
  shows "let p = default_pix_settings up; q = unat (quota_per_ssa lib p); deposit = ps_price_per_byte p * q
     in q = 46464 \<and> ps_quota_range_min p \<le> q \<and> q \<le> ps_quota_range_max p
      \<and> deposit \<le> ps_max_ssa_allocation p
      \<and> 300 * deposit \<le> ps_safe_deposit_float p \<and> 300 * deposit \<le> ps_max_spend_per_window p
      \<and> ps_ssas_per_request p \<le> ps_max_ssas_per_request p"
proof -
  have "unat (quota_per_ssa lib (default_pix_settings up)) = 46464"
    by (subst quota_exact) (simp_all add: assms default_pix_settings_def Let_def)
  then show ?thesis by (simp add: Let_def) (simp add: default_pix_settings_def Let_def)
qed

section \<open>Examples\<close>


definition sample_generation :: "'u upstream \<Rightarrow> generation_config" where
  "sample_generation up =
     (default_generation (\<lambda>_. None))
       \<lparr> gc_pix := Some ((default_pix_settings up) \<lparr> ps_enforce_on_nodes := [2] \<rparr>) \<rparr>"

theorem pix_settings_reach_library_witness:
  "\<forall>up h fw. \<exists>c. node_config \<lparr> ce_upstream = up, ce_vars = \<lambda>_. None, ce_api_host = h, ce_no_allow_list = fw,
        ce_absolute = \<lambda>p. Inr (''/'' @ p) \<rparr> (sample_generation up) 2
        \<lparr> sm_safe_address = 1, sm_module_address = 2 \<rparr> (Multi_Config False 0 [] :: unit multi_strategy_config) ''k''
        (pix_global_of (gc_pix (sample_generation up))) = Inr c
      \<and> pg_num_ssa_parts (lc_pix (lib_config_of_user up (hd_hopr c))) = 8
      \<and> ix_quota_range (lc_incoming_pix (lib_config_of_user up (hd_hopr c))) = (0, 1048576)
      \<and> ix_enforce_pix (lc_incoming_pix (lib_config_of_user up (hd_hopr c)))"
proof (intro allI)
  fix up :: "'u upstream" and h fw
  let ?ce = "\<lparr> ce_upstream = up, ce_vars = \<lambda>_. None, ce_api_host = h, ce_no_allow_list = fw,
        ce_absolute = \<lambda>p. Inr (''/'' @ p) \<rparr>"
  let ?cfg = "sample_generation up" and ?safe = "\<lparr> sm_safe_address = 1, sm_module_address = 2 \<rparr>"
  obtain c where c: "node_config ?ce ?cfg 2 ?safe (Multi_Config False 0 [] :: unit multi_strategy_config) ''k''
      (pix_global_of (gc_pix ?cfg)) = Inr c"
    by (simp add: node_config_def Let_def)
  have pix: "gc_pix ?cfg = Some ((default_pix_settings up) \<lparr> ps_enforce_on_nodes := [2] \<rparr>)"
    by (simp add: sample_generation_def)
  from pix_settings_reach_library [OF c pix, of up]
  show "\<exists>c. node_config ?ce ?cfg 2 ?safe (Multi_Config False 0 [] :: unit multi_strategy_config) ''k'' (pix_global_of (gc_pix ?cfg)) = Inr c
      \<and> pg_num_ssa_parts (lc_pix (lib_config_of_user up (hd_hopr c))) = 8
      \<and> ix_quota_range (lc_incoming_pix (lib_config_of_user up (hd_hopr c))) = (0, 1048576)
      \<and> ix_enforce_pix (lc_incoming_pix (lib_config_of_user up (hd_hopr c)))"
    by (intro exI [of _ c] conjI) (use c in \<open>simp_all add: Let_def default_pix_settings_def\<close>)
qed

theorem demo_settings_consistent_witness:
  "\<forall>up. unat (quota_per_ssa \<lparr> px_hopr = \<lambda>s. Inl s, px_xdai = \<lambda>s. Inl s, px_bytes_per_share = 1452 \<rparr>
     (default_pix_settings up)) = 46464"
proof
  fix up :: "'u upstream"
  show "unat (quota_per_ssa \<lparr> px_hopr = \<lambda>s. Inl s, px_xdai = \<lambda>s. Inl s, px_bytes_per_share = 1452 \<rparr>
      (default_pix_settings up)) = 46464"
    using demo_settings_consistent [of "\<lparr> px_hopr = \<lambda>s. Inl s, px_xdai = \<lambda>s. Inl s, px_bytes_per_share = 1452 \<rparr>" up]
    by (simp add: Let_def)
qed

end
