(* ===== verification/Provision.thy ===== *)
theory Provision
  imports Effects Cluster_Identity Curvy_Grant
begin

text \<open>
  The provisioning of a local cluster (\<open>generate\<close> in \<open>localcluster/src/identity.rs\<close>): funding each identity from
  the deployer's account, finding or deploying its Safe, granting the aggregator, topping up the Safe for
  PIX, registering and announcing, and writing keystores and node configurations.

  The chain, the file system and the key library are operations of a world. A confirmed transaction is one
  operation, of type \<open>action\<close>; the queries \<open>generate\<close> makes while a Safe is being deployed are made after it,
  with the deadline counted from before.
\<close>

datatype registration_error = Already_Registered | Registration_Unconfirmed | Registration_Failed string
datatype announcement_error = Already_Announced | Announcement_Unconfirmed | Announcement_Failed string

record ('k, 'c, 't, 'w) site = "'w clock" +
  si_env :: env_vars
  si_debug :: "string \<Rightarrow> string"
  si_amounts :: pix_lib
  si_show_native :: "balance \<Rightarrow> string"
  si_show_tokens :: "balance \<Rightarrow> string"
  si_show_address :: "address \<Rightarrow> string"
  si_parse_address :: "string \<Rightarrow> address option"
  si_is_ip :: "string \<Rightarrow> bool"
  si_multiaddr :: "string \<Rightarrow> (string, multiaddr) res"
  si_hex :: "string \<Rightarrow> (string, string) res"
  si_chain_secret :: "string \<Rightarrow> (string, 'c) res"
  si_keys_of :: "256 word \<times> 256 word \<times> 256 word \<Rightarrow> (string, 'k) res"
  si_chain_key :: "'k \<Rightarrow> 'c"
  si_address :: "'c \<Rightarrow> address"
  si_url :: "string \<Rightarrow> (string, unit) res"
  si_make_dir :: "string \<Rightarrow> (string, unit, 'w) action"
  si_canonical :: "string \<Rightarrow> (string, string, 'w) action"
  si_exists :: "string \<Rightarrow> (string, bool, 'w) action"
  si_read_keystore :: "string \<Rightarrow> string \<Rightarrow> (string, 'k, 'w) action"
  si_write_keystore :: "'k \<Rightarrow> string \<Rightarrow> string \<Rightarrow> (string, unit, 'w) action"
  si_write_file :: "string \<Rightarrow> string \<Rightarrow> (string, unit, 'w) action"
  si_adopt_legacy :: "string \<Rightarrow> string \<Rightarrow> (string, unit, 'w) action"
  si_random_keys :: "'w \<Rightarrow> 'k \<times> 'w"
  si_health :: "(string, string, 'w) action"
  si_open :: "'c \<Rightarrow> address option \<Rightarrow> (string, unit, 'w) action"
  si_connect :: "'c \<Rightarrow> address option \<Rightarrow> (string, unit, 'w) action"
  si_native :: "address \<Rightarrow> (string, balance, 'w) action"
  si_tokens :: "address \<Rightarrow> (string, balance, 'w) action"
  si_send_native :: "'c \<Rightarrow> balance \<Rightarrow> address \<Rightarrow> (string, unit, 'w) action"
  si_send_tokens :: "'c \<Rightarrow> balance \<Rightarrow> address \<Rightarrow> (string, unit, 'w) action"
  si_safe_of :: "address \<Rightarrow> (string, safe_module option, 'w) action"
  si_deploy_safe :: "'c \<Rightarrow> balance \<Rightarrow> (string, unit, 'w) action"
  si_grant :: "'c \<Rightarrow> 'w \<Rightarrow> 't grant_env"
  si_submitted :: "'t list \<Rightarrow> 'w \<Rightarrow> 'w"
  si_register :: "'c \<Rightarrow> safe_module \<Rightarrow> (registration_error, unit, 'w) action"
  si_announce :: "'k \<Rightarrow> safe_module \<Rightarrow> multiaddr \<Rightarrow> (announcement_error, unit, 'w) action"

section \<open>Settings from the environment\<close>

definition env_amount ::
  "(string \<Rightarrow> (string, balance) res) \<Rightarrow> env_vars \<Rightarrow> string \<Rightarrow> string \<Rightarrow> string \<Rightarrow> (string, balance) res" where
  "env_amount parse env variable fallback message =
     map_err (\<lambda>_. variable @ message) (parse (case env variable of Some v \<Rightarrow> v | None \<Rightarrow> fallback))"

definition node_token_target :: "('k, 'c, 't, 'w) site \<Rightarrow> (string, balance) res" where
  "node_token_target st =
     env_amount (px_hopr (si_amounts st)) (si_env st) ''HOPRD_NODE_TOKEN_TARGET'' ''1000 wxHOPR''
       '' must be a wxHOPR amount''"

definition node_native_target :: "('k, 'c, 't, 'w) site \<Rightarrow> (string, balance) res" where
  "node_native_target st =
     env_amount (px_xdai (si_amounts st)) (si_env st) ''HOPRD_NODE_NATIVE_TARGET'' ''1 xDai''
       '' must be an xDai amount''"

definition float_node_ids :: "('k, 'c, 't, 'w) site \<Rightarrow> (string, nat list option) res" where
  "float_node_ids st =
     (case si_env st ''HOPRD_PIX_FLOAT_NODE_IDS'' of
        None \<Rightarrow> Inr None
      | Some raw \<Rightarrow>
          res_bind
            (traverse_res
              (\<lambda>part. ok_or (''HOPRD_PIX_FLOAT_NODE_IDS must list node ids, got '' @ si_debug st raw)
                 (parse_unsigned 64 (str_trim part)))
              (filter (\<lambda>part. str_trim part \<noteq> []) (split_on (CHR '','') raw)))
            (\<lambda>ids. Inr (Some ids)))"

definition pix_safe_target :: "generation_config \<Rightarrow> nat list option \<Rightarrow> balance \<Rightarrow> nat \<Rightarrow> balance" where
  "pix_safe_target cfg ids initial i =
     (let float = (case gc_pix cfg of None \<Rightarrow> 0 | Some p \<Rightarrow> ps_safe_deposit_float p)
      in if (case ids of None \<Rightarrow> True | Some l \<Rightarrow> List.member l i) then initial + float else initial)"

section \<open>Keys\<close>

definition node_keys ::
  "('k, 'c, 't, 'w) site \<Rightarrow> generation_config \<Rightarrow> nat \<Rightarrow> string \<Rightarrow> (string, 'k, 'w) action" where
  "node_keys st cfg i id_path =
     act_bind (if gc_reuse_identities cfg then si_exists st id_path else act_return False) (\<lambda>saved.
       if saved then
         act_context (''reading existing node '' @ show_nat i @ '' identity '' @ id_path)
           (si_read_keystore st id_path (gc_identity_password cfg))
       else
         act_bind
           (if gc_random_identities cfg then (\<lambda>w. case si_random_keys st w of (k, w') \<Rightarrow> (Inr k, w'))
            else
              (case node_secrets ! i of (packet, chain) \<Rightarrow>
                 act_context (''frozen keys of node '' @ show_nat i)
                   (act_of (frozen_hopr_keys (si_keys_of st) packet chain))))
           (\<lambda>k. act_bind (si_write_keystore st k id_path (gc_identity_password cfg)) (\<lambda>_. act_return k)))"

section \<open>Funds\<close>

text \<open>An account is topped up to its target from the deployer's account, which has to have what is missing.\<close>

definition top_up ::
  "(address \<Rightarrow> (string, balance, 'w) action) \<Rightarrow> (balance \<Rightarrow> address \<Rightarrow> (string, unit, 'w) action)
   \<Rightarrow> (balance \<Rightarrow> string) \<Rightarrow> address \<Rightarrow> string \<Rightarrow> balance \<Rightarrow> address \<Rightarrow> (string, unit, 'w) action" where
  "top_up balance send show me me_text target who =
     act_bind (balance who) (\<lambda>b.
       if b < target then
         act_bind (balance me) (\<lambda>mine.
           if mine < target - b then
             act_fail (''Account '' @ me_text @ '' must have at least '' @ show (target - b) @ ''.'')
           else send (target - b) who)
       else act_return ())"

definition top_up_native ::
  "('k, 'c, 't, 'w) site \<Rightarrow> 'c \<Rightarrow> balance \<Rightarrow> address \<Rightarrow> (string, unit, 'w) action" where
  "top_up_native st dep target who =
     top_up (si_native st) (si_send_native st dep) (si_show_native st) (si_address st dep)
       (si_show_address st (si_address st dep)) target who"

definition top_up_tokens ::
  "('k, 'c, 't, 'w) site \<Rightarrow> 'c \<Rightarrow> balance \<Rightarrow> address \<Rightarrow> (string, unit, 'w) action" where
  "top_up_tokens st dep target who =
     top_up (si_tokens st) (si_send_tokens st dep) (si_show_tokens st) (si_address st dep)
       (si_show_address st (si_address st dep)) target who"

section \<open>Safes\<close>

definition await_safe ::
  "('k, 'c, 't, 'w) site \<Rightarrow> string \<Rightarrow> address \<Rightarrow> nat \<Rightarrow> 'w \<Rightarrow> ((string, safe_module) res \<times> 'w) option" where
  "await_safe st who a start w =
     poll_until (clock.truncate st) start (secs 2) (secs 120)
       (Inl (who @ '': safe not indexed after 120s'')) (si_safe_of st a) w"

definition provision_safe ::
  "('k, 'c, 't, 'w) site \<Rightarrow> 'c \<Rightarrow> balance \<Rightarrow> string \<Rightarrow> 'c \<Rightarrow> (string, safe_module, 'w) action" where
  "provision_safe st dep target who key =
     (let a = si_address st key in
      act_bind (si_safe_of st a) (\<lambda>found.
        case found of
          Some safe \<Rightarrow> act_return safe
        | None \<Rightarrow>
            act_bind (top_up_tokens st dep target a) (\<lambda>_ w.
              act_bind (si_deploy_safe st key target) (\<lambda>_.
                act_total ''the wait does not end'' (await_safe st who a (ck_now st w))) w)))"

definition grant_aggregator ::
  "('k, 'c, 't, 'w) site \<Rightarrow> string \<Rightarrow> 'c \<Rightarrow> safe_module \<Rightarrow> (string, unit, 'w) action" where
  "grant_aggregator st who key safe =
     act_bind (act_of (aggregator_from_env (si_parse_address st) (si_env st ''HOPRD_CURVY_SCOPE_AGGREGATOR'')))
       (\<lambda>aggregator. case aggregator of
          None \<Rightarrow> act_return ()
        | Some target \<Rightarrow>
            act_context (who @ '': granting the Safe the Curvy aggregator target'')
              (\<lambda>w. case scope_aggregator (si_grant st key w) (si_address st key) (sm_safe_address safe)
                       (sm_module_address safe) target of
                     (sent, r) \<Rightarrow> (map_err (\<lambda>_. []) r, si_submitted st sent w)))"

text \<open>Registration and announcement tolerate that they have been made before.\<close>

definition register_node ::
  "('k, 'c, 't, 'w) site \<Rightarrow> 'c \<Rightarrow> safe_module \<Rightarrow> (string, unit, 'w) action" where
  "register_node st key safe w =
     (case si_register st key safe w of
        (Inr _, w') \<Rightarrow> (Inr (), w')
      | (Inl Already_Registered, w') \<Rightarrow> (Inr (), w')
      | (Inl Registration_Unconfirmed, w') \<Rightarrow> (Inl ''safe registration'', w')
      | (Inl (Registration_Failed e), w') \<Rightarrow> (Inl (''safe registration failed: '' @ e), w'))"

definition announce_node ::
  "('k, 'c, 't, 'w) site \<Rightarrow> 'k \<Rightarrow> safe_module \<Rightarrow> multiaddr \<Rightarrow> (string, unit, 'w) action" where
  "announce_node st keys safe ma w =
     (case si_announce st keys safe ma w of
        (Inr _, w') \<Rightarrow> (Inr (), w')
      | (Inl Already_Announced, w') \<Rightarrow> (Inr (), w')
      | (Inl Announcement_Unconfirmed, w') \<Rightarrow> (Inl ''pre-announce confirmation'', w')
      | (Inl (Announcement_Failed e), w') \<Rightarrow> (Inl (''pre-announce failed: '' @ e), w'))"

section \<open>One identity\<close>

text \<open>What the identities of one generation share.\<close>

record ('c, 'u, 's) generation =
  gn_config :: generation_config
  gn_home :: string
  gn_deployer :: 'c
  gn_token_target :: balance
  gn_native_target :: balance
  gn_float_ids :: "nat list option"
  gn_strategy :: "'s multi_strategy_config"
  gn_env :: "'u config_env"
  gn_yaml :: "('u, 's) hoprd_config \<Rightarrow> (string, string) res"

definition node_who :: "nat \<Rightarrow> string" where "node_who i = ''Node '' @ show_nat i"
definition extra_who :: "nat \<Rightarrow> string" where "extra_who i = ''Extra '' @ show_nat i"

definition id_path :: "string \<Rightarrow> nat \<Rightarrow> string" where
  "id_path home i = join_path home (''node_id_'' @ show_nat i @ ''.id'')"

definition config_path :: "string \<Rightarrow> nat \<Rightarrow> string" where
  "config_path home i = join_path home (''hoprd_cfg_'' @ show_nat i @ ''.yaml'')"

definition extra_path :: "string \<Rightarrow> nat \<Rightarrow> string" where
  "extra_path home i = join_path home (''extra_id_'' @ show_nat i @ ''.id'')"

text \<open>Balances, Safe and grant, for nodes and extra identities alike.\<close>

definition fund_identity ::
  "('k, 'c, 't, 'w) site \<Rightarrow> ('c, 'u, 's) generation \<Rightarrow> string \<Rightarrow> 'c \<Rightarrow> (string, safe_module, 'w) action" where
  "fund_identity st g who key =
     act_bind (si_open st key None) (\<lambda>_.
     act_bind (top_up_native st (gn_deployer g) (gn_native_target g) (si_address st key)) (\<lambda>_.
     act_bind (provision_safe st (gn_deployer g) (gn_token_target g) who key) (\<lambda>safe.
     act_bind (grant_aggregator st who key safe) (\<lambda>_.
       act_return safe))))"

definition top_up_for_pix ::
  "('k, 'c, 't, 'w) site \<Rightarrow> ('c, 'u, 's) generation \<Rightarrow> nat \<Rightarrow> safe_module \<Rightarrow> (string, unit, 'w) action" where
  "top_up_for_pix st g i safe =
     act_when (gc_pix (gn_config g) \<noteq> None)
       (top_up_tokens st (gn_deployer g)
          (pix_safe_target (gn_config g) (gn_float_ids g) (gn_token_target g) i) (sm_safe_address safe))"

definition put_on_chain ::
  "('k, 'c, 't, 'w) site \<Rightarrow> ('c, 'u, 's) generation \<Rightarrow> nat \<Rightarrow> 'k \<Rightarrow> safe_module \<Rightarrow> (string, unit, 'w) action" where
  "put_on_chain st g i keys safe =
     (let key = si_chain_key st keys; module = Some (sm_module_address safe) in
      act_bind (si_open st key module) (\<lambda>_.
      act_bind (si_connect st key module) (\<lambda>_.
      act_bind (register_node st key safe) (\<lambda>_.
      act_bind (act_of (announce_port (gn_config g) i)) (\<lambda>port.
      act_bind (act_of (build_announce_multiaddr (si_is_ip st) (si_multiaddr st) (announce_host (gn_config g)) port))
        (announce_node st keys safe))))))"

definition write_node_config ::
  "('k, 'c, 't, 'w) site \<Rightarrow> ('c, 'u, 's) generation \<Rightarrow> nat \<Rightarrow> safe_module \<Rightarrow> (string, unit, 'w) action" where
  "write_node_config st g i safe =
     act_bind
       (act_of (node_config (gn_env g) (gn_config g) i safe (gn_strategy g) (id_path (gn_home g) i)
          (pix_global_of (gc_pix (gn_config g)))))
       (\<lambda>cfg. act_bind (act_of (gn_yaml g cfg)) (si_write_file st (config_path (gn_home g) i)))"

definition identity_of ::
  "('k, 'c, 't, 'w) site \<Rightarrow> nat \<Rightarrow> address \<Rightarrow> safe_module \<Rightarrow> string \<Rightarrow> string \<Rightarrow> generated_identity" where
  "identity_of st i a safe path password =
     \<lparr> gi_id = i, gi_address = si_show_address st a,
       gi_safe_address = si_show_address st (sm_safe_address safe),
       gi_module_address = si_show_address st (sm_module_address safe),
       gi_id_file = path, gi_password = password \<rparr>"

definition generate_node ::
  "('k, 'c, 't, 'w) site \<Rightarrow> ('c, 'u, 's) generation \<Rightarrow> nat \<Rightarrow> (string, generated_identity, 'w) action" where
  "generate_node st g i =
     (let cfg = gn_config g; home = gn_home g in
      act_bind (node_keys st cfg i (id_path home i)) (\<lambda>keys.
      let key = si_chain_key st keys; a = si_address st key in
      act_bind
        (act_when (gc_reuse_identities cfg)
          (si_adopt_legacy st (join_path home (''db_'' @ show_nat i))
             (''curvy-pix-'' @ si_show_address st a @ ''.redb''))) (\<lambda>_.
      act_bind (fund_identity st g (node_who i) key) (\<lambda>safe.
      act_bind (top_up_for_pix st g i safe) (\<lambda>_.
      act_bind (put_on_chain st g i keys safe) (\<lambda>_.
      act_bind (write_node_config st g i safe) (\<lambda>_.
        act_return (identity_of st i a safe (id_path home i) (gc_identity_password cfg)))))))))"

definition generate_extra ::
  "('k, 'c, 't, 'w) site \<Rightarrow> ('c, 'u, 's) generation \<Rightarrow> nat \<Rightarrow> (string, generated_identity, 'w) action" where
  "generate_extra st g i =
     (case extra_secrets ! i of (packet, chain) \<Rightarrow>
      act_bind
        (act_context (''frozen keys of extra identity '' @ show_nat i)
          (act_of (frozen_hopr_keys (si_keys_of st) packet chain))) (\<lambda>keys.
      act_bind (fund_identity st g (extra_who i) (si_chain_key st keys)) (\<lambda>safe.
      act_bind (si_write_keystore st keys (extra_path (gn_home g) i) extra_identity_password) (\<lambda>_.
        act_return (identity_of st i (si_address st (si_chain_key st keys)) safe (extra_path (gn_home g) i)
          extra_identity_password)))))"

section \<open>The whole generation\<close>

definition connect_deployer ::
  "('k, 'c, 't, 'w) site \<Rightarrow> generation_config \<Rightarrow> (string, 'c, 'w) action" where
  "connect_deployer st cfg =
     act_bind (act_of (map_err (\<lambda>_. ''invalid private key'') (si_hex st (gc_private_key cfg)))) (\<lambda>secret.
     act_bind (act_of (si_url st (gc_blokli_url cfg))) (\<lambda>_.
     act_bind (si_health st) (\<lambda>status.
       if \<not> eq_ignore_ascii_case status ''ok'' then act_fail (''Blokli is not usable: '' @ status)
       else
         act_bind (act_of (si_chain_secret st secret)) (\<lambda>dep.
         act_bind (si_open st dep None) (\<lambda>_.
         act_bind (si_connect st dep None) (\<lambda>_. act_return dep))))))"

definition prepare_generation ::
  "('k, 'c, 't, 'w) site \<Rightarrow> 's strategy_params \<Rightarrow> 'u config_env \<Rightarrow> (('u, 's) hoprd_config \<Rightarrow> (string, string) res)
   \<Rightarrow> generation_config \<Rightarrow> (string, ('c, 'u, 's) generation, 'w) action" where
  "prepare_generation st sr ce yaml cfg =
     act_bind (si_make_dir st (gc_config_home cfg)) (\<lambda>_.
     act_bind (si_canonical st (gc_config_home cfg)) (\<lambda>home.
     act_bind (connect_deployer st cfg) (\<lambda>dep.
     act_bind (act_of (node_token_target st)) (\<lambda>tokens.
     act_bind (act_of (node_native_target st)) (\<lambda>native.
     act_bind (act_of (float_node_ids st)) (\<lambda>ids.
     act_bind (act_of (node_strategies sr cfg (effective_nodes (gc_num_nodes cfg)))) (\<lambda>strategy.
       act_return \<lparr> gn_config = cfg, gn_home = home, gn_deployer = dep, gn_token_target = tokens,
         gn_native_target = native, gn_float_ids = ids, gn_strategy = strategy, gn_env = ce,
         gn_yaml = yaml \<rparr>)))))))"

definition generate ::
  "('k, 'c, 't, 'w) site \<Rightarrow> 's strategy_params \<Rightarrow> 'u config_env \<Rightarrow> (('u, 's) hoprd_config \<Rightarrow> (string, string) res)
   \<Rightarrow> generation_config \<Rightarrow> (string, generated_identity list \<times> generated_identity list, 'w) action" where
  "generate st sr ce yaml cfg =
     act_bind (prepare_generation st sr ce yaml cfg) (\<lambda>g.
     act_bind (act_each (generate_node st g) [0..<effective_nodes (gc_num_nodes cfg)]) (\<lambda>nodes.
     act_bind (act_each (generate_extra st g) [0..<min (gc_num_extras cfg) (length extra_secrets)]) (\<lambda>extras.
       act_return (nodes, extras))))"

end
