(* ===== verification/Ledger.thy ===== *)
theory Ledger
  imports Provision
begin

text \<open>
  What the provisioning relies on: a chain whose state is a ledger of balances, Safes, registrations and
  announcements, and a disk of texts and keystores. The laws are those of the operations of a \<open>site\<close>: a query
  changes nothing and answers what the ledger says, a confirmed transaction does what it is for and may
  cost native tokens, an owner keeps its first Safe, and no Safe is the account of a key; a keystore that was
  written is there and is read as it was written, and a directory keeps its canonical path.
\<close>

record ledger =
  lg_native :: "address \<Rightarrow> balance"
  lg_tokens :: "address \<Rightarrow> balance"
  lg_safe :: "address \<Rightarrow> safe_module option"
  lg_registered :: "address set"
  lg_announced :: "(address \<times> multiaddr) set"

record 'k disk =
  dk_files :: "string \<Rightarrow> string option"
  dk_keystores :: "string \<Rightarrow> ('k \<times> string) option"

definition move_tokens :: "address \<Rightarrow> address \<Rightarrow> balance \<Rightarrow> (address \<Rightarrow> balance) \<Rightarrow> address \<Rightarrow> balance" where
  "move_tokens a b x t = (let t1 = t(a := t a - x) in t1(b := t1 b + x))"

definition answers :: "('w \<Rightarrow> ledger) \<Rightarrow> ('e, 'a, 'w) action \<Rightarrow> (ledger \<Rightarrow> 'a \<Rightarrow> bool) \<Rightarrow> bool" where
  "answers lg m P \<longleftrightarrow> leaves lg m \<and> (\<forall>w x w'. m w = (Inr x, w') \<longrightarrow> P (lg w) x)"

definition chain_reads :: "('k, 'c, 't, 'w) site \<Rightarrow> ('w \<Rightarrow> ledger) \<Rightarrow> bool" where
  "chain_reads st lg \<longleftrightarrow>
     (\<forall>a. answers lg (si_native st a) (\<lambda>l b. b = lg_native l a))
     \<and> (\<forall>a. answers lg (si_tokens st a) (\<lambda>l b. b = lg_tokens l a))
     \<and> (\<forall>a. answers lg (si_safe_of st a) (\<lambda>l s. s = None \<or> s = lg_safe l a))
     \<and> (\<forall>k m. leaves lg (si_open st k m)) \<and> (\<forall>k m. leaves lg (si_connect st k m)) \<and> leaves lg (si_health st)
     \<and> (\<forall>d w. lg (ck_sleep st d w) = lg w)"

definition pays :: "('w \<Rightarrow> ledger) \<Rightarrow> 'w \<Rightarrow> 'w \<Rightarrow> (ledger \<Rightarrow> ledger) \<Rightarrow> bool" where
  "pays lg w w' f \<longleftrightarrow> (\<exists>n. lg w' = f (lg w) \<lparr> lg_native := n \<rparr>)"

definition chain_writes :: "('k, 'c, 't, 'w) site \<Rightarrow> ('w \<Rightarrow> ledger) \<Rightarrow> bool" where
  "chain_writes st lg \<longleftrightarrow>
     (\<forall>k x to w w'. si_send_native st k x to w = (Inr (), w') \<longrightarrow> pays lg w w' id)
     \<and> (\<forall>k x to w w'. si_send_tokens st k x to w = (Inr (), w') \<longrightarrow>
          x \<le> lg_tokens (lg w) (si_address st k)
          \<and> pays lg w w' (\<lambda>l. l \<lparr> lg_tokens := move_tokens (si_address st k) to x (lg_tokens l) \<rparr>))
     \<and> (\<forall>k x w w'. si_deploy_safe st k x w = (Inr (), w') \<longrightarrow>
          (\<exists>s. (\<forall>c. sm_safe_address s \<noteq> si_address st c)
             \<and> (lg_safe (lg w) (si_address st k) \<noteq> None \<longrightarrow> lg_safe (lg w) (si_address st k) = Some s)
             \<and> pays lg w w' (\<lambda>l. l \<lparr> lg_tokens := move_tokens (si_address st k) (sm_safe_address s) x (lg_tokens l),
                                   lg_safe := (lg_safe l)(si_address st k \<mapsto> s) \<rparr>)))
     \<and> (\<forall>sent w. pays lg w (si_submitted st sent w) id)
     \<and> (\<forall>k s w r w'. si_register st k s w = (r, w') \<longrightarrow>
          (case r of
             Inr _ \<Rightarrow> pays lg w w' (\<lambda>l. l \<lparr> lg_registered := insert (si_address st k) (lg_registered l) \<rparr>)
           | Inl e \<Rightarrow> e = Already_Registered \<longrightarrow> lg w' = lg w \<and> si_address st k \<in> lg_registered (lg w)))
     \<and> (\<forall>k s ma w r w'. si_announce st k s ma w = (r, w') \<longrightarrow>
          (case r of
             Inr _ \<Rightarrow> pays lg w w'
               (\<lambda>l. l \<lparr> lg_announced := insert (si_address st (si_chain_key st k), ma) (lg_announced l) \<rparr>)
           | Inl e \<Rightarrow> e = Already_Announced \<longrightarrow>
               lg w' = lg w \<and> (si_address st (si_chain_key st k), ma) \<in> lg_announced (lg w)))"

definition chain_only :: "('k, 'c, 't, 'w) site \<Rightarrow> ('w \<Rightarrow> 'k disk) \<Rightarrow> bool" where
  "chain_only st dk \<longleftrightarrow>
     (\<forall>a. leaves dk (si_native st a)) \<and> (\<forall>a. leaves dk (si_tokens st a)) \<and> (\<forall>a. leaves dk (si_safe_of st a))
     \<and> (\<forall>k m. leaves dk (si_open st k m)) \<and> (\<forall>k m. leaves dk (si_connect st k m)) \<and> leaves dk (si_health st)
     \<and> (\<forall>d w. dk (ck_sleep st d w) = dk w)
     \<and> (\<forall>k x to. leaves dk (si_send_native st k x to)) \<and> (\<forall>k x to. leaves dk (si_send_tokens st k x to))
     \<and> (\<forall>k x. leaves dk (si_deploy_safe st k x)) \<and> (\<forall>sent w. dk (si_submitted st sent w) = dk w)
     \<and> (\<forall>k s. leaves dk (si_register st k s)) \<and> (\<forall>k s ma. leaves dk (si_announce st k s ma))"

definition disk_only :: "('k, 'c, 't, 'w) site \<Rightarrow> ('w \<Rightarrow> ledger) \<Rightarrow> bool" where
  "disk_only st lg \<longleftrightarrow>
     (\<forall>p. leaves lg (si_make_dir st p)) \<and> (\<forall>p. leaves lg (si_canonical st p)) \<and> (\<forall>p. leaves lg (si_exists st p))
     \<and> (\<forall>p pw. leaves lg (si_read_keystore st p pw)) \<and> (\<forall>k p pw. leaves lg (si_write_keystore st k p pw))
     \<and> (\<forall>p c. leaves lg (si_write_file st p c)) \<and> (\<forall>d f. leaves lg (si_adopt_legacy st d f))
     \<and> (\<forall>w. lg (snd (si_random_keys st w)) = lg w)"

definition disk_works :: "('k, 'c, 't, 'w) site \<Rightarrow> ('w \<Rightarrow> 'k disk) \<Rightarrow> bool" where
  "disk_works st dk \<longleftrightarrow>
     (\<forall>p. leaves dk (si_make_dir st p)) \<and> (\<forall>p. leaves dk (si_canonical st p)) \<and> (\<forall>p. leaves dk (si_exists st p))
     \<and> (\<forall>w. dk (snd (si_random_keys st w)) = dk w)
     \<and> (\<forall>p w w'. si_exists st p w = (Inr False, w') \<longrightarrow> dk_keystores (dk w) p = None)
     \<and> (\<forall>p v c v' w d w'. si_canonical st p v = (Inr c, v') \<longrightarrow> si_canonical st p w = (Inr d, w') \<longrightarrow> c = d)
     \<and> (\<forall>p pw. leaves dk (si_read_keystore st p pw))
     \<and> (\<forall>p pw w k w'. si_read_keystore st p pw w = (Inr k, w') \<longrightarrow> dk_keystores (dk w) p = Some (k, pw))
     \<and> (\<forall>k p pw w w'. si_write_keystore st k p pw w = (Inr (), w') \<longrightarrow>
          dk w' = (dk w) \<lparr> dk_keystores := (dk_keystores (dk w))(p \<mapsto> (k, pw)) \<rparr>)
     \<and> (\<forall>p c w w'. si_write_file st p c w = (Inr (), w') \<longrightarrow>
          dk w' = (dk w) \<lparr> dk_files := (dk_files (dk w))(p \<mapsto> c) \<rparr>)
     \<and> (\<forall>d f w w'. si_adopt_legacy st d f w = (Inr (), w') \<longrightarrow>
          dk_keystores (dk w') = dk_keystores (dk w)
          \<and> (\<forall>home i. dk_files (dk w') (config_path home i) = dk_files (dk w) (config_path home i)))"

definition good_site :: "('k, 'c, 't, 'w) site \<Rightarrow> ('w \<Rightarrow> ledger) \<Rightarrow> ('w \<Rightarrow> 'k disk) \<Rightarrow> bool" where
  "good_site st lg dk \<longleftrightarrow>
     chain_reads st lg \<and> chain_writes st lg \<and> chain_only st dk \<and> disk_only st lg \<and> disk_works st dk
     \<and> (\<forall>w a s k. lg_safe (lg w) a = Some s \<longrightarrow> sm_safe_address s \<noteq> si_address st k)"

end
