(* ===== verification/Provision_Laws.thy ===== *)
theory Provision_Laws
  imports Ledger
begin

text \<open>
  What a generation achieves: every node ends with a Safe of its own, registered and announced, with its
  keystore and its configuration on disk, and funded for PIX; and a second generation finds the same
  identities again.

  The proofs follow one relation: \<open>beside j\<close> says that the ledger only gains and that the files of node \<open>j\<close>
  stay as they are. Everything a generation does for another node stands beside \<open>j\<close>.
\<close>

section \<open>Names\<close>

lemma join_path_inject: "join_path d x = join_path d y \<longleftrightarrow> x = y"
  by (auto simp: join_path_def)

lemma node_paths [simp]:
  "config_path home i = config_path home j \<longleftrightarrow> i = j"
  "id_path home i = id_path home j \<longleftrightarrow> i = j"
  "extra_path home i = extra_path home j \<longleftrightarrow> i = j"
  "extra_path home i \<noteq> id_path home j" "id_path home i \<noteq> extra_path home j"
  by (simp_all add: config_path_def id_path_def extra_path_def join_path_inject)

section \<open>The ledger only gains\<close>

definition gains :: "('k, 'c, 't, 'w) site \<Rightarrow> ('w \<Rightarrow> ledger) \<Rightarrow> 'w \<Rightarrow> 'w \<Rightarrow> bool" where
  "gains st lg w w' \<longleftrightarrow>
     (\<forall>a s. lg_safe (lg w) a = Some s \<longrightarrow> lg_safe (lg w') a = Some s)
     \<and> lg_registered (lg w) \<subseteq> lg_registered (lg w') \<and> lg_announced (lg w) \<subseteq> lg_announced (lg w')
     \<and> (\<forall>a. (\<forall>k. a \<noteq> si_address st k) \<longrightarrow> lg_tokens (lg w) a \<le> lg_tokens (lg w') a)"

lemma gains_order [simp]: "reflp (gains st lg)" "transp (gains st lg)"
proof -
  show "reflp (gains st lg)" by (simp add: gains_def reflp_def)
  show "transp (gains st lg)"
    unfolding gains_def transp_def by (intro allI impI conjI) (blast | meson order_trans)+
qed

lemma gains_refl [simp]: "gains st lg w w"
  by (simp add: gains_def)

lemma gains_trans: "gains st lg u v \<Longrightarrow> gains st lg v w \<Longrightarrow> gains st lg u w"
  by (meson gains_order(2) transpD)

lemma gains_same: "lg w' = lg w \<Longrightarrow> gains st lg w w'"
  by (simp add: gains_def)

lemma gains_pays: "pays lg w w' id \<Longrightarrow> gains st lg w w'"
  by (auto simp: gains_def pays_def)

lemma gains_move:
  "pays lg w w' (\<lambda>l. l \<lparr> lg_tokens := move_tokens (si_address st k) b x (lg_tokens l) \<rparr>) \<Longrightarrow> gains st lg w w'"
  by (auto simp: gains_def pays_def move_tokens_def Let_def)

lemma gains_leaves: "leaves lg m \<Longrightarrow> advances (gains st lg) m"
  by (rule leaves_advances [where v = lg]) (auto intro: gains_same)

lemma site_reads:
  assumes "good_site st lg dk"
  shows "leaves lg (si_native st a)" "leaves lg (si_tokens st a)" "leaves lg (si_safe_of st a)"
    "leaves lg (si_open st c mo)" "leaves lg (si_connect st c mo)" "leaves lg (si_health st)"
    "leaves lg (si_make_dir st p)" "leaves lg (si_canonical st p)" "leaves lg (si_exists st p)"
    "leaves lg (si_read_keystore st p pw)" "leaves lg (si_write_keystore st k p pw)"
    "leaves lg (si_write_file st p t)" "leaves lg (si_adopt_legacy st p t)"
  using assms by (simp_all add: good_site_def chain_reads_def disk_only_def answers_def)

lemma site_answers:
  assumes "good_site st lg dk"
  shows "si_native st a w = (Inr b, w') \<Longrightarrow> b = lg_native (lg w) a"
    and "si_tokens st a w = (Inr b, w') \<Longrightarrow> b = lg_tokens (lg w) a"
    and "si_safe_of st a w = (Inr s, w') \<Longrightarrow> s = None \<or> s = lg_safe (lg w) a"
    and "lg (ck_sleep st d w) = lg w"
    and "si_random_keys st w = (k, w') \<Longrightarrow> lg w' = lg w"
    and "lg_safe (lg w) a = Some safe \<Longrightarrow> sm_safe_address safe \<noteq> si_address st c"
proof -
  have r: "chain_reads st lg" and d: "disk_only st lg"
    and own: "\<forall>w a s k. lg_safe (lg w) a = Some s \<longrightarrow> sm_safe_address s \<noteq> si_address st k"
    using assms by (simp_all add: good_site_def)
  show "si_native st a w = (Inr b, w') \<Longrightarrow> b = lg_native (lg w) a"
    and "si_tokens st a w = (Inr b, w') \<Longrightarrow> b = lg_tokens (lg w) a"
    and "si_safe_of st a w = (Inr s, w') \<Longrightarrow> s = None \<or> s = lg_safe (lg w) a"
    and "lg (ck_sleep st d w) = lg w" for d
    using r by (simp_all add: chain_reads_def answers_def)
  show "si_random_keys st w = (k, w') \<Longrightarrow> lg w' = lg w"
    using d unfolding disk_only_def by (metis snd_conv)
  show "lg_safe (lg w) a = Some safe \<Longrightarrow> sm_safe_address safe \<noteq> si_address st c"
    using own by simp
qed

lemma site_writes:
  assumes "good_site st lg dk"
  shows "si_send_native st c x to w = (Inr (), w') \<Longrightarrow> pays lg w w' id"
    and "si_send_tokens st c x to w = (Inr (), w') \<Longrightarrow>
          pays lg w w' (\<lambda>l. l \<lparr> lg_tokens := move_tokens (si_address st c) to x (lg_tokens l) \<rparr>)"
    and "si_deploy_safe st c x w = (Inr (), w') \<Longrightarrow>
          \<exists>s. (\<forall>c. sm_safe_address s \<noteq> si_address st c)
             \<and> (lg_safe (lg w) (si_address st c) \<noteq> None \<longrightarrow> lg_safe (lg w) (si_address st c) = Some s)
             \<and> pays lg w w' (\<lambda>l. l \<lparr> lg_tokens := move_tokens (si_address st c) (sm_safe_address s) x (lg_tokens l),
                                   lg_safe := (lg_safe l)(si_address st c \<mapsto> s) \<rparr>)"
    and "pays lg w (si_submitted st sent w) id"
    and "si_register st c safe w = (r, w') \<Longrightarrow>
          (case r of
             Inr _ \<Rightarrow> pays lg w w' (\<lambda>l. l \<lparr> lg_registered := insert (si_address st c) (lg_registered l) \<rparr>)
           | Inl e \<Rightarrow> e = Already_Registered \<longrightarrow> lg w' = lg w \<and> si_address st c \<in> lg_registered (lg w))"
    and "si_announce st k safe ma w = (q, w') \<Longrightarrow>
          (case q of
             Inr _ \<Rightarrow> pays lg w w'
               (\<lambda>l. l \<lparr> lg_announced := insert (si_address st (si_chain_key st k), ma) (lg_announced l) \<rparr>)
           | Inl e \<Rightarrow> e = Already_Announced \<longrightarrow>
               lg w' = lg w \<and> (si_address st (si_chain_key st k), ma) \<in> lg_announced (lg w))"
proof -
  have c: "chain_writes st lg" using assms by (simp add: good_site_def)
  note c1 = c [unfolded chain_writes_def]
  note c2 = conjunct2 [OF c1]
  note c3 = conjunct2 [OF c2]
  note c4 = conjunct2 [OF c3]
  note c5 = conjunct2 [OF c4]
  show "si_send_native st c x to w = (Inr (), w') \<Longrightarrow> pays lg w w' id" by (rule conjunct1 [OF c1, rule_format])
  show "si_send_tokens st c x to w = (Inr (), w') \<Longrightarrow>
          pays lg w w' (\<lambda>l. l \<lparr> lg_tokens := move_tokens (si_address st c) to x (lg_tokens l) \<rparr>)"
    by (rule conjunct2 [OF conjunct1 [OF c2, rule_format]])
  show "si_deploy_safe st c x w = (Inr (), w') \<Longrightarrow>
          \<exists>s. (\<forall>c. sm_safe_address s \<noteq> si_address st c)
             \<and> (lg_safe (lg w) (si_address st c) \<noteq> None \<longrightarrow> lg_safe (lg w) (si_address st c) = Some s)
             \<and> pays lg w w' (\<lambda>l. l \<lparr> lg_tokens := move_tokens (si_address st c) (sm_safe_address s) x (lg_tokens l),
                                   lg_safe := (lg_safe l)(si_address st c \<mapsto> s) \<rparr>)"
    by (rule conjunct1 [OF c3, rule_format])
  show "pays lg w (si_submitted st sent w) id" using conjunct1 [OF c4] by simp
  show "si_register st c safe w = (r, w') \<Longrightarrow>
          (case r of
             Inr _ \<Rightarrow> pays lg w w' (\<lambda>l. l \<lparr> lg_registered := insert (si_address st c) (lg_registered l) \<rparr>)
           | Inl e \<Rightarrow> e = Already_Registered \<longrightarrow> lg w' = lg w \<and> si_address st c \<in> lg_registered (lg w))"
    by (rule conjunct1 [OF c5, rule_format])
  show "si_announce st k safe ma w = (q, w') \<Longrightarrow>
          (case q of
             Inr _ \<Rightarrow> pays lg w w'
               (\<lambda>l. l \<lparr> lg_announced := insert (si_address st (si_chain_key st k), ma) (lg_announced l) \<rparr>)
           | Inl e \<Rightarrow> e = Already_Announced \<longrightarrow>
               lg w' = lg w \<and> (si_address st (si_chain_key st k), ma) \<in> lg_announced (lg w))"
    by (rule conjunct2 [OF c5, rule_format])
qed


lemma gains_writes:
  assumes "good_site st lg dk"
  shows "advances (gains st lg) (si_send_native st c x to)" "advances (gains st lg) (si_send_tokens st c x to)"
    "advances (gains st lg) (si_deploy_safe st c x)" "advances (gains st lg) (register_node st c safe)"
    "advances (gains st lg) (announce_node st k safe ma)" "advances (gains st lg) (grant_aggregator st who c safe)"
proof -
  note w = site_writes [OF assms]
  show "advances (gains st lg) (si_send_native st c x to)"
    by (rule advancesI) (auto intro!: gains_pays w(1))
  show "advances (gains st lg) (si_send_tokens st c x to)"
    by (rule advancesI) (auto intro!: gains_move w(2))
  show "advances (gains st lg) (si_deploy_safe st c x)"
    by (rule advancesI) (auto simp: gains_def pays_def move_tokens_def Let_def dest!: w(3))
  show "advances (gains st lg) (register_node st c safe)"
    by (rule advancesI)
      (auto simp: register_node_def gains_def pays_def dest!: w(5)
        split: prod.splits sum.splits registration_error.splits)
  show "advances (gains st lg) (announce_node st k safe ma)"
    by (rule advancesI)
      (auto simp: announce_node_def gains_def pays_def dest!: w(6)
        split: prod.splits sum.splits announcement_error.splits)
  have "gains st lg w (si_submitted st sent w)" for sent w
    by (rule gains_pays) (rule w(4))
  then have "advances (gains st lg)
      (\<lambda>w. case scope_aggregator (E w) x y z u of (sent, r) \<Rightarrow> (map_err f r, si_submitted st sent w))"
    for E x y z u and f :: "_ \<Rightarrow> string"
    by (auto simp: advances_def split: prod.splits)
  then show "advances (gains st lg) (grant_aggregator st who c safe)"
    unfolding grant_aggregator_def
    by (auto intro!: advances_bind advances_of advances_return advances_context split: option.split)
qed

text \<open>A wait advances as its question and its sleep do.\<close>

lemma advances_poll:
  assumes "reflp R" "transp R" "advances R m" "\<And>w. R w (ck_sleep ck delay w)"
  shows "advances R (act_total e (poll_until ck start delay timeout (Inl g) m))"
proof (rule advancesI)
  fix w x w' assume "act_total e (poll_until ck start delay timeout (Inl g) m) w = (Inr x, w')"
  then have "poll_until ck start delay timeout (Inl g) m w = Some (Inr x, w')" by (simp add: act_Ok)
  then have "\<exists>v. R w v \<and> m v = (Inr (Some x), w')"
    by (rule poll_until_Ok) (use assms in \<open>auto simp: reflp_def transp_def advances_def, meson\<close>)
  then show "R w w'" using assms(2,3) by (meson advancesD transpD)
qed

lemma gains_top_up:
  assumes "leaves lg (bal who)" and "leaves lg (bal me)" and "\<And>x. advances (gains st lg) (send x who)"
  shows "advances (gains st lg) (top_up bal send show me txt target who)"
  unfolding top_up_def
  by (auto intro!: advances_bind gains_leaves [OF assms(1)] gains_leaves [OF assms(2)] assms(3)
      advances_return advances_fail)

lemma gains_provision_safe:
  assumes "good_site st lg dk"
  shows "advances (gains st lg) (provision_safe st dep target who c)"
proof -
  have wait: "advances (gains st lg) (act_total e (await_safe st who (si_address st c) start))" for e start
    unfolding await_safe_def
    by (rule advances_poll) (simp_all add: gains_leaves site_reads [OF assms] gains_same clock.truncate_def site_answers(4) [OF assms])
  have "advances (gains st lg) (act_bind (si_deploy_safe st c target)
          (\<lambda>_. act_total e (await_safe st who (si_address st c) start)))" for e start
    by (intro advances_bind gains_writes(3) [OF assms] wait) simp
  then have deploy: "advances (gains st lg) (\<lambda>w. act_bind (si_deploy_safe st c target)
          (\<lambda>_. act_total e (await_safe st who (si_address st c) (ck_now st w))) w)" for e
    by (simp add: advances_def)
  show ?thesis
    unfolding provision_safe_def Let_def top_up_tokens_def
    by (auto intro!: advances_bind site_reads [OF assms, THEN gains_leaves] gains_top_up site_reads [OF assms]
        gains_writes [OF assms] advances_return deploy split: option.split)
qed

lemma gains_fund:
  assumes "good_site st lg dk"
  shows "advances (gains st lg) (fund_identity st g who c)" "advances (gains st lg) (top_up_for_pix st g i safe)"
    "advances (gains st lg) (put_on_chain st g i k safe)"
  unfolding fund_identity_def top_up_for_pix_def put_on_chain_def Let_def top_up_native_def top_up_tokens_def
  by (auto intro!: advances_bind advances_when site_reads [OF assms, THEN gains_leaves] gains_top_up
      site_reads [OF assms] gains_writes [OF assms] gains_provision_safe [OF assms] advances_return advances_of)

section \<open>The files of the other nodes\<close>

definition slot :: "string \<Rightarrow> nat \<Rightarrow> 'k disk \<Rightarrow> ('k \<times> string) option \<times> string option" where
  "slot home j d = (dk_keystores d (id_path home j), dk_files d (config_path home j))"

lemma site_leaves_disk:
  assumes "good_site st lg dk"
  shows "leaves dk (si_native st a)" "leaves dk (si_tokens st a)" "leaves dk (si_safe_of st a)"
    "leaves dk (si_open st c mo)" "leaves dk (si_connect st c mo)" "leaves dk (si_health st)"
    "leaves dk (si_send_native st c x to)" "leaves dk (si_send_tokens st c x to)"
    "leaves dk (si_deploy_safe st c x)" "leaves dk (si_register st c safe)"
    "leaves dk (si_announce st k safe ma)" "leaves dk (si_make_dir st p)" "leaves dk (si_canonical st p)"
    "leaves dk (si_exists st p)" "leaves dk (si_read_keystore st p pw)"
  using assms by (simp_all add: good_site_def chain_only_def disk_works_def)

lemma site_disk:
  assumes "good_site st lg dk"
  shows "dk (ck_sleep st d w) = dk w" and "dk (si_submitted st sent w) = dk w"
    and "si_random_keys st w = (k, w') \<Longrightarrow> dk w' = dk w"
    and "si_read_keystore st p pw w = (Inr k, w') \<Longrightarrow> dk_keystores (dk w) p = Some (k, pw)"
    and "si_write_keystore st k p pw w = (Inr (), w') \<Longrightarrow>
          dk w' = (dk w) \<lparr> dk_keystores := (dk_keystores (dk w))(p \<mapsto> (k, pw)) \<rparr>"
    and "si_write_file st p t w = (Inr (), w') \<Longrightarrow>
          dk w' = (dk w) \<lparr> dk_files := (dk_files (dk w))(p \<mapsto> t) \<rparr>"
    and "si_adopt_legacy st p t w = (Inr (), w') \<Longrightarrow> dk_keystores (dk w') = dk_keystores (dk w)"
    and "si_adopt_legacy st p t w = (Inr (), w') \<Longrightarrow> slot home i (dk w') = slot home i (dk w)"
proof -
  have c: "chain_only st dk" and d: "disk_works st dk" using assms by (simp_all add: good_site_def)
  show "dk (ck_sleep st d w) = dk w" and "dk (si_submitted st sent w) = dk w" for d
    using c by (simp_all add: chain_only_def)
  show "si_random_keys st w = (k, w') \<Longrightarrow> dk w' = dk w"
    using d unfolding disk_works_def by (metis snd_conv)
  show "si_read_keystore st p pw w = (Inr k, w') \<Longrightarrow> dk_keystores (dk w) p = Some (k, pw)"
    and "si_write_keystore st k p pw w = (Inr (), w') \<Longrightarrow>
          dk w' = (dk w) \<lparr> dk_keystores := (dk_keystores (dk w))(p \<mapsto> (k, pw)) \<rparr>"
    and "si_write_file st p t w = (Inr (), w') \<Longrightarrow>
          dk w' = (dk w) \<lparr> dk_files := (dk_files (dk w))(p \<mapsto> t) \<rparr>"
    and "si_adopt_legacy st p t w = (Inr (), w') \<Longrightarrow> dk_keystores (dk w') = dk_keystores (dk w)"
    and "si_adopt_legacy st p t w = (Inr (), w') \<Longrightarrow> slot home i (dk w') = slot home i (dk w)"
    using d unfolding disk_works_def slot_def by simp_all
qed

lemma fund_leaves_disk:
  assumes "good_site st lg dk"
  shows "leaves dk (top_up_for_pix st g i safe)" "leaves dk (put_on_chain st g i k safe)"
    "leaves dk (top_up_native st dep target a)" "leaves dk (top_up_tokens st dep target a)"
    "leaves dk (grant_aggregator st who c safe)"
proof -
  note d = site_leaves_disk [OF assms]
  have r: "leaves dk (register_node st c safe)" for c safe
    unfolding leaves_def register_node_def
    by (auto split: prod.splits sum.splits registration_error.splits dest: leavesD [OF d(10)])
  have a: "leaves dk (announce_node st k safe ma)" for ma
    unfolding leaves_def announce_node_def
    by (auto split: prod.splits sum.splits announcement_error.splits dest: leavesD [OF d(11)])
  have t: "leaves dk (top_up bal send sh me tx target w)"
    if "leaves dk (bal w)" "leaves dk (bal me)" "\<And>x. leaves dk (send x w)" for bal send sh me tx target w
    unfolding top_up_def by (auto intro!: leaves_intros that)
  have 1: "leaves dk (top_up_native st dep target a)" "leaves dk (top_up_tokens st dep target a)" for dep target a
    unfolding top_up_native_def top_up_tokens_def by (auto intro!: t d)
  show "leaves dk (top_up_native st dep target a)" "leaves dk (top_up_tokens st dep target a)" by (rule 1)+
  show "leaves dk (top_up_for_pix st g i safe)"
    unfolding top_up_for_pix_def by (auto intro!: leaves_intros 1)
  show "leaves dk (put_on_chain st g i k safe)"
    unfolding put_on_chain_def Let_def by (auto intro!: leaves_intros d r a)
  have "leaves dk (\<lambda>w. case scope_aggregator (E w) x y z u of (sent, r) \<Rightarrow> (map_err f r, si_submitted st sent w))"
    for E x y z u and f :: "_ \<Rightarrow> string"
    by (auto simp: leaves_def site_disk(2) [OF assms] split: prod.split)
  then show "leaves dk (grant_aggregator st who c safe)"
    unfolding grant_aggregator_def by (auto intro!: leaves_intros split: option.split)
qed


section \<open>One identity\<close>

definition beside ::
  "('k, 'c, 't, 'w) site \<Rightarrow> ('w \<Rightarrow> ledger) \<Rightarrow> ('w \<Rightarrow> 'k disk) \<Rightarrow> string \<Rightarrow> nat \<Rightarrow> 'w \<Rightarrow> 'w \<Rightarrow> bool" where
  "beside st lg dk home j w w' \<longleftrightarrow> gains st lg w w' \<and> slot home j (dk w') = slot home j (dk w)"

lemma beside_order [simp]: "reflp (beside st lg dk home j)" "transp (beside st lg dk home j)"
proof -
  show "reflp (beside st lg dk home j)" by (simp add: beside_def reflp_def)
  show "transp (beside st lg dk home j)"
    unfolding beside_def transp_def by (metis gains_trans)
qed

lemma beside_both:
  "advances (gains st lg) m \<Longrightarrow> leaves dk m \<Longrightarrow> advances (beside st lg dk home j) m"
  by (auto simp: advances_def beside_def dest: leavesD)

lemma beside_disk:
  "leaves lg m \<Longrightarrow> (\<And>w x w'. m w = (Inr x, w') \<Longrightarrow> slot home j (dk w') = slot home j (dk w))
     \<Longrightarrow> advances (beside st lg dk home j) m"
  by (auto simp: advances_def beside_def dest: leavesD intro!: gains_same)

lemma provision_safe_disk:
  assumes "good_site st lg dk" and "provision_safe st dep target who c w = (Inr safe, w')"
  shows "dk w' = dk w"
proof -
  let ?R = "\<lambda>w w'. dk w' = dk w"
  have R: "reflp ?R" "transp ?R" by (auto simp: reflp_def transp_def)
  have l: "advances ?R m" if "leaves dk m" for m :: "('e, 'x, _) action"
    using that by (auto simp: advances_def dest: leavesD)
  note d = site_leaves_disk [OF assms(1)]
  have wait: "advances ?R (act_total e (await_safe st who (si_address st c) start))" for e start
    unfolding await_safe_def
    by (rule advances_poll [OF R]) (simp_all add: l d clock.truncate_def site_disk(1) [OF assms(1)])
  have "advances ?R (act_bind (si_deploy_safe st c target)
          (\<lambda>_. act_total e (await_safe st who (si_address st c) start)))" for e start
    by (intro advances_bind R l d wait)
  then have deploy: "advances ?R (\<lambda>w. act_bind (si_deploy_safe st c target)
          (\<lambda>_. act_total e (await_safe st who (si_address st c) (ck_now st w))) w)" for e
    by (simp add: advances_def)
  have "advances ?R (provision_safe st dep target who c)"
    unfolding provision_safe_def Let_def
    by (auto intro!: advances_bind [OF R(2)] d [THEN l] fund_leaves_disk [OF assms(1), THEN l]
        advances_return R(1) deploy split: option.split)
  then show ?thesis using assms(2) by (auto dest: advancesD)
qed

lemma fund_identity_Ok:
  assumes good: "good_site st lg dk" and ok: "fund_identity st g who c w = (Inr safe, w')"
  shows "lg_safe (lg w') (si_address st c) = Some safe" and "gains st lg w w'" and "dk w' = dk w"
proof -
  let ?a = "si_address st c"
  from ok obtain w1 w2 w3 where
    1: "si_open st c None w = (Inr (), w1)"
    and 2: "top_up_native st (gn_deployer g) (gn_native_target g) ?a w1 = (Inr (), w2)"
    and 3: "provision_safe st (gn_deployer g) (gn_token_target g) who c w2 = (Inr safe, w3)"
    and 4: "grant_aggregator st who c safe w3 = (Inr (), w')"
    by (auto simp: fund_identity_def act_Ok)
  show "gains st lg w w'" using advancesD [OF gains_fund(1) [OF good] ok] .
  have "dk w1 = dk w" "dk w2 = dk w1" "dk w' = dk w3"
    by (rule leavesD [OF site_leaves_disk(4) [OF good] 1], rule leavesD [OF fund_leaves_disk(3) [OF good] 2],
        rule leavesD [OF fund_leaves_disk(5) [OF good] 4])
  then show "dk w' = dk w" using provision_safe_disk [OF good 3] by simp
  have "lg_safe (lg w3) ?a = Some safe"
  proof -
    from 3 obtain found v where found: "si_safe_of st ?a w2 = (Inr found, v)"
      and rest: "(case found of
          Some safe \<Rightarrow> act_return safe
        | None \<Rightarrow>
            act_bind (top_up_tokens st (gn_deployer g) (gn_token_target g) ?a) (\<lambda>_ w.
              act_bind (si_deploy_safe st c (gn_token_target g)) (\<lambda>_.
                act_total ''the wait does not end'' (await_safe st who ?a (ck_now st w))) w)) v = (Inr safe, w3)"
      by (auto simp: provision_safe_def Let_def act_bind_Ok)
    show ?thesis
    proof (cases found)
      case (Some s)
      then show ?thesis
        using rest site_answers(3) [OF good found] leavesD [OF site_reads(3) [OF good] found] by (simp add: act_Ok)
    next
      case None
      with rest obtain u start where "await_safe st who ?a start u = Some (Inr safe, w3)" by (auto simp: act_Ok)
      then have "\<exists>v. True \<and> si_safe_of st ?a v = (Inr (Some safe), w3)"
        unfolding await_safe_def by (rule poll_until_Ok) simp_all
      then obtain v where v: "si_safe_of st ?a v = (Inr (Some safe), w3)" by blast
      show ?thesis
        using site_answers(3) [OF good v] leavesD [OF site_reads(3) [OF good] v] by simp
    qed
  qed
  then show "lg_safe (lg w') ?a = Some safe"
    using advancesD [OF gains_writes(6) [OF good] 4] by (simp add: gains_def)
qed


lemma node_keys_Ok:
  assumes good: "good_site st lg dk" and ok: "node_keys st cfg i (id_path home i) w = (Inr k, w')"
  shows "lg w' = lg w" and "dk_keystores (dk w') (id_path home i) = Some (k, gc_identity_password cfg)"
    and "i \<noteq> j \<Longrightarrow> slot home j (dk w') = slot home j (dk w)"
    and "gc_reuse_identities cfg \<Longrightarrow> dk_keystores (dk w) (id_path home i) = Some (k0, pw0) \<Longrightarrow> k = k0"
    and "\<not> gc_reuse_identities cfg \<Longrightarrow> \<not> gc_random_identities cfg \<Longrightarrow>
          frozen_hopr_keys (si_keys_of st) (fst (node_secrets ! i)) (snd (node_secrets ! i)) = Inr k"
proof -
  let ?p = "id_path home i" and ?pw = "gc_identity_password cfg"
  let ?fresh = "if gc_random_identities cfg then (\<lambda>w. case si_random_keys st w of (k, w') \<Rightarrow> (Inr k, w'))
            else (case node_secrets ! i of (packet, chain) \<Rightarrow>
                 act_context (''frozen keys of node '' @ show_nat i)
                   (act_of (frozen_hopr_keys (si_keys_of st) packet chain)))"
  from ok obtain saved w1 where
    saved: "(if gc_reuse_identities cfg then si_exists st ?p else act_return False) w = (Inr saved, w1)"
    and rest: "(if saved then
         act_context (''reading existing node '' @ show_nat i @ '' identity '' @ ?p) (si_read_keystore st ?p ?pw)
       else act_bind ?fresh (\<lambda>k. act_bind (si_write_keystore st k ?p ?pw) (\<lambda>_. act_return k))) w1 = (Inr k, w')"
    by (auto simp: node_keys_def act_bind_Ok)
  have same: "lg w1 = lg w" "dk w1 = dk w"
    using saved leavesD [OF site_reads(9) [OF good]] leavesD [OF site_leaves_disk(14) [OF good]]
    by (auto simp: act_Ok split: if_splits)
  have "lg w' = lg w \<and> dk_keystores (dk w') ?p = Some (k, ?pw)
    \<and> (i \<noteq> j \<longrightarrow> slot home j (dk w') = slot home j (dk w))
    \<and> (gc_reuse_identities cfg \<longrightarrow> dk_keystores (dk w) ?p = Some (k0, pw0) \<longrightarrow> k = k0)
    \<and> (\<not> gc_reuse_identities cfg \<longrightarrow> \<not> gc_random_identities cfg \<longrightarrow>
          frozen_hopr_keys (si_keys_of st) (fst (node_secrets ! i)) (snd (node_secrets ! i)) = Inr k)"
  proof (cases saved)
    case True
    then have r: "si_read_keystore st ?p ?pw w1 = (Inr k, w')" using rest by (simp add: act_Ok)
    have "dk w' = dk w1" "lg w' = lg w1"
      using leavesD [OF site_leaves_disk(15) [OF good] r] leavesD [OF site_reads(10) [OF good] r] by simp_all
    moreover have "gc_reuse_identities cfg" using True saved by (auto simp: act_Ok split: if_splits)
    ultimately show ?thesis using site_disk(4) [OF good r] same by auto
  next
    case False
    with rest obtain w2 where fresh: "?fresh w1 = (Inr k, w2)"
      and wr: "si_write_keystore st k ?p ?pw w2 = (Inr (), w')"
      by (auto simp: act_Ok)
    have "lg w2 = lg w1" "dk w2 = dk w1"
      and frozen: "\<not> gc_random_identities cfg \<Longrightarrow>
        frozen_hopr_keys (si_keys_of st) (fst (node_secrets ! i)) (snd (node_secrets ! i)) = Inr k"
      using fresh site_answers(5) [OF good] site_disk(3) [OF good]
      by (auto simp: act_Ok split: if_splits prod.splits)
    moreover have "gc_reuse_identities cfg \<Longrightarrow> dk_keystores (dk w) ?p = None"
      using good saved False unfolding good_site_def disk_works_def by (metis (full_types))
    moreover note leavesD [OF site_reads(11) [OF good] wr] site_disk(5) [OF good wr]
    ultimately show ?thesis using same frozen by (auto simp: slot_def)
  qed
  then show "lg w' = lg w" and "dk_keystores (dk w') (id_path home i) = Some (k, gc_identity_password cfg)"
    and "i \<noteq> j \<Longrightarrow> slot home j (dk w') = slot home j (dk w)"
    and "gc_reuse_identities cfg \<Longrightarrow> dk_keystores (dk w) (id_path home i) = Some (k0, pw0) \<Longrightarrow> k = k0"
    and "\<not> gc_reuse_identities cfg \<Longrightarrow> \<not> gc_random_identities cfg \<Longrightarrow>
          frozen_hopr_keys (si_keys_of st) (fst (node_secrets ! i)) (snd (node_secrets ! i)) = Inr k"
    by simp_all
qed

lemma top_up_reaches:
  assumes good: "good_site st lg dk" and ok: "top_up_tokens st dep target a w = (Inr (), w')"
    and other: "\<forall>c. a \<noteq> si_address st c"
  shows "target \<le> lg_tokens (lg w') a"
proof -
  from ok obtain b w1 where b: "si_tokens st a w = (Inr b, w1)"
    and rest: "(if b < target then
         act_bind (si_tokens st (si_address st dep)) (\<lambda>mine.
           if mine < target - b then
             act_fail (''Account '' @ si_show_address st (si_address st dep) @ '' must have at least '' @
               si_show_tokens st (target - b) @ ''.'')
           else si_send_tokens st dep (target - b) a)
       else act_return ()) w1 = (Inr (), w')"
    by (auto simp: top_up_tokens_def top_up_def act_bind_Ok)
  have b': "b = lg_tokens (lg w) a" "lg w1 = lg w"
    using site_answers(2) [OF good b] leavesD [OF site_reads(2) [OF good] b] by simp_all
  show ?thesis
  proof (cases "b < target")
    case False
    then show ?thesis using rest b' by (simp add: act_Ok)
  next
    case True
    with rest obtain mine w2 where m: "si_tokens st (si_address st dep) w1 = (Inr mine, w2)"
      and s: "si_send_tokens st dep (target - b) a w2 = (Inr (), w')"
      by (auto simp: act_Ok split: if_splits)
    show ?thesis
      using site_writes(2) [OF good s] leavesD [OF site_reads(2) [OF good] m] b' other True
      by (auto simp: pays_def move_tokens_def Let_def)
  qed
qed

lemma put_on_chain_Ok:
  assumes good: "good_site st lg dk" and ok: "put_on_chain st g i k safe w = (Inr (), w')"
  shows "si_address st (si_chain_key st k) \<in> lg_registered (lg w')"
    and "\<exists>port ma. announce_port (gn_config g) i = Inr port
          \<and> build_announce_multiaddr (si_is_ip st) (si_multiaddr st) (announce_host (gn_config g)) port = Inr ma
          \<and> (si_address st (si_chain_key st k), ma) \<in> lg_announced (lg w')"
proof -
  let ?a = "si_address st (si_chain_key st k)"
  from ok obtain w1 w2 port ma where
    1: "register_node st (si_chain_key st k) safe w1 = (Inr (), w2)"
    and 2: "announce_port (gn_config g) i = Inr port"
    and 3: "build_announce_multiaddr (si_is_ip st) (si_multiaddr st) (announce_host (gn_config g)) port = Inr ma"
    and 4: "announce_node st k safe ma w2 = (Inr (), w')"
    by (auto simp: put_on_chain_def Let_def act_Ok)
  have "?a \<in> lg_registered (lg w2)"
  proof -
    obtain r v where r: "si_register st (si_chain_key st k) safe w1 = (r, v)" by fastforce
    show ?thesis
      using site_writes(5) [OF good r] 1 r
      by (auto simp: register_node_def pays_def split: sum.splits registration_error.splits)
  qed
  then show "?a \<in> lg_registered (lg w')"
    using advancesD [OF gains_writes(5) [OF good] 4] by (auto simp: gains_def)
  have "(?a, ma) \<in> lg_announced (lg w')"
  proof -
    obtain r v where r: "si_announce st k safe ma w2 = (r, v)" by fastforce
    show ?thesis
      using site_writes(6) [OF good r] 4 r
      by (auto simp: announce_node_def pays_def split: sum.splits announcement_error.splits)
  qed
  then show "\<exists>port ma. announce_port (gn_config g) i = Inr port
          \<and> build_announce_multiaddr (si_is_ip st) (si_multiaddr st) (announce_host (gn_config g)) port = Inr ma
          \<and> (?a, ma) \<in> lg_announced (lg w')"
    using 2 3 by blast
qed


section \<open>A node that is provisioned\<close>

text \<open>On the ledger and in the files of node i: what its identity says is so.\<close>

definition provisioned ::
  "('k, 'c, 't, 'w) site \<Rightarrow> ('c, 'u, 's) generation \<Rightarrow> ledger \<Rightarrow> ('k \<times> string) option \<times> string option
   \<Rightarrow> nat \<Rightarrow> generated_identity \<Rightarrow> bool" where
  "provisioned st g l files i x \<longleftrightarrow>
     (\<exists>keys safe port ma c text.
        let cfg = gn_config g; a = si_address st (si_chain_key st keys) in
        x = identity_of st i a safe (id_path (gn_home g) i) (gc_identity_password cfg)
        \<and> files = (Some (keys, gc_identity_password cfg), Some text)
        \<and> lg_safe l a = Some safe \<and> a \<in> lg_registered l
        \<and> announce_port cfg i = Inr port
        \<and> build_announce_multiaddr (si_is_ip st) (si_multiaddr st) (announce_host cfg) port = Inr ma
        \<and> (a, ma) \<in> lg_announced l
        \<and> (gc_pix cfg \<noteq> None \<longrightarrow>
             pix_safe_target cfg (gn_float_ids g) (gn_token_target g) i \<le> lg_tokens l (sm_safe_address safe))
        \<and> node_config (gn_env g) cfg i safe (gn_strategy g) (id_path (gn_home g) i) (pix_global_of (gc_pix cfg)) = Inr c
        \<and> gn_yaml g c = Inr text
        \<and> (\<not> gc_reuse_identities cfg \<longrightarrow> \<not> gc_random_identities cfg \<longrightarrow>
             frozen_hopr_keys (si_keys_of st) (fst (node_secrets ! i)) (snd (node_secrets ! i)) = Inr keys))"

lemma provisioned_mono:
  assumes "good_site st lg dk" and "provisioned st g (lg w) (slot home i (dk w)) i x"
    and "beside st lg dk home i w w'"
  shows "provisioned st g (lg w') (slot home i (dk w')) i x"
proof -
  have g: "gains st lg w w'" and s: "slot home i (dk w') = slot home i (dk w)"
    using assms(3) by (simp_all add: beside_def)
  have t: "lg_tokens (lg w) (sm_safe_address safe) \<le> lg_tokens (lg w') (sm_safe_address safe)"
    if "lg_safe (lg w) a = Some safe" for a safe
    using g site_answers(6) [OF assms(1) that] by (auto simp: gains_def)
  show ?thesis
    using assms(2) g t unfolding s provisioned_def Let_def gains_def
    by (elim exE conjE) (intro exI conjI, assumption+, blast+, meson order_trans, assumption+)
qed

lemma generate_node_Ok:
  assumes good: "good_site st lg dk" and ok: "generate_node st g i w = (Inr x, w')"
  shows "provisioned st g (lg w') (slot (gn_home g) i (dk w')) i x"
    and "gains st lg w w'" and "i \<noteq> j \<Longrightarrow> slot (gn_home g) j (dk w') = slot (gn_home g) j (dk w)"
    and "gc_reuse_identities (gn_config g) \<Longrightarrow> fst (slot (gn_home g) i (dk w)) = Some (k0, pw0) \<Longrightarrow>
      fst (slot (gn_home g) i (dk w')) = Some (k0, gc_identity_password (gn_config g))"
proof -
  let ?cfg = "gn_config g" and ?home = "gn_home g"
  from ok obtain k w1 w2 safe w3 w4 w5 where
    1: "node_keys st ?cfg i (id_path ?home i) w = (Inr k, w1)"
    and 2: "act_when (gc_reuse_identities ?cfg)
          (si_adopt_legacy st (join_path ?home (''db_'' @ show_nat i))
             (''curvy-pix-'' @ si_show_address st (si_address st (si_chain_key st k)) @ ''.redb'')) w1 = (Inr (), w2)"
    and 3: "fund_identity st g (node_who i) (si_chain_key st k) w2 = (Inr safe, w3)"
    and 4: "top_up_for_pix st g i safe w3 = (Inr (), w4)"
    and 5: "put_on_chain st g i k safe w4 = (Inr (), w5)"
    and 6: "write_node_config st g i safe w5 = (Inr (), w')"
    and x: "x = identity_of st i (si_address st (si_chain_key st k)) safe (id_path ?home i) (gc_identity_password ?cfg)"
    unfolding generate_node_def Let_def act_bind_Ok act_return_Ok by auto
  let ?a = "si_address st (si_chain_key st k)"
  from 6 obtain c yml where c: "node_config (gn_env g) ?cfg i safe (gn_strategy g) (id_path ?home i)
      (pix_global_of (gc_pix ?cfg)) = Inr c" "gn_yaml g c = Inr yml"
    and fw: "si_write_file st (config_path ?home i) yml w5 = (Inr (), w')"
    by (auto simp: write_node_config_def act_Ok)
  note keys = node_keys_Ok [OF good 1]
  have lg2: "lg w2 = lg w1" and dk2: "dk_keystores (dk w2) = dk_keystores (dk w1)"
    and slot2: "slot ?home j (dk w2) = slot ?home j (dk w1)" for j
    using 2 leavesD [OF site_reads(13) [OF good]] site_disk(7,8) [OF good]
    by (auto simp: act_Ok split: if_splits)
  note fund = fund_identity_Ok [OF good 3]
  have lg': "lg w' = lg w5" and dk': "dk w' = (dk w5) \<lparr> dk_files := (dk_files (dk w5))(config_path ?home i \<mapsto> yml) \<rparr>"
    by (rule leavesD [OF site_reads(12) [OF good] fw], rule site_disk(6) [OF good fw])
  have dk5: "dk w5 = dk w2"
    using fund(3) leavesD [OF fund_leaves_disk(1) [OF good] 4] leavesD [OF fund_leaves_disk(2) [OF good] 5] by simp
  have g4: "gains st lg w3 w4" and g5: "gains st lg w4 w5"
    by (rule advancesD [OF gains_fund(2) [OF good] 4], rule advancesD [OF gains_fund(3) [OF good] 5])
  have g35: "gains st lg w3 w5" by (rule gains_trans [OF g4 g5])
  show "gains st lg w w'"
    using gains_trans [OF fund(2) g35] unfolding gains_def lg' lg2 keys(1) .
  have safe5: "lg_safe (lg w5) ?a = Some safe" using fund(1) g35 by (simp add: gains_def)
  have other: "\<forall>c. sm_safe_address safe \<noteq> si_address st c" using site_answers(6) [OF good safe5] by blast
  have pix: "pix_safe_target ?cfg (gn_float_ids g) (gn_token_target g) i \<le> lg_tokens (lg w5) (sm_safe_address safe)"
    if "gc_pix ?cfg \<noteq> None"
  proof -
    have "pix_safe_target ?cfg (gn_float_ids g) (gn_token_target g) i \<le> lg_tokens (lg w4) (sm_safe_address safe)"
      by (rule top_up_reaches [OF good _ other]) (use 4 that in \<open>auto simp: top_up_for_pix_def act_Ok\<close>)
    then show ?thesis using g5 other unfolding gains_def by (meson order_trans)
  qed
  have slot': "slot ?home i (dk w') = (Some (k, gc_identity_password ?cfg), Some yml)"
    by (simp add: slot_def dk' dk5 dk2 keys(2))
  show "i \<noteq> j \<Longrightarrow> slot ?home j (dk w') = slot ?home j (dk w)"
    using keys(3) [of j] slot2 [of j] by (simp add: slot_def dk' dk5)
  show "gc_reuse_identities ?cfg \<Longrightarrow> fst (slot ?home i (dk w)) = Some (k0, pw0) \<Longrightarrow>
      fst (slot ?home i (dk w')) = Some (k0, gc_identity_password ?cfg)"
    using keys(4) slot' by (simp add: slot_def)
  show "provisioned st g (lg w') (slot ?home i (dk w')) i x"
    using put_on_chain_Ok [OF good 5] safe5 pix slot' c keys(5)
    unfolding provisioned_def Let_def lg' x by blast
qed

text \<open>An extra identity has a Safe and a keystore, and leaves the nodes' files alone.\<close>

definition equipped ::
  "('k, 'c, 't, 'w) site \<Rightarrow> string \<Rightarrow> ledger \<Rightarrow> 'k disk \<Rightarrow> nat \<Rightarrow> generated_identity \<Rightarrow> bool" where
  "equipped st home l d i x \<longleftrightarrow>
     (\<exists>keys safe.
        let a = si_address st (si_chain_key st keys) in
        x = identity_of st i a safe (extra_path home i) extra_identity_password
        \<and> frozen_hopr_keys (si_keys_of st) (fst (extra_secrets ! i)) (snd (extra_secrets ! i)) = Inr keys
        \<and> lg_safe l a = Some safe
        \<and> dk_keystores d (extra_path home i) = Some (keys, extra_identity_password))"

lemma generate_extra_Ok:
  assumes good: "good_site st lg dk" and ok: "generate_extra st g i w = (Inr x, w')"
  shows "equipped st (gn_home g) (lg w') (dk w') i x" and "beside st lg dk (gn_home g) j w w'"
    and "i \<noteq> j \<Longrightarrow> dk_keystores (dk w') (extra_path (gn_home g) j) = dk_keystores (dk w) (extra_path (gn_home g) j)"
proof -
  let ?home = "gn_home g"
  from ok obtain k safe w1 where
    1: "frozen_hopr_keys (si_keys_of st) (fst (extra_secrets ! i)) (snd (extra_secrets ! i)) = Inr k"
    and 2: "fund_identity st g (extra_who i) (si_chain_key st k) w = (Inr safe, w1)"
    and 3: "si_write_keystore st k (extra_path ?home i) extra_identity_password w1 = (Inr (), w')"
    and x: "x = identity_of st i (si_address st (si_chain_key st k)) safe (extra_path ?home i) extra_identity_password"
    unfolding generate_extra_def Let_def by (cases "extra_secrets ! i") (auto simp: act_Ok)
  note fund = fund_identity_Ok [OF good 2]
  have lg': "lg w' = lg w1" and dk': "dk w' = (dk w) \<lparr> dk_keystores := (dk_keystores (dk w))
      (extra_path ?home i \<mapsto> (k, extra_identity_password)) \<rparr>"
    using leavesD [OF site_reads(11) [OF good] 3] site_disk(5) [OF good 3] fund(3) by simp_all
  show "equipped st ?home (lg w') (dk w') i x"
    using 1 fund(1) by (auto simp: equipped_def Let_def lg' dk' x)
  show "beside st lg dk ?home j w w'"
    using fund(2) by (simp add: beside_def gains_def slot_def dk' lg')
  show "i \<noteq> j \<Longrightarrow> dk_keystores (dk w') (extra_path ?home j) = dk_keystores (dk w) (extra_path ?home j)"
    by (simp add: dk')
qed


section \<open>The whole generation\<close>

lemma prepare_leaves:
  assumes "good_site st lg dk"
  shows "leaves lg (prepare_generation st sr ce yaml cfg)" "leaves dk (prepare_generation st sr ce yaml cfg)"
  unfolding prepare_generation_def connect_deployer_def
  by (auto intro!: leaves_intros site_reads [OF assms] site_leaves_disk [OF assms])

lemma prepare_Ok:
  assumes "prepare_generation st sr ce yaml cfg w = (Inr g, w')"
  shows "\<exists>home v v' dep s tokens native ids strategy.
    g = \<lparr> gn_config = cfg, gn_home = home, gn_deployer = dep, gn_token_target = tokens,
         gn_native_target = native, gn_float_ids = ids, gn_strategy = strategy, gn_env = ce, gn_yaml = yaml \<rparr>
    \<and> si_canonical st (gc_config_home cfg) v = (Inr home, v')
    \<and> si_hex st (gc_private_key cfg) = Inr s \<and> si_chain_secret st s = Inr dep
    \<and> node_token_target st = Inr tokens \<and> node_native_target st = Inr native \<and> float_node_ids st = Inr ids
    \<and> node_strategies sr cfg (effective_nodes (gc_num_nodes cfg)) = Inr strategy"
  using assms unfolding prepare_generation_def connect_deployer_def act_Ok
  by (auto simp: act_Ok split: if_splits)

lemma prepare_same:
  assumes "good_site st lg dk" and "prepare_generation st sr ce yaml cfg w = (Inr g, w1)"
    and "prepare_generation st sr ce yaml cfg v = (Inr g', v1)"
  shows "g' = g"
proof -
  have "disk_works st dk" using assms(1) by (simp add: good_site_def)
  then have "\<forall>p v c v' u d u'. si_canonical st p v = (Inr c, v') \<longrightarrow> si_canonical st p u = (Inr d, u') \<longrightarrow> c = d"
    unfolding disk_works_def by (elim conjE)
  then have one: "c = d" if "si_canonical st p v = (Inr c, v')" "si_canonical st p u = (Inr d, u')" for p v c v' u d u'
    using that by metis
  show ?thesis using prepare_Ok [OF assms(2)] prepare_Ok [OF assms(3)] one by auto
qed

lemma generate_nodes_Ok:
  assumes good: "good_site st lg dk" and ok: "act_each (generate_node st g) [0..<n] w = (Inr nodes, w')"
  shows "list_all2 (\<lambda>i. provisioned st g (lg w') (slot (gn_home g) i (dk w')) i) [0..<n] nodes"
proof -
  have "True \<and> list_all2 (\<lambda>i x. provisioned st g (lg w') (slot (gn_home g) i (dk w')) i x) [0..<n] nodes"
  proof (rule act_each_Ok [OF ok, where I = "\<lambda>_. True"
        and P = "\<lambda>i x v. provisioned st g (lg v) (slot (gn_home g) i (dk v)) i x"])
    fix i v x v' assume "generate_node st g i v = (Inr x, v')"
    then show "True \<and> provisioned st g (lg v') (slot (gn_home g) i (dk v')) i x"
      using generate_node_Ok(1) [OF good] by simp
  next
    fix i j v x y v'
    assume ij: "i \<noteq> j" and i: "generate_node st g i v = (Inr x, v')"
      and j: "provisioned st g (lg v) (slot (gn_home g) j (dk v)) j y"
    show "provisioned st g (lg v') (slot (gn_home g) j (dk v')) j y"
      by (rule provisioned_mono [OF good j])
        (simp add: beside_def generate_node_Ok(2) [OF good i] generate_node_Ok(3) [OF good i ij])
  qed simp_all
  then show ?thesis by simp
qed

lemma generate_extras_Ok:
  assumes good: "good_site st lg dk" and ok: "act_each (generate_extra st g) [0..<n] w = (Inr extras, w')"
  shows "list_all2 (equipped st (gn_home g) (lg w') (dk w')) [0..<n] extras" and "beside st lg dk (gn_home g) j w w'"
proof -
  have "True \<and> list_all2 (\<lambda>i x. equipped st (gn_home g) (lg w') (dk w') i x) [0..<n] extras"
  proof (rule act_each_Ok [OF ok, where I = "\<lambda>_. True"
        and P = "\<lambda>i x v. equipped st (gn_home g) (lg v) (dk v) i x"])
    fix i v x v' assume "generate_extra st g i v = (Inr x, v')"
    then show "True \<and> equipped st (gn_home g) (lg v') (dk v') i x"
      using generate_extra_Ok(1) [OF good] by simp
  next
    fix i j v x y v'
    assume ij: "i \<noteq> j" and i: "generate_extra st g i v = (Inr x, v')"
      and j: "equipped st (gn_home g) (lg v) (dk v) j y"
    show "equipped st (gn_home g) (lg v') (dk v') j y"
      using j generate_extra_Ok(2) [OF good i] generate_extra_Ok(3) [OF good i ij]
      unfolding equipped_def Let_def beside_def gains_def by auto
  qed simp_all
  then show "list_all2 (equipped st (gn_home g) (lg w') (dk w')) [0..<n] extras" by simp
  have "advances (beside st lg dk (gn_home g) j) (act_each (generate_extra st g) [0..<n])"
    by (intro advances_each beside_order advancesI generate_extra_Ok(2) [OF good])
  then show "beside st lg dk (gn_home g) j w w'" using ok by (rule advancesD)
qed

lemma generate_Ok:
  assumes good: "good_site st lg dk" and ok: "generate st sr ce yaml cfg w = (Inr (nodes, extras), w')"
  shows "\<exists>g w1. prepare_generation st sr ce yaml cfg w = (Inr g, w1) \<and> gn_config g = cfg
    \<and> gains st lg w w'
    \<and> list_all2 (\<lambda>i. provisioned st g (lg w') (slot (gn_home g) i (dk w')) i)
        [0..<effective_nodes (gc_num_nodes cfg)] nodes
    \<and> list_all2 (equipped st (gn_home g) (lg w') (dk w')) [0..<min (gc_num_extras cfg) (length extra_secrets)] extras"
proof -
  from ok obtain g w1 w2 where g: "prepare_generation st sr ce yaml cfg w = (Inr g, w1)"
    and n: "act_each (generate_node st g) [0..<effective_nodes (gc_num_nodes cfg)] w1 = (Inr nodes, w2)"
    and e: "act_each (generate_extra st g) [0..<min (gc_num_extras cfg) (length extra_secrets)] w2 = (Inr extras, w')"
    by (auto simp: generate_def act_Ok)
  have cfg: "gn_config g = cfg" using prepare_Ok [OF g] by auto
  have "list_all2 (\<lambda>i. provisioned st g (lg w') (slot (gn_home g) i (dk w')) i)
        [0..<effective_nodes (gc_num_nodes cfg)] nodes"
    using generate_nodes_Ok [OF good n]
    by (rule list_all2_mono) (rule provisioned_mono [OF good], assumption, rule generate_extras_Ok(2) [OF good e])
  moreover have "gains st lg w w'"
  proof -
    have "advances (gains st lg) (act_each (generate_node st g) [0..<effective_nodes (gc_num_nodes cfg)])"
      by (intro advances_each gains_order advancesI generate_node_Ok(2) [OF good])
    then have "gains st lg w1 w2" using n by (rule advancesD)
    moreover have "gains st lg w w1" by (rule gains_same) (rule leavesD [OF prepare_leaves(1) [OF good] g])
    moreover have "gains st lg w2 w'" using generate_extras_Ok(2) [OF good e] by (simp add: beside_def)
    ultimately show ?thesis using gains_trans by metis
  qed
  ultimately show ?thesis using g cfg generate_extras_Ok(1) [OF good e] by blast
qed

text \<open>C7: A generation that succeeds leaves a cluster that can start. It returns one identity for each node of the
  effective size, and for each of them, at the end: the ledger has its Safe, its registration and the
  announcement of its multiaddress, at the announced host and port; with PIX its Safe holds at least the
  target of its node, the stake and its float; its keystore is on disk under the password, and beside it
  the text of its node configuration, which names this Safe. Each extra identity has a Safe and a keystore.
  Nobody loses a Safe, a registration, an announcement or a Safe's tokens.\<close>

theorem generated_nodes_are_provisioned:
  assumes "good_site st lg dk" and "generate st sr ce yaml cfg w = (Inr (nodes, extras), w')"
  shows "\<exists>g w1. prepare_generation st sr ce yaml cfg w = (Inr g, w1) \<and> gn_config g = cfg
    \<and> gains st lg w w'
    \<and> list_all2 (\<lambda>i. provisioned st g (lg w') (slot (gn_home g) i (dk w')) i)
        [0..<effective_nodes (gc_num_nodes cfg)] nodes
    \<and> list_all2 (equipped st (gn_home g) (lg w') (dk w')) [0..<min (gc_num_extras cfg) (length extra_secrets)] extras"
  using assms by (rule generate_Ok)


text \<open>A second generation finds the identities of the first.\<close>

definition finds ::
  "('k, 'c, 't, 'w) site \<Rightarrow> ('c, 'u, 's) generation \<Rightarrow> ('w \<Rightarrow> ledger) \<Rightarrow> ('w \<Rightarrow> 'k disk) \<Rightarrow> 'w \<Rightarrow> 'w \<Rightarrow> bool" where
  "finds st g lg dk w v \<longleftrightarrow>
     gains st lg w v
     \<and> (gc_reuse_identities (gn_config g) \<longrightarrow>
         (\<forall>j k. fst (slot (gn_home g) j (dk w)) = Some (k, gc_identity_password (gn_config g)) \<longrightarrow>
            fst (slot (gn_home g) j (dk v)) = Some (k, gc_identity_password (gn_config g))))"

lemma finds_node:
  assumes good: "good_site st lg dk" and ok: "generate_node st g i v = (Inr x, v')" and f: "finds st g lg dk w v"
  shows "finds st g lg dk w v'"
proof -
  let ?pw = "gc_identity_password (gn_config g)"
  have "fst (slot (gn_home g) j (dk v')) = Some (k, ?pw)"
    if "gc_reuse_identities (gn_config g)" "fst (slot (gn_home g) j (dk v)) = Some (k, ?pw)" for j k
    using generate_node_Ok(3,4) [OF good ok] that by (cases "i = j") auto
  then show ?thesis
    using f gains_trans generate_node_Ok(2) [OF good ok] unfolding finds_def by metis
qed

lemma provisioned_keys:
  "provisioned st g l files i x \<Longrightarrow>
    \<exists>k safe. x = identity_of st i (si_address st (si_chain_key st k)) safe (id_path (gn_home g) i)
          (gc_identity_password (gn_config g))
      \<and> fst files = Some (k, gc_identity_password (gn_config g))
      \<and> lg_safe l (si_address st (si_chain_key st k)) = Some safe
      \<and> (\<not> gc_reuse_identities (gn_config g) \<longrightarrow> \<not> gc_random_identities (gn_config g) \<longrightarrow>
          frozen_hopr_keys (si_keys_of st) (fst (node_secrets ! i)) (snd (node_secrets ! i)) = Inr k)"
  unfolding provisioned_def Let_def
  by (elim exE conjE) (intro exI conjI, assumption, simp, assumption, assumption)

lemma node_found:
  assumes good: "good_site st lg dk" and ok: "generate_node st g i v = (Inr y, v')" and f: "finds st g lg dk w v"
    and p: "provisioned st g (lg w) (slot (gn_home g) i (dk w)) i x"
    and known: "gc_reuse_identities (gn_config g) \<or> \<not> gc_random_identities (gn_config g)"
  shows "y = x"
proof -
  let ?cfg = "gn_config g" and ?home = "gn_home g"
  from p obtain k safe where
    x: "x = identity_of st i (si_address st (si_chain_key st k)) safe (id_path ?home i) (gc_identity_password ?cfg)"
    and old: "fst (slot ?home i (dk w)) = Some (k, gc_identity_password ?cfg)"
    and safe: "lg_safe (lg w) (si_address st (si_chain_key st k)) = Some safe"
    and frozen: "\<not> gc_reuse_identities ?cfg \<longrightarrow> \<not> gc_random_identities ?cfg \<longrightarrow>
      frozen_hopr_keys (si_keys_of st) (fst (node_secrets ! i)) (snd (node_secrets ! i)) = Inr k"
    using provisioned_keys [OF p] by blast
  from provisioned_keys [OF generate_node_Ok(1) [OF good ok]] obtain k' safe' where
    y: "y = identity_of st i (si_address st (si_chain_key st k')) safe' (id_path ?home i) (gc_identity_password ?cfg)"
    and new: "fst (slot ?home i (dk v')) = Some (k', gc_identity_password ?cfg)"
    and safe': "lg_safe (lg v') (si_address st (si_chain_key st k')) = Some safe'"
    and frozen': "\<not> gc_reuse_identities ?cfg \<longrightarrow> \<not> gc_random_identities ?cfg \<longrightarrow>
      frozen_hopr_keys (si_keys_of st) (fst (node_secrets ! i)) (snd (node_secrets ! i)) = Inr k'"
    by blast
  have f': "finds st g lg dk w v'" by (rule finds_node [OF good ok f])
  have "k' = k"
  proof (cases "gc_reuse_identities ?cfg")
    case True
    then show ?thesis using f' old new by (simp add: finds_def)
  next
    case False
    then show ?thesis using frozen frozen' known by simp
  qed
  moreover have "lg_safe (lg v') (si_address st (si_chain_key st k)) = Some safe"
    using f' safe by (simp add: finds_def gains_def)
  ultimately show ?thesis using safe' by (simp add: x y)
qed

lemma extra_found:
  assumes good: "good_site st lg dk" and ok: "generate_extra st g i v = (Inr y, v')" and f: "gains st lg w v"
    and p: "equipped st (gn_home g) (lg w) d i x"
  shows "y = x"
proof -
  have "gains st lg v v'" using generate_extra_Ok(2) [OF good ok, of 0] by (simp add: beside_def)
  from gains_trans [OF f this]
  have keep: "lg_safe (lg v') a = Some s" if "lg_safe (lg w) a = Some s" for a s
    using that by (simp add: gains_def)
  from p generate_extra_Ok(1) [OF good ok] show ?thesis
    unfolding equipped_def Let_def by (elim exE conjE) (simp add: keep)
qed

text \<open>A cluster that is generated again is the same cluster. If the identities are frozen, or those on disk are
  used again, then a generation that follows a successful one, while Safes and keystores stay where they
  are, returns the same identities: the same keys, addresses, Safes and modules, nodes and extras alike. No
  node is given a second Safe.\<close>

theorem regeneration_returns_same_nodes:
  assumes "good_site st lg dk" and "gc_reuse_identities cfg \<or> \<not> gc_random_identities cfg"
    and "generate st sr ce yaml cfg w = (Inr (nodes, extras), w1)"
    and "gains st lg w1 v" and "dk_keystores (dk v) = dk_keystores (dk w1)"
    and "generate st sr ce yaml cfg v = (Inr (nodes', extras'), v')"
  shows "nodes' = nodes \<and> extras' = extras"
proof -
  note good = assms(1)
  from generate_Ok [OF good assms(3)] obtain g u where g: "prepare_generation st sr ce yaml cfg w = (Inr g, u)"
    and cfg: "gn_config g = cfg"
    and ns: "list_all2 (\<lambda>i. provisioned st g (lg w1) (slot (gn_home g) i (dk w1)) i)
        [0..<effective_nodes (gc_num_nodes cfg)] nodes"
    and es: "list_all2 (equipped st (gn_home g) (lg w1) (dk w1))
        [0..<min (gc_num_extras cfg) (length extra_secrets)] extras"
    by (elim exE conjE) (rule that)
  from assms(6) obtain g' v1 v2 where g': "prepare_generation st sr ce yaml cfg v = (Inr g', v1)"
    and n0: "act_each (generate_node st g') [0..<effective_nodes (gc_num_nodes cfg)] v1 = (Inr nodes', v2)"
    and e0: "act_each (generate_extra st g') [0..<min (gc_num_extras cfg) (length extra_secrets)] v2 = (Inr extras', v')"
    by (auto simp: generate_def act_Ok)
  note same = prepare_same [OF good g g']
  note n = n0 [unfolded same] and e = e0 [unfolded same]
  have "lg v1 = lg v" "dk v1 = dk v"
    by (rule leavesD [OF prepare_leaves(1) [OF good] g'], rule leavesD [OF prepare_leaves(2) [OF good] g'])
  then have start: "finds st g lg dk w1 v1"
    using assms(4,5) by (simp add: finds_def gains_def slot_def)
  have 1: "finds st g lg dk w1 v2 \<and> list_all2 (\<lambda>i y. y = nodes ! i) [0..<effective_nodes (gc_num_nodes cfg)] nodes'"
  proof (rule act_each_Ok [OF n, where I = "finds st g lg dk w1" and P = "\<lambda>i y v. y = nodes ! i", OF start])
    fix i a y b
    assume i: "i \<in> set [0..<effective_nodes (gc_num_nodes cfg)]" and f: "finds st g lg dk w1 a"
      and r: "generate_node st g i a = (Inr y, b)"
    have "provisioned st g (lg w1) (slot (gn_home g) i (dk w1)) i (nodes ! i)"
      using list_all2_nthD [OF ns, of i] i by simp
    from node_found [OF good r f this, unfolded cfg, OF assms(2)] finds_node [OF good r f]
    show "finds st g lg dk w1 b \<and> y = nodes ! i" by (intro conjI)
  qed simp_all
  then have "gains st lg w1 v2" by (simp add: finds_def)
  then have 2: "gains st lg w1 v' \<and> list_all2 (\<lambda>i y. y = extras ! i)
      [0..<min (gc_num_extras cfg) (length extra_secrets)] extras'"
  proof (rule act_each_Ok [OF e, where I = "gains st lg w1" and P = "\<lambda>i y v. y = extras ! i"])
    fix i a y b
    assume i: "i \<in> set [0..<min (gc_num_extras cfg) (length extra_secrets)]" and f: "gains st lg w1 a"
      and r: "generate_extra st g i a = (Inr y, b)"
    have equipped: "equipped st (gn_home g) (lg w1) (dk w1) i (extras ! i)"
      using list_all2_nthD [OF es, of i] i by simp
    have "gains st lg a b" using generate_extra_Ok(2) [OF good r, of 0] by (simp add: beside_def)
    from gains_trans [OF f this] extra_found [OF good r f equipped]
    show "gains st lg w1 b \<and> y = extras ! i" by (intro conjI)
  qed simp_all
  have "xs = ys" if "list_all2 P [0..<m] ys" "list_all2 (\<lambda>i y. y = ys ! i) [0..<m] xs" for P m and xs ys :: "generated_identity list"
    using that by (auto simp: list_all2_conv_all_nth intro: nth_equalityI)
  from this [OF ns conjunct2 [OF 1]] this [OF es conjunct2 [OF 2]] show ?thesis by simp
qed

end
