(* ===== verification/Provision_Example.thy ===== *)
theory Provision_Example
  imports Provision_Laws
begin

text \<open>
  A site in which a generation runs: a chain that confirms what an account can pay for and indexes at once,
  and a disk that never fails. Accounts have even addresses and Safes odd ones.
\<close>

record demo_world =
  dw_time :: nat
  dw_native :: "address \<Rightarrow> balance"
  dw_tokens :: "address \<Rightarrow> balance"
  dw_owners :: "address set"
  dw_registered :: "address set"
  dw_announced :: "(address \<times> multiaddr) set"
  dw_disk :: "nat disk"

definition demo_address :: "nat \<Rightarrow> address" where
  "demo_address k = 2 * of_nat k"

definition demo_safe :: "address \<Rightarrow> safe_module" where
  "demo_safe a = \<lparr> sm_safe_address = or a 1, sm_module_address = a \<rparr>"

definition demo_ledger :: "demo_world \<Rightarrow> ledger" where
  "demo_ledger w =
     \<lparr> lg_native = dw_native w, lg_tokens = dw_tokens w,
       lg_safe = (\<lambda>a. if a \<in> dw_owners w then Some (demo_safe a) else None),
       lg_registered = dw_registered w, lg_announced = dw_announced w \<rparr>"

definition demo_nothing :: "('e, unit, demo_world) action" where
  "demo_nothing = act_return ()"

definition demo_grant :: "unit grant_env" where
  "demo_grant =
     \<lparr> ge_rpc_url = None, ge_rpc_post = (\<lambda>_ _ _. Inl ''no RPC''), ge_chain_info = Inl ''no chain'',
       ge_nonce = (\<lambda>_. Inr 0), ge_sign = (\<lambda>_. Inr ()), ge_submit = (\<lambda>_. Inr ()) \<rparr>"

definition demo_site :: "(nat, nat, unit, demo_world) site" where
  "demo_site =
     \<lparr> ck_now = dw_time, ck_sleep = (\<lambda>d w. w \<lparr> dw_time := dw_time w + d \<rparr>),
       si_env = (\<lambda>_. None), si_debug = id,
       si_amounts = \<lparr> px_hopr = (\<lambda>_. Inr 1000), px_xdai = (\<lambda>_. Inr 1), px_bytes_per_share = 1452 \<rparr>,
       si_show_native = show_nat, si_show_tokens = show_nat, si_show_address = (\<lambda>a. show_nat (unat a)),
       si_parse_address = (\<lambda>s. map_option of_nat (parse_unsigned 160 s)),
       si_is_ip = (\<lambda>_. True), si_multiaddr = Inr, si_hex = Inr, si_chain_secret = (\<lambda>_. Inr 1),
       si_keys_of = (\<lambda>_. Inr 7), si_chain_key = id, si_address = demo_address, si_url = (\<lambda>_. Inr ()),
       si_make_dir = (\<lambda>_. demo_nothing), si_canonical = act_return,
       si_exists = (\<lambda>p w. (Inr (dk_keystores (dw_disk w) p \<noteq> None), w)),
       si_read_keystore = (\<lambda>p pw w. (case dk_keystores (dw_disk w) p of
           Some (k, pw') \<Rightarrow> if pw' = pw then Inr k else Inl ''password'' | None \<Rightarrow> Inl ''missing'', w)),
       si_write_keystore = (\<lambda>k p pw w. (Inr (), w \<lparr> dw_disk := dw_disk w
           \<lparr> dk_keystores := (dk_keystores (dw_disk w))(p \<mapsto> (k, pw)) \<rparr> \<rparr>)),
       si_write_file = (\<lambda>p c w. (Inr (), w \<lparr> dw_disk := dw_disk w
           \<lparr> dk_files := (dk_files (dw_disk w))(p \<mapsto> c) \<rparr> \<rparr>)),
       si_adopt_legacy = (\<lambda>_ _. demo_nothing), si_random_keys = (\<lambda>w. (8, w)),
       si_health = act_return ''ok'', si_open = (\<lambda>_ _. demo_nothing), si_connect = (\<lambda>_ _. demo_nothing),
       si_native = (\<lambda>a w. (Inr (dw_native w a), w)), si_tokens = (\<lambda>a w. (Inr (dw_tokens w a), w)),
       si_send_native = (\<lambda>k x to w.
         if dw_native w (demo_address k) < x then (Inl ''funds'', w)
         else (Inr (), w \<lparr> dw_native := move_tokens (demo_address k) to x (dw_native w) \<rparr>)),
       si_send_tokens = (\<lambda>k x to w.
         if dw_tokens w (demo_address k) < x then (Inl ''funds'', w)
         else (Inr (), w \<lparr> dw_tokens := move_tokens (demo_address k) to x (dw_tokens w) \<rparr>)),
       si_safe_of = (\<lambda>a w. (Inr (if a \<in> dw_owners w then Some (demo_safe a) else None), w)),
       si_deploy_safe = (\<lambda>k x w. (Inr (),
         w \<lparr> dw_tokens := move_tokens (demo_address k) (sm_safe_address (demo_safe (demo_address k))) x (dw_tokens w),
             dw_owners := insert (demo_address k) (dw_owners w) \<rparr>)),
       si_grant = (\<lambda>_ _. demo_grant), si_submitted = (\<lambda>_ w. w),
       si_register = (\<lambda>k s w.
         if demo_address k \<in> dw_registered w then (Inl Already_Registered, w)
         else (Inr (), w \<lparr> dw_registered := insert (demo_address k) (dw_registered w) \<rparr>)),
       si_announce = (\<lambda>k s ma w.
         if (demo_address k, ma) \<in> dw_announced w then (Inl Already_Announced, w)
         else (Inr (), w \<lparr> dw_announced := insert (demo_address k, ma) (dw_announced w) \<rparr>)) \<rparr>"

lemma demo_address_even [simp]: "\<not> bit (demo_address k) 0"
  by (simp add: demo_address_def bit_0)

lemma demo_safe_odd [simp]: "bit (sm_safe_address (demo_safe a)) 0"
  by (simp add: demo_safe_def bit_or_iff)

lemma demo_safe_not_address [simp]: "sm_safe_address (demo_safe a) \<noteq> demo_address k"
  by (metis demo_address_even demo_safe_odd)

lemmas demo_simps = demo_site_def demo_ledger_def demo_nothing_def act_return_def leaves_def

lemma demo_reads: "chain_reads demo_site demo_ledger"
  by (simp add: chain_reads_def answers_def demo_simps)

lemma demo_writes: "chain_writes demo_site demo_ledger"
  unfolding chain_writes_def pays_def
  by (simp add: demo_simps not_less split: sum.split)
    (auto split: if_splits intro!: exI [of _ "demo_safe (demo_address k)" for k])

lemma demo_chain_only: "chain_only demo_site dw_disk"
  by (simp add: chain_only_def demo_simps)

lemma demo_disk_only: "disk_only demo_site demo_ledger"
  by (simp add: disk_only_def demo_simps)

lemma demo_disk: "disk_works demo_site dw_disk"
  unfolding disk_works_def
  by (simp add: demo_simps) (auto split: option.splits if_splits intro: ccontr)

lemma good_demo: "good_site demo_site demo_ledger dw_disk"
  unfolding good_site_def
  by (intro conjI demo_reads demo_writes demo_chain_only demo_disk_only demo_disk)
    (auto simp: demo_ledger_def demo_site_def split: if_splits)

section \<open>The run\<close>

text \<open>A cluster of one node with PIX on an empty chain.\<close>

definition demo_start :: demo_world where
  "demo_start =
     \<lparr> dw_time = 0, dw_native = (\<lambda>a. if a = 2 then 10 ^ 6 else 0), dw_tokens = (\<lambda>a. if a = 2 then 10 ^ 40 else 0),
       dw_owners = {}, dw_registered = {}, dw_announced = {},
       dw_disk = \<lparr> dk_files = Map.empty, dk_keystores = Map.empty \<rparr> \<rparr>"

definition demo_params :: "unit strategy_params" where
  "demo_params = \<lparr> sr_redeem = (), sr_lifecycle = (\<lambda>_ _. ()), sr_pix = (\<lambda>_ _ _ _ _ _ _ _. ()), sr_url = Inr \<rparr>"

definition demo_env :: "'u upstream \<Rightarrow> host_config \<Rightarrow> 'u forwarding_config \<Rightarrow> 'u config_env" where
  "demo_env up h fw =
     \<lparr> ce_upstream = up, ce_vars = \<lambda>_. None, ce_api_host = h, ce_no_allow_list = fw, ce_absolute = Inr \<rparr>"

definition demo_yaml :: "('u, 's) hoprd_config \<Rightarrow> (string, string) res" where
  "demo_yaml c = Inr ''config''"

definition demo_cluster :: "'u upstream \<Rightarrow> generation_config" where
  "demo_cluster up =
     (default_generation (\<lambda>_. None))
       \<lparr> gc_num_nodes := 1, gc_pix := Some (default_pix_settings up) \<rparr>"

lemma demo_await: "a \<in> dw_owners w \<Longrightarrow> await_safe demo_site who a start w = Some (Inr (demo_safe a), w)"
  unfolding await_safe_def by (rule poll_until_at_once) (simp add: demo_site_def)

lemma demo_prepare:
  "node_strategies sr cfg (effective_nodes (gc_num_nodes cfg)) = Inr strategy \<Longrightarrow>
   prepare_generation demo_site sr ce yaml cfg w =
     (Inr \<lparr> gn_config = cfg, gn_home = gc_config_home cfg, gn_deployer = 1, gn_token_target = 1000,
         gn_native_target = 1, gn_float_ids = None, gn_strategy = strategy, gn_env = ce,
         gn_yaml = yaml \<rparr>, w)"
  by (simp add: prepare_generation_def connect_deployer_def act_bind_def act_of_def demo_site_def demo_nothing_def
    act_return_def node_token_target_def node_native_target_def float_node_ids_def env_amount_def eq_ignore_ascii_case_def)


text \<open>A deployer that can pay for \<open>n\<close> transfers of at most \<open>c\<close> wxHOPR and a unit of xDai each.\<close>

definition rich :: "balance \<Rightarrow> nat \<Rightarrow> demo_world \<Rightarrow> bool" where
  "rich c n w \<longleftrightarrow> n * c \<le> dw_tokens w 2 \<and> n \<le> dw_native w 2"

definition succeeds :: "('w \<Rightarrow> bool) \<Rightarrow> ('e, 'a, 'w) action \<Rightarrow> ('w \<Rightarrow> bool) \<Rightarrow> bool" where
  "succeeds P m Q \<longleftrightarrow> (\<forall>w. P w \<longrightarrow> (\<exists>x w'. m w = (Inr x, w') \<and> Q w'))"

lemma succeeds_bind: "succeeds P m Q \<Longrightarrow> (\<And>x. succeeds Q (f x) R) \<Longrightarrow> succeeds P (act_bind m f) R"
  unfolding succeeds_def act_bind_Ok by blast

lemma succeeds_return: "succeeds P (act_return x) P"
  by (simp add: succeeds_def act_return_def)

lemma succeeds_of: "succeeds P (act_of (Inr x)) P"
  by (simp add: succeeds_def act_of_def)

lemma demo_address_7 [simp]: "demo_address 7 = 14" "demo_address 1 = 2" "demo_address (Suc 0) = 2"
  by (simp_all add: demo_address_def)

lemma demo_safe_14 [simp]: "sm_safe_address (demo_safe 14) = 15"
  by (simp add: demo_safe_def)

lemma demo_top_up_native:
  "a \<noteq> 2 \<Longrightarrow> succeeds (rich c (Suc n)) (top_up_native demo_site 1 1 a) (rich c n)"
  unfolding succeeds_def top_up_native_def top_up_def
  by (auto simp: act_bind_def demo_site_def act_return_def rich_def move_tokens_def Let_def)

lemma demo_top_up_tokens:
  "a \<noteq> 2 \<Longrightarrow> t \<le> c \<Longrightarrow> succeeds (rich c (Suc n)) (top_up_tokens demo_site 1 t a) (rich c n)"
  unfolding succeeds_def top_up_tokens_def top_up_def
  by (auto simp: act_bind_def demo_site_def act_return_def rich_def move_tokens_def Let_def)

lemma demo_provision_safe:
  assumes "1000 \<le> c"
  shows "\<exists>w'. rich c (Suc n) w \<longrightarrow> provision_safe demo_site 1 1000 who 7 w = (Inr (demo_safe 14), w') \<and> rich c n w'"
proof (cases "14 \<in> dw_owners w")
  case True
  then have "provision_safe demo_site 1 1000 who 7 w = (Inr (demo_safe 14), w)"
    by (simp add: provision_safe_def Let_def act_bind_def demo_site_def act_return_def)
  then show ?thesis by (auto simp: rich_def)
next
  case False
  show ?thesis
  proof (cases "rich c (Suc n) w")
    case True
    from demo_top_up_tokens [of 14 1000 c n] assms True obtain x w1 where
      1: "top_up_tokens demo_site 1 1000 14 w = (Inr x, w1)" "rich c n w1" unfolding succeeds_def by auto
    let ?w2 = "w1 \<lparr> dw_tokens := move_tokens 14 15 1000 (dw_tokens w1), dw_owners := insert 14 (dw_owners w1) \<rparr>"
    have 2: "si_deploy_safe demo_site 7 1000 w1 = (Inr (), ?w2)" by (simp add: demo_site_def)
    have 3: "await_safe demo_site who 14 start ?w2 = Some (Inr (demo_safe 14), ?w2)" for start
      by (rule demo_await) simp
    have 4: "si_address demo_site 7 = 14" "si_safe_of demo_site 14 w = (Inr None, w)"
      using False by (simp_all add: demo_site_def)
    have "provision_safe demo_site 1 1000 who 7 w = (Inr (demo_safe 14), ?w2)"
      unfolding provision_safe_def Let_def 4 act_bind_def act_total_def
      by (simp add: 1 [simplified] 2 3 4)
    moreover have "rich c n ?w2" using 1(2) by (simp add: rich_def move_tokens_def Let_def)
    ultimately show ?thesis by blast
  qed simp
qed

lemma demo_fund_node:
  assumes "1000 \<le> c" "gn_deployer g = 1" "gn_token_target g = 1000" "gn_native_target g = 1"
    and "rich c (Suc (Suc n)) w"
  shows "\<exists>w'. fund_identity demo_site g who 7 w = (Inr (demo_safe 14), w') \<and> rich c n w'"
proof -
  from demo_top_up_native [of 14 c "Suc n"] assms(5) obtain x w1 where
    1: "top_up_native demo_site 1 1 14 w = (Inr x, w1)" "rich c (Suc n) w1" unfolding succeeds_def by auto
  from demo_provision_safe [OF assms(1), of n w1 who] 1(2) obtain w2 where
    2: "provision_safe demo_site 1 1000 who 7 w1 = (Inr (demo_safe 14), w2)" "rich c n w2" by auto
  have 3: "si_open demo_site 7 None w = (Inr (), w)" "si_address demo_site 7 = 14"
    "grant_aggregator demo_site who 7 s v = (Inr (), v)" for s v
    by (simp_all add: demo_site_def demo_nothing_def act_return_def grant_aggregator_def act_bind_def act_of_def
      aggregator_from_env_def)
  show ?thesis
    unfolding fund_identity_def act_bind_def
    using 1 2 by (simp add: 3 assms act_return_def)
qed


text \<open>The keys of a node are 7: its keystore has them or, before the first run, is missing.\<close>

definition demo_keystore :: "generation_config \<Rightarrow> (nat \<times> string) option \<Rightarrow> bool" where
  "demo_keystore cfg ks \<longleftrightarrow> ks = None \<or> ks = Some (7, gc_identity_password cfg)"

lemma demo_keys:
  "(gc_reuse_identities cfg \<Longrightarrow> demo_keystore cfg (dk_keystores (dw_disk w) p)) \<Longrightarrow> \<not> gc_random_identities cfg \<Longrightarrow>
   \<exists>w'. node_keys demo_site cfg i p w = (Inr 7, w') \<and> dw_tokens w' = dw_tokens w \<and> dw_native w' = dw_native w"
  by (cases "gc_reuse_identities cfg"; cases "dk_keystores (dw_disk w) p")
    (auto simp: node_keys_def act_bind_def act_return_def act_context_def act_map_err_def act_of_def
      frozen_hopr_keys_def demo_site_def demo_keystore_def split: prod.split)

lemma demo_on_chain:
  assumes "announce_port (gn_config g) i = Inr port"
  shows "\<exists>w'. put_on_chain demo_site g i 7 s w = (Inr (), w') \<and> dw_tokens w' = dw_tokens w \<and> dw_native w' = dw_native w"
  by (simp add: put_on_chain_def register_node_def announce_node_def Let_def act_bind_def act_of_def assms
      build_announce_multiaddr_def demo_site_def demo_nothing_def act_return_def)

lemma demo_node:
  assumes "1000 \<le> c" "gn_deployer g = 1" "gn_token_target g = 1000" "gn_native_target g = 1" "gn_float_ids g = None"
    and "pix_safe_target (gn_config g) None 1000 i \<le> c" "announce_port (gn_config g) i = Inr port"
    and "gc_reuse_identities (gn_config g) \<Longrightarrow> demo_keystore (gn_config g) (fst (slot (gn_home g) i (dw_disk w)))"
    and "\<not> gc_random_identities (gn_config g)"
    and "\<And>safe. \<exists>cf. node_config (gn_env g) (gn_config g) i safe (gn_strategy g) (id_path (gn_home g) i)
          (pix_global_of (gc_pix (gn_config g))) = Inr cf \<and> (\<exists>t. gn_yaml g cf = Inr t)"
    and "rich c (n + 3) w"
  shows "\<exists>x w'. generate_node demo_site g i w = (Inr x, w') \<and> rich c n w'
    \<and> fst (slot (gn_home g) i (dw_disk w')) = Some (7, gc_identity_password (gn_config g))"
proof -
  have "\<exists>w1. node_keys demo_site (gn_config g) i (id_path (gn_home g) i) w = (Inr 7, w1)
      \<and> dw_tokens w1 = dw_tokens w \<and> dw_native w1 = dw_native w"
    by (rule demo_keys) (use assms(8,9) in \<open>simp_all add: slot_def\<close>)
  then obtain w1 where
    1: "node_keys demo_site (gn_config g) i (id_path (gn_home g) i) w = (Inr 7, w1)" "rich c (n + 3) w1"
    using assms(11) by (auto simp: rich_def)
  from demo_fund_node [OF assms(1-4), of "Suc n" w1 "node_who i"] 1(2) obtain w2 where
    2: "fund_identity demo_site g (node_who i) 7 w1 = (Inr (demo_safe 14), w2)" "rich c (Suc n) w2"
    by (auto simp: numeral_3_eq_3)
  have "\<exists>w3. top_up_for_pix demo_site g i (demo_safe 14) w2 = (Inr (), w3) \<and> rich c n w3"
    using demo_top_up_tokens [of 15 "pix_safe_target (gn_config g) None 1000 i" c n] assms(6) 2(2)
    unfolding succeeds_def top_up_for_pix_def act_when_def
    by (auto simp: act_return_def assms rich_def)
  then obtain w3 where 3: "top_up_for_pix demo_site g i (demo_safe 14) w2 = (Inr (), w3)" "rich c n w3" by blast
  from demo_on_chain [OF assms(7), of "demo_safe 14" w3] obtain w4 where
    4: "put_on_chain demo_site g i 7 (demo_safe 14) w3 = (Inr (), w4)" "rich c n w4"
    using 3(2) by (auto simp: rich_def)
  from assms(10) [of "demo_safe 14"] obtain cf t where
    5: "node_config (gn_env g) (gn_config g) i (demo_safe 14) (gn_strategy g) (id_path (gn_home g) i)
          (pix_global_of (gc_pix (gn_config g))) = Inr cf" "gn_yaml g cf = Inr t" by blast
  have "\<exists>w5. write_node_config demo_site g i (demo_safe 14) w4 = (Inr (), w5) \<and> rich c n w5
      \<and> dk_keystores (dw_disk w5) = dk_keystores (dw_disk w4)"
    using 4(2) by (simp add: write_node_config_def act_bind_def act_of_def 5 demo_site_def rich_def)
  then obtain w5 where 6: "write_node_config demo_site g i (demo_safe 14) w4 = (Inr (), w5)" "rich c n w5"
    "dk_keystores (dw_disk w5) = dk_keystores (dw_disk w4)" by blast
  have "dw_disk w4 = dw_disk w1"
    using fund_identity_Ok(3) [OF good_demo 2(1)] leavesD [OF fund_leaves_disk(1) [OF good_demo] 3(1)]
      leavesD [OF fund_leaves_disk(2) [OF good_demo] 4(1)] by simp
  then have ks: "fst (slot (gn_home g) i (dw_disk w5)) = Some (7, gc_identity_password (gn_config g))"
    using node_keys_Ok(2) [OF good_demo 1(1)] by (simp add: slot_def 6)
  have site: "si_chain_key demo_site 7 = 7" "si_adopt_legacy demo_site p q w1 = (Inr (), w1)" for p q
    by (simp_all add: demo_site_def demo_nothing_def act_return_def)
  have "\<exists>x. generate_node demo_site g i w = (Inr x, w5)"
    using 1(1) 2(1) 3(1) 4(1) 6(1) site
    unfolding generate_node_def Let_def act_bind_def
    by (auto simp: act_when_def assms act_return_def)
  then show ?thesis using 6(2) ks by blast
qed


text \<open>A configuration whose generation the deployer can pay: one node, frozen keys, a port to announce.\<close>

definition demo_fits :: "generation_config \<Rightarrow> bool" where
  "demo_fits cfg \<longleftrightarrow>
     effective_nodes (gc_num_nodes cfg) = 1 \<and> gc_num_extras cfg = 0 \<and> announce_port cfg 0 = Inr 9000
     \<and> pix_safe_target cfg None 1000 0 \<le> 10 ^ 30 \<and> \<not> gc_random_identities cfg
     \<and> (\<exists>s. node_strategies demo_params cfg 1 = Inr s)"

lemma demo_cluster_facts:
  "effective_nodes (gc_num_nodes (demo_cluster up)) = 1" "gc_num_extras (demo_cluster up) = 0"
  "announce_port (demo_cluster up) 0 = Inr 9000" "pix_safe_target (demo_cluster up) None 1000 0 \<le> 10 ^ 30"
  "\<not> gc_reuse_identities (demo_cluster up)" "\<not> gc_random_identities (demo_cluster up)"
  "\<exists>s. node_strategies demo_params (demo_cluster up) n = Inr s"
  by (simp_all add: demo_cluster_def default_generation_def effective_nodes_def default_num_extras_def
      announce_port_def checked_port_def max_num_nodes_def pix_safe_target_def default_pix_settings_def Let_def
      node_strategies_def demo_params_def)

lemma demo_node_config:
  "\<exists>cf. node_config (demo_env up h fw) cfg i safe strategy path g = Inr cf"
  by (simp add: node_config_def demo_env_def Let_def)

lemma demo_fits_cluster: "demo_fits (demo_cluster up)"
  unfolding demo_fits_def by (intro conjI demo_cluster_facts)

lemma demo_generate_fits:
  assumes "rich (10 ^ 30) (n + 3) w" and yaml: "\<And>c. \<exists>t. yaml c = Inr t" and fits: "demo_fits cfg"
    and ks: "gc_reuse_identities cfg \<Longrightarrow> demo_keystore cfg (fst (slot (gc_config_home cfg) 0 (dw_disk w)))"
  shows "\<exists>nodes w'. generate demo_site demo_params (demo_env up h fw) yaml cfg w = (Inr (nodes, []), w')
    \<and> rich (10 ^ 30) n w'
    \<and> fst (slot (gc_config_home cfg) 0 (dw_disk w')) = Some (7, gc_identity_password cfg)
    \<and> (\<forall>j. j \<noteq> 0 \<longrightarrow> slot (gc_config_home cfg) j (dw_disk w') = slot (gc_config_home cfg) j (dw_disk w))"
proof -
  from fits obtain s where s: "node_strategies demo_params cfg 1 = Inr s"
    and eff: "effective_nodes (gc_num_nodes cfg) = 1" "gc_num_extras cfg = 0" by (auto simp: demo_fits_def)
  let ?g = "\<lparr> gn_config = cfg, gn_home = gc_config_home cfg, gn_deployer = 1, gn_token_target = 1000,
         gn_native_target = 1, gn_float_ids = None, gn_strategy = s, gn_env = demo_env up h fw, gn_yaml = yaml \<rparr>"
  have 1: "prepare_generation demo_site demo_params (demo_env up h fw) yaml cfg w = (Inr ?g, w)"
    by (rule demo_prepare) (simp add: eff s del: One_nat_def)
  have config: "\<exists>cf. node_config (gn_env ?g) (gn_config ?g) 0 safe (gn_strategy ?g) (id_path (gn_home ?g) 0)
          (pix_global_of (gc_pix (gn_config ?g))) = Inr cf \<and> (\<exists>t. gn_yaml ?g cf = Inr t)" for safe
    using demo_node_config [of up h fw cfg 0 safe s "id_path (gc_config_home cfg) 0" "pix_global_of (gc_pix cfg)"] yaml
    by simp
  have "\<exists>x w'. generate_node demo_site ?g 0 w = (Inr x, w') \<and> rich (10 ^ 30) n w'
      \<and> fst (slot (gn_home ?g) 0 (dw_disk w')) = Some (7, gc_identity_password (gn_config ?g))"
    using demo_node [where g = ?g and i = 0 and c = "10 ^ 30" and n = n and w = w and port = 9000, OF _ _ _ _ _ _ _ _ _ config]
      assms(1) fits ks by (simp add: demo_fits_def)
  then obtain x w' where 2: "generate_node demo_site ?g 0 w = (Inr x, w')" "rich (10 ^ 30) n w'"
    "fst (slot (gn_home ?g) 0 (dw_disk w')) = Some (7, gc_identity_password (gn_config ?g))" by blast
  have range: "[0..<1] = [0 :: nat]" by simp
  have "generate demo_site demo_params (demo_env up h fw) yaml cfg w = (Inr ([x], []), w')"
    unfolding generate_def act_bind_def [of "prepare_generation _ _ _ _ _"] 1
    by (simp add: eff act_bind_def act_return_def range 2 del: One_nat_def)
  moreover have "slot (gn_home ?g) j (dw_disk w') = slot (gn_home ?g) j (dw_disk w)" if "j \<noteq> 0" for j
    using generate_node_Ok(3) [OF good_demo 2(1), of j] that by simp
  ultimately show ?thesis using 2(2,3) by auto
qed

lemma demo_generate:
  assumes "rich (10 ^ 30) (n + 3) w" and "\<And>c. \<exists>t. yaml c = Inr t"
  shows "\<exists>nodes w'. generate demo_site demo_params (demo_env up h fw) yaml (demo_cluster up) w = (Inr (nodes, []), w')
    \<and> rich (10 ^ 30) n w'
    \<and> (\<forall>j. j \<noteq> 0 \<longrightarrow> slot (gc_config_home (demo_cluster up)) j (dw_disk w') = slot (gc_config_home (demo_cluster up)) j (dw_disk w))"
  using demo_generate_fits [where yaml = yaml and up = up and h = h and fw = fw and cfg = "demo_cluster up",
      OF assms(1) assms(2) demo_fits_cluster] by (auto simp: demo_cluster_facts)

lemma demo_start_rich: "rich (10 ^ 30) 6 demo_start"
  by (simp add: rich_def demo_start_def)

theorem generated_nodes_are_provisioned_witness:
  "\<forall>up h fw. \<exists>nodes w'.
     generate demo_site demo_params (demo_env up h fw) demo_yaml (demo_cluster up) demo_start = (Inr (nodes, []), w')
     \<and> length nodes = 1"
proof (intro allI)
  fix up :: "'a upstream" and h fw
  from demo_generate [of 3 demo_start demo_yaml up h fw] demo_start_rich obtain nodes w' where
    r: "generate demo_site demo_params (demo_env up h fw) demo_yaml (demo_cluster up) demo_start = (Inr (nodes, []), w')"
    by (auto simp: demo_yaml_def)
  have "length nodes = 1"
    using generated_nodes_are_provisioned [OF good_demo r]
    by (auto simp: demo_cluster_facts dest: list_all2_lengthD)
  then show "\<exists>nodes w'.
     generate demo_site demo_params (demo_env up h fw) demo_yaml (demo_cluster up) demo_start = (Inr (nodes, []), w')
     \<and> length nodes = 1" using r by blast
qed

theorem regeneration_returns_same_nodes_witness:
  "\<forall>up h fw. \<exists>nodes w1 w2.
     generate demo_site demo_params (demo_env up h fw) demo_yaml (demo_cluster up) demo_start = (Inr (nodes, []), w1)
     \<and> generate demo_site demo_params (demo_env up h fw) demo_yaml (demo_cluster up) w1 = (Inr (nodes, []), w2)"
proof (intro allI)
  fix up :: "'a upstream" and h fw
  from demo_generate [of 3 demo_start demo_yaml up h fw] demo_start_rich obtain nodes w1 where
    1: "generate demo_site demo_params (demo_env up h fw) demo_yaml (demo_cluster up) demo_start = (Inr (nodes, []), w1)"
      "rich (10 ^ 30) 3 w1"
    by (auto simp: demo_yaml_def)
  from demo_generate [of 0 w1 demo_yaml up h fw] 1(2) obtain nodes2 w2 where
    2: "generate demo_site demo_params (demo_env up h fw) demo_yaml (demo_cluster up) w1 = (Inr (nodes2, []), w2)"
    by (auto simp: demo_yaml_def)
  have "nodes2 = nodes"
    using regeneration_returns_same_nodes [OF good_demo _ 1(1) _ _ 2] by (simp add: demo_cluster_facts)
  then show "\<exists>nodes w1 w2.
     generate demo_site demo_params (demo_env up h fw) demo_yaml (demo_cluster up) demo_start = (Inr (nodes, []), w1)
     \<and> generate demo_site demo_params (demo_env up h fw) demo_yaml (demo_cluster up) w1 = (Inr (nodes, []), w2)"
    using 1(1) 2 by blast
qed

end
