(* ===== verification/Sweep.thy ===== *)
theory Sweep
  imports Ledger Json
begin

text \<open>
  Emptying the Safes of a kept cluster (\<open>localcluster/src/sweep.rs\<close> and the \<open>sweep-safes\<close> branch of
  \<open>main.rs\<close>): the nodes are those whose keystore is in the directory, their Safe and module are read from
  the configuration beside it, and the Safe's whole balance is withdrawn through the module.
\<close>

record kept_node =
  kn_id :: nat
  kn_keystore :: string
  kn_safe :: address
  kn_module :: address

datatype withdraw_error = Not_Submitted string | Not_Confirmed string

text \<open>A withdrawal is made by the key's connector for a module: the key signs and the module's Safe pays.\<close>

record ('k, 'c, 't, 'w) sweeper =
  sw_site :: "('k, 'c, 't, 'w) site"
  sw_is_file :: "string \<Rightarrow> 'w \<Rightarrow> bool"
  sw_read :: "string \<Rightarrow> (string, string, 'w) action"
  sw_yaml :: "string \<Rightarrow> (string, json) res"
  sw_withdraw :: "'c \<Rightarrow> address \<Rightarrow> balance \<Rightarrow> address \<Rightarrow> (withdraw_error, unit, 'w) action"

section \<open>The kept nodes\<close>

text \<open>Indexing a value by a name: \<open>null\<close> where there is no such member.\<close>

definition json_index :: "json \<Rightarrow> string \<Rightarrow> json" where
  "json_index j k = (case json_get k j of None \<Rightarrow> JNull | Some v \<Rightarrow> v)"

definition kept_address ::
  "(string \<Rightarrow> address option) \<Rightarrow> nat \<Rightarrow> string \<Rightarrow> json \<Rightarrow> string \<Rightarrow> (string, address) res" where
  "kept_address parse i cfg safe_module key =
     res_bind
       (ok_or (''node '' @ show_nat i @ '': hopr.safe_module.'' @ key @ '' missing in '' @ cfg)
         (as_str (json_index safe_module key)))
       (\<lambda>text. ok_or (''node '' @ show_nat i @ '': hopr.safe_module.'' @ key) (parse text))"

definition read_kept_node ::
  "('k, 'c, 't, 'w) sweeper \<Rightarrow> string \<Rightarrow> nat \<Rightarrow> (string, kept_node option, 'w) action" where
  "read_kept_node st dir i =
     (let cfg = config_path dir i; parse = si_parse_address (sw_site st) in
      act_bind (act_context (''reading '' @ cfg) (sw_read st cfg)) (\<lambda>yaml.
      act_bind (act_context (''parsing '' @ cfg) (act_of (sw_yaml st yaml))) (\<lambda>value.
      let safe_module = json_index (json_index value ''hopr'') ''safe_module'' in
      act_bind (act_of (kept_address parse i cfg safe_module ''safe_address'')) (\<lambda>safe.
      act_bind (act_of (kept_address parse i cfg safe_module ''module_address'')) (\<lambda>module.
        act_return
          (Some \<lparr> kn_id = i, kn_keystore = id_path dir i, kn_safe = safe, kn_module = module \<rparr>))))))"

definition kept_node_at ::
  "('k, 'c, 't, 'w) sweeper \<Rightarrow> string \<Rightarrow> nat \<Rightarrow> (string, kept_node option, 'w) action" where
  "kept_node_at st dir i w =
     (if \<not> sw_is_file st (id_path dir i) w then act_return None w
      else if \<not> sw_is_file st (config_path dir i) w then
        act_fail (''node '' @ show_nat i @ '': '' @ id_path dir i @ '' exists but '' @ config_path dir i @
          '' does not'') w
      else read_kept_node st dir i w)"

definition kept_nodes :: "('k, 'c, 't, 'w) sweeper \<Rightarrow> string \<Rightarrow> (string, kept_node list, 'w) action" where
  "kept_nodes st dir =
     act_bind (act_each (kept_node_at st dir) [0..<16]) (\<lambda>found.
       let nodes = List.map_filter id found in
       if nodes = [] then act_fail (''no node_id_<i>.id files under '' @ dir) else act_return nodes)"

section \<open>The sweep\<close>

definition withdraw_context :: "nat \<Rightarrow> withdraw_error \<Rightarrow> string" where
  "withdraw_context i e =
     ''node '' @ show_nat i @
     (case e of Not_Submitted _ \<Rightarrow> '': submitting the sweep'' | Not_Confirmed _ \<Rightarrow> '': confirming the sweep'')"

definition sweep_node ::
  "('k, 'c, 't, 'w) sweeper \<Rightarrow> string \<Rightarrow> address \<Rightarrow> kept_node
   \<Rightarrow> (string, (nat \<times> address \<times> balance) option, 'w) action" where
  "sweep_node st password to n =
     (let si = sw_site st in
      act_bind
        (act_context (''node '' @ show_nat (kn_id n) @ '': reading '' @ kn_keystore n)
          (si_read_keystore si (kn_keystore n) password)) (\<lambda>keys.
      let key = si_chain_key si keys; module = Some (kn_module n) in
      act_bind (si_open si key module) (\<lambda>_.
      act_bind (si_connect si key module) (\<lambda>_.
      act_bind (si_tokens si (kn_safe n)) (\<lambda>b.
        if b = 0 then act_return None
        else
          act_bind (act_map_err (withdraw_context (kn_id n)) (sw_withdraw st key (kn_module n) b to))
            (\<lambda>_. act_return (Some (kn_id n, kn_safe n, b))))))))"

definition sweep_safes ::
  "('k, 'c, 't, 'w) sweeper \<Rightarrow> string \<Rightarrow> string \<Rightarrow> string \<Rightarrow> address
   \<Rightarrow> (string, (nat \<times> address \<times> balance) list, 'w) action" where
  "sweep_safes st dir password url to =
     act_bind (act_of (si_url (sw_site st) url)) (\<lambda>_.
     act_bind (kept_nodes st dir) (\<lambda>nodes.
     act_bind (act_each (sweep_node st password to) nodes) (\<lambda>moved.
       act_return (List.map_filter id moved))))"

section \<open>The command\<close>

record sweep_args =
  sg_cluster_dir :: string
  sg_to :: string
  sg_blokli_url :: string
  sg_identity_password :: string

definition default_sweep_args :: "env_vars \<Rightarrow> string \<Rightarrow> string \<Rightarrow> sweep_args" where
  "default_sweep_args env dir to =
     \<lparr> sg_cluster_dir = dir, sg_to = to,
       sg_blokli_url = (case env ''HOPRD_CHAIN_URL'' of Some u \<Rightarrow> u | None \<Rightarrow> ''http://127.0.0.1:8080''),
       sg_identity_password = ''password'' \<rparr>"

definition swept_total :: "(nat \<times> address \<times> balance) list \<Rightarrow> balance" where
  "swept_total moved = foldl (\<lambda>acc (_, _, b). acc + b) 0 moved"

definition sweep_command :: "('k, 'c, 't, 'w) sweeper \<Rightarrow> sweep_args \<Rightarrow> (string, string, 'w) action" where
  "sweep_command st a =
     act_bind (act_of (ok_or ''--to must be an EVM address'' (si_parse_address (sw_site st) (sg_to a)))) (\<lambda>to.
     act_bind (sweep_safes st (sg_cluster_dir a) (sg_identity_password a) (sg_blokli_url a) to) (\<lambda>moved.
       act_return
         (''swept '' @ si_show_tokens (sw_site st) (swept_total moved) @ '' from '' @ show_nat (length moved) @
          '' Safe(s) to '' @ si_show_address (sw_site st) to)))"

section \<open>What it relies on\<close>

definition good_sweeper :: "('k, 'c, 't, 'w) sweeper \<Rightarrow> ('w \<Rightarrow> ledger) \<Rightarrow> ('w \<Rightarrow> 'k disk) \<Rightarrow> bool" where
  "good_sweeper st lg dk \<longleftrightarrow>
     good_site (sw_site st) lg dk
     \<and> (\<forall>dir i w. sw_is_file st (id_path dir i) w \<longleftrightarrow> dk_keystores (dk w) (id_path dir i) \<noteq> None)
     \<and> (\<forall>dir i w. sw_is_file st (config_path dir i) w \<longleftrightarrow> dk_files (dk w) (config_path dir i) \<noteq> None)
     \<and> (\<forall>p. leaves lg (sw_read st p)) \<and> (\<forall>p. leaves dk (sw_read st p))
     \<and> (\<forall>p w t w'. sw_read st p w = (Inr t, w') \<longrightarrow> dk_files (dk w) p = Some t)
     \<and> (\<forall>c m x to. leaves dk (sw_withdraw st c m x to))
     \<and> (\<forall>c m x to w w' a s. sw_withdraw st c m x to w = (Inr (), w') \<longrightarrow> lg_safe (lg w) a = Some s
          \<longrightarrow> sm_module_address s = m \<longrightarrow>
            pays lg w w' (\<lambda>l. l \<lparr> lg_tokens := move_tokens (sm_safe_address s) to x (lg_tokens l) \<rparr>))"

end
