(* ===== verification/Sweep_Laws.thy ===== *)
theory Sweep_Laws
  imports Sweep Provision_Example Cluster_Identity_Laws
begin

text \<open>
  A sweep empties the Safes and reports what it moved, and it finds the Safes of the cluster that was generated
  in its directory.
\<close>

section \<open>What is moved\<close>

lemma swept_total_sum: "swept_total moved = (\<Sum>(_, _, b) \<leftarrow> moved. b)"
proof -
  have "foldl (\<lambda>acc (_, _, b). acc + b) z moved = z + (\<Sum>(_, _, b) \<leftarrow> moved. b)" for z :: balance
    by (induction moved arbitrary: z) (auto simp: add.assoc)
  then show ?thesis by (simp add: swept_total_def)
qed

lemma kept_node_at_leaves:
  assumes "good_sweeper st lg dk"
  shows "leaves lg (kept_node_at st dir i)" "leaves dk (kept_node_at st dir i)"
proof -
  have at: "leaves v (kept_node_at st dir i)" if "\<And>p. leaves v (sw_read st p)" for v :: "'d \<Rightarrow> 'v" and i
  proof -
    have "leaves v (read_kept_node st dir i)"
      unfolding read_kept_node_def Let_def by (intro leaves_intros that)
    then show ?thesis by (simp add: leaves_def kept_node_at_def act_return_def act_fail_def)
  qed
  show "leaves lg (kept_node_at st dir i)" "leaves dk (kept_node_at st dir i)"
    using assms by (auto intro!: at simp: good_sweeper_def)
qed

lemma kept_nodes_leaves:
  assumes "good_sweeper st lg dk"
  shows "leaves lg (kept_nodes st dir)" "leaves dk (kept_nodes st dir)"
  unfolding kept_nodes_def
  by (auto intro!: leaves_intros kept_node_at_leaves [OF assms] simp: Let_def)

lemma withdraw_pays:
  assumes "good_sweeper st lg dk" and "sw_withdraw st c m x to w = (Inr (), w')"
    and "lg_safe (lg w) a = Some s" and "sm_module_address s = m"
  shows "pays lg w w' (\<lambda>l. l \<lparr> lg_tokens := move_tokens (sm_safe_address s) to x (lg_tokens l) \<rparr>)"
  using assms unfolding good_sweeper_def by blast

text \<open>What a sweep of some nodes leaves: their Safes are empty, the recipient has what was moved, and nothing else
  has changed hands.\<close>

definition swept :: "address \<Rightarrow> kept_node list \<Rightarrow> balance \<Rightarrow> ledger \<Rightarrow> ledger \<Rightarrow> bool" where
  "swept to nodes amount l l' \<longleftrightarrow>
     lg_safe l' = lg_safe l \<and> lg_tokens l' to = lg_tokens l to + amount
     \<and> (\<forall>n\<in>set nodes. lg_tokens l' (kn_safe n) = 0)
     \<and> (\<forall>a. a \<noteq> to \<longrightarrow> a \<notin> kn_safe ` set nodes \<longrightarrow> lg_tokens l' a = lg_tokens l a)"

lemma sweep_node_swept:
  assumes good: "good_sweeper st lg dk" and ok: "sweep_node st password to n w = (Inr r, w')"
    and "kn_safe n \<noteq> to"
    and safe: "lg_safe (lg w) a = Some \<lparr> sm_safe_address = kn_safe n, sm_module_address = kn_module n \<rparr>"
  shows "swept to [n] (case r of None \<Rightarrow> 0 | Some (_, _, b) \<Rightarrow> b) (lg w) (lg w')"
proof -
  let ?si = "sw_site st"
  have site: "good_site ?si lg dk" using good by (simp add: good_sweeper_def)
  from ok [unfolded sweep_node_def Let_def act_bind_Ok act_context_Ok] obtain keys w1 w2 w3 w4 b where
    1: "si_read_keystore ?si (kn_keystore n) password w = (Inr keys, w1)"
    and 2: "si_open ?si (si_chain_key ?si keys) (Some (kn_module n)) w1 = (Inr (), w2)"
    and 3: "si_connect ?si (si_chain_key ?si keys) (Some (kn_module n)) w2 = (Inr (), w3)"
    and 4: "si_tokens ?si (kn_safe n) w3 = (Inr b, w4)"
    and 5: "(if b = 0 then act_return None
        else act_bind (act_map_err (withdraw_context (kn_id n)) (sw_withdraw st (si_chain_key ?si keys) (kn_module n) b to))
            (\<lambda>_. act_return (Some (kn_id n, kn_safe n, b)))) w4 = (Inr r, w')"
    by auto
  have reads: "leaves lg (si_read_keystore ?si p pw)" "leaves lg (si_open ?si c m)" "leaves lg (si_connect ?si c m)"
    "leaves lg (si_tokens ?si x)" for p pw c m x
    by (rule site_reads [OF site])+
  have same: "lg w3 = lg w" "lg w4 = lg w"
    using leavesD [OF reads(1) 1] leavesD [OF reads(2) 2] leavesD [OF reads(3) 3] leavesD [OF reads(4) 4] by simp_all
  have b: "b = lg_tokens (lg w) (kn_safe n)"
    using site_answers(2) [OF site 4] same(1) by simp
  show ?thesis
  proof (cases "b = 0")
    case True
    then show ?thesis using 5 same(2) b by (auto simp: act_Ok swept_def)
  next
    case False
    then have w: "sw_withdraw st (si_chain_key ?si keys) (kn_module n) b to w4 = (Inr (), w')"
      and r: "r = Some (kn_id n, kn_safe n, b)"
      using 5 by (auto simp: act_Ok)
    have "pays lg w4 w' (\<lambda>l. l \<lparr> lg_tokens := move_tokens (kn_safe n) to b (lg_tokens l) \<rparr>)"
      using withdraw_pays [OF good w] safe same(2) by fastforce
    then show ?thesis
      using same(2) b \<open>kn_safe n \<noteq> to\<close> by (auto simp: r pays_def swept_def move_tokens_def Let_def)
  qed
qed

lemma swept_append:
  assumes "swept to ms x l l1" and "swept to ns y l1 l2" and "to \<notin> kn_safe ` set ms"
  shows "swept to (ms @ ns) (x + y) l l2"
  using assms unfolding swept_def by (auto simp: image_iff)

lemma sweep_nodes_swept:
  assumes "good_sweeper st lg dk" and "act_each (sweep_node st password to) nodes w = (Inr moved, w')"
    and "to \<notin> kn_safe ` set nodes"
    and "\<forall>n\<in>set nodes. \<exists>a. lg_safe (lg w) a = Some \<lparr> sm_safe_address = kn_safe n, sm_module_address = kn_module n \<rparr>"
  shows "swept to nodes (swept_total (List.map_filter id moved)) (lg w) (lg w')"
  using assms(2-)
proof (induction nodes arbitrary: w moved)
  case Nil
  then show ?case by (simp add: act_Ok swept_def swept_total_def List.map_filter_def)
next
  case (Cons n ns)
  from Cons.prems(1) obtain r w1 rs where
    r: "sweep_node st password to n w = (Inr r, w1)"
    and rs: "act_each (sweep_node st password to) ns w1 = (Inr rs, w')" and moved: "moved = r # rs"
    by (auto simp: act_Ok)
  have one: "swept to [n] (case r of None \<Rightarrow> 0 | Some (_, _, b) \<Rightarrow> b) (lg w) (lg w1)"
    using Cons.prems sweep_node_swept [OF assms(1) r] by auto
  then have "lg_safe (lg w1) = lg_safe (lg w)" by (simp add: swept_def)
  then have "swept to ns (swept_total (List.map_filter id rs)) (lg w1) (lg w')"
    using Cons.prems by (intro Cons.IH [OF rs]) auto
  from swept_append [OF one this] Cons.prems(2) show ?case
    by (cases r) (auto simp: moved swept_total_sum List.map_filter_def o_def)
qed

lemma sweep_result:
  assumes "good_sweeper st lg dk"
    and "kept_nodes st dir w = (Inr nodes, w1)" and "sweep_safes st dir password url to w = (Inr moved, w')"
    and "to \<notin> kn_safe ` set nodes"
    and "\<forall>n\<in>set nodes. \<exists>a. lg_safe (lg w) a = Some \<lparr> sm_safe_address = kn_safe n, sm_module_address = kn_module n \<rparr>"
  shows "lg_safe (lg w') = lg_safe (lg w) \<and> lg_tokens (lg w') to = lg_tokens (lg w) to + swept_total moved
    \<and> (\<forall>n\<in>set nodes. lg_tokens (lg w') (kn_safe n) = 0)
    \<and> (\<forall>a. a \<noteq> to \<longrightarrow> a \<notin> kn_safe ` set nodes \<longrightarrow> lg_tokens (lg w') a = lg_tokens (lg w) a)"
proof -
  have same: "lg w1 = lg w" by (rule leavesD [OF kept_nodes_leaves(1) [OF assms(1)] assms(2)])
  from assms(3) obtain l where l: "act_each (sweep_node st password to) nodes w1 = (Inr l, w')"
    and moved: "moved = List.map_filter id l"
    using assms(2) by (auto simp: sweep_safes_def act_Ok)
  from sweep_nodes_swept [OF assms(1) l assms(4)] assms(5)
  show ?thesis by (simp add: moved same swept_def)
qed

text \<open>A sweep empties the Safes and reports what it moved. If the nodes kept in the directory have the Safes and
  modules the chain knows, and the recipient is none of these Safes, then after a sweep that succeeds every
  one of them is empty, the recipient has gained exactly the total of the reported amounts, which is what
  the command prints, every other account has the tokens it had, and no Safe has changed.\<close>

theorem sweep_empties_safes:
  assumes "good_sweeper st lg dk"
    and "kept_nodes st dir w = (Inr nodes, w1)" and "sweep_safes st dir password url to w = (Inr moved, w')"
    and "to \<notin> kn_safe ` set nodes"
    and "\<forall>n\<in>set nodes. \<exists>a. lg_safe (lg w) a = Some \<lparr> sm_safe_address = kn_safe n, sm_module_address = kn_module n \<rparr>"
  shows "lg_safe (lg w') = lg_safe (lg w) \<and> lg_tokens (lg w') to = lg_tokens (lg w) to + swept_total moved
    \<and> (\<forall>n\<in>set nodes. lg_tokens (lg w') (kn_safe n) = 0)
    \<and> (\<forall>a. a \<noteq> to \<longrightarrow> a \<notin> kn_safe ` set nodes \<longrightarrow> lg_tokens (lg w') a = lg_tokens (lg w) a)"
  using assms by (rule sweep_result)


section \<open>The sweep of a generated cluster\<close>

text \<open>The configuration library reads what it writes, as far as the sweep looks at it, and so does the address type.\<close>

definition reads_back ::
  "('k, 'c, 't, 'w) sweeper \<Rightarrow> (('u, 's) hoprd_config \<Rightarrow> (string, string) res) \<Rightarrow> bool" where
  "reads_back sw yaml \<longleftrightarrow>
     (\<forall>a. si_parse_address (sw_site sw) (si_show_address (sw_site sw) a) = Some a)
     \<and> (\<forall>c t. yaml c = Inr t \<longrightarrow>
          (\<exists>v. sw_yaml sw t = Inr v
             \<and> (let m = json_index (json_index v ''hopr'') ''safe_module''; s = uc_safe_module (hd_hopr c)
                in json_index m ''safe_address'' = JStr (si_show_address (sw_site sw) (sm_safe_address s))
                 \<and> json_index m ''module_address'' = JStr (si_show_address (sw_site sw) (sm_module_address s)))))"

definition kept_of :: "string \<Rightarrow> nat \<Rightarrow> safe_module \<Rightarrow> kept_node" where
  "kept_of dir i s =
     \<lparr> kn_id = i, kn_keystore = id_path dir i, kn_safe = sm_safe_address s, kn_module = sm_module_address s \<rparr>"

lemma provisioned_config:
  "provisioned st g l files i x \<Longrightarrow>
    \<exists>a safe c t. x = identity_of st i a safe (id_path (gn_home g) i) (gc_identity_password (gn_config g))
      \<and> fst files \<noteq> None \<and> snd files = Some t \<and> lg_safe l a = Some safe
      \<and> uc_safe_module (hd_hopr c) = safe \<and> gn_yaml g c = Inr t"
  unfolding provisioned_def Let_def
proof (elim exE conjE)
  fix keys safe port ma c t
  assume 1: "x = identity_of st i (si_address st (si_chain_key st keys)) safe (id_path (gn_home g) i)
      (gc_identity_password (gn_config g))" "files = (Some (keys, gc_identity_password (gn_config g)), Some t)"
    and 2: "lg_safe l (si_address st (si_chain_key st keys)) = Some safe" and 3: "gn_yaml g c = Inr t"
    and "node_config (gn_env g) (gn_config g) i safe (gn_strategy g) (id_path (gn_home g) i)
      (pix_global_of (gc_pix (gn_config g))) = Inr c"
  then have "uc_safe_module (hd_hopr c) = safe" using node_config_Ok by blast
  with 1 2 3 show ?thesis
    by (intro exI [of _ "si_address st (si_chain_key st keys)"] exI [of _ safe] exI [of _ c] exI [of _ t]) simp
qed

lemma map_filter_all:
  "(\<And>x. x \<in> set xs \<Longrightarrow> f x = Some (g x)) \<Longrightarrow> List.map_filter id (map f xs) = map g xs"
  by (induction xs) (auto simp: List.map_filter_def)

lemma kept_node_generated:
  assumes good: "good_sweeper sw lg dk" and rb: "reads_back sw (gn_yaml g)"
    and p: "provisioned (sw_site sw) g (lg v) (slot (gn_home g) i (dk v)) i x"
    and ok: "kept_node_at sw (gn_home g) i v = (Inr r, v')"
  shows "\<exists>a s. lg_safe (lg v) a = Some s \<and> r = Some (kept_of (gn_home g) i s)
    \<and> gi_id x = i \<and> gi_id_file x = id_path (gn_home g) i
    \<and> gi_safe_address x = si_show_address (sw_site sw) (sm_safe_address s)
    \<and> gi_module_address x = si_show_address (sw_site sw) (sm_module_address s)"
proof -
  let ?dir = "gn_home g"
  from provisioned_config [OF p] obtain a s c t where
    x: "x = identity_of (sw_site sw) i a s (id_path ?dir i) (gc_identity_password (gn_config g))"
    and fs: "dk_keystores (dk v) (id_path ?dir i) \<noteq> None" "dk_files (dk v) (config_path ?dir i) = Some t"
    and safe: "lg_safe (lg v) a = Some s" and c: "uc_safe_module (hd_hopr c) = s" "gn_yaml g c = Inr t"
    by (auto simp: slot_def)
  have "kept_node_at sw ?dir i v = read_kept_node sw ?dir i v"
    using good fs by (simp add: kept_node_at_def good_sweeper_def)
  with ok obtain yaml v1 j where r: "sw_read sw (config_path ?dir i) v = (Inr yaml, v1)" "sw_yaml sw yaml = Inr j"
    and got: "(let m = json_index (json_index j ''hopr'') ''safe_module'' in
      \<exists>safe module. kept_address (si_parse_address (sw_site sw)) i (config_path ?dir i) m ''safe_address'' = Inr safe
        \<and> kept_address (si_parse_address (sw_site sw)) i (config_path ?dir i) m ''module_address'' = Inr module
        \<and> r = Some \<lparr> kn_id = i, kn_keystore = id_path ?dir i, kn_safe = safe, kn_module = module \<rparr>)"
    by (auto simp: read_kept_node_def Let_def act_Ok)
  have "yaml = t" using good fs r(1) unfolding good_sweeper_def by (metis option.inject)
  with r(2) have j: "sw_yaml sw t = Inr j" by simp
  from rb [unfolded reads_back_def, THEN conjunct2, rule_format, OF c(2)] have
    "json_index (json_index (json_index j ''hopr'') ''safe_module'') ''safe_address''
       = JStr (si_show_address (sw_site sw) (sm_safe_address s))"
    "json_index (json_index (json_index j ''hopr'') ''safe_module'') ''module_address''
       = JStr (si_show_address (sw_site sw) (sm_module_address s))"
    by (simp_all add: j Let_def c(1))
  with got rb have "r = Some (kept_of ?dir i s)"
    by (auto simp: Let_def kept_address_def kept_of_def reads_back_def res_bind_Ok_iff)
  then show ?thesis using safe x by (auto simp: identity_of_def)
qed


lemma map_filter_append: "List.map_filter f (xs @ ys) = List.map_filter f xs @ List.map_filter f ys"
  by (simp add: List.map_filter_def)

lemma safe_eta:
  "\<lparr> sm_safe_address = sm_safe_address s, sm_module_address = sm_module_address s \<rparr> = (s :: safe_module)"
  by (cases s) simp

lemma kept_nodes_generated:
  assumes good: "good_sweeper sw lg dk" and rb: "reads_back sw (gn_yaml g)" and n: "n \<le> 16"
    and p: "list_all2 (\<lambda>i. provisioned (sw_site sw) g (lg v) (slot (gn_home g) i (dk v)) i) [0..<n] nodes"
    and none: "\<forall>i<16. n \<le> i \<longrightarrow> \<not> sw_is_file sw (id_path (gn_home g) i) v"
    and ok: "kept_nodes sw (gn_home g) v = (Inr kept, v')"
  shows "list_all2 (\<lambda>k x. gi_id x = kn_id k \<and> gi_id_file x = kn_keystore k
      \<and> gi_safe_address x = si_show_address (sw_site sw) (kn_safe k)
      \<and> gi_module_address x = si_show_address (sw_site sw) (kn_module k)
      \<and> (\<exists>a. lg_safe (lg v) a = Some \<lparr> sm_safe_address = kn_safe k, sm_module_address = kn_module k \<rparr>)) kept nodes"
  (is "list_all2 ?same kept nodes")
proof -
  let ?P = "\<lambda>i r. if i < n then (\<exists>k. r = Some k \<and> ?same k (nodes ! i)) else r = None"
  let ?I = "\<lambda>u. lg u = lg v \<and> dk u = dk v"
  from ok obtain found u where found: "act_each (kept_node_at sw (gn_home g)) [0..<16] v = (Inr found, u)"
    and kept: "kept = List.map_filter id found"
    by (auto simp: kept_nodes_def Let_def act_Ok split: if_splits)
  have "?I u \<and> list_all2 (\<lambda>i r. ?P i r) [0..<16] found"
  proof (rule act_each_Ok [OF found, where I = ?I and P = "\<lambda>i r u. ?P i r"])
    fix i a r b
    assume i: "i \<in> set [0..<16]" and I: "?I a" and r: "kept_node_at sw (gn_home g) i a = (Inr r, b)"
    have "?I b"
      using I leavesD [OF kept_node_at_leaves(1) [OF good] r] leavesD [OF kept_node_at_leaves(2) [OF good] r] by simp
    moreover have "?P i r"
    proof (cases "i < n")
      case True
      then have "provisioned (sw_site sw) g (lg a) (slot (gn_home g) i (dk a)) i (nodes ! i)"
        using list_all2_nthD [OF p, of i] I by simp
      from kept_node_generated [OF good rb this r] I True show ?thesis
        by (auto simp: kept_of_def safe_eta)
    next
      case False
      then have "\<not> sw_is_file sw (id_path (gn_home g) i) v" using none i by simp
      then have "\<not> sw_is_file sw (id_path (gn_home g) i) a" using good I by (simp add: good_sweeper_def)
      then show ?thesis using r False by (simp add: kept_node_at_def act_Ok)
    qed
    ultimately show "?I b \<and> ?P i r" by blast
  qed simp_all
  then have all: "length found = 16" "\<And>i. i < 16 \<Longrightarrow> ?P i (found ! i)"
    by (auto simp: list_all2_conv_all_nth)
  have nodes: "length nodes = n" using p by (simp add: list_all2_lengthD [symmetric])
  have "found = map (\<lambda>i. found ! i) [0..<n] @ map (\<lambda>i. found ! i) [n..<16]"
    by (rule nth_equalityI) (use all(1) n in \<open>auto simp: nth_append\<close>)
  moreover have "List.map_filter id (map (\<lambda>i. found ! i) [n..<16]) = []"
    using all(2) by (force simp: List.map_filter_def filter_empty_conv)
  moreover have "List.map_filter id (map (\<lambda>i. found ! i) [0..<n]) = map (\<lambda>i. the (found ! i)) [0..<n]"
  proof (rule map_filter_all)
    fix i assume "i \<in> set [0..<n]"
    then show "found ! i = Some (the (found ! i))" using all(2) [of i] n by auto
  qed
  ultimately have "kept = map (\<lambda>i. the (found ! i)) [0..<n]"
    using map_filter_append by (metis append_Nil2 kept)
  moreover have "?same (the (found ! i)) (nodes ! i)" if "i < n" for i
    using all(2) [of i] n that by auto
  ultimately show ?thesis
    unfolding list_all2_conv_all_nth by (simp add: nodes)
qed


text \<open>C12: A sweep returns what a generation has put in. After a generation, a sweep of its directory, which holds no
  other keystores, that succeeds has emptied the Safe of every generated node: each identity's Safe address
  is that of an account without tokens. The recipient, which is none of these Safes, has gained what the
  sweep reports, and the tokens of all other accounts, the extra identities' Safes among them, are as before.\<close>

theorem generated_cluster_sweeps_clean:
  assumes "good_sweeper sw lg dk" and "reads_back sw yaml"
    and "generate (sw_site sw) sr ce yaml cfg w = (Inr (nodes, extras), w1)"
    and "prepare_generation (sw_site sw) sr ce yaml cfg w = (Inr g, u)"
    and "\<forall>i<16. effective_nodes (gc_num_nodes cfg) \<le> i \<longrightarrow> \<not> sw_is_file sw (id_path (gn_home g) i) w1"
    and "\<forall>x\<in>set nodes. gi_safe_address x \<noteq> si_show_address (sw_site sw) to"
    and "sweep_safes sw (gn_home g) password url to w1 = (Inr moved, w2)"
  shows "(\<forall>x\<in>set nodes. \<exists>s. gi_safe_address x = si_show_address (sw_site sw) s \<and> lg_tokens (lg w2) s = 0)
    \<and> lg_tokens (lg w2) to = lg_tokens (lg w1) to + swept_total moved
    \<and> (\<forall>a. a \<noteq> to \<longrightarrow> (\<forall>x\<in>set nodes. gi_safe_address x \<noteq> si_show_address (sw_site sw) a) \<longrightarrow>
         lg_tokens (lg w2) a = lg_tokens (lg w1) a)"
proof -
  have good: "good_site (sw_site sw) lg dk" using assms(1) by (simp add: good_sweeper_def)
  have yaml: "gn_yaml g = yaml" using prepare_Ok [OF assms(4)] by auto
  have "list_all2 (\<lambda>i. provisioned (sw_site sw) g (lg w1) (slot (gn_home g) i (dk w1)) i)
        [0..<effective_nodes (gc_num_nodes cfg)] nodes"
    using generate_Ok [OF good assms(3)] assms(4) by auto
  moreover have "effective_nodes (gc_num_nodes cfg) \<le> 16" by (simp add: effective_nodes_def max_num_nodes_def)
  moreover from assms(7) obtain kept v where kept: "kept_nodes sw (gn_home g) w1 = (Inr kept, v)"
    by (auto simp: sweep_safes_def act_Ok)
  ultimately have same: "list_all2 (\<lambda>k x. gi_id x = kn_id k \<and> gi_id_file x = kn_keystore k
      \<and> gi_safe_address x = si_show_address (sw_site sw) (kn_safe k)
      \<and> gi_module_address x = si_show_address (sw_site sw) (kn_module k)
      \<and> (\<exists>a. lg_safe (lg w1) a = Some \<lparr> sm_safe_address = kn_safe k, sm_module_address = kn_module k \<rparr>)) kept nodes"
    using kept_nodes_generated [OF assms(1), of g] assms(2,5) yaml by blast
  have node: "\<exists>k\<in>set kept. gi_safe_address x = si_show_address (sw_site sw) (kn_safe k)" if "x \<in> set nodes" for x
    using same that by (induction rule: list_all2_induct) auto
  have kept_of_node: "(\<exists>x\<in>set nodes. gi_safe_address x = si_show_address (sw_site sw) (kn_safe k))
      \<and> (\<exists>a. lg_safe (lg w1) a = Some \<lparr> sm_safe_address = kn_safe k, sm_module_address = kn_module k \<rparr>)"
    if "k \<in> set kept" for k
    using same that by (induction rule: list_all2_induct) auto
  have clean: "lg_tokens (lg w2) to = lg_tokens (lg w1) to + swept_total moved
    \<and> (\<forall>n\<in>set kept. lg_tokens (lg w2) (kn_safe n) = 0)
    \<and> (\<forall>a. a \<noteq> to \<longrightarrow> a \<notin> kn_safe ` set kept \<longrightarrow> lg_tokens (lg w2) a = lg_tokens (lg w1) a)"
    by (rule sweep_result [OF assms(1) kept assms(7), THEN conjunct2]) (use assms(6) kept_of_node in auto)
  then show ?thesis using node kept_of_node by (metis imageE)
qed

section \<open>Examples\<close>

text \<open>A node's configuration is written as its two addresses.\<close>

definition demo_config_text :: "('u, 's) hoprd_config \<Rightarrow> (string, string) res" where
  "demo_config_text c =
     Inr (show_nat (unat (sm_safe_address (uc_safe_module (hd_hopr c)))) @ '','' @
          show_nat (unat (sm_module_address (uc_safe_module (hd_hopr c)))))"

definition demo_read_config :: "string \<Rightarrow> (string, json) res" where
  "demo_read_config t =
     (case split_on (CHR '','') t of
        [safe, module] \<Rightarrow> Inr (JObj [(''hopr'', JObj [(''safe_module'',
            JObj [(''safe_address'', JStr safe), (''module_address'', JStr module)])])])
      | _ \<Rightarrow> Inl ''not a configuration'')"

definition demo_sweeper :: "(nat, nat, unit, demo_world) sweeper" where
  "demo_sweeper =
     \<lparr> sw_site = demo_site,
       sw_is_file = (\<lambda>p w. if drop (length p - 3) p = ''.id'' then dk_keystores (dw_disk w) p \<noteq> None
         else dk_files (dw_disk w) p \<noteq> None),
       sw_read = (\<lambda>p w. (case dk_files (dw_disk w) p of Some t \<Rightarrow> Inr t | None \<Rightarrow> Inl ''missing'', w)),
       sw_yaml = demo_read_config,
       sw_withdraw = (\<lambda>c m x to w. (Inr (), w \<lparr> dw_tokens :=
         move_tokens (sm_safe_address (demo_safe m)) to x (dw_tokens w) \<rparr>)) \<rparr>"

lemma demo_endings:
  "drop (length (id_path dir i) - 3) (id_path dir i) = ''.id''"
  "drop (length (config_path dir i) - 3) (config_path dir i) = ''aml''"
  by (simp_all add: id_path_def config_path_def join_path_def drop_Cons')

lemma good_demo_sweeper: "good_sweeper demo_sweeper demo_ledger dw_disk"
  unfolding good_sweeper_def
  by (auto simp: demo_endings good_demo demo_sweeper_def leaves_def demo_ledger_def pays_def demo_safe_def split: option.splits if_splits)


lemma demo_reads_back: "reads_back demo_sweeper demo_config_text"
proof -
  have "split_on (CHR '','') (show_nat a @ '','' @ show_nat b) = [show_nat a, show_nat b]" for a b
  proof -
    have "CHR '','' \<notin> set (show_nat c)" for c by (rule show_nat_no_char) (simp add: is_digit_def)
    then show ?thesis by (simp add: split_on_append_sep split_on_no_sep)
  qed
  moreover have "parse_unsigned 160 (show_nat (unat a)) = Some (unat a)" for a :: address
    by (rule parse_show_nat) (use unsigned_less [of a] in simp)
  ultimately show ?thesis
    unfolding reads_back_def
    by (simp add: demo_sweeper_def demo_config_text_def demo_read_config_def Let_def demo_site_def
        json_index_def json_get_def)
qed


lemma act_each_nothing:
  "(\<And>i. i \<in> set is \<Longrightarrow> f i w = (Inr None, w)) \<Longrightarrow> act_each f is w = (Inr (replicate (length is) None), w)"
  by (induction "is") (auto simp: act_return_def act_bind_def)

lemma demo_sweep:
  assumes p: "provisioned demo_site g (demo_ledger w) (slot (gn_home g) 0 (dw_disk w)) 0 x"
    and frozen: "\<not> gc_reuse_identities (gn_config g)" "\<not> gc_random_identities (gn_config g)"
    and yaml: "gn_yaml g = demo_config_text"
    and none: "\<And>j. j \<noteq> 0 \<Longrightarrow> dk_keystores (dw_disk w) (id_path (gn_home g) j) = None"
  shows "kept_nodes demo_sweeper (gn_home g) w = (Inr [kept_of (gn_home g) 0 (demo_safe 14)], w)"
    and "\<exists>moved w'. sweep_safes demo_sweeper (gn_home g) (gc_identity_password (gn_config g)) url to w = (Inr moved, w')"
    and "gi_safe_address x = show_nat 15" and "lg_safe (demo_ledger w) 14 = Some (demo_safe 14)"
proof -
  let ?dir = "gn_home g" and ?s = "demo_safe 14"
  from p obtain keys s c t where
    x: "x = identity_of demo_site 0 (si_address demo_site (si_chain_key demo_site keys)) s (id_path ?dir 0)
      (gc_identity_password (gn_config g))" and
    slot: "slot ?dir 0 (dw_disk w) = (Some (keys, gc_identity_password (gn_config g)), Some t)"
    and a: "lg_safe (demo_ledger w) (si_address demo_site (si_chain_key demo_site keys)) = Some s"
    and c: "node_config (gn_env g) (gn_config g) 0 s (gn_strategy g) (id_path ?dir 0)
      (pix_global_of (gc_pix (gn_config g))) = Inr c" "gn_yaml g c = Inr t"
    and k: "frozen_hopr_keys (si_keys_of demo_site) (fst (node_secrets ! 0)) (snd (node_secrets ! 0)) = Inr keys"
    using frozen unfolding provisioned_def Let_def by blast
  have keys: "keys = 7" using k by (simp add: frozen_hopr_keys_def demo_site_def)
  have s: "s = ?s" using a by (auto simp: keys demo_site_def demo_ledger_def split: if_splits)
  show "gi_safe_address x = show_nat 15" by (simp add: x s identity_of_def demo_site_def)
  show "lg_safe (demo_ledger w) 14 = Some ?s" using a s by (simp add: keys demo_site_def)
  have disk: "dk_keystores (dw_disk w) (id_path ?dir 0) = Some (7, gc_identity_password (gn_config g))"
    "dk_files (dw_disk w) (config_path ?dir 0) = Some t"
    using slot by (simp_all add: slot_def keys)
  have "uc_safe_module (hd_hopr c) = ?s" using node_config_Ok [OF c(1)] s by simp
  with demo_reads_back [unfolded reads_back_def, THEN conjunct2, rule_format, OF c(2) [unfolded yaml]]
  obtain v where v: "sw_yaml demo_sweeper t = Inr v"
    "json_index (json_index (json_index v ''hopr'') ''safe_module'') ''safe_address'' = JStr (si_show_address demo_site 15)"
    "json_index (json_index (json_index v ''hopr'') ''safe_module'') ''module_address'' = JStr (si_show_address demo_site 14)"
    by (auto simp: Let_def demo_sweeper_def demo_safe_def)
  have parse: "si_parse_address demo_site (si_show_address demo_site b) = Some b" for b
    using demo_reads_back by (auto simp: reads_back_def demo_sweeper_def)
  have address: "kept_address (si_parse_address (sw_site demo_sweeper)) n f m key = Inr b"
    if "json_index m key = JStr (si_show_address demo_site b)" for n f m key b
    using that parse [of b] by (simp add: kept_address_def demo_sweeper_def)
  have fr: "sw_read demo_sweeper (config_path ?dir 0) w = (Inr t, w)" by (simp add: demo_sweeper_def disk)
  have "read_kept_node demo_sweeper ?dir 0 w = (Inr (Some (kept_of ?dir 0 ?s)), w)"
    unfolding read_kept_node_def Let_def act_Ok
    by (intro exI conjI, rule fr, rule v(1), rule refl, rule address, rule v(2), rule refl, rule address, rule v(3),
        rule refl) (simp_all add: kept_of_def demo_safe_def)
  then have 0: "kept_node_at demo_sweeper ?dir 0 w = (Inr (Some (kept_of ?dir 0 ?s)), w)"
    by (simp add: kept_node_at_def demo_sweeper_def demo_endings disk)
  have "kept_node_at demo_sweeper ?dir i w = (Inr None, w)" if "i \<in> set [1..<16]" for i
    using that none [of i] by (simp add: kept_node_at_def demo_sweeper_def demo_endings act_return_def)
  then have "act_each (kept_node_at demo_sweeper ?dir) [1..<16] w = (Inr (replicate (length [1..<16::nat]) None), w)"
    by (rule act_each_nothing)
  then have "act_each (kept_node_at demo_sweeper ?dir) (0 # [1..<16]) w = (Inr (Some (kept_of ?dir 0 ?s) # replicate 15 None), w)"
    by (simp add: act_bind_def act_return_def 0)
  moreover have "[0..<16] = (0::nat) # [1..<16]" by (simp add: upt_conv_Cons)
  ultimately show kept: "kept_nodes demo_sweeper ?dir w = (Inr [kept_of ?dir 0 ?s], w)"
    unfolding kept_nodes_def act_bind_def by (simp add: List.map_filter_def Let_def act_return_def)
  have "\<exists>r w'. sweep_node demo_sweeper (gc_identity_password (gn_config g)) to (kept_of ?dir 0 ?s) w = (Inr r, w')"
    by (simp add: sweep_node_def act_bind_def act_context_def act_map_err_def act_return_def Let_def demo_sweeper_def
        demo_site_def demo_nothing_def kept_of_def disk)
  then obtain r w' where r: "sweep_node demo_sweeper (gc_identity_password (gn_config g)) to (kept_of ?dir 0 ?s) w = (Inr r, w')"
    by blast
  have url: "si_url (sw_site demo_sweeper) url = Inr ()" by (simp add: demo_sweeper_def demo_site_def)
  show "\<exists>moved w'. sweep_safes demo_sweeper ?dir (gc_identity_password (gn_config g)) url to w = (Inr moved, w')"
    unfolding sweep_safes_def by (auto simp: act_Ok url kept r)
qed


lemma demo_swept_cluster:
  "\<exists>nodes w1 g kept moved w2.
     generate demo_site demo_params (demo_env up h fw) demo_config_text (demo_cluster up) demo_start = (Inr (nodes, []), w1)
     \<and> prepare_generation demo_site demo_params (demo_env up h fw) demo_config_text (demo_cluster up) demo_start = (Inr g, demo_start)
     \<and> length nodes = 1 \<and> gi_safe_address (nodes ! 0) = show_nat 15
     \<and> (\<forall>j. j \<noteq> 0 \<longrightarrow> dk_keystores (dw_disk w1) (id_path (gn_home g) j) = None)
     \<and> kept_nodes demo_sweeper (gn_home g) w1 = (Inr [kept], w1)
     \<and> kn_safe kept = 15 \<and> lg_safe (demo_ledger w1) 14 = Some \<lparr> sm_safe_address = 15, sm_module_address = kn_module kept \<rparr>
     \<and> sweep_safes demo_sweeper (gn_home g) ''password'' ''u'' 2 w1 = (Inr moved, w2)"
proof -
  let ?cfg = "demo_cluster up"
  from demo_generate [of 3 demo_start demo_config_text up h fw] demo_start_rich obtain nodes w1 where
    1: "generate demo_site demo_params (demo_env up h fw) demo_config_text ?cfg demo_start = (Inr (nodes, []), w1)"
    and 2: "\<And>j. j \<noteq> 0 \<Longrightarrow> slot (gc_config_home ?cfg) j (dw_disk w1) = slot (gc_config_home ?cfg) j (dw_disk demo_start)"
    by (auto simp: demo_config_text_def)
  from generate_Ok [OF good_demo 1] obtain g u where
    g: "prepare_generation demo_site demo_params (demo_env up h fw) demo_config_text ?cfg demo_start = (Inr g, u)"
    and cfg: "gn_config g = ?cfg"
    and p: "list_all2 (\<lambda>i. provisioned demo_site g (demo_ledger w1) (slot (gn_home g) i (dw_disk w1)) i)
        [0..<effective_nodes (gc_num_nodes ?cfg)] nodes" by blast
  from demo_cluster_facts(7) [of up 1] obtain s where "node_strategies demo_params ?cfg 1 = Inr s" by blast
  then have "node_strategies demo_params ?cfg (effective_nodes (gc_num_nodes ?cfg)) = Inr s"
    by (simp add: demo_cluster_facts del: One_nat_def)
  from demo_prepare [OF this, of "demo_env up h fw" demo_config_text demo_start] g
  have g': "u = demo_start" "gn_home g = gc_config_home ?cfg" "gn_yaml g = demo_config_text" by auto
  have none: "dk_keystores (dw_disk w1) (id_path (gn_home g) j) = None" if "j \<noteq> 0" for j
    using 2 [OF that] by (simp add: g' slot_def demo_start_def)
  have p0: "provisioned demo_site g (demo_ledger w1) (slot (gn_home g) 0 (dw_disk w1)) 0 (nodes ! 0)"
    and len: "length nodes = 1"
    using p by (auto simp: demo_cluster_facts list_all2_conv_all_nth)
  note sweep = demo_sweep [OF p0 _ _ g'(3) none]
  have kept: "kept_nodes demo_sweeper (gn_home g) w1 = (Inr [kept_of (gn_home g) 0 (demo_safe 14)], w1)"
    by (rule sweep(1)) (simp_all add: cfg demo_cluster_facts)
  have "gc_identity_password ?cfg = ''password''"
    by (simp add: demo_cluster_def default_generation_def default_identity_password_def)
  then obtain moved w2 where m: "sweep_safes demo_sweeper (gn_home g) ''password'' ''u'' 2 w1 = (Inr moved, w2)"
    using sweep(2) [of "''u''" 2] by (auto simp: cfg demo_cluster_facts)
  have "gi_safe_address (nodes ! 0) = show_nat 15" "lg_safe (demo_ledger w1) 14 = Some (demo_safe 14)"
    by (rule sweep(3), simp_all add: cfg demo_cluster_facts) (rule sweep(4), simp_all add: cfg demo_cluster_facts)
  then show ?thesis
    using 1 g g'(1) len none kept m
    by (intro exI [of _ nodes] exI [of _ w1] exI [of _ g] exI [of _ "kept_of (gn_home g) 0 (demo_safe 14)"]
        exI [of _ moved] exI [of _ w2]) (simp add: kept_of_def safe_eta demo_safe_def)
qed


lemma demo_sweeper_site: "sw_site demo_sweeper = demo_site"
  by (simp add: demo_sweeper_def)

theorem sweep_empties_safes_witness:
  "\<forall>up h fw. \<exists>nodes w1 dir moved w2.
     generate demo_site demo_params (demo_env up h fw) demo_config_text (demo_cluster up) demo_start = (Inr (nodes, []), w1)
     \<and> sweep_safes demo_sweeper dir ''password'' ''u'' 2 w1 = (Inr moved, w2)
     \<and> lg_tokens (demo_ledger w2) 15 = 0
     \<and> lg_tokens (demo_ledger w2) 2 = lg_tokens (demo_ledger w1) 2 + swept_total moved"
proof (intro allI)
  fix up :: "'a upstream" and h fw
  from demo_swept_cluster [of up h fw] obtain nodes w1 g kept moved w2 where
    gen: "generate demo_site demo_params (demo_env up h fw) demo_config_text (demo_cluster up) demo_start = (Inr (nodes, []), w1)"
    and "prepare_generation demo_site demo_params (demo_env up h fw) demo_config_text (demo_cluster up) demo_start = (Inr g, demo_start)"
    and k: "kept_nodes demo_sweeper (gn_home g) w1 = (Inr [kept], w1)" "kn_safe kept = 15"
      "lg_safe (demo_ledger w1) 14 = Some \<lparr> sm_safe_address = 15, sm_module_address = kn_module kept \<rparr>"
    and m: "sweep_safes demo_sweeper (gn_home g) ''password'' ''u'' 2 w1 = (Inr moved, w2)" by blast
  have "\<forall>n\<in>set [kept]. \<exists>a. lg_safe (demo_ledger w1) a = Some \<lparr> sm_safe_address = kn_safe n, sm_module_address = kn_module n \<rparr>"
    using k(2,3) by auto
  from sweep_empties_safes [OF good_demo_sweeper k(1) m _ this] k(2)
  have "lg_tokens (demo_ledger w2) 15 = 0 \<and> lg_tokens (demo_ledger w2) 2 = lg_tokens (demo_ledger w1) 2 + swept_total moved"
    by simp
  then show "\<exists>nodes w1 dir moved w2.
     generate demo_site demo_params (demo_env up h fw) demo_config_text (demo_cluster up) demo_start = (Inr (nodes, []), w1)
     \<and> sweep_safes demo_sweeper dir ''password'' ''u'' 2 w1 = (Inr moved, w2)
     \<and> lg_tokens (demo_ledger w2) 15 = 0
     \<and> lg_tokens (demo_ledger w2) 2 = lg_tokens (demo_ledger w1) 2 + swept_total moved"
    using gen m by blast
qed

theorem generated_cluster_sweeps_clean_witness:
  "\<forall>up h fw. \<exists>nodes w1 dir moved w2 s.
     generate demo_site demo_params (demo_env up h fw) demo_config_text (demo_cluster up) demo_start = (Inr (nodes, []), w1)
     \<and> sweep_safes demo_sweeper dir ''password'' ''u'' 2 w1 = (Inr moved, w2)
     \<and> gi_safe_address (nodes ! 0) = show_nat (unat s) \<and> lg_tokens (demo_ledger w2) s = 0"
proof (intro allI)
  fix up :: "'a upstream" and h fw
  from demo_swept_cluster [of up h fw] obtain nodes w1 g moved w2 where
    gen: "generate demo_site demo_params (demo_env up h fw) demo_config_text (demo_cluster up) demo_start = (Inr (nodes, []), w1)"
    and prep: "prepare_generation demo_site demo_params (demo_env up h fw) demo_config_text (demo_cluster up) demo_start = (Inr g, demo_start)"
    and n: "length nodes = 1" "gi_safe_address (nodes ! 0) = show_nat 15"
    and none: "\<forall>j. j \<noteq> 0 \<longrightarrow> dk_keystores (dw_disk w1) (id_path (gn_home g) j) = None"
    and m: "sweep_safes demo_sweeper (gn_home g) ''password'' ''u'' 2 w1 = (Inr moved, w2)" by blast
  have others: "\<forall>i<16. effective_nodes (gc_num_nodes (demo_cluster up)) \<le> i \<longrightarrow> \<not> sw_is_file demo_sweeper (id_path (gn_home g) i) w1"
    using none by (auto simp: demo_cluster_facts demo_sweeper_def demo_endings)
  have nodes: "set nodes = {nodes ! 0}" using n(1) by (cases nodes) auto
  have "\<forall>x\<in>set nodes. gi_safe_address x \<noteq> si_show_address (sw_site demo_sweeper) 2"
    by (simp add: nodes n demo_sweeper_site demo_site_def)
  from generated_cluster_sweeps_clean [OF good_demo_sweeper demo_reads_back gen [folded demo_sweeper_site]
      prep [folded demo_sweeper_site] others this m]
  obtain s where "gi_safe_address (nodes ! 0) = show_nat (unat s)" "lg_tokens (demo_ledger w2) s = 0"
    by (auto simp: nodes demo_sweeper_site demo_site_def)
  then show "\<exists>nodes w1 dir moved w2 s.
     generate demo_site demo_params (demo_env up h fw) demo_config_text (demo_cluster up) demo_start = (Inr (nodes, []), w1)
     \<and> sweep_safes demo_sweeper dir ''password'' ''u'' 2 w1 = (Inr moved, w2)
     \<and> gi_safe_address (nodes ! 0) = show_nat (unat s) \<and> lg_tokens (demo_ledger w2) s = 0"
    using gen m by blast
qed

end
