(* ===== verification/Chain_Container.thy ===== *)
theory Chain_Container
  imports Effects Cluster_Nodes Text_Extra
begin

text \<open>
  The chain of a local cluster: the container of the managed chain and its address
  (\<open>localcluster/src/blokli_helper.rs\<close>), and from \<open>main.rs\<close> the wait for its indexer and the resolution of a
  host to a socket address. Running a command, reading the clock, HTTP and name lookup are operations of a
  world.
\<close>

section \<open>The container\<close>

definition chain_port :: nat where "chain_port = 8080"
definition container_name :: string where "container_name = ''hopr-chain''"

record chain_handle =
  ch_runtime :: string
  ch_name :: string
  ch_ip :: "string option"

text \<open>\<open>Path::file_name\<close>: the last component, if it is a name.\<close>

definition file_name :: "string \<Rightarrow> string option" where
  "file_name p =
     (case rev (filter (\<lambda>c. c \<noteq> [] \<and> c \<noteq> ''.'') (split_on (CHR ''/'') p)) of
        [] \<Rightarrow> None
      | c # _ \<Rightarrow> if c = ''..'' then None else Some c)"

definition runtime_name :: "string \<Rightarrow> string" where
  "runtime_name runtime = (case file_name runtime of Some n \<Rightarrow> n | None \<Rightarrow> runtime)"

definition run_args :: "string \<Rightarrow> string \<Rightarrow> string list" where
  "run_args runtime img =
     [''run'', ''--rm'', ''--name'', container_name]
     @ (if runtime_name runtime = ''container'' then [''--arch'', ''amd64''] else [''--platform'', ''linux/amd64''])
     @ [''-p'', show_nat chain_port @ '':'' @ show_nat chain_port, img]"

definition stop_args :: "string list" where "stop_args = [''stop'', container_name]"
definition remove_args :: "string \<Rightarrow> string list" where "remove_args name = [''rm'', ''-f'', name]"

text \<open>Commands whose status is ignored are \<open>co_run\<close>; \<open>co_spawn\<close> starts one with its output in the log;
  \<open>co_output\<close> runs one and gives its output, read as text with replacement characters.\<close>

record 'w container_host = "'w clock" +
  co_make_dir :: "string \<Rightarrow> (string, unit, 'w) action"
  co_create_log :: "string \<Rightarrow> (string, unit, 'w) action"
  co_clone_log :: "string \<Rightarrow> (string, unit, 'w) action"
  co_run :: "string \<Rightarrow> string list \<Rightarrow> 'w \<Rightarrow> 'w"
  co_spawn :: "string \<Rightarrow> string list \<Rightarrow> (string, unit, 'w) action"
  co_output :: "string \<Rightarrow> string list \<Rightarrow> (string, string, 'w) action"
  co_kill :: "'w \<Rightarrow> 'w"
  co_wait :: "'w \<Rightarrow> 'w"

section \<open>Its address\<close>

definition row_ip :: "string \<Rightarrow> string \<Rightarrow> string option" where
  "row_ip name line =
     (let cols = split_whitespace line in
      if cols \<noteq> [] \<and> hd cols = name \<and> 6 \<le> length cols then
        (let ip = hd (split_on (CHR ''/'') (cols ! 5)) in
         if ip \<noteq> [] \<and> ip \<noteq> ''127.0.0.1'' \<and> ip \<noteq> ''::1'' then Some ip else None)
      else None)"

definition listed_ip :: "string \<Rightarrow> string \<Rightarrow> string option" where
  "listed_ip name listing =
     (case List.map_filter (row_ip name) (str_lines listing) of [] \<Rightarrow> None | ip # _ \<Rightarrow> Some ip)"

text \<open>A listing that cannot be had is one without the container.\<close>

definition try_get_container_ip ::
  "'w container_host \<Rightarrow> string \<Rightarrow> string \<Rightarrow> (unit, string option, 'w) action" where
  "try_get_container_ip co runtime name w =
     (case co_output co runtime [''ls''] w of
        (Inl e, w') \<Rightarrow> (Inr None, w')
      | (Inr listing, w') \<Rightarrow> (Inr (listed_ip name listing), w'))"

definition half_second :: nat where "half_second = 5 * 10 ^ 8"

text \<open>The wait for eight seconds; the result of giving up is no address. \<open>None\<close> outside is a wait without end.\<close>

definition detect_container_ip ::
  "'w container_host \<Rightarrow> string \<Rightarrow> string \<Rightarrow> 'w \<Rightarrow> (string option \<times> 'w) option" where
  "detect_container_ip co runtime name w =
     (if runtime_name runtime \<noteq> ''container'' then Some (None, w)
      else
        map_option (\<lambda>(r, w'). (res_ok r, w'))
          (poll_until (clock.truncate co) (ck_now co w) half_second (secs 8) (Inl ())
             (try_get_container_ip co runtime name) w))"

definition with_container_ip ::
  "'w container_host \<Rightarrow> string \<Rightarrow> string \<Rightarrow> (string, string option, 'w) action" where
  "with_container_ip co runtime name w =
     (case detect_container_ip co runtime name w of
        Some (ip, w') \<Rightarrow> (Inr ip, w')
      | None \<Rightarrow> (Inl ''the wait does not end'', w))"

section \<open>Start and stop\<close>

text \<open>A leftover container is stopped and removed, whatever these commands say, before the new one is spawned.\<close>

definition chain_start ::
  "'w container_host \<Rightarrow> string \<Rightarrow> string \<Rightarrow> string \<Rightarrow> (string, chain_handle, 'w) action" where
  "chain_start co runtime img log_dir =
     (let log = join_path log_dir ''chain.log'' in
      act_bind (act_context ''failed to create log directory'' (co_make_dir co log_dir)) (\<lambda>_.
      act_bind (act_context ''failed to create blokli log file'' (co_create_log co log)) (\<lambda>_.
      act_bind (act_context ''failed to clone blokli log file handle'' (co_clone_log co log)) (\<lambda>_ w.
      act_bind (act_context ''failed to start blokli container'' (co_spawn co runtime (run_args runtime img))) (\<lambda>_.
      act_bind (with_container_ip co runtime container_name) (\<lambda>ip.
        act_return \<lparr> ch_runtime = runtime, ch_name = container_name, ch_ip = ip \<rparr>))
        (co_run co runtime (remove_args container_name) (co_run co runtime stop_args w))))))"

definition chain_url :: "chain_handle \<Rightarrow> string" where
  "chain_url h =
     (case ch_ip h of
        Some ip \<Rightarrow> ''http://'' @ ip @ '':'' @ show_nat chain_port
      | None \<Rightarrow> ''http://localhost:'' @ show_nat chain_port)"

definition chain_stop :: "'w container_host \<Rightarrow> chain_handle \<Rightarrow> 'w \<Rightarrow> 'w" where
  "chain_stop co h w = co_run co (ch_runtime h) (remove_args (ch_name h)) (co_wait co (co_kill co w))"

section \<open>The indexer\<close>

record 'w indexer = "'w clock" +
  ix_client :: "(string, unit) res"
  ix_get :: "string \<Rightarrow> (string, nat, 'w) action"

definition blokli_attempt :: "'w indexer \<Rightarrow> string \<Rightarrow> 'w \<Rightarrow> (string, unit list) res \<times> 'w" where
  "blokli_attempt ix url w =
     (case ix_get ix url w of
        (Inr status, w') \<Rightarrow> (Inr (if 200 \<le> status \<and> status < 300 then [] else [()]), w')
      | (Inl e, w') \<Rightarrow> (Inr [()], w'))"

definition wait_for_blokli_ready ::
  "'w indexer \<Rightarrow> string \<Rightarrow> nat \<Rightarrow> 'w \<Rightarrow> ((string, unit) res \<times> 'w) option" where
  "wait_for_blokli_ready ix blokli_url timeout w =
     (case ix_client ix of
        Inl e \<Rightarrow> Some (Inl ''failed to build http client'', w)
      | Inr u \<Rightarrow>
          (let url = blokli_url @ ''/readyz'' in
           poll (clock.truncate ix) (secs 1) timeout (\<lambda>_. ''timeout waiting for blokli indexer at '' @ url)
             (blokli_attempt ix url) w))"

section \<open>Addresses\<close>

record resolved_addr =
  so_ipv6 :: bool
  so_ip :: string
  so_port :: "16 word"

text \<open>IPv4 addresses come first, each family in the order of the lookup.\<close>

definition resolve_socket ::
  "(string \<Rightarrow> 16 word \<Rightarrow> (string, resolved_addr list, 'w) action) \<Rightarrow> string \<Rightarrow> 16 word
   \<Rightarrow> (string, resolved_addr, 'w) action" where
  "resolve_socket lookup host port =
     act_bind (act_context (''failed to resolve '' @ host @ '':'' @ show_nat (unat port)) (lookup host port)) (\<lambda>addrs.
       case sort_key so_ipv6 addrs of
         [] \<Rightarrow> act_fail (''no address resolved for '' @ host @ '':'' @ show_nat (unat port))
       | a # _ \<Rightarrow> act_return a)"

section \<open>Laws\<close>

lemma resolve_socket_Ok:
  assumes "resolve_socket lookup host port w = (Inr a, w')"
  shows "\<exists>addrs. lookup host port w = (Inr addrs, w') \<and> a \<in> set addrs
    \<and> (so_ipv6 a \<longrightarrow> (\<forall>b\<in>set addrs. so_ipv6 b))"
proof -
  from assms obtain addrs w1 where l: "lookup host port w = (Inr addrs, w1)"
    and r: "(case sort_key so_ipv6 addrs of
         [] \<Rightarrow> act_fail (''no address resolved for '' @ host @ '':'' @ show_nat (unat port))
       | a # _ \<Rightarrow> act_return a) w1 = (Inr a, w')"
    by (auto simp: resolve_socket_def act_Ok)
  obtain rest where s: "sort_key so_ipv6 addrs = a # rest" and w: "w1 = w'"
    using r by (cases "sort_key so_ipv6 addrs") (auto simp: act_Ok)
  have "set addrs = insert a (set rest)" using set_sort [of so_ipv6 addrs] by (simp add: s)
  moreover have "\<forall>b\<in>set rest. so_ipv6 a \<le> so_ipv6 b"
    using sorted_sort_key [of so_ipv6 addrs] by (simp add: s)
  ultimately show ?thesis using l w by (auto)
qed

lemma chain_start_Ok:
  "chain_start co runtime img log_dir w = (Inr h, w') \<Longrightarrow>
    \<exists>v. with_container_ip co runtime container_name v = (Inr (ch_ip h), w')
      \<and> ch_runtime h = runtime \<and> ch_name h = container_name"
  unfolding chain_start_def Let_def act_bind_Ok act_return_Ok by auto

lemma show_chain_port: "show_nat chain_port = ''8080''"
proof -
  have "char_of (56::nat) = CHR ''8''" "char_of (48::nat) = CHR ''0''" by code_simp+
  then show ?thesis
    by (simp add: chain_port_def show_nat.simps [of 8080] show_nat.simps [of 808] show_nat.simps [of 80]
        show_nat.simps [of 8] digit_char_def)
qed

lemma detected_ip:
  assumes "with_container_ip co runtime name v = (Inr (Some ip), w')"
  shows "runtime_name runtime = ''container''
    \<and> (\<exists>u listing. co_output co runtime [''ls''] u = (Inr listing, w') \<and> listed_ip name listing = Some ip)"
proof -
  have rt: "runtime_name runtime = ''container''"
    using assms by (auto simp: with_container_ip_def detect_container_ip_def split: if_splits option.splits)
  with assms obtain r where
    "poll_until (clock.truncate co) (ck_now co v) half_second (secs 8) (Inl ())
       (try_get_container_ip co runtime name) v = Some (r, w')" and "res_ok r = Some ip"
    by (auto simp: with_container_ip_def detect_container_ip_def split: option.splits)
  then have "poll_until (clock.truncate co) (ck_now co v) half_second (secs 8) (Inl ())
       (try_get_container_ip co runtime name) v = Some (Inr ip, w')"
    by (cases r) auto
  then have "\<exists>u. True \<and> try_get_container_ip co runtime name u = (Inr (Some ip), w')"
    by (rule poll_until_Ok) simp_all
  then obtain u where u: "try_get_container_ip co runtime name u = (Inr (Some ip), w')" by blast
  obtain q v where "co_output co runtime [''ls''] u = (q, v)" by fastforce
  then show ?thesis
    using rt u by (cases q) (auto simp: try_get_container_ip_def)
qed

lemma listed_ip_row:
  "listed_ip name listing = Some ip \<Longrightarrow> \<exists>line\<in>set (str_lines listing). row_ip name line = Some ip"
  unfolding listed_ip_def by (auto split: list.splits simp flip: filter_map_Some)

lemma row_ip_usable: "row_ip name line = Some ip \<Longrightarrow> ip \<noteq> [] \<and> ip \<noteq> ''127.0.0.1'' \<and> ip \<noteq> ''::1''"
  by (auto simp: row_ip_def Let_def split: if_splits)

text \<open>The URL of the managed chain. If the start of the container succeeds, its handle is for the runtime and the
  container hopr-chain; the URL is http://localhost:8080 unless the runtime is called container, and then
  it may be that of an address, neither empty nor a loopback address, which the runtime listed in a row of
  at least six columns beginning with the container's name.\<close>

theorem chain_url_is_reachable:
  assumes "chain_start co runtime img log_dir w = (Inr h, w')"
  shows "ch_runtime h = runtime \<and> ch_name h = ''hopr-chain''
    \<and> (chain_url h = ''http://localhost:8080''
       \<or> runtime_name runtime = ''container''
         \<and> (\<exists>ip v listing line. chain_url h = ''http://'' @ ip @ '':8080''
              \<and> co_output co runtime [''ls''] v = (Inr listing, w') \<and> line \<in> set (str_lines listing)
              \<and> row_ip ''hopr-chain'' line = Some ip \<and> ip \<noteq> [] \<and> ip \<noteq> ''127.0.0.1'' \<and> ip \<noteq> ''::1''))"
proof -
  from chain_start_Ok [OF assms] obtain v where ip: "with_container_ip co runtime container_name v = (Inr (ch_ip h), w')"
    and h: "ch_runtime h = runtime" "ch_name h = ''hopr-chain''"
    by (auto simp: container_name_def)
  show ?thesis
  proof (cases "ch_ip h")
    case None
    then show ?thesis using h by (simp add: chain_url_def show_chain_port)
  next
    case (Some ip')
    from detected_ip [OF ip [unfolded Some]] obtain u listing where rt: "runtime_name runtime = ''container''"
      and out: "co_output co runtime [''ls''] u = (Inr listing, w')" and l: "listed_ip container_name listing = Some ip'"
      by blast
    from listed_ip_row [OF l] obtain line where line: "line \<in> set (str_lines listing)"
      "row_ip ''hopr-chain'' line = Some ip'" by (auto simp: container_name_def)
    have "chain_url h = ''http://'' @ ip' @ '':8080''" by (simp add: chain_url_def show_chain_port Some)
    then show ?thesis using h rt out line row_ip_usable [OF line(2)] by blast
  qed
qed

text \<open>The waits end: on a clock that runs, and with commands and requests that take time forward.\<close>

lemma detect_returns:
  assumes "clock_runs (clock.truncate co)" and "keeps_time (clock.truncate co) (co_output co runtime [''ls''])"
  shows "\<exists>ip w'. detect_container_ip co runtime name w = Some (ip, w')"
proof -
  have "keeps_time (clock.truncate co) (try_get_container_ip co runtime name)"
    using assms(2) unfolding keeps_time_def try_get_container_ip_def
    by (auto split: prod.splits sum.splits) (metis snd_conv)+
  then show ?thesis
    using poll_until_returns [OF assms(1), of "try_get_container_ip co runtime name" half_second "ck_now co w" "secs 8" "Inl ()" w]
    by (auto simp: detect_container_ip_def half_second_def)
qed

text \<open>C34: The wait for the indexer ends with the truth. On a clock that runs it returns; if it returns success the
  last request was answered with a success status, and if it fails, the client could not be built or the
  last request was not answered with one and more than the timeout has passed.\<close>

theorem blokli_wait_settles:
  assumes "clock_runs (clock.truncate ix)" and "keeps_time (clock.truncate ix) (ix_get ix (url @ ''/readyz''))"
  shows "\<exists>r w'. wait_for_blokli_ready ix url timeout w = Some (r, w')
    \<and> (r = Inr () \<longrightarrow> (\<exists>v status. ix_get ix (url @ ''/readyz'') v = (Inr status, w') \<and> 200 \<le> status \<and> status < 300))
    \<and> (\<forall>e. r = Inl e \<longrightarrow> ix_client ix \<noteq> Inr ()
         \<or> (\<exists>v q. ix_get ix (url @ ''/readyz'') v = (q, w')
              \<and> (\<forall>status. q = Inr status \<longrightarrow> \<not> (200 \<le> status \<and> status < 300))
              \<and> timeout < elapsed (clock.truncate ix) (ck_now ix w) w'))"
proof (cases "ix_client ix")
  case (Inl e)
  then show ?thesis by (simp add: wait_for_blokli_ready_def)
next
  case (Inr u)
  let ?ck = "clock.truncate ix" and ?att = "blokli_attempt ix (url @ ''/readyz'')"
  let ?give = "\<lambda>_ :: unit list. ''timeout waiting for blokli indexer at '' @ url @ ''/readyz''"
  have "keeps_time ?ck ?att"
    using assms(2) unfolding keeps_time_def blokli_attempt_def
    by (auto split: prod.splits sum.splits) (metis snd_conv)+
  then obtain r w' where p: "poll ?ck (secs 1) timeout ?give ?att w = Some (r, w')"
    using poll_returns [OF assms(1), of ?att "secs 1" timeout ?give w] by (auto simp: secs_def)
  then have r: "wait_for_blokli_ready ix url timeout w = Some (r, w')"
    by (simp add: wait_for_blokli_ready_def Inr)
  have last: "last_attempt ?ck (ck_now ?ck w) timeout ?give ?att (\<lambda>_. True) (r, w')"
    by (rule poll_result [OF p]) simp_all
  have att: "\<exists>q. ix_get ix (url @ ''/readyz'') v = (q, w')
      \<and> (failed = [] \<longleftrightarrow> (\<exists>status. q = Inr status \<and> 200 \<le> status \<and> status < 300))"
    if "?att v = (Inr failed, w')" for v failed
    using that by (auto simp: blokli_attempt_def split: prod.splits sum.splits if_splits)
  have never: "?att v \<noteq> (Inl e, w')" for v e
    by (auto simp: blokli_attempt_def split: prod.splits sum.splits)
  have now: "ck_now ?ck w = ck_now ix w" by (simp add: clock.truncate_def)
  show ?thesis
  proof (cases r)
    case (Inr u)
    then have "\<exists>v. True \<and> ?att v = (Inr [], w')" using last last_attempt_ok by fastforce
    then show ?thesis using att r Inr by fastforce
  next
    case (Inl e)
    from last [unfolded Inl] obtain v failed where
      "?att v = (Inr failed, w')" "failed \<noteq> []" "timeout < elapsed ?ck (ck_now ?ck w) w'"
      by (rule last_attempt_error) (use never in auto)
    then show ?thesis using att [of v failed] r Inl now by fastforce
  qed
qed


section \<open>Examples\<close>

text \<open>A host that lists one container, with a clock for a world.\<close>

definition listing_host :: "nat container_host" where
  "listing_host =
     \<lparr> ck_now = id, ck_sleep = (\<lambda>d w. w + d),
       co_make_dir = (\<lambda>_. act_return ()), co_create_log = (\<lambda>_. act_return ()), co_clone_log = (\<lambda>_. act_return ()),
       co_run = (\<lambda>_ _ w. w), co_spawn = (\<lambda>_ _. act_return ()),
       co_output = (\<lambda>_ _. act_return ''hopr-chain i linux amd64 running 192.168.64.2/24''),
       co_kill = id, co_wait = id \<rparr>"

theorem chain_url_is_reachable_witness:
  "\<exists>h w'. chain_start listing_host ''/opt/bin/container'' ''i'' ''logs'' 0 = (Inr h, w')
     \<and> ch_name h = ''hopr-chain''"
proof -
  have "chain_start listing_host ''/opt/bin/container'' ''i'' ''logs'' 0
      = (Inr \<lparr> ch_runtime = ''/opt/bin/container'', ch_name = ''hopr-chain'', ch_ip = Some ''192.168.64.2'' \<rparr>, 0)"
  proof -
    have name: "runtime_name ''/opt/bin/container'' = ''container''" by code_simp
    have row: "listed_ip ''hopr-chain'' ''hopr-chain i linux amd64 running 192.168.64.2/24'' = Some ''192.168.64.2''"
      by code_simp
    have "try_get_container_ip listing_host r ''hopr-chain'' 0 = (Inr (Some ''192.168.64.2''), 0)" for r
      by (simp add: try_get_container_ip_def listing_host_def act_return_def row)
    then have ip: "with_container_ip listing_host ''/opt/bin/container'' ''hopr-chain'' 0 = (Inr (Some ''192.168.64.2''), 0)"
      unfolding with_container_ip_def detect_container_ip_def name by (simp add: poll_until_at_once)
    have op: "co_make_dir listing_host p w = (Inr (), w)" "co_create_log listing_host p w = (Inr (), w)"
      "co_clone_log listing_host p w = (Inr (), w)" "co_spawn listing_host r args w = (Inr (), w)"
      "co_run listing_host r args w = w" for p r args w
      by (simp_all add: listing_host_def act_return_def)
    show ?thesis
      unfolding chain_start_def Let_def by (simp add: act_Ok op ip container_name_def)
  qed
  from chain_url_is_reachable [OF this] this show ?thesis by blast
qed

definition ready_indexer :: "nat indexer" where
  "ready_indexer =
     \<lparr> ck_now = id, ck_sleep = (\<lambda>d w. w + d), ix_client = Inr (),
       ix_get = (\<lambda>url w. (Inr (if w = 0 then 503 else 200), w)) \<rparr>"

theorem blokli_wait_settles_witness:
  "\<exists>r w'. wait_for_blokli_ready ready_indexer ''u'' (secs 120) 0 = Some (r, w')"
proof -
  have "clock_runs (clock.truncate ready_indexer)"
    "keeps_time (clock.truncate ready_indexer) (ix_get ready_indexer (''u'' @ ''/readyz''))"
    by (simp_all add: clock_runs_def keeps_time_def ready_indexer_def clock.truncate_def)
  from blokli_wait_settles [OF this, of "secs 120" 0] show ?thesis by blast
qed

end
