(* ===== verification/Cluster_Boot.thy ===== *)
theory Cluster_Boot
  imports Chain_Container Sweep Metrics_Scrape
begin

text \<open>
  The start of the orchestrator (\<open>main\<close> in \<open>localcluster/src/main.rs\<close> up to the nodes, with the serving loop of
  \<open>control.rs\<close>): the subcommands, the locks on the control base and on the data directory, the chain, the
  generation of identities and the relays in front of the nodes.
\<close>

section \<open>Subcommands\<close>

datatype cluster_command = Cmd_Status status_args | Cmd_Sweep sweep_args

datatype cluster_output = Out_Document json | Out_Text string

definition run_command ::
  "('k, 'c, 't, 'w) sweeper \<Rightarrow> (string \<Rightarrow> 'w \<Rightarrow> connect_result) \<Rightarrow> cluster_command
   \<Rightarrow> (string, cluster_output, 'w) action" where
  "run_command sw connect cmd w =
     (case cmd of
        Cmd_Status a \<Rightarrow>
          (let path = status_socket_path a in
           act_bind (act_of (query_status path (connect path w))) (\<lambda>j. act_return (Out_Document j)) w)
      | Cmd_Sweep a \<Rightarrow> act_bind (sweep_command sw a) (\<lambda>t. act_return (Out_Text t)) w)"

section \<open>Directories\<close>

text \<open>The data directory as the system resolves it, and the log directory in it; the control base's directory is made
  if its path has a parent. \<open>parent\<close> is \<open>Path::parent\<close>.\<close>

definition cluster_dirs ::
  "(string \<Rightarrow> (string, unit, 'w) action) \<Rightarrow> (string \<Rightarrow> (string, string, 'w) action) \<Rightarrow> (string \<Rightarrow> string option)
   \<Rightarrow> cluster_args \<Rightarrow> (string, string \<times> string, 'w) action" where
  "cluster_dirs make_dir canonical parent a =
     act_bind (act_context ''failed to create data directory'' (make_dir (lc_data_dir a))) (\<lambda>_.
     act_bind (act_context ''failed to resolve data directory'' (canonical (lc_data_dir a))) (\<lambda>data.
     let logs = join_path data ''logs'' in
     act_bind (act_context ''failed to create log directory'' (make_dir logs)) (\<lambda>_.
     act_bind
       (case parent (control_base a) of
          None \<Rightarrow> act_return ()
        | Some dir \<Rightarrow> act_context ''failed to create control directory'' (make_dir dir)) (\<lambda>_.
       act_return (data, logs)))))"

section \<open>Locks\<close>

text \<open>Lock files by their canonical path.\<close>

type_synonym lock_table = "string \<Rightarrow> lock_file"

definition acquire_at :: "(string \<Rightarrow> string) \<Rightarrow> pid \<Rightarrow> string \<Rightarrow> lock_table \<Rightarrow> (lock_error, unit) res \<times> lock_table" where
  "acquire_at canon p base L =
     (let f = canon (lock_path base) in
      case acquire_lock (Inr ()) None None p (L f) of (l, r) \<Rightarrow> (r, L(f := l)))"

text \<open>The control base is locked, and the data directory too unless the control base's lock is its lock.\<close>

definition take_locks ::
  "(string \<Rightarrow> string) \<Rightarrow> pid \<Rightarrow> string \<Rightarrow> string \<Rightarrow> (lock_error, unit, lock_table) action" where
  "take_locks canon p control data_dir =
     act_bind (acquire_at canon p control) (\<lambda>_.
       if canon (lock_path control) = join_path data_dir ''data.lock'' then act_return ()
       else acquire_at canon p (join_path data_dir ''data''))"

definition end_process :: "pid \<Rightarrow> lock_table \<Rightarrow> lock_table" where
  "end_process p L = (\<lambda>f. release_lock p (L f))"

section \<open>The control server\<close>

text \<open>What happens at the socket: a client, with the summary of that moment, or an error of accepting.\<close>

datatype accept_event = Client cluster_summary | Accept_Failed

fun serve_clients :: "(cluster_summary \<Rightarrow> (string, json) res) \<Rightarrow> accept_event list \<Rightarrow> json list" where
  "serve_clients to_json [] = []"
| "serve_clients to_json (Client s # es) =
     (case to_json s of
        Inr j \<Rightarrow> j # serve_clients to_json es
      | Inl e \<Rightarrow> serve_clients to_json es)"
| "serve_clients to_json (Accept_Failed # es) = []"

text \<open>The socket files that exist. A stale one is removed before binding, and the server's own when it is dropped;
  the base's lock is held meanwhile, so no other cluster binds it. A client finds no file or is refused
  when no server listens.\<close>

definition start_control ::
  "(string \<Rightarrow> (string, unit) res) \<Rightarrow> string \<Rightarrow> string set \<Rightarrow> (string, string set) res" where
  "start_control try_bind path files =
     (case try_bind path of
        Inl e \<Rightarrow> Inl (''failed to bind control socket '' @ path)
      | Inr u \<Rightarrow> Inr (insert path (files - {path})))"

definition drop_control :: "string \<Rightarrow> string set \<Rightarrow> string set" where
  "drop_control path files = files - {path}"

section \<open>The chain\<close>

definition chain_of_run ::
  "'w container_host \<Rightarrow> cluster_args \<Rightarrow> string \<Rightarrow> (string, string \<times> chain_handle option, 'w) action" where
  "chain_of_run co a log_dir =
     (case lc_chain_url a of
        Some url \<Rightarrow> act_return (trim_end_char (CHR ''/'') url, None)
      | None \<Rightarrow>
          act_bind
            (act_of (ok_or ''missing chain image (set --chain-image or HOPRD_CHAIN_IMAGE)'' (lc_chain_image a))) (\<lambda>img.
          act_bind (chain_start co (lc_container_runtime a) img log_dir) (\<lambda>h.
            act_return (chain_url h, Some h))))"

section \<open>The relays\<close>

record relay_front =
  rf_node :: nat
  rf_listen :: resolved_addr
  rf_target :: resolved_addr

definition relay_front_of ::
  "(string \<Rightarrow> 16 word \<Rightarrow> (string, resolved_addr list, 'w) action) \<Rightarrow> cluster_args \<Rightarrow> latency_option \<Rightarrow> nat
   \<Rightarrow> (string, relay_front, 'w) action" where
  "relay_front_of lookup a l i =
     (let host = advertised_host (lc_p2p_host a) in
      act_bind
        (act_of (ok_or (''relay listen port overflow: base + node id '' @ show_nat i @ '' exceeds u16'')
          (checked_port (lo_port_base l) i))) (\<lambda>listen_port.
      act_bind
        (act_of (ok_or (''relay target port overflow: base + node id '' @ show_nat i @ '' exceeds u16'')
          (checked_port (lc_p2p_port_base a) i))) (\<lambda>target_port.
      act_bind (act_context ''resolving relay listen address'' (resolve_socket lookup host listen_port)) (\<lambda>listen.
      act_bind (act_context ''resolving relay target address'' (resolve_socket lookup host target_port)) (\<lambda>target.
        act_return \<lparr> rf_node = i, rf_listen = listen, rf_target = target \<rparr>)))))"

definition start_relays ::
  "(string \<Rightarrow> 16 word \<Rightarrow> (string, resolved_addr list, 'w) action) \<Rightarrow> (relay_front \<Rightarrow> (string, unit, 'w) action)
   \<Rightarrow> cluster_args \<Rightarrow> (string, relay_front list, 'w) action" where
  "start_relays lookup spawn a =
     (case lc_latency a of
        None \<Rightarrow> act_return []
      | Some l \<Rightarrow>
          act_each
            (\<lambda>i. act_bind (relay_front_of lookup a l i) (\<lambda>f.
               act_bind (act_context (''failed to start latency relay for node '' @ show_nat i) (spawn f)) (\<lambda>_.
                 act_return f)))
            [0..<lc_size a])"

section \<open>Up to the nodes\<close>

record ('k, 'c, 't, 'w, 'u, 's) boot_env =
  bo_container :: "'w container_host"
  bo_indexer :: "'w indexer"
  bo_site :: "('k, 'c, 't, 'w) site"
  bo_strategies :: "'s strategy_params"
  bo_config :: "'u config_env"
  bo_yaml :: "('u, 's) hoprd_config \<Rightarrow> (string, string) res"
  bo_pix_yaml :: "string \<Rightarrow> (string, raw_pix) res"
  bo_read :: "string \<Rightarrow> 'w \<Rightarrow> (string, string) res"
  bo_prepare_state :: "string \<Rightarrow> bool \<Rightarrow> (string, unit, 'w) action"
  bo_lookup :: "string \<Rightarrow> 16 word \<Rightarrow> (string, resolved_addr list, 'w) action"
  bo_spawn_relay :: "relay_front \<Rightarrow> (string, unit, 'w) action"

definition default_wait :: nat where "default_wait = secs 120"

record booted =
  bt_url :: string
  bt_chain :: "chain_handle option"
  bt_config :: generation_config
  bt_nodes :: "generated_identity list"
  bt_extras :: "generated_identity list"
  bt_relays :: "relay_front list"

definition boot_cluster ::
  "('k, 'c, 't, 'w, 'u, 's) boot_env \<Rightarrow> cluster_args \<Rightarrow> string \<Rightarrow> string \<Rightarrow> (string, booted, 'w) action" where
  "boot_cluster bo a data_dir log_dir =
     act_bind (chain_of_run (bo_container bo) a log_dir) (\<lambda>(url, chain).
     act_bind (bo_prepare_state bo data_dir (lc_chain_url a = None)) (\<lambda>_.
     act_bind
       (\<lambda>w. (resolve_pix_option (si_amounts (bo_site bo)) (ce_upstream (bo_config bo)) (bo_pix_yaml bo)
               (\<lambda>p. bo_read bo p w) (lc_enable_pix a) (lc_pix_config a), w)) (\<lambda>pix.
     let cfg = generation_of_args (si_env (bo_site bo)) a url data_dir pix in
     act_bind (act_total ''the wait does not end'' (wait_for_blokli_ready (bo_indexer bo) url default_wait)) (\<lambda>_.
     act_bind (generate (bo_site bo) (bo_strategies bo) (bo_config bo) (bo_yaml bo) cfg) (\<lambda>(nodes, extras).
     act_bind (start_relays (bo_lookup bo) (bo_spawn_relay bo) a) (\<lambda>relays.
       act_return \<lparr> bt_url = url, bt_chain = chain, bt_config = cfg, bt_nodes = nodes, bt_extras = extras,
         bt_relays = relays \<rparr>))))))"

end
