(* ===== verification/Cluster_Boot_Laws.thy ===== *)
theory Cluster_Boot_Laws
  imports Cluster_Boot Provision_Example Cluster_Identity_Laws
begin

text \<open>
  Two clusters do not share a control base or a data directory; the relays stand where the nodes are
  announced; and a cluster started again on its external chain is the same cluster.
\<close>

section \<open>Locks\<close>

definition holds_lock :: "pid \<Rightarrow> string \<Rightarrow> lock_table \<Rightarrow> bool" where
  "holds_lock p f L \<longleftrightarrow> lk_holder (L f) = Some p"

lemma acquire_at_Ok:
  "acquire_at canon p base L = (Inr (), L') \<Longrightarrow>
     lk_holder (L (canon (lock_path base))) = None \<and> holds_lock p (canon (lock_path base)) L'
     \<and> (\<forall>f. f \<noteq> canon (lock_path base) \<longrightarrow> L' f = L f)"
  by (auto simp: acquire_at_def acquire_lock_def Let_def holds_lock_def split: option.splits)

lemma acquire_at_held:
  "holds_lock p (canon (lock_path base)) L \<Longrightarrow> \<exists>h. acquire_at canon q base L = (Inl (Lock_Held h), L)"
  by (auto simp: acquire_at_def acquire_lock_def Let_def holds_lock_def)

lemma acquire_at_free:
  "lk_holder (L (canon (lock_path base))) = None \<Longrightarrow> \<exists>L'. acquire_at canon q base L = (Inr (), L')"
  by (auto simp: acquire_at_def acquire_lock_def Let_def)

lemma acquire_at_cases:
  obtains (got) L' where "acquire_at canon q base L = (Inr (), L')"
  | (held) h where "acquire_at canon q base L = (Inl (Lock_Held h), L)"
proof (cases "lk_holder (L (canon (lock_path base)))")
  case None
  then show ?thesis using acquire_at_free got by metis
next
  case (Some p)
  then show ?thesis using acquire_at_held [of p canon base L q] held by (auto simp: holds_lock_def)
qed

lemma data_lock: "lock_path (join_path d ''data'') = join_path d ''data.lock''"
  by (simp add: lock_path_def join_path_def)

lemma take_locks_holds:
  assumes "take_locks canon p c d L = (Inr (), L')" and "\<And>f. canon (canon f) = canon f"
  shows "holds_lock p (canon (lock_path c)) L' \<and> holds_lock p (canon (join_path d ''data.lock'')) L'"
proof -
  from assms(1) obtain L1 where 1: "acquire_at canon p c L = (Inr (), L1)"
    and 2: "(if canon (lock_path c) = join_path d ''data.lock'' then act_return ()
       else acquire_at canon p (join_path d ''data'')) L1 = (Inr (), L')"
    by (auto simp: take_locks_def act_bind_Ok)
  note a = acquire_at_Ok [OF 1]
  show ?thesis
  proof (cases "canon (lock_path c) = join_path d ''data.lock''")
    case True
    then have "canon (join_path d ''data.lock'') = canon (lock_path c)" using assms(2) by metis
    then show ?thesis using a 2 True by (simp add: act_Ok)
  next
    case False
    then have "acquire_at canon p (join_path d ''data'') L1 = (Inr (), L')" using 2 by simp
    note b = acquire_at_Ok [OF this, unfolded data_lock]
    have "canon (lock_path c) \<noteq> canon (join_path d ''data.lock'')" using a b by (auto simp: holds_lock_def)
    then show ?thesis using a b by (simp add: holds_lock_def)
  qed
qed

text \<open>C16: Two clusters never run on the same control base or data directory. While one has its locks, any process that
  starts with a control base whose lock is the same file, or with the same data directory, whatever its own
  control base, is told that the lock is held; and what the first holds it still holds.\<close>

theorem clusters_exclude:
  assumes "\<And>f. canon (canon f) = canon f" and "take_locks canon p c d L = (Inr (), L1)"
    and "canon (lock_path c') = canon (lock_path c) \<or> d' = d"
  shows "\<exists>h. fst (take_locks canon q c' d' L1) = Inl (Lock_Held h)
    \<and> holds_lock p (canon (lock_path c)) (snd (take_locks canon q c' d' L1))
    \<and> holds_lock p (canon (join_path d ''data.lock'')) (snd (take_locks canon q c' d' L1))"
proof -
  have p: "holds_lock p (canon (lock_path c)) L1 \<and> holds_lock p (canon (join_path d ''data.lock'')) L1"
    by (rule take_locks_holds [OF assms(2)]) (rule assms(1))
  show ?thesis
  proof (cases canon q c' L1 rule: acquire_at_cases)
    case (held h)
    then have "take_locks canon q c' d' L1 = (Inl (Lock_Held h), L1)" by (simp add: take_locks_def act_bind_def)
    then show ?thesis using p by simp
  next
    case (got L2)
    note a = acquire_at_Ok [OF got]
    have c: "canon (lock_path c') \<noteq> canon (lock_path c)" using a p by (auto simp: holds_lock_def)
    then have d: "d' = d" using assms(3) by simp
    have other: "canon (lock_path c') \<noteq> canon (join_path d ''data.lock'')" using a p by (auto simp: holds_lock_def)
    then have "canon (lock_path c') \<noteq> join_path d ''data.lock''" using assms(1) by metis
    then have step: "take_locks canon q c' d' L1 = acquire_at canon q (join_path d ''data'') L2"
      by (simp add: take_locks_def act_bind_def got d)
    have keep: "holds_lock p (canon (lock_path c)) L2" "holds_lock p (canon (join_path d ''data.lock'')) L2"
      using a c other p by (auto simp: holds_lock_def)
    from acquire_at_held [of p canon "join_path d ''data''" L2 q] keep obtain h where
      "acquire_at canon q (join_path d ''data'') L2 = (Inl (Lock_Held h), L2)" by (auto simp: data_lock)
    then show ?thesis using keep by (simp add: step)
  qed
qed

theorem clusters_exclude_witness:
  "\<exists>L1 h. take_locks id 1 ''/c'' ''/d'' (\<lambda>_. \<lparr> lk_holder = None, lk_content = [] \<rparr>) = (Inr (), L1)
    \<and> fst (take_locks id 2 ''/e'' ''/d'' L1) = Inl (Lock_Held h)"
proof -
  let ?L = "\<lambda>_. \<lparr> lk_holder = None, lk_content = [] \<rparr>"
  have "\<exists>L1. take_locks id 1 ''/c'' ''/d'' ?L = (Inr (), L1)"
    by (simp add: take_locks_def acquire_at_def acquire_lock_def lock_path_def join_path_def act_bind_def Let_def)
  then obtain L1 where 1: "take_locks id 1 ''/c'' ''/d'' ?L = (Inr (), L1)" by blast
  then show ?thesis
    using clusters_exclude [OF _ 1, of "''/e''" "''/d''" 2] by auto
qed

section \<open>The relays\<close>

lemma relay_front_of_Ok:
  assumes "relay_front_of lookup a l i w = (Inr f, w')"
    and "\<And>h p w addrs w' x. lookup h p w = (Inr addrs, w') \<Longrightarrow> x \<in> set addrs \<Longrightarrow> so_port x = p"
  shows "rf_node f = i \<and> checked_port (lo_port_base l) i = Some (so_port (rf_listen f))
    \<and> checked_port (lc_p2p_port_base a) i = Some (so_port (rf_target f))"
proof -
  from assms(1) obtain p q v v1 v2 where 1: "checked_port (lo_port_base l) i = Some p"
    and 2: "checked_port (lc_p2p_port_base a) i = Some q"
    and 3: "resolve_socket lookup (advertised_host (lc_p2p_host a)) p v = (Inr (rf_listen f), v1)"
    and 4: "resolve_socket lookup (advertised_host (lc_p2p_host a)) q v1 = (Inr (rf_target f), v2)"
    and 5: "rf_node f = i"
    unfolding relay_front_of_def Let_def act_Ok by auto
  show ?thesis
    using resolve_socket_Ok [OF 3] resolve_socket_Ok [OF 4] assms(2) 1 2 5 by metis
qed

lemma checked_port_node: "checked_port b i = Some p \<Longrightarrow> p = node_port b i"
  by (simp add: checked_port_def node_port_def split: if_splits)

lemma start_relays_Ok:
  assumes "start_relays lookup spawn a w = (Inr fronts, w')" and "lc_latency a = Some l"
    and "\<And>h p w addrs w' x. lookup h p w = (Inr addrs, w') \<Longrightarrow> x \<in> set addrs \<Longrightarrow> so_port x = p"
  shows "list_all2 (\<lambda>i f. rf_node f = i \<and> checked_port (lo_port_base l) i = Some (so_port (rf_listen f))
      \<and> checked_port (lc_p2p_port_base a) i = Some (so_port (rf_target f))) [0..<lc_size a] fronts"
proof -
  let ?P = "\<lambda>i f. rf_node f = i \<and> checked_port (lo_port_base l) i = Some (so_port (rf_listen f))
    \<and> checked_port (lc_p2p_port_base a) i = Some (so_port (rf_target f))"
  let ?relay = "\<lambda>i. act_bind (relay_front_of lookup a l i) (\<lambda>f.
      act_bind (act_context (''failed to start latency relay for node '' @ show_nat i) (spawn f)) (\<lambda>_. act_return f))"
  have run: "act_each ?relay [0..<lc_size a] w = (Inr fronts, w')"
    using assms(1,2) by (simp add: start_relays_def)
  have "True \<and> list_all2 ?P [0..<lc_size a] fronts"
  proof (rule act_each_Ok [OF run, where I = "\<lambda>_. True" and P = "\<lambda>i f v. ?P i f"])
    fix i v f v' assume "?relay i v = (Inr f, v')"
    then obtain v1 where r: "relay_front_of lookup a l i v = (Inr f, v1)" by (auto simp: act_Ok)
    have "?P i f" by (rule relay_front_of_Ok [OF r]) (rule assms(3))
    then show "True \<and> ?P i f" by simp
  qed simp_all
  then show ?thesis by simp
qed

lemma relay_ports_distinct:
  assumes "list_all2 (\<lambda>i f. checked_port b i = Some (port f)) [0..<n] fronts" and "n \<le> 10"
  shows "distinct (List.map port fronts)"
proof -
  have len: "length fronts = n" using list_all2_lengthD [OF assms(1)] by simp
  have unat: "unat (port (fronts ! i)) = unat b + i" if "i < n" for i
    by (rule checked_port_Some) (use list_all2_nthD [OF assms(1), of i] assms(2) that in simp_all)
  show ?thesis
    unfolding distinct_conv_nth
  proof (intro allI impI)
    fix i j assume "i < length (List.map port fronts)" "j < length (List.map port fronts)" "i \<noteq> j"
    then show "List.map port fronts ! i \<noteq> List.map port fronts ! j"
      using unat [of i] unat [of j] by (auto simp: len)
  qed
qed


definition one_address :: "string \<Rightarrow> 16 word \<Rightarrow> (string, resolved_addr list, unit) action" where
  "one_address h p = act_return [\<lparr> so_ipv6 = False, so_ip = ''127.0.0.1'', so_port = p \<rparr>]"

definition delayed_args :: "latency_option \<Rightarrow> cluster_args" where
  "delayed_args l = default_args \<lparr> lc_size := 2, lc_latency := Some (l \<lparr> lo_port_base := 9100 \<rparr>) \<rparr>"

lemma one_front:
  "checked_port (lo_port_base l) i = Some p \<Longrightarrow> checked_port (lc_p2p_port_base a) i = Some q \<Longrightarrow>
   \<exists>f. relay_front_of one_address a l i w = (Inr f, w)"
  by (simp add: relay_front_of_def Let_def resolve_socket_def one_address_def act_bind_def act_return_def act_of_def
      act_context_def act_map_err_def)


section \<open>A cluster started again\<close>

text \<open>Besides the chain and the disk, the start of a cluster leaves both alone; preparing the state of nodes for a
  chain that is not fresh keeps the keystores.\<close>

definition good_boot ::
  "('k, 'c, 't, 'w, 'u, 's) boot_env \<Rightarrow> ('w \<Rightarrow> ledger) \<Rightarrow> ('w \<Rightarrow> 'k disk) \<Rightarrow> bool" where
  "good_boot bo lg dk \<longleftrightarrow>
     good_site (bo_site bo) lg dk
     \<and> (\<forall>d. leaves lg (bo_prepare_state bo d False))
     \<and> (\<forall>d. leaves (\<lambda>w. dk_keystores (dk w)) (bo_prepare_state bo d False))
     \<and> (\<forall>u. leaves lg (ix_get (bo_indexer bo) u)) \<and> (\<forall>u. leaves dk (ix_get (bo_indexer bo) u))
     \<and> (\<forall>d w. lg (ck_sleep (bo_indexer bo) d w) = lg w) \<and> (\<forall>d w. dk (ck_sleep (bo_indexer bo) d w) = dk w)
     \<and> (\<forall>h p. leaves lg (bo_lookup bo h p)) \<and> (\<forall>h p. leaves dk (bo_lookup bo h p))
     \<and> (\<forall>f. leaves lg (bo_spawn_relay bo f)) \<and> (\<forall>f. leaves dk (bo_spawn_relay bo f))"

lemma wait_leaves:
  assumes "\<And>u. leaves v (ix_get ix u)" and "\<And>d w. v (ck_sleep ix d w) = v w"
    and "wait_for_blokli_ready ix url timeout w = Some (Inr (), w')"
  shows "v w' = v w"
proof -
  let ?att = "blokli_attempt ix (url @ ''/readyz'')"
  have att: "v u' = v u" if "?att u = (r, u')" for u r u'
    using that leavesD [OF assms(1)] by (auto simp: blokli_attempt_def split: prod.splits sum.splits)
  from assms(3) have "poll (clock.truncate ix) (secs 1) timeout
      (\<lambda>_. ''timeout waiting for blokli indexer at '' @ url @ ''/readyz'') ?att w = Some (Inr (), w')"
    by (auto simp: wait_for_blokli_ready_def Let_def split: sum.splits)
  then have "\<exists>u. v u = v w \<and> ?att u = (Inr [], w')"
    by (rule poll_ok [where I = "\<lambda>u. v u = v w"]) (use att assms(2) in \<open>simp_all add: clock.truncate_def\<close>)
  then show ?thesis using att by metis
qed

lemma relays_leave:
  assumes "\<And>h p. leaves v (lookup h p)" and "\<And>f. leaves v (spawn f)"
  shows "leaves v (start_relays lookup spawn a)"
proof -
  have "leaves v (resolve_socket lookup h p)" for h p
    unfolding resolve_socket_def by (auto intro!: leaves_intros assms split: list.split)
  then have "leaves v (relay_front_of lookup a l i)" for l i
    unfolding relay_front_of_def Let_def by (intro leaves_intros)
  then show ?thesis
    unfolding start_relays_def by (auto intro!: leaves_intros assms split: option.split)
qed

lemma boot_external:
  assumes good: "good_boot bo lg dk" and url: "lc_chain_url a = Some url" and pix: "lc_pix_config a = None"
    and ok: "boot_cluster bo a data_dir log_dir w = (Inr b, w')"
  shows "\<exists>v v'. lg v = lg w \<and> dk_keystores (dk v) = dk_keystores (dk w) \<and> lg w' = lg v' \<and> dk w' = dk v'
    \<and> generate (bo_site bo) (bo_strategies bo) (bo_config bo) (bo_yaml bo) (bt_config b) v
        = (Inr (bt_nodes b, bt_extras b), v')
    \<and> bt_url b = trim_end_char (CHR ''/'') url \<and> bt_chain b = None
    \<and> bt_config b = generation_of_args (si_env (bo_site bo)) a (trim_end_char (CHR ''/'') url) data_dir
        (if lc_enable_pix a then Some (default_pix_settings (ce_upstream (bo_config bo))) else None)"
proof -
  let ?url = "trim_end_char (CHR ''/'') url"
  let ?cfg = "generation_of_args (si_env (bo_site bo)) a ?url data_dir
        (if lc_enable_pix a then Some (default_pix_settings (ce_upstream (bo_config bo))) else None)"
  have chain: "chain_of_run (bo_container bo) a log_dir = act_return (?url, None)"
    by (simp add: chain_of_run_def url)
  from ok obtain w1 w2 nodes extras w3 relays where
    1: "bo_prepare_state bo data_dir False w = (Inr (), w1)"
    and 2: "wait_for_blokli_ready (bo_indexer bo) ?url default_wait w1 = Some (Inr (), w2)"
    and 3: "generate (bo_site bo) (bo_strategies bo) (bo_config bo) (bo_yaml bo) ?cfg w2 = (Inr (nodes, extras), w3)"
    and 4: "start_relays (bo_lookup bo) (bo_spawn_relay bo) a w3 = (Inr relays, w')"
    and b: "b = \<lparr> bt_url = ?url, bt_chain = None, bt_config = ?cfg, bt_nodes = nodes, bt_extras = extras,
         bt_relays = relays \<rparr>"
    unfolding boot_cluster_def chain by (auto simp: act_Ok resolve_pix_option_def pix url Let_def)
  have "lg w1 = lg w" "dk_keystores (dk w1) = dk_keystores (dk w)"
    using good 1 unfolding good_boot_def by (auto dest: leavesD)
  moreover have "lg w2 = lg w1" "dk w2 = dk w1"
    by (rule wait_leaves [OF _ _ 2]; use good in \<open>simp add: good_boot_def\<close>)+
  moreover have "leaves lg (start_relays (bo_lookup bo) (bo_spawn_relay bo) a)"
    "leaves dk (start_relays (bo_lookup bo) (bo_spawn_relay bo) a)"
    by (rule relays_leave; use good in \<open>simp add: good_boot_def\<close>)+
  then have "lg w' = lg w3" "dk w' = dk w3" using 4 by (auto dest: leavesD)
  ultimately show ?thesis using 3 by (intro exI [of _ w2] exI [of _ w3]) (simp add: b)
qed


text \<open>On the example's site, where the deployer can pay for two starts.\<close>

definition demo_args :: cluster_args where
  "demo_args = default_args \<lparr> lc_size := 1, lc_chain_url := Some ''http://c/'', lc_frozen_identities := True,
     lc_enable_pix := True \<rparr>"

definition demo_indexer :: "demo_world indexer" where
  "demo_indexer =
     \<lparr> ck_now = dw_time, ck_sleep = (\<lambda>d w. w \<lparr> dw_time := dw_time w + d \<rparr>), ix_client = Inr (),
       ix_get = (\<lambda>_. act_return 200) \<rparr>"

definition demo_boot ::
  "demo_world container_host \<Rightarrow> 'u upstream \<Rightarrow> host_config \<Rightarrow> 'u forwarding_config
   \<Rightarrow> (nat, nat, unit, demo_world, 'u, unit) boot_env" where
  "demo_boot co up h fw =
     \<lparr> bo_container = co, bo_indexer = demo_indexer, bo_site = demo_site, bo_strategies = demo_params,
       bo_config = demo_env up h fw, bo_yaml = demo_yaml, bo_pix_yaml = (\<lambda>_. Inl ''no PIX file''),
       bo_read = (\<lambda>_ _. Inl ''no file''), bo_prepare_state = (\<lambda>_ _. act_return ()),
       bo_lookup = (\<lambda>_ _. act_return []), bo_spawn_relay = (\<lambda>_. act_return ()) \<rparr>"

lemma good_demo_boot: "good_boot (demo_boot co up h fw) demo_ledger dw_disk"
  by (simp add: good_boot_def demo_boot_def good_demo demo_indexer_def leaves_def act_return_def demo_ledger_def)

lemma demo_wait: "wait_for_blokli_ready demo_indexer url timeout w = Some (Inr (), w)"
  unfolding wait_for_blokli_ready_def poll_def
  by (simp add: demo_indexer_def poll_from.simps blokli_attempt_def act_return_def)

definition demo_generation :: "'u upstream \<Rightarrow> generation_config" where
  "demo_generation up =
     generation_of_args (\<lambda>_. None) demo_args ''http://c'' ''/d'' (Some (default_pix_settings up))"

lemma demo_generation_fits: "demo_fits (demo_generation up)"
  unfolding demo_fits_def
  by (simp add: demo_generation_def demo_args_def generation_of_args_def default_args_def default_generation_def
      effective_nodes_def default_num_extras_def announce_port_def checked_port_def max_num_nodes_def
      pix_safe_target_def default_pix_settings_def Let_def node_strategies_def demo_params_def)

lemma demo_boot_runs:
  assumes "rich (10 ^ 30) (n + 3) w"
    and "demo_keystore (demo_generation up) (fst (slot ''/d'' 0 (dw_disk w)))"
  shows "\<exists>b w'. boot_cluster (demo_boot co up h fw) demo_args ''/d'' log_dir w = (Inr b, w') \<and> rich (10 ^ 30) n w'
    \<and> demo_keystore (demo_generation up) (fst (slot ''/d'' 0 (dw_disk w')))"
proof -
  let ?cfg = "demo_generation up"
  have home: "gc_config_home ?cfg = ''/d''" by (simp add: demo_generation_def generation_of_args_def)
  have yaml: "\<exists>t. demo_yaml c = Inr t" for c by (simp add: demo_yaml_def)
  from demo_generate_fits [where cfg = ?cfg and yaml = demo_yaml and up = up and h = h and fw = fw,
      OF assms(1) yaml demo_generation_fits] assms(2)
  obtain nodes w' where 1: "generate demo_site demo_params (demo_env up h fw) demo_yaml ?cfg w = (Inr (nodes, []), w')"
    "rich (10 ^ 30) n w'" "fst (slot ''/d'' 0 (dw_disk w')) = Some (7, gc_identity_password ?cfg)"
    by (auto simp: home)
  have url: "trim_end_char (CHR ''/'') ''http://c/'' = ''http://c''" by (simp add: trim_end_char_def)
  have a: "lc_chain_url demo_args = Some ''http://c/''" "lc_enable_pix demo_args" "lc_pix_config demo_args = None"
    "lc_latency demo_args = None"
    by (simp_all add: demo_args_def default_args_def)
  have "\<exists>b. boot_cluster (demo_boot co up h fw) demo_args ''/d'' log_dir w = (Inr b, w')"
    using 1(1)
    by (simp add: boot_cluster_def chain_of_run_def demo_boot_def a url act_bind_def act_return_def
        resolve_pix_option_def Let_def act_total_def demo_wait start_relays_def demo_site_def demo_env_def
        demo_generation_def)
  then show ?thesis using 1(2,3) by (auto simp: demo_keystore_def)
qed


end
